(* ===== verification/Trustage_Prelude.thy ===== *)
theory Trustage_Prelude
  imports Complex_Main "HOL-Library.AList" "HOL-Library.Word"
begin

text \<open>
  Shared ground of the development: the Go values and errors the services pass around, the
  result type of fallible functions, the string functions of Go's standard library that the
  sources call, 64-bit integer arithmetic, and the generic list lemmas used by several
  components.

  Strings are byte strings (\<^typ>\<open>string\<close>); white space is the ASCII white space of
  \<open>strings.TrimSpace\<close>. A Go \<open>map\<close> is an association list read with \<^const>\<open>map_of\<close> and
  written with \<^const>\<open>AList.update\<close>. Time is an \<^typ>\<open>int\<close> count of nanoseconds.
\<close>

named_theorems res_simps \<open>rewriting of the result combinators\<close>
named_theorems str_simps \<open>facts about the Go string functions\<close>

section \<open>Errors and results\<close>

text \<open>
  An error built with \<open>errors.New\<close> or \<open>fmt.Errorf\<close> is its format string together with the
  arguments; the text is not rendered, so that a statement can name the branch that made it.
\<close>

datatype errmsg = Errf string "earg list"
  and earg = EStr string | EInt int | EErr errmsg | EStrs "string list"

type_synonym 'a result = "errmsg + 'a"

definition and_then :: "'e + 'a \<Rightarrow> ('a \<Rightarrow> 'e + 'b) \<Rightarrow> 'e + 'b" where
  "and_then r f = (case r of Inl e \<Rightarrow> Inl e | Inr x \<Rightarrow> f x)"

definition guard :: "bool \<Rightarrow> 'e \<Rightarrow> 'e + unit" where
  "guard b e = (if b then Inr () else Inl e)"

lemma and_then_simps [simp, res_simps]:
  "and_then (Inl e) f = Inl e"
  "and_then (Inr x) f = f x"
  by (simp_all add: and_then_def)

lemma and_then_Inr_iff [res_simps]:
  "and_then r f = Inr y \<longleftrightarrow> (\<exists>x. r = Inr x \<and> f x = Inr y)"
  by (cases r) auto

lemma and_then_Inl_iff [res_simps]:
  "and_then r f = Inl e \<longleftrightarrow> r = Inl e \<or> (\<exists>x. r = Inr x \<and> f x = Inl e)"
  by (cases r) auto

lemma guard_iff [res_simps]:
  "guard b e = Inr u \<longleftrightarrow> b"
  "guard b e = Inl d \<longleftrightarrow> \<not> b \<and> d = e"
  by (auto simp: guard_def)

definition is_ok :: "'e + 'a \<Rightarrow> bool" where
  "is_ok r \<longleftrightarrow> (case r of Inl _ \<Rightarrow> False | Inr _ \<Rightarrow> True)"

lemma is_ok_simps [simp, res_simps]:
  "is_ok (Inl e) \<longleftrightarrow> False"
  "is_ok (Inr x) \<longleftrightarrow> True"
  by (simp_all add: is_ok_def)

lemma is_okD: "is_ok r \<Longrightarrow> \<exists>x. r = Inr x"
  by (cases r) auto

lemma case_Inr_iff: "(case r of Inl e \<Rightarrow> False | Inr x \<Rightarrow> P x) \<longleftrightarrow> (\<exists>x. r = Inr x \<and> P x)"
  by (cases r) auto

section \<open>Dynamic values\<close>

text \<open>
  A Go \<open>any\<close> as the sources meet it: what \<open>encoding/json\<close> decodes into (null, bool,
  float64, string, list, object) and the integers a CEL expression can evaluate to. A finite
  float64 is its rational value.
\<close>

datatype any =
    VNil
  | VBool bool
  | VInt int
  | VFloat rat
  | VStr string
  | VList "any list"
  | VMap "(string \<times> any) list"

type_synonym go_map = "(string \<times> any) list"

text \<open>\<open>m["key"]\<close> and \<open>m["key"].(string)\<close> with the zero value when it is absent.\<close>

definition member_of :: "go_map \<Rightarrow> string \<Rightarrow> any" where
  "member_of m k = (case map_of m k of None \<Rightarrow> VNil | Some v \<Rightarrow> v)"

definition str_of :: "go_map \<Rightarrow> string \<Rightarrow> string" where
  "str_of m k = (case member_of m k of VStr s \<Rightarrow> s | _ \<Rightarrow> [])"

text \<open>
  A \<open>json.RawMessage\<close> (or a column holding JSON text) up to what \<open>json.Unmarshal\<close> makes of
  it: no bytes at all, bytes that are not JSON, or the encoding of a value.
\<close>

datatype raw_json = RawEmpty | RawInvalid string | RawJson any

definition json_unmarshal :: "raw_json \<Rightarrow> any result" where
  "json_unmarshal r = (case r of
     RawEmpty \<Rightarrow> Inl (Errf ''unexpected end of JSON input'' [])
   | RawInvalid s \<Rightarrow> Inl (Errf ''invalid character'' [EStr s])
   | RawJson v \<Rightarrow> Inr v)"

text \<open>
  Encoding a value. JSON has one kind of number, so an integer decodes as a float64; the integers
  the sources encode are small enough (below \<open>2 ^ 53\<close>) for that to be exact.
\<close>

primrec json_norm :: "any \<Rightarrow> any" where
  "json_norm VNil = VNil"
| "json_norm (VBool b) = VBool b"
| "json_norm (VInt n) = VFloat (of_int n)"
| "json_norm (VFloat q) = VFloat q"
| "json_norm (VStr s) = VStr s"
| "json_norm (VList vs) = VList (map json_norm vs)"
| "json_norm (VMap m) = VMap (map (map_prod id json_norm) m)"

definition json_marshal :: "any \<Rightarrow> raw_json" where
  "json_marshal v = RawJson (json_norm v)"

text \<open>Decoding into a \<open>map[string]any\<close>: an object, or null (which leaves the map nil).\<close>

definition json_unmarshal_map :: "raw_json \<Rightarrow> (go_map option) result" where
  "json_unmarshal_map r = and_then (json_unmarshal r) (\<lambda>v. case v of
     VMap m \<Rightarrow> Inr (Some m)
   | VNil \<Rightarrow> Inr None
   | _ \<Rightarrow> Inl (Errf ''cannot unmarshal into map[string]any'' []))"

lemma json_roundtrip [simp]: "json_unmarshal (json_marshal v) = Inr (json_norm v)"
  by (simp add: json_unmarshal_def json_marshal_def)

lemma json_norm_idem [simp]: "json_norm (json_norm v) = json_norm v"
  by (induction v) (auto simp: snds.simps)

definition as_map :: "any \<Rightarrow> go_map option" where
  "as_map v = (case v of VMap m \<Rightarrow> Some m | _ \<Rightarrow> None)"

definition as_str :: "any \<Rightarrow> string option" where
  "as_str v = (case v of VStr s \<Rightarrow> Some s | _ \<Rightarrow> None)"

definition map_put :: "string \<Rightarrow> any \<Rightarrow> go_map \<Rightarrow> go_map" where
  "map_put k v m = AList.update k v m"

text \<open>Copying every entry of a second map over a first one, as \<open>for k, v := range src\<close> does.\<close>

definition map_put_all :: "go_map \<Rightarrow> go_map \<Rightarrow> go_map" where
  "map_put_all src dst = foldl (\<lambda>d (k, v). map_put k v d) dst src"

lemma map_of_put [simp]: "map_of (map_put k v m) = (map_of m)(k \<mapsto> v)"
  by (simp add: map_put_def update_conv')

lemma distinct_map_put [simp]: "distinct (map fst m) \<Longrightarrow> distinct (map fst (map_put k v m))"
  by (simp add: map_put_def distinct_update)

lemma map_put_all_simps [simp]:
  "map_put_all [] d = d"
  "map_put_all ((k, v) # s) d = map_put_all s (map_put k v d)"
  by (simp_all add: map_put_all_def)

lemma map_of_put_all:
  "distinct (map fst src) \<Longrightarrow> map_of (map_put_all src dst) = map_of dst ++ map_of src"
proof (induction src arbitrary: dst)
  case (Cons p src)
  obtain k v where p: "p = (k, v)" by force
  have "map_of src k = None"
    using Cons.prems p by (simp add: map_of_eq_None_iff)
  then have "(map_of dst)(k \<mapsto> v) ++ map_of src = map_of dst ++ (map_of src)(k \<mapsto> v)"
    by (auto simp: fun_eq_iff map_add_def split: option.splits)
  moreover have "map_of (map_put_all src (map_put k v dst)) = map_of (map_put k v dst) ++ map_of src"
    using Cons.prems by (intro Cons.IH) simp
  ultimately show ?case by (simp only: p map_put_all_simps map_of_put map_of.simps fst_conv snd_conv)
qed simp

section \<open>Go strings\<close>

definition is_space :: "char \<Rightarrow> bool" where
  "is_space c \<longleftrightarrow> c \<in> {CHR '' '', CHR 0x09, CHR 0x0A, CHR 0x0B, CHR 0x0C, CHR 0x0D}"

definition TrimSpace :: "string \<Rightarrow> string" where
  "TrimSpace s = rev (dropWhile is_space (rev (dropWhile is_space s)))"

definition HasSuffix :: "string \<Rightarrow> string \<Rightarrow> bool" where
  "HasSuffix s suf \<longleftrightarrow> length suf \<le> length s \<and> drop (length s - length suf) s = suf"

definition TrimSuffix :: "string \<Rightarrow> string \<Rightarrow> string" where
  "TrimSuffix s suf = (if HasSuffix s suf then take (length s - length suf) s else s)"

lemma HasSuffix_append [simp]: "HasSuffix (s @ t) t"
  by (simp add: HasSuffix_def)

lemma TrimSuffix_append [simp]: "TrimSuffix (s @ t) t = s"
  by (simp add: TrimSuffix_def)

text \<open>\<open>strings.Split\<close> and the first part of \<open>strings.Cut\<close>, at a one-byte separator.\<close>

fun split_on :: "char \<Rightarrow> string \<Rightarrow> string list" where
  "split_on c [] = [[]]"
| "split_on c (x # xs) =
     (if x = c then [] # split_on c xs
      else (case split_on c xs of [] \<Rightarrow> [[x]] | p # ps \<Rightarrow> (x # p) # ps))"

definition cut_before :: "char \<Rightarrow> string \<Rightarrow> string" where
  "cut_before c s = takeWhile (\<lambda>x. x \<noteq> c) s"

lemma split_on_nonempty [simp]: "split_on c s \<noteq> []"
  by (induction s) (auto split: list.splits)

lemma hd_split_on: "hd (split_on c s) = cut_before c s"
  by (induction s) (auto simp: cut_before_def split: list.splits)

lemma TrimSpace_no_space [str_simps]:
  "(\<forall>c \<in> set s. \<not> is_space c) \<Longrightarrow> TrimSpace s = s"
proof -
  assume a: "\<forall>c \<in> set s. \<not> is_space c"
  then have "\<forall>c \<in> set (rev s). \<not> is_space c" by simp
  with a have "dropWhile is_space s = s" and "dropWhile is_space (rev s) = rev s"
    by (metis dropWhile_eq_self_iff hd_in_set)+
  then show ?thesis by (simp add: TrimSpace_def)
qed

lemma dropWhile_idem_hd: "xs \<noteq> [] \<Longrightarrow> \<not> P (hd xs) \<Longrightarrow> dropWhile P xs = xs"
  by (cases xs) auto

lemma TrimSpace_idem [simp]: "TrimSpace (TrimSpace s) = TrimSpace s"
proof -
  define a where "a = dropWhile is_space s"
  define b where "b = dropWhile is_space (rev a)"
  have pre: "dropWhile is_space (rev b) = rev b"
  proof (cases "b = []")
    case False
    obtain xs where xs: "rev a = xs @ b"
      unfolding b_def by (metis takeWhile_dropWhile_id)
    then have "a = rev b @ rev xs" by (metis rev_append rev_rev_ident)
    with False have "hd a = hd (rev b)" and "a \<noteq> []" by auto
    moreover have "\<not> is_space (hd a)"
      using \<open>a \<noteq> []\<close> unfolding a_def by (rule hd_dropWhile)
    ultimately show ?thesis using False by (simp add: dropWhile_idem_hd)
  qed simp
  have "dropWhile is_space (rev (rev b)) = b"
    by (simp add: b_def)
  with pre have "TrimSpace (rev b) = rev b" by (simp add: TrimSpace_def)
  moreover have "TrimSpace s = rev b" by (simp add: TrimSpace_def a_def b_def)
  ultimately show ?thesis by simp
qed

section \<open>64-bit integers\<close>

definition int64 :: "int \<Rightarrow> int" where
  "int64 x = (x + 2 ^ 63) mod 2 ^ 64 - 2 ^ 63"

definition min_int64 :: int where "min_int64 = - (2 ^ 63)"
definition max_int64 :: int where "max_int64 = 2 ^ 63 - 1"

definition in_int64 :: "int \<Rightarrow> bool" where
  "in_int64 x \<longleftrightarrow> min_int64 \<le> x \<and> x \<le> max_int64"

lemma int64_id: "in_int64 x \<Longrightarrow> int64 x = x"
  by (simp add: int64_def in_int64_def min_int64_def max_int64_def)

lemma int64_range [simp]: "in_int64 (int64 x)"
proof -
  define y where "y = (x + 2 ^ 63) mod 2 ^ 64"
  have "0 \<le> y" and "y < 2 ^ 64" by (simp_all add: y_def)
  then have "- (2 ^ 63) \<le> y - 2 ^ 63 \<and> y - 2 ^ 63 \<le> 2 ^ 63 - 1" by simp
  then show ?thesis
    by (simp add: int64_def in_int64_def min_int64_def max_int64_def y_def)
qed

lemma int64_mult: "int64 (int64 a * b) = int64 (a * b)"
proof -
  define k where "k = (a + 2 ^ 63) div 2 ^ 64"
  have "int64 a = a - 2 ^ 64 * k"
    by (simp add: int64_def k_def minus_mult_div_eq_mod [symmetric])
  then have "int64 a * b + 2 ^ 63 = (a * b + 2 ^ 63) + (- k * b) * 2 ^ 64"
    by (simp only: left_diff_distrib) simp
  then have "(int64 a * b + 2 ^ 63) mod 2 ^ 64 = (a * b + 2 ^ 63) mod 2 ^ 64"
    by (simp only: mod_mult_self1)
  then show ?thesis by (simp only: int64_def [of "int64 a * b"] int64_def [of "a * b"])
qed

text \<open>Go's integer division truncates towards zero.\<close>

definition go_div :: "int \<Rightarrow> int \<Rightarrow> int" where
  "go_div a b = sgn a * sgn b * (\<bar>a\<bar> div \<bar>b\<bar>)"

lemma go_div_nonneg: "0 \<le> a \<Longrightarrow> 0 < b \<Longrightarrow> go_div a b = a div b"
  by (cases "a = 0") (auto simp: go_div_def sgn_if)

section \<open>Lists\<close>

lemma find_split:
  "List.find P xs = Some x \<Longrightarrow> \<exists>ys zs. xs = ys @ x # zs \<and> P x \<and> (\<forall>y \<in> set ys. \<not> P y)"
proof (induction xs)
  case (Cons a xs)
  show ?case
  proof (cases "P a")
    case True
    with Cons.prems have "a # xs = [] @ x # xs \<and> P x" by simp
    then show ?thesis by fastforce
  next
    case False
    with Cons obtain ys zs where "xs = ys @ x # zs" "P x" "\<forall>y \<in> set ys. \<not> P y" by auto
    with False have "a # xs = (a # ys) @ x # zs \<and> P x \<and> (\<forall>y \<in> set (a # ys). \<not> P y)" by simp
    then show ?thesis by blast
  qed
qed simp

lemma find_SomeD: "List.find P xs = Some x \<Longrightarrow> x \<in> set xs \<and> P x"
  by (induction xs) (auto split: if_splits)

lemma find_None_iff': "List.find P xs = None \<longleftrightarrow> (\<forall>x \<in> set xs. \<not> P x)"
  by (auto simp: find_None_iff)

lemma find_unique:
  assumes "distinct (map f xs)" and "x \<in> set xs"
  shows "List.find (\<lambda>y. f y = f x) xs = Some x"
  using assms by (induction xs) (auto simp: image_iff)

end
