(* ===== verification/Dsl_Types.thy ===== *)
theory Dsl_Types
  imports Trustage_Prelude
begin

text \<open>
  The workflow document of \<open>dsl/types.go\<close>, the routing declarations of \<open>dsl/triggers.go\<close> and
  the validation result of \<open>dsl/errors.go\<close>.

  A Go struct that holds a list of steps is recursive, so the structs of the step tree are one
  mutually recursive datatype whose selectors carry the field names; the other structs are
  records. A pointer field is an \<open>option\<close>. The entries of a step list are taken to be non-nil,
  as every traversal of the source other than \<open>waitedSignalNames\<close> takes them to be; entries of
  the schedule, trigger and signal lists may be nil and are options.
\<close>

section \<open>Step types\<close>

text \<open>
  \<open>StepType\<close> is a Go string type with eight named values. \<open>StepTypeOther\<close> stands for every
  other string, the empty one included.
\<close>

datatype StepType =
    StepTypeCall | StepTypeDelay | StepTypeIf | StepTypeSequence
  | StepTypeParallel | StepTypeForeach | StepTypeSignalWait | StepTypeSignalSend
  | StepTypeOther string

definition step_type_of_string :: "string \<Rightarrow> StepType" where
  "step_type_of_string s =
     (if s = ''call'' then StepTypeCall
      else if s = ''delay'' then StepTypeDelay
      else if s = ''if'' then StepTypeIf
      else if s = ''sequence'' then StepTypeSequence
      else if s = ''parallel'' then StepTypeParallel
      else if s = ''foreach'' then StepTypeForeach
      else if s = ''signal_wait'' then StepTypeSignalWait
      else if s = ''signal_send'' then StepTypeSignalSend
      else StepTypeOther s)"

definition step_type_string :: "StepType \<Rightarrow> string" where
  "step_type_string t = (case t of
     StepTypeCall \<Rightarrow> ''call''
   | StepTypeDelay \<Rightarrow> ''delay''
   | StepTypeIf \<Rightarrow> ''if''
   | StepTypeSequence \<Rightarrow> ''sequence''
   | StepTypeParallel \<Rightarrow> ''parallel''
   | StepTypeForeach \<Rightarrow> ''foreach''
   | StepTypeSignalWait \<Rightarrow> ''signal_wait''
   | StepTypeSignalSend \<Rightarrow> ''signal_send''
   | StepTypeOther s \<Rightarrow> s)"

definition IsValid :: "StepType \<Rightarrow> bool" where
  "IsValid t = (case t of StepTypeOther _ \<Rightarrow> False | _ \<Rightarrow> True)"

lemma step_type_string_of [simp]: "step_type_string (step_type_of_string s) = s"
  by (simp add: step_type_of_string_def step_type_string_def)

section \<open>The step tree\<close>

record ConditionalTarget =
  ct_Condition :: string
  ct_Target :: string

record TransitionTarget =
  tt_Static :: string
  tt_Conditional :: "ConditionalTarget list"

record CallSpec =
  call_Action :: string
  call_Input :: go_map
  call_OutputVar :: string

record DelaySpec =
  delay_Duration :: int
  delay_Until :: string

record SignalWaitSpec =
  sw_SignalName :: string
  sw_Timeout :: int
  sw_OutputVar :: string

record SignalSendSpec =
  ss_TargetWorkflowID :: string
  ss_SignalName :: string
  ss_Payload :: go_map

record RetrySpec =
  retry_MaxAttempts :: int
  retry_InitialInterval :: string
  retry_BackoffCoefficient :: rat
  retry_MaxInterval :: string

datatype StepSpec = StepSpec
    (step_ID: string)
    (step_Type: StepType)
    (step_Name: string)
    (step_DependsOn: string)
    (step_Retry: "RetrySpec option")
    (step_Timeout: int)
    (step_OnError: "ErrorPolicy option")
    (step_OnSuccess: TransitionTarget)
    (step_OnFailure: TransitionTarget)
    (step_Call: "CallSpec option")
    (step_Delay: "DelaySpec option")
    (step_If: "IfSpec option")
    (step_Sequence: "SequenceSpec option")
    (step_Parallel: "ParallelSpec option")
    (step_Foreach: "ForeachSpec option")
    (step_SignalWait: "SignalWaitSpec option")
    (step_SignalSend: "SignalSendSpec option")
  and IfSpec = IfSpec (if_Expr: string) (if_Then: "StepSpec list") (if_Else: "StepSpec list")
  and SequenceSpec = SequenceSpec (seq_Steps: "StepSpec list")
  and ParallelSpec = ParallelSpec (par_Steps: "StepSpec list") (par_WaitAll: bool)
  and ForeachSpec = ForeachSpec
    (fe_Items: string) (fe_ItemVar: string) (fe_IndexVar: string)
    (fe_MaxConcurrency: int) (fe_Steps: "StepSpec list")
  and ErrorPolicy = ErrorPolicy (ep_Strategy: string) (ep_Fallback: "StepSpec list")

record ScheduleSpec =
  sched_Name :: string
  sched_CronExpr :: string
  sched_Timezone :: string
  sched_InputPayload :: go_map

record TriggerSpec =
  trig_EventType :: string
  trig_Filter :: string
  trig_Key :: string

record SignalRouteSpec =
  sr_EventType :: string
  sr_SignalName :: string
  sr_Filter :: string
  sr_Key :: string
  sr_Instance :: string

record WorkflowSpec =
  wf_Version :: string
  wf_Name :: string
  wf_Description :: string
  wf_Input :: "(string \<times> string) list"
  wf_Config :: go_map
  wf_Timeout :: int
  wf_OnError :: "ErrorPolicy option"
  wf_Steps :: "StepSpec list"
  wf_Schedules :: "ScheduleSpec option list"
  wf_Triggers :: "TriggerSpec option list"
  wf_Signals :: "SignalRouteSpec option list"

section \<open>Transition targets\<close>

definition no_transition :: TransitionTarget where
  "no_transition = \<lparr>tt_Static = [], tt_Conditional = []\<rparr>"

definition IsEmpty :: "TransitionTarget \<Rightarrow> bool" where
  "IsEmpty t \<longleftrightarrow> tt_Static t = [] \<and> length (tt_Conditional t) = 0"

definition marshal_conditional :: "ConditionalTarget \<Rightarrow> any" where
  "marshal_conditional c =
     VMap [(''condition'', VStr (ct_Condition c)), (''target'', VStr (ct_Target c))]"

definition TransitionTarget_MarshalJSON :: "TransitionTarget \<Rightarrow> any" where
  "TransitionTarget_MarshalJSON t =
     (if length (tt_Conditional t) > 0 then VList (map marshal_conditional (tt_Conditional t))
      else if tt_Static t \<noteq> [] then VStr (tt_Static t)
      else VNil)"

text \<open>
  \<open>json.Unmarshal\<close> into a string and into a struct with two string fields: null leaves the
  zero value, a value of another type is an error, unknown keys are ignored.
\<close>

definition unmarshal_string :: "any \<Rightarrow> string option" where
  "unmarshal_string v = (case v of VStr s \<Rightarrow> Some s | VNil \<Rightarrow> Some [] | _ \<Rightarrow> None)"

definition unmarshal_field :: "string \<Rightarrow> go_map \<Rightarrow> string option" where
  "unmarshal_field k m = (case map_of m k of None \<Rightarrow> Some [] | Some v \<Rightarrow> unmarshal_string v)"

definition unmarshal_conditional :: "any \<Rightarrow> ConditionalTarget option" where
  "unmarshal_conditional v = (case v of
     VNil \<Rightarrow> Some \<lparr>ct_Condition = [], ct_Target = []\<rparr>
   | VMap m \<Rightarrow> (case (unmarshal_field ''condition'' m, unmarshal_field ''target'' m) of
       (Some c, Some t) \<Rightarrow> Some \<lparr>ct_Condition = c, ct_Target = t\<rparr>
     | _ \<Rightarrow> None)
   | _ \<Rightarrow> None)"

fun unmarshal_conditionals :: "any list \<Rightarrow> ConditionalTarget list option" where
  "unmarshal_conditionals [] = Some []"
| "unmarshal_conditionals (v # vs) =
     (case (unmarshal_conditional v, unmarshal_conditionals vs) of
        (Some c, Some cs) \<Rightarrow> Some (c # cs)
      | _ \<Rightarrow> None)"

definition ErrInvalidTransitionTarget :: errmsg where
  "ErrInvalidTransitionTarget =
     Errf ''transition target must be a string or array of {condition, target}'' []"

definition TransitionTarget_UnmarshalJSON ::
    "any \<Rightarrow> TransitionTarget \<Rightarrow> TransitionTarget result" where
  "TransitionTarget_UnmarshalJSON b t = (case unmarshal_string b of
     Some s \<Rightarrow> Inr (t\<lparr>tt_Static := s\<rparr>)
   | None \<Rightarrow> (case b of
       VList vs \<Rightarrow> (case unmarshal_conditionals vs of
         Some cs \<Rightarrow> Inr (t\<lparr>tt_Conditional := cs\<rparr>)
       | None \<Rightarrow> Inl ErrInvalidTransitionTarget)
     | _ \<Rightarrow> Inl ErrInvalidTransitionTarget))"

lemma unmarshal_marshal_conditionals [simp]:
  "unmarshal_conditionals (map marshal_conditional cs) = Some cs"
  by (induction cs)
    (simp_all add: marshal_conditional_def unmarshal_conditional_def unmarshal_field_def
      unmarshal_string_def)

section \<open>Sub-steps\<close>

definition AllSubSteps :: "StepSpec \<Rightarrow> StepSpec list" where
  "AllSubSteps s = (case step_Type s of
     StepTypeIf \<Rightarrow> (case step_If s of Some b \<Rightarrow> if_Then b @ if_Else b | None \<Rightarrow> [])
   | StepTypeSequence \<Rightarrow> (case step_Sequence s of Some q \<Rightarrow> seq_Steps q | None \<Rightarrow> [])
   | StepTypeParallel \<Rightarrow> (case step_Parallel s of Some p \<Rightarrow> par_Steps p | None \<Rightarrow> [])
   | StepTypeForeach \<Rightarrow> (case step_Foreach s of Some f \<Rightarrow> fe_Steps f | None \<Rightarrow> [])
   | _ \<Rightarrow> [])"

text \<open>Every list of steps a step holds is smaller than the step: the tree is well founded.\<close>

lemma size_in_option: "x \<in> set_option o' \<Longrightarrow> f x < size_option f o'"
  by (cases o') auto

lemma size_list_mem: "x \<in> set xs \<Longrightarrow> size x < size_list size xs"
  by (induction xs) auto

lemma size_if: "step_If s = Some b \<Longrightarrow> size_list size (if_Then b @ if_Else b) < size s"
  by (cases s; cases b) (auto simp: size_list_append)

lemma size_sequence: "step_Sequence s = Some q \<Longrightarrow> size_list size (seq_Steps q) < size s"
  by (cases s; cases q) auto

lemma size_parallel: "step_Parallel s = Some p \<Longrightarrow> size_list size (par_Steps p) < size s"
  by (cases s; cases p) auto

lemma size_foreach: "step_Foreach s = Some f \<Longrightarrow> size_list size (fe_Steps f) < size s"
  by (cases s; cases f) auto

lemma size_fallback: "step_OnError s = Some e \<Longrightarrow> size_list size (ep_Fallback e) < size s"
  by (cases s; cases e) auto

lemmas size_sub = size_if size_sequence size_parallel size_foreach size_fallback

lemma size_pos: "0 < size (s :: StepSpec)"
  by (cases s) auto

lemma size_AllSubSteps: "size_list size (AllSubSteps s) < size s"
  using size_pos [of s] size_sub [of s]
  by (simp add: AllSubSteps_def split: StepType.splits option.splits)

section \<open>Validation results (errors.go)\<close>

datatype ValidationErrorCode =
    ErrCycleDetected | ErrUnreachableState | ErrMissingSchema | ErrMissingMapping
  | ErrIncompatibleMapping | ErrDuplicateState | ErrInvalidExpression | ErrInvalidTemplate
  | ErrInvalidRetry | ErrInvalidTimeout | ErrDuplicateStepID | ErrInvalidStepType
  | ErrMissingRequired | ErrInvalidReference | ErrInvalidSchedule | ErrInvalidTrigger
  | ErrInvalidSignalRoute

record ValidationError =
  ve_Code :: ValidationErrorCode
  ve_Message :: errmsg
  ve_Path :: string
  ve_StepID :: string

type_synonym ValidationResult = "ValidationError list"

definition Valid :: "ValidationResult \<Rightarrow> bool" where
  "Valid r \<longleftrightarrow> length r = 0"

definition AddError ::
    "ValidationErrorCode \<Rightarrow> errmsg \<Rightarrow> ValidationResult \<Rightarrow> ValidationResult" where
  "AddError code message r =
     r @ [\<lparr>ve_Code = code, ve_Message = message, ve_Path = [], ve_StepID = []\<rparr>]"

definition AddErrorWithStep ::
    "ValidationErrorCode \<Rightarrow> string \<Rightarrow> errmsg \<Rightarrow> ValidationResult \<Rightarrow> ValidationResult" where
  "AddErrorWithStep code stepID message r =
     r @ [\<lparr>ve_Code = code, ve_Message = message, ve_Path = [], ve_StepID = stepID\<rparr>]"

definition AddErrorWithPath ::
    "ValidationErrorCode \<Rightarrow> string \<Rightarrow> errmsg \<Rightarrow> ValidationResult \<Rightarrow> ValidationResult" where
  "AddErrorWithPath code path message r =
     r @ [\<lparr>ve_Code = code, ve_Message = message, ve_Path = path, ve_StepID = []\<rparr>]"

definition code_string :: "ValidationErrorCode \<Rightarrow> string" where
  "code_string c = (case c of
     ErrCycleDetected \<Rightarrow> ''CYCLE_DETECTED''
   | ErrUnreachableState \<Rightarrow> ''UNREACHABLE_STATE''
   | ErrMissingSchema \<Rightarrow> ''MISSING_SCHEMA''
   | ErrMissingMapping \<Rightarrow> ''MISSING_MAPPING''
   | ErrIncompatibleMapping \<Rightarrow> ''INCOMPATIBLE_MAPPING''
   | ErrDuplicateState \<Rightarrow> ''DUPLICATE_STATE''
   | ErrInvalidExpression \<Rightarrow> ''INVALID_EXPRESSION''
   | ErrInvalidTemplate \<Rightarrow> ''INVALID_TEMPLATE''
   | ErrInvalidRetry \<Rightarrow> ''INVALID_RETRY''
   | ErrInvalidTimeout \<Rightarrow> ''INVALID_TIMEOUT''
   | ErrDuplicateStepID \<Rightarrow> ''DUPLICATE_STEP_ID''
   | ErrInvalidStepType \<Rightarrow> ''INVALID_STEP_TYPE''
   | ErrMissingRequired \<Rightarrow> ''MISSING_REQUIRED''
   | ErrInvalidReference \<Rightarrow> ''INVALID_REFERENCE''
   | ErrInvalidSchedule \<Rightarrow> ''INVALID_SCHEDULE''
   | ErrInvalidTrigger \<Rightarrow> ''INVALID_TRIGGER''
   | ErrInvalidSignalRoute \<Rightarrow> ''INVALID_SIGNAL_ROUTE'')"

definition ValidationError_Error :: "ValidationError \<Rightarrow> errmsg" where
  "ValidationError_Error e =
     (if ve_StepID e \<noteq> [] then
        Errf ''%s (step %s): %s'' [EStr (code_string (ve_Code e)), EStr (ve_StepID e), EErr (ve_Message e)]
      else if ve_Path e \<noteq> [] then
        Errf ''%s (%s): %s'' [EStr (code_string (ve_Code e)), EStr (ve_Path e), EErr (ve_Message e)]
      else Errf ''%s: %s'' [EStr (code_string (ve_Code e)), EErr (ve_Message e)])"

definition ValidationResult_Error :: "ValidationResult \<Rightarrow> errmsg option" where
  "ValidationResult_Error r =
     (if Valid r then None
      else Some (Errf ''DSL validation failed with %d error(s): %s''
        [EInt (int (length r)), EErr (ValidationError_Error (r ! 0))]))"

lemma Valid_iff: "Valid r \<longleftrightarrow> r = []"
  by (simp add: Valid_def)

end
