(* ===== verification/Dsl_Expression.thy ===== *)
theory Dsl_Expression
  imports Dsl_Types
begin

text \<open>
  \<open>dsl/expression.go\<close>: compiling CEL expressions under a cost budget and evaluating them.
  The CEL library itself (\<open>github.com/google/cel-go\<close>) is not part of the repository and is a
  parameter, the record \<open>cel_lib\<close> of the calls the sources make. Nothing is assumed of it
  here: every statement of the development holds for any such record.
\<close>

datatype CelType = CelBool | CelDyn | CelOtherType string

record ('env, 'ast, 'prg) cel_lib =
  cel_NewEnv :: "'env result"
  cel_Compile :: "'env \<Rightarrow> string \<Rightarrow> 'ast result"
  cel_EstimateCost :: "'env \<Rightarrow> 'ast \<Rightarrow> nat result"
  cel_Program :: "'env \<Rightarrow> 'ast \<Rightarrow> 'prg result"
  cel_Eval :: "'prg \<Rightarrow> go_map \<Rightarrow> any result"
  cel_OutputType :: "'ast \<Rightarrow> CelType"

definition celCostBudget :: nat where "celCostBudget = 10000"

definition NewExpressionEnv :: "('env, 'ast, 'prg) cel_lib \<Rightarrow> 'env result" where
  "NewExpressionEnv cel = (case cel_NewEnv cel of
     Inl err \<Rightarrow> Inl (Errf ''create CEL env: %w'' [EErr err])
   | Inr env \<Rightarrow> Inr env)"

definition CompileExpression ::
    "('env, 'ast, 'prg) cel_lib \<Rightarrow> 'env \<Rightarrow> string \<Rightarrow> 'ast result" where
  "CompileExpression cel env expr = (case cel_Compile cel env expr of
     Inl err \<Rightarrow> Inl (Errf ''compile expression %q: %w'' [EStr expr, EErr err])
   | Inr ast \<Rightarrow> (case cel_EstimateCost cel env ast of
       Inl err \<Rightarrow> Inl (Errf ''estimate cost for %q: %w'' [EStr expr, EErr err])
     | Inr cost \<Rightarrow>
         (if cost > celCostBudget then
            Inl (Errf ''expression %q exceeds cost budget (max=%d, budget=%d)''
              [EStr expr, EInt (int cost), EInt (int celCostBudget)])
          else Inr ast)))"

definition EvaluateExpression ::
    "('env, 'ast, 'prg) cel_lib \<Rightarrow> 'env \<Rightarrow> 'ast \<Rightarrow> go_map \<Rightarrow> any result" where
  "EvaluateExpression cel env ast vars = (case cel_Program cel env ast of
     Inl err \<Rightarrow> Inl (Errf ''program creation: %w'' [EErr err])
   | Inr prg \<Rightarrow> (case cel_Eval cel prg vars of
       Inl err \<Rightarrow> Inl (Errf ''expression evaluation: %w'' [EErr err])
     | Inr out \<Rightarrow> Inr out))"

definition EvaluateCondition ::
    "('env, 'ast, 'prg) cel_lib \<Rightarrow> 'env \<Rightarrow> 'ast \<Rightarrow> go_map \<Rightarrow> bool result" where
  "EvaluateCondition cel env ast vars = (case cel_Program cel env ast of
     Inl err \<Rightarrow> Inl (Errf ''program creation: %w'' [EErr err])
   | Inr prg \<Rightarrow> (case cel_Eval cel prg vars of
       Inl err \<Rightarrow> Inl (Errf ''expression evaluation: %w'' [EErr err])
     | Inr out \<Rightarrow> (case out of
         VBool b \<Rightarrow> Inr b
       | _ \<Rightarrow> Inl (Errf ''expression did not evaluate to bool, got %T'' []))))"

lemma CompileExpression_budget:
  assumes "CompileExpression cel env expr = Inr ast"
  shows "cel_Compile cel env expr = Inr ast"
    and "\<exists>cost. cel_EstimateCost cel env ast = Inr cost \<and> cost \<le> celCostBudget"
  using assms by (auto simp: CompileExpression_def split: sum.splits if_splits)

end
