(* ===== verification/Dsl_Navigation.thy ===== *)
theory Dsl_Navigation
  imports Dsl_Expression
begin

text \<open>
  \<open>dsl/parser.go\<close> and \<open>dsl/navigation.go\<close>: the depth-first list of all steps, lookup by step
  id, and the rule that picks the next step of a workflow. A loop over a slice at position
  \<open>i\<close> is recursion on the suffix that starts at \<open>i\<close>; a returned triple \<open>(next, found, err)\<close>
  stays a triple.
\<close>

section \<open>Parsing and collecting (parser.go)\<close>

text \<open>
  \<open>Parse\<close> after \<open>json.Unmarshal\<close>: the decoder that fills the struct from the bytes by
  reflection is the argument \<open>unmarshal\<close>.
\<close>

definition Parse :: "('b \<Rightarrow> WorkflowSpec result) \<Rightarrow> 'b \<Rightarrow> WorkflowSpec result" where
  "Parse unmarshal data = (case unmarshal data of
     Inl err \<Rightarrow> Inl (Errf ''parse DSL: %w'' [EErr err])
   | Inr spec \<Rightarrow>
       (if wf_Version spec = [] then Inl (Errf ''parse DSL: missing required field'' [EStr ''version''])
        else if wf_Name spec = [] then Inl (Errf ''parse DSL: missing required field'' [EStr ''name''])
        else if length (wf_Steps spec) = 0 then
          Inl (Errf ''parse DSL: workflow must have at least one step'' [])
        else Inr spec))"

function collect :: "StepSpec list \<Rightarrow> StepSpec list" where
  "collect [] = []"
| "collect (step # steps) = step # collect (AllSubSteps step) @ collect steps"
  by pat_completeness auto
termination
  using size_AllSubSteps
  by (relation "measure (size_list size)") (auto simp: less_Suc_eq trans_less_add1)

definition CollectAllSteps :: "WorkflowSpec \<Rightarrow> StepSpec list" where
  "CollectAllSteps spec = collect (wf_Steps spec)"

section \<open>Lookup\<close>

definition FindStep :: "WorkflowSpec option \<Rightarrow> string \<Rightarrow> StepSpec option" where
  "FindStep spec stepID = (case spec of
     None \<Rightarrow> None
   | Some sp \<Rightarrow> List.find (\<lambda>step. step_ID step = stepID) (CollectAllSteps sp))"

fun next_after :: "string \<Rightarrow> StepSpec list \<Rightarrow> StepSpec option" where
  "next_after currentStepID [] = None"
| "next_after currentStepID (step # rest) =
     (if step_ID step = currentStepID
      then (case rest of [] \<Rightarrow> None | n # _ \<Rightarrow> Some n)
      else next_after currentStepID rest)"

definition FindNextStep :: "WorkflowSpec option \<Rightarrow> string \<Rightarrow> StepSpec option" where
  "FindNextStep spec currentStepID = (case spec of
     None \<Rightarrow> None
   | Some sp \<Rightarrow> next_after currentStepID (CollectAllSteps sp))"

definition InitialStep :: "WorkflowSpec \<Rightarrow> StepSpec option" where
  "InitialStep spec = (case wf_Steps spec of [] \<Rightarrow> None | s # _ \<Rightarrow> Some s)"

section \<open>Transitions\<close>

definition branchThen :: string where "branchThen = ''then''"
definition branchElse :: string where "branchElse = ''else''"

fun first_match ::
    "('env, 'ast, 'prg) cel_lib \<Rightarrow> 'env \<Rightarrow> WorkflowSpec \<Rightarrow> ConditionalTarget list \<Rightarrow> go_map
      \<Rightarrow> (StepSpec option) result" where
  "first_match cel env spec [] vars = Inr None"
| "first_match cel env spec (ct # cts) vars =
     (if ct_Condition ct = [] then
        (case FindStep (Some spec) (ct_Target ct) of
           None \<Rightarrow> Inl (Errf ''default transition target %q not found'' [EStr (ct_Target ct)])
         | Some target \<Rightarrow> Inr (Some target))
      else (case CompileExpression cel env (ct_Condition ct) of
        Inl err \<Rightarrow> Inl (Errf ''compile transition condition %q: %w'' [EStr (ct_Condition ct), EErr err])
      | Inr ast \<Rightarrow> (case EvaluateCondition cel env ast vars of
          Inl err \<Rightarrow> Inl (Errf ''evaluate transition condition %q: %w'' [EStr (ct_Condition ct), EErr err])
        | Inr matched \<Rightarrow>
            (if matched then
               (case FindStep (Some spec) (ct_Target ct) of
                  None \<Rightarrow> Inl (Errf ''transition target %q not found'' [EStr (ct_Target ct)])
                | Some target \<Rightarrow> Inr (Some target))
             else first_match cel env spec cts vars))))"

definition resolveConditionalTransition ::
    "('env, 'ast, 'prg) cel_lib \<Rightarrow> WorkflowSpec \<Rightarrow> ConditionalTarget list \<Rightarrow> go_map
      \<Rightarrow> (StepSpec option) result" where
  "resolveConditionalTransition cel spec conditions vars = (case NewExpressionEnv cel of
     Inl err \<Rightarrow> Inl (Errf ''create CEL env for transition: %w'' [EErr err])
   | Inr env \<Rightarrow> first_match cel env spec conditions vars)"

definition resolveExplicitTransition ::
    "('env, 'ast, 'prg) cel_lib \<Rightarrow> WorkflowSpec \<Rightarrow> TransitionTarget \<Rightarrow> go_map
      \<Rightarrow> (StepSpec option) result" where
  "resolveExplicitTransition cel spec transition vars =
     (if tt_Static transition \<noteq> [] then
        (case FindStep (Some spec) (tt_Static transition) of
           None \<Rightarrow> Inl (Errf ''transition target step %q not found'' [EStr (tt_Static transition)])
         | Some target \<Rightarrow> Inr (Some target))
      else resolveConditionalTransition cel spec (tt_Conditional transition) vars)"

definition resolveIfBranch :: "StepSpec \<Rightarrow> go_map \<Rightarrow> string result" where
  "resolveIfBranch step vars =
     (let output = (case map_of vars ''output'' of
                      Some v \<Rightarrow> (case as_map v of Some m \<Rightarrow> m | None \<Rightarrow> [])
                    | None \<Rightarrow> [])
      in case Option.bind (map_of output ''branch'') as_str of
           Some branch \<Rightarrow>
             (if branch = branchThen \<or> branch = branchElse then Inr branch
              else Inl (Errf ''if step %q did not provide resolved branch'' [EStr (step_ID step)]))
         | None \<Rightarrow> Inl (Errf ''if step %q did not provide resolved branch'' [EStr (step_ID step)]))"

definition sibling_at :: "StepSpec list \<Rightarrow> nat \<Rightarrow> StepSpec option" where
  "sibling_at siblings i = (if i < length siblings then Some (siblings ! i) else None)"

definition first_of :: "StepSpec list \<Rightarrow> StepSpec option \<Rightarrow> StepSpec option" where
  "first_of steps k = (case steps of [] \<Rightarrow> k | s # _ \<Rightarrow> Some s)"

definition resolveCurrentStepNext ::
    "('env, 'ast, 'prg) cel_lib \<Rightarrow> WorkflowSpec \<Rightarrow> StepSpec list \<Rightarrow> nat \<Rightarrow> go_map
      \<Rightarrow> (StepSpec option) result" where
  "resolveCurrentStepNext cel spec siblings index vars =
     (let currentStep = siblings ! index;
          fallthrough = sibling_at siblings (index + 1)
      in if \<not> IsEmpty (step_OnSuccess currentStep) then
           resolveExplicitTransition cel spec (step_OnSuccess currentStep) vars
         else (case step_Type currentStep of
           StepTypeSequence \<Rightarrow>
             Inr (case step_Sequence currentStep of
                    Some q \<Rightarrow> first_of (seq_Steps q) fallthrough
                  | None \<Rightarrow> fallthrough)
         | StepTypeIf \<Rightarrow>
             and_then (resolveIfBranch currentStep vars) (\<lambda>branch.
               Inr (case step_If currentStep of
                      Some b \<Rightarrow> first_of (if branch = branchThen then if_Then b else if_Else b) fallthrough
                    | None \<Rightarrow> fallthrough))
         | _ \<Rightarrow> Inr fallthrough))"

type_synonym nav = "StepSpec option \<times> bool \<times> errmsg option"

function resolveNextInSteps ::
    "('env, 'ast, 'prg) cel_lib \<Rightarrow> WorkflowSpec \<Rightarrow> StepSpec list \<Rightarrow> string \<Rightarrow> go_map \<Rightarrow> nav"
  and resolveNextWithinStep ::
    "('env, 'ast, 'prg) cel_lib \<Rightarrow> WorkflowSpec \<Rightarrow> StepSpec \<Rightarrow> string \<Rightarrow> go_map \<Rightarrow> nav" where
  "resolveNextInSteps cel spec [] currentStepID vars = (None, False, None)"
| "resolveNextInSteps cel spec (step # rest) currentStepID vars =
     (if step_ID step = currentStepID then
        (case resolveCurrentStepNext cel spec (step # rest) 0 vars of
           Inl err \<Rightarrow> (None, True, Some err)
         | Inr next \<Rightarrow> (next, True, None))
      else (case resolveNextWithinStep cel spec step currentStepID vars of
        (next, found, err) \<Rightarrow>
          (case err of
             Some e \<Rightarrow> (None, True, Some e)
           | None \<Rightarrow>
               (if \<not> found then resolveNextInSteps cel spec rest currentStepID vars
                else (case next of
                  Some n \<Rightarrow> (Some n, True, None)
                | None \<Rightarrow> (sibling_at (step # rest) 1, True, None))))))"
| "resolveNextWithinStep cel spec step currentStepID vars = (case step_Type step of
     StepTypeSequence \<Rightarrow> (case step_Sequence step of
       None \<Rightarrow> (None, False, None)
     | Some q \<Rightarrow> resolveNextInSteps cel spec (seq_Steps q) currentStepID vars)
   | StepTypeIf \<Rightarrow> (case step_If step of
       None \<Rightarrow> (None, False, None)
     | Some b \<Rightarrow> (case resolveNextInSteps cel spec (if_Then b) currentStepID vars of
         (next, found, err) \<Rightarrow>
           (if found \<or> err \<noteq> None then (next, found, err)
            else resolveNextInSteps cel spec (if_Else b) currentStepID vars)))
   | StepTypeParallel \<Rightarrow> (case step_Parallel step of
       None \<Rightarrow> (None, False, None)
     | Some p \<Rightarrow> resolveNextInSteps cel spec (par_Steps p) currentStepID vars)
   | StepTypeForeach \<Rightarrow> (case step_Foreach step of
       None \<Rightarrow> (None, False, None)
     | Some f \<Rightarrow> resolveNextInSteps cel spec (fe_Steps f) currentStepID vars)
   | _ \<Rightarrow> (None, False, None))"
  by pat_completeness auto
termination
  by (relation "measure (\<lambda>x. case x of Inl (_, _, steps, _, _) \<Rightarrow> size_list size steps
                                     | Inr (_, _, step, _, _) \<Rightarrow> size step)")
    (auto dest!: size_sub simp: size_list_append)

definition nav_result :: "nav \<Rightarrow> (StepSpec option) result" where
  "nav_result r = (case r of (next, found, err) \<Rightarrow>
     (case err of
        Some e \<Rightarrow> Inl e
      | None \<Rightarrow> (if \<not> found then Inr None else Inr next)))"

definition ResolveNextStep ::
    "('env, 'ast, 'prg) cel_lib \<Rightarrow> WorkflowSpec option \<Rightarrow> string \<Rightarrow> go_map
      \<Rightarrow> (StepSpec option) result" where
  "ResolveNextStep cel spec currentStepID vars = (case spec of
     None \<Rightarrow> Inr None
   | Some sp \<Rightarrow> nav_result (resolveNextInSteps cel sp (wf_Steps sp) currentStepID vars))"

definition ResolveNextStepInSubtree ::
    "('env, 'ast, 'prg) cel_lib \<Rightarrow> WorkflowSpec option \<Rightarrow> string \<Rightarrow> string \<Rightarrow> go_map
      \<Rightarrow> (StepSpec option) result" where
  "ResolveNextStepInSubtree cel spec rootStepID currentStepID vars = (case spec of
     None \<Rightarrow> Inr None
   | Some sp \<Rightarrow> (case FindStep spec rootStepID of
       None \<Rightarrow> Inl (Errf ''root step %q not found'' [EStr rootStepID])
     | Some rootStep \<Rightarrow> nav_result (resolveNextInSteps cel sp [rootStep] currentStepID vars)))"

definition container_steps :: "StepSpec \<Rightarrow> StepSpec list option" where
  "container_steps container = (case step_Type container of
     StepTypeSequence \<Rightarrow> Some (case step_Sequence container of Some q \<Rightarrow> seq_Steps q | None \<Rightarrow> [])
   | StepTypeParallel \<Rightarrow> Some (case step_Parallel container of Some p \<Rightarrow> par_Steps p | None \<Rightarrow> [])
   | StepTypeForeach \<Rightarrow> Some (case step_Foreach container of Some f \<Rightarrow> fe_Steps f | None \<Rightarrow> [])
   | _ \<Rightarrow> None)"

definition ResolveNextStepInContainer ::
    "('env, 'ast, 'prg) cel_lib \<Rightarrow> WorkflowSpec option \<Rightarrow> string \<Rightarrow> string \<Rightarrow> go_map
      \<Rightarrow> (StepSpec option) result" where
  "ResolveNextStepInContainer cel spec containerStepID currentStepID vars = (case spec of
     None \<Rightarrow> Inr None
   | Some sp \<Rightarrow> (case FindStep spec containerStepID of
       None \<Rightarrow> Inl (Errf ''container step %q not found'' [EStr containerStepID])
     | Some container \<Rightarrow> (case container_steps container of
         None \<Rightarrow> Inl (Errf ''step %q is not a supported container'' [EStr containerStepID])
       | Some steps \<Rightarrow> nav_result (resolveNextInSteps cel sp steps currentStepID vars))))"

definition IsTerminalStep ::
    "('env, 'ast, 'prg) cel_lib \<Rightarrow> WorkflowSpec option \<Rightarrow> string \<Rightarrow> bool" where
  "IsTerminalStep cel spec stepID = (case ResolveNextStep cel spec stepID [] of
     Inl _ \<Rightarrow> False
   | Inr next \<Rightarrow> next = None)"

section \<open>The collected steps\<close>

lemma collect_append [simp]: "collect (xs @ ys) = collect xs @ collect ys"
  by (induction xs) auto

inductive in_tree :: "StepSpec list \<Rightarrow> StepSpec \<Rightarrow> bool" for steps where
  in_tree_top: "s \<in> set steps \<Longrightarrow> in_tree steps s"
| in_tree_sub: "in_tree steps s \<Longrightarrow> t \<in> set (AllSubSteps s) \<Longrightarrow> in_tree steps t"

lemma set_subset_collect: "set steps \<subseteq> set (collect steps)"
  by (induction steps) auto

lemma collect_closed: "s \<in> set (collect steps) \<Longrightarrow> t \<in> set (AllSubSteps s) \<Longrightarrow> t \<in> set (collect steps)"
proof (induction steps rule: collect.induct)
  case (2 step steps)
  then show ?case
    using set_subset_collect [of "AllSubSteps step"] by auto
qed simp

lemma collect_in_tree: "s \<in> set (collect steps) \<Longrightarrow> in_tree steps s"
proof (induction steps arbitrary: s rule: collect.induct)
  case (2 step steps)
  have sub: "in_tree (AllSubSteps step) u \<Longrightarrow> in_tree (step # steps) u" for u
    by (induction rule: in_tree.induct)
      (use in_tree_top [of step "step # steps"] in \<open>auto intro: in_tree_sub\<close>)
  have rest: "in_tree steps u \<Longrightarrow> in_tree (step # steps) u" for u
    by (induction rule: in_tree.induct) (auto intro: in_tree.intros)
  from 2 show ?case by (auto intro: in_tree.intros sub rest)
qed simp

lemma in_tree_iff_collect: "in_tree steps s \<longleftrightarrow> s \<in> set (collect steps)"
proof
  assume "in_tree steps s"
  then show "s \<in> set (collect steps)"
    by induction (use set_subset_collect collect_closed in blast)+
qed (rule collect_in_tree)

lemma FindStep_Some: "FindStep (Some spec) i = Some s \<Longrightarrow> s \<in> set (CollectAllSteps spec) \<and> step_ID s = i"
  unfolding FindStep_def by (auto dest: find_SomeD)

lemma FindStep_None: "FindStep (Some spec) i = None \<longleftrightarrow> i \<notin> step_ID ` set (CollectAllSteps spec)"
  by (auto simp: FindStep_def find_None_iff')

section \<open>Where navigation can lead\<close>

lemma resolveExplicitTransition_in:
  "resolveExplicitTransition cel spec t vars = Inr (Some n) \<Longrightarrow> n \<in> set (CollectAllSteps spec)"
proof -
  have "first_match cel env spec cts vars = Inr (Some n) \<Longrightarrow> n \<in> set (CollectAllSteps spec)" for env cts
    by (induction cel env spec cts vars rule: first_match.induct)
      (auto split: if_splits option.splits sum.splits dest: FindStep_Some)
  then show "resolveExplicitTransition cel spec t vars = Inr (Some n) \<Longrightarrow> n \<in> set (CollectAllSteps spec)"
    by (auto simp: resolveExplicitTransition_def resolveConditionalTransition_def
        split: if_splits option.splits sum.splits dest: FindStep_Some)
qed

lemma sibling_at_1 [simp]: "sibling_at (s # rest) (Suc 0) = first_of rest None"
  by (cases rest) (auto simp: sibling_at_def first_of_def)

lemma first_of_cases: "first_of xs k = Some n \<Longrightarrow> (n \<in> set xs \<and> xs \<noteq> [] \<and> n = hd xs) \<or> (xs = [] \<and> k = Some n)"
  by (cases xs) (auto simp: first_of_def)

text \<open>Without an explicit transition the next step comes later in depth-first order.\<close>

lemma resolveCurrentStepNext_implicit:
  assumes "resolveCurrentStepNext cel spec (step # rest) 0 vars = Inr (Some n)"
    and "IsEmpty (step_OnSuccess step)"
  shows "n \<in> set (AllSubSteps step) \<union> set rest"
  using assms
  by (auto simp: resolveCurrentStepNext_def AllSubSteps_def Let_def and_then_Inr_iff
      split: StepType.splits option.splits if_splits dest!: first_of_cases)

lemma resolveCurrentStepNext_in:
  assumes "resolveCurrentStepNext cel spec (step # rest) 0 vars = Inr (Some n)"
  shows "n \<in> set (AllSubSteps step) \<union> set rest \<union> set (CollectAllSteps spec)"
proof (cases "IsEmpty (step_OnSuccess step)")
  case True
  with assms show ?thesis using resolveCurrentStepNext_implicit by blast
next
  case False
  with assms show ?thesis
    by (auto simp: resolveCurrentStepNext_def Let_def dest: resolveExplicitTransition_in)
qed

definition nav_sound :: "string \<Rightarrow> StepSpec list \<Rightarrow> nav \<Rightarrow> bool" where
  "nav_sound cur steps r = (case r of (next, found, err) \<Rightarrow>
     (found \<longleftrightarrow> cur \<in> step_ID ` set (collect steps)) \<and> (\<not> found \<longrightarrow> next = None \<and> err = None)
     \<and> (err \<noteq> None \<longrightarrow> next = None))"

lemma nav_sound_resolve:
  "nav_sound cur steps (resolveNextInSteps cel spec steps cur vars)"
  "nav_sound cur (AllSubSteps step) (resolveNextWithinStep cel spec step cur vars)"
proof (induction cel spec steps cur vars and cel spec step cur vars
    rule: resolveNextInSteps_resolveNextWithinStep.induct)
  case (1 cel spec cur vars)
  then show ?case by (simp add: nav_sound_def)
next
  case (2 cel spec step rest cur vars)
  show ?case
  proof (cases "step_ID step = cur")
    case True
    then show ?thesis by (auto simp: nav_sound_def split: sum.splits)
  next
    case False
    obtain n f e where w: "resolveNextWithinStep cel spec step cur vars = (n, f, e)"
      by (cases "resolveNextWithinStep cel spec step cur vars")
    from 2(1) [OF False] w have sw: "nav_sound cur (AllSubSteps step) (n, f, e)" by simp
    show ?thesis
    proof (cases "f")
      case True
      with False w sw show ?thesis by (auto simp: nav_sound_def split: option.splits)
    next
      case f: False
      with sw have "e = None" "n = None" by (simp_all add: nav_sound_def)
      with 2(2) [OF False w [symmetric]] f have "nav_sound cur rest (resolveNextInSteps cel spec rest cur vars)"
        by simp
      with False w sw f \<open>e = None\<close> show ?thesis by (auto simp: nav_sound_def)
    qed
  qed
next
  case (3 cel spec step cur vars)
  show ?case
  proof (cases "step_Type step = StepTypeIf \<and> step_If step \<noteq> None")
    case True
    then obtain b where t: "step_Type step = StepTypeIf" and b: "step_If step = Some b" by auto
    obtain n f e where r: "resolveNextInSteps cel spec (if_Then b) cur vars = (n, f, e)"
      by (cases "resolveNextInSteps cel spec (if_Then b) cur vars")
    with 3(1) [OF t b] have s1: "nav_sound cur (if_Then b) (n, f, e)" by simp
    show ?thesis
    proof (cases f)
      case True
      with t b r s1 show ?thesis by (auto simp: nav_sound_def AllSubSteps_def)
    next
      case False
      with s1 have "e = None" by (simp add: nav_sound_def)
      with False 3(2) [OF t b r [symmetric]] have "nav_sound cur (if_Else b) (resolveNextInSteps cel spec (if_Else b) cur vars)"
        by simp
      with False \<open>e = None\<close> t b r s1 show ?thesis by (auto simp: nav_sound_def AllSubSteps_def)
    qed
  next
    case False
    with 3(3,4,5) show ?thesis
      by (auto simp: AllSubSteps_def nav_sound_def split: StepType.splits option.splits)
  qed
qed


section \<open>Forward progress\<close>

definition after :: "string \<Rightarrow> StepSpec list \<Rightarrow> StepSpec list" where
  "after cur xs = tl (dropWhile (\<lambda>s. step_ID s \<noteq> cur) xs)"

lemma after_Cons [simp]: "after cur (x # xs) = (if step_ID x = cur then xs else after cur xs)"
  by (simp add: after_def)

lemma after_Nil [simp]: "after cur [] = []"
  by (simp add: after_def)

lemma after_append:
  "after cur (xs @ ys) = (if cur \<in> step_ID ` set xs then after cur xs @ ys else after cur ys)"
  by (induction xs) auto

lemma set_after_subset: "set (after cur xs) \<subseteq> set xs"
  by (induction xs) auto

lemma length_after: "n \<in> set xs \<Longrightarrow> length (after (step_ID n) xs) < length xs"
  by (induction xs) auto

lemma after_shrinks:
  assumes "distinct (map step_ID xs)" and "n \<in> set (after cur xs)"
  shows "length (after (step_ID n) xs) < length (after cur xs)"
  using assms
proof (induction xs)
  case (Cons x xs)
  show ?case
  proof (cases "step_ID x = cur")
    case True
    with Cons.prems have "n \<in> set xs" by simp
    moreover with Cons.prems(1) have "step_ID n \<noteq> step_ID x" by (auto simp: image_iff)
    ultimately show ?thesis using True length_after by auto
  next
    case False
    with Cons.prems have n: "n \<in> set (after cur xs)" by simp
    then have "n \<in> set xs" using set_after_subset by blast
    with Cons.prems(1) have "step_ID n \<noteq> step_ID x" by (auto simp: image_iff)
    with False n Cons show ?thesis by auto
  qed
qed simp

text \<open>
  Where a found step can lead: forward in depth-first order, or along an explicit transition
  of some step of the list to a step of the workflow.
\<close>

definition lands :: "WorkflowSpec \<Rightarrow> string \<Rightarrow> StepSpec list \<Rightarrow> StepSpec \<Rightarrow> bool" where
  "lands spec cur steps n \<longleftrightarrow> n \<in> set (after cur (collect steps)) \<or>
     (\<exists>c \<in> set (collect steps). \<not> IsEmpty (step_OnSuccess c)) \<and> n \<in> set (CollectAllSteps spec)"

lemma lands_sub: "lands spec cur (AllSubSteps step) n \<Longrightarrow> step_ID step \<noteq> cur \<Longrightarrow>
    cur \<in> step_ID ` set (collect (AllSubSteps step)) \<Longrightarrow> lands spec cur (step # rest) n"
  by (auto simp: lands_def after_append)

lemma lands_rest: "lands spec cur rest n \<Longrightarrow> step_ID step \<noteq> cur \<Longrightarrow>
    cur \<notin> step_ID ` set (collect (AllSubSteps step)) \<Longrightarrow> lands spec cur (step # rest) n"
  by (auto simp: lands_def after_append)

lemma lands_sibling: "first_of rest None = Some n \<Longrightarrow> step_ID step \<noteq> cur \<Longrightarrow>
    cur \<in> step_ID ` set (collect (AllSubSteps step)) \<Longrightarrow> lands spec cur (step # rest) n"
  using set_subset_collect [of rest]
  by (auto simp: lands_def after_append dest!: first_of_cases)

lemma lands_here:
  assumes "resolveCurrentStepNext cel spec (step # rest) 0 vars = Inr (Some n)"
    and "step_ID step = cur"
  shows "lands spec cur (step # rest) n"
proof (cases "IsEmpty (step_OnSuccess step)")
  case True
  from resolveCurrentStepNext_implicit [OF assms(1) True] assms(2) show ?thesis
    using set_subset_collect [of "AllSubSteps step"] set_subset_collect [of rest]
    by (auto simp: lands_def)
next
  case False
  with assms show ?thesis
    by (auto simp: lands_def resolveCurrentStepNext_def Let_def dest: resolveExplicitTransition_in)
qed

lemma lands_branch:
  "lands spec cur xs n \<Longrightarrow> cur \<in> step_ID ` set (collect xs) \<Longrightarrow> lands spec cur (xs @ ys) n"
  "lands spec cur ys n \<Longrightarrow> cur \<notin> step_ID ` set (collect xs) \<Longrightarrow> lands spec cur (xs @ ys) n"
  by (auto simp: lands_def after_append)

lemma resolve_lands:
  "resolveNextInSteps cel spec steps cur vars = (Some n, f, e) \<Longrightarrow> lands spec cur steps n"
  "resolveNextWithinStep cel spec step cur vars = (Some n, f, e) \<Longrightarrow>
     lands spec cur (AllSubSteps step) n"
proof (induction cel spec steps cur vars and cel spec step cur vars arbitrary: n f e and n f e
    rule: resolveNextInSteps_resolveNextWithinStep.induct)
  case (2 cel spec step rest cur vars)
  show ?case
  proof (cases "step_ID step = cur")
    case True
    with 2(3) show ?thesis by (auto intro: lands_here split: sum.splits)
  next
    case False
    obtain m g d where w: "resolveNextWithinStep cel spec step cur vars = (m, g, d)"
      by (cases "resolveNextWithinStep cel spec step cur vars")
    have s: "nav_sound cur (AllSubSteps step) (m, g, d)"
      using nav_sound_resolve(2) [where step = step] w by metis
    show ?thesis
    proof (cases g)
      case True
      with s have "cur \<in> step_ID ` set (collect (AllSubSteps step))" by (simp add: nav_sound_def)
      with True False w 2(1) [OF False] 2(3) show ?thesis
        by (auto split: option.splits intro: lands_sub lands_sibling)
    next
      case g: False
      with s have "cur \<notin> step_ID ` set (collect (AllSubSteps step))" "d = None"
        by (simp_all add: nav_sound_def)
      with g False w 2(2) [OF False w [symmetric]] 2(3) show ?thesis
        by (auto intro: lands_rest)
    qed
  qed
next
  case (3 cel spec step cur vars)
  show ?case
  proof (cases "step_Type step = StepTypeIf \<and> step_If step \<noteq> None")
    case True
    then obtain b where t: "step_Type step = StepTypeIf" and b: "step_If step = Some b" by auto
    obtain m g d where r: "resolveNextInSteps cel spec (if_Then b) cur vars = (m, g, d)"
      by (cases "resolveNextInSteps cel spec (if_Then b) cur vars")
    have s: "nav_sound cur (if_Then b) (m, g, d)"
      using nav_sound_resolve(1) [where steps = "if_Then b"] r by metis
    have sub: "AllSubSteps step = if_Then b @ if_Else b" using t b by (simp add: AllSubSteps_def)
    show ?thesis
    proof (cases g)
      case True
      with t b r s 3(1) [OF t b] 3(6) show ?thesis
        by (auto simp: sub nav_sound_def intro: lands_branch(1))
    next
      case False
      with s have d: "d = None" and "cur \<notin> step_ID ` set (collect (if_Then b))"
        by (simp_all add: nav_sound_def)
      with False t b r 3(2) [OF t b r [symmetric]] 3(6) show ?thesis
        by (auto simp: sub intro: lands_branch(2))
    qed
  next
    case False
    with 3(3,4,5,6) show ?thesis
      by (auto simp: AllSubSteps_def split: StepType.splits option.splits)
  qed
qed simp


section \<open>Following a workflow\<close>

datatype walk_end = WalkTerminal | WalkError errmsg

text \<open>
  Repeated navigation from a step, with an arbitrary expression scope at every visited step
  (\<open>scope i\<close> at the \<open>i\<close>-th one). Running out of fuel is \<^const>\<open>None\<close>.
\<close>

fun walk :: "('env, 'ast, 'prg) cel_lib \<Rightarrow> WorkflowSpec \<Rightarrow> (nat \<Rightarrow> go_map) \<Rightarrow> nat \<Rightarrow> nat \<Rightarrow> string
      \<Rightarrow> (walk_end \<times> string list) option" where
  "walk cel spec scope i 0 cur = None"
| "walk cel spec scope i (Suc fuel) cur = (case ResolveNextStep cel (Some spec) cur (scope i) of
     Inl e \<Rightarrow> Some (WalkError e, [cur])
   | Inr None \<Rightarrow> Some (WalkTerminal, [cur])
   | Inr (Some n) \<Rightarrow> map_option (\<lambda>(w, path). (w, cur # path))
       (walk cel spec scope (Suc i) fuel (step_ID n)))"

lemma ResolveNextStep_lands:
  "ResolveNextStep cel (Some spec) cur vars = Inr (Some n) \<Longrightarrow> lands spec cur (wf_Steps spec) n"
  by (cases "resolveNextInSteps cel spec (wf_Steps spec) cur vars")
    (auto simp: ResolveNextStep_def nav_result_def split: option.splits if_splits dest: resolve_lands)

lemma walk_ends:
  assumes "distinct (map step_ID (CollectAllSteps spec))"
    and "\<forall>s \<in> set (CollectAllSteps spec). IsEmpty (step_OnSuccess s)"
    and "length (after cur (CollectAllSteps spec)) < fuel"
  shows "\<exists>w path. walk cel spec scope i fuel cur = Some (w, path) \<and> length path \<le> fuel"
  using assms(3)
proof (induction fuel arbitrary: i cur)
  case (Suc fuel)
  show ?case
  proof (cases "ResolveNextStep cel (Some spec) cur (scope i)")
    case (Inr nx)
    show ?thesis
    proof (cases nx)
      case (Some n)
      with Inr have "lands spec cur (wf_Steps spec) n" by (auto intro: ResolveNextStep_lands)
      with assms(2) have "n \<in> set (after cur (CollectAllSteps spec))"
        by (auto simp: lands_def CollectAllSteps_def)
      with assms(1) Suc.prems have "length (after (step_ID n) (CollectAllSteps spec)) < fuel"
        using after_shrinks by fastforce
      from Suc.IH [OF this, of "Suc i"] Inr Some show ?thesis by auto
    qed (use Inr in simp)
  qed simp
qed simp

section \<open>The continuation of a step\<close>

text \<open>
  A reference reading of implicit order: each step list is entered with the step that follows
  the whole list, and a step is followed by its next sibling or, at the end, by that
  continuation. The two branches of an \<open>if\<close> share the continuation of the \<open>if\<close> step.
\<close>

definition sub_lists :: "StepSpec \<Rightarrow> StepSpec list list" where
  "sub_lists s = (case step_Type s of
     StepTypeIf \<Rightarrow> (case step_If s of Some b \<Rightarrow> [if_Then b, if_Else b] | None \<Rightarrow> [])
   | StepTypeSequence \<Rightarrow> (case step_Sequence s of Some q \<Rightarrow> [seq_Steps q] | None \<Rightarrow> [])
   | StepTypeParallel \<Rightarrow> (case step_Parallel s of Some p \<Rightarrow> [par_Steps p] | None \<Rightarrow> [])
   | StepTypeForeach \<Rightarrow> (case step_Foreach s of Some f \<Rightarrow> [fe_Steps f] | None \<Rightarrow> [])
   | _ \<Rightarrow> [])"

lemma size_sub_lists: "size_list (size_list size) (sub_lists s) \<le> size s"
proof -
  have "step_If s = Some b \<Longrightarrow> size_list (size_list size) [if_Then b, if_Else b] \<le> size s" for b
    by (cases s; cases b) auto
  moreover have "step_Sequence s = Some q \<Longrightarrow> size_list (size_list size) [seq_Steps q] \<le> size s" for q
    by (cases s; cases q) auto
  moreover have "step_Parallel s = Some p \<Longrightarrow> size_list (size_list size) [par_Steps p] \<le> size s" for p
    by (cases s; cases p) auto
  moreover have "step_Foreach s = Some f \<Longrightarrow> size_list (size_list size) [fe_Steps f] \<le> size s" for f
    by (cases s; cases f) auto
  ultimately show ?thesis
    by (simp add: sub_lists_def split: StepType.splits option.splits)
qed

function follow :: "StepSpec list \<Rightarrow> StepSpec option \<Rightarrow> string \<Rightarrow> StepSpec option option"
  and follow_lists :: "StepSpec list list \<Rightarrow> StepSpec option \<Rightarrow> string \<Rightarrow> StepSpec option option" where
  "follow [] k cur = None"
| "follow (s # rest) k cur =
     (if step_ID s = cur then Some (first_of rest k)
      else (case follow_lists (sub_lists s) (first_of rest k) cur of
        Some r \<Rightarrow> Some r
      | None \<Rightarrow> follow rest k cur))"
| "follow_lists [] k cur = None"
| "follow_lists (l # ls) k cur = (case follow l k cur of Some r \<Rightarrow> Some r | None \<Rightarrow> follow_lists ls k cur)"
  by pat_completeness auto
termination
  by (relation "measure (\<lambda>x. case x of Inl (steps, _, _) \<Rightarrow> size_list size steps
                                     | Inr (ls, _, _) \<Rightarrow> size_list (size_list size) ls)")
    (use size_sub_lists in \<open>auto simp: less_Suc_eq_le trans_le_add1\<close>)


definition else_then :: "StepSpec option \<Rightarrow> StepSpec option \<Rightarrow> StepSpec option" where
  "else_then k r = (case r of None \<Rightarrow> k | Some n \<Rightarrow> Some n)"

lemma else_then_first_of: "else_then k (first_of xs j) = first_of xs (else_then k j)"
  by (cases xs) (auto simp: else_then_def first_of_def)

lemma else_then_None [simp]: "else_then None r = r"
  by (cases r) (auto simp: else_then_def)

lemma follow_continuation:
  "follow steps (else_then k j) cur = map_option (else_then k) (follow steps j cur)"
  "follow_lists ls (else_then k j) cur = map_option (else_then k) (follow_lists ls j cur)"
  by (induction steps j cur and ls j cur rule: follow_follow_lists.induct)
    (auto simp: else_then_first_of [symmetric] split: option.splits)

text \<open>A step whose successor does not depend on transitions, branches or nested lists.\<close>

definition plain :: "StepSpec \<Rightarrow> bool" where
  "plain s \<longleftrightarrow> IsEmpty (step_OnSuccess s) \<and> step_Type s \<notin> {StepTypeSequence, StepTypeIf}"

definition nav_of :: "StepSpec option option \<Rightarrow> nav" where
  "nav_of r = (case r of None \<Rightarrow> (None, False, None) | Some n \<Rightarrow> (n, True, None))"

lemma resolveCurrent_plain:
  "plain step \<Longrightarrow> resolveCurrentStepNext cel spec (step # rest) 0 vars = Inr (first_of rest None)"
  by (auto simp: plain_def resolveCurrentStepNext_def Let_def split: StepType.splits)

lemma resolve_follow:
  "(\<forall>s \<in> set (collect steps). step_ID s = cur \<longrightarrow> plain s) \<Longrightarrow>
     resolveNextInSteps cel spec steps cur vars = nav_of (follow steps None cur)"
  "(\<forall>s \<in> set (collect (AllSubSteps step)). step_ID s = cur \<longrightarrow> plain s) \<Longrightarrow>
     resolveNextWithinStep cel spec step cur vars = nav_of (follow_lists (sub_lists step) None cur)"
proof (induction cel spec steps cur vars and cel spec step cur vars
    rule: resolveNextInSteps_resolveNextWithinStep.induct)
  case (2 cel spec step rest cur vars)
  show ?case
  proof (cases "step_ID step = cur")
    case True
    with 2(3) show ?thesis by (simp add: resolveCurrent_plain nav_of_def)
  next
    case False
    have w: "resolveNextWithinStep cel spec step cur vars = nav_of (follow_lists (sub_lists step) None cur)"
      using 2(1) [OF False] 2(3) by simp
    have k: "follow_lists (sub_lists step) (first_of rest None) cur =
        map_option (else_then (first_of rest None)) (follow_lists (sub_lists step) None cur)"
      using follow_continuation(2) [of "sub_lists step" "first_of rest None" None cur]
      by (simp add: else_then_def)
    show ?thesis
    proof (cases "follow_lists (sub_lists step) None cur")
      case None
      with w have w0: "(None, False, None) = resolveNextWithinStep cel spec step cur vars"
        by (simp add: nav_of_def del: resolveNextWithinStep.simps)
      from 2(3) have "\<forall>s \<in> set (collect rest). step_ID s = cur \<longrightarrow> plain s" by simp
      from 2(2) [OF False w0 refl refl _ this] have "resolveNextInSteps cel spec rest cur vars = nav_of (follow rest None cur)"
        by simp
      with False None w k show ?thesis by (simp add: nav_of_def)
    next
      case (Some r)
      with False w k show ?thesis by (auto simp: nav_of_def else_then_def split: option.splits)
    qed
  qed
next
  case (3 cel spec step cur vars)
  show ?case
  proof (cases "step_Type step = StepTypeIf \<and> step_If step \<noteq> None")
    case True
    then obtain b where t: "step_Type step = StepTypeIf" and b: "step_If step = Some b" by auto
    have sub: "AllSubSteps step = if_Then b @ if_Else b" using t b by (simp add: AllSubSteps_def)
    have th: "resolveNextInSteps cel spec (if_Then b) cur vars = nav_of (follow (if_Then b) None cur)"
      using 3(1) [OF t b] 3(6) sub by simp
    show ?thesis
    proof (cases "follow (if_Then b) None cur")
      case None
      with 3(2) [OF t b] 3(6) sub th
      have "resolveNextInSteps cel spec (if_Else b) cur vars = nav_of (follow (if_Else b) None cur)"
        by (auto simp: nav_of_def)
      with t b th None show ?thesis
        by (auto simp: sub_lists_def nav_of_def split: option.splits)
    next
      case (Some r)
      with t b th show ?thesis by (simp add: sub_lists_def nav_of_def)
    qed
  next
    case False
    with 3(3,4,5,6) show ?thesis
      by (auto simp: AllSubSteps_def sub_lists_def nav_of_def split: StepType.splits option.splits)
  qed
qed (simp add: nav_of_def)

section \<open>An example workflow\<close>

definition example_step :: "string \<Rightarrow> StepType \<Rightarrow> StepSpec" where
  "example_step i t = StepSpec i t [] [] None 0 None no_transition no_transition
     None None None None None None None None"

definition example_sequence :: "string \<Rightarrow> StepSpec list \<Rightarrow> StepSpec" where
  "example_sequence i steps = StepSpec i StepTypeSequence [] [] None 0 None no_transition no_transition
     None None None (Some (SequenceSpec steps)) None None None None"

definition example_spec :: WorkflowSpec where
  "example_spec = \<lparr>wf_Version = ''1.0'', wf_Name = ''demo'', wf_Description = [], wf_Input = [],
     wf_Config = [], wf_Timeout = 0, wf_OnError = None,
     wf_Steps = [example_step ''a'' StepTypeCall,
                 example_sequence ''s'' [example_step ''b'' StepTypeCall, example_step ''c'' StepTypeDelay],
                 example_step ''d'' StepTypeCall],
     wf_Schedules = [], wf_Triggers = [], wf_Signals = []\<rparr>"

definition example_cel :: "(unit, string, string) cel_lib" where
  "example_cel = \<lparr>cel_NewEnv = Inr (), cel_Compile = (\<lambda>_ e. Inr e),
     cel_EstimateCost = (\<lambda>_ _. Inr 1), cel_Program = (\<lambda>_ a. Inr a),
     cel_Eval = (\<lambda>_ _. Inr (VBool True)), cel_OutputType = (\<lambda>_. CelBool)\<rparr>"

lemmas example_simps = example_spec_def example_step_def example_sequence_def no_transition_def
  CollectAllSteps_def AllSubSteps_def IsEmpty_def

lemmas nav_simps = ResolveNextStep_def ResolveNextStepInContainer_def FindStep_def nav_result_def
  resolveCurrentStepNext_def sibling_at_def first_of_def sub_lists_def container_steps_def

section \<open>Properties\<close>

text \<open>\<open>CollectAllSteps\<close> returns exactly the steps of the tree: the top-level steps and,
  recursively, every sub-step that \<open>AllSubSteps\<close> reports.\<close>
theorem collect_all_steps_complete:
  "set (CollectAllSteps spec) = {s. in_tree (wf_Steps spec) s}"
  by (auto simp: CollectAllSteps_def in_tree_iff_collect)

text \<open>When \<open>ResolveNextStep\<close> returns a step, the current step is a step of the workflow
  and so is the returned one, which is reached forward in depth-first order unless some step
  of the workflow declares an explicit transition.\<close>
theorem resolve_next_step_closed:
  assumes "ResolveNextStep cel (Some spec) cur vars = Inr (Some n)"
  shows "n \<in> set (CollectAllSteps spec) \<and> cur \<in> step_ID ` set (CollectAllSteps spec) \<and>
    ((\<forall>s \<in> set (CollectAllSteps spec). IsEmpty (step_OnSuccess s)) \<longrightarrow>
       n \<in> set (after cur (CollectAllSteps spec)))"
proof -
  obtain m f e where r: "resolveNextInSteps cel spec (wf_Steps spec) cur vars = (m, f, e)"
    by (cases "resolveNextInSteps cel spec (wf_Steps spec) cur vars")
  have s: "nav_sound cur (wf_Steps spec) (m, f, e)"
    using nav_sound_resolve(1) r by metis
  from assms have "f" using r by (auto simp: ResolveNextStep_def nav_result_def split: option.splits if_splits)
  moreover from assms have "lands spec cur (wf_Steps spec) n" by (rule ResolveNextStep_lands)
  ultimately show ?thesis
    using s set_after_subset
    by (fastforce simp: lands_def nav_sound_def CollectAllSteps_def)
qed

theorem resolve_next_step_closed_witness:
  "example_step ''d'' StepTypeCall \<in> set (CollectAllSteps example_spec)
   \<and> ''c'' \<in> step_ID ` set (CollectAllSteps example_spec)"
proof -
  have "ResolveNextStep example_cel (Some example_spec) ''c'' [] = Inr (Some (example_step ''d'' StepTypeCall))"
    by (simp add: example_simps nav_simps)
  from resolve_next_step_closed [OF this] show ?thesis by simp
qed

text \<open>C6: following a workflow whose step ids are distinct and which declares no explicit
  \<open>on_success\<close> transition always ends, at a terminal step or with an error, after at most as
  many steps as the workflow has, whatever the expression scope is at each step.\<close>
theorem workflow_walk_terminates:
  assumes "distinct (map step_ID (CollectAllSteps spec))"
    and "\<forall>s \<in> set (CollectAllSteps spec). IsEmpty (step_OnSuccess s)"
    and "FindStep (Some spec) cur \<noteq> None"
  shows "\<exists>w path. walk cel spec scope 0 (length (CollectAllSteps spec)) cur = Some (w, path)
           \<and> length path \<le> length (CollectAllSteps spec)"
proof -
  from assms(3) obtain s where "s \<in> set (CollectAllSteps spec)" "step_ID s = cur"
    by (auto simp: FindStep_def dest!: find_SomeD)
  then have "length (after cur (CollectAllSteps spec)) < length (CollectAllSteps spec)"
    using length_after by blast
  from walk_ends [OF assms(1,2) this] show ?thesis .
qed

theorem workflow_walk_terminates_witness:
  "\<exists>w path. walk example_cel example_spec (\<lambda>_. []) 0 (length (CollectAllSteps example_spec)) ''a'' = Some (w, path)
     \<and> length path \<le> length (CollectAllSteps example_spec)"
  by (rule workflow_walk_terminates) (simp_all add: example_simps FindStep_def)

text \<open>C5: for a step without transition that is neither a sequence nor an \<open>if\<close> (the
  reference continuation \<open>follow\<close> covers every position in the tree), \<open>ResolveNextStep\<close> returns
  exactly the next sibling or, at the end of a nested list, what follows the enclosing step,
  transitively; a step that is not in the workflow has no successor.\<close>
theorem resolve_next_step_refines_follow:
  assumes "\<forall>s \<in> set (CollectAllSteps spec). step_ID s = cur \<longrightarrow> plain s"
  shows "ResolveNextStep cel (Some spec) cur vars =
    Inr (case follow (wf_Steps spec) None cur of Some n \<Rightarrow> n | None \<Rightarrow> None)"
  using resolve_follow(1) [of "wf_Steps spec" cur cel spec vars] assms
  by (auto simp: ResolveNextStep_def nav_result_def nav_of_def CollectAllSteps_def split: option.splits)

theorem resolve_next_step_refines_follow_witness:
  "ResolveNextStep example_cel (Some example_spec) ''c'' [] =
     Inr (case follow (wf_Steps example_spec) None ''c'' of Some n \<Rightarrow> n | None \<Rightarrow> None)
   \<and> follow (wf_Steps example_spec) None ''c'' = Some (Some (example_step ''d'' StepTypeCall))"
proof
  show "ResolveNextStep example_cel (Some example_spec) ''c'' [] =
     Inr (case follow (wf_Steps example_spec) None ''c'' of Some n \<Rightarrow> n | None \<Rightarrow> None)"
    by (rule resolve_next_step_refines_follow) (simp add: example_simps plain_def)
qed (simp add: example_simps nav_simps)

text \<open>Navigation inside a container (the body of a sequence, parallel or foreach step)
  never leaves it: with no explicit transition inside, the next step is a later step of the
  same container, and the last step of the container has no successor.\<close>
theorem container_navigation_confined:
  assumes "FindStep (Some spec) cid = Some container"
    and "container_steps container = Some body"
    and "\<forall>s \<in> set (collect body). IsEmpty (step_OnSuccess s)"
    and "ResolveNextStepInContainer cel (Some spec) cid cur vars = Inr (Some n)"
  shows "n \<in> set (after cur (collect body))"
proof -
  obtain m f e where r: "resolveNextInSteps cel spec body cur vars = (m, f, e)"
    by (cases "resolveNextInSteps cel spec body cur vars")
  with assms(1,2,4) have "m = Some n"
    by (auto simp: ResolveNextStepInContainer_def nav_result_def split: option.splits if_splits)
  with r have "lands spec cur body n" by (auto intro: resolve_lands(1))
  with assms(3) show ?thesis by (auto simp: lands_def)
qed

theorem container_navigation_confined_witness:
  "example_step ''c'' StepTypeDelay
     \<in> set (after ''b'' (collect [example_step ''b'' StepTypeCall, example_step ''c'' StepTypeDelay]))"
  by (rule container_navigation_confined [where spec = example_spec and cid = "''s''" and vars = "[]"
        and cel = example_cel
        and container = "example_sequence ''s'' [example_step ''b'' StepTypeCall, example_step ''c'' StepTypeDelay]"])
    (simp_all add: example_simps nav_simps container_steps_def)

end
