(* ===== verification/Dsl_Duration.thy ===== *)
theory Dsl_Duration
  imports Dsl_Types "HOL-Library.Log_Nat"
begin

text \<open>
  Durations of \<open>dsl/types.go\<close>: \<open>ParseDuration\<close> with its day suffix, the decoding of a JSON
  duration, and the parts of Go's standard library they rest on: \<open>strconv.Atoi\<close> and
  \<open>time.ParseDuration\<close>. A duration is an \<open>int64\<close> count of nanoseconds, an \<^typ>\<open>int\<close> here with
  the wrap-around of \<open>int64\<close> and \<open>uint64\<close> written out; the float64 operations of the fraction
  part are exact rational operations followed by rounding to the nearest 53-bit number (ties
  to even).
\<close>

section \<open>Decimal numbers\<close>

definition is_digit :: "char \<Rightarrow> bool" where
  "is_digit c \<longleftrightarrow> 48 \<le> (of_char c :: nat) \<and> (of_char c :: nat) \<le> 57"

definition digit_val :: "char \<Rightarrow> nat" where
  "digit_val c = of_char c - 48"

definition digits_val :: "string \<Rightarrow> nat" where
  "digits_val s = foldl (\<lambda>a c. a * 10 + digit_val c) 0 s"

text \<open>\<open>strconv.Atoi\<close>: an optional sign, at least one digit, a value of 64 bits.\<close>

definition Atoi :: "string \<Rightarrow> int result" where
  "Atoi s =
     (let neg = (s \<noteq> [] \<and> hd s = CHR ''-'');
          ds = (if s \<noteq> [] \<and> (hd s = CHR ''-'' \<or> hd s = CHR ''+'') then tl s else s);
          v = (if neg then - int (digits_val ds) else int (digits_val ds))
      in if ds = [] \<or> \<not> list_all is_digit ds then
           Inl (Errf ''strconv.Atoi: parsing %q: invalid syntax'' [EStr s])
         else if \<not> in_int64 v then
           Inl (Errf ''strconv.Atoi: parsing %q: value out of range'' [EStr s])
         else Inr v)"

section \<open>Rounding to float64\<close>

definition round_half_even :: "rat \<Rightarrow> int" where
  "round_half_even q = (let f = \<lfloor>q\<rfloor>; r = q - of_int f in
     if r < 1/2 then f else if r > 1/2 then f + 1 else if even f then f else f + 1)"

definition pow2 :: "int \<Rightarrow> rat" where
  "pow2 e = (if e \<ge> 0 then 2 ^ nat e else 1 / 2 ^ nat (- e))"

text \<open>The float64 nearest to a positive rational of the normal range.\<close>

definition float64 :: "rat \<Rightarrow> rat" where
  "float64 q = (if q \<le> 0 then 0 else
     (case quotient_of q of (n, d) \<Rightarrow>
        let e0 = bitlen n - bitlen d;
            e = (if q < pow2 e0 then e0 - 1 else e0)
        in of_int (round_half_even (q * pow2 (52 - e))) * pow2 (e - 52)))"

section \<open>time.ParseDuration\<close>

definition uint64 :: "int \<Rightarrow> int" where
  "uint64 x = x mod 2 ^ 64"

fun leadingInt :: "int \<Rightarrow> string \<Rightarrow> (int \<times> string) option" where
  "leadingInt x [] = Some (x, [])"
| "leadingInt x (c # s) =
     (if \<not> is_digit c then Some (x, c # s)
      else if x > 2 ^ 63 div 10 then None
      else let y = x * 10 + int (digit_val c) in
           if y > 2 ^ 63 then None else leadingInt y s)"

fun leadingFraction :: "int \<Rightarrow> rat \<Rightarrow> bool \<Rightarrow> string \<Rightarrow> int \<times> rat \<times> string" where
  "leadingFraction x scale overflow [] = (x, scale, [])"
| "leadingFraction x scale overflow (c # s) =
     (if \<not> is_digit c then (x, scale, c # s)
      else if overflow then leadingFraction x scale True s
      else if x > (2 ^ 63 - 1) div 10 then leadingFraction x scale True s
      else let y = x * 10 + int (digit_val c) in
           if y > 2 ^ 63 then leadingFraction x scale True s
           else leadingFraction y (float64 (scale * 10)) False s)"

definition unitMap :: "string \<Rightarrow> int option" where
  "unitMap u =
     (if u = ''ns'' then Some 1
      else if u = ''us'' \<or> u = [CHR 0xC2, CHR 0xB5, CHR ''s''] \<or> u = [CHR 0xCE, CHR 0xBC, CHR ''s'']
        then Some 1000
      else if u = ''ms'' then Some 1000000
      else if u = ''s'' then Some 1000000000
      else if u = ''m'' then Some 60000000000
      else if u = ''h'' then Some 3600000000000
      else None)"

definition unit_char :: "char \<Rightarrow> bool" where
  "unit_char c \<longleftrightarrow> c \<noteq> CHR ''.'' \<and> \<not> is_digit c"

definition invalid_duration :: "string \<Rightarrow> errmsg" where
  "invalid_duration orig = Errf ''time: invalid duration %q'' [EStr orig]"

text \<open>
  One number with its unit: the value of the component in nanoseconds and the rest of the
  text.
\<close>

definition duration_component :: "string \<Rightarrow> string \<Rightarrow> (int \<times> string) result" where
  "duration_component orig s =
     (if \<not> (hd s = CHR ''.'' \<or> is_digit (hd s)) then Inl (invalid_duration orig)
      else (case leadingInt 0 s of
        None \<Rightarrow> Inl (invalid_duration orig)
      | Some (v, s1) \<Rightarrow>
          let pre = (length s \<noteq> length s1);
              (f, scale, s2, post) =
                (if s1 \<noteq> [] \<and> hd s1 = CHR ''.'' then
                   (case leadingFraction 0 1 False (tl s1) of
                      (f, scale, r) \<Rightarrow> (f, scale, r, length (tl s1) \<noteq> length r))
                 else (0, 1, s1, False));
              u = takeWhile unit_char s2;
              s3 = dropWhile unit_char s2
          in if \<not> pre \<and> \<not> post then Inl (invalid_duration orig)
             else if u = [] then Inl (Errf ''time: missing unit in duration %q'' [EStr orig])
             else (case unitMap u of
               None \<Rightarrow> Inl (Errf ''time: unknown unit %q in duration %q'' [EStr u, EStr orig])
             | Some unit \<Rightarrow>
                 if v > 2 ^ 63 div unit then Inl (invalid_duration orig)
                 else let v1 = uint64 (v * unit);
                          v2 = (if f > 0 then uint64 (v1 +
                                  \<lfloor>float64 (float64 (of_int f) * float64 (of_int unit / scale))\<rfloor>)
                                else v1)
                      in if f > 0 \<and> v2 > 2 ^ 63 then Inl (invalid_duration orig)
                         else Inr (v2, s3))))"

lemma leadingInt_length: "leadingInt x s = Some (y, r) \<Longrightarrow> length r \<le> length s"
  by (induction x s arbitrary: y r rule: leadingInt.induct) (force simp: Let_def split: if_splits)+

lemma leadingFraction_length: "leadingFraction x sc ov s = (y, sc', r) \<Longrightarrow> length r \<le> length s"
  by (induction x sc ov s arbitrary: y sc' r rule: leadingFraction.induct)
    (force simp: Let_def split: if_splits)+

lemma duration_component_shrinks:
  assumes "duration_component orig s = Inr (v, r)"
  shows "length r < length s"
proof -
  obtain x s1 where s1: "leadingInt 0 s = Some (x, s1)"
    using assms by (auto simp: duration_component_def split: if_splits option.splits)
  obtain f sc s2 where fr: "leadingFraction 0 1 False (tl s1) = (f, sc, s2)"
    by (cases "leadingFraction 0 1 False (tl s1)")
  define t where "t = (if s1 \<noteq> [] \<and> hd s1 = CHR ''.'' then s2 else s1)"
  have r: "r = dropWhile unit_char t" "takeWhile unit_char t \<noteq> []"
    using assms s1 fr unfolding t_def
    by (auto simp: duration_component_def Let_def split: if_splits option.splits)
  have "length r < length t"
    using r length_append [of "takeWhile unit_char t" "dropWhile unit_char t"] by (auto simp: neq_Nil_conv)
  moreover have "length t \<le> length s1"
    using leadingFraction_length [OF fr] by (auto simp: t_def)
  moreover have "length s1 \<le> length s" using leadingInt_length [OF s1] .
  ultimately show ?thesis by linarith
qed

function duration_loop :: "string \<Rightarrow> int \<Rightarrow> string \<Rightarrow> int result" where
  "duration_loop orig d s =
     (if s = [] then Inr d
      else (case duration_component orig s of
        Inl e \<Rightarrow> Inl e
      | Inr (v, r) \<Rightarrow>
          let d' = uint64 (d + v) in
          if d' > 2 ^ 63 then Inl (invalid_duration orig) else duration_loop orig d' r))"
  by pat_completeness auto
termination
  by (relation "measure (\<lambda>(_, _, s). length s)") (auto dest: duration_component_shrinks)

declare duration_loop.simps [simp del]

definition time_ParseDuration :: "string \<Rightarrow> int result" where
  "time_ParseDuration orig =
     (let neg = (orig \<noteq> [] \<and> hd orig = CHR ''-'');
          s = (if orig \<noteq> [] \<and> (hd orig = CHR ''-'' \<or> hd orig = CHR ''+'') then tl orig else orig)
      in if s = ''0'' then Inr 0
         else if s = [] then Inl (invalid_duration orig)
         else (case duration_loop orig 0 s of
           Inl e \<Rightarrow> Inl e
         | Inr d \<Rightarrow>
             if neg then Inr (int64 (- int64 d))
             else if d > 2 ^ 63 - 1 then Inl (invalid_duration orig)
             else Inr (int64 d)))"

section \<open>ParseDuration and JSON durations\<close>

definition time_Hour :: int where "time_Hour = 3600000000000"
definition hoursPerDay :: int where "hoursPerDay = 24"

definition ParseDuration :: "string \<Rightarrow> int result" where
  "ParseDuration s0 =
     (let s = TrimSpace s0 in
      if s = [] then Inr 0
      else if HasSuffix s ''d'' then
        (case Atoi (TrimSuffix s ''d'') of
           Inl err \<Rightarrow> Inl (Errf ''invalid day duration %q: %w'' [EStr s, EErr err])
         | Inr days \<Rightarrow> Inr (int64 (int64 (days * hoursPerDay) * time_Hour)))
      else time_ParseDuration s)"

text \<open>
  The conversion \<open>int64(val)\<close> of a float64 truncates towards zero; out of range it gives the
  smallest \<open>int64\<close>, as the amd64 instruction does.
\<close>

definition float_to_int64 :: "rat \<Rightarrow> int" where
  "float_to_int64 q =
     (let t = (if q < 0 then - \<lfloor>- q\<rfloor> else \<lfloor>q\<rfloor>) in if in_int64 t then t else min_int64)"

definition Duration_UnmarshalJSON :: "raw_json \<Rightarrow> int result" where
  "Duration_UnmarshalJSON b = (case json_unmarshal b of
     Inl err \<Rightarrow> Inl (Errf ''parse duration: %w'' [EErr err])
   | Inr v \<Rightarrow> (case v of
       VStr val \<Rightarrow>
         (if val = [] then Inr 0
          else (case ParseDuration val of
            Inl err \<Rightarrow> Inl (Errf ''parse duration %q: %w'' [EStr val, EErr err])
          | Inr parsed \<Rightarrow> Inr parsed))
     | VFloat val \<Rightarrow> Inr (float_to_int64 val)
     | _ \<Rightarrow> Inl (Errf ''invalid duration type: %T'' [])))"

section \<open>Facts\<close>

lemma round_half_even_int [simp]: "round_half_even (of_int k) = k"
  by (simp add: round_half_even_def Let_def)

lemma pow2_cancel: "pow2 e * pow2 (- e) = 1"
  by (cases "e = 0") (auto simp: pow2_def)

text \<open>Integers of at most 53 bits are exact.\<close>

lemma float64_int:
  assumes "0 \<le> n" and "n < 2 ^ 53"
  shows "float64 (of_int n) = of_int n"
proof (cases "n = 0")
  case False
  with assms have n: "0 < n" by simp
  have q: "quotient_of (of_int n) = (n, 1)" by simp
  define e where "e = (if of_int n < pow2 (bitlen n - bitlen 1) then bitlen n - bitlen 1 - 1 else bitlen n - bitlen 1)"
  have "bitlen n \<le> 53" using assms n by (simp add: bitlen_le_iff_power)
  moreover have "bitlen 1 = 1" by (simp add: bitlen_alt_def)
  ultimately have le: "e \<le> 52" by (auto simp: e_def)
  then have p: "of_int n * pow2 (52 - e) = (of_int (n * 2 ^ nat (52 - e)) :: rat)" by (simp add: pow2_def)
  have "float64 (of_int n) = of_int (round_half_even (of_int n * pow2 (52 - e))) * pow2 (e - 52)"
    using n by (simp add: float64_def Let_def e_def)
  also have "\<dots> = of_int (n * 2 ^ nat (52 - e)) * pow2 (e - 52)" by (simp only: p round_half_even_int)
  also have "\<dots> = of_int n * (pow2 (52 - e) * pow2 (- (52 - e)))" by (simp only: p [symmetric] minus_diff_eq mult.assoc)
  finally show ?thesis by (simp only: pow2_cancel mult_1_right)
qed (simp add: float64_def)

lemma duration_loop_range:
  "duration_loop orig d s = Inr r \<Longrightarrow> 0 \<le> d \<Longrightarrow> d \<le> 2 ^ 63 \<Longrightarrow> 0 \<le> r \<and> r \<le> 2 ^ 63"
proof (induction orig d s rule: duration_loop.induct)
  case (1 orig d s)
  show ?case
  proof (cases "s = []")
    case True
    with 1(2-4) show ?thesis by (simp add: duration_loop.simps)
  next
    case False
    with 1(2) obtain v t where c: "duration_component orig s = Inr (v, t)"
      by (auto simp: duration_loop.simps [of orig d s] split: sum.splits)
    with False 1(2) have "duration_loop orig (uint64 (d + v)) t = Inr r" "uint64 (d + v) \<le> 2 ^ 63"
      by (auto simp: duration_loop.simps [of orig d s] Let_def split: if_splits)
    moreover have "0 \<le> uint64 (d + v)" by (simp add: uint64_def)
    ultimately show ?thesis using 1(1) [OF False c refl refl] by simp
  qed
qed

lemma time_ParseDuration_range: "time_ParseDuration s = Inr d \<Longrightarrow> in_int64 d"
  by (auto simp: time_ParseDuration_def Let_def in_int64_def min_int64_def max_int64_def
      split: if_splits sum.splits)
    (use int64_range in \<open>auto simp: in_int64_def min_int64_def max_int64_def\<close>)

lemma ParseDuration_range: "ParseDuration s = Inr d \<Longrightarrow> in_int64 d"
  by (auto simp: ParseDuration_def Let_def in_int64_def min_int64_def max_int64_def
      split: if_splits sum.splits)
    (use int64_range time_ParseDuration_range in \<open>force simp: in_int64_def min_int64_def max_int64_def\<close>)+

lemma digit_not_space: "is_digit c \<Longrightarrow> \<not> is_space c"
  by (auto simp: is_digit_def is_space_def)

lemma Atoi_digits:
  assumes "ds \<noteq> []" and "list_all is_digit ds" and "in_int64 (int (digits_val ds))"
  shows "Atoi ds = Inr (int (digits_val ds))"
proof -
  have "is_digit (hd ds)" using assms(1,2) by (cases ds) auto
  then have "hd ds \<noteq> CHR ''-''" "hd ds \<noteq> CHR ''+''" by (auto simp: is_digit_def)
  with assms show ?thesis by (simp add: Atoi_def)
qed

lemma ParseDuration_wraps:
  assumes "ds \<noteq> []" and "list_all is_digit ds" and "in_int64 (int (digits_val ds))"
  shows "ParseDuration (ds @ ''d'') = Inr (int64 (int (digits_val ds) * 86400000000000))"
proof -
  have "\<forall>c \<in> set (ds @ ''d''). \<not> is_space c"
    using assms(2) digit_not_space by (auto simp: list_all_iff) (simp add: is_space_def)
  then have "TrimSpace (ds @ ''d'') = ds @ ''d''" by (rule TrimSpace_no_space)
  with assms show ?thesis
    by (simp add: ParseDuration_def Atoi_digits int64_mult mult.assoc hoursPerDay_def time_Hour_def)
qed

lemmas duration_eval_simps = ParseDuration_def Atoi_def TrimSpace_def is_space_def HasSuffix_def
  TrimSuffix_def digits_val_def is_digit_def digit_val_def hoursPerDay_def time_Hour_def
  in_int64_def min_int64_def max_int64_def int64_def

section \<open>Properties\<close>

text \<open>\<open>ParseDuration\<close> of a number of days gives exactly that many 24-hour days for up to
  106751 days, the largest number whose nanoseconds fit in 64 bits; beyond it the product is
  reduced modulo \<open>2 ^ 64\<close> instead of being reported, and 106752 days is a negative duration.\<close>
theorem parse_duration_days:
  assumes "ds \<noteq> []" and "list_all is_digit ds" and "in_int64 (int (digits_val ds))"
  shows "ParseDuration (ds @ ''d'') = Inr (int64 (int (digits_val ds) * 86400000000000)) \<and>
    (digits_val ds \<le> 106751 \<longrightarrow>
       ParseDuration (ds @ ''d'') = Inr (int (digits_val ds) * 86400000000000)) \<and>
    ParseDuration ''106752d'' = Inr (- 9223371273709551616)"
proof -
  have "in_int64 (int (digits_val ds) * 86400000000000)" if "digits_val ds \<le> 106751"
    using that by (simp add: in_int64_def min_int64_def max_int64_def)
  moreover have "ParseDuration ''106752d'' = Inr (- 9223371273709551616)"
    by (simp add: duration_eval_simps)
  ultimately show ?thesis using ParseDuration_wraps [OF assms] by (simp add: int64_id)
qed

theorem parse_duration_days_witness:
  "ParseDuration ''30d'' = Inr 2592000000000000"
  using parse_duration_days [of "''30''"] by (simp add: duration_eval_simps)

text \<open>Decoding a JSON duration never leaves the range of \<open>time.Duration\<close>: a string decodes
  to what \<open>ParseDuration\<close> makes of it, a number to its integer part, and null, booleans,
  lists and objects are errors.\<close>
theorem duration_unmarshal_range:
  "case Duration_UnmarshalJSON b of
     Inr d \<Rightarrow> in_int64 d \<and> (\<exists>v. b = RawJson v \<and>
       (v = VStr [] \<and> d = 0 \<or> (\<exists>s. v = VStr s \<and> ParseDuration s = Inr d) \<or>
        (\<exists>q. v = VFloat q \<and> d = float_to_int64 q)))
   | Inl e \<Rightarrow> \<not> (\<exists>q. b = RawJson (VFloat q)) \<and> b \<noteq> RawJson (VStr [])"
proof -
  have "in_int64 (float_to_int64 q)" for q
    by (auto simp: float_to_int64_def Let_def in_int64_def min_int64_def max_int64_def)
  then show ?thesis
    by (cases b) (auto simp: Duration_UnmarshalJSON_def json_unmarshal_def in_int64_def
        min_int64_def max_int64_def ParseDuration_range [unfolded in_int64_def min_int64_def max_int64_def]
        split: any.splits sum.splits dest: ParseDuration_range)
qed

end
