(* ===== verification/Dsl_Template.thy ===== *)
theory Dsl_Template
  imports Dsl_Types "HOL-Library.List_Lexorder" "HOL-Library.Char_ord"
begin

text \<open>
  \<open>dsl/template.go\<close>: \<open>{{ path }}\<close> placeholders in strings, their resolution against nested
  maps, and the syntactic check of templates.

  The regular expression \<open>\{\{\s*([^}]+?)\s*\}\}\<close> is modelled by a scanner: since the group
  cannot contain a closing brace, a match that starts at an opening \<open>{{\<close> exists exactly when
  the maximal run of other characters after it is not empty and is followed by \<open>}}\<close>, and the
  group, once trimmed, is the trimmed run. \<open>fmt.Sprintf("%v", val)\<close> is \<open>fmt_v\<close>, with the
  formatting of a float64 as its argument.
\<close>

section \<open>Scanning\<close>

datatype segment = Lit char | Hole string

definition hole_at :: "string \<Rightarrow> (string \<times> string) option" where
  "hole_at s =
     (if take 2 s = ''{{'' then
        (let inner = takeWhile (\<lambda>c. c \<noteq> CHR ''}'') (drop 2 s);
             rest = dropWhile (\<lambda>c. c \<noteq> CHR ''}'') (drop 2 s)
         in if inner \<noteq> [] \<and> take 2 rest = ''}}'' then Some (inner, drop 2 rest) else None)
      else None)"

lemma hole_at_SomeD: "hole_at s = Some (inner, rest) \<Longrightarrow> s = ''{{'' @ inner @ ''}}'' @ rest"
proof -
  assume a: "hole_at s = Some (inner, rest)"
  define r where "r = dropWhile (\<lambda>c. c \<noteq> CHR ''}'') (drop 2 s)"
  have i: "take 2 s = ''{{''" "inner = takeWhile (\<lambda>c. c \<noteq> CHR ''}'') (drop 2 s)"
    "take 2 r = ''}}''" "rest = drop 2 r"
    using a by (auto simp: hole_at_def Let_def r_def split: if_splits)
  have "s = take 2 s @ drop 2 s" by simp
  moreover have "drop 2 s = inner @ r" by (simp add: i r_def)
  moreover have "r = take 2 r @ drop 2 r" by simp
  ultimately show ?thesis using i by metis
qed

function segments :: "string \<Rightarrow> segment list" where
  "segments [] = []"
| "segments (c # s) = (case hole_at (c # s) of
     Some (inner, rest) \<Rightarrow> Hole inner # segments rest
   | None \<Rightarrow> Lit c # segments s)"
  by pat_completeness auto
termination
  by (relation "measure length") (auto dest!: hole_at_SomeD dest: arg_cong [where f = length])

text \<open>The paths of the placeholders, in order (\<open>FindAllStringSubmatch\<close> with the group trimmed).\<close>

definition hole_paths :: "string \<Rightarrow> string list" where
  "hole_paths template =
     concat (map (\<lambda>g. case g of Hole inner \<Rightarrow> [TrimSpace inner] | Lit _ \<Rightarrow> []) (segments template))"

definition segment_text :: "segment \<Rightarrow> string" where
  "segment_text g = (case g of Lit c \<Rightarrow> [c] | Hole inner \<Rightarrow> ''{{'' @ inner @ ''}}'')"

lemma segment_text_simps [simp]:
  "segment_text (Lit c) = [c]"
  "segment_text (Hole inner) = ''{{'' @ inner @ ''}}''"
  by (simp_all add: segment_text_def)

section \<open>Formatting with %v\<close>

fun dec_digits :: "nat \<Rightarrow> string" where
  "dec_digits n = (if n < 10 then [char_of (n + 48)] else dec_digits (n div 10) @ [char_of (n mod 10 + 48)])"

declare dec_digits.simps [simp del]

definition fmt_int :: "int \<Rightarrow> string" where
  "fmt_int i = (if i < 0 then CHR ''-'' # dec_digits (nat (- i)) else dec_digits (nat i))"

fun join_with :: "string \<Rightarrow> string list \<Rightarrow> string" where
  "join_with sep [] = []"
| "join_with sep [x] = x"
| "join_with sep (x # y # xs) = x @ sep @ join_with sep (y # xs)"

fun fmt_v :: "(rat \<Rightarrow> string) \<Rightarrow> any \<Rightarrow> string" where
  "fmt_v ff VNil = ''<nil>''"
| "fmt_v ff (VBool b) = (if b then ''true'' else ''false'')"
| "fmt_v ff (VInt i) = fmt_int i"
| "fmt_v ff (VFloat q) = ff q"
| "fmt_v ff (VStr s) = s"
| "fmt_v ff (VList vs) = ''['' @ join_with '' '' (map (fmt_v ff) vs) @ '']''"
| "fmt_v ff (VMap m) =
     ''map['' @ join_with '' '' (map snd (sort_key fst
       (map (\<lambda>(k, v). (k, k @ '':'' @ fmt_v ff v)) m))) @ '']''"

section \<open>Resolution\<close>

fun walk_path :: "string list \<Rightarrow> any \<Rightarrow> any result" where
  "walk_path [] current = Inr current"
| "walk_path (part # parts) current = (case current of
     VMap m \<Rightarrow> (case map_of m part of
       None \<Rightarrow> Inl (Errf ''key %q not found'' [EStr part])
     | Some val \<Rightarrow> walk_path parts val)
   | _ \<Rightarrow> Inl (Errf ''cannot traverse into non-map at %q'' [EStr part]))"

definition resolvePath :: "string \<Rightarrow> go_map \<Rightarrow> any result" where
  "resolvePath path vars = walk_path (split_on CHR ''.'' path) (VMap vars)"

text \<open>
  The replacement function of \<open>ReplaceAllStringFunc\<close> with its captured \<open>resolveErr\<close>: after the
  first error every later match is left as it is.
\<close>

definition replace_segment ::
    "(rat \<Rightarrow> string) \<Rightarrow> go_map \<Rightarrow> string list \<Rightarrow> errmsg option \<times> string \<Rightarrow> segment \<Rightarrow> errmsg option \<times> string" where
  "replace_segment ff vars deferred st g = (case st of (resolveErr, out) \<Rightarrow> (case g of
     Lit c \<Rightarrow> (resolveErr, out @ [c])
   | Hole inner \<Rightarrow>
       (if resolveErr \<noteq> None then (resolveErr, out @ segment_text g)
        else let path = TrimSpace inner in
          if cut_before CHR ''.'' path \<in> set deferred then (resolveErr, out @ segment_text g)
          else (case resolvePath path vars of
            Inl err \<Rightarrow> (Some (Errf ''resolve %q: %w'' [EStr path, EErr err]), out @ segment_text g)
          | Inr val \<Rightarrow> (None, out @ fmt_v ff val)))))"

definition resolveTemplate ::
    "(rat \<Rightarrow> string) \<Rightarrow> string \<Rightarrow> go_map \<Rightarrow> string list \<Rightarrow> string result" where
  "resolveTemplate ff template vars deferred =
     (case foldl (replace_segment ff vars deferred) (None, []) (segments template) of
        (Some err, _) \<Rightarrow> Inl err
      | (None, out) \<Rightarrow> Inr out)"

definition ResolveTemplate :: "(rat \<Rightarrow> string) \<Rightarrow> string \<Rightarrow> go_map \<Rightarrow> string result" where
  "ResolveTemplate ff template vars = resolveTemplate ff template vars []"

definition ValidateTemplate :: "string \<Rightarrow> errmsg list" where
  "ValidateTemplate template = concat (map (\<lambda>path.
     if path = [] then [Errf ''empty template expression'' []]
     else let parts = split_on CHR ''.'' path in
       if length parts = 0 \<or> parts ! 0 = [] then [Errf ''invalid template path: %q'' [EStr path]] else [])
     (hole_paths template))"

definition ExtractTemplateVars :: "string \<Rightarrow> string list" where
  "ExtractTemplateVars template = hole_paths template"

text \<open>
  Values of any type. The entries of a map are visited in the order of the association list;
  Go visits them in an unspecified order, which can only change which error is reported.
\<close>

fun resolveTemplateValue ::
      "(rat \<Rightarrow> string) \<Rightarrow> any \<Rightarrow> go_map \<Rightarrow> string list \<Rightarrow> any result"
  and resolve_entries ::
      "(rat \<Rightarrow> string) \<Rightarrow> go_map \<Rightarrow> go_map \<Rightarrow> string list \<Rightarrow> go_map result"
  and resolve_elems ::
      "(rat \<Rightarrow> string) \<Rightarrow> nat \<Rightarrow> any list \<Rightarrow> go_map \<Rightarrow> string list \<Rightarrow> any list result" where
  "resolveTemplateValue ff (VStr v) vars deferred =
     and_then (resolveTemplate ff v vars deferred) (\<lambda>s. Inr (VStr s))"
| "resolveTemplateValue ff (VMap v) vars deferred =
     and_then (resolve_entries ff v vars deferred) (\<lambda>m. Inr (VMap m))"
| "resolveTemplateValue ff (VList v) vars deferred =
     and_then (resolve_elems ff 0 v vars deferred) (\<lambda>l. Inr (VList l))"
| "resolveTemplateValue ff VNil vars deferred = Inr VNil"
| "resolveTemplateValue ff (VBool b) vars deferred = Inr (VBool b)"
| "resolveTemplateValue ff (VInt i) vars deferred = Inr (VInt i)"
| "resolveTemplateValue ff (VFloat q) vars deferred = Inr (VFloat q)"
| "resolve_entries ff [] vars deferred = Inr []"
| "resolve_entries ff ((k, val) # m) vars deferred =
     (case resolveTemplateValue ff val vars deferred of
        Inl err \<Rightarrow> Inl (Errf ''resolve key %q: %w'' [EStr k, EErr err])
      | Inr resolved \<Rightarrow> and_then (resolve_entries ff m vars deferred) (\<lambda>r. Inr ((k, resolved) # r)))"
| "resolve_elems ff i [] vars deferred = Inr []"
| "resolve_elems ff i (val # vs) vars deferred =
     (case resolveTemplateValue ff val vars deferred of
        Inl err \<Rightarrow> Inl (Errf ''resolve index %d: %w'' [EInt (int i), EErr err])
      | Inr resolved \<Rightarrow> and_then (resolve_elems ff (Suc i) vs vars deferred) (\<lambda>r. Inr (resolved # r)))"

definition ResolveTemplateValue :: "(rat \<Rightarrow> string) \<Rightarrow> any \<Rightarrow> go_map \<Rightarrow> any result" where
  "ResolveTemplateValue ff value vars = resolveTemplateValue ff value vars []"

definition ResolveTemplateValueDeferring ::
    "(rat \<Rightarrow> string) \<Rightarrow> any \<Rightarrow> go_map \<Rightarrow> string list \<Rightarrow> any result" where
  "ResolveTemplateValueDeferring ff value vars deferredRoots =
     resolveTemplateValue ff value vars deferredRoots"

section \<open>Facts\<close>

lemma segments_text: "concat (map segment_text (segments s)) = s"
proof (induction s rule: segments.induct)
  case (2 c s)
  show ?case
  proof (cases "hole_at (c # s)")
    case None
    with 2(1) show ?thesis by simp
  next
    case (Some p)
    obtain inner rest where p: "p = (inner, rest)" by force
    with Some have "c # s = ''{{'' @ inner @ ''}}'' @ rest" using hole_at_SomeD by simp
    moreover have "concat (map segment_text (segments rest)) = rest"
      using 2(2) [OF Some p [symmetric]] by simp
    ultimately show ?thesis using Some p by simp
  qed
qed simp

definition resolvable :: "go_map \<Rightarrow> string list \<Rightarrow> string \<Rightarrow> bool" where
  "resolvable vars deferred path \<longleftrightarrow>
     cut_before CHR ''.'' path \<in> set deferred \<or> is_ok (resolvePath path vars)"

definition rendered :: "(rat \<Rightarrow> string) \<Rightarrow> go_map \<Rightarrow> string list \<Rightarrow> segment \<Rightarrow> string" where
  "rendered ff vars deferred g = (case g of
     Lit c \<Rightarrow> [c]
   | Hole inner \<Rightarrow> (let path = TrimSpace inner in
       if cut_before CHR ''.'' path \<in> set deferred then segment_text g
       else (case resolvePath path vars of Inr val \<Rightarrow> fmt_v ff val | Inl _ \<Rightarrow> segment_text g)))"

definition seg_ok :: "go_map \<Rightarrow> string list \<Rightarrow> segment \<Rightarrow> bool" where
  "seg_ok vars deferred g = (case g of Lit _ \<Rightarrow> True | Hole inner \<Rightarrow> resolvable vars deferred (TrimSpace inner))"

lemma replace_keeps_error: "\<exists>out'. foldl (replace_segment ff vars deferred) (Some e, out) gs = (Some e, out')"
  by (induction gs arbitrary: out) (auto simp: replace_segment_def split: segment.splits)

lemma foldl_replace:
  "(\<forall>g \<in> set gs. seg_ok vars deferred g) \<Longrightarrow>
     foldl (replace_segment ff vars deferred) (None, out) gs = (None, out @ concat (map (rendered ff vars deferred) gs))"
proof (induction gs arbitrary: out)
  case (Cons g gs)
  have "replace_segment ff vars deferred (None, out) g = (None, out @ rendered ff vars deferred g)"
    using Cons.prems
    by (auto simp: replace_segment_def rendered_def seg_ok_def resolvable_def Let_def
        split: segment.splits sum.splits)
  with Cons show ?case by simp
qed simp

lemma foldl_replace_error:
  "\<not> (\<forall>g \<in> set gs. seg_ok vars deferred g) \<Longrightarrow>
     \<exists>e out'. foldl (replace_segment ff vars deferred) (None, out) gs = (Some e, out')"
proof (induction gs arbitrary: out)
  case (Cons g gs)
  show ?case
  proof (cases "seg_ok vars deferred g")
    case True
    with Cons.prems have "\<not> (\<forall>g \<in> set gs. seg_ok vars deferred g)" by simp
    moreover have "\<exists>o'. replace_segment ff vars deferred (None, out) g = (None, o')"
      using True by (auto simp: replace_segment_def seg_ok_def resolvable_def Let_def
          split: segment.splits sum.splits)
    ultimately show ?thesis using Cons.IH by auto
  next
    case False
    then have "\<exists>e o'. replace_segment ff vars deferred (None, out) g = (Some e, o')"
      by (auto simp: replace_segment_def seg_ok_def resolvable_def Let_def is_ok_def
          split: segment.splits sum.splits)
    with replace_keeps_error show ?thesis by fastforce
  qed
qed simp

lemma seg_ok_hole_paths:
  "(\<forall>g \<in> set (segments t). seg_ok vars deferred g) \<longleftrightarrow> (\<forall>p \<in> set (hole_paths t). resolvable vars deferred p)"
  by (force simp: hole_paths_def seg_ok_def split: segment.splits)

lemma resolveTemplate_ok:
  "(\<forall>p \<in> set (hole_paths t). resolvable vars deferred p) \<Longrightarrow>
     resolveTemplate ff t vars deferred = Inr (concat (map (rendered ff vars deferred) (segments t)))"
  by (simp add: resolveTemplate_def foldl_replace seg_ok_hole_paths)

lemma resolveTemplate_error:
  "\<not> (\<forall>p \<in> set (hole_paths t). resolvable vars deferred p) \<Longrightarrow>
     \<not> is_ok (resolveTemplate ff t vars deferred)"
  using foldl_replace_error [of "segments t" vars deferred ff "[]"]
  by (auto simp: resolveTemplate_def seg_ok_hole_paths)

section \<open>Properties\<close>

text \<open>C9: resolving a template succeeds exactly when every path that \<open>ExtractTemplateVars\<close>
  reports resolves in the variables, and then every placeholder is replaced by the formatted
  value of its path while the rest of the text is copied.\<close>
theorem resolve_template_succeeds_iff:
  "(is_ok (ResolveTemplate ff t vars) \<longleftrightarrow>
      list_all (\<lambda>p. is_ok (resolvePath p vars)) (ExtractTemplateVars t)) \<and>
   (case ResolveTemplate ff t vars of
      Inr out \<Rightarrow> out = concat (map (rendered ff vars []) (segments t))
    | Inl _ \<Rightarrow> True)"
proof (cases "\<forall>p \<in> set (hole_paths t). resolvable vars [] p")
  case True
  then show ?thesis
    by (auto simp: ResolveTemplate_def ExtractTemplateVars_def resolveTemplate_ok [OF True]
        list_all_iff resolvable_def)
next
  case False
  then have "\<not> is_ok (ResolveTemplate ff t vars)"
    unfolding ResolveTemplate_def by (rule resolveTemplate_error)
  moreover from False have "\<not> list_all (\<lambda>p. is_ok (resolvePath p vars)) (ExtractTemplateVars t)"
    by (auto simp: ExtractTemplateVars_def list_all_iff resolvable_def)
  ultimately show ?thesis by (auto split: sum.splits)
qed

text \<open>A string all of whose placeholders start with a deferred root is returned verbatim,
  whatever variables are bound; in particular a string without placeholders is.\<close>
theorem deferred_placeholders_verbatim:
  assumes "\<forall>p \<in> set (ExtractTemplateVars t). cut_before CHR ''.'' p \<in> set deferred"
  shows "ResolveTemplateValueDeferring ff (VStr t) vars deferred = Inr (VStr t)"
proof -
  have ok: "\<forall>p \<in> set (hole_paths t). resolvable vars deferred p"
    using assms by (simp add: ExtractTemplateVars_def resolvable_def)
  have "rendered ff vars deferred g = segment_text g" if "g \<in> set (segments t)" for g
  proof (cases g)
    case (Hole inner)
    with that have "TrimSpace inner \<in> set (hole_paths t)" by (force simp: hole_paths_def)
    with assms Hole show ?thesis by (simp add: rendered_def ExtractTemplateVars_def)
  qed (simp add: rendered_def segment_text_def)
  then have "concat (map (rendered ff vars deferred) (segments t)) = concat (map segment_text (segments t))"
    by (metis map_cong)
  with ok show ?thesis
    by (simp add: ResolveTemplateValueDeferring_def resolveTemplate_ok segments_text)
qed

theorem deferred_placeholders_verbatim_witness:
  "ResolveTemplateValueDeferring (\<lambda>_. []) (VStr ''a {{ env.x }}'') [] [''env''] = Inr (VStr ''a {{ env.x }}'')"
  by (rule deferred_placeholders_verbatim)
    (simp add: ExtractTemplateVars_def hole_paths_def hole_at_def TrimSpace_def is_space_def cut_before_def)

end
