(* ===== verification/Dsl_Schedule.thy ===== *)
theory Dsl_Schedule
  imports Dsl_Types
begin

text \<open>
  \<open>dsl/schedule.go\<close> and \<open>dsl/schedutil.go\<close>: cron schedules and the jitter that spreads them.

  The cron library (\<open>github.com/robfig/cron/v3\<close>) and the time zone database behind
  \<open>time.LoadLocation\<close> are the parameter record \<open>cron_lib\<close>. A \<open>time.Time\<close> is its instant in
  nanoseconds; the location it is read in is a separate argument of \<open>cron_Next\<close>, the only
  operation that depends on it.
\<close>

unbundle bit_operations_syntax

record ('sch, 'loc) cron_lib =
  cron_Parse :: "string \<Rightarrow> 'sch result"
  cron_Next :: "'sch \<Rightarrow> 'loc \<Rightarrow> int \<Rightarrow> int"
  loc_Load :: "string \<Rightarrow> 'loc result"
  loc_UTC :: "'loc"

record 'sch CronSchedule =
  cs_expr :: string
  cs_schedule :: 'sch

definition ParseCron :: "('sch, 'loc) cron_lib \<Rightarrow> string \<Rightarrow> 'sch CronSchedule result" where
  "ParseCron cron expr =
     (let trimmed = TrimSpace expr in
      if trimmed = [] then Inl (Errf ''cron expression is empty'' [])
      else (case cron_Parse cron trimmed of
        Inl err \<Rightarrow> Inl (Errf ''parse cron %q: %w'' [EStr trimmed, EErr err])
      | Inr sched \<Rightarrow> Inr \<lparr>cs_expr = trimmed, cs_schedule = sched\<rparr>))"

definition CronSchedule_Expr :: "'sch CronSchedule \<Rightarrow> string" where
  "CronSchedule_Expr s = cs_expr s"

definition CronSchedule_Next ::
    "('sch, 'loc) cron_lib \<Rightarrow> 'sch CronSchedule \<Rightarrow> 'loc \<Rightarrow> int \<Rightarrow> int" where
  "CronSchedule_Next cron s loc from = cron_Next cron (cs_schedule s) loc from"

definition NextInZone ::
    "('sch, 'loc) cron_lib \<Rightarrow> 'sch CronSchedule \<Rightarrow> int \<Rightarrow> string \<Rightarrow> int result" where
  "NextInZone cron s from zone =
     (if zone = [] \<or> zone = ''UTC'' then Inr (cron_Next cron (cs_schedule s) (loc_UTC cron) from)
      else (case loc_Load cron zone of
        Inl err \<Rightarrow> Inl (Errf ''load zone %q: %w'' [EStr zone, EErr err])
      | Inr loc \<Rightarrow> Inr (cron_Next cron (cs_schedule s) loc from)))"

section \<open>Jitter\<close>

definition time_Second :: int where "time_Second = 1000000000"
definition CronMaxJitter :: int where "CronMaxJitter = 30 * time_Second"
definition cronJitterPeriodDivisor :: int where "cronJitterPeriodDivisor = 10"

text \<open>\<open>Time.Sub\<close> saturates at the ends of the \<open>int64\<close> range.\<close>

definition time_Sub :: "int \<Rightarrow> int \<Rightarrow> int" where
  "time_Sub t u = max min_int64 (min max_int64 (t - u))"

text \<open>\<open>hash/fnv\<close>'s 64-bit FNV-1a.\<close>

definition fnv64a :: "string \<Rightarrow> 64 word" where
  "fnv64a s = foldl (\<lambda>h c. (h XOR of_nat (of_char c)) * 1099511628211) 14695981039346656037 s"

definition JitterFor ::
    "('sch, 'loc) cron_lib \<Rightarrow> string \<Rightarrow> 'sch CronSchedule \<Rightarrow> 'loc \<Rightarrow> int \<Rightarrow> int" where
  "JitterFor cron scheduleID cronSched loc nominal =
     (let following = CronSchedule_Next cron cronSched loc nominal;
          period = time_Sub following nominal
      in if period \<le> 0 then 0
         else let m = go_div period cronJitterPeriodDivisor;
                  maxDur = (if m > CronMaxJitter then CronMaxJitter else m)
              in if maxDur \<le> 0 then 0
                 else int (unat (fnv64a scheduleID)) mod maxDur)"

section \<open>Properties\<close>

text \<open>The jitter of a schedule is never negative, always less than 30 seconds, and less
  than a tenth of the time to the following fire, so that a jittered fire time always lies
  before the next nominal one.\<close>
theorem jitter_bounds:
  assumes "nominal < CronSchedule_Next cron s loc nominal"
  shows "let j = JitterFor cron sid s loc nominal; following = CronSchedule_Next cron s loc nominal in
    0 \<le> j \<and> j < CronMaxJitter \<and> 10 * j \<le> following - nominal \<and> nominal + j < following"
proof -
  define f where "f = CronSchedule_Next cron s loc nominal"
  define period where "period = time_Sub f nominal"
  have p: "0 < period" "period \<le> f - nominal"
    using assms by (auto simp: period_def f_def time_Sub_def min_int64_def max_int64_def)
  define maxDur where "maxDur = min CronMaxJitter (period div 10)"
  have m: "maxDur = (if go_div period cronJitterPeriodDivisor > CronMaxJitter then CronMaxJitter
      else go_div period cronJitterPeriodDivisor)"
    using p by (simp add: maxDur_def go_div_nonneg cronJitterPeriodDivisor_def)
  have j: "JitterFor cron sid s loc nominal =
      (if maxDur \<le> 0 then 0 else int (unat (fnv64a sid)) mod maxDur)"
    using p(1) unfolding JitterFor_def Let_def f_def [symmetric] period_def [symmetric] m by simp
  have "0 \<le> JitterFor cron sid s loc nominal \<and>
      (JitterFor cron sid s loc nominal = 0 \<or> JitterFor cron sid s loc nominal < maxDur)"
    unfolding j by simp
  moreover have "maxDur \<le> CronMaxJitter" "10 * maxDur \<le> period"
    by (simp_all add: maxDur_def)
  ultimately show ?thesis
    using p assms unfolding Let_def f_def [symmetric] by (auto simp: CronMaxJitter_def time_Second_def)
qed

definition example_cron :: "(unit, unit) cron_lib" where
  "example_cron = \<lparr>cron_Parse = (\<lambda>_. Inr ()), cron_Next = (\<lambda>_ _ t. t + 60000000000),
     loc_Load = (\<lambda>_. Inr ()), loc_UTC = ()\<rparr>"

theorem jitter_bounds_witness:
  "0 \<le> JitterFor example_cron ''s1'' \<lparr>cs_expr = ''* * * * *'', cs_schedule = ()\<rparr> () 0 \<and>
   JitterFor example_cron ''s1'' \<lparr>cs_expr = ''* * * * *'', cs_schedule = ()\<rparr> () 0 < CronMaxJitter"
  using jitter_bounds [of 0 example_cron "\<lparr>cs_expr = ''* * * * *'', cs_schedule = ()\<rparr>" "()" "''s1''"]
  by (simp add: example_cron_def CronSchedule_Next_def Let_def)

end
