(* ===== verification/Dsl_Validator.thy ===== *)
theory Dsl_Validator
  imports Dsl_Navigation Dsl_Duration Dsl_Template Dsl_Schedule
begin

text \<open>
  \<open>dsl/validator.go\<close> and \<open>dsl/triggers.go\<close>: the static checks a workflow document passes
  before it is stored. Every checker takes the result so far and returns it with its own errors
  appended, as the Go functions do through the \<open>result\<close> pointer; a \<open>for\<close> loop over steps is a
  \<^const>\<open>fold\<close>. A Go \<open>map\<close> used as a set of seen strings is a list.
\<close>

section \<open>Required fields, types, identifiers, references\<close>

definition validateStepRequiredFields :: "StepSpec \<Rightarrow> ValidationResult \<Rightarrow> ValidationResult" where
  "validateStepRequiredFields step result =
     (let err = (\<lambda>m. AddErrorWithStep ErrMissingRequired (step_ID step) (Errf m []))
      in case step_Type step of
        StepTypeCall \<Rightarrow> (case step_Call step of
          None \<Rightarrow> err ''call step requires 'call' field'' result
        | Some c \<Rightarrow> if call_Action c = [] then err ''call.action is required'' result else result)
      | StepTypeDelay \<Rightarrow> (case step_Delay step of
          None \<Rightarrow> err ''delay step requires 'delay' field'' result
        | Some d \<Rightarrow> if delay_Duration d = 0 \<and> delay_Until d = []
            then err (''delay requires either 'duration' or 'until'' @ [CHR 0x27]) result else result)
      | StepTypeIf \<Rightarrow> (case step_If step of
          None \<Rightarrow> err ''if step requires 'if' field'' result
        | Some b \<Rightarrow>
            (let r1 = (if if_Expr b = [] then err ''if.expr is required'' result else result)
             in if length (if_Then b) = 0 then err ''if.then must have at least one step'' r1 else r1))
      | StepTypeSequence \<Rightarrow>
          if (case step_Sequence step of None \<Rightarrow> True | Some q \<Rightarrow> length (seq_Steps q) = 0)
          then err ''sequence.steps must have at least one step'' result else result
      | StepTypeParallel \<Rightarrow>
          if (case step_Parallel step of None \<Rightarrow> True | Some p \<Rightarrow> length (par_Steps p) = 0)
          then err ''parallel.steps must have at least one step'' result else result
      | StepTypeForeach \<Rightarrow> (case step_Foreach step of
          None \<Rightarrow> err ''foreach step requires 'foreach' field'' result
        | Some f \<Rightarrow>
            (let r1 = (if fe_Items f = [] then err ''foreach.items is required'' result else result)
             in if length (fe_Steps f) = 0 then err ''foreach.steps must have at least one step'' r1 else r1))
      | StepTypeSignalWait \<Rightarrow>
          if (case step_SignalWait step of None \<Rightarrow> True | Some w \<Rightarrow> sw_SignalName w = [])
          then err ''signal_wait.signal_name is required'' result else result
      | StepTypeSignalSend \<Rightarrow> (case step_SignalSend step of
          None \<Rightarrow> err ''signal_send step requires 'signal_send' field'' result
        | Some s \<Rightarrow> if ss_SignalName s = [] then err ''signal_send.signal_name is required'' result else result)
      | StepTypeOther _ \<Rightarrow> result)"

text \<open>The bodies of the loops over the steps are definitions of their own.\<close>

definition required_body :: "StepSpec \<Rightarrow> ValidationResult \<Rightarrow> ValidationResult" where
  "required_body step r =
     (let a = (if step_ID step = [] then AddError ErrMissingRequired (Errf ''step ID is required'' []) r else r);
          b = (if step_type_string (step_Type step) = []
               then AddErrorWithStep ErrMissingRequired (step_ID step) (Errf ''step type is required'' []) a else a)
      in validateStepRequiredFields step b)"

definition validateRequiredFields :: "WorkflowSpec \<Rightarrow> ValidationResult \<Rightarrow> ValidationResult" where
  "validateRequiredFields spec r0 =
     (let r1 = (if wf_Version spec = [] then AddError ErrMissingRequired (Errf ''workflow version is required'' []) r0 else r0);
          r2 = (if wf_Name spec = [] then AddError ErrMissingRequired (Errf ''workflow name is required'' []) r1 else r1);
          r3 = (if length (wf_Steps spec) = 0
                then AddError ErrMissingRequired (Errf ''workflow must have at least one step'' []) r2 else r2)
      in fold required_body (CollectAllSteps spec) r3)"

definition step_type_body :: "StepSpec \<Rightarrow> ValidationResult \<Rightarrow> ValidationResult" where
  "step_type_body step r =
     (if step_type_string (step_Type step) \<noteq> [] \<and> \<not> IsValid (step_Type step)
      then AddErrorWithStep ErrInvalidStepType (step_ID step)
             (Errf ''unknown step type %q'' [EStr (step_type_string (step_Type step))]) r
      else r)"

definition validateStepTypes :: "WorkflowSpec \<Rightarrow> ValidationResult \<Rightarrow> ValidationResult" where
  "validateStepTypes spec = fold step_type_body (CollectAllSteps spec)"

fun unique_ids_loop :: "string list \<Rightarrow> StepSpec list \<Rightarrow> ValidationResult \<Rightarrow> ValidationResult" where
  "unique_ids_loop seen [] r = r"
| "unique_ids_loop seen (step # steps) r =
     (if step_ID step = [] then unique_ids_loop seen steps r
      else let r1 = (if step_ID step \<in> set seen
                     then AddErrorWithStep ErrDuplicateStepID (step_ID step)
                            (Errf ''duplicate step ID %q'' [EStr (step_ID step)]) r
                     else r)
           in unique_ids_loop (step_ID step # seen) steps r1)"

definition validateUniqueIDs :: "WorkflowSpec \<Rightarrow> ValidationResult \<Rightarrow> ValidationResult" where
  "validateUniqueIDs spec r = unique_ids_loop [] (CollectAllSteps spec) r"

definition reference_body :: "string list \<Rightarrow> StepSpec \<Rightarrow> ValidationResult \<Rightarrow> ValidationResult" where
  "reference_body stepIDs step r =
     (if step_DependsOn step \<noteq> [] \<and> step_DependsOn step \<notin> set stepIDs
      then AddErrorWithStep ErrInvalidReference (step_ID step)
             (Errf ''depends_on references unknown step %q'' [EStr (step_DependsOn step)]) r
      else r)"

definition validateReferences :: "WorkflowSpec \<Rightarrow> ValidationResult \<Rightarrow> ValidationResult" where
  "validateReferences spec =
     (let allSteps = CollectAllSteps spec; stepIDs = map step_ID allSteps
      in fold (reference_body stepIDs) allSteps)"

section \<open>Expressions, templates, retries, timeouts\<close>

definition check_expr ::
    "('env, 'ast, 'prg) cel_lib \<Rightarrow> 'env \<Rightarrow> string \<Rightarrow> string \<Rightarrow> string \<Rightarrow> ValidationResult \<Rightarrow> ValidationResult" where
  "check_expr cel env stepID message expr r = (case CompileExpression cel env expr of
     Inl compileErr \<Rightarrow> AddErrorWithStep ErrInvalidExpression stepID (Errf message [EErr compileErr]) r
   | Inr _ \<Rightarrow> r)"

definition validate_step_expressions ::
    "('env, 'ast, 'prg) cel_lib \<Rightarrow> 'env \<Rightarrow> StepSpec \<Rightarrow> ValidationResult \<Rightarrow> ValidationResult" where
  "validate_step_expressions cel env step r0 =
     (let r1 = (case step_If step of
                  Some b \<Rightarrow> if step_Type step = StepTypeIf \<and> if_Expr b \<noteq> []
                    then check_expr cel env (step_ID step) ''invalid CEL expression: %v'' (if_Expr b) r0 else r0
                | None \<Rightarrow> r0);
          r2 = (case step_Delay step of
                  Some d \<Rightarrow> if step_Type step = StepTypeDelay \<and> delay_Until d \<noteq> []
                    then check_expr cel env (step_ID step) ''invalid delay.until expression: %v'' (delay_Until d) r1 else r1
                | None \<Rightarrow> r1)
      in case step_Foreach step of
           Some f \<Rightarrow> if step_Type step = StepTypeForeach \<and> fe_Items f \<noteq> []
             then check_expr cel env (step_ID step) ''invalid foreach.items expression: %v'' (fe_Items f) r2 else r2
         | None \<Rightarrow> r2)"

definition validateExpressions ::
    "('env, 'ast, 'prg) cel_lib \<Rightarrow> WorkflowSpec \<Rightarrow> ValidationResult \<Rightarrow> ValidationResult" where
  "validateExpressions cel spec r = (case NewExpressionEnv cel of
     Inl err \<Rightarrow> AddError ErrInvalidExpression (Errf ''failed to create CEL env: %v'' [EErr err]) r
   | Inr env \<Rightarrow> fold (validate_step_expressions cel env) (CollectAllSteps spec) r)"

fun validateTemplateMap :: "string \<Rightarrow> go_map \<Rightarrow> ValidationResult \<Rightarrow> ValidationResult" where
  "validateTemplateMap stepID [] r = r"
| "validateTemplateMap stepID ((key, VStr v) # m) r =
     validateTemplateMap stepID m (fold (\<lambda>e. AddErrorWithStep ErrInvalidTemplate stepID
       (Errf ''field %q: %s'' [EStr key, EErr e])) (ValidateTemplate v) r)"
| "validateTemplateMap stepID ((key, VMap v) # m) r =
     validateTemplateMap stepID m (validateTemplateMap stepID v r)"
| "validateTemplateMap stepID ((key, VNil) # m) r = validateTemplateMap stepID m r"
| "validateTemplateMap stepID ((key, VBool b) # m) r = validateTemplateMap stepID m r"
| "validateTemplateMap stepID ((key, VInt i) # m) r = validateTemplateMap stepID m r"
| "validateTemplateMap stepID ((key, VFloat q) # m) r = validateTemplateMap stepID m r"
| "validateTemplateMap stepID ((key, VList l) # m) r = validateTemplateMap stepID m r"

definition template_body :: "StepSpec \<Rightarrow> ValidationResult \<Rightarrow> ValidationResult" where
  "template_body step r = (case step_Call step of
     None \<Rightarrow> r
   | Some c \<Rightarrow>
       if step_Type step \<noteq> StepTypeCall then r else validateTemplateMap (step_ID step) (call_Input c) r)"

definition validateTemplates :: "WorkflowSpec \<Rightarrow> ValidationResult \<Rightarrow> ValidationResult" where
  "validateTemplates spec = fold template_body (CollectAllSteps spec)"

definition check_interval :: "string \<Rightarrow> string \<Rightarrow> string \<Rightarrow> ValidationResult \<Rightarrow> ValidationResult" where
  "check_interval stepID message interval r =
     (if interval \<noteq> [] then
        (case ParseDuration interval of
           Inl err \<Rightarrow> AddErrorWithStep ErrInvalidRetry stepID (Errf message [EErr err]) r
         | Inr _ \<Rightarrow> r)
      else r)"

definition retry_body :: "StepSpec \<Rightarrow> ValidationResult \<Rightarrow> ValidationResult" where
  "retry_body step r0 = (case step_Retry step of
     None \<Rightarrow> r0
   | Some retry \<Rightarrow>
       (let r1 = (if retry_MaxAttempts retry < 1
                  then AddErrorWithStep ErrInvalidRetry (step_ID step) (Errf ''max_attempts must be >= 1'' []) r0 else r0);
            r2 = (if retry_BackoffCoefficient retry < 0
                  then AddErrorWithStep ErrInvalidRetry (step_ID step) (Errf ''backoff_coefficient must be >= 0'' []) r1 else r1);
            r3 = check_interval (step_ID step) ''invalid initial_interval: %v'' (retry_InitialInterval retry) r2
        in check_interval (step_ID step) ''invalid max_interval: %v'' (retry_MaxInterval retry) r3))"

definition validateRetryPolicies :: "WorkflowSpec \<Rightarrow> ValidationResult \<Rightarrow> ValidationResult" where
  "validateRetryPolicies spec = fold retry_body (CollectAllSteps spec)"

definition timeout_body :: "int \<Rightarrow> StepSpec \<Rightarrow> ValidationResult \<Rightarrow> ValidationResult" where
  "timeout_body workflowTimeout step r =
     (let stepTimeout = step_Timeout step in
      if stepTimeout > 0 \<and> workflowTimeout > 0 \<and> stepTimeout > workflowTimeout
      then AddErrorWithStep ErrInvalidTimeout (step_ID step)
             (Errf ''step timeout (%s) exceeds workflow timeout (%s)'' [EInt stepTimeout, EInt workflowTimeout]) r
      else r)"

definition validateTimeouts :: "WorkflowSpec \<Rightarrow> ValidationResult \<Rightarrow> ValidationResult" where
  "validateTimeouts spec = fold (timeout_body (wf_Timeout spec)) (CollectAllSteps spec)"

section \<open>The dependency graph\<close>

definition adj_of :: "(string \<times> string list) list \<Rightarrow> string \<Rightarrow> string list" where
  "adj_of adjacency node = (case map_of adjacency node of None \<Rightarrow> [] | Some l \<Rightarrow> l)"

text \<open>The edge loop: \<open>adjacency\<close> and \<open>inDegree\<close> over the top-level steps.\<close>

fun build_graph ::
    "string list \<Rightarrow> StepSpec list \<Rightarrow> (string \<times> string list) list \<Rightarrow> (string \<Rightarrow> int)
      \<Rightarrow> (string \<times> string list) list \<times> (string \<Rightarrow> int)" where
  "build_graph stepIDs [] adjacency inDegree = (adjacency, inDegree)"
| "build_graph stepIDs (step # steps) adjacency inDegree =
     (if step_DependsOn step = [] then build_graph stepIDs steps adjacency inDegree
      else if step_DependsOn step \<notin> set stepIDs then build_graph stepIDs steps adjacency inDegree
      else build_graph stepIDs steps
        (AList.update (step_DependsOn step) (adj_of adjacency (step_DependsOn step) @ [step_ID step]) adjacency)
        (inDegree(step_ID step := inDegree (step_ID step) + 1)))"

fun visit_neighbors :: "string list \<Rightarrow> (string \<Rightarrow> int) \<Rightarrow> string list \<Rightarrow> (string \<Rightarrow> int) \<times> string list" where
  "visit_neighbors [] inDegree queue = (inDegree, queue)"
| "visit_neighbors (neighbor # ns) inDegree queue =
     (let inDegree' = inDegree(neighbor := inDegree neighbor - 1);
          queue' = (if inDegree' neighbor = 0 then queue @ [neighbor] else queue)
      in visit_neighbors ns inDegree' queue')"

definition kahn_nodes :: "(string \<times> string list) list \<Rightarrow> string set" where
  "kahn_nodes adjacency = set (concat (map snd adjacency))"

definition kahn_measure :: "(string \<times> string list) list \<Rightarrow> (string \<Rightarrow> int) \<Rightarrow> string list \<Rightarrow> nat" where
  "kahn_measure adjacency inDegree queue =
     length queue + (\<Sum>x \<in> kahn_nodes adjacency. nat (inDegree x))"

lemma visit_neighbors_measure:
  assumes "set ns \<subseteq> S" and "finite S"
  shows "case visit_neighbors ns deg q of (deg', q') \<Rightarrow>
    length q' + (\<Sum>x \<in> S. nat (deg' x)) \<le> length q + (\<Sum>x \<in> S. nat (deg x))"
  using assms(1)
proof (induction ns deg q rule: visit_neighbors.induct)
  case (2 n ns deg q)
  define deg1 where "deg1 = deg(n := deg n - 1)"
  define q1 where "q1 = (if deg1 n = 0 then q @ [n] else q)"
  have "(\<Sum>x \<in> S. nat (f x)) = nat (f n) + (\<Sum>x \<in> S - {n}. nat (f x))" for f :: "string \<Rightarrow> int"
    using 2(2) assms(2) by (intro sum.remove) auto
  then have "length q1 + (\<Sum>x \<in> S. nat (deg1 x)) \<le> length q + (\<Sum>x \<in> S. nat (deg x))"
    by (auto simp: q1_def deg1_def)
  moreover have "visit_neighbors (n # ns) deg q = visit_neighbors ns deg1 q1"
    by (simp add: deg1_def q1_def Let_def)
  moreover have "case visit_neighbors ns deg1 q1 of (deg', q') \<Rightarrow>
      length q' + (\<Sum>x \<in> S. nat (deg' x)) \<le> length q1 + (\<Sum>x \<in> S. nat (deg1 x))"
    using 2(1) [OF deg1_def q1_def] 2(2) by simp
  ultimately show ?case by (auto split: prod.splits)
qed simp

lemma adj_of_subset: "set (adj_of adjacency node) \<subseteq> kahn_nodes adjacency"
proof (cases "map_of adjacency node")
  case (Some l)
  then have "(node, l) \<in> set adjacency" by (rule map_of_SomeD)
  with Some show ?thesis by (force simp: adj_of_def kahn_nodes_def)
qed (simp add: adj_of_def)

lemma kahn_measure_decreases:
  assumes "(deg', queue') = visit_neighbors (adj_of adjacency node) deg queue"
  shows "kahn_measure adjacency deg' queue' < kahn_measure adjacency deg (node # queue)"
proof -
  have "finite (kahn_nodes adjacency)" by (simp add: kahn_nodes_def)
  then show ?thesis
    using assms visit_neighbors_measure [OF adj_of_subset [of adjacency node], of queue deg]
    by (simp add: kahn_measure_def split: prod.splits)
qed

text \<open>The queue loop: the number of visited nodes and the remaining in-degrees.\<close>

function kahn ::
    "(string \<times> string list) list \<Rightarrow> (string \<Rightarrow> int) \<Rightarrow> string list \<Rightarrow> nat \<Rightarrow> nat \<times> (string \<Rightarrow> int)" where
  "kahn adjacency inDegree [] visited = (visited, inDegree)"
| "kahn adjacency inDegree (node # queue) visited =
     (case visit_neighbors (adj_of adjacency node) inDegree queue of
        (inDegree', queue') \<Rightarrow> kahn adjacency inDegree' queue' (visited + 1))"
  by pat_completeness auto
termination
  by (relation "measure (\<lambda>(a, d, q, _). kahn_measure a d q)")
    (auto intro: kahn_measure_decreases)

definition validateDependencyGraph :: "WorkflowSpec \<Rightarrow> ValidationResult \<Rightarrow> ValidationResult" where
  "validateDependencyGraph spec r =
     (if length (wf_Steps spec) \<le> 1 then r
      else let stepIDs = map step_ID (wf_Steps spec);
               (adjacency, inDegree) = build_graph stepIDs (wf_Steps spec) [] (\<lambda>_. 0);
               queue = filter (\<lambda>i. inDegree i = 0) stepIDs;
               (visited, inDegree') = kahn adjacency inDegree queue 0
           in if visited < length (wf_Steps spec)
              then AddError ErrCycleDetected (Errf ''dependency cycle detected among steps: %v''
                     [EStrs (filter (\<lambda>i. inDegree' i > 0) stepIDs)]) r
              else r)"

section \<open>Schedules\<close>

fun schedules_loop ::
    "('sch, 'loc) cron_lib \<Rightarrow> string list \<Rightarrow> nat \<Rightarrow> ScheduleSpec option list \<Rightarrow> ValidationResult \<Rightarrow> ValidationResult" where
  "schedules_loop cron seen i [] r = r"
| "schedules_loop cron seen i (None # rest) r =
     schedules_loop cron seen (Suc i) rest
       (AddError ErrInvalidSchedule (Errf ''schedules[%d]: nil entry'' [EInt (int i)]) r)"
| "schedules_loop cron seen i (Some sched # rest) r =
     (let (seen1, r1) =
            (if TrimSpace (sched_Name sched) = [] then
               (seen, AddError ErrInvalidSchedule (Errf ''schedules[%d]: name is required'' [EInt (int i)]) r)
             else if sched_Name sched \<in> set seen then
               (seen, AddError ErrInvalidSchedule
                  (Errf ''schedules[%d]: duplicate name %q'' [EInt (int i), EStr (sched_Name sched)]) r)
             else (sched_Name sched # seen, r));
          r2 = (case ParseCron cron (sched_CronExpr sched) of
                  Inl err \<Rightarrow> AddError ErrInvalidSchedule
                    (Errf ''schedules[%d] (%s): invalid cron: %s'' [EInt (int i), EStr (sched_Name sched), EErr err]) r1
                | Inr _ \<Rightarrow> r1);
          r3 = (if sched_Timezone sched \<noteq> [] \<and> sched_Timezone sched \<noteq> ''UTC'' then
                  (case loc_Load cron (sched_Timezone sched) of
                     Inl err \<Rightarrow> AddError ErrInvalidSchedule
                       (Errf ''schedules[%d] (%s): invalid timezone %q: %s''
                         [EInt (int i), EStr (sched_Name sched), EStr (sched_Timezone sched), EErr err]) r2
                   | Inr _ \<Rightarrow> r2)
                else r2)
      in schedules_loop cron seen1 (Suc i) rest r3)"

definition validateSchedules ::
    "('sch, 'loc) cron_lib \<Rightarrow> WorkflowSpec \<Rightarrow> ValidationResult \<Rightarrow> ValidationResult" where
  "validateSchedules cron spec r = schedules_loop cron [] 0 (wf_Schedules spec) r"

section \<open>Triggers and signal routes (triggers.go)\<close>

definition EffectiveSignalName :: "SignalRouteSpec \<Rightarrow> string" where
  "EffectiveSignalName r = (if TrimSpace (sr_SignalName r) \<noteq> [] then sr_SignalName r else sr_EventType r)"

text \<open>The formatting of a float64 by \<open>strconv.FormatFloat\<close> is the argument \<open>ff\<close>.\<close>

definition FormatCorrelationKey :: "(rat \<Rightarrow> string) \<Rightarrow> any \<Rightarrow> string \<times> bool" where
  "FormatCorrelationKey ff value = (case value of
     VStr v \<Rightarrow> (v, v \<noteq> [])
   | VBool b \<Rightarrow> (if b then ''true'' else ''false'', True)
   | VInt i \<Rightarrow> (fmt_int i, True)
   | VFloat q \<Rightarrow> (ff q, True)
   | _ \<Rightarrow> ([], False))"

function waited_walk :: "StepSpec list \<Rightarrow> string list" where
  "waited_walk [] = []"
| "waited_walk (step # steps) =
     (case step_SignalWait step of
        Some w \<Rightarrow> if step_Type step = StepTypeSignalWait \<and> sw_SignalName w \<noteq> [] then [sw_SignalName w] else []
      | None \<Rightarrow> [])
     @ waited_walk (AllSubSteps step)
     @ (case step_OnError step of Some p \<Rightarrow> waited_walk (ep_Fallback p) | None \<Rightarrow> [])
     @ waited_walk steps"
  by pat_completeness auto
termination
  using size_AllSubSteps size_fallback
  by (relation "measure (size_list size)") (auto simp: less_Suc_eq trans_less_add1)

definition waitedSignalNames :: "WorkflowSpec \<Rightarrow> string list" where
  "waitedSignalNames spec = waited_walk (wf_Steps spec) @
     (case wf_OnError spec of Some p \<Rightarrow> waited_walk (ep_Fallback p) | None \<Rightarrow> [])"

definition validateRoutingFilter ::
    "('env, 'ast, 'prg) cel_lib \<Rightarrow> 'env \<Rightarrow> string \<Rightarrow> nat \<Rightarrow> string \<Rightarrow> ValidationErrorCode
      \<Rightarrow> ValidationResult \<Rightarrow> ValidationResult" where
  "validateRoutingFilter cel env prefix i expr code r =
     (if TrimSpace expr = [] then r
      else (case CompileExpression cel env expr of
        Inl err \<Rightarrow> AddError code (Errf (prefix @ ''[%d]: invalid filter: %v'') [EInt (int i), EErr err]) r
      | Inr ast \<Rightarrow>
          (case cel_OutputType cel ast of
             CelBool \<Rightarrow> r
           | CelDyn \<Rightarrow> r
           | CelOtherType t \<Rightarrow>
               AddError code (Errf (prefix @ ''[%d]: filter must evaluate to bool, got %s'') [EInt (int i), EStr t]) r)))"

definition validateRoutingExpr ::
    "('env, 'ast, 'prg) cel_lib \<Rightarrow> 'env \<Rightarrow> string \<Rightarrow> nat \<Rightarrow> string \<Rightarrow> string \<Rightarrow> ValidationErrorCode
      \<Rightarrow> ValidationResult \<Rightarrow> ValidationResult" where
  "validateRoutingExpr cel env prefix i field expr code r =
     (if TrimSpace expr = [] then r
      else (case CompileExpression cel env expr of
        Inl err \<Rightarrow> AddError code (Errf (prefix @ ''[%d]: invalid %s: %v'') [EInt (int i), EStr field, EErr err]) r
      | Inr _ \<Rightarrow> r))"

definition validate_trigger ::
    "('env, 'ast, 'prg) cel_lib \<Rightarrow> 'env \<Rightarrow> nat \<times> TriggerSpec option \<Rightarrow> ValidationResult \<Rightarrow> ValidationResult" where
  "validate_trigger cel env e r = (case e of
     (i, None) \<Rightarrow> AddError ErrInvalidTrigger (Errf ''triggers[%d]: nil entry'' [EInt (int i)]) r
   | (i, Some trigger) \<Rightarrow>
       (let r1 = (if TrimSpace (trig_EventType trigger) = []
                  then AddError ErrInvalidTrigger (Errf ''triggers[%d]: event_type is required'' [EInt (int i)]) r else r)
        in validateRoutingExpr cel env ''triggers'' i ''key'' (trig_Key trigger) ErrInvalidTrigger
             (validateRoutingFilter cel env ''triggers'' i (trig_Filter trigger) ErrInvalidTrigger r1)))"

definition validateTriggers ::
    "('env, 'ast, 'prg) cel_lib \<Rightarrow> WorkflowSpec \<Rightarrow> ValidationResult \<Rightarrow> ValidationResult" where
  "validateTriggers cel spec r =
     (if length (wf_Triggers spec) = 0 then r
      else (case NewExpressionEnv cel of
        Inl err \<Rightarrow> AddError ErrInvalidExpression (Errf ''failed to create CEL env: %v'' [EErr err]) r
      | Inr env \<Rightarrow> fold (validate_trigger cel env) (enumerate 0 (wf_Triggers spec)) r))"

definition key_missing :: "TriggerSpec option \<Rightarrow> bool" where
  "key_missing t = (case t of Some trigger \<Rightarrow> TrimSpace (trig_Key trigger) = [] | None \<Rightarrow> False)"

definition validateKeyRouteTriggers :: "WorkflowSpec \<Rightarrow> nat \<Rightarrow> ValidationResult \<Rightarrow> ValidationResult" where
  "validateKeyRouteTriggers spec i r =
     (case List.find (\<lambda>(j, trigger). key_missing trigger) (enumerate 0 (wf_Triggers spec)) of
        Some (j, _) \<Rightarrow> AddError ErrInvalidSignalRoute
          (Errf ''signals[%d]: a key route requires every trigger to declare key (triggers[%d] has none)''
            [EInt (int i), EInt (int j)]) r
      | None \<Rightarrow> r)"

definition validate_route ::
    "('env, 'ast, 'prg) cel_lib \<Rightarrow> 'env \<Rightarrow> WorkflowSpec \<Rightarrow> nat \<times> SignalRouteSpec option
      \<Rightarrow> ValidationResult \<Rightarrow> ValidationResult" where
  "validate_route cel env spec e r = (case e of
     (i, None) \<Rightarrow> AddError ErrInvalidSignalRoute (Errf ''signals[%d]: nil entry'' [EInt (int i)]) r
   | (i, Some route) \<Rightarrow>
       (let r1 = (if TrimSpace (sr_EventType route) = []
                  then AddError ErrInvalidSignalRoute (Errf ''signals[%d]: event_type is required'' [EInt (int i)]) r else r);
            r2 = validateRoutingFilter cel env ''signals'' i (sr_Filter route) ErrInvalidSignalRoute r1;
            hasKey = (TrimSpace (sr_Key route) \<noteq> []);
            hasInstance = (TrimSpace (sr_Instance route) \<noteq> []);
            r3 = (if hasKey = hasInstance
                  then AddError ErrInvalidSignalRoute
                         (Errf ''signals[%d]: exactly one of key and instance is required'' [EInt (int i)]) r2 else r2);
            r4 = validateRoutingExpr cel env ''signals'' i ''key'' (sr_Key route) ErrInvalidSignalRoute r3;
            r5 = validateRoutingExpr cel env ''signals'' i ''instance'' (sr_Instance route) ErrInvalidSignalRoute r4;
            r6 = (if hasKey \<and> \<not> hasInstance then validateKeyRouteTriggers spec i r5 else r5);
            name = EffectiveSignalName route
        in if name \<notin> set (waitedSignalNames spec) \<and> TrimSpace name \<noteq> []
           then AddError ErrInvalidSignalRoute
                  (Errf ''signals[%d]: no signal_wait step waits on signal %q'' [EInt (int i), EStr name]) r6
           else r6))"

definition validateSignalRoutes ::
    "('env, 'ast, 'prg) cel_lib \<Rightarrow> WorkflowSpec \<Rightarrow> ValidationResult \<Rightarrow> ValidationResult" where
  "validateSignalRoutes cel spec r =
     (if length (wf_Signals spec) = 0 then r
      else (case NewExpressionEnv cel of
        Inl err \<Rightarrow> AddError ErrInvalidExpression (Errf ''failed to create CEL env: %v'' [EErr err]) r
      | Inr env \<Rightarrow> fold (validate_route cel env spec) (enumerate 0 (wf_Signals spec)) r))"

section \<open>Validate\<close>

definition Validate ::
    "('env, 'ast, 'prg) cel_lib \<Rightarrow> ('sch, 'loc) cron_lib \<Rightarrow> WorkflowSpec \<Rightarrow> ValidationResult" where
  "Validate cel cron spec =
     (let r1 = validateRequiredFields spec [];
          r2 = validateStepTypes spec r1;
          r3 = validateUniqueIDs spec r2;
          r4 = validateReferences spec r3;
          r5 = validateDependencyGraph spec r4;
          r6 = validateExpressions cel spec r5;
          r7 = validateTemplates spec r6;
          r8 = validateRetryPolicies spec r7;
          r9 = validateTimeouts spec r8;
          r10 = validateSchedules cron spec r9;
          r11 = validateTriggers cel spec r10
      in validateSignalRoutes cel spec r11)"

end
