(* ===== verification/Dsl_Validator_Correct.thy ===== *)
theory Dsl_Validator_Correct
  imports Dsl_Validator
begin

text \<open>
  What the validator of \<open>Dsl_Validator\<close> accepts. Each check is shown equivalent to a predicate
  on the document, the cycle check (Kahn's algorithm) to acyclicity of the dependency relation,
  and \<open>Validate\<close> to the conjunction of them.
\<close>


section \<open>Checkers\<close>

text \<open>
  What every check of the validator promises: it leaves an empty result empty exactly when its
  subject is in order, and never removes an error. A loop of such checks is one.
\<close>

locale checker =
  fixes check :: "'a \<Rightarrow> ValidationResult \<Rightarrow> ValidationResult"
    and ok :: "'a \<Rightarrow> bool"
  assumes check_iff: "check x r = [] \<longleftrightarrow> r = [] \<and> ok x"
begin

lemma all_iff: "fold check xs r = [] \<longleftrightarrow> r = [] \<and> (\<forall>x \<in> set xs. ok x)"
  by (induction xs arbitrary: r) (auto simp: check_iff)

lemma check_Nil: "check x [] = [] \<longleftrightarrow> ok x"
  by (simp add: check_iff)

end

lemma add_nonempty [simp]:
  "AddError c m r \<noteq> []" "AddErrorWithStep c i m r \<noteq> []"
  by (simp_all add: AddError_def AddErrorWithStep_def)

section \<open>What a well-formed workflow is\<close>

definition step_shape_ok :: "StepSpec \<Rightarrow> bool" where
  "step_shape_ok step = (case step_Type step of
     StepTypeCall \<Rightarrow> (\<exists>c. step_Call step = Some c \<and> call_Action c \<noteq> [])
   | StepTypeDelay \<Rightarrow> (\<exists>d. step_Delay step = Some d \<and> (delay_Duration d \<noteq> 0 \<or> delay_Until d \<noteq> []))
   | StepTypeIf \<Rightarrow> (\<exists>b. step_If step = Some b \<and> if_Expr b \<noteq> [] \<and> if_Then b \<noteq> [])
   | StepTypeSequence \<Rightarrow> (\<exists>q. step_Sequence step = Some q \<and> seq_Steps q \<noteq> [])
   | StepTypeParallel \<Rightarrow> (\<exists>p. step_Parallel step = Some p \<and> par_Steps p \<noteq> [])
   | StepTypeForeach \<Rightarrow> (\<exists>f. step_Foreach step = Some f \<and> fe_Items f \<noteq> [] \<and> fe_Steps f \<noteq> [])
   | StepTypeSignalWait \<Rightarrow> (\<exists>w. step_SignalWait step = Some w \<and> sw_SignalName w \<noteq> [])
   | StepTypeSignalSend \<Rightarrow> (\<exists>s. step_SignalSend step = Some s \<and> ss_SignalName s \<noteq> [])
   | StepTypeOther _ \<Rightarrow> True)"

definition compiles :: "('env, 'ast, 'prg) cel_lib \<Rightarrow> string \<Rightarrow> bool" where
  "compiles cel expr \<longleftrightarrow> (\<exists>env ast cost. cel_NewEnv cel = Inr env \<and> cel_Compile cel env expr = Inr ast \<and>
     cel_EstimateCost cel env ast = Inr cost \<and> cost \<le> celCostBudget)"

definition is_filter :: "('env, 'ast, 'prg) cel_lib \<Rightarrow> string \<Rightarrow> bool" where
  "is_filter cel expr \<longleftrightarrow> compiles cel expr \<and> (\<forall>env ast. cel_NewEnv cel = Inr env \<longrightarrow>
     cel_Compile cel env expr = Inr ast \<longrightarrow> cel_OutputType cel ast \<in> {CelBool, CelDyn})"

definition step_exprs :: "StepSpec \<Rightarrow> string list" where
  "step_exprs step = filter (\<lambda>e. e \<noteq> []) (case step_Type step of
     StepTypeIf \<Rightarrow> (case step_If step of Some b \<Rightarrow> [if_Expr b] | None \<Rightarrow> [])
   | StepTypeDelay \<Rightarrow> (case step_Delay step of Some d \<Rightarrow> [delay_Until d] | None \<Rightarrow> [])
   | StepTypeForeach \<Rightarrow> (case step_Foreach step of Some f \<Rightarrow> [fe_Items f] | None \<Rightarrow> [])
   | _ \<Rightarrow> [])"

definition retry_ok :: "RetrySpec \<Rightarrow> bool" where
  "retry_ok rt \<longleftrightarrow> 1 \<le> retry_MaxAttempts rt \<and> 0 \<le> retry_BackoffCoefficient rt \<and>
     is_ok (ParseDuration (retry_InitialInterval rt)) \<and> is_ok (ParseDuration (retry_MaxInterval rt))"

definition blank :: "string \<Rightarrow> bool" where
  "blank s \<longleftrightarrow> TrimSpace s = []"

lemma CompileExpression_ok:
  "cel_NewEnv cel = Inr env \<Longrightarrow> is_ok (CompileExpression cel env expr) \<longleftrightarrow> compiles cel expr"
  by (auto simp: CompileExpression_def compiles_def split: sum.splits)

lemma NewExpressionEnv_iff:
  "NewExpressionEnv cel = Inr env \<longleftrightarrow> cel_NewEnv cel = Inr env"
  by (auto simp: NewExpressionEnv_def split: sum.splits)

lemma NewExpressionEnv_Inl:
  "NewExpressionEnv cel = Inl e \<Longrightarrow> \<not> compiles cel expr"
  by (auto simp: NewExpressionEnv_def compiles_def split: sum.splits)

section \<open>The checkers of the loops\<close>

interpretation step_required: checker validateStepRequiredFields step_shape_ok
proof
  fix step r
  show "validateStepRequiredFields step r = [] \<longleftrightarrow> r = [] \<and> step_shape_ok step"
  proof (cases "step_Type step")
    case StepTypeCall
    then show ?thesis by (cases "step_Call step") (simp_all add: validateStepRequiredFields_def step_shape_ok_def)
  next
    case StepTypeDelay
    then show ?thesis by (cases "step_Delay step") (simp_all add: validateStepRequiredFields_def step_shape_ok_def)
  next
    case StepTypeIf
    then show ?thesis by (cases "step_If step") (simp_all add: validateStepRequiredFields_def step_shape_ok_def Let_def)
  next
    case StepTypeSequence
    then show ?thesis by (cases "step_Sequence step") (simp_all add: validateStepRequiredFields_def step_shape_ok_def)
  next
    case StepTypeParallel
    then show ?thesis by (cases "step_Parallel step") (simp_all add: validateStepRequiredFields_def step_shape_ok_def)
  next
    case StepTypeForeach
    then show ?thesis by (cases "step_Foreach step") (simp_all add: validateStepRequiredFields_def step_shape_ok_def Let_def)
  next
    case StepTypeSignalWait
    then show ?thesis by (cases "step_SignalWait step") (simp_all add: validateStepRequiredFields_def step_shape_ok_def)
  next
    case StepTypeSignalSend
    then show ?thesis by (cases "step_SignalSend step") (simp_all add: validateStepRequiredFields_def step_shape_ok_def)
  qed (simp add: validateStepRequiredFields_def step_shape_ok_def)
qed

interpretation required_loop: checker required_body
  "\<lambda>step. step_ID step \<noteq> [] \<and> step_type_string (step_Type step) \<noteq> [] \<and> step_shape_ok step"
  by unfold_locales (auto simp: required_body_def Let_def step_required.check_iff)

interpretation type_loop: checker step_type_body
  "\<lambda>step. step_type_string (step_Type step) = [] \<or> IsValid (step_Type step)"
  by unfold_locales (auto simp: step_type_body_def)

interpretation reference_loop: checker "reference_body ids"
  "\<lambda>step. step_DependsOn step = [] \<or> step_DependsOn step \<in> set ids" for ids
  by unfold_locales (auto simp: reference_body_def)

interpretation timeout_loop: checker "timeout_body wt"
  "\<lambda>step. 0 < step_Timeout step \<and> 0 < wt \<longrightarrow> step_Timeout step \<le> wt" for wt
  by unfold_locales (auto simp: timeout_body_def Let_def)

lemma ParseDuration_Nil: "ParseDuration [] = Inr 0"
  by (simp add: ParseDuration_def TrimSpace_def)

lemma check_interval_iff:
  "check_interval i m s r = [] \<longleftrightarrow> r = [] \<and> is_ok (ParseDuration s)"
  by (auto simp: check_interval_def ParseDuration_Nil split: sum.splits)

interpretation retry_loop: checker retry_body
  "\<lambda>step. \<forall>rt. step_Retry step = Some rt \<longrightarrow> retry_ok rt"
  by unfold_locales (auto simp: retry_body_def retry_ok_def Let_def check_interval_iff split: option.splits)

lemma check_expr_iff:
  "cel_NewEnv cel = Inr env \<Longrightarrow> check_expr cel env i m e r = [] \<longleftrightarrow> r = [] \<and> compiles cel e"
  using CompileExpression_ok [of cel env e] by (auto simp: check_expr_def split: sum.splits)

lemma step_expressions_iff:
  assumes "cel_NewEnv cel = Inr env"
  shows "validate_step_expressions cel env step r = [] \<longleftrightarrow>
    r = [] \<and> (\<forall>e \<in> set (step_exprs step). compiles cel e)"
  by (auto simp: validate_step_expressions_def step_exprs_def Let_def check_expr_iff [OF assms]
      split: option.splits StepType.splits)

lemma validateExpressions_iff:
  "validateExpressions cel spec r = [] \<longleftrightarrow> r = [] \<and> is_ok (cel_NewEnv cel) \<and>
     (\<forall>step \<in> set (CollectAllSteps spec). \<forall>e \<in> set (step_exprs step). compiles cel e)"
proof (cases "cel_NewEnv cel")
  case (Inr env)
  then have n: "NewExpressionEnv cel = Inr env" by (simp add: NewExpressionEnv_iff)
  have "fold (validate_step_expressions cel env) xs r = [] \<longleftrightarrow>
      r = [] \<and> (\<forall>step \<in> set xs. \<forall>e \<in> set (step_exprs step). compiles cel e)" for xs r
    by (induction xs arbitrary: r) (auto simp: step_expressions_iff [OF Inr])
  with Inr n show ?thesis by (simp add: validateExpressions_def)
qed (auto simp: validateExpressions_def NewExpressionEnv_def)

text \<open>Every string of a call input, at any depth of nested maps, is a valid template.\<close>

fun templates_ok :: "go_map \<Rightarrow> bool" where
  "templates_ok [] = True"
| "templates_ok ((key, VStr v) # m) = (ValidateTemplate v = [] \<and> templates_ok m)"
| "templates_ok ((key, VMap v) # m) = (templates_ok v \<and> templates_ok m)"
| "templates_ok ((key, VNil) # m) = templates_ok m"
| "templates_ok ((key, VBool b) # m) = templates_ok m"
| "templates_ok ((key, VInt i) # m) = templates_ok m"
| "templates_ok ((key, VFloat q) # m) = templates_ok m"
| "templates_ok ((key, VList l) # m) = templates_ok m"

lemma fold_template_errors [simp]:
  "fold (\<lambda>e. AddErrorWithStep c i (m e)) es r = [] \<longleftrightarrow> es = [] \<and> r = []"
  by (induction es arbitrary: r) auto

lemma validateTemplateMap_iff: "validateTemplateMap i m r = [] \<longleftrightarrow> r = [] \<and> templates_ok m"
  by (induction i m r rule: validateTemplateMap.induct) auto

interpretation template_loop: checker template_body
  "\<lambda>step. \<forall>c. step_Call step = Some c \<longrightarrow> step_Type step = StepTypeCall \<longrightarrow> templates_ok (call_Input c)"
  by unfold_locales (auto simp: template_body_def validateTemplateMap_iff split: option.splits)

lemma unique_ids_iff:
  "unique_ids_loop seen steps r = [] \<longleftrightarrow> r = [] \<and> distinct (filter (\<lambda>i. i \<noteq> []) (map step_ID steps)) \<and>
     set (filter (\<lambda>i. i \<noteq> []) (map step_ID steps)) \<inter> set seen = {}"
  by (induction seen steps r rule: unique_ids_loop.induct) (auto simp: Let_def)

definition schedule_ok :: "('sch, 'loc) cron_lib \<Rightarrow> ScheduleSpec \<Rightarrow> bool" where
  "schedule_ok cron s \<longleftrightarrow> \<not> blank (sched_Name s) \<and> is_ok (ParseCron cron (sched_CronExpr s)) \<and>
     (sched_Timezone s \<in> {[], ''UTC''} \<or> is_ok (loc_Load cron (sched_Timezone s)))"

definition schedules_ok :: "('sch, 'loc) cron_lib \<Rightarrow> ScheduleSpec option list \<Rightarrow> bool" where
  "schedules_ok cron ss \<longleftrightarrow> None \<notin> set ss \<and> (\<forall>s. Some s \<in> set ss \<longrightarrow> schedule_ok cron s) \<and>
     distinct (map (map_option sched_Name) ss)"

lemma schedules_loop_iff:
  "schedules_loop cron seen i ss r = [] \<longleftrightarrow> r = [] \<and> schedules_ok cron ss \<and>
     (\<forall>s. Some s \<in> set ss \<longrightarrow> sched_Name s \<notin> set seen)"
proof (induction ss arbitrary: seen i r)
  case (Cons x ss)
  show ?case
  proof (cases x)
    case None
    then show ?thesis by (simp add: Cons schedules_ok_def)
  next
    case (Some s)
    have im: "Some n \<in> map_option sched_Name ` set ss \<longleftrightarrow> (\<exists>t. Some t \<in> set ss \<and> sched_Name t = n)" for n
      by (force simp: image_iff map_option_case split: option.splits)
    show ?thesis using Some
      by (auto simp: Cons schedules_ok_def schedule_ok_def blank_def Let_def im split: sum.splits if_splits)
  qed
qed (simp add: schedules_ok_def)

section \<open>Triggers and signal routes\<close>

lemma validateRoutingFilter_iff:
  assumes "cel_NewEnv cel = Inr env"
  shows "validateRoutingFilter cel env p i e c r = [] \<longleftrightarrow> r = [] \<and> (blank e \<or> is_filter cel e)"
  using CompileExpression_ok [OF assms, of e] assms
  by (auto simp: validateRoutingFilter_def blank_def is_filter_def
      split: sum.splits CelType.splits dest: CompileExpression_budget)

lemma validateRoutingExpr_iff:
  assumes "cel_NewEnv cel = Inr env"
  shows "validateRoutingExpr cel env p i f e c r = [] \<longleftrightarrow> r = [] \<and> (blank e \<or> compiles cel e)"
  using CompileExpression_ok [OF assms, of e]
  by (auto simp: validateRoutingExpr_def blank_def split: sum.splits)

definition trigger_ok :: "('env, 'ast, 'prg) cel_lib \<Rightarrow> TriggerSpec option \<Rightarrow> bool" where
  "trigger_ok cel t = (case t of
     None \<Rightarrow> False
   | Some tr \<Rightarrow> \<not> blank (trig_EventType tr) \<and> (blank (trig_Filter tr) \<or> is_filter cel (trig_Filter tr)) \<and>
       (blank (trig_Key tr) \<or> compiles cel (trig_Key tr)))"

definition route_ok :: "('env, 'ast, 'prg) cel_lib \<Rightarrow> WorkflowSpec \<Rightarrow> SignalRouteSpec option \<Rightarrow> bool" where
  "route_ok cel spec t = (case t of
     None \<Rightarrow> False
   | Some rt \<Rightarrow> \<not> blank (sr_EventType rt) \<and> (blank (sr_Filter rt) \<or> is_filter cel (sr_Filter rt)) \<and>
       (blank (sr_Key rt) \<noteq> blank (sr_Instance rt)) \<and>
       (blank (sr_Key rt) \<or> compiles cel (sr_Key rt)) \<and>
       (blank (sr_Instance rt) \<or> compiles cel (sr_Instance rt)) \<and>
       (\<not> blank (sr_Key rt) \<longrightarrow> (\<forall>tr. Some tr \<in> set (wf_Triggers spec) \<longrightarrow> \<not> blank (trig_Key tr))) \<and>
       EffectiveSignalName rt \<in> set (waitedSignalNames spec))"

lemma EffectiveSignalName_blank: "blank (EffectiveSignalName rt) \<Longrightarrow> blank (sr_EventType rt)"
  by (auto simp: EffectiveSignalName_def blank_def split: if_splits)

lemma key_missing_iff: "key_missing t \<longleftrightarrow> (\<exists>tr. t = Some tr \<and> blank (trig_Key tr))"
  by (auto simp: key_missing_def blank_def split: option.splits)

lemma validateKeyRouteTriggers_iff:
  "validateKeyRouteTriggers spec i r = [] \<longleftrightarrow>
     r = [] \<and> (\<forall>tr. Some tr \<in> set (wf_Triggers spec) \<longrightarrow> \<not> blank (trig_Key tr))"
proof -
  have e: "(\<exists>p \<in> set (enumerate 0 xs). P (snd p)) \<longleftrightarrow> (\<exists>x \<in> set xs. P x)" for xs :: "'a list" and P
    by (metis (no_types, lifting) enumerate_eq_zip imageE image_eqI list.set_map map_snd_enumerate)
  show ?thesis
  proof (cases "List.find (\<lambda>(j, trigger). key_missing trigger) (enumerate 0 (wf_Triggers spec))")
    case None
    then have "\<not> (\<exists>p \<in> set (enumerate 0 (wf_Triggers spec)). key_missing (snd p))"
      by (auto simp: find_None_iff')
    with None e [of "wf_Triggers spec" key_missing] show ?thesis
      by (auto simp: validateKeyRouteTriggers_def key_missing_iff)
  next
    case (Some p)
    then have "\<exists>p \<in> set (enumerate 0 (wf_Triggers spec)). key_missing (snd p)"
      by (force dest!: find_SomeD)
    with Some e [of "wf_Triggers spec" key_missing] show ?thesis
      by (auto simp: validateKeyRouteTriggers_def key_missing_iff split: prod.splits)
  qed
qed

lemma validate_trigger_iff:
  assumes "cel_NewEnv cel = Inr env"
  shows "validate_trigger cel env e r = [] \<longleftrightarrow> r = [] \<and> trigger_ok cel (snd e)"
  by (cases e; cases "snd e")
    (auto simp: validate_trigger_def trigger_ok_def Let_def validateRoutingFilter_iff [OF assms]
      validateRoutingExpr_iff [OF assms] blank_def)

lemma validate_route_iff:
  assumes "cel_NewEnv cel = Inr env"
  shows "validate_route cel env spec e r = [] \<longleftrightarrow> r = [] \<and> route_ok cel spec (snd e)"
proof -
  obtain i t where e: "e = (i, t)" by force
  show ?thesis
  proof (cases t)
    case (Some rt)
    show ?thesis
      unfolding e Some validate_route_def route_ok_def Let_def
      using EffectiveSignalName_blank [of rt]
      by (simp add: validateRoutingFilter_iff [OF assms] validateRoutingExpr_iff [OF assms]
          validateKeyRouteTriggers_iff blank_def [symmetric]) auto
  qed (simp add: e validate_route_def route_ok_def)
qed

lemma fold_enumerate_iff:
  assumes "\<And>e r. f e r = [] \<longleftrightarrow> r = [] \<and> ok (snd e)"
  shows "fold f (enumerate n xs) r = [] \<longleftrightarrow> r = [] \<and> (\<forall>x \<in> set xs. ok x)"
  by (induction xs arbitrary: n r) (auto simp: assms)

lemma validateTriggers_iff:
  "validateTriggers cel spec r = [] \<longleftrightarrow> r = [] \<and> (wf_Triggers spec = [] \<or> is_ok (cel_NewEnv cel)) \<and>
     (\<forall>t \<in> set (wf_Triggers spec). trigger_ok cel t)"
proof (cases "cel_NewEnv cel")
  case (Inr env)
  then show ?thesis
    using fold_enumerate_iff [where f = "validate_trigger cel env" and ok = "trigger_ok cel",
        OF validate_trigger_iff [OF Inr]]
    by (auto simp: validateTriggers_def NewExpressionEnv_def)
qed (auto simp: validateTriggers_def NewExpressionEnv_def)

lemma validateSignalRoutes_iff:
  "validateSignalRoutes cel spec r = [] \<longleftrightarrow> r = [] \<and> (wf_Signals spec = [] \<or> is_ok (cel_NewEnv cel)) \<and>
     (\<forall>t \<in> set (wf_Signals spec). route_ok cel spec t)"
proof (cases "cel_NewEnv cel")
  case (Inr env)
  then show ?thesis
    using fold_enumerate_iff [where f = "validate_route cel env spec" and ok = "route_ok cel spec",
        OF validate_route_iff [OF Inr]]
    by (auto simp: validateSignalRoutes_def NewExpressionEnv_def)
qed (auto simp: validateSignalRoutes_def NewExpressionEnv_def)


section \<open>Kahn's algorithm\<close>

text \<open>\<open>(d, s)\<close>: the top-level step \<open>s\<close> depends on the top-level step \<open>d\<close>.\<close>

definition depends_on :: "StepSpec list \<Rightarrow> (string \<times> string) set" where
  "depends_on steps = {(step_DependsOn s, step_ID s) | s.
     s \<in> set steps \<and> step_DependsOn s \<noteq> [] \<and> step_DependsOn s \<in> step_ID ` set steps}"

definition dep_edges :: "string list \<Rightarrow> StepSpec list \<Rightarrow> (string \<times> string) list" where
  "dep_edges ids steps = map (\<lambda>s. (step_DependsOn s, step_ID s))
     (filter (\<lambda>s. step_DependsOn s \<noteq> [] \<and> step_DependsOn s \<in> set ids) steps)"

lemma set_dep_edges: "set (dep_edges (map step_ID steps) steps) = depends_on steps"
  by (auto simp: dep_edges_def depends_on_def)

lemma adj_of_update: "adj_of (AList.update d l adj) x = (if x = d then l else adj_of adj x)"
  by (simp add: adj_of_def update_conv')

lemma build_graph_spec:
  "build_graph ids steps adj deg = (adj', deg') \<Longrightarrow>
     (\<forall>d. adj_of adj' d = adj_of adj d @ map snd (filter (\<lambda>e. fst e = d) (dep_edges ids steps))) \<and>
     (\<forall>x. deg' x = deg x + int (length (filter (\<lambda>e. snd e = x) (dep_edges ids steps))))"
  by (induction ids steps adj deg rule: build_graph.induct)
    (auto simp: dep_edges_def adj_of_update split: if_splits)

lemma visit_neighbors_spec:
  "distinct ns \<Longrightarrow> visit_neighbors ns deg q =
     (\<lambda>x. if x \<in> set ns then deg x - 1 else deg x, q @ filter (\<lambda>x. deg x = 1) ns)"
proof (induction ns arbitrary: deg q)
  case (Cons n ns)
  have "filter (\<lambda>x. (deg(n := deg n - 1)) x = 1) ns = filter (\<lambda>x. deg x = 1) ns"
    using Cons.prems by (intro filter_cong) auto
  with Cons show ?case by (auto simp: Let_def fun_eq_iff)
qed simp

text \<open>
  The invariant of the queue loop, with the list \<open>done\<close> of the nodes already taken from the
  queue: a node waits in the queue or is done exactly when nothing it depends on is left.
\<close>

definition kahn_inv ::
    "(string \<times> string) set \<Rightarrow> string list \<Rightarrow> string list \<Rightarrow> (string \<Rightarrow> int) \<Rightarrow> string list \<Rightarrow> bool" where
  "kahn_inv R ids dn deg q \<longleftrightarrow>
     distinct (dn @ q) \<and> set (dn @ q) \<subseteq> set ids \<and> set (dn @ q) \<subseteq> Wellfounded.acc R \<and>
     (\<forall>x \<in> set ids. deg x = (if \<exists>d. (d, x) \<in> R \<and> d \<notin> set dn then 1 else 0)) \<and>
     (\<forall>x \<in> set ids. deg x = 0 \<longleftrightarrow> x \<in> set (dn @ q))"

definition kahn_graph :: "(string \<times> string) set \<Rightarrow> string list \<Rightarrow> (string \<times> string list) list \<Rightarrow> bool" where
  "kahn_graph R ids adj \<longleftrightarrow> R \<subseteq> set ids \<times> set ids \<and>
     (\<forall>d e x. (d, x) \<in> R \<longrightarrow> (e, x) \<in> R \<longrightarrow> d = e) \<and>
     (\<forall>d. distinct (adj_of adj d) \<and> set (adj_of adj d) = {x. (d, x) \<in> R})"

lemma kahn_inv_step:
  assumes g: "kahn_graph R ids adj" and i: "kahn_inv R ids dn deg (node # q)"
    and v: "visit_neighbors (adj_of adj node) deg q = (deg', q')"
  shows "kahn_inv R ids (dn @ [node]) deg' q'"
proof -
  let ?N = "adj_of adj node"
  have N: "distinct ?N" "\<And>x. x \<in> set ?N \<longleftrightarrow> (node, x) \<in> R" and RI: "R \<subseteq> set ids \<times> set ids"
    and uniq: "\<And>d e x. (d, x) \<in> R \<Longrightarrow> (e, x) \<in> R \<Longrightarrow> d = e"
    using g by (auto simp: kahn_graph_def)
  have node: "node \<notin> set dn" "node \<in> Wellfounded.acc R" "distinct (dn @ node # q)" "set (dn @ node # q) \<subseteq> set ids"
    "set (dn @ node # q) \<subseteq> Wellfounded.acc R"
    using i by (auto simp: kahn_inv_def)
  have deg: "deg x = (if \<exists>d. (d, x) \<in> R \<and> d \<notin> set dn then 1 else 0)"
    and zero: "deg x = 0 \<longleftrightarrow> x \<in> set (dn @ node # q)" if "x \<in> set ids" for x
    using i that unfolding kahn_inv_def by blast+
  from v N(1) have d': "deg' = (\<lambda>x. if x \<in> set ?N then deg x - 1 else deg x)"
    and q': "q' = q @ filter (\<lambda>x. deg x = 1) ?N"
    by (simp_all add: visit_neighbors_spec)
  have one: "deg x = 1" and notin: "x \<notin> set (dn @ node # q)" and ids: "x \<in> set ids" if "x \<in> set ?N" for x
  proof -
    show i: "x \<in> set ids" using that N(2) RI by auto
    show "deg x = 1" using deg [OF i] that N(2) node(1) by auto
    then show "x \<notin> set (dn @ node # q)" using zero [OF i] by auto
  qed
  have q'': "q' = q @ ?N" using q' one by (auto simp: filter_id_conv)
  have "x \<in> Wellfounded.acc R" if "x \<in> set ?N" for x
    using that N(2) uniq node(2) by (metis Wellfounded.acc.accI)
  moreover have "deg' x = (if \<exists>d. (d, x) \<in> R \<and> d \<notin> set (dn @ [node]) then 1 else 0)" if "x \<in> set ids" for x
    using deg [OF that] one [of x] N(2) [of x] uniq by (auto simp: d')
  moreover have "deg' x = 0 \<longleftrightarrow> x \<in> set ((dn @ [node]) @ q')" if "x \<in> set ids" for x
    using zero [OF that] one [of x] by (auto simp: d' q'')
  ultimately show ?thesis
    using node N(1) notin ids by (auto simp: kahn_inv_def q'')
qed

lemma kahn_invariant:
  "kahn_graph R ids adj \<Longrightarrow> kahn_inv R ids dn deg q \<Longrightarrow> kahn adj deg q (length dn) = (v, deg') \<Longrightarrow>
     \<exists>dn'. kahn_inv R ids dn' deg' [] \<and> v = length dn'"
proof (induction adj deg q "length dn" arbitrary: dn rule: kahn.induct)
  case (2 adj deg node q)
  obtain d1 q1 where v: "visit_neighbors (adj_of adj node) deg q = (d1, q1)" by force
  have "kahn_inv R ids (dn @ [node]) d1 q1" using kahn_inv_step [OF 2(2,3) v] .
  moreover have "kahn adj d1 q1 (length (dn @ [node])) = (v, deg')" using 2(4) v by simp
  ultimately show ?case using 2(1) [OF v [symmetric], of "dn @ [node]"] 2(2) by simp
qed auto

lemma kahn_inv_final:
  assumes "R \<subseteq> set ids \<times> set ids" and "kahn_inv R ids dn deg []" and "x \<in> Wellfounded.acc R" and "x \<in> set ids"
  shows "x \<in> set dn"
  using assms(3,4)
proof (induction rule: Wellfounded.acc.induct)
  case (accI x)
  then have "\<forall>d. (d, x) \<in> R \<longrightarrow> d \<in> set dn" using assms(1) by blast
  then have "\<not> (\<exists>d. (d, x) \<in> R \<and> d \<notin> set dn)" by blast
  moreover have "deg x = (if \<exists>d. (d, x) \<in> R \<and> d \<notin> set dn then 1 else 0)"
    and "deg x = 0 \<longleftrightarrow> x \<in> set (dn @ [])"
    using assms(2) accI(3) unfolding kahn_inv_def by blast+
  ultimately show ?case by (auto split: if_splits)
qed

lemma kahn_counts:
  assumes g: "kahn_graph R ids adj" and d: "distinct ids"
    and i: "kahn_inv R ids [] deg q" and k: "kahn adj deg q 0 = (v, deg')"
  shows "v < length ids \<longleftrightarrow> \<not> acyclic R"
proof -
  obtain dn where dn: "kahn_inv R ids dn deg' []" and v: "v = length dn"
    using kahn_invariant [OF g i, unfolded list.size, OF k] by blast
  have RI: "R \<subseteq> set ids \<times> set ids" using g by (simp add: kahn_graph_def)
  then have fin: "finite R" by (rule finite_subset) simp
  have sub: "set dn \<subseteq> set ids" "distinct dn" "set dn \<subseteq> Wellfounded.acc R" using dn by (auto simp: kahn_inv_def)
  have "v = card (set dn)" using v sub(2) by (simp add: distinct_card)
  moreover have "length ids = card (set ids)" using d by (simp add: distinct_card)
  ultimately have "v < length ids \<longleftrightarrow> set dn \<noteq> set ids"
    using sub(1) by (metis List.finite_set card_subset_eq psubsetI psubset_card_mono order_less_irrefl)
  also have "\<dots> \<longleftrightarrow> \<not> acyclic R"
  proof
    assume "set dn \<noteq> set ids"
    with sub(1) obtain x where "x \<in> set ids" "x \<notin> set dn" by auto
    with kahn_inv_final [OF RI dn] have "x \<notin> Wellfounded.acc R" by auto
    then have "\<not> wf R" by (metis acc_wfD)
    with fin show "\<not> acyclic R" using finite_acyclic_wf by blast
  next
    assume n: "\<not> acyclic R"
    show "set dn \<noteq> set ids"
    proof
      assume "set dn = set ids"
      then have "x \<in> Wellfounded.acc R" for x using sub(3) RI by (cases "x \<in> set ids") (auto intro: Wellfounded.acc.accI)
      then have "wf R" by (simp add: acc_wfI)
      with n show False using wf_acyclic by blast
    qed
  qed
  finally show ?thesis .
qed

lemma dep_edges_functional:
  assumes "distinct (map step_ID steps)"
  shows "distinct (map snd (dep_edges ids steps))"
  using assms by (auto simp: dep_edges_def distinct_map comp_def inj_on_def)

lemma build_graph_kahn:
  assumes d: "distinct (map step_ID steps)"
    and b: "build_graph (map step_ID steps) steps [] (\<lambda>_. 0) = (adj, deg)"
  shows "kahn_graph (depends_on steps) (map step_ID steps) adj"
    and "kahn_inv (depends_on steps) (map step_ID steps) [] deg (filter (\<lambda>i. deg i = 0) (map step_ID steps))"
proof -
  let ?ids = "map step_ID steps"
  let ?E = "dep_edges ?ids steps"
  have E: "set ?E = depends_on steps" by (rule set_dep_edges)
  have snd_d: "distinct (map snd ?E)" using dep_edges_functional [OF d] .
  from build_graph_spec [OF b] have adj: "\<And>d. adj_of adj d = map snd (filter (\<lambda>e. fst e = d) ?E)"
    and deg: "\<And>x. deg x = int (length (filter (\<lambda>e. snd e = x) ?E))" by (simp_all add: adj_of_def)
  have uniq: "d1 = d2" if "(d1, x) \<in> depends_on steps" "(d2, x) \<in> depends_on steps" for d1 d2 x
    using that snd_d unfolding E [symmetric] by (fastforce simp: distinct_map inj_on_def)
  show "kahn_graph (depends_on steps) ?ids adj"
    unfolding kahn_graph_def adj
  proof (intro conjI allI impI)
    show "depends_on steps \<subseteq> set ?ids \<times> set ?ids" by (auto simp: depends_on_def)
    show "distinct (map snd (filter (\<lambda>e. fst e = d) ?E))" for d
      using snd_d by (rule distinct_map_filter)
    show "set (map snd (filter (\<lambda>e. fst e = d) ?E)) = {x. (d, x) \<in> depends_on steps}" for d
      by (force simp: E [symmetric])
  qed (use uniq in auto)
  have deg1: "deg x = (if \<exists>d. (d, x) \<in> depends_on steps then 1 else 0)" for x
  proof (cases "\<exists>d. (d, x) \<in> depends_on steps")
    case True
    then obtain dd where dd: "(dd, x) \<in> set ?E" by (auto simp: E)
    have "distinct (filter (\<lambda>e. snd e = x) ?E)" using snd_d by (auto simp: distinct_map)
    moreover have "set (filter (\<lambda>e. snd e = x) ?E) = {(dd, x)}"
      using dd uniq unfolding E [symmetric] by auto
    ultimately have "length (filter (\<lambda>e. snd e = x) ?E) = 1"
      by (metis One_nat_def card.empty card_insert_if distinct_card empty_iff finite.emptyI)
    with True show ?thesis by (simp add: deg)
  next
    case False
    then have "filter (\<lambda>e. snd e = x) ?E = []" by (auto simp: filter_empty_conv E)
    with False show ?thesis by (simp add: deg)
  qed
  show "kahn_inv (depends_on steps) ?ids [] deg (filter (\<lambda>i. deg i = 0) ?ids)"
    using d by (auto simp: kahn_inv_def deg1 intro: Wellfounded.acc.accI)
qed

lemma validateDependencyGraph_iff:
  assumes "distinct (map step_ID (wf_Steps spec))"
  shows "validateDependencyGraph spec r = [] \<longleftrightarrow>
    r = [] \<and> (length (wf_Steps spec) \<le> 1 \<or> acyclic (depends_on (wf_Steps spec)))"
proof -
  obtain adj deg where b: "build_graph (map step_ID (wf_Steps spec)) (wf_Steps spec) [] (\<lambda>_. 0) = (adj, deg)"
    by force
  obtain v deg' where k: "kahn adj deg (filter (\<lambda>i. deg i = 0) (map step_ID (wf_Steps spec))) 0 = (v, deg')"
    by force
  from kahn_counts [OF build_graph_kahn(1) [OF assms b] assms build_graph_kahn(2) [OF assms b] k]
  show ?thesis using b k by (auto simp: validateDependencyGraph_def Let_def)
qed


section \<open>The validator as a whole\<close>

definition well_formed ::
    "('env, 'ast, 'prg) cel_lib \<Rightarrow> ('sch, 'loc) cron_lib \<Rightarrow> WorkflowSpec \<Rightarrow> bool" where
  "well_formed cel cron spec \<longleftrightarrow>
     wf_Version spec \<noteq> [] \<and> wf_Name spec \<noteq> [] \<and> wf_Steps spec \<noteq> [] \<and>
     distinct (map step_ID (CollectAllSteps spec)) \<and>
     (\<forall>step \<in> set (CollectAllSteps spec).
        step_ID step \<noteq> [] \<and> IsValid (step_Type step) \<and> step_shape_ok step \<and>
        (step_DependsOn step = [] \<or> step_DependsOn step \<in> step_ID ` set (CollectAllSteps spec)) \<and>
        (\<forall>e \<in> set (step_exprs step). compiles cel e) \<and>
        (\<forall>c. step_Call step = Some c \<longrightarrow> step_Type step = StepTypeCall \<longrightarrow> templates_ok (call_Input c)) \<and>
        (\<forall>rt. step_Retry step = Some rt \<longrightarrow> retry_ok rt) \<and>
        (0 < step_Timeout step \<and> 0 < wf_Timeout spec \<longrightarrow> step_Timeout step \<le> wf_Timeout spec)) \<and>
     (length (wf_Steps spec) \<le> 1 \<or> acyclic (depends_on (wf_Steps spec))) \<and>
     is_ok (cel_NewEnv cel) \<and>
     schedules_ok cron (wf_Schedules spec) \<and>
     (\<forall>t \<in> set (wf_Triggers spec). trigger_ok cel t) \<and>
     (\<forall>t \<in> set (wf_Signals spec). route_ok cel spec t)"

lemma IsValid_nonempty: "IsValid t \<Longrightarrow> step_type_string t \<noteq> []"
  by (cases t) (auto simp: IsValid_def step_type_string_def)

lemma distinct_collect_top:
  "distinct (map step_ID (collect steps)) \<Longrightarrow> distinct (map step_ID steps)"
proof (induction steps rule: collect.induct)
  case (2 step steps)
  then show ?case using set_subset_collect [of steps] by auto
qed simp

lemma validateRequiredFields_iff:
  "validateRequiredFields spec r = [] \<longleftrightarrow> r = [] \<and> wf_Version spec \<noteq> [] \<and> wf_Name spec \<noteq> [] \<and>
     wf_Steps spec \<noteq> [] \<and> (\<forall>step \<in> set (CollectAllSteps spec). step_ID step \<noteq> [] \<and>
       step_type_string (step_Type step) \<noteq> [] \<and> step_shape_ok step)"
  by (auto simp: validateRequiredFields_def required_loop.all_iff Let_def)

lemmas checker_iffs = validateRequiredFields_iff validateStepTypes_def type_loop.all_iff
  validateUniqueIDs_def unique_ids_iff validateReferences_def reference_loop.all_iff
  validateExpressions_iff validateTemplates_def template_loop.all_iff
  validateRetryPolicies_def retry_loop.all_iff validateTimeouts_def timeout_loop.all_iff
  validateSchedules_def schedules_loop_iff validateTriggers_iff validateSignalRoutes_iff

lemma Validate_iff:
  "Validate cel cron spec = [] \<longleftrightarrow> well_formed cel cron spec"
proof (cases "distinct (map step_ID (CollectAllSteps spec)) \<and> (\<forall>step \<in> set (CollectAllSteps spec). step_ID step \<noteq> [])")
  case True
  then have "distinct (map step_ID (wf_Steps spec))"
    using distinct_collect_top by (simp add: CollectAllSteps_def)
  note d = validateDependencyGraph_iff [OF this]
  have f: "filter (\<lambda>i. i \<noteq> []) (map step_ID (CollectAllSteps spec)) = map step_ID (CollectAllSteps spec)"
    using True by (auto simp: filter_id_conv)
  show ?thesis
    unfolding Validate_def Let_def checker_iffs d f well_formed_def
    using True IsValid_nonempty by auto
next
  case False
  have f: "filter (\<lambda>i. i \<noteq> []) (map step_ID (CollectAllSteps spec)) = map step_ID (CollectAllSteps spec)"
    if "\<forall>step \<in> set (CollectAllSteps spec). step_ID step \<noteq> []"
    using that by (auto simp: filter_id_conv)
  have keep: "validateDependencyGraph spec r = [] \<Longrightarrow> r = []" for r
    by (auto simp: validateDependencyGraph_def Let_def split: if_splits prod.splits)
  have "Validate cel cron spec \<noteq> []"
  proof
    assume "Validate cel cron spec = []"
    then have "validateDependencyGraph spec (validateReferences spec (validateUniqueIDs spec
        (validateStepTypes spec (validateRequiredFields spec [])))) = []"
      unfolding Validate_def Let_def by (simp add: checker_iffs)
    from keep [OF this] False f show False by (auto simp: checker_iffs Let_def)
  qed
  with False show ?thesis by (auto simp: well_formed_def)
qed

section \<open>Properties\<close>

text \<open>C4: for a workflow with at least two top-level steps and distinct top-level ids, the
  cycle check reports a dependency cycle exactly when the \<open>depends_on\<close> relation among the
  top-level steps has one: Kahn's algorithm visits every step precisely when the relation is
  acyclic.\<close>
theorem dependency_cycle_detected_iff:
  assumes "distinct (map step_ID (wf_Steps spec))" and "1 < length (wf_Steps spec)"
  shows "(\<exists>m. validateDependencyGraph spec [] = [\<lparr>ve_Code = ErrCycleDetected, ve_Message = m, ve_Path = [], ve_StepID = []\<rparr>])
    \<longleftrightarrow> (\<exists>x. (x, x) \<in> (depends_on (wf_Steps spec))\<^sup>+)"
proof -
  have "(\<exists>m. validateDependencyGraph spec [] = [\<lparr>ve_Code = ErrCycleDetected, ve_Message = m, ve_Path = [], ve_StepID = []\<rparr>])
      \<longleftrightarrow> validateDependencyGraph spec [] \<noteq> []"
    by (auto simp: validateDependencyGraph_def Let_def AddError_def split: if_splits prod.splits)
  with validateDependencyGraph_iff [OF assms(1), of "[]"] assms(2) show ?thesis
    by (auto simp: acyclic_def)
qed

definition dep_step :: "string \<Rightarrow> string \<Rightarrow> StepSpec" where
  "dep_step i d = StepSpec i StepTypeCall [] d None 0 None no_transition no_transition
     (Some \<lparr>call_Action = ''log'', call_Input = [], call_OutputVar = []\<rparr>) None None None None None None None"

definition cyclic_spec :: WorkflowSpec where
  "cyclic_spec = example_spec\<lparr>wf_Steps := [dep_step ''a'' ''b'', dep_step ''b'' ''a'']\<rparr>"

theorem dependency_cycle_detected_iff_witness:
  "\<exists>m. validateDependencyGraph cyclic_spec [] = [\<lparr>ve_Code = ErrCycleDetected, ve_Message = m, ve_Path = [], ve_StepID = []\<rparr>]"
proof -
  have "(''a'', ''b'') \<in> depends_on (wf_Steps cyclic_spec)" "(''b'', ''a'') \<in> depends_on (wf_Steps cyclic_spec)"
    by (simp_all add: set_dep_edges [symmetric] dep_edges_def cyclic_spec_def dep_step_def)
  then have "(''a'', ''a'') \<in> (depends_on (wf_Steps cyclic_spec))\<^sup>+" by (meson trancl.simps)
  then show ?thesis
    by (subst dependency_cycle_detected_iff) (auto simp: cyclic_spec_def dep_step_def)
qed


end
