(* ===== verification/Go_Time.thy ===== *)
theory Go_Time
  imports Trustage_Prelude
begin

text \<open>
  \<open>time.Time\<close> as the sources format it: a time is its count of nanoseconds since the Unix epoch,
  and \<open>t.UTC().Format(time.RFC3339)\<close> is computed from the proleptic Gregorian calendar. Also the
  decimal text of an integer.
\<close>

definition second :: int where "second = 1000000000"

text \<open>Days since 1970-01-01 to year, month and day, counting years from the first of March.\<close>

definition civil_from_days :: "int \<Rightarrow> int \<times> int \<times> int" where
  "civil_from_days d =
     (let z = d + 719468;
          era = z div 146097;
          doe = z mod 146097;
          yoe = (doe - doe div 1460 + doe div 36524 - doe div 146096) div 365;
          doy = doe - (365 * yoe + yoe div 4 - yoe div 100);
          mp = (5 * doy + 2) div 153;
          day = doy - (153 * mp + 2) div 5 + 1;
          month = (if mp < 10 then mp + 3 else mp - 9);
          year = yoe + era * 400 + (if month \<le> 2 then 1 else 0)
      in (year, month, day))"

definition digit_char :: "int \<Rightarrow> char" where
  "digit_char n = ''0123456789'' ! nat (n mod 10)"

fun zero_padded :: "nat \<Rightarrow> int \<Rightarrow> string" where
  "zero_padded 0 n = []"
| "zero_padded (Suc k) n = zero_padded k (n div 10) @ [digit_char n]"

definition format_RFC3339 :: "int \<Rightarrow> string" where
  "format_RFC3339 t =
     (let s = t div second;
          (year, month, day) = civil_from_days (s div 86400);
          r = s mod 86400
      in zero_padded 4 year @ ''-'' @ zero_padded 2 month @ ''-'' @ zero_padded 2 day @ ''T'' @
         zero_padded 2 (r div 3600) @ '':'' @ zero_padded 2 (r div 60 mod 60) @ '':'' @
         zero_padded 2 (r mod 60) @ ''Z'')"

text \<open>\<open>time.RFC3339Nano\<close> of a time in UTC: the fraction without its trailing zeros.\<close>

definition format_RFC3339Nano :: "int \<Rightarrow> string" where
  "format_RFC3339Nano t =
     (let frac = rev (dropWhile (\<lambda>c. c = CHR ''0'') (rev (zero_padded 9 (t mod second)))) in
      butlast (format_RFC3339 t) @ (if frac = [] then [] else CHR ''.'' # frac) @ ''Z'')"

lemma length_zero_padded [simp]: "length (zero_padded k n) = k"
  by (induction k arbitrary: n) simp_all

lemma length_format_RFC3339: "length (format_RFC3339 t) = 20"
  by (simp add: format_RFC3339_def Let_def split: prod.splits)

lemma format_RFC3339_examples:
  "format_RFC3339 0 = ''1970-01-01T00:00:00Z''"
  "format_RFC3339 (951782400 * second) = ''2000-02-29T00:00:00Z''"
  "format_RFC3339 (1767225599 * second) = ''2025-12-31T23:59:59Z''"
  by code_simp+

section \<open>Decimal numbers\<close>

text \<open>The text of an integer, as the verb \<open>%d\<close> writes it.\<close>

function decimal :: "int \<Rightarrow> string" where
  "decimal n = (if n < 10 then [digit_char n] else decimal (n div 10) @ [digit_char n])"
  by pat_completeness auto
termination by (relation "measure nat") auto

declare decimal.simps [simp del]

definition itoa :: "int \<Rightarrow> string" where
  "itoa n = (if n < 0 then ''-'' @ decimal (- n) else decimal n)"

section \<open>The text of an integer determines it\<close>

lemma digit_char_inj: "digit_char m = digit_char n \<Longrightarrow> m mod 10 = n mod 10"
proof -
  have "k mod 10 \<in> {0,1,2,3,4,5,6,7,8,9}" for k :: int by (simp only: insert_iff empty_iff) presburger
  from this [of m] this [of n]
  show "digit_char m = digit_char n \<Longrightarrow> m mod 10 = n mod 10" by (auto simp: digit_char_def)
qed

lemma decimal_Nil [simp]: "decimal n \<noteq> []" "[] \<noteq> decimal n"
  by (subst decimal.simps, simp)+

lemma decimal_inj: "0 \<le> m \<Longrightarrow> 0 \<le> n \<Longrightarrow> decimal m = decimal n \<Longrightarrow> m = n"
proof (induction m arbitrary: n rule: decimal.induct)
  case (1 m)
  have d: "digit_char m = digit_char n" using "1.prems"(3) by (subst (asm) (1 2) decimal.simps) (auto split: if_splits)
  show ?case
  proof (cases "m < 10 \<or> n < 10")
    case True
    with "1.prems"(3) have "m < 10 \<and> n < 10" by (subst (asm) (1 2) decimal.simps) (auto split: if_splits)
    with digit_char_inj [OF d] "1.prems"(1,2) show ?thesis by simp
  next
    case False
    with "1.prems"(3) have "decimal (m div 10) = decimal (n div 10)" by (subst (asm) (1 2) decimal.simps) simp
    with "1.IH" [of "n div 10"] False "1.prems"(1,2) have "m div 10 = n div 10" by (simp add: pos_imp_zdiv_nonneg_iff)
    with digit_char_inj [OF d] show ?thesis by (metis div_mult_mod_eq)
  qed
qed

lemma set_decimal: "set (decimal n) \<subseteq> set ''0123456789''"
proof (induction n rule: decimal.induct)
  case (1 n)
  have "n mod 10 \<in> {0..9}" by auto
  then have "nat (n mod 10) < length ''0123456789''" by auto
  then have "digit_char n \<in> set ''0123456789''" unfolding digit_char_def by (rule nth_mem)
  with 1 show ?case by (subst decimal.simps) auto
qed

lemma itoa_inj: "itoa m = itoa n \<Longrightarrow> m = n"
proof -
  have neg: "CHR ''-'' \<notin> set (decimal k)" for k using set_decimal [of k] by auto
  show "itoa m = itoa n \<Longrightarrow> m = n"
    using neg [of m] neg [of n] decimal_inj [of m n] decimal_inj [of "- m" "- n"]
    by (auto simp: itoa_def split: if_splits) (metis list.set_intros(1))+
qed

lemma itoa_no_colon: "CHR '':'' \<notin> set (itoa n)"
  using set_decimal [of n] set_decimal [of "- n"] by (auto simp: itoa_def)

end
