(* ===== verification/Go_Time_Parse.thy ===== *)
theory Go_Time_Parse
  imports Go_Time
begin

text \<open>
  \<open>time.Parse(time.RFC3339, s)\<close>: fixed-width numbers except the hour, which may have one digit, an
  optional fraction of the second after a point or a comma, and \<open>Z\<close> or an offset. A time the
  parser accepts is the count of nanoseconds since the epoch; digits of the fraction beyond the
  ninth are dropped.
\<close>

definition is_digit_char :: "char \<Rightarrow> bool" where
  "is_digit_char c \<longleftrightarrow> c \<in> set ''0123456789''"

definition digit_value :: "char \<Rightarrow> int" where
  "digit_value c = of_char c - 48"

text \<open>A number of exactly \<open>k\<close> digits at the front of a text.\<close>

fun take_num :: "nat \<Rightarrow> int \<Rightarrow> string \<Rightarrow> (int \<times> string) option" where
  "take_num 0 acc s = Some (acc, s)"
| "take_num (Suc k) acc [] = None"
| "take_num (Suc k) acc (c # s) = (if is_digit_char c then take_num k (acc * 10 + digit_value c) s else None)"

definition opt_then :: "'a option \<Rightarrow> ('a \<Rightarrow> 'b option) \<Rightarrow> 'b option" where
  "opt_then x f = (case x of None \<Rightarrow> None | Some y \<Rightarrow> f y)"

lemma opt_then_simps [simp]: "opt_then None f = None" "opt_then (Some y) f = f y"
  by (simp_all add: opt_then_def)

definition take_char :: "char \<Rightarrow> string \<Rightarrow> string option" where
  "take_char c s = (case s of [] \<Rightarrow> None | d # r \<Rightarrow> (if d = c then Some r else None))"

text \<open>The hour: two digits, or one when no second digit follows.\<close>

definition take_hour :: "string \<Rightarrow> (int \<times> string) option" where
  "take_hour s = (case take_num 2 0 s of Some r \<Rightarrow> Some r | None \<Rightarrow> take_num 1 0 s)"

definition leap_year :: "int \<Rightarrow> bool" where
  "leap_year y \<longleftrightarrow> y mod 4 = 0 \<and> (y mod 100 \<noteq> 0 \<or> y mod 400 = 0)"

definition days_in_month :: "int \<Rightarrow> int \<Rightarrow> int" where
  "days_in_month m y =
     (if m = 2 then (if leap_year y then 29 else 28) else if m \<in> {4, 6, 9, 11} then 30 else 31)"

text \<open>The inverse of \<^const>\<open>civil_from_days\<close>.\<close>

definition days_from_civil :: "int \<Rightarrow> int \<Rightarrow> int \<Rightarrow> int" where
  "days_from_civil y m d =
     (let y' = (if m \<le> 2 then y - 1 else y);
          era = y' div 400;
          yoe = y' mod 400;
          mp = (if m > 2 then m - 3 else m + 9);
          doy = (153 * mp + 2) div 5 + d - 1;
          doe = yoe * 365 + yoe div 4 - yoe div 100 + doy
      in era * 146097 + doe - 719468)"

definition take_fraction :: "string \<Rightarrow> int \<times> string" where
  "take_fraction s = (case s of
     p # c # _ \<Rightarrow>
       (if p \<in> {CHR ''.'', CHR '',''} \<and> is_digit_char c
        then let digits = takeWhile is_digit_char (tl s);
                 value = foldl (\<lambda>a d. a * 10 + digit_value d) 0 (take 9 digits)
             in (value * 10 ^ (9 - length (take 9 digits)), drop (1 + length digits) s)
        else (0, s))
   | _ \<Rightarrow> (0, s))"

definition take_zone :: "string \<Rightarrow> (int \<times> string) option" where
  "take_zone s = (case s of
     [] \<Rightarrow> None
   | c # r \<Rightarrow>
       (if c = CHR ''Z'' then Some (0, r)
        else if c \<in> {CHR ''+'', CHR ''-''} then
          opt_then (take_num 2 0 r) (\<lambda>(hh, r1). opt_then (take_char CHR '':'' r1) (\<lambda>r2.
          opt_then (take_num 2 0 r2) (\<lambda>(mm, r3).
            if hh \<le> 24 \<and> mm \<le> 60 then Some ((if c = CHR ''-'' then -1 else 1) * (hh * 3600 + mm * 60), r3) else None)))
        else None))"

definition parse_RFC3339 :: "string \<Rightarrow> int option" where
  "parse_RFC3339 s =
     opt_then (take_num 4 0 s) (\<lambda>(year, s1). opt_then (take_char CHR ''-'' s1) (\<lambda>s2.
     opt_then (take_num 2 0 s2) (\<lambda>(month, s3). opt_then (take_char CHR ''-'' s3) (\<lambda>s4.
     opt_then (take_num 2 0 s4) (\<lambda>(day, s5). opt_then (take_char CHR ''T'' s5) (\<lambda>s6.
     opt_then (take_hour s6) (\<lambda>(hour, s7). opt_then (take_char CHR '':'' s7) (\<lambda>s8.
     opt_then (take_num 2 0 s8) (\<lambda>(minute, s9). opt_then (take_char CHR '':'' s9) (\<lambda>s10.
     opt_then (take_num 2 0 s10) (\<lambda>(sec, s11). case take_fraction s11 of (nanos, s12) \<Rightarrow>
     opt_then (take_zone s12) (\<lambda>(offset, rest).
       if rest = [] \<and> 1 \<le> month \<and> month \<le> 12 \<and> 1 \<le> day \<and> day \<le> days_in_month month year \<and>
          hour < 24 \<and> minute < 60 \<and> sec < 60
       then Some ((days_from_civil year month day * 86400 + hour * 3600 + minute * 60 + sec - offset) * second + nanos)
       else None))))))))))))"

lemma parse_RFC3339_examples:
  "parse_RFC3339 ''1970-01-01T00:00:00Z'' = Some 0"
  "parse_RFC3339 ''2000-02-29T01:30:00.5+01:30'' = Some (951782400 * second + 500000000)"
  "parse_RFC3339 ''2023-02-29T00:00:00Z'' = None"
  "parse_RFC3339 ''2024-01-01T5:00:00,25Z'' = Some (1704085200 * second + 250000000)"
  "parse_RFC3339 ''2024-01-01 05:00:00Z'' = None"
  by code_simp+

end
