(* ===== verification/Go_Time_Correct.thy ===== *)
theory Go_Time_Correct
  imports Go_Time_Parse
begin

text \<open>
  Timestamps survive their text: parsing what \<open>time.RFC3339Nano\<close> prints gives the time again. The
  calendar part says that the year, month and day of a day number are a valid date that counts back
  to it; years are counted from March, so that a leap day comes last.
\<close>

section \<open>The calendar\<close>

definition year_start :: "int \<Rightarrow> int" where
  "year_start y = 365 * y + y div 4 - y div 100"

definition flat_day :: "int \<Rightarrow> int" where
  "flat_day doe = doe - doe div 1460 + doe div 36524 - doe div 146096"

lemma flat_day_step:
  assumes "0 \<le> n" "n < 146096"
  shows "flat_day n \<le> flat_day (n + 1)"
proof -
  have "(n + 1) div 1460 \<le> (n + 1460) div 1460" "n div 36524 \<le> (n + 1) div 36524" by (intro zdiv_mono1; simp)+
  moreover have "(n + 1) div 146096 = 0" "n div 146096 = 0" if "n < 146095" using assms that by simp_all
  moreover have ?thesis if "n = 146095" using that by (simp add: flat_day_def)
  ultimately show ?thesis using assms by (cases "n = 146095") (simp_all add: flat_day_def)
qed

lemma flat_day_mono: "0 \<le> m \<Longrightarrow> m \<le> n \<Longrightarrow> n \<le> 146096 \<Longrightarrow> flat_day m \<le> flat_day n"
proof (rotate_tac, induction n rule: int_ge_induct)
  case (step n)
  then show ?case using flat_day_step [of n] by simp
qed simp

lemma year_start_nonneg: "0 \<le> y \<Longrightarrow> 0 \<le> year_start y"
  using zdiv_mono2 [of y 4 100] by (simp add: year_start_def)

lemma flat_day_bounds:
  "list_all (\<lambda>y. 365 * y \<le> flat_day (year_start y) \<and> flat_day (year_start (y + 1) - 1) \<le> 365 * y + 364) [0..398]"
  "365 * 399 \<le> flat_day (year_start 399)" "flat_day 146096 = 365 * 399 + 364"
  by code_simp+

lemma year_of_day:
  assumes "0 \<le> doe" "doe < 146097"
  defines "y \<equiv> flat_day doe div 365"
  shows "0 \<le> y" "y \<le> 399" "year_start y \<le> doe" "doe < (if y = 399 then 146097 else year_start (y + 1))"
proof -
  have b: "365 * z \<le> flat_day (year_start z)" "flat_day (year_start (z + 1) - 1) \<le> 365 * z + 364" if "0 \<le> z" "z < 399" for z
    using flat_day_bounds(1) that by (simp_all add: list_all_iff)
  have c: "0 \<le> flat_day doe" "flat_day doe \<le> 365 * 399 + 364"
    using flat_day_mono [of 0 doe] flat_day_mono [of doe 146096] assms(1,2) flat_day_bounds(3) by (simp_all add: flat_day_def)
  then show y: "0 \<le> y" "y \<le> 399" by (simp_all add: y_def)
  have r: "365 * y \<le> flat_day doe" "flat_day doe < 365 * y + 365" by (simp_all add: y_def)
  show "year_start y \<le> doe"
  proof (rule ccontr)
    assume n: "\<not> year_start y \<le> doe"
    then have "0 < y" using y assms(1) by (cases "y = 0") (simp_all add: year_start_def)
    have "flat_day doe \<le> flat_day (year_start (y - 1 + 1) - 1)"
      using n assms(1,2) y by (intro flat_day_mono) (simp_all add: year_start_def)
    also have "\<dots> \<le> 365 * (y - 1) + 364" using y \<open>0 < y\<close> by (intro b(2)) simp_all
    finally show False using r by simp
  qed
  show "doe < (if y = 399 then 146097 else year_start (y + 1))"
  proof (rule ccontr)
    assume n: "\<not> doe < (if y = 399 then 146097 else year_start (y + 1))"
    then have l: "y < 399" "year_start (y + 1) \<le> doe" using y assms(2) by (auto split: if_splits)
    have "365 * (y + 1) \<le> flat_day (year_start (y + 1))"
      using b(1) [of "y + 1"] flat_day_bounds(2) y l by (cases "y = 398") simp_all
    also have "\<dots> \<le> flat_day doe" using l assms year_start_nonneg [of "y + 1"] y by (intro flat_day_mono) simp_all
    finally show False using r by simp
  qed
qed

definition march_day :: "int \<Rightarrow> int \<times> int" where
  "march_day doy = (let mp = (5 * doy + 2) div 153 in (mp, doy - (153 * mp + 2) div 5 + 1))"

lemma march_days:
  "list_all (\<lambda>doy. case march_day doy of (mp, day) \<Rightarrow> 0 \<le> mp \<and> mp \<le> 11 \<and> 1 \<le> day \<and>
     day \<le> (if mp = 11 then if doy = 365 then 29 else 28 else if mp \<in> {1, 3, 6, 8} then 30 else 31)) [0..365]"
  by code_simp

lemma leap_year_400: "leap_year (y + era * 400) \<longleftrightarrow> leap_year y"
proof -
  have "(y + era * 400) mod 4 = y mod 4" "(y + era * 400) mod 100 = y mod 100"
    using mod_mult_self1 [of y "era * 100" 4] mod_mult_self1 [of y "era * 4" 100] by (simp_all add: mult.assoc)
  then show ?thesis by (simp add: leap_year_def)
qed

lemma carry:
  fixes y a a' b b' r r' s s' :: int
  assumes "a' = a + 1 \<and> b' = b" and "4 * a + r = y" "r < 4" "4 * a' + r' = y + 1" "0 \<le> r'"
    "100 * b + s = y" "0 \<le> s" "100 * b' + s' = y + 1"
  shows "r' = 0 \<and> s' \<noteq> 0"
  using assms by auto

lemma long_year:
  assumes "0 \<le> y" "y < 399" "year_start y + 365 < year_start (y + 1)"
  shows "leap_year (y + 1)"
proof -
  have "y div 100 \<le> (y + 1) div 100" "(y + 1) div 4 \<le> (y + 4) div 4" by (intro zdiv_mono1; simp)+
  then have "(y + 1) div 4 = y div 4 + 1 \<and> (y + 1) div 100 = y div 100"
    using assms(3) unfolding year_start_def by simp
  moreover have "4 * (y div 4) + y mod 4 = y" "y mod 4 < 4" "4 * ((y + 1) div 4) + (y + 1) mod 4 = y + 1" "0 \<le> (y + 1) mod 4"
    "100 * (y div 100) + y mod 100 = y" "0 \<le> y mod 100" "100 * ((y + 1) div 100) + (y + 1) mod 100 = y + 1" by simp_all
  ultimately have "(y + 1) mod 4 = 0 \<and> (y + 1) mod 100 \<noteq> 0" by (metis carry)
  then show ?thesis by (simp add: leap_year_def)
qed

lemma civil_from_days:
  obtains y m d where "civil_from_days n = (y, m, d)" "days_from_civil y m d = n" "1 \<le> m" "m \<le> 12"
    "1 \<le> d" "d \<le> days_in_month m y" "(n + 719468) div 146097 * 400 \<le> y" "y \<le> (n + 719468) div 146097 * 400 + 400"
    "(n + 719468) mod 146097 < 145731 \<Longrightarrow> y \<le> (n + 719468) div 146097 * 400 + 399"
proof -
  define era doe where "era = (n + 719468) div 146097" and "doe = (n + 719468) mod 146097"
  define yoe where "yoe = flat_day doe div 365"
  define doy where "doy = doe - year_start yoe"
  obtain mp d where md: "march_day doy = (mp, d)" by fastforce
  define m where "m = (if mp < 10 then mp + 3 else mp - 9)"
  define y where "y = yoe + era * 400 + (if m \<le> 2 then 1 else 0)"
  have doe: "0 \<le> doe" "doe < 146097" by (simp_all add: doe_def)
  note yoe = year_of_day [OF doe, folded yoe_def]
  have doy: "0 \<le> doy" "doy \<le> 365"
    using yoe by (auto simp: doy_def year_start_def split: if_splits)
  have "doy \<in> set [0..365]" using doy by simp
  then have day: "0 \<le> mp" "mp \<le> 11" "1 \<le> d"
    "d \<le> (if mp = 11 then if doy = 365 then 29 else 28 else if mp \<in> {1, 3, 6, 8} then 30 else 31)"
    using march_days md unfolding list_all_iff by (fastforce dest: bspec)+
  have leap: "leap_year (yoe + 1)" if "doy = 365"
  proof (cases "yoe = 399")
    case False
    then show ?thesis using yoe doy that by (intro long_year) (simp_all add: doy_def)
  qed (simp add: leap_year_def)
  have mp: "mp = (5 * doy + 2) div 153" "d = doy - (153 * mp + 2) div 5 + 1"
    using md by (auto simp: march_day_def Let_def)
  have civil: "civil_from_days n = (y, m, d)"
    by (simp only: civil_from_days_def Let_def era_def [symmetric] doe_def [symmetric] flat_day_def [symmetric]
      yoe_def [symmetric] year_start_def [symmetric] doy_def [symmetric] mp(1) [symmetric] mp(2) [symmetric]
      m_def [symmetric] y_def [symmetric])
  have m: "1 \<le> m" "m \<le> 12" "(if m > 2 then m - 3 else m + 9) = mp" "m \<le> 2 \<longleftrightarrow> 10 \<le> mp" "m = 2 \<longleftrightarrow> mp = 11"
    "m \<in> {4, 6, 9, 11} \<longleftrightarrow> mp \<in> {1, 3, 6, 8}"
    using day(1,2) by (auto simp: m_def)
  have prev: "(if m \<le> 2 then y - 1 else y) = yoe + era * 400" by (simp add: y_def)
  have split: "(yoe + era * 400) div 400 = era" "(yoe + era * 400) mod 400 = yoe" using yoe(1,2) by simp_all
  have "days_from_civil y m d = era * 146097 + doe - 719468"
    unfolding days_from_civil_def Let_def prev split m(3) using mp(2) by (simp add: doy_def year_start_def)
  then have "days_from_civil y m d = n" by (simp add: era_def doe_def)
  moreover have y_leap: "y = yoe + 1 + era * 400" if "mp = 11" using m(4) that by (simp add: y_def)
  moreover have "d \<le> days_in_month m y"
    using day(4) leap leap_year_400 [of "yoe + 1" era] y_leap unfolding days_in_month_def m(5,6)
    by (auto split: if_splits)
  moreover have early: "yoe \<le> 398" if "doe < 145731"
    using yoe(2,3) that by (cases "yoe = 399") (auto simp: year_start_def)
  ultimately show thesis
    using civil m(1,2) day(3) yoe(1,2) early by (intro that [of y m d]) (auto simp: y_def era_def doe_def)
qed

section \<open>Numbers in a text\<close>

lemma take_num_Suc: "take_num (Suc k) acc s = opt_then (take_num k acc s) (\<lambda>(a, s'). take_num 1 a s')"
  by (induction k acc s rule: take_num.induct) (auto split: list.splits)

lemma digit_char_digit: "is_digit_char (digit_char n)" "digit_value (digit_char n) = n mod 10"
proof -
  have "n mod 10 \<in> set [0..9]" by simp
  moreover have "list_all (\<lambda>m. is_digit_char (digit_char m) \<and> digit_value (digit_char m) = m) [0..9]" by code_simp
  ultimately have "is_digit_char (digit_char (n mod 10)) \<and> digit_value (digit_char (n mod 10)) = n mod 10"
    unfolding list_all_iff by blast
  moreover have "digit_char (n mod 10) = digit_char n" by (simp add: digit_char_def)
  ultimately show "is_digit_char (digit_char n)" "digit_value (digit_char n) = n mod 10" by simp_all
qed

lemma take_num_padded: "take_num k acc (zero_padded k n @ rest) = Some (acc * 10 ^ k + n mod 10 ^ k, rest)"
proof (induction k arbitrary: n rest)
  case (Suc k)
  have "n mod 10 ^ Suc k = n div 10 mod 10 ^ k * 10 + n mod 10"
    by (simp add: zmod_zmult2_eq)
  then show ?case
    by (simp only: take_num_Suc zero_padded.simps append_assoc Suc.IH opt_then_simps prod.case)
       (simp add: digit_char_digit algebra_simps)
qed simp

lemma set_zero_padded: "list_all is_digit_char (zero_padded k n)"
  by (induction k arbitrary: n) (simp_all add: digit_char_digit)

definition digits_value :: "string \<Rightarrow> int" where
  "digits_value ds = foldl (\<lambda>a d. a * 10 + digit_value d) 0 ds"

lemma digits_value_padded: "digits_value (zero_padded k n) = n mod 10 ^ k"
proof (induction k arbitrary: n)
  case (Suc k)
  have "n mod 10 ^ Suc k = n div 10 mod 10 ^ k * 10 + n mod 10" by (simp add: zmod_zmult2_eq)
  then show ?case using Suc.IH by (simp add: digits_value_def digit_char_digit algebra_simps)
qed (simp add: digits_value_def)

lemma digits_value_zeros: "digits_value (ds @ replicate j (CHR ''0'')) = digits_value ds * 10 ^ j"
  by (induction j) (simp_all add: replicate_append_same [symmetric] digits_value_def digit_value_def)

definition trimmed :: "string \<Rightarrow> string" where
  "trimmed ds = rev (dropWhile (\<lambda>c. c = CHR ''0'') (rev ds))"

lemma trimmed_split: "ds = trimmed ds @ replicate (length ds - length (trimmed ds)) (CHR ''0'')"
proof -
  have "rev ds = takeWhile (\<lambda>c. c = CHR ''0'') (rev ds) @ rev (trimmed ds)" by (simp add: trimmed_def)
  then have "ds = trimmed ds @ rev (takeWhile (\<lambda>c. c = CHR ''0'') (rev ds))" by (metis rev_append rev_rev_ident)
  moreover have "replicate (length ds - length (trimmed ds)) (CHR ''0'') = rev (takeWhile (\<lambda>c. c = CHR ''0'') (rev ds))"
    using calculation by (intro replicate_eqI [symmetric]) (auto dest: set_takeWhileD arg_cong [of _ _ length])
  ultimately show ?thesis by simp
qed

section \<open>Timestamps\<close>

lemma take_fraction_padded:
  assumes "0 \<le> n" "n < 1000000000"
  defines "fr \<equiv> trimmed (zero_padded 9 n)"
  shows "take_fraction ((if fr = [] then [] else CHR ''.'' # fr) @ ''Z'') = (n, ''Z'')"
proof -
  have z: "zero_padded 9 n = fr @ replicate (9 - length fr) (CHR ''0'')"
    using trimmed_split [of "zero_padded 9 n"] by (simp add: fr_def)
  have n: "digits_value fr * 10 ^ (9 - length fr) = n"
    using digits_value_padded [of 9 n] assms(1,2) by (simp add: z digits_value_zeros)
  have "length (zero_padded 9 n) = 9" by (rule length_zero_padded)
  then have len: "length fr \<le> 9" unfolding z by simp
  have digits: "list_all is_digit_char fr" using set_zero_padded [of 9 n] unfolding z by simp
  then have tw: "takeWhile is_digit_char (fr @ ''Z'') = fr"
    by (subst takeWhile_append2) (auto simp: list_all_iff is_digit_char_def)
  show ?thesis
  proof (cases fr)
    case Nil
    with n have "n = 0" by (simp add: digits_value_def)
    with Nil show ?thesis by (simp add: take_fraction_def)
  next
    case (Cons c cs)
    with digits have "is_digit_char c" by simp
    then show ?thesis
      using tw len n by (simp add: take_fraction_def Let_def Cons digits_value_def)
  qed
qed

lemma format_RFC3339Nano_trimmed:
  "format_RFC3339Nano t = butlast (format_RFC3339 t) @
     (let fr = trimmed (zero_padded 9 (t mod second)) in if fr = [] then [] else CHR ''.'' # fr) @ ''Z''"
  by (simp add: format_RFC3339Nano_def trimmed_def Let_def)

text \<open>The times the text of a timestamp can carry: from March of the year 0 to February of the year 9999.\<close>

definition ordinary_time :: "int \<Rightarrow> bool" where
  "ordinary_time t \<longleftrightarrow> (let z = t div second div 86400 + 719468 in 0 \<le> z \<and> z < 3652059)"

lemma ordinary_year:
  assumes "0 \<le> n + 719468" "n + 719468 < 3652059" "civil_from_days n = (y, m, d)"
  shows "0 \<le> y \<and> y < 10000"
proof -
  define e l where "e = (n + 719468) div 146097" and "l = (n + 719468) mod 146097"
  have "e * 146097 + l = n + 719468" "0 \<le> l" "l < 146097" by (simp_all add: e_def l_def)
  then have "0 \<le> e" "e < 24 \<or> e = 24 \<and> l < 145731" using assms by linarith+
  moreover have "e * 400 \<le> y" "y \<le> e * 400 + 400" "l < 145731 \<Longrightarrow> y \<le> e * 400 + 399"
    using civil_from_days [of n] assms(3) unfolding e_def l_def by (metis Pair_inject)+
  ultimately show ?thesis by auto
qed

lemma parse_format_RFC3339Nano:
  assumes "ordinary_time t"
  shows "parse_RFC3339 (format_RFC3339Nano t) = Some t"
proof -
  define s where "s = t div second"
  define r where "r = s mod 86400"
  obtain y m d where c: "civil_from_days (s div 86400) = (y, m, d)" "days_from_civil y m d = s div 86400" "1 \<le> m" "m \<le> 12"
      "1 \<le> d" "d \<le> days_in_month m y"
    using civil_from_days [of "s div 86400"] by blast
  have z: "0 \<le> s div 86400 + 719468" "s div 86400 + 719468 < 3652059"
    using assms by (simp_all add: ordinary_time_def Let_def s_def)
  have y: "0 \<le> y" "y < 10000" using ordinary_year [OF z c(1)] by simp_all
  have d31: "d < 100" using c(6) by (auto simp: days_in_month_def split: if_splits)
  define hh mm ss where "hh = r div 3600" and "mm = r div 60 mod 60" and "ss = r mod 60"
  have r: "0 \<le> r" "r < 86400" by (simp_all add: r_def)
  have sum: "60 * a + b = q \<Longrightarrow> 60 * q + c = r \<Longrightarrow> a * 3600 + b * 60 + c = r" for a b c q r :: int by simp
  have clock: "hh * 3600 + mm * 60 + ss = r"
    using sum [OF mult_div_mod_eq [of 60 "r div 60"] mult_div_mod_eq [of 60 r]] zdiv_zmult2_eq [of 60 r 60]
    by (simp add: hh_def mm_def ss_def)
  have small: "0 \<le> hh" "hh < 24" "0 \<le> mm" "mm < 60" "0 \<le> ss" "ss < 60"
    using r clock by (simp_all add: hh_def mm_def ss_def)
  define ns where "ns = t mod second"
  have ns: "0 \<le> ns" "ns < 1000000000" by (simp_all add: ns_def second_def)
  define fr where "fr = (if trimmed (zero_padded 9 ns) = [] then [] else CHR ''.'' # trimmed (zero_padded 9 ns))"
  have written: "format_RFC3339Nano t = zero_padded 4 y @ ''-'' @ zero_padded 2 m @ ''-'' @ zero_padded 2 d @ ''T'' @
      zero_padded 2 hh @ '':'' @ zero_padded 2 mm @ '':'' @ zero_padded 2 ss @ fr @ ''Z''"
    by (simp add: format_RFC3339Nano_trimmed format_RFC3339_def Let_def s_def [symmetric] r_def [symmetric] c(1)
      hh_def [symmetric] mm_def [symmetric] ss_def [symmetric] ns_def [symmetric] fr_def butlast_append)
  have whole: "86400 * a + r = s \<Longrightarrow> hh * 3600 + mm * 60 + ss = r \<Longrightarrow> a * 86400 + hh * 3600 + mm * 60 + ss = s" for a by simp
  have "(days_from_civil y m d * 86400 + hh * 3600 + mm * 60 + ss) * second + ns = t"
    using clock whole [OF mult_div_mod_eq [of 86400 s, folded r_def]] by (simp add: c(2) s_def ns_def)
  then show ?thesis
    using c(3-6) d31 y small take_fraction_padded [OF ns] unfolding written fr_def
    by (simp add: parse_RFC3339_def take_num_padded take_char_def take_hour_def take_zone_def)
qed

end
