(* ===== verification/Duration_Text.thy ===== *)
theory Duration_Text
  imports Dsl_Duration Go_Time_Correct
begin

text \<open>
  The text of a duration: \<open>Duration.MarshalJSON\<close> of \<open>dsl/types.go\<close> and the method
  \<open>time.Duration.String\<close> of Go's standard library it prints with. The property says that decoding
  what was encoded gives the duration again, for every \<open>int64\<close>, through the fraction arithmetic in
  float64 and the wrap-around in \<open>uint64\<close> of \<open>time.ParseDuration\<close>.
\<close>

section \<open>time.Duration.String\<close>

definition fmtInt :: "int \<Rightarrow> string" where
  "fmtInt v = decimal v"

text \<open>\<open>fmtFrac\<close>: the last \<open>prec\<close> digits as a fraction, without trailing zeros.\<close>

definition fmtFrac :: "int \<Rightarrow> nat \<Rightarrow> string" where
  "fmtFrac v prec =
     (let fr = trimmed (zero_padded prec (v mod 10 ^ prec)) in if fr = [] then [] else CHR ''.'' # fr)"

definition micro_unit :: string where
  "micro_unit = [CHR 0xC2, CHR 0xB5, CHR ''s'']"

text \<open>The text of the magnitude \<open>u\<close>, then the sign.\<close>

definition duration_text :: "int \<Rightarrow> string" where
  "duration_text u =
     (if u < 1000000000 then
        (if u = 0 then ''0s''
         else if u < 1000 then fmtInt u @ ''ns''
         else if u < 1000000 then fmtInt (u div 10 ^ 3) @ fmtFrac u 3 @ micro_unit
         else fmtInt (u div 10 ^ 6) @ fmtFrac u 6 @ ''ms'')
      else (let secs = u div 10 ^ 9; mins = secs div 60; hours = mins div 60;
                tail = fmtInt (secs mod 60) @ fmtFrac u 9 @ ''s''
        in if mins > 0 then
             (if hours > 0 then fmtInt hours @ ''h'' @ fmtInt (mins mod 60) @ ''m'' @ tail
              else fmtInt (mins mod 60) @ ''m'' @ tail)
           else tail))"

definition Duration_String :: "int \<Rightarrow> string" where
  "Duration_String d =
     (let u = uint64 d; neg = d < 0; u' = (if neg then uint64 (- u) else u)
      in (if neg then ''-'' else []) @ duration_text u')"

definition Duration_MarshalJSON :: "int \<Rightarrow> raw_json" where
  "Duration_MarshalJSON d = json_marshal (VStr (Duration_String d))"

section \<open>Digits\<close>

lemma digit_chars_agree: "is_digit_char c \<longleftrightarrow> is_digit c"
proof
  assume "is_digit c"
  then have "of_char c \<in> set [48..<58::nat]" unfolding is_digit_def set_upt atLeastLessThan_iff by simp
  moreover have "list_all (\<lambda>n. is_digit_char (char_of n)) [48..<58::nat]" by code_simp
  ultimately have "is_digit_char (char_of (of_char c :: nat))" unfolding list_all_iff by blast
  then show "is_digit_char c" by simp
next
  assume "is_digit_char c"
  moreover have "list_all is_digit ''0123456789''" by code_simp
  ultimately show "is_digit c" unfolding is_digit_char_def list_all_iff by blast
qed

lemma digit_value_val: "is_digit c \<Longrightarrow> digit_value c = int (digit_val c)"
  by (simp add: is_digit_def digit_value_def digit_val_def of_nat_diff of_nat_of_char [symmetric, where ?'a = int])

lemma digits_value_Nil [simp]: "digits_value [] = 0"
  by (simp add: digits_value_def)

lemma digits_value_snoc: "digits_value (ds @ [c]) = digits_value ds * 10 + digit_value c"
  by (simp add: digits_value_def)

lemma digit_char_is_digit [simp]: "is_digit (digit_char n)"
  using digit_char_digit(1) [of n] by (simp add: digit_chars_agree)

lemma decimal_digits: "list_all is_digit (decimal n)"
  by (induction n rule: decimal.induct) (subst decimal.simps, simp)

lemma decimal_value: "0 \<le> n \<Longrightarrow> digits_value (decimal n) = n"
proof (induction n rule: decimal.induct)
  case (1 n)
  show ?case
  proof (cases "n < 10")
    case True
    with 1(2) show ?thesis by (subst decimal.simps) (simp add: digits_value_def digit_char_digit)
  next
    case False
    with 1 show ?thesis by (subst decimal.simps) (simp add: digits_value_snoc digit_char_digit)
  qed
qed

lemma digit_value_range: "is_digit c \<Longrightarrow> 0 \<le> digit_value c \<and> digit_value c \<le> 9"
  by (simp add: is_digit_def digit_value_def of_nat_of_char [symmetric, where ?'a = int])

lemma digits_value_nonneg: "list_all is_digit ds \<Longrightarrow> 0 \<le> digits_value ds"
  by (induction ds rule: rev_induct) (auto simp: digits_value_snoc dest: digit_value_range)

lemma digits_value_less: "list_all is_digit ds \<Longrightarrow> digits_value ds < 10 ^ length ds"
  by (induction ds rule: rev_induct) (fastforce simp: digits_value_snoc dest: digit_value_range)+

definition digits_stop :: "string \<Rightarrow> bool" where
  "digits_stop rest \<longleftrightarrow> rest = [] \<or> \<not> is_digit (hd rest)"

lemma leadingInt_stop: "digits_stop rest \<Longrightarrow> leadingInt x rest = Some (x, rest)"
  by (cases rest) (auto simp: digits_stop_def)

lemma fold_digits_mono: "list_all is_digit ds \<Longrightarrow> 0 \<le> x \<Longrightarrow> x \<le> foldl (\<lambda>a d. a * 10 + digit_value d) x ds"
proof (induction ds arbitrary: x)
  case (Cons c ds)
  have r: "0 \<le> digit_value c" using Cons.prems(1) digit_value_range [of c] by simp
  then have "x * 10 + digit_value c \<le> foldl (\<lambda>a d. a * 10 + digit_value d) (x * 10 + digit_value c) ds"
    using Cons by simp
  with r Cons.prems(2) show ?case by simp
qed simp

lemma leadingInt_digits:
  assumes "list_all is_digit ds" "0 \<le> x" "foldl (\<lambda>a d. a * 10 + digit_value d) x ds \<le> 2 ^ 63" "digits_stop rest"
  shows "leadingInt x (ds @ rest) = Some (foldl (\<lambda>a d. a * 10 + digit_value d) x ds, rest)"
  using assms
proof (induction ds arbitrary: x)
  case (Cons c ds)
  let ?y = "x * 10 + digit_value c"
  have c: "is_digit c" "digit_value c = int (digit_val c)" "0 \<le> digit_value c"
    using Cons.prems(1) digit_value_val [of c] by simp_all
  have "?y \<le> foldl (\<lambda>a d. a * 10 + digit_value d) ?y ds"
    using Cons.prems(1,2) c(3) by (intro fold_digits_mono) simp_all
  then have y: "?y \<le> 2 ^ 63" using Cons.prems(3) by simp
  then have "x \<le> 2 ^ 63 div 10" using c(3) by simp
  then show ?case using Cons c y by simp
qed (simp add: leadingInt_stop)

lemma leadingInt_decimal:
  "0 \<le> n \<Longrightarrow> n \<le> 2 ^ 63 \<Longrightarrow> digits_stop rest \<Longrightarrow> leadingInt 0 (decimal n @ rest) = Some (n, rest)"
  using leadingInt_digits [OF decimal_digits, of 0 n rest] decimal_value [of n] by (simp add: digits_value_def)

section \<open>One component\<close>

definition fraction :: "string \<Rightarrow> string" where
  "fraction fr = (if fr = [] then [] else CHR ''.'' # fr)"

lemma leadingFraction_digits:
  assumes "list_all is_digit ds" "length ds + k \<le> 9" "0 \<le> x" "x < 10 ^ k" "digits_stop rest"
  shows "leadingFraction x (10 ^ k) False (ds @ rest) =
    (foldl (\<lambda>a d. a * 10 + digit_value d) x ds, 10 ^ (k + length ds), rest)"
  using assms
proof (induction ds arbitrary: x k)
  case Nil
  then show ?case by (cases rest) (auto simp: digits_stop_def)
next
  case (Cons c ds)
  let ?y = "x * 10 + digit_value c"
  have c: "is_digit c" "digit_value c = int (digit_val c)" "0 \<le> digit_value c" "digit_value c \<le> 9"
    using Cons.prems(1) digit_value_val [of c] digit_value_range [of c] by simp_all
  have k: "Suc k \<le> 9" using Cons.prems(2) by simp
  have y: "?y < 10 ^ Suc k" using Cons.prems(4) c(4) by simp
  have big: "(10::int) ^ Suc k \<le> 10 ^ 9" using k by (intro power_increasing) simp_all
  then have "x \<le> (2 ^ 63 - 1) div 10" "?y \<le> 2 ^ 63" using y Cons.prems(4) c(3) by simp_all
  moreover have "float64 (10 ^ k * 10) = 10 ^ Suc k"
    using float64_int [of "10 ^ Suc k"] big by (simp add: mult.commute)
  ultimately show ?case
    using Cons.IH [of "Suc k" ?y] Cons.prems c y by simp
qed

text \<open>The value a fraction adds is exact: it has at most as many digits as its unit has zeros.\<close>

lemma fraction_value:
  assumes "length fr \<le> p" "p \<le> 9" "list_all is_digit fr"
  shows "\<lfloor>float64 (float64 (of_int (digits_value fr)) * float64 (of_int (10 ^ p) / 10 ^ length fr))\<rfloor> =
    digits_value fr * 10 ^ (p - length fr)"
proof -
  let ?f = "digits_value fr" and ?m = "10 ^ (p - length fr) :: int"
  have split: "(10::int) ^ p = 10 ^ length fr * ?m" using assms(1) by (simp flip: power_add)
  have f: "0 \<le> ?f" "?f < 10 ^ length fr" using digits_value_nonneg digits_value_less assms(3) by simp_all
  have p: "(10::int) ^ p \<le> 10 ^ 9" using assms(2) by (intro power_increasing) simp_all
  have m: "0 < ?m" by simp
  have fm: "?f * ?m < 10 ^ p" using f(2) m by (simp add: split)
  have mp: "?m \<le> 10 ^ p" by (intro power_increasing) simp_all
  have "(10::int) ^ length fr \<le> 10 ^ p" using assms(1) by (intro power_increasing) simp_all
  moreover have "(10::int) ^ p < 2 ^ 53" using p by simp
  ultimately have "?f < 2 ^ 53" "?m < 2 ^ 53" "?f * ?m < 2 ^ 53" using f(2) fm mp by linarith+
  then have "float64 (of_int ?f) = of_int ?f" "float64 (of_int ?m) = of_int ?m"
      "float64 (of_int (?f * ?m)) = of_int (?f * ?m)"
    using f(1) m by (intro float64_int; simp)+
  moreover have "(of_int (10 ^ p) / 10 ^ length fr :: rat) = of_int ?m" by (simp add: split)
  ultimately show ?thesis by (simp only: of_int_mult [symmetric] floor_of_int)
qed

text \<open>A component that was printed is read back, whatever follows it.\<close>

lemma duration_component_printed:
  assumes "0 \<le> v" "v \<le> 2 ^ 63 div unit" "unitMap u = Some unit" "list_all unit_char u" "u \<noteq> []"
    "rest = [] \<or> \<not> unit_char (hd rest)"
    and fr: "fr = [] \<or> (list_all is_digit fr \<and> length fr \<le> p \<and> p \<le> 9 \<and> unit = 10 ^ p)"
    and total: "0 < unit" "v * unit + digits_value fr * 10 ^ (p - length fr) \<le> 2 ^ 63"
  shows "duration_component orig (decimal v @ fraction fr @ u @ rest) =
    Inr (v * unit + digits_value fr * 10 ^ (p - length fr), rest)"
proof -
  have hd_digit: "is_digit (hd (decimal v @ s))" for s
    using decimal_digits [of v] by (cases "decimal v") auto
  have stop: "digits_stop (u @ rest)" using assms(4,5) by (cases u) (auto simp: digits_stop_def unit_char_def)
  then have stop': "digits_stop (fraction fr @ u @ rest)"
    by (simp add: fraction_def digits_stop_def) (simp add: is_digit_def)
  have f0: "0 \<le> digits_value fr" using fr digits_value_nonneg [of fr] by auto
  have vu: "0 \<le> v * unit" "v * unit \<le> 2 ^ 63"
    using assms(1) total f0 by (simp, smt (verit) mult_nonneg_nonneg zero_le_power)
  have "v * 1 \<le> v * unit" using assms(1) total(1) by (intro mult_left_mono) simp_all
  then have v63: "v \<le> 2 ^ 63" using vu(2) by simp
  have take: "takeWhile unit_char (u @ rest) = u" "dropWhile unit_char (u @ rest) = rest"
    using assms(4,6) by (cases rest; auto simp: list_all_iff takeWhile_append2 dropWhile_append2)+
  have nodot: "u @ rest \<noteq> [] \<and> hd (u @ rest) \<noteq> CHR ''.''" using assms(4,5) by (cases u) (auto simp: unit_char_def)
  have read: "leadingInt 0 (decimal v @ fraction fr @ u @ rest) = Some (v, fraction fr @ u @ rest)"
    by (rule leadingInt_decimal [OF assms(1) v63 stop'])
  have pre: "is_digit (hd (decimal v @ fraction fr @ u @ rest))"
      "length (decimal v @ fraction fr @ u @ rest) \<noteq> length (fraction fr @ u @ rest)"
    using hd_digit by simp_all
  have u64: "uint64 (v * unit) = v * unit" using vu by (simp add: uint64_def)
  show ?thesis
  proof (cases "fr = []")
    case True
    then have "fraction fr = []" by (simp add: fraction_def)
    with True nodot take pre read u64 assms(2,3,5) show ?thesis by (simp add: duration_component_def)
  next
    case False
    then have f: "list_all is_digit fr" "length fr \<le> p" "p \<le> 9" "unit = 10 ^ p" using fr by auto
    have fraction: "fraction fr = CHR ''.'' # fr" using False by (simp add: fraction_def)
    have frac_read: "leadingFraction 0 1 False (fr @ u @ rest) = (digits_value fr, 10 ^ length fr, u @ rest)"
      using leadingFraction_digits [of fr 0 0 "u @ rest"] f stop by (simp add: digits_value_def)
    have val: "\<lfloor>float64 (float64 (of_int (digits_value fr)) * float64 (of_int unit / 10 ^ length fr))\<rfloor> =
        digits_value fr * 10 ^ (p - length fr)"
      using fraction_value [OF f(2,3,1)] by (simp add: f(4))
    have u64f: "uint64 (v * unit + digits_value fr * 10 ^ (p - length fr)) = v * unit + digits_value fr * 10 ^ (p - length fr)"
      using vu(1) f0 total(2) by (simp add: uint64_def)
    have post: "length (fr @ u @ rest) \<noteq> length (u @ rest)" using False by simp
    have zero: "digits_value fr * 10 ^ (p - length fr) = 0" if "\<not> digits_value fr > 0" using that f0 by simp
    show ?thesis
      unfolding duration_component_def using pre read
      by (simp add: fraction frac_read take u64 assms(2,3,5) Let_def val u64f) (use assms(2) total(2) zero in auto)
  qed
qed

section \<open>The loop\<close>

lemma duration_loop_step:
  assumes "duration_component orig s = Inr (v, r)" "s \<noteq> []" "0 \<le> d" "0 \<le> v" "d + v \<le> 2 ^ 63"
  shows "duration_loop orig d s = duration_loop orig (d + v) r"
proof -
  have "uint64 (d + v) = d + v" using assms(3-5) by (simp add: uint64_def)
  with assms(1,2,5) show ?thesis by (subst duration_loop.simps) (simp add: Let_def)
qed

lemma duration_loop_done: "duration_loop orig d [] = Inr d"
  by (simp add: duration_loop.simps)

text \<open>A number and its unit, without a fraction, in front of the rest.\<close>

lemma loop_whole:
  assumes "0 \<le> v" "0 \<le> d" "d + v * unit \<le> 2 ^ 63" "unitMap u = Some unit" "list_all unit_char u" "u \<noteq> []"
    "rest = [] \<or> \<not> unit_char (hd rest)" "0 < unit"
  shows "duration_loop orig d (decimal v @ u @ rest) = duration_loop orig (d + v * unit) rest"
proof -
  have vu: "0 \<le> v * unit" using assms(1,8) by simp
  have "v * unit \<le> 2 ^ 63" using assms(2,3) by linarith
  then have "v \<le> 2 ^ 63 div unit" using assms(8) zdiv_mono1 [of "v * unit" "2 ^ 63" unit] by simp
  then have "duration_component orig (decimal v @ fraction [] @ u @ rest) = Inr (v * unit + digits_value [] * 10 ^ (0 - length ([]::string)), rest)"
    using assms vu by (intro duration_component_printed) simp_all
  then show ?thesis using assms vu by (intro duration_loop_step) (simp_all add: fraction_def)
qed

lemma fmtFrac_fraction: "fmtFrac u p = fraction (trimmed (zero_padded p (u mod 10 ^ p)))"
  by (simp add: fmtFrac_def fraction_def)

text \<open>The last component: a number with the remainder of the division as its fraction.\<close>

lemma loop_frac:
  assumes "0 \<le> w" "0 \<le> d" "0 \<le> f" "f < 10 ^ p" "p \<le> 9" "d + w * 10 ^ p + f \<le> 2 ^ 63" "unitMap u = Some (10 ^ p)"
    "list_all unit_char u" "u \<noteq> []" "n mod 10 ^ p = f"
  shows "duration_loop orig d (decimal w @ fmtFrac n p @ u) = Inr (d + w * 10 ^ p + f)"
proof -
  define fr where "fr = trimmed (zero_padded p f)"
  have z: "zero_padded p f = fr @ replicate (p - length fr) (CHR ''0'')"
    using trimmed_split [of "zero_padded p f"] by (simp add: fr_def)
  have val: "digits_value fr * 10 ^ (p - length fr) = f"
    using digits_value_padded [of p f] assms(3,4) by (simp add: z digits_value_zeros)
  have "length (zero_padded p f) = p" by (rule length_zero_padded)
  then have len: "length fr \<le> p" unfolding z by simp
  have "list_all is_digit_char fr" using set_zero_padded [of p f] unfolding z by simp
  then have digits: "list_all is_digit fr" by (simp add: list_all_iff digit_chars_agree)
  have wp: "0 \<le> w * 10 ^ p" using assms(1) by simp
  have "w * 10 ^ p \<le> 2 ^ 63" using assms(2,3,6) by linarith
  then have "w \<le> 2 ^ 63 div 10 ^ p" using zdiv_mono1 [of "w * 10 ^ p" "2 ^ 63" "10 ^ p"] by simp
  then have "duration_component orig (decimal w @ fraction fr @ u @ []) = Inr (w * 10 ^ p + digits_value fr * 10 ^ (p - length fr), [])"
    using assms digits len val by (intro duration_component_printed) simp_all
  then have "duration_loop orig d (decimal w @ fraction fr @ u) = duration_loop orig (d + (w * 10 ^ p + f)) []"
    using assms wp by (intro duration_loop_step) (simp_all add: val)
  then show ?thesis by (simp add: fmtFrac_fraction assms(10) fr_def duration_loop_done)
qed

section \<open>The whole text\<close>

lemma decimal_no_unit: "\<not> unit_char (hd (decimal n @ s))"
  using decimal_digits [of n] by (cases "decimal n") (auto simp: unit_char_def)

lemmas unit_eval = unitMap_def unit_char_def is_digit_def micro_unit_def

lemma clock_sum:
  fixes u :: int
  assumes "u = s * 10 ^ 9 + ur" "s = m * 60 + sr" "m = h * 60 + mr"
  shows "h * 3600000000000 + mr * 60000000000 + sr * 10 ^ 9 + ur = u"
  unfolding assms by simp

lemma duration_text_read:
  assumes "0 \<le> u" "u \<le> 2 ^ 63"
  shows "duration_loop orig 0 (duration_text u) = Inr u"
proof (cases "u < 1000000000")
  case True
  consider "u = 0" | "0 < u" "u < 1000" | "1000 \<le> u" "u < 1000000" | "1000000 \<le> u" using assms(1) by linarith
  then show ?thesis
  proof cases
    case 1
    have "duration_loop orig 0 (decimal 0 @ ''s'' @ []) = duration_loop orig (0 + 0 * 1000000000) []"
      by (rule loop_whole) (simp_all add: unit_eval)
    moreover have "decimal 0 @ ''s'' = ''0s''" by code_simp
    ultimately show ?thesis using 1 by (simp add: duration_text_def duration_loop_done)
  next
    case 2
    have "duration_loop orig 0 (decimal u @ ''ns'' @ []) = duration_loop orig (0 + u * 1) []"
      by (rule loop_whole) (use assms in \<open>simp_all add: unit_eval\<close>)
    with 2 True show ?thesis by (simp add: duration_text_def fmtInt_def duration_loop_done)
  next
    case 3
    have "duration_loop orig 0 (decimal (u div 10 ^ 3) @ fmtFrac u 3 @ micro_unit) = Inr (0 + u div 10 ^ 3 * 10 ^ 3 + u mod 10 ^ 3)"
      by (rule loop_frac) (use assms in \<open>simp_all add: unit_eval\<close>)
    with 3 True show ?thesis by (simp add: duration_text_def fmtInt_def)
  next
    case 4
    have "duration_loop orig 0 (decimal (u div 10 ^ 6) @ fmtFrac u 6 @ ''ms'') = Inr (0 + u div 10 ^ 6 * 10 ^ 6 + u mod 10 ^ 6)"
      by (rule loop_frac) (use assms in \<open>simp_all add: unit_eval\<close>)
    with 4 True show ?thesis by (simp add: duration_text_def fmtInt_def)
  qed
next
  case False
  define secs mins hours where "secs = u div 10 ^ 9" and "mins = secs div 60" and "hours = mins div 60"
  have nonneg: "0 \<le> secs" "0 \<le> mins" "0 \<le> hours"
    using assms(1) by (simp_all add: secs_def mins_def hours_def pos_imp_zdiv_nonneg_iff)
  have u: "u = secs * 10 ^ 9 + u mod 10 ^ 9" by (simp add: secs_def)
  have s: "secs = mins * 60 + secs mod 60" and m: "mins = hours * 60 + mins mod 60" by (simp_all add: mins_def hours_def)
  have tail: "duration_loop orig d (decimal (secs mod 60) @ fmtFrac u 9 @ ''s'') = Inr (d + secs mod 60 * 10 ^ 9 + u mod 10 ^ 9)"
    if "0 \<le> d" "d + secs mod 60 * 10 ^ 9 + u mod 10 ^ 9 \<le> 2 ^ 63" for d
    by (rule loop_frac) (use that in \<open>simp_all add: unit_eval\<close>)
  have minutes: "duration_loop orig d (decimal (mins mod 60) @ ''m'' @ decimal k @ r) =
      duration_loop orig (d + mins mod 60 * 60000000000) (decimal k @ r)"
    if "0 \<le> d" "d + mins mod 60 * 60000000000 \<le> 2 ^ 63" for d k r
    by (rule loop_whole) (use that decimal_no_unit in \<open>simp_all add: unitMap_def unit_char_def is_digit_def\<close>)
  have hour: "duration_loop orig 0 (decimal hours @ ''h'' @ decimal k @ r) =
      duration_loop orig (0 + hours * 3600000000000) (decimal k @ r)"
    if "hours * 3600000000000 \<le> 2 ^ 63" for k r
    by (rule loop_whole) (use that nonneg decimal_no_unit in \<open>simp_all add: unitMap_def unit_char_def is_digit_def\<close>)
  have range: "hours * 3600000000000 + mins mod 60 * 60000000000 + secs mod 60 * 10 ^ 9 + u mod 10 ^ 9 = u"
    using clock_sum [OF u s m] .
  have pos: "0 \<le> hours * 3600000000000" "0 \<le> mins mod 60 * 60000000000" "0 \<le> secs mod 60 * 10 ^ 9" "0 \<le> u mod 10 ^ 9"
    using nonneg by simp_all
  have bounds: "hours * 3600000000000 \<le> 2 ^ 63" "hours * 3600000000000 + mins mod 60 * 60000000000 \<le> 2 ^ 63"
    "hours * 3600000000000 + mins mod 60 * 60000000000 + secs mod 60 * 10 ^ 9 + u mod 10 ^ 9 \<le> 2 ^ 63"
    using range pos assms(2) by linarith+
  have text_is: "duration_text u =
     (if mins > 0 then
        (if hours > 0 then decimal hours @ ''h'' @ decimal (mins mod 60) @ ''m'' @ decimal (secs mod 60) @ fmtFrac u 9 @ ''s''
         else decimal (mins mod 60) @ ''m'' @ decimal (secs mod 60) @ fmtFrac u 9 @ ''s'')
      else decimal (secs mod 60) @ fmtFrac u 9 @ ''s'')"
    using False unfolding duration_text_def Let_def fmtInt_def secs_def mins_def hours_def by (simp only: if_False)
  consider "mins = 0" "hours = 0" | "0 < mins" "hours = 0" | "0 < mins" "0 < hours"
    using nonneg m by fastforce
  then show ?thesis
  proof cases
    case 1
    then show ?thesis using tail [of 0] bounds range by (simp only: text_is) simp
  next
    case 2
    then show ?thesis
      using tail [of "mins mod 60 * 60000000000"] minutes [of 0] bounds range pos by (simp only: text_is) simp
  next
    case 3
    then show ?thesis
      using tail [of "hours * 3600000000000 + mins mod 60 * 60000000000"] minutes [of "hours * 3600000000000"] hour
        bounds range pos by (simp only: text_is) simp
  qed
qed

definition duration_char :: "char \<Rightarrow> bool" where
  "duration_char c \<longleftrightarrow> is_digit c \<or> c \<in> set (''.nmhs'' @ micro_unit)"

lemma decimal_chars: "list_all duration_char (decimal n)"
  using decimal_digits [of n] by (auto simp: list_all_iff duration_char_def)

lemma fmtFrac_chars: "list_all duration_char (fmtFrac n p)"
proof -
  have "list_all is_digit_char (trimmed (zero_padded p (n mod 10 ^ p)))"
    using set_zero_padded [of p "n mod 10 ^ p"] by (subst (asm) trimmed_split) simp
  then show ?thesis by (auto simp: fmtFrac_def Let_def list_all_iff digit_chars_agree duration_char_def)
qed

lemma duration_text_form: "\<exists>n t. duration_text u = decimal n @ t @ ''s'' \<and> list_all duration_char t"
proof -
  have found: "\<exists>n t. decimal n' @ t' = decimal n @ t @ ''s'' \<and> list_all duration_char t"
    if "t' = r @ ''s''" "list_all duration_char r" for n' t' r
    using that by blast
  have unit: "list_all duration_char ''n''" "list_all duration_char ''m''" "list_all duration_char ''h''"
    "list_all duration_char (butlast micro_unit)" by code_simp+
  have letters: "duration_char (CHR ''m'')" "duration_char (CHR ''h'')" by code_simp+
  have micro: "micro_unit = butlast micro_unit @ ''s''" by (simp add: micro_unit_def)
  note whole = decimal_chars fmtFrac_chars unit list_all_append append.simps append_assoc simp_thms
  consider "u = 0" | "u \<noteq> 0" "u < 1000" | "1000 \<le> u" "u < 1000000" | "1000000 \<le> u" "u < 1000000000" |
      "1000000000 \<le> u" by linarith
  then show ?thesis
  proof cases
    case 1
    have "''0s'' = decimal 0 @ [] @ ''s''" by code_simp
    with 1 show ?thesis by (intro exI [of _ 0] exI [of _ "[]"]) (simp add: duration_text_def)
  next
    case 2
    then have "duration_text u = decimal u @ ''ns''" by (simp add: duration_text_def fmtInt_def)
    then show ?thesis using found [of "''ns''" "''n''" u] unit by simp
  next
    case 3
    then have "duration_text u = decimal (u div 10 ^ 3) @ fmtFrac u 3 @ micro_unit" by (simp add: duration_text_def fmtInt_def)
    moreover have "fmtFrac u 3 @ micro_unit = (fmtFrac u 3 @ butlast micro_unit) @ ''s''" using micro by simp
    ultimately show ?thesis using found [of "fmtFrac u 3 @ micro_unit" "fmtFrac u 3 @ butlast micro_unit" "u div 10 ^ 3"]
      by (simp only: whole)
  next
    case 4
    then have "duration_text u = decimal (u div 10 ^ 6) @ fmtFrac u 6 @ ''ms''" by (simp add: duration_text_def fmtInt_def)
    then show ?thesis using found [of "fmtFrac u 6 @ ''ms''" "fmtFrac u 6 @ ''m''" "u div 10 ^ 6"] by (simp only: whole)
  next
    case 5
    define secs where "secs = u div 10 ^ 9"
    define r where "r = decimal (secs mod 60) @ fmtFrac u 9"
    have r: "list_all duration_char r" by (simp add: r_def decimal_chars fmtFrac_chars)
    have "duration_text u =
       (if secs div 60 > 0 then
          (if secs div 60 div 60 > 0 then decimal (secs div 60 div 60) @ ''h'' @ decimal (secs div 60 mod 60) @ ''m'' @ r @ ''s''
           else decimal (secs div 60 mod 60) @ ''m'' @ r @ ''s'')
        else decimal (secs mod 60) @ fmtFrac u 9 @ ''s'')"
      using 5 unfolding duration_text_def Let_def fmtInt_def secs_def r_def by (simp only: append_assoc) simp
    then show ?thesis
      using found [of "''h'' @ decimal (secs div 60 mod 60) @ ''m'' @ r @ ''s''" "''h'' @ decimal (secs div 60 mod 60) @ ''m'' @ r" "secs div 60 div 60"]
        found [of "''m'' @ r @ ''s''" "''m'' @ r" "secs div 60 mod 60"] found [of "fmtFrac u 9 @ ''s''" "fmtFrac u 9" "secs mod 60"] r
      by (simp only: whole letters list.pred_inject split: if_split)
  qed
qed

lemma Duration_String_form:
  assumes "in_int64 d"
  shows "Duration_String d = (if d < 0 then ''-'' else []) @ duration_text \<bar>d\<bar>"
proof -
  have "(if d < 0 then uint64 (- uint64 d) else uint64 d) = \<bar>d\<bar>"
    using assms by (auto simp: uint64_def mod_minus_eq in_int64_def min_int64_def max_int64_def)
  then show ?thesis by (simp add: Duration_String_def Let_def)
qed

lemma time_ParseDuration_text:
  assumes "in_int64 d"
  shows "time_ParseDuration (Duration_String d) = Inr d"
proof -
  define u where "u = \<bar>d\<bar>"
  have u: "0 \<le> u" "u \<le> 2 ^ 63" using assms by (auto simp: u_def in_int64_def min_int64_def max_int64_def)
  obtain n t where t: "duration_text u = decimal n @ t @ ''s''" using duration_text_form by blast
  have first: "is_digit (hd (duration_text u))" using decimal_digits [of n] unfolding t by (cases "decimal n") simp_all
  then have sign: "hd (duration_text u) \<noteq> CHR ''-''" "hd (duration_text u) \<noteq> CHR ''+''" by (auto simp: is_digit_def)
  have "duration_text u \<noteq> []" "duration_text u \<noteq> ''0''" by (auto simp: t append_eq_Cons_conv)
  moreover have "Duration_String d = (if d < 0 then ''-'' else []) @ duration_text u"
    using Duration_String_form [OF assms] by (simp add: u_def)
  moreover have "int64 (- int64 u) = d" if "d < 0"
  proof (cases "d = min_int64")
    case True
    then show ?thesis by (simp add: u_def int64_def min_int64_def)
  next
    case False
    with that assms have "in_int64 u" "- u = d" by (simp_all add: u_def in_int64_def min_int64_def max_int64_def)
    then show ?thesis using assms by (simp add: int64_id)
  qed
  ultimately show ?thesis
    using sign duration_text_read [OF u] assms
    by (auto simp: time_ParseDuration_def Let_def u_def int64_id in_int64_def max_int64_def)
qed

lemma duration_char_not_space: "duration_char c \<Longrightarrow> \<not> is_space c"
  by (auto simp: duration_char_def micro_unit_def is_space_def is_digit_def)

section \<open>Property\<close>

text \<open>C10: \<^bold>\<open>Durations survive JSON.\<close> Every \<open>time.Duration\<close>, the most negative one included, is decoded by
  \<open>UnmarshalJSON\<close> from the text \<open>MarshalJSON\<close> printed: the fraction is read back without a rounding
  error, no component overflows, and the text is never taken for a number of days.\<close>
theorem duration_json_roundtrip:
  assumes "in_int64 d"
  shows "Duration_UnmarshalJSON (Duration_MarshalJSON d) = Inr d"
proof -
  obtain n t where t: "duration_text \<bar>d\<bar> = decimal n @ t @ ''s''" "list_all duration_char t"
    using duration_text_form by blast
  have s: "Duration_String d = ((if d < 0 then ''-'' else []) @ decimal n @ t) @ ''s''"
    using t(1) by (simp add: Duration_String_form [OF assms])
  have "\<forall>c \<in> set (Duration_String d). \<not> is_space c"
    using t(2) decimal_chars [of n] duration_char_not_space unfolding s by (auto simp: list_all_iff is_space_def)
  then have trim: "TrimSpace (Duration_String d) = Duration_String d" by (rule TrimSpace_no_space)
  have suffix: "\<not> HasSuffix (Duration_String d) ''d''" unfolding s HasSuffix_def by simp
  have "Duration_String d \<noteq> []" unfolding s by simp
  then show ?thesis
    using time_ParseDuration_text [OF assms] trim suffix
    by (simp add: Duration_UnmarshalJSON_def Duration_MarshalJSON_def json_marshal_def json_unmarshal_def ParseDuration_def)
qed

theorem duration_json_roundtrip_witness:
  "Duration_UnmarshalJSON (Duration_MarshalJSON 5445250000001) = Inr 5445250000001 \<and>
   Duration_String 5445250000001 = ''1h30m45.250000001s'' \<and> Duration_String (- 1500000) = ''-1.5ms''"
proof -
  have "in_int64 5445250000001" by (simp add: in_int64_def min_int64_def max_int64_def)
  moreover have "Duration_String 5445250000001 = ''1h30m45.250000001s'' \<and> Duration_String (- 1500000) = ''-1.5ms''"
    by code_simp
  ultimately show ?thesis using duration_json_roundtrip by blast
qed

end
