(* ===== verification/Sql_Store.thy ===== *)
theory Sql_Store
  imports Trustage_Prelude "HOL-Library.Product_Lexorder" "HOL-Library.List_Lexorder" "HOL-Library.Char_ord"
begin

text \<open>
  The database as the repositories use it. A table is the list of its rows in insertion order;
  every row starts with the columns of the embedded \<open>data.BaseModel\<close>. The functions below are the
  meanings of the SQL statements the sources issue: \<open>SELECT ... WHERE ... LIMIT 1\<close> with and
  without \<open>ORDER BY\<close>, \<open>INSERT\<close> under the primary key and the partial unique indexes of
  \<open>migrate.go\<close>, \<open>UPDATE ... SET ... WHERE\<close> with its affected rows, the update of a whole row, and
  soft deletion. A transaction is a function on the state whose error result carries no state:
  the caller keeps the state it had, which is the rollback.

  Statements can fail. Which of them do is the argument \<open>F\<close>, a predicate on the label of the
  statement, so that every error branch of the sources is a branch of the model.
\<close>

section \<open>Errors\<close>

text \<open>\<open>errors.Is\<close>: the error itself or one it wraps.\<close>

fun error_is :: "errmsg \<Rightarrow> errmsg \<Rightarrow> bool" and arg_is :: "earg \<Rightarrow> errmsg \<Rightarrow> bool" where
  "error_is (Errf f args) target \<longleftrightarrow> Errf f args = target \<or> list_ex (\<lambda>a. arg_is a target) args"
| "arg_is (EErr e) target \<longleftrightarrow> error_is e target"
| "arg_is (EStr s) target \<longleftrightarrow> False"
| "arg_is (EInt i) target \<longleftrightarrow> False"
| "arg_is (EStrs ss) target \<longleftrightarrow> False"

section \<open>Rows\<close>

record base_model =
  bm_ID :: string
  bm_CreatedAt :: int
  bm_ModifiedAt :: int
  bm_DeletedAt :: "int option"

definition live :: "'a base_model_scheme \<Rightarrow> bool" where
  "live r \<longleftrightarrow> bm_DeletedAt r = None"

type_synonym faults = "string \<Rightarrow> bool"

definition no_faults :: faults where
  "no_faults = (\<lambda>_. False)"

definition db_error :: "string \<Rightarrow> errmsg" where
  "db_error label = Errf ''database error'' [EStr label]"

definition ErrRecordNotFound :: errmsg where
  "ErrRecordNotFound = Errf ''record not found'' []"

text \<open>\<open>fmt.Errorf("label: %w", err)\<close> for a failed statement.\<close>

definition wrap :: "string \<Rightarrow> errmsg \<Rightarrow> errmsg" where
  "wrap label err = Errf (label @ '': %w'') [EErr err]"

definition stmt :: "faults \<Rightarrow> string \<Rightarrow> unit result" where
  "stmt F label = guard (\<not> F label) (wrap label (db_error label))"

lemma stmt_iff [res_simps, simp]: "stmt F l = Inr u \<longleftrightarrow> \<not> F l"
  by (simp add: stmt_def guard_def)

lemma stmt_no_faults [simp]: "stmt no_faults l = Inr ()"
  by (simp add: stmt_def no_faults_def guard_def)

section \<open>Statements\<close>

text \<open>\<open>GetByID\<close> and every \<open>WHERE id = ? AND deleted_at IS NULL\<close>.\<close>

definition db_get :: "'a base_model_scheme list \<Rightarrow> string \<Rightarrow> 'a base_model_scheme option" where
  "db_get tbl i = List.find (\<lambda>r. bm_ID r = i \<and> live r) tbl"

definition db_select :: "('a base_model_scheme \<Rightarrow> bool) \<Rightarrow> 'a base_model_scheme list \<Rightarrow> 'a base_model_scheme list" where
  "db_select P tbl = filter (\<lambda>r. P r \<and> live r) tbl"

text \<open>\<open>ORDER BY key LIMIT 1\<close>; rows with equal keys are taken in table order.\<close>

definition first_by :: "('r \<Rightarrow> 'k::linorder) \<Rightarrow> 'r list \<Rightarrow> 'r option" where
  "first_by key rows = (case rows of
     [] \<Rightarrow> None
   | r # rs \<Rightarrow> Some (foldl (\<lambda>m x. if key x < key m then x else m) r rs))"

text \<open>
  \<open>INSERT\<close>: refused when the primary key is taken or when a live row collides with the new one
  on a unique index (\<open>conflict\<close>).
\<close>

definition db_insert ::
    "('a base_model_scheme \<Rightarrow> 'a base_model_scheme \<Rightarrow> bool) \<Rightarrow> 'a base_model_scheme
      \<Rightarrow> 'a base_model_scheme list \<Rightarrow> 'a base_model_scheme list option" where
  "db_insert conflict row tbl =
     (if list_ex (\<lambda>r. bm_ID r = bm_ID row \<or> live r \<and> conflict r row) tbl then None else Some (tbl @ [row]))"

text \<open>\<open>UPDATE ... SET ... WHERE P AND deleted_at IS NULL\<close>, and its affected rows.\<close>

definition db_update ::
    "('a base_model_scheme \<Rightarrow> bool) \<Rightarrow> ('a base_model_scheme \<Rightarrow> 'a base_model_scheme)
      \<Rightarrow> 'a base_model_scheme list \<Rightarrow> 'a base_model_scheme list" where
  "db_update P f tbl = map (\<lambda>r. if P r \<and> live r then f r else r) tbl"

definition affected :: "('a base_model_scheme \<Rightarrow> bool) \<Rightarrow> 'a base_model_scheme list \<Rightarrow> nat" where
  "affected P tbl = length (db_select P tbl)"

text \<open>
  Writing back a row that was read before (\<open>tx.Save\<close>): all columns of the row with its id,
  refused when another live row collides on a unique index.
\<close>

definition db_save ::
    "('a base_model_scheme \<Rightarrow> 'a base_model_scheme \<Rightarrow> bool) \<Rightarrow> 'a base_model_scheme
      \<Rightarrow> 'a base_model_scheme list \<Rightarrow> 'a base_model_scheme list option" where
  "db_save conflict row tbl =
     (if list_ex (\<lambda>r. bm_ID r \<noteq> bm_ID row \<and> live r \<and> conflict r row) tbl then None
      else Some (map (\<lambda>r. if bm_ID r = bm_ID row then row else r) tbl))"

definition no_conflict :: "'r \<Rightarrow> 'r \<Rightarrow> bool" where
  "no_conflict r s = False"

definition unique_violation :: errmsg where
  "unique_violation = Errf ''duplicate key value violates unique constraint'' []"

text \<open>An insert statement with its label: a fault of the database or a violated constraint.\<close>

definition create ::
    "faults \<Rightarrow> string \<Rightarrow> ('a base_model_scheme \<Rightarrow> 'a base_model_scheme \<Rightarrow> bool) \<Rightarrow> 'a base_model_scheme
      \<Rightarrow> 'a base_model_scheme list \<Rightarrow> 'a base_model_scheme list result" where
  "create F label conflict row tbl =
     and_then (stmt F label) (\<lambda>_. case db_insert conflict row tbl of
       None \<Rightarrow> Inl (wrap label unique_violation)
     | Some tbl' \<Rightarrow> Inr tbl')"

definition save ::
    "faults \<Rightarrow> string \<Rightarrow> ('a base_model_scheme \<Rightarrow> 'a base_model_scheme \<Rightarrow> bool) \<Rightarrow> 'a base_model_scheme
      \<Rightarrow> 'a base_model_scheme list \<Rightarrow> 'a base_model_scheme list result" where
  "save F label conflict row tbl =
     and_then (stmt F label) (\<lambda>_. case db_save conflict row tbl of
       None \<Rightarrow> Inl (wrap label unique_violation)
     | Some tbl' \<Rightarrow> Inr tbl')"

section \<open>Shapes shared by the repositories and services\<close>

text \<open>\<open>BaseRepository.GetByID\<close> and the statements that read one row by its id.\<close>

definition repo_get ::
    "faults \<Rightarrow> string \<Rightarrow> 'a base_model_scheme list \<Rightarrow> string \<Rightarrow> 'a base_model_scheme result" where
  "repo_get F label tbl i =
     (if F label then Inl (db_error label)
      else (case db_get tbl i of None \<Rightarrow> Inl ErrRecordNotFound | Some r \<Rightarrow> Inr r))"

lemma repo_get_iff: "repo_get F l tbl i = Inr r \<longleftrightarrow> \<not> F l \<and> db_get tbl i = Some r"
  by (auto simp: repo_get_def split: option.splits)

text \<open>\<open>fmt.Errorf("label: %w", err)\<close> around a call.\<close>

definition labelled :: "string \<Rightarrow> 'a result \<Rightarrow> 'a result" where
  "labelled label r = (case r of Inl err \<Rightarrow> Inl (wrap label err) | Inr x \<Rightarrow> Inr x)"

text \<open>\<open>fmt.Errorf("%w: %w", sentinel, err)\<close>.\<close>

definition because :: "errmsg \<Rightarrow> 'a result \<Rightarrow> 'a result" where
  "because sentinel r = (case r of Inl err \<Rightarrow> Inl (Errf ''%w: %w'' [EErr sentinel, EErr err]) | Inr x \<Rightarrow> Inr x)"

lemma because_iff [res_simps, simp]: "because s r = Inr x \<longleftrightarrow> r = Inr x"
  by (auto simp: because_def split: sum.splits)

lemma labelled_iff [res_simps, simp]: "labelled l r = Inr x \<longleftrightarrow> r = Inr x"
  by (auto simp: labelled_def split: sum.splits)

definition empty_object :: raw_json where "empty_object = RawJson (VMap [])"

definition with_id :: "string \<Rightarrow> int \<Rightarrow> 'a base_model_scheme \<Rightarrow> 'a base_model_scheme" where
  "with_id newID now r = r\<lparr>bm_ID := (if bm_ID r = [] then newID else bm_ID r),
     bm_CreatedAt := now, bm_ModifiedAt := now, bm_DeletedAt := None\<rparr>"

text \<open>A \<open>jsonb\<close> column takes JSON only; a column with a default takes the empty string as it.\<close>

definition jsonb_ok :: "raw_json \<Rightarrow> bool" where
  "jsonb_ok p \<longleftrightarrow> (case p of RawJson _ \<Rightarrow> True | _ \<Rightarrow> False)"

definition json_default :: "any \<Rightarrow> raw_json \<Rightarrow> raw_json" where
  "json_default d p = (if p = RawEmpty then RawJson d else p)"

definition jsonb :: "string \<Rightarrow> raw_json list \<Rightarrow> unit result" where
  "jsonb label ps = guard (list_all jsonb_ok ps) (wrap label (Errf ''invalid input syntax for type json'' []))"

lemma jsonb_iff [res_simps, simp]: "jsonb l ps = Inr u \<longleftrightarrow> list_all jsonb_ok ps"
  by (simp add: jsonb_def guard_iff)

lemma jsonb_ok_simps [simp]: "jsonb_ok (RawJson v)" "\<not> jsonb_ok RawEmpty" "\<not> jsonb_ok (RawInvalid s)"
  by (simp_all add: jsonb_ok_def)

section \<open>Facts about the statements\<close>

definition ids_ok :: "'a base_model_scheme list \<Rightarrow> bool" where
  "ids_ok tbl \<longleftrightarrow> distinct (map bm_ID tbl) \<and> [] \<notin> set (map bm_ID tbl)"

text \<open>Updates that leave the key and the deletion mark alone, as every \<open>SET\<close> of the sources does.\<close>

definition keeps_key :: "('a base_model_scheme \<Rightarrow> 'a base_model_scheme) \<Rightarrow> bool" where
  "keeps_key f \<longleftrightarrow> (\<forall>r. bm_ID (f r) = bm_ID r \<and> bm_DeletedAt (f r) = bm_DeletedAt r)"

lemma keeps_keyD [simp]:
  "keeps_key f \<Longrightarrow> bm_ID (f r) = bm_ID r"
  "keeps_key f \<Longrightarrow> live (f r) = live r"
  by (simp_all add: keeps_key_def live_def)

lemma db_get_SomeD: "db_get tbl i = Some r \<Longrightarrow> r \<in> set tbl \<and> bm_ID r = i \<and> live r"
  unfolding db_get_def by (drule find_SomeD) simp

lemma db_get_mem:
  "ids_ok tbl \<Longrightarrow> r \<in> set tbl \<Longrightarrow> live r \<Longrightarrow> db_get tbl (bm_ID r) = Some r"
  unfolding db_get_def ids_ok_def by (induction tbl) (auto simp: image_iff)

lemma db_get_iff: "ids_ok tbl \<Longrightarrow> db_get tbl i = Some r \<longleftrightarrow> r \<in> set tbl \<and> live r \<and> bm_ID r = i"
  using db_get_mem db_get_SomeD by metis

lemma db_get_Nil_id: "ids_ok tbl \<Longrightarrow> db_get tbl [] = None"
  by (force simp: db_get_def find_None_iff' ids_ok_def)

lemma map_ID_update [simp]: "keeps_key f \<Longrightarrow> map bm_ID (db_update P f tbl) = map bm_ID tbl"
  by (simp add: db_update_def comp_def)

lemma ids_ok_update [simp]: "keeps_key f \<Longrightarrow> ids_ok (db_update P f tbl) = ids_ok tbl"
  by (simp only: ids_ok_def map_ID_update)

lemma db_get_update:
  "keeps_key f \<Longrightarrow>
     db_get (db_update P f tbl) i = map_option (\<lambda>r. if P r then f r else r) (db_get tbl i)"
  by (induction tbl) (auto simp: db_get_def db_update_def)

lemma db_get_update_id:
  assumes "keeps_key f"
  shows "db_get (db_update (\<lambda>r. bm_ID r = j) f tbl) i = (if i = j then map_option f (db_get tbl i) else db_get tbl i)"
proof (cases "db_get tbl i")
  case (Some r)
  then have "bm_ID r = i" by (simp add: db_get_SomeD)
  with Some show ?thesis by (auto simp: db_get_update [OF assms])
qed (auto simp: db_get_update [OF assms])

lemma find_append: "List.find P (xs @ ys) = (case List.find P xs of None \<Rightarrow> List.find P ys | Some x \<Rightarrow> Some x)"
  by (induction xs) auto

lemma db_get_fresh: "i \<notin> bm_ID ` set tbl \<Longrightarrow> db_get tbl i = None"
  by (auto simp: db_get_def find_None_iff')

lemma db_insert_SomeD:
  "db_insert conflict row tbl = Some tbl' \<Longrightarrow> tbl' = tbl @ [row] \<and> bm_ID row \<notin> bm_ID ` set tbl"
  by (auto simp: db_insert_def list_ex_iff split: if_splits)

lemma db_get_insert:
  assumes "db_insert conflict row tbl = Some tbl'" and "live row"
  shows "db_get tbl' i = (if i = bm_ID row then Some row else db_get tbl i)"
proof -
  have t: "tbl' = tbl @ [row]" "bm_ID row \<notin> bm_ID ` set tbl" using db_insert_SomeD [OF assms(1)] by auto
  from db_get_fresh [OF t(2)] t assms(2) show ?thesis by (auto simp: db_get_def find_append split: option.splits)
qed

lemma ids_ok_insert:
  "db_insert conflict row tbl = Some tbl' \<Longrightarrow> ids_ok tbl \<Longrightarrow> bm_ID row \<noteq> [] \<Longrightarrow> ids_ok tbl'"
  by (auto simp: ids_ok_def dest!: db_insert_SomeD)

lemma map_ID_save: "db_save conflict row tbl = Some tbl' \<Longrightarrow> map bm_ID tbl' = map bm_ID tbl"
  by (auto simp: db_save_def split: if_splits)

lemma ids_ok_save: "db_save conflict row tbl = Some tbl' \<Longrightarrow> ids_ok tbl' = ids_ok tbl"
  unfolding ids_ok_def by (simp only: map_ID_save)

lemma db_get_save:
  assumes "db_save conflict row tbl = Some tbl'" and "db_get tbl (bm_ID row) = Some old" and "live row"
  shows "db_get tbl' i = (if i = bm_ID row then Some row else db_get tbl i)"
proof -
  from assms(1) have t: "tbl' = map (\<lambda>r. if bm_ID r = bm_ID row then row else r) tbl"
    by (auto simp: db_save_def split: if_splits)
  from db_get_SomeD [OF assms(2)] have "old \<in> set tbl" "bm_ID old = bm_ID row" by auto
  then have "i = bm_ID row \<Longrightarrow> db_get tbl' i = Some row"
    unfolding t db_get_def using assms(3) by (induction tbl) auto
  moreover have "i \<noteq> bm_ID row \<Longrightarrow> db_get tbl' i = db_get tbl i"
    unfolding t db_get_def by (induction tbl) auto
  ultimately show ?thesis by simp
qed

lemma create_InrD:
  "create F l conflict row tbl = Inr tbl' \<Longrightarrow> \<not> F l \<and> db_insert conflict row tbl = Some tbl'"
  by (auto simp: create_def res_simps split: option.splits)

lemma save_InrD:
  "save F l conflict row tbl = Inr tbl' \<Longrightarrow> \<not> F l \<and> db_save conflict row tbl = Some tbl'"
  by (auto simp: save_def res_simps split: option.splits)

lemma create_no_faults:
  "\<not> list_ex (\<lambda>r. bm_ID r = bm_ID row \<or> live r \<and> conflict r row) tbl \<Longrightarrow>
     create no_faults l conflict row tbl = Inr (tbl @ [row])"
  by (simp add: create_def db_insert_def)

lemma affected_id:
  assumes "ids_ok tbl"
  shows "affected (\<lambda>r. bm_ID r = i) tbl = 0 \<longleftrightarrow> db_get tbl i = None"
  by (auto simp: affected_def db_select_def db_get_def find_None_iff' filter_empty_conv)

lemma affected_0_iff: "affected P tbl = 0 \<longleftrightarrow> (\<forall>r \<in> set tbl. live r \<longrightarrow> \<not> P r)"
  by (auto simp: affected_def db_select_def filter_empty_conv)

subsection \<open>Selection by order\<close>

lemma first_by_None [simp]: "first_by key rows = None \<longleftrightarrow> rows = []"
  by (simp add: first_by_def split: list.splits)

lemma foldl_min:
  "let m = foldl (\<lambda>m x. if key x < key m then x else m) r rs in
     m \<in> set (r # rs) \<and> (\<forall>x \<in> set (r # rs). (key m :: 'k::linorder) \<le> key x)"
proof (induction rs arbitrary: r)
  case (Cons x rs)
  define r' where "r' = (if key x < key r then x else r)"
  have "key r' \<le> key r" "key r' \<le> key x" "r' = x \<or> r' = r" by (auto simp: r'_def)
  with Cons [of r'] show ?case
    by (fastforce simp: Let_def r'_def [symmetric])
qed simp

lemma first_by_SomeD:
  "first_by key rows = Some r \<Longrightarrow> r \<in> set rows \<and> (\<forall>x \<in> set rows. key r \<le> key x)"
  using foldl_min [of key] by (fastforce simp: first_by_def Let_def split: list.splits)

section \<open>The row store as an interface\<close>

text \<open>
  What the services rely on: reading by id after a guarded update, an insert or a save. The laws
  give that a property of rows holds of every live row after an operation when the written rows
  have it.
\<close>

locale row_store =
  fixes ok :: "'t \<Rightarrow> bool"
    and get :: "'t \<Rightarrow> string \<Rightarrow> 'r option"
    and upd :: "string \<Rightarrow> ('r \<Rightarrow> 'r) \<Rightarrow> 't \<Rightarrow> 't"
    and ins :: "'r \<Rightarrow> 't \<Rightarrow> 't option"
    and key :: "'r \<Rightarrow> string"
    and plain_upd :: "('r \<Rightarrow> 'r) \<Rightarrow> bool"
    and plain_row :: "'r \<Rightarrow> bool"
  assumes get_upd: "plain_upd f \<Longrightarrow> get (upd j f t) i = (if i = j then map_option f (get t i) else get t i)"
    and ok_upd: "plain_upd f \<Longrightarrow> ok t \<Longrightarrow> ok (upd j f t)"
    and get_ins: "ins r t = Some t' \<Longrightarrow> plain_row r \<Longrightarrow> get t' i = (if i = key r then Some r else get t i)"
    and ok_ins: "ins r t = Some t' \<Longrightarrow> plain_row r \<Longrightarrow> ok t \<Longrightarrow> ok t'"
    and ins_fresh: "ins r t = Some t' \<Longrightarrow> get t (key r) = None"
begin

lemma all_rows_upd:
  assumes "plain_upd f" and "\<And>i r. get t i = Some r \<Longrightarrow> Q r" and "\<And>r. get t j = Some r \<Longrightarrow> Q (f r)"
    and "get (upd j f t) i = Some r"
  shows "Q r"
  using assms by (auto simp: get_upd split: if_splits)

lemma all_rows_ins:
  assumes "ins r t = Some t'" and "plain_row r" and "\<And>i s. get t i = Some s \<Longrightarrow> Q s" and "Q r"
    and "get t' i = Some s"
  shows "Q s"
  using assms by (auto simp: get_ins split: if_splits)

lemma upd_other: "plain_upd f \<Longrightarrow> i \<noteq> j \<Longrightarrow> get (upd j f t) i = get t i"
  by (simp add: get_upd)

lemma upd_commute:
  "plain_upd f \<Longrightarrow> plain_upd g \<Longrightarrow> i \<noteq> j \<Longrightarrow> get (upd i f (upd j g t)) k = get (upd j g (upd i f t)) k"
  by (simp add: get_upd)

end

interpretation list_rows: row_store ids_ok db_get
    "\<lambda>j f. db_update (\<lambda>r. bm_ID r = j) f" "db_insert conflict" bm_ID keeps_key
    "\<lambda>r. live r \<and> bm_ID r \<noteq> []" for conflict
proof
  fix f :: "'a base_model_scheme \<Rightarrow> 'a base_model_scheme" and j t i and r t'
  show "keeps_key f \<Longrightarrow> db_get (db_update (\<lambda>r. bm_ID r = j) f t) i =
      (if i = j then map_option f (db_get t i) else db_get t i)"
    by (rule db_get_update_id)
  show "keeps_key f \<Longrightarrow> ids_ok t \<Longrightarrow> ids_ok (db_update (\<lambda>r. bm_ID r = j) f t)" by simp
  show "db_insert conflict r t = Some t' \<Longrightarrow> live r \<and> bm_ID r \<noteq> [] \<Longrightarrow>
      db_get t' i = (if i = bm_ID r then Some r else db_get t i)"
    by (simp add: db_get_insert)
  show "db_insert conflict r t = Some t' \<Longrightarrow> live r \<and> bm_ID r \<noteq> [] \<Longrightarrow> ids_ok t \<Longrightarrow> ids_ok t'"
    by (simp add: ids_ok_insert)
  show "db_insert conflict r t = Some t' \<Longrightarrow> db_get t (bm_ID r) = None"
    using db_insert_SomeD db_get_fresh by blast
qed

end
