(* ===== verification/Status_Machine.thy ===== *)
theory Status_Machine
  imports Trustage_Prelude
begin

text \<open>
  The pattern of the \<open>TransitionTo\<close> methods of the models: a table of allowed target statuses
  and a method that performs a transition exactly when the table has it. The interface is a
  locale; each model that has such a method interprets it.
\<close>

definition transition_error :: "string \<Rightarrow> string \<Rightarrow> string \<Rightarrow> errmsg" where
  "transition_error format a b = Errf format [EStr a, EStr b]"

locale status_machine =
  fixes allowed :: "'s \<Rightarrow> 's list"
    and attempt :: "'s \<Rightarrow> 's \<Rightarrow> 's result"
  assumes attempt_iff: "attempt s t = Inr u \<longleftrightarrow> t \<in> set (allowed s) \<and> u = t"
begin

text \<open>A sequence of attempted transitions; a refused one leaves the status as it is.\<close>

definition run :: "'s \<Rightarrow> 's list \<Rightarrow> 's" where
  "run s ts = foldl (\<lambda>a t. case attempt a t of Inr u \<Rightarrow> u | Inl _ \<Rightarrow> a) s ts"

definition reaches :: "('s \<times> 's) set" where
  "reaches = {(s, t). t \<in> set (allowed s)}\<^sup>*"

lemma attempt_fails: "t \<notin> set (allowed s) \<Longrightarrow> \<not> is_ok (attempt s t)"
  using attempt_iff by (cases "attempt s t") auto

lemma run_reaches: "(s, run s ts) \<in> reaches"
proof (induction ts rule: rev_induct)
  case (snoc t ts)
  show ?case
  proof (cases "attempt (run s ts) t")
    case (Inr u)
    then have "(run s ts, u) \<in> {(s, t). t \<in> set (allowed s)}" by (simp add: attempt_iff)
    with snoc Inr show ?thesis by (auto simp: run_def reaches_def intro: rtrancl_into_rtrancl)
  qed (use snoc in \<open>simp add: run_def\<close>)
qed (simp add: run_def reaches_def)

lemma terminal_stays: "set (allowed s) \<subseteq> {s} \<Longrightarrow> run s ts = s"
proof (induction ts)
  case (Cons t ts)
  then have "(case attempt s t of Inr u \<Rightarrow> u | Inl _ \<Rightarrow> s) = s"
    using attempt_iff by (fastforce split: sum.splits)
  with Cons show ?case by (simp add: run_def)
qed (simp add: run_def)

end

end
