(* ===== verification/Queue_Models.thy ===== *)
theory Queue_Models
  imports Sql_Store Status_Machine
begin

text \<open>
  The rows of the queue service (\<open>apps/queue/service/models\<close>), its database state and the
  statistics cache (\<open>business/queue_stats.go\<close>).
\<close>

section \<open>Items\<close>

datatype QueueItemStatus =
    ItemStatusWaiting | ItemStatusServing | ItemStatusCompleted
  | ItemStatusCancelled | ItemStatusNoShow | ItemStatusExpired

record QueueItem = base_model +
  qi_QueueID :: string
  qi_Priority :: int
  qi_Status :: QueueItemStatus
  qi_TicketNo :: string
  qi_Category :: string
  qi_CustomerID :: string
  qi_Metadata :: raw_json
  qi_CounterID :: string
  qi_ServedBy :: string
  qi_CalledAt :: "int option"
  qi_ServiceStart :: "int option"
  qi_ServiceEnd :: "int option"
  qi_JoinedAt :: int

definition item_status_string :: "QueueItemStatus \<Rightarrow> string" where
  "item_status_string s = (case s of
     ItemStatusWaiting \<Rightarrow> ''waiting'' | ItemStatusServing \<Rightarrow> ''serving''
   | ItemStatusCompleted \<Rightarrow> ''completed'' | ItemStatusCancelled \<Rightarrow> ''cancelled''
   | ItemStatusNoShow \<Rightarrow> ''no_show'' | ItemStatusExpired \<Rightarrow> ''expired'')"

definition validItemTransitions :: "QueueItemStatus \<Rightarrow> QueueItemStatus list" where
  "validItemTransitions s = (case s of
     ItemStatusWaiting \<Rightarrow> [ItemStatusServing, ItemStatusCancelled, ItemStatusNoShow, ItemStatusExpired]
   | ItemStatusServing \<Rightarrow> [ItemStatusCompleted, ItemStatusCancelled, ItemStatusNoShow, ItemStatusWaiting]
   | ItemStatusNoShow \<Rightarrow> [ItemStatusWaiting]
   | ItemStatusCompleted \<Rightarrow> []
   | ItemStatusCancelled \<Rightarrow> []
   | ItemStatusExpired \<Rightarrow> [])"

definition item_transition :: "QueueItemStatus \<Rightarrow> QueueItemStatus \<Rightarrow> QueueItemStatus result" where
  "item_transition s newStatus =
     (if newStatus \<in> set (validItemTransitions s) then Inr newStatus
      else Inl (transition_error ''invalid transition from %s to %s'' (item_status_string s) (item_status_string newStatus)))"

definition QueueItem_TransitionTo :: "QueueItemStatus \<Rightarrow> QueueItem \<Rightarrow> QueueItem result" where
  "QueueItem_TransitionTo newStatus q =
     and_then (item_transition (qi_Status q) newStatus) (\<lambda>s. Inr (q\<lparr>qi_Status := s\<rparr>))"

interpretation item_machine: status_machine validItemTransitions item_transition
  by unfold_locales (auto simp: item_transition_def)

section \<open>Counters\<close>

datatype CounterStatus = CounterStatusOpen | CounterStatusClosed | CounterStatusPaused

record QueueCounter = base_model +
  qc_QueueID :: string
  qc_Name :: string
  qc_Status :: CounterStatus
  qc_CurrentItemID :: string
  qc_ServedBy :: string
  qc_Categories :: raw_json
  qc_TotalServed :: int

definition counter_status_string :: "CounterStatus \<Rightarrow> string" where
  "counter_status_string s = (case s of
     CounterStatusOpen \<Rightarrow> ''open'' | CounterStatusClosed \<Rightarrow> ''closed'' | CounterStatusPaused \<Rightarrow> ''paused'')"

definition validCounterTransitions :: "CounterStatus \<Rightarrow> CounterStatus list" where
  "validCounterTransitions s = (case s of
     CounterStatusClosed \<Rightarrow> [CounterStatusOpen]
   | CounterStatusOpen \<Rightarrow> [CounterStatusClosed, CounterStatusPaused]
   | CounterStatusPaused \<Rightarrow> [CounterStatusOpen, CounterStatusClosed])"

definition counter_transition :: "CounterStatus \<Rightarrow> CounterStatus \<Rightarrow> CounterStatus result" where
  "counter_transition s newStatus =
     (if newStatus \<in> set (validCounterTransitions s) then Inr newStatus
      else Inl (transition_error ''invalid transition from %s to %s'' (counter_status_string s) (counter_status_string newStatus)))"

definition QueueCounter_TransitionTo :: "CounterStatus \<Rightarrow> QueueCounter \<Rightarrow> QueueCounter result" where
  "QueueCounter_TransitionTo newStatus c =
     and_then (counter_transition (qc_Status c) newStatus) (\<lambda>s. Inr (c\<lparr>qc_Status := s\<rparr>))"

interpretation counter_machine: status_machine validCounterTransitions counter_transition
  by unfold_locales (auto simp: counter_transition_def)

section \<open>Definitions, statistics and the state\<close>

record QueueDefinition = base_model +
  qd_Name :: string
  qd_Description :: string
  qd_Active :: bool
  qd_PriorityLevels :: int
  qd_MaxCapacity :: int
  qd_SLAMinutes :: int
  qd_Config :: raw_json

record QueueStats =
  st_TotalWaiting :: int
  st_TotalServing :: int
  st_AvgWaitMinutes :: rat
  st_EstimatedWait :: rat
  st_LongestWait :: rat
  st_TodayServed :: int
  st_TodayCancelled :: int
  st_TodayNoShow :: int
  st_OpenCounters :: int

text \<open>
  The three tables, the time of the last invalidation per queue, and the cache: an entry is the
  cached statistics with their expiry time.
\<close>

record QueueState =
  qs_defs :: "QueueDefinition list"
  qs_items :: "QueueItem list"
  qs_counters :: "QueueCounter list"
  qs_lastInvalidate :: "(string \<times> int) list"
  qs_cache :: "(string \<times> QueueStats \<times> int) list"

text \<open>
  \<open>BaseRepository.Update\<close> belongs to the framework (\<open>github.com/pitabwire/frame\<close>) and is a
  parameter for each table, next to the failing statements.
\<close>

record queue_env =
  qe_F :: faults
  qe_UpdateDef :: "QueueDefinition \<Rightarrow> QueueDefinition list \<Rightarrow> QueueDefinition list result"
  qe_UpdateItem :: "QueueItem \<Rightarrow> QueueItem list \<Rightarrow> QueueItem list result"
  qe_UpdateCounter :: "QueueCounter \<Rightarrow> QueueCounter list \<Rightarrow> QueueCounter list result"

text \<open>The unique indexes of \<open>repository/migrate.go\<close>.\<close>

definition name_conflict :: "QueueDefinition \<Rightarrow> QueueDefinition \<Rightarrow> bool" where
  "name_conflict r s \<longleftrightarrow> qd_Name r = qd_Name s"

definition ticket_conflict :: "QueueItem \<Rightarrow> QueueItem \<Rightarrow> bool" where
  "ticket_conflict r s \<longleftrightarrow> qi_QueueID r = qi_QueueID s \<and> qi_TicketNo r = qi_TicketNo s"

text \<open>What the service relies on: a successful \<open>Update\<close> stores the columns of the entity.\<close>

definition updates_save :: "queue_env \<Rightarrow> bool" where
  "updates_save env \<longleftrightarrow>
     (\<forall>row tbl tbl'. qe_UpdateItem env row tbl = Inr tbl' \<longrightarrow> db_save ticket_conflict row tbl = Some tbl') \<and>
     (\<forall>row tbl tbl'. qe_UpdateCounter env row tbl = Inr tbl' \<longrightarrow> db_save no_conflict row tbl = Some tbl')"

definition example_queue_env :: queue_env where
  "example_queue_env = \<lparr>qe_F = no_faults,
     qe_UpdateDef = save no_faults ''update'' name_conflict,
     qe_UpdateItem = save no_faults ''update'' ticket_conflict,
     qe_UpdateCounter = save no_faults ''update'' no_conflict\<rparr>"

lemma example_queue_env_saves: "updates_save example_queue_env"
  by (auto simp: updates_save_def example_queue_env_def dest: save_InrD)

section \<open>The statistics cache (queue_stats.go)\<close>

definition minInvalidateInterval :: int where "minInvalidateInterval = 5000000000"

definition statsCacheKey :: "string \<Rightarrow> string" where
  "statsCacheKey queueID = ''queue:stats:'' @ queueID"

definition InvalidateCache :: "int \<Rightarrow> string \<Rightarrow> QueueState \<Rightarrow> QueueState" where
  "InvalidateCache now queueID st = (case map_of (qs_lastInvalidate st) queueID of
     Some prev \<Rightarrow>
       if now - prev < minInvalidateInterval then st
       else st\<lparr>qs_lastInvalidate := AList.update queueID now (qs_lastInvalidate st),
              qs_cache := AList.delete (statsCacheKey queueID) (qs_cache st)\<rparr>
   | None \<Rightarrow> st\<lparr>qs_lastInvalidate := AList.update queueID now (qs_lastInvalidate st),
              qs_cache := AList.delete (statsCacheKey queueID) (qs_cache st)\<rparr>)"

lemma InvalidateCache_tables [simp]:
  "qs_defs (InvalidateCache now q st) = qs_defs st"
  "qs_items (InvalidateCache now q st) = qs_items st"
  "qs_counters (InvalidateCache now q st) = qs_counters st"
  by (simp_all add: InvalidateCache_def split: option.splits)

end
