(* ===== verification/Queue_Repository.thy ===== *)
theory Queue_Repository
  imports Queue_Models
begin

text \<open>
  The repositories of the queue service (\<open>apps/queue/service/repository\<close>) and the statistics
  computed from them. Reads are functions of the tables; \<open>now\<close> is the clock. Row locks
  (\<open>FOR UPDATE SKIP LOCKED\<close>) have no effect in the absence of a concurrent transaction and are
  not modelled. Averages are exact rationals.
\<close>

section \<open>Reading by id\<close>

definition Item_GetByID :: "queue_env \<Rightarrow> QueueState \<Rightarrow> string \<Rightarrow> QueueItem result" where
  "Item_GetByID env st i = repo_get (qe_F env) ''get item'' (qs_items st) i"

definition Counter_GetByID :: "queue_env \<Rightarrow> QueueState \<Rightarrow> string \<Rightarrow> QueueCounter result" where
  "Counter_GetByID env st i = repo_get (qe_F env) ''get counter'' (qs_counters st) i"

definition Def_GetByID :: "queue_env \<Rightarrow> QueueState \<Rightarrow> string \<Rightarrow> QueueDefinition result" where
  "Def_GetByID env st i = repo_get (qe_F env) ''get queue'' (qs_defs st) i"

lemmas get_iffs = Item_GetByID_def Counter_GetByID_def Def_GetByID_def repo_get_iff

section \<open>Queue items (queue_item.go)\<close>

definition maxListLimit :: int where "maxListLimit = 200"

definition waiting_in :: "string \<Rightarrow> QueueItem \<Rightarrow> bool" where
  "waiting_in queueID i \<longleftrightarrow> qi_QueueID i = queueID \<and> qi_Status i = ItemStatusWaiting"

definition in_categories :: "string list \<Rightarrow> QueueItem \<Rightarrow> bool" where
  "in_categories categories i \<longleftrightarrow> length categories > 0 \<longrightarrow> qi_Category i \<in> set categories"

text \<open>\<open>ORDER BY priority DESC, joined_at ASC\<close>.\<close>

definition call_order :: "QueueItem \<Rightarrow> int \<times> int" where
  "call_order i = (- qi_Priority i, qi_JoinedAt i)"

definition FindNextWaiting :: "queue_env \<Rightarrow> QueueState \<Rightarrow> string \<Rightarrow> string list \<Rightarrow> QueueItem result" where
  "FindNextWaiting env st queueID categories =
     and_then (stmt (qe_F env) ''find next waiting item'') (\<lambda>_.
       case first_by (\<lambda>i. (call_order i, bm_ID i))
              (db_select (\<lambda>i. waiting_in queueID i \<and> in_categories categories i) (qs_items st)) of
         None \<Rightarrow> Inl (Errf ''find next waiting item: no rows found'' [])
       | Some item \<Rightarrow> Inr item)"

definition ListWaiting :: "queue_env \<Rightarrow> QueueState \<Rightarrow> string \<Rightarrow> int \<Rightarrow> int \<Rightarrow> QueueItem list result" where
  "ListWaiting env st queueID limit offset =
     (let l1 = (if limit \<le> 0 then 50 else limit);
          l2 = (if l1 > maxListLimit then maxListLimit else l1);
          o1 = (if offset < 0 then 0 else offset)
      in and_then (stmt (qe_F env) ''list waiting items'') (\<lambda>_.
           Inr (take (nat l2) (drop (nat o1) (sort_key call_order (db_select (waiting_in queueID) (qs_items st)))))))"

definition ahead_of :: "QueueItem \<Rightarrow> QueueItem \<Rightarrow> bool" where
  "ahead_of item i \<longleftrightarrow> waiting_in (qi_QueueID item) i \<and>
     (qi_Priority i > qi_Priority item \<or>
      (qi_Priority i = qi_Priority item \<and> qi_JoinedAt i < qi_JoinedAt item))"

definition GetPosition :: "queue_env \<Rightarrow> QueueState \<Rightarrow> QueueItem \<Rightarrow> int result" where
  "GetPosition env st item =
     and_then (stmt (qe_F env) ''get queue position'') (\<lambda>_.
       Inr (int (affected (ahead_of item) (qs_items st)) + 1))"

definition CountByStatus :: "queue_env \<Rightarrow> QueueState \<Rightarrow> string \<Rightarrow> QueueItemStatus \<Rightarrow> int result" where
  "CountByStatus env st queueID status =
     and_then (stmt (qe_F env) ''count items by status'') (\<lambda>_.
       Inr (int (affected (\<lambda>i. qi_QueueID i = queueID \<and> qi_Status i = status) (qs_items st))))"

definition CountWaitingForUpdate :: "queue_env \<Rightarrow> QueueState \<Rightarrow> string \<Rightarrow> int result" where
  "CountWaitingForUpdate env st queueID =
     and_then (stmt (qe_F env) ''count waiting for update'') (\<lambda>_.
       Inr (int (length (map bm_ID (db_select (waiting_in queueID) (qs_items st))))))"

definition minutes :: "int \<Rightarrow> rat" where
  "minutes ns = of_int ns / 60000000000"

definition AvgWaitMinutes :: "queue_env \<Rightarrow> QueueState \<Rightarrow> string \<Rightarrow> int \<Rightarrow> rat result" where
  "AvgWaitMinutes env st queueID since =
     and_then (stmt (qe_F env) ''avg wait minutes'') (\<lambda>_.
       let rows = db_select (\<lambda>i. qi_QueueID i = queueID \<and>
                    (case qi_CalledAt i of Some c \<Rightarrow> c \<ge> since | None \<Rightarrow> False)) (qs_items st);
           waits = map (\<lambda>i. minutes (the (qi_CalledAt i) - qi_JoinedAt i)) rows
       in Inr (if waits = [] then 0 else sum_list waits / of_nat (length waits)))"

definition LongestWaitMinutes :: "queue_env \<Rightarrow> QueueState \<Rightarrow> int \<Rightarrow> string \<Rightarrow> rat result" where
  "LongestWaitMinutes env st now queueID =
     and_then (stmt (qe_F env) ''longest wait minutes'') (\<lambda>_.
       case map (\<lambda>i. minutes (now - qi_JoinedAt i)) (db_select (waiting_in queueID) (qs_items st)) of
         [] \<Rightarrow> Inr 0
       | w # ws \<Rightarrow> Inr (fold max ws w))"

definition CountByStatusSince ::
    "queue_env \<Rightarrow> QueueState \<Rightarrow> string \<Rightarrow> QueueItemStatus \<Rightarrow> int \<Rightarrow> int result" where
  "CountByStatusSince env st queueID status since =
     and_then (stmt (qe_F env) ''count items by status since'') (\<lambda>_.
       Inr (int (affected (\<lambda>i. qi_QueueID i = queueID \<and> qi_Status i = status \<and> bm_ModifiedAt i \<ge> since) (qs_items st))))"

section \<open>Counters and definitions\<close>

definition maxCounterListLimit :: nat where "maxCounterListLimit = 200"

definition ListByQueueID :: "queue_env \<Rightarrow> QueueState \<Rightarrow> string \<Rightarrow> QueueCounter list result" where
  "ListByQueueID env st queueID =
     and_then (stmt (qe_F env) ''list counters by queue'') (\<lambda>_.
       Inr (take maxCounterListLimit
         (sort_key qc_Name (db_select (\<lambda>c. qc_QueueID c = queueID) (qs_counters st)))))"

definition CountOpen :: "queue_env \<Rightarrow> QueueState \<Rightarrow> string \<Rightarrow> int result" where
  "CountOpen env st queueID =
     and_then (stmt (qe_F env) ''count open counters'') (\<lambda>_.
       Inr (int (affected (\<lambda>c. qc_QueueID c = queueID \<and> qc_Status c = CounterStatusOpen) (qs_counters st))))"

definition Counter_SoftDelete :: "queue_env \<Rightarrow> int \<Rightarrow> QueueCounter \<Rightarrow> QueueState \<Rightarrow> QueueState result" where
  "Counter_SoftDelete env now counter st =
     and_then (stmt (qe_F env) ''soft delete counter'') (\<lambda>_.
       Inr (st\<lparr>qs_counters := db_update (\<lambda>c. bm_ID c = bm_ID counter)
                (\<lambda>c. c\<lparr>bm_DeletedAt := Some now\<rparr>) (qs_counters st)\<rparr>))"

definition GetByName :: "queue_env \<Rightarrow> QueueState \<Rightarrow> string \<Rightarrow> QueueDefinition result" where
  "GetByName env st name =
     and_then (stmt (qe_F env) ''get queue by name'') (\<lambda>_.
       case first_by bm_ID (db_select (\<lambda>d. qd_Name d = name) (qs_defs st)) of
         None \<Rightarrow> Inl (wrap ''get queue by name'' ErrRecordNotFound)
       | Some d \<Rightarrow> Inr d)"

definition Def_List :: "queue_env \<Rightarrow> QueueState \<Rightarrow> bool \<Rightarrow> QueueDefinition list result" where
  "Def_List env st activeOnly =
     and_then (stmt (qe_F env) ''list queue definitions'') (\<lambda>_.
       Inr (take (nat maxListLimit)
         (sort_key qd_Name (db_select (\<lambda>d. activeOnly \<longrightarrow> qd_Active d) (qs_defs st)))))"

definition Def_SoftDelete :: "queue_env \<Rightarrow> int \<Rightarrow> QueueDefinition \<Rightarrow> QueueState \<Rightarrow> QueueState result" where
  "Def_SoftDelete env now def st =
     and_then (stmt (qe_F env) ''soft delete queue definition'') (\<lambda>_.
       Inr (st\<lparr>qs_defs := db_update (\<lambda>d. bm_ID d = bm_ID def)
                (\<lambda>d. d\<lparr>bm_DeletedAt := Some now\<rparr>) (qs_defs st)\<rparr>))"

section \<open>Statistics (queue_stats.go)\<close>

definition truncate_day :: "int \<Rightarrow> int" where
  "truncate_day now = now - now mod 86400000000000"

definition computeStats :: "queue_env \<Rightarrow> QueueState \<Rightarrow> int \<Rightarrow> string \<Rightarrow> QueueStats result" where
  "computeStats env st now queueID =
     and_then (labelled ''count waiting'' (CountByStatus env st queueID ItemStatusWaiting)) (\<lambda>waiting.
     and_then (labelled ''count serving'' (CountByStatus env st queueID ItemStatusServing)) (\<lambda>serving.
     let todayStart = truncate_day now in
     and_then (labelled ''avg wait'' (AvgWaitMinutes env st queueID todayStart)) (\<lambda>avg.
     and_then (labelled ''longest wait'' (LongestWaitMinutes env st now queueID)) (\<lambda>longest.
     and_then (labelled ''today served'' (CountByStatusSince env st queueID ItemStatusCompleted todayStart)) (\<lambda>served.
     and_then (labelled ''today cancelled'' (CountByStatusSince env st queueID ItemStatusCancelled todayStart)) (\<lambda>cancelled.
     and_then (labelled ''today no-show'' (CountByStatusSince env st queueID ItemStatusNoShow todayStart)) (\<lambda>noshow.
     and_then (labelled ''open counters'' (CountOpen env st queueID)) (\<lambda>open.
       Inr \<lparr>st_TotalWaiting = waiting, st_TotalServing = serving, st_AvgWaitMinutes = avg,
            st_EstimatedWait = (if open > 0 \<and> avg > 0 then of_int waiting * avg / of_int open else 0),
            st_LongestWait = longest, st_TodayServed = served, st_TodayCancelled = cancelled,
            st_TodayNoShow = noshow, st_OpenCounters = open\<rparr>))))))))"

text \<open>\<open>cacheTTL\<close> is the configured life time of an entry.\<close>

definition GetStats ::
    "queue_env \<Rightarrow> int \<Rightarrow> int \<Rightarrow> string \<Rightarrow> QueueState \<Rightarrow> (QueueStats \<times> QueueState) result" where
  "GetStats env cacheTTL now queueID st =
     (case map_of (qs_cache st) (statsCacheKey queueID) of
        Some (stats, expires) \<Rightarrow>
          (if now < expires then Inr (stats, st)
           else and_then (computeStats env st now queueID) (\<lambda>fresh.
             Inr (fresh, st\<lparr>qs_cache := AList.update (statsCacheKey queueID) (fresh, now + cacheTTL) (qs_cache st)\<rparr>)))
      | None \<Rightarrow> and_then (computeStats env st now queueID) (\<lambda>fresh.
             Inr (fresh, st\<lparr>qs_cache := AList.update (statsCacheKey queueID) (fresh, now + cacheTTL) (qs_cache st)\<rparr>)))"

end
