(* ===== verification/Queue_Manager.thy ===== *)
theory Queue_Manager
  imports Queue_Repository
begin

text \<open>
  \<open>apps/queue/service/business/queue_manager.go\<close>. An operation takes the environment, the clock
  \<open>now\<close>, the random or generated values it draws, and the state; an error leaves the state as it
  was (the operation has made no write, or its only transaction has been rolled back). Metrics
  and logging have no counterpart.

  The id of a new row is generated by a hook of the framework when the entity has none; it is
  the argument \<open>newID\<close>.
\<close>

section \<open>Errors (errors.go)\<close>

definition ErrQueueNotFound :: errmsg where "ErrQueueNotFound = Errf ''queue not found'' []"
definition ErrQueueItemNotFound :: errmsg where "ErrQueueItemNotFound = Errf ''queue item not found'' []"
definition ErrCounterNotFound :: errmsg where "ErrCounterNotFound = Errf ''counter not found'' []"
definition ErrQueueFull :: errmsg where "ErrQueueFull = Errf ''queue is at maximum capacity'' []"
definition ErrNoWaitingItems :: errmsg where "ErrNoWaitingItems = Errf ''no waiting items in queue'' []"
definition ErrCounterNotOpen :: errmsg where "ErrCounterNotOpen = Errf ''counter is not open'' []"
definition ErrCounterBusy :: errmsg where "ErrCounterBusy = Errf ''counter is currently serving another item'' []"
definition ErrCounterNotServing :: errmsg where
  "ErrCounterNotServing = Errf ''counter is not currently serving any item'' []"
definition ErrInvalidTransition :: errmsg where "ErrInvalidTransition = Errf ''invalid status transition'' []"
definition ErrItemNotWaiting :: errmsg where "ErrItemNotWaiting = Errf ''item is not in waiting status'' []"
definition ErrItemNotNoShow :: errmsg where
  "ErrItemNotNoShow = Errf ''item is not in no_show status for re-queue'' []"

section \<open>Queue definitions\<close>

definition CreateQueue ::
    "queue_env \<Rightarrow> int \<Rightarrow> string \<Rightarrow> QueueDefinition \<Rightarrow> QueueState \<Rightarrow> QueueState result" where
  "CreateQueue env now newID def st =
     (let d1 = (if qd_Config def = RawEmpty then def\<lparr>qd_Config := empty_object\<rparr> else def) in
      and_then (create (qe_F env) ''persist queue definition'' name_conflict (with_id newID now d1) (qs_defs st))
        (\<lambda>defs. Inr (st\<lparr>qs_defs := defs\<rparr>)))"

definition GetQueue :: "queue_env \<Rightarrow> QueueState \<Rightarrow> string \<Rightarrow> QueueDefinition result" where
  "GetQueue env st i = because ErrQueueNotFound (Def_GetByID env st i)"

definition ListQueues :: "queue_env \<Rightarrow> QueueState \<Rightarrow> bool \<Rightarrow> QueueDefinition list result" where
  "ListQueues env st activeOnly = Def_List env st activeOnly"

definition UpdateQueue :: "queue_env \<Rightarrow> QueueDefinition \<Rightarrow> QueueState \<Rightarrow> QueueState result" where
  "UpdateQueue env def st =
     and_then (labelled ''update queue definition'' (qe_UpdateDef env def (qs_defs st)))
       (\<lambda>defs. Inr (st\<lparr>qs_defs := defs\<rparr>))"

definition DeleteQueue :: "queue_env \<Rightarrow> int \<Rightarrow> string \<Rightarrow> QueueState \<Rightarrow> QueueState result" where
  "DeleteQueue env now i st =
     and_then (because ErrQueueNotFound (Def_GetByID env st i)) (\<lambda>def.
       labelled ''delete queue'' (Def_SoftDelete env now def st))"

section \<open>Queue items\<close>

definition ticketNoRandomLen :: nat where "ticketNoRandomLen = 8"

text \<open>\<open>rnd\<close>: the \<open>ticketNoRandomLen\<close> characters of \<open>util.RandomAlphaNumericString\<close>.\<close>

definition generateTicketNo :: "string \<Rightarrow> string" where
  "generateTicketNo rnd = ''T-'' @ rnd"

definition clamp_priority :: "int \<Rightarrow> int \<Rightarrow> int" where
  "clamp_priority levels p =
     (let p1 = (if p < 1 then 1 else p) in if p1 > levels then levels else p1)"

definition Enqueue ::
    "queue_env \<Rightarrow> int \<Rightarrow> string \<Rightarrow> string \<Rightarrow> QueueItem \<Rightarrow> QueueState \<Rightarrow> (QueueItem \<times> QueueState) result" where
  "Enqueue env now newID rnd item st =
     and_then (because ErrQueueNotFound (Def_GetByID env st (qi_QueueID item))) (\<lambda>queueDef.
       let item1 = item\<lparr>qi_Priority := clamp_priority (qd_PriorityLevels queueDef) (qi_Priority item),
                        qi_Status := ItemStatusWaiting, qi_JoinedAt := now,
                        qi_Metadata := (if qi_Metadata item = RawEmpty then empty_object else qi_Metadata item),
                        qi_TicketNo := (if qi_TicketNo item = [] then generateTicketNo rnd else qi_TicketNo item)\<rparr>;
           item2 = with_id newID now item1
       in and_then
            (if qd_MaxCapacity queueDef > 0 then
               and_then (stmt (qe_F env) ''lock queue definition'') (\<lambda>_.
               and_then (stmt (qe_F env) ''check capacity'') (\<lambda>_.
                 guard (int (affected (waiting_in (qi_QueueID item)) (qs_items st)) < qd_MaxCapacity queueDef) ErrQueueFull))
             else Inr ()) (\<lambda>_.
          and_then (create (qe_F env) ''persist queue item'' ticket_conflict item2 (qs_items st)) (\<lambda>items.
            Inr (item2, InvalidateCache now (qi_QueueID item2) (st\<lparr>qs_items := items\<rparr>)))))"

definition GetItem :: "queue_env \<Rightarrow> QueueState \<Rightarrow> string \<Rightarrow> QueueItem result" where
  "GetItem env st i = because ErrQueueItemNotFound (Item_GetByID env st i)"

definition GetItemPosition :: "queue_env \<Rightarrow> QueueState \<Rightarrow> string \<Rightarrow> int result" where
  "GetItemPosition env st i =
     and_then (because ErrQueueItemNotFound (Item_GetByID env st i)) (\<lambda>item.
       if qi_Status item \<noteq> ItemStatusWaiting then Inl ErrItemNotWaiting
       else GetPosition env st item)"

definition ListWaitingItems :: "queue_env \<Rightarrow> QueueState \<Rightarrow> string \<Rightarrow> int \<Rightarrow> int \<Rightarrow> QueueItem list result" where
  "ListWaitingItems env st queueID limit offset = ListWaiting env st queueID limit offset"

text \<open>\<open>UPDATE queue_counters SET current_item_id = '' WHERE id = ?\<close>, skipped for an empty id.\<close>

definition free_counter :: "queue_env \<Rightarrow> string \<Rightarrow> QueueState \<Rightarrow> QueueState result" where
  "free_counter env counterID st =
     (if counterID \<noteq> [] then
        and_then (stmt (qe_F env) ''free counter'') (\<lambda>_.
          Inr (st\<lparr>qs_counters := db_update (\<lambda>c. bm_ID c = counterID)
                   (\<lambda>c. c\<lparr>qc_CurrentItemID := []\<rparr>) (qs_counters st)\<rparr>))
      else Inr st)"

definition save_item :: "queue_env \<Rightarrow> QueueItem \<Rightarrow> QueueState \<Rightarrow> QueueState result" where
  "save_item env item st =
     and_then (save (qe_F env) ''update item'' ticket_conflict item (qs_items st))
       (\<lambda>items. Inr (st\<lparr>qs_items := items\<rparr>))"

definition CancelItem :: "queue_env \<Rightarrow> int \<Rightarrow> string \<Rightarrow> QueueState \<Rightarrow> QueueState result" where
  "CancelItem env now i st =
     and_then (because ErrQueueItemNotFound (Item_GetByID env st i)) (\<lambda>item0.
     and_then (because ErrInvalidTransition (QueueItem_TransitionTo ItemStatusCancelled item0)) (\<lambda>item.
     and_then (and_then (save_item env item st) (free_counter env (qi_CounterID item))) (\<lambda>st'.
       Inr (InvalidateCache now (qi_QueueID item) st'))))"

definition NoShowItem :: "queue_env \<Rightarrow> int \<Rightarrow> string \<Rightarrow> QueueState \<Rightarrow> QueueState result" where
  "NoShowItem env now i st =
     and_then (because ErrQueueItemNotFound (Item_GetByID env st i)) (\<lambda>item0.
     let counterIDToFree = qi_CounterID item0 in
     and_then (because ErrInvalidTransition (QueueItem_TransitionTo ItemStatusNoShow item0)) (\<lambda>item1.
     let item = item1\<lparr>qi_CounterID := [], qi_ServedBy := []\<rparr> in
     and_then (and_then (save_item env item st) (free_counter env counterIDToFree)) (\<lambda>st'.
       Inr (InvalidateCache now (qi_QueueID item) st'))))"

definition RequeueItem :: "queue_env \<Rightarrow> int \<Rightarrow> string \<Rightarrow> QueueState \<Rightarrow> QueueState result" where
  "RequeueItem env now i st =
     and_then (because ErrQueueItemNotFound (Item_GetByID env st i)) (\<lambda>item0.
     if qi_Status item0 \<noteq> ItemStatusNoShow then Inl ErrItemNotNoShow
     else and_then (because ErrInvalidTransition (QueueItem_TransitionTo ItemStatusWaiting item0)) (\<lambda>item1.
     let item = item1\<lparr>qi_CounterID := [], qi_ServedBy := [], qi_CalledAt := None, qi_JoinedAt := now\<rparr> in
     and_then (labelled ''update item'' (qe_UpdateItem env item (qs_items st))) (\<lambda>items.
       Inr (InvalidateCache now (qi_QueueID item) (st\<lparr>qs_items := items\<rparr>)))))"

definition TransferItem :: "queue_env \<Rightarrow> int \<Rightarrow> string \<Rightarrow> string \<Rightarrow> QueueState \<Rightarrow> QueueState result" where
  "TransferItem env now i newQueueID st =
     and_then (because ErrQueueItemNotFound (Item_GetByID env st i)) (\<lambda>item0.
     if qi_Status item0 \<noteq> ItemStatusWaiting \<and> qi_Status item0 \<noteq> ItemStatusServing then
       Inl (Errf ''%w: can only transfer items that are waiting or serving'' [EErr ErrInvalidTransition])
     else (case Def_GetByID env st newQueueID of
       Inl lookupErr \<Rightarrow> Inl (Errf ''%w: target queue: %w'' [EErr ErrQueueNotFound, EErr lookupErr])
     | Inr _ \<Rightarrow>
         let counterIDToFree = qi_CounterID item0; oldQueueID = qi_QueueID item0;
             item = item0\<lparr>qi_QueueID := newQueueID, qi_Status := ItemStatusWaiting, qi_CounterID := [],
                          qi_ServedBy := [], qi_CalledAt := None, qi_ServiceStart := None, qi_JoinedAt := now\<rparr>
         in and_then (and_then (save_item env item st) (free_counter env counterIDToFree)) (\<lambda>st'.
              Inr (InvalidateCache now newQueueID (InvalidateCache now oldQueueID st')))))"

section \<open>Counters\<close>

definition CreateCounter ::
    "queue_env \<Rightarrow> int \<Rightarrow> string \<Rightarrow> QueueCounter \<Rightarrow> QueueState \<Rightarrow> QueueState result" where
  "CreateCounter env now newID counter st =
     and_then (because ErrQueueNotFound (Def_GetByID env st (qc_QueueID counter))) (\<lambda>_.
     let c1 = counter\<lparr>qc_Status := CounterStatusClosed,
                      qc_Categories := (if qc_Categories counter = RawEmpty then empty_object else qc_Categories counter)\<rparr> in
     and_then (create (qe_F env) ''persist counter'' no_conflict (with_id newID now c1) (qs_counters st)) (\<lambda>counters.
       Inr (st\<lparr>qs_counters := counters\<rparr>)))"

definition GetCounter :: "queue_env \<Rightarrow> QueueState \<Rightarrow> string \<Rightarrow> QueueCounter result" where
  "GetCounter env st i = because ErrCounterNotFound (Counter_GetByID env st i)"

definition ListCounters :: "queue_env \<Rightarrow> QueueState \<Rightarrow> string \<Rightarrow> QueueCounter list result" where
  "ListCounters env st queueID = ListByQueueID env st queueID"

definition OpenCounter :: "queue_env \<Rightarrow> int \<Rightarrow> string \<Rightarrow> string \<Rightarrow> QueueState \<Rightarrow> QueueState result" where
  "OpenCounter env now i staffID st =
     and_then (because ErrCounterNotFound (Counter_GetByID env st i)) (\<lambda>counter0.
     and_then (because ErrInvalidTransition (QueueCounter_TransitionTo CounterStatusOpen counter0)) (\<lambda>counter1.
     let counter = counter1\<lparr>qc_ServedBy := staffID\<rparr> in
     and_then (labelled ''update counter'' (qe_UpdateCounter env counter (qs_counters st))) (\<lambda>counters.
       Inr (InvalidateCache now (qc_QueueID counter) (st\<lparr>qs_counters := counters\<rparr>)))))"

text \<open>The re-queue statement of \<open>CloseCounter\<close>, skipped for an empty id.\<close>

definition requeue_current :: "queue_env \<Rightarrow> int \<Rightarrow> string \<Rightarrow> QueueState \<Rightarrow> QueueState result" where
  "requeue_current env now itemID st =
     (if itemID \<noteq> [] then
        and_then (stmt (qe_F env) ''re-queue item'') (\<lambda>_.
          Inr (st\<lparr>qs_items := db_update (\<lambda>i. bm_ID i = itemID \<and> qi_Status i = ItemStatusServing)
                   (\<lambda>i. i\<lparr>qi_Status := ItemStatusWaiting, qi_CounterID := [], qi_ServedBy := [],
                          qi_CalledAt := None, qi_ServiceStart := None, qi_JoinedAt := now\<rparr>) (qs_items st)\<rparr>))
      else Inr st)"

definition CloseCounter :: "queue_env \<Rightarrow> int \<Rightarrow> string \<Rightarrow> QueueState \<Rightarrow> QueueState result" where
  "CloseCounter env now i st =
     and_then (because ErrCounterNotFound (Counter_GetByID env st i)) (\<lambda>counter0.
     and_then (because ErrInvalidTransition (QueueCounter_TransitionTo CounterStatusClosed counter0)) (\<lambda>counter1.
     let itemIDToRequeue = qc_CurrentItemID counter1;
         counter = counter1\<lparr>qc_CurrentItemID := [], qc_ServedBy := []\<rparr> in
     and_then
       (and_then (save (qe_F env) ''update counter'' no_conflict counter (qs_counters st)) (\<lambda>counters.
          requeue_current env now itemIDToRequeue (st\<lparr>qs_counters := counters\<rparr>))) (\<lambda>st'.
       Inr (InvalidateCache now (qc_QueueID counter) st'))))"

definition PauseCounter :: "queue_env \<Rightarrow> int \<Rightarrow> string \<Rightarrow> QueueState \<Rightarrow> QueueState result" where
  "PauseCounter env now i st =
     and_then (because ErrCounterNotFound (Counter_GetByID env st i)) (\<lambda>counter0.
     and_then (because ErrInvalidTransition (QueueCounter_TransitionTo CounterStatusPaused counter0)) (\<lambda>counter.
     and_then (labelled ''update counter'' (qe_UpdateCounter env counter (qs_counters st))) (\<lambda>counters.
       Inr (InvalidateCache now (qc_QueueID counter) (st\<lparr>qs_counters := counters\<rparr>)))))"

text \<open>
  \<open>json.Unmarshal\<close> of the category filter into a \<open>[]string\<close> with the error ignored: an element
  of another type decodes to the empty string, anything but a list to no filter.
\<close>

definition parse_categories :: "raw_json \<Rightarrow> string list" where
  "parse_categories r = (case r of
     RawJson (VList vs) \<Rightarrow> map (\<lambda>v. case v of VStr s \<Rightarrow> s | _ \<Rightarrow> []) vs
   | _ \<Rightarrow> [])"

text \<open>
  \<open>CallNext\<close> reads the counter and checks it before the transaction starts; \<open>call_next_check\<close>
  and \<open>call_next_tx\<close> are the two parts, so that two concurrent calls can be interleaved.
\<close>

definition call_next_check :: "queue_env \<Rightarrow> string \<Rightarrow> QueueState \<Rightarrow> QueueCounter result" where
  "call_next_check env counterID st =
     and_then (because ErrCounterNotFound (Counter_GetByID env st counterID)) (\<lambda>counter.
     if qc_Status counter \<noteq> CounterStatusOpen then Inl ErrCounterNotOpen
     else if qc_CurrentItemID counter \<noteq> [] then Inl ErrCounterBusy
     else Inr counter)"

definition call_next_tx ::
    "queue_env \<Rightarrow> int \<Rightarrow> string \<Rightarrow> QueueCounter \<Rightarrow> QueueState \<Rightarrow> (QueueItem \<times> QueueState) result" where
  "call_next_tx env now counterID counter st =
     and_then (stmt (qe_F env) ''find next waiting'') (\<lambda>_.
     case first_by call_order (db_select (\<lambda>i. waiting_in (qc_QueueID counter) i \<and>
            in_categories (parse_categories (qc_Categories counter)) i) (qs_items st)) of
       None \<Rightarrow> Inl ErrNoWaitingItems
     | Some item0 \<Rightarrow>
         if bm_ID item0 = [] then Inl ErrNoWaitingItems
         else and_then (because ErrInvalidTransition (QueueItem_TransitionTo ItemStatusServing item0)) (\<lambda>item1.
         let item = item1\<lparr>qi_CounterID := counterID, qi_ServedBy := qc_ServedBy counter, qi_CalledAt := Some now\<rparr> in
         and_then (save_item env item st) (\<lambda>st1.
         and_then (stmt (qe_F env) ''update counter'') (\<lambda>_.
         if affected (\<lambda>c. bm_ID c = counterID) (qs_counters st1) = 0
         then Inl (Errf ''update counter: no rows affected for counter %s'' [EStr counterID])
         else Inr (item, st1\<lparr>qs_counters := db_update (\<lambda>c. bm_ID c = counterID)
                (\<lambda>c. c\<lparr>qc_CurrentItemID := bm_ID item\<rparr>) (qs_counters st1)\<rparr>)))))"

definition CallNext ::
    "queue_env \<Rightarrow> int \<Rightarrow> string \<Rightarrow> QueueState \<Rightarrow> (QueueItem \<times> QueueState) result" where
  "CallNext env now counterID st =
     and_then (call_next_check env counterID st) (\<lambda>counter.
     and_then (call_next_tx env now counterID counter st) (\<lambda>(calledItem, st').
       Inr (calledItem, InvalidateCache now (qc_QueueID counter) st')))"

definition BeginService :: "queue_env \<Rightarrow> int \<Rightarrow> string \<Rightarrow> QueueState \<Rightarrow> QueueState result" where
  "BeginService env now counterID st =
     and_then (because ErrCounterNotFound (Counter_GetByID env st counterID)) (\<lambda>counter.
     if qc_CurrentItemID counter = [] then Inl ErrCounterNotServing
     else and_then (because ErrQueueItemNotFound (Item_GetByID env st (qc_CurrentItemID counter))) (\<lambda>item0.
     let item = item0\<lparr>qi_ServiceStart := Some now\<rparr> in
     and_then (labelled ''update item'' (qe_UpdateItem env item (qs_items st))) (\<lambda>items.
       Inr (st\<lparr>qs_items := items\<rparr>))))"

definition CompleteService :: "queue_env \<Rightarrow> int \<Rightarrow> string \<Rightarrow> QueueState \<Rightarrow> QueueState result" where
  "CompleteService env now counterID st =
     and_then (because ErrCounterNotFound (Counter_GetByID env st counterID)) (\<lambda>counter.
     if qc_CurrentItemID counter = [] then Inl ErrCounterNotServing
     else and_then (because ErrQueueItemNotFound (Item_GetByID env st (qc_CurrentItemID counter))) (\<lambda>item0.
     and_then (because ErrInvalidTransition (QueueItem_TransitionTo ItemStatusCompleted item0)) (\<lambda>item1.
     let item = item1\<lparr>qi_ServiceEnd := Some now\<rparr> in
     and_then (save_item env item st) (\<lambda>st1.
     and_then (stmt (qe_F env) ''update counter'') (\<lambda>_.
     if affected (\<lambda>c. bm_ID c = counterID) (qs_counters st1) = 0
     then Inl (Errf ''update counter: no rows affected for counter %s'' [EStr counterID])
     else Inr (InvalidateCache now (qc_QueueID counter)
            (st1\<lparr>qs_counters := db_update (\<lambda>c. bm_ID c = counterID)
               (\<lambda>c. c\<lparr>qc_CurrentItemID := [], qc_TotalServed := qc_TotalServed c + 1\<rparr>) (qs_counters st1)\<rparr>)))))))"

end
