(* ===== verification/Queue_Correct.thy ===== *)
theory Queue_Correct
  imports Queue_Manager
begin

text \<open>
  Correctness of the queue manager: the relation between counters and the items they serve is
  kept by every operation, items move only along the transition table, the next item called is
  the head of the queue, and the capacity bound holds at every enqueue.
\<close>

section \<open>The serving relation\<close>

text \<open>
  Read through the two lookup functions: a counter that holds an item is the counter the item
  is served at, a serving item is held by its counter, and waiting or no-show items are
  assigned to no counter.
\<close>

definition serving_ok :: "(string \<Rightarrow> QueueItem option) \<Rightarrow> (string \<Rightarrow> QueueCounter option) \<Rightarrow> bool" where
  "serving_ok it cn \<longleftrightarrow> it [] = None \<and> cn [] = None \<and>
     (\<forall>c C. cn c = Some C \<longrightarrow> qc_CurrentItemID C \<noteq> [] \<longrightarrow>
        (\<exists>I. it (qc_CurrentItemID C) = Some I \<and> qi_Status I = ItemStatusServing \<and> qi_CounterID I = c)) \<and>
     (\<forall>i I. it i = Some I \<longrightarrow> qi_Status I = ItemStatusServing \<longrightarrow>
        (\<exists>C. cn (qi_CounterID I) = Some C \<and> qc_CurrentItemID C = i)) \<and>
     (\<forall>i I. it i = Some I \<longrightarrow> qi_Status I \<in> {ItemStatusWaiting, ItemStatusNoShow} \<longrightarrow> qi_CounterID I = [])"

definition queue_inv :: "QueueState \<Rightarrow> bool" where
  "queue_inv st \<longleftrightarrow> ids_ok (qs_items st) \<and> ids_ok (qs_counters st) \<and>
     serving_ok (db_get (qs_items st)) (db_get (qs_counters st))"

lemma serving_okD:
  assumes "serving_ok it cn"
  shows "cn c = Some C \<Longrightarrow> qc_CurrentItemID C \<noteq> [] \<Longrightarrow>
      \<exists>I. it (qc_CurrentItemID C) = Some I \<and> qi_Status I = ItemStatusServing \<and> qi_CounterID I = c"
    and "it i = Some I \<Longrightarrow> qi_Status I = ItemStatusServing \<Longrightarrow>
      \<exists>C. cn (qi_CounterID I) = Some C \<and> qc_CurrentItemID C = i"
    and "it i = Some I \<Longrightarrow> qi_Status I \<in> {ItemStatusWaiting, ItemStatusNoShow} \<Longrightarrow> qi_CounterID I = []"
    and "it [] = None" and "cn [] = None"
  using assms unfolding serving_ok_def by blast+

lemma serving_okI:
  assumes "it [] = None" and "cn [] = None"
    and "\<And>c C. cn c = Some C \<Longrightarrow> qc_CurrentItemID C \<noteq> [] \<Longrightarrow>
      \<exists>I. it (qc_CurrentItemID C) = Some I \<and> qi_Status I = ItemStatusServing \<and> qi_CounterID I = c"
    and "\<And>i I. it i = Some I \<Longrightarrow> qi_Status I = ItemStatusServing \<Longrightarrow>
      \<exists>C. cn (qi_CounterID I) = Some C \<and> qc_CurrentItemID C = i"
    and "\<And>i I. it i = Some I \<Longrightarrow> qi_Status I \<in> {ItemStatusWaiting, ItemStatusNoShow} \<Longrightarrow> qi_CounterID I = []"
  shows "serving_ok it cn"
  using assms unfolding serving_ok_def by blast

text \<open>An item leaves service (or was not in service) and its counter, if any, is released.\<close>

lemma serving_leave:
  assumes inv: "serving_ok it cn" and I: "it i = Some I"
    and st: "qi_Status I \<in> {ItemStatusWaiting, ItemStatusServing, ItemStatusNoShow}"
    and I': "qi_Status I' \<noteq> ItemStatusServing"
      "qi_Status I' \<in> {ItemStatusWaiting, ItemStatusNoShow} \<Longrightarrow> qi_CounterID I' = []"
    and g: "\<And>C. qc_CurrentItemID (g C) = []"
    and it': "\<And>j. it' j = (if j = i then Some I' else it j)"
    and cn': "\<And>c. cn' c = (if c = qi_CounterID I then map_option g (cn c) else cn c)"
  shows "serving_ok it' cn'"
proof (rule serving_okI)
  note D = serving_okD [OF inv]
  have i: "i \<noteq> []" using I D(4) by auto
  show "it' [] = None" "cn' [] = None" using D(4,5) i by (simp_all add: it' cn')
  show "\<exists>J. it' (qc_CurrentItemID C) = Some J \<and> qi_Status J = ItemStatusServing \<and> qi_CounterID J = c"
    if "cn' c = Some C" "qc_CurrentItemID C \<noteq> []" for c C
  proof -
    have c: "c \<noteq> qi_CounterID I" "cn c = Some C" using that g by (auto simp: cn' split: if_splits)
    from D(1) [OF c(2) that(2)] obtain J where J: "it (qc_CurrentItemID C) = Some J"
      "qi_Status J = ItemStatusServing" "qi_CounterID J = c" by auto
    with c(1) I have "qc_CurrentItemID C \<noteq> i" by auto
    with J show ?thesis by (simp add: it')
  qed
  show "\<exists>C. cn' (qi_CounterID J) = Some C \<and> qc_CurrentItemID C = j"
    if "it' j = Some J" "qi_Status J = ItemStatusServing" for j J
  proof -
    have j: "j \<noteq> i" "it j = Some J" using that I'(1) by (auto simp: it' split: if_splits)
    from D(2) [OF j(2) that(2)] obtain C where C: "cn (qi_CounterID J) = Some C" "qc_CurrentItemID C = j" by auto
    have "qi_CounterID J \<noteq> qi_CounterID I"
    proof
      assume same: "qi_CounterID J = qi_CounterID I"
      with C(1) D(5) have "qi_CounterID I \<noteq> []" by auto
      with st D(3) [OF I] have "qi_Status I = ItemStatusServing" by auto
      from D(2) [OF I this] same C j(1) show False by auto
    qed
    with C show ?thesis by (simp add: cn')
  qed
  show "qi_CounterID J = []" if "it' j = Some J" "qi_Status J \<in> {ItemStatusWaiting, ItemStatusNoShow}" for j J
    using that I'(2) D(3) by (auto simp: it' split: if_splits)
qed

text \<open>A waiting item is called to an idle counter.\<close>

lemma serving_enter:
  assumes inv: "serving_ok it cn" and I: "it i = Some I" "qi_Status I = ItemStatusWaiting"
    and C: "cn c = Some C" "qc_CurrentItemID C = []"
    and I': "qi_Status I' = ItemStatusServing" "qi_CounterID I' = c" and C': "qc_CurrentItemID C' = i"
    and it': "\<And>j. it' j = (if j = i then Some I' else it j)"
    and cn': "\<And>d. cn' d = (if d = c then Some C' else cn d)"
  shows "serving_ok it' cn'"
proof (rule serving_okI)
  note D = serving_okD [OF inv]
  show "it' [] = None" "cn' [] = None" using D(4,5) I C by (auto simp: it' cn')
  show "\<exists>J. it' (qc_CurrentItemID E) = Some J \<and> qi_Status J = ItemStatusServing \<and> qi_CounterID J = d"
    if "cn' d = Some E" "qc_CurrentItemID E \<noteq> []" for d E
  proof (cases "d = c")
    case True
    with that C' I' show ?thesis by (auto simp: cn' it')
  next
    case False
    with that have "cn d = Some E" by (simp add: cn')
    from D(1) [OF this that(2)] I False show ?thesis by (auto simp: it')
  qed
  show "\<exists>E. cn' (qi_CounterID J) = Some E \<and> qc_CurrentItemID E = j"
    if "it' j = Some J" "qi_Status J = ItemStatusServing" for j J
  proof (cases "j = i")
    case True
    with that C' I' show ?thesis by (auto simp: cn' it')
  next
    case False
    with that have j: "it j = Some J" by (simp add: it')
    from D(2) [OF j that(2)] obtain E where E: "cn (qi_CounterID J) = Some E" "qc_CurrentItemID E = j" by auto
    have "j \<noteq> []" using j D(4) by auto
    with E C have "qi_CounterID J \<noteq> c" by auto
    with E show ?thesis by (simp add: cn')
  qed
  show "qi_CounterID J = []" if "it' j = Some J" "qi_Status J \<in> {ItemStatusWaiting, ItemStatusNoShow}" for j J
    using that I' D(3) by (auto simp: it' split: if_splits)
qed

text \<open>Rows change without touching status, assignment or current item; or rows are added.\<close>

lemma serving_item_same:
  assumes "serving_ok it cn" and "it i = Some I" and "qi_Status I' = qi_Status I" and "qi_CounterID I' = qi_CounterID I"
    and it': "\<And>j. it' j = (if j = i then Some I' else it j)"
  shows "serving_ok it' cn"
  by (rule serving_okI)
    (use assms(2-4) serving_okD [OF assms(1)] in \<open>fastforce simp: it' split: if_splits\<close>)+

lemma serving_counter_same:
  assumes "serving_ok it cn" and "cn c = Some C" and "qc_CurrentItemID C' = qc_CurrentItemID C"
    and cn': "\<And>d. cn' d = (if d = c then Some C' else cn d)"
  shows "serving_ok it cn'"
proof (rule serving_okI)
  note D = serving_okD [OF assms(1)]
  show "it [] = None" "cn' [] = None" using D assms(2) by (auto simp: cn')
  show "\<exists>J. it (qc_CurrentItemID E) = Some J \<and> qi_Status J = ItemStatusServing \<and> qi_CounterID J = d"
    if "cn' d = Some E" "qc_CurrentItemID E \<noteq> []" for d E
    using that assms(2,3) D(1) by (fastforce simp: cn' split: if_splits)
  show "\<exists>E. cn' (qi_CounterID J) = Some E \<and> qc_CurrentItemID E = j"
    if "it j = Some J" "qi_Status J = ItemStatusServing" for j J
    using D(2) [OF that] assms(2,3) by (auto simp: cn')
qed (use serving_okD(3) [OF assms(1)] in auto)

lemma serving_new_item:
  assumes "serving_ok it cn" and "i \<noteq> []" and "it i = None"
    and "qi_Status I' = ItemStatusWaiting" and "qi_CounterID I' = []"
    and it': "\<And>j. it' j = (if j = i then Some I' else it j)"
  shows "serving_ok it' cn"
  by (rule serving_okI)
    (use assms(2-5) serving_okD [OF assms(1)] in \<open>fastforce simp: it' split: if_splits\<close>)+

lemma serving_new_counter:
  assumes "serving_ok it cn" and "c \<noteq> []" and "cn c = None" and "qc_CurrentItemID C' = []"
    and cn': "\<And>d. cn' d = (if d = c then Some C' else cn d)"
  shows "serving_ok it cn'"
  by (rule serving_okI)
    (use assms(2-4) serving_okD [OF assms(1)] in \<open>fastforce simp: cn' split: if_splits\<close>)+

section \<open>Every operation keeps the invariant\<close>

lemma queue_invI:
  "ids_ok (qs_items st) \<Longrightarrow> ids_ok (qs_counters st) \<Longrightarrow>
     serving_ok (db_get (qs_items st)) (db_get (qs_counters st)) \<Longrightarrow> queue_inv st"
  by (simp add: queue_inv_def)

text \<open>The status of an item only moves along the transition table.\<close>

definition status_step :: "QueueItem \<Rightarrow> QueueItem \<Rightarrow> bool" where
  "status_step I I' \<longleftrightarrow> qi_Status I' = qi_Status I \<or> qi_Status I' \<in> set (validItemTransitions (qi_Status I))"

definition item_evolves :: "QueueState \<Rightarrow> QueueState \<Rightarrow> bool" where
  "item_evolves st st' \<longleftrightarrow> (\<forall>i I. db_get (qs_items st) i = Some I \<longrightarrow>
     (\<exists>I'. db_get (qs_items st') i = Some I' \<and> status_step I I'))"

definition queue_good :: "QueueState \<Rightarrow> QueueState \<Rightarrow> bool" where
  "queue_good st st' \<longleftrightarrow> queue_inv st' \<and> item_evolves st st'"

lemma evolves_one:
  "status_step I I' \<Longrightarrow> db_get (qs_items st) i = Some I \<Longrightarrow>
     (\<And>j. db_get (qs_items st') j = (if j = i then Some I' else db_get (qs_items st) j)) \<Longrightarrow> item_evolves st st'"
  by (auto simp: item_evolves_def status_step_def)

lemma evolves_same: "qs_items st' = qs_items st \<Longrightarrow> item_evolves st st'"
  by (simp add: item_evolves_def status_step_def)

lemma item_evolves_InvalidateCache [simp]:
  "item_evolves st (InvalidateCache now q st') = item_evolves st st'"
  by (simp add: item_evolves_def)

lemma queue_good_InvalidateCache [simp]: "queue_good st (InvalidateCache now q st') = queue_good st st'"
  by (simp add: queue_good_def queue_inv_def item_evolves_def)

lemma queue_inv_InvalidateCache [simp]: "queue_inv (InvalidateCache now q st) = queue_inv st"
  by (simp add: queue_inv_def)

lemma TransitionTo_item:
  "QueueItem_TransitionTo s q = Inr q' \<longleftrightarrow> s \<in> set (validItemTransitions (qi_Status q)) \<and> q' = q\<lparr>qi_Status := s\<rparr>"
  by (auto simp: QueueItem_TransitionTo_def res_simps item_machine.attempt_iff)

lemma TransitionTo_counter:
  "QueueCounter_TransitionTo s c = Inr c' \<longleftrightarrow> s \<in> set (validCounterTransitions (qc_Status c)) \<and> c' = c\<lparr>qc_Status := s\<rparr>"
  by (auto simp: QueueCounter_TransitionTo_def res_simps counter_machine.attempt_iff)

lemma item_sources:
  "ItemStatusCancelled \<in> set (validItemTransitions s) \<longleftrightarrow> s \<in> {ItemStatusWaiting, ItemStatusServing}"
  "ItemStatusNoShow \<in> set (validItemTransitions s) \<longleftrightarrow> s \<in> {ItemStatusWaiting, ItemStatusServing}"
  "ItemStatusWaiting \<in> set (validItemTransitions s) \<longleftrightarrow> s \<in> {ItemStatusServing, ItemStatusNoShow}"
  "ItemStatusServing \<in> set (validItemTransitions s) \<longleftrightarrow> s = ItemStatusWaiting"
  "ItemStatusCompleted \<in> set (validItemTransitions s) \<longleftrightarrow> s = ItemStatusServing"
  by (cases s; simp add: validItemTransitions_def)+

lemmas queue_op_simps = res_simps get_iffs TransitionTo_item TransitionTo_counter item_sources

lemma live_copy:
  "live (r\<lparr>qi_Status := a\<rparr>) = live r" "live (r\<lparr>qi_CounterID := b\<rparr>) = live r"
  "live (r\<lparr>qi_ServedBy := c\<rparr>) = live r" "live (r\<lparr>qi_CalledAt := d\<rparr>) = live r"
  "live (r\<lparr>qi_JoinedAt := e\<rparr>) = live r" "live (r\<lparr>qi_QueueID := f\<rparr>) = live r"
  "live (r\<lparr>qi_ServiceStart := g\<rparr>) = live r" "live (r\<lparr>qi_ServiceEnd := g\<rparr>) = live r"
  by (simp_all add: live_def)

lemma live_copy_counter:
  "live (k\<lparr>qc_Status := h\<rparr>) = live k" "live (k\<lparr>qc_ServedBy := c\<rparr>) = live k"
  "live (k\<lparr>qc_CurrentItemID := c\<rparr>) = live k"
  by (simp_all add: live_def)

lemma keeps_key_counter [simp]:
  "keeps_key (\<lambda>c. c\<lparr>qc_CurrentItemID := x\<rparr>)"
  "keeps_key (\<lambda>c. c\<lparr>qc_CurrentItemID := x, qc_TotalServed := qc_TotalServed c + 1\<rparr>)"
  by (simp_all add: keeps_key_def)

lemma save_item_InrD:
  assumes "save_item env item st = Inr st'"
  shows "\<exists>items. db_save ticket_conflict item (qs_items st) = Some items \<and> st' = st\<lparr>qs_items := items\<rparr>"
  using assms by (auto simp: save_item_def res_simps dest!: save_InrD)

text \<open>Saving an item that leaves service, then releasing its counter.\<close>

lemma leave_tx:
  assumes inv: "queue_inv st" and I: "db_get (qs_items st) i = Some I"
    and src: "qi_Status I \<in> {ItemStatusWaiting, ItemStatusServing, ItemStatusNoShow}"
    and I': "bm_ID I' = i" "live I'" "qi_Status I' \<noteq> ItemStatusServing"
      "qi_Status I' \<in> {ItemStatusWaiting, ItemStatusNoShow} \<Longrightarrow> qi_CounterID I' = []"
    and tr: "status_step I I'"
    and sv_tx: "save_item env I' st = Inr st1" and fr_tx: "free_counter env (qi_CounterID I) st1 = Inr st'"
  shows "queue_good st st'"
proof -
  let ?free = "\<lambda>c. c\<lparr>qc_CurrentItemID := []\<rparr>"
  from sv_tx fr_tx obtain items where items: "db_save ticket_conflict I' (qs_items st) = Some items"
    and fr: "free_counter env (qi_CounterID I) (st\<lparr>qs_items := items\<rparr>) = Inr st'"
    by (auto simp: res_simps dest!: save_item_InrD)
  have st': "qs_items st' = items" "qs_counters st' = (if qi_CounterID I = [] then qs_counters st
      else db_update (\<lambda>c. bm_ID c = qi_CounterID I) ?free (qs_counters st))"
    using fr by (auto simp: free_counter_def res_simps split: if_splits)
  from inv have ok: "ids_ok (qs_items st)" "ids_ok (qs_counters st)"
    and sv: "serving_ok (db_get (qs_items st)) (db_get (qs_counters st))" by (auto simp: queue_inv_def)
  have it: "db_get (qs_items st') j = (if j = i then Some I' else db_get (qs_items st) j)" for j
    using db_get_save [OF items, of I j] I I'(1,2) st' by simp
  have "queue_inv st'"
  proof (rule queue_invI)
    show "ids_ok (qs_items st')" using ok(1) ids_ok_save [OF items] st' by simp
    show "ids_ok (qs_counters st')" using ok(2) st' by simp
    show "serving_ok (db_get (qs_items st')) (db_get (qs_counters st'))"
    proof (rule serving_leave [OF sv I src I'(3,4), of ?free])
      show "db_get (qs_items st') j = (if j = i then Some I' else db_get (qs_items st) j)" for j by (rule it)
      show "db_get (qs_counters st') c =
          (if c = qi_CounterID I then map_option ?free (db_get (qs_counters st) c) else db_get (qs_counters st) c)" for c
        using st' db_get_Nil_id [OF ok(2)] by (auto simp: db_get_update_id)
    qed simp_all
  qed
  with evolves_one [OF tr I it] show ?thesis by (simp add: queue_good_def)
qed

lemma queue_inv_live: "queue_inv st \<Longrightarrow> db_get (qs_items st) i = Some I \<Longrightarrow> live I \<and> bm_ID I = i"
  by (auto dest: db_get_SomeD)

lemma CancelItem_good:
  assumes "CancelItem env now i st = Inr st'" and "queue_inv st"
  shows "queue_good st st'"
proof -
  from assms(1) obtain I st1 st2 where I: "db_get (qs_items st) i = Some I"
    "qi_Status I \<in> {ItemStatusWaiting, ItemStatusServing}"
    and tx: "save_item env (I\<lparr>qi_Status := ItemStatusCancelled\<rparr>) st = Inr st1"
    "free_counter env (qi_CounterID I) st1 = Inr st2" and st': "st' = InvalidateCache now (qi_QueueID I) st2"
    by (auto simp: CancelItem_def queue_op_simps)
  from leave_tx [OF assms(2) I(1) _ _ _ _ _ _ tx] queue_inv_live [OF assms(2) I(1)] I(2)
  show ?thesis by (auto simp: st' live_copy status_step_def validItemTransitions_def)
qed

lemma NoShowItem_good:
  assumes "NoShowItem env now i st = Inr st'" and "queue_inv st"
  shows "queue_good st st'"
proof -
  from assms(1) obtain I st1 st2 where I: "db_get (qs_items st) i = Some I"
    "qi_Status I \<in> {ItemStatusWaiting, ItemStatusServing}"
    and tx: "save_item env (I\<lparr>qi_Status := ItemStatusNoShow, qi_CounterID := [], qi_ServedBy := []\<rparr>) st = Inr st1"
    "free_counter env (qi_CounterID I) st1 = Inr st2" and st': "st' = InvalidateCache now (qi_QueueID I) st2"
    by (auto simp: NoShowItem_def queue_op_simps Let_def)
  from leave_tx [OF assms(2) I(1) _ _ _ _ _ _ tx] queue_inv_live [OF assms(2) I(1)] I(2)
  show ?thesis by (auto simp: st' live_copy status_step_def validItemTransitions_def)
qed

lemma TransferItem_good:
  assumes "TransferItem env now i q st = Inr st'" and "queue_inv st"
  shows "queue_good st st'"
proof -
  from assms(1) obtain I st1 st2 where I: "db_get (qs_items st) i = Some I"
    "qi_Status I \<in> {ItemStatusWaiting, ItemStatusServing}"
    and tx: "save_item env (I\<lparr>qi_QueueID := q, qi_Status := ItemStatusWaiting, qi_CounterID := [],
        qi_ServedBy := [], qi_CalledAt := None, qi_ServiceStart := None, qi_JoinedAt := now\<rparr>) st = Inr st1"
    "free_counter env (qi_CounterID I) st1 = Inr st2"
    and st': "st' = InvalidateCache now q (InvalidateCache now (qi_QueueID I) st2)"
    by (auto simp: TransferItem_def queue_op_simps Let_def split: if_splits sum.splits)
  from leave_tx [OF assms(2) I(1) _ _ _ _ _ _ tx] queue_inv_live [OF assms(2) I(1)] I(2)
  show ?thesis by (auto simp: st' live_copy status_step_def validItemTransitions_def)
qed

text \<open>Replacing one item, or one counter, by a row with the same id.\<close>

lemma item_write:
  assumes inv: "queue_inv st" and I: "db_get (qs_items st) i = Some I" "bm_ID I' = i" "live I'"
    and sv: "db_save ticket_conflict I' (qs_items st) = Some items"
    and ok: "\<And>it'. (\<And>j. it' j = (if j = i then Some I' else db_get (qs_items st) j)) \<Longrightarrow>
       serving_ok it' (db_get (qs_counters st))"
    and tr: "status_step I I'"
  shows "queue_good st (st\<lparr>qs_items := items\<rparr>)"
proof -
  have it: "db_get (qs_items (st\<lparr>qs_items := items\<rparr>)) j = (if j = i then Some I' else db_get (qs_items st) j)" for j
    using db_get_save [OF sv, of I] I by simp
  have "queue_inv (st\<lparr>qs_items := items\<rparr>)"
  proof (rule queue_invI)
  show "serving_ok (db_get (qs_items (st\<lparr>qs_items := items\<rparr>))) (db_get (qs_counters (st\<lparr>qs_items := items\<rparr>)))"
      using ok [of "db_get items"] it by simp
  qed (use inv ids_ok_save [OF sv] in \<open>simp_all add: queue_inv_def\<close>)
  with evolves_one [OF tr I(1) it] show ?thesis by (simp add: queue_good_def)
qed

lemma counter_write:
  assumes inv: "queue_inv st" and C: "db_get (qs_counters st) c = Some C" "bm_ID C' = c" "live C'"
    and sv: "db_save no_conflict C' (qs_counters st) = Some counters"
    and same: "qc_CurrentItemID C' = qc_CurrentItemID C"
  shows "queue_good st (st\<lparr>qs_counters := counters\<rparr>)"
proof -
  have "queue_inv (st\<lparr>qs_counters := counters\<rparr>)"
  proof (rule queue_invI)
  show "serving_ok (db_get (qs_items (st\<lparr>qs_counters := counters\<rparr>))) (db_get (qs_counters (st\<lparr>qs_counters := counters\<rparr>)))"
    using serving_counter_same [of "db_get (qs_items st)" "db_get (qs_counters st)" c C C' "db_get counters"]
      same db_get_save [OF sv, of C] C inv by (simp add: queue_inv_def)
  qed (use inv ids_ok_save [OF sv] in \<open>simp_all add: queue_inv_def\<close>)
  then show ?thesis by (simp add: queue_good_def evolves_same)
qed

lemma RequeueItem_good:
  assumes "RequeueItem env now i st = Inr st'" and "queue_inv st" and "updates_save env"
  shows "queue_good st st'"
proof -
  let ?I' = "\<lambda>I. I\<lparr>qi_Status := ItemStatusWaiting, qi_CounterID := [], qi_ServedBy := [], qi_CalledAt := None, qi_JoinedAt := now\<rparr>"
  from assms(1,3) obtain I items where I: "db_get (qs_items st) i = Some I" "qi_Status I = ItemStatusNoShow"
    and sv: "db_save ticket_conflict (?I' I) (qs_items st) = Some items"
    and st': "st' = InvalidateCache now (qi_QueueID I) (st\<lparr>qs_items := items\<rparr>)"
    by (auto simp: RequeueItem_def queue_op_simps updates_save_def Let_def split: if_splits)
  have "serving_ok it' (db_get (qs_counters st))"
    if "\<And>j. it' j = (if j = i then Some (?I' I) else db_get (qs_items st) j)" for it'
  proof -
    have s: "serving_ok (db_get (qs_items st)) (db_get (qs_counters st))" using assms(2) by (simp add: queue_inv_def)
    from serving_leave [OF s I(1) _ _ _ _ that, of "\<lambda>c. c\<lparr>qc_CurrentItemID := []\<rparr>" "db_get (qs_counters st)"]
      serving_okD(3) [OF s I(1)] serving_okD(5) [OF s] I(2)
    show ?thesis by auto
  qed
  from item_write [OF assms(2) I(1) _ _ sv this] queue_inv_live [OF assms(2) I(1)] I(2)
  show ?thesis by (simp add: st' live_copy status_step_def validItemTransitions_def)
qed

lemma BeginService_good:
  assumes "BeginService env now c st = Inr st'" and "queue_inv st" and "updates_save env"
  shows "queue_good st st'"
proof -
  from assms(1,3) obtain i I items where I: "db_get (qs_items st) i = Some I"
    and sv: "db_save ticket_conflict (I\<lparr>qi_ServiceStart := Some now\<rparr>) (qs_items st) = Some items"
    and st': "st' = st\<lparr>qs_items := items\<rparr>"
    by (auto simp: BeginService_def queue_op_simps updates_save_def Let_def split: if_splits)
  have "serving_ok it' (db_get (qs_counters st))"
    if "\<And>j. it' j = (if j = i then Some (I\<lparr>qi_ServiceStart := Some now\<rparr>) else db_get (qs_items st) j)" for it'
    using serving_item_same [OF _ I _ _ that] assms(2) by (auto simp: queue_inv_def)
  from item_write [OF assms(2) I _ _ sv this] queue_inv_live [OF assms(2) I]
  show ?thesis by (simp add: st' live_copy status_step_def)
qed

lemma OpenCounter_good:
  assumes "OpenCounter env now c staff st = Inr st'" and "queue_inv st" and "updates_save env"
  shows "queue_good st st'"
proof -
  from assms(1,3) obtain C counters where C: "db_get (qs_counters st) c = Some C"
    and sv: "db_save no_conflict (C\<lparr>qc_Status := CounterStatusOpen, qc_ServedBy := staff\<rparr>) (qs_counters st) = Some counters"
    and st': "st' = InvalidateCache now (qc_QueueID C) (st\<lparr>qs_counters := counters\<rparr>)"
    by (auto simp: OpenCounter_def queue_op_simps updates_save_def Let_def)
  from counter_write [OF assms(2) C _ _ sv] db_get_SomeD [OF C] show ?thesis
    by (simp add: st' live_copy_counter)
qed

lemma PauseCounter_good:
  assumes "PauseCounter env now c st = Inr st'" and "queue_inv st" and "updates_save env"
  shows "queue_good st st'"
proof -
  from assms(1,3) obtain C counters where C: "db_get (qs_counters st) c = Some C"
    and sv: "db_save no_conflict (C\<lparr>qc_Status := CounterStatusPaused\<rparr>) (qs_counters st) = Some counters"
    and st': "st' = InvalidateCache now (qc_QueueID C) (st\<lparr>qs_counters := counters\<rparr>)"
    by (auto simp: PauseCounter_def queue_op_simps updates_save_def Let_def)
  from counter_write [OF assms(2) C _ _ sv] db_get_SomeD [OF C] show ?thesis
    by (simp add: st' live_copy_counter)
qed

lemma Enqueue_good:
  assumes "Enqueue env now newID rnd item st = Inr (item', st')" and "queue_inv st"
    and "qi_CounterID item = []" and "newID \<noteq> []"
  shows "queue_good st st'"
proof -
  from assms(1) obtain items where ins: "db_insert ticket_conflict item' (qs_items st) = Some items"
    and st': "st' = InvalidateCache now (qi_QueueID item') (st\<lparr>qs_items := items\<rparr>)"
    and i': "qi_Status item' = ItemStatusWaiting" "qi_CounterID item' = []" "bm_ID item' \<noteq> []" "live item'"
    using assms(3,4)
    by (auto simp: Enqueue_def queue_op_simps Let_def with_id_def live_def dest!: create_InrD)
  have s: "serving_ok (db_get (qs_items st)) (db_get (qs_counters st))" "ids_ok (qs_items st)" "ids_ok (qs_counters st)"
    using assms(2) by (auto simp: queue_inv_def)
  have "serving_ok (db_get items) (db_get (qs_counters st))"
    using serving_new_item [OF s(1) i'(3) _ i'(1,2), of "db_get items"]
      list_rows.ins_fresh [OF ins] db_get_insert [OF ins i'(4)] by simp
  moreover have "item_evolves st (st\<lparr>qs_items := items\<rparr>)"
    using list_rows.ins_fresh [OF ins] db_get_insert [OF ins i'(4)] by (auto simp: item_evolves_def status_step_def)
  ultimately show ?thesis using s ids_ok_insert [OF ins s(2) i'(3)] by (simp add: st' queue_good_def queue_inv_def)
qed

lemma CreateCounter_good:
  assumes "CreateCounter env now newID counter st = Inr st'" and "queue_inv st"
    and "qc_CurrentItemID counter = []" and "newID \<noteq> []"
  shows "queue_good st st'"
proof -
  from assms(1) obtain c' counters where ins: "db_insert no_conflict c' (qs_counters st) = Some counters"
    and st': "st' = st\<lparr>qs_counters := counters\<rparr>"
    and c': "qc_CurrentItemID c' = []" "bm_ID c' \<noteq> []" "live c'"
    using assms(3,4)
    by (auto simp: CreateCounter_def queue_op_simps Let_def with_id_def live_def dest!: create_InrD)
  have s: "serving_ok (db_get (qs_items st)) (db_get (qs_counters st))" "ids_ok (qs_items st)" "ids_ok (qs_counters st)"
    using assms(2) by (auto simp: queue_inv_def)
  have "serving_ok (db_get (qs_items st)) (db_get counters)"
    using serving_new_counter [OF s(1) c'(2) _ c'(1), of "db_get counters"]
      list_rows.ins_fresh [OF ins] db_get_insert [OF ins c'(3)] by simp
  with s ids_ok_insert [OF ins s(3) c'(2)] show ?thesis by (simp add: st' queue_good_def queue_inv_def evolves_same)
qed

lemma CloseCounter_good:
  assumes "CloseCounter env now c st = Inr st'" and "queue_inv st"
  shows "queue_good st st'"
proof -
  let ?C' = "\<lambda>C. C\<lparr>qc_Status := CounterStatusClosed, qc_CurrentItemID := [], qc_ServedBy := []\<rparr>"
  let ?f = "\<lambda>i :: QueueItem. i\<lparr>qi_Status := ItemStatusWaiting, qi_CounterID := [], qi_ServedBy := [],
    qi_CalledAt := None, qi_ServiceStart := None, qi_JoinedAt := now\<rparr>"
  from assms(1) obtain C counters st2 where C: "db_get (qs_counters st) c = Some C"
    and sv: "db_save no_conflict (?C' C) (qs_counters st) = Some counters"
    and rq: "requeue_current env now (qc_CurrentItemID C) (st\<lparr>qs_counters := counters\<rparr>) = Inr st2"
    and st': "st' = InvalidateCache now (qc_QueueID C) st2"
    by (auto simp: CloseCounter_def queue_op_simps Let_def dest!: save_InrD)
  have s: "serving_ok (db_get (qs_items st)) (db_get (qs_counters st))" "ids_ok (qs_items st)" "ids_ok (qs_counters st)"
    using assms(2) by (auto simp: queue_inv_def)
  note D = serving_okD [OF s(1)]
  have cl: "bm_ID (?C' C) = c" "live (?C' C)" using db_get_SomeD [OF C] by (simp_all add: live_def)
  have cn: "db_get counters d = (if d = c then Some (?C' C) else db_get (qs_counters st) d)" for d
    using db_get_save [OF sv, of C d] C cl by simp
  have kf: "keeps_key ?f" by (simp add: keeps_key_def)
  show ?thesis
  proof (cases "qc_CurrentItemID C = []")
    case True
    with rq have "st2 = st\<lparr>qs_counters := counters\<rparr>" by (simp add: requeue_current_def)
    with counter_write [OF assms(2) C cl sv] True show ?thesis by (simp add: st')
  next
    case False
    let ?i = "qc_CurrentItemID C"
    from D(1) [OF C False] obtain I where I: "db_get (qs_items st) ?i = Some I"
      "qi_Status I = ItemStatusServing" "qi_CounterID I = c" by auto
    let ?items = "db_update (\<lambda>i. bm_ID i = ?i \<and> qi_Status i = ItemStatusServing) ?f (qs_items st)"
    from rq False have st2: "st2 = st\<lparr>qs_counters := counters, qs_items := ?items\<rparr>"
      by (auto simp: requeue_current_def res_simps)
    have it: "db_get ?items j = (if j = ?i then Some (?f I) else db_get (qs_items st) j)" for j
      using I by (cases "db_get (qs_items st) j") (auto simp: db_get_update [OF kf] dest: db_get_SomeD)
    have cn': "db_get counters d = (if d = qi_CounterID I then map_option (\<lambda>_. ?C' C) (db_get (qs_counters st) d)
        else db_get (qs_counters st) d)" for d
      using cn C I(3) by simp
    have "serving_ok (db_get ?items) (db_get counters)"
      using serving_leave [OF s(1) I(1) _ _ _ _ it cn'] I(2) by simp
    moreover have "status_step I (?f I)" using I(2) by (simp add: status_step_def validItemTransitions_def)
    from evolves_one [OF this I(1)] it have "item_evolves st st2" by (simp add: st2)
    ultimately show ?thesis
      using s ids_ok_save [OF sv] ids_ok_update [OF kf] by (simp add: st' st2 queue_good_def queue_inv_def)
  qed
qed

lemma CompleteService_good:
  assumes "CompleteService env now c st = Inr st'" and "queue_inv st"
  shows "queue_good st st'"
proof -
  let ?g = "\<lambda>c. c\<lparr>qc_CurrentItemID := [], qc_TotalServed := qc_TotalServed c + 1\<rparr>"
  let ?I' = "\<lambda>I. I\<lparr>qi_Status := ItemStatusCompleted, qi_ServiceEnd := Some now\<rparr>"
  from assms(1) obtain C I items where C: "db_get (qs_counters st) c = Some C" "qc_CurrentItemID C \<noteq> []"
    and I: "db_get (qs_items st) (qc_CurrentItemID C) = Some I" "qi_Status I = ItemStatusServing"
    and sv: "db_save ticket_conflict (?I' I) (qs_items st) = Some items"
    and st': "st' = InvalidateCache now (qc_QueueID C)
      (st\<lparr>qs_items := items, qs_counters := db_update (\<lambda>r. bm_ID r = c) ?g (qs_counters st)\<rparr>)"
    by (auto simp: CompleteService_def queue_op_simps Let_def dest!: save_item_InrD split: if_splits)
  have s: "serving_ok (db_get (qs_items st)) (db_get (qs_counters st))" "ids_ok (qs_items st)" "ids_ok (qs_counters st)"
    using assms(2) by (auto simp: queue_inv_def)
  from serving_okD(1) [OF s(1) C] I have cI: "qi_CounterID I = c" by simp
  have it: "db_get items j = (if j = qc_CurrentItemID C then Some (?I' I) else db_get (qs_items st) j)" for j
    using db_get_save [OF sv, of I j] I db_get_SomeD [OF I(1)] by (simp add: live_copy)
  have cn: "db_get (db_update (\<lambda>r. bm_ID r = c) ?g (qs_counters st)) d =
      (if d = qi_CounterID I then map_option ?g (db_get (qs_counters st) d) else db_get (qs_counters st) d)" for d
    by (simp add: db_get_update_id cI)
  have "serving_ok (db_get items) (db_get (db_update (\<lambda>r. bm_ID r = c) ?g (qs_counters st)))"
    using serving_leave [OF s(1) I(1) _ _ _ _ it cn] I(2) by simp
  moreover have "status_step I (?I' I)" using I(2) by (simp add: status_step_def validItemTransitions_def)
  from evolves_one [OF this I(1)] it have "item_evolves st st'" by (simp add: st')
  ultimately show ?thesis using s ids_ok_save [OF sv] by (simp add: st' queue_good_def queue_inv_def)
qed

lemma call_next_tx_InrD:
  assumes "call_next_tx env now c counter st = Inr (item, st')"
  shows "\<exists>I items. first_by call_order (db_select (\<lambda>i. waiting_in (qc_QueueID counter) i \<and>
            in_categories (parse_categories (qc_Categories counter)) i) (qs_items st)) = Some I \<and>
    item = I\<lparr>qi_Status := ItemStatusServing, qi_CounterID := c, qi_ServedBy := qc_ServedBy counter, qi_CalledAt := Some now\<rparr> \<and>
    db_save ticket_conflict item (qs_items st) = Some items \<and>
    st' = st\<lparr>qs_items := items, qs_counters := db_update (\<lambda>r. bm_ID r = c)
       (\<lambda>r. r\<lparr>qc_CurrentItemID := bm_ID item\<rparr>) (qs_counters st)\<rparr> \<and>
    affected (\<lambda>r. bm_ID r = c) (qs_counters st) \<noteq> 0"
  using assms
  by (auto simp: call_next_tx_def queue_op_simps Let_def dest!: save_item_InrD split: option.splits if_splits)

lemma CallNext_InrD:
  assumes "CallNext env now c st = Inr (item, st')"
  shows "\<exists>counter st1. db_get (qs_counters st) c = Some counter \<and> qc_Status counter = CounterStatusOpen \<and>
    qc_CurrentItemID counter = [] \<and> call_next_tx env now c counter st = Inr (item, st1) \<and>
    st' = InvalidateCache now (qc_QueueID counter) st1"
  using assms by (auto simp: CallNext_def call_next_check_def queue_op_simps split: if_splits)

lemma picked_item:
  assumes "ids_ok (qs_items st)" and "first_by call_order (db_select P (qs_items st)) = Some I"
  shows "db_get (qs_items st) (bm_ID I) = Some I \<and> P I \<and>
    (\<forall>J. J \<in> set (qs_items st) \<longrightarrow> live J \<longrightarrow> P J \<longrightarrow> call_order I \<le> call_order J)"
  using first_by_SomeD [OF assms(2)] db_get_mem [OF assms(1)] by (auto simp: db_select_def)

lemma CallNext_good:
  assumes "CallNext env now c st = Inr (item, st')" and "queue_inv st"
  shows "queue_good st st'"
proof -
  let ?g = "\<lambda>r. r\<lparr>qc_CurrentItemID := bm_ID item\<rparr>"
  from CallNext_InrD [OF assms(1)] obtain C st1 where C: "db_get (qs_counters st) c = Some C" "qc_CurrentItemID C = []"
    and tx: "call_next_tx env now c C st = Inr (item, st1)" and st': "st' = InvalidateCache now (qc_QueueID C) st1" by auto
  from call_next_tx_InrD [OF tx] obtain I items where
    f: "first_by call_order (db_select (\<lambda>i. waiting_in (qc_QueueID C) i \<and>
            in_categories (parse_categories (qc_Categories C)) i) (qs_items st)) = Some I"
    and item: "item = I\<lparr>qi_Status := ItemStatusServing, qi_CounterID := c, qi_ServedBy := qc_ServedBy C, qi_CalledAt := Some now\<rparr>"
    and sv: "db_save ticket_conflict item (qs_items st) = Some items"
    and st1: "st1 = st\<lparr>qs_items := items, qs_counters := db_update (\<lambda>r. bm_ID r = c) ?g (qs_counters st)\<rparr>" by auto
  have s: "serving_ok (db_get (qs_items st)) (db_get (qs_counters st))" "ids_ok (qs_items st)" "ids_ok (qs_counters st)"
    using assms(2) by (auto simp: queue_inv_def)
  from picked_item [OF s(2) f] have I: "db_get (qs_items st) (bm_ID I) = Some I" "qi_Status I = ItemStatusWaiting"
    by (auto simp: waiting_in_def)
  have it: "db_get items j = (if j = bm_ID I then Some item else db_get (qs_items st) j)" for j
    using db_get_save [OF sv, of I j] I db_get_SomeD [OF I(1)] by (simp add: item live_copy)
  have cn: "db_get (db_update (\<lambda>r. bm_ID r = c) ?g (qs_counters st)) d =
      (if d = c then Some (?g C) else db_get (qs_counters st) d)" for d
    using C by (simp add: db_get_update_id)
  have "serving_ok (db_get items) (db_get (db_update (\<lambda>r. bm_ID r = c) ?g (qs_counters st)))"
    using serving_enter [OF s(1) I C _ _ _ it cn] by (simp add: item)
  moreover have "status_step I item" using I(2) by (simp add: item status_step_def validItemTransitions_def)
  from evolves_one [OF this I(1)] it have "item_evolves st st'" by (simp add: st' st1)
  ultimately show ?thesis using s ids_ok_save [OF sv] by (simp add: st' st1 queue_good_def queue_inv_def)
qed

section \<open>Reachable states\<close>

text \<open>
  One successful operation of the manager. The entity given to \<open>Enqueue\<close> has no counter and the
  one given to \<open>CreateCounter\<close> no item, as the handlers build them; generated ids are not empty.
\<close>

inductive queue_step :: "queue_env \<Rightarrow> QueueState \<Rightarrow> QueueState \<Rightarrow> bool" for env where
  step_CreateQueue: "CreateQueue env now newID def st = Inr st' \<Longrightarrow> queue_step env st st'"
| step_UpdateQueue: "UpdateQueue env def st = Inr st' \<Longrightarrow> queue_step env st st'"
| step_DeleteQueue: "DeleteQueue env now i st = Inr st' \<Longrightarrow> queue_step env st st'"
| step_Enqueue: "Enqueue env now newID rnd item st = Inr (item', st') \<Longrightarrow> qi_CounterID item = [] \<Longrightarrow>
    newID \<noteq> [] \<Longrightarrow> queue_step env st st'"
| step_CancelItem: "CancelItem env now i st = Inr st' \<Longrightarrow> queue_step env st st'"
| step_NoShowItem: "NoShowItem env now i st = Inr st' \<Longrightarrow> queue_step env st st'"
| step_RequeueItem: "RequeueItem env now i st = Inr st' \<Longrightarrow> queue_step env st st'"
| step_TransferItem: "TransferItem env now i q st = Inr st' \<Longrightarrow> queue_step env st st'"
| step_CreateCounter: "CreateCounter env now newID counter st = Inr st' \<Longrightarrow> qc_CurrentItemID counter = [] \<Longrightarrow>
    newID \<noteq> [] \<Longrightarrow> queue_step env st st'"
| step_OpenCounter: "OpenCounter env now c staff st = Inr st' \<Longrightarrow> queue_step env st st'"
| step_CloseCounter: "CloseCounter env now c st = Inr st' \<Longrightarrow> queue_step env st st'"
| step_PauseCounter: "PauseCounter env now c st = Inr st' \<Longrightarrow> queue_step env st st'"
| step_CallNext: "CallNext env now c st = Inr (item, st') \<Longrightarrow> queue_step env st st'"
| step_BeginService: "BeginService env now c st = Inr st' \<Longrightarrow> queue_step env st st'"
| step_CompleteService: "CompleteService env now c st = Inr st' \<Longrightarrow> queue_step env st st'"
| step_GetStats: "GetStats env ttl now q st = Inr (stats, st') \<Longrightarrow> queue_step env st st'"

lemma same_tables_good:
  "qs_items st' = qs_items st \<Longrightarrow> qs_counters st' = qs_counters st \<Longrightarrow> queue_inv st \<Longrightarrow> queue_good st st'"
  by (simp add: queue_good_def queue_inv_def evolves_same)

lemmas queue_op_good = CancelItem_good NoShowItem_good RequeueItem_good TransferItem_good
  CreateCounter_good OpenCounter_good CloseCounter_good PauseCounter_good CallNext_good
  BeginService_good CompleteService_good Enqueue_good

lemma queue_step_good:
  assumes "queue_step env st st'" and "queue_inv st" and "updates_save env"
  shows "queue_good st st'"
  using assms
proof (induction rule: queue_step.induct)
  case (step_CreateQueue now newID def st st')
  then show ?case by (intro same_tables_good) (auto simp: CreateQueue_def res_simps Let_def)
next
  case (step_UpdateQueue def st st')
  then show ?case by (intro same_tables_good) (auto simp: UpdateQueue_def res_simps)
next
  case (step_DeleteQueue now i st st')
  then show ?case by (intro same_tables_good) (auto simp: DeleteQueue_def Def_SoftDelete_def res_simps)
next
  case (step_GetStats ttl now q st stats st')
  then show ?case by (intro same_tables_good) (auto simp: GetStats_def res_simps split: option.splits if_splits)
qed (auto intro: queue_op_good)

definition queue_reachable :: "queue_env \<Rightarrow> QueueState \<Rightarrow> QueueState \<Rightarrow> bool" where
  "queue_reachable env = (queue_step env)\<^sup>*\<^sup>*"

lemma queue_reachable_inv:
  assumes "queue_reachable env st st'" and "queue_inv st" and "updates_save env"
  shows "queue_inv st'"
  using assms unfolding queue_reachable_def
  by (induction rule: rtranclp_induct) (auto dest: queue_step_good simp: queue_good_def)

definition empty_queue_state :: QueueState where
  "empty_queue_state = \<lparr>qs_defs = [], qs_items = [], qs_counters = [], qs_lastInvalidate = [], qs_cache = []\<rparr>"

lemma empty_queue_inv: "queue_inv empty_queue_state"
  by (simp add: queue_inv_def empty_queue_state_def ids_ok_def serving_ok_def db_get_def)

subsection \<open>An example\<close>

definition example_def :: QueueDefinition where
  "example_def = \<lparr>bm_ID = ''q'', bm_CreatedAt = 0, bm_ModifiedAt = 0, bm_DeletedAt = None, qd_Name = ''desk'',
     qd_Description = [], qd_Active = True, qd_PriorityLevels = 3, qd_MaxCapacity = 1, qd_SLAMinutes = 30,
     qd_Config = empty_object\<rparr>"

definition example_item :: "string \<Rightarrow> int \<Rightarrow> int \<Rightarrow> QueueItem" where
  "example_item i prio joined = \<lparr>bm_ID = i, bm_CreatedAt = 0, bm_ModifiedAt = 0, bm_DeletedAt = None,
     qi_QueueID = ''q'', qi_Priority = prio, qi_Status = ItemStatusWaiting, qi_TicketNo = i, qi_Category = [],
     qi_CustomerID = [], qi_Metadata = empty_object, qi_CounterID = [], qi_ServedBy = [], qi_CalledAt = None,
     qi_ServiceStart = None, qi_ServiceEnd = None, qi_JoinedAt = joined\<rparr>"

definition example_counter :: QueueCounter where
  "example_counter = \<lparr>bm_ID = ''c'', bm_CreatedAt = 0, bm_ModifiedAt = 0, bm_DeletedAt = None,
     qc_QueueID = ''q'', qc_Name = ''window'', qc_Status = CounterStatusOpen, qc_CurrentItemID = [],
     qc_ServedBy = ''staff'', qc_Categories = empty_object, qc_TotalServed = 0\<rparr>"

definition example_queue :: QueueState where
  "example_queue = \<lparr>qs_defs = [example_def], qs_items = [example_item ''i1'' 1 10, example_item ''i2'' 2 20],
     qs_counters = [example_counter], qs_lastInvalidate = [], qs_cache = []\<rparr>"

lemma example_queue_inv: "queue_inv example_queue"
  by (auto simp: queue_inv_def example_queue_def ids_ok_def serving_ok_def db_get_def example_item_def
      example_counter_def live_def split: if_splits)

lemmas example_queue_simps = example_queue_def example_item_def example_counter_def example_def_def
  example_queue_env_def db_get_def db_select_def live_def first_by_def call_order_def waiting_in_def
  in_categories_def parse_categories_def empty_object_def save_def db_save_def ticket_conflict_def
  affected_def db_update_def InvalidateCache_def no_faults_def get_iffs repo_get_def

lemma is_okD': "is_ok r \<Longrightarrow> \<exists>x y. r = Inr (x, y)"
  by (auto dest: is_okD)

lemma example_call:
  "\<exists>item st'. CallNext example_queue_env 30 ''c'' example_queue = Inr (item, st') \<and> bm_ID item = ''i2''"
proof -
  have "case CallNext example_queue_env 30 ''c'' example_queue of Inr (item, st') \<Rightarrow> bm_ID item = ''i2'' | Inl _ \<Rightarrow> False"
    by code_simp
  then show ?thesis by (auto split: sum.splits)
qed

section \<open>Properties\<close>

text \<open>C1: in every state reached by operations of the queue manager, service is exclusive: a
  serving item is held by exactly one counter, the one it names; a counter that holds an item
  is the only one to hold it, and that item is in service at it.\<close>
theorem queue_service_exclusive:
  assumes "queue_reachable env st0 st" and "queue_inv st0" and "updates_save env"
  shows "(\<forall>i I. db_get (qs_items st) i = Some I \<longrightarrow> qi_Status I = ItemStatusServing \<longrightarrow>
      (\<exists>!c. \<exists>C. db_get (qs_counters st) c = Some C \<and> qc_CurrentItemID C = i)) \<and>
    (\<forall>c C. db_get (qs_counters st) c = Some C \<longrightarrow> qc_CurrentItemID C \<noteq> [] \<longrightarrow>
      (\<exists>I. db_get (qs_items st) (qc_CurrentItemID C) = Some I \<and> qi_Status I = ItemStatusServing \<and> qi_CounterID I = c))"
proof -
  from queue_reachable_inv [OF assms] have s: "serving_ok (db_get (qs_items st)) (db_get (qs_counters st))"
    by (simp add: queue_inv_def)
  note D = serving_okD [OF s]
  have "\<exists>!c. \<exists>C. db_get (qs_counters st) c = Some C \<and> qc_CurrentItemID C = i"
    if I: "db_get (qs_items st) i = Some I" "qi_Status I = ItemStatusServing" for i I
  proof
    show "\<exists>C. db_get (qs_counters st) (qi_CounterID I) = Some C \<and> qc_CurrentItemID C = i" using D(2) [OF I] .
    have "i \<noteq> []" using I(1) D(4) by auto
    then show "c = qi_CounterID I" if "\<exists>C. db_get (qs_counters st) c = Some C \<and> qc_CurrentItemID C = i" for c
      using that D(1) I(1) by fastforce
  qed
  with D(1) show ?thesis by blast
qed

theorem queue_service_exclusive_witness:
  "\<exists>st item. CallNext example_queue_env 30 ''c'' example_queue = Inr (item, st) \<and>
     (\<forall>i I. db_get (qs_items st) i = Some I \<longrightarrow> qi_Status I = ItemStatusServing \<longrightarrow>
       (\<exists>!c. \<exists>C. db_get (qs_counters st) c = Some C \<and> qc_CurrentItemID C = i))"
proof -
  from example_call obtain item st where c: "CallNext example_queue_env 30 ''c'' example_queue = Inr (item, st)" by blast
  then have "queue_reachable example_queue_env example_queue st"
    unfolding queue_reachable_def by (blast intro: step_CallNext)
  from queue_service_exclusive [OF this example_queue_inv example_queue_env_saves] c show ?thesis by blast
qed

text \<open>C2: \<open>CallNext\<close> serves the head of the queue: the item it returns was waiting in the queue of
  the counter and matched its category filter, no such item has a higher priority or, with the
  same priority, joined earlier; afterwards the item is in service at the counter and the
  counter holds it, while every other item is unchanged.\<close>
theorem call_next_serves_head:
  assumes "CallNext env now c st = Inr (item, st')" and "queue_inv st"
  shows "\<exists>C I. db_get (qs_counters st) c = Some C \<and> qc_Status C = CounterStatusOpen \<and> qc_CurrentItemID C = [] \<and>
    db_get (qs_items st) (bm_ID item) = Some I \<and> qi_Status I = ItemStatusWaiting \<and> qi_QueueID I = qc_QueueID C \<and>
    in_categories (parse_categories (qc_Categories C)) I \<and>
    (\<forall>J \<in> set (qs_items st). live J \<and> waiting_in (qc_QueueID C) J \<and> in_categories (parse_categories (qc_Categories C)) J \<longrightarrow>
       qi_Priority J < qi_Priority I \<or> qi_Priority J = qi_Priority I \<and> qi_JoinedAt I \<le> qi_JoinedAt J) \<and>
    item = I\<lparr>qi_Status := ItemStatusServing, qi_CounterID := c, qi_ServedBy := qc_ServedBy C, qi_CalledAt := Some now\<rparr> \<and>
    db_get (qs_items st') = (db_get (qs_items st))(bm_ID item \<mapsto> item) \<and>
    db_get (qs_counters st') = (db_get (qs_counters st))(c \<mapsto> C\<lparr>qc_CurrentItemID := bm_ID item\<rparr>)"
proof -
  from CallNext_InrD [OF assms(1)] obtain C st1 where C: "db_get (qs_counters st) c = Some C"
    "qc_Status C = CounterStatusOpen" "qc_CurrentItemID C = []"
    and tx: "call_next_tx env now c C st = Inr (item, st1)" and st': "st' = InvalidateCache now (qc_QueueID C) st1" by auto
  let ?P = "\<lambda>i. waiting_in (qc_QueueID C) i \<and> in_categories (parse_categories (qc_Categories C)) i"
  from call_next_tx_InrD [OF tx] obtain I items where
    f: "first_by call_order (db_select ?P (qs_items st)) = Some I"
    and item: "item = I\<lparr>qi_Status := ItemStatusServing, qi_CounterID := c, qi_ServedBy := qc_ServedBy C, qi_CalledAt := Some now\<rparr>"
    and sv: "db_save ticket_conflict item (qs_items st) = Some items"
    and st1: "st1 = st\<lparr>qs_items := items, qs_counters := db_update (\<lambda>r. bm_ID r = c)
       (\<lambda>r. r\<lparr>qc_CurrentItemID := bm_ID item\<rparr>) (qs_counters st)\<rparr>" by auto
  have ok: "ids_ok (qs_items st)" using assms(2) by (simp add: queue_inv_def)
  from picked_item [OF ok f] have I: "db_get (qs_items st) (bm_ID I) = Some I" "?P I"
    "\<And>J. J \<in> set (qs_items st) \<Longrightarrow> live J \<Longrightarrow> ?P J \<Longrightarrow> call_order I \<le> call_order J" by auto
  have "qi_Priority J < qi_Priority I \<or> qi_Priority J = qi_Priority I \<and> qi_JoinedAt I \<le> qi_JoinedAt J"
    if "J \<in> set (qs_items st)" "live J" "?P J" for J
    using I(3) [OF that] by (auto simp: call_order_def less_eq_prod_def)
  moreover have "db_get (qs_items st') = (db_get (qs_items st))(bm_ID item \<mapsto> item)"
    using db_get_save [OF sv, of I] I(1) db_get_SomeD [OF I(1)] by (auto simp: st' st1 item live_copy)
  moreover have "db_get (qs_counters st') = (db_get (qs_counters st))(c \<mapsto> C\<lparr>qc_CurrentItemID := bm_ID item\<rparr>)"
    using C(1) by (auto simp: st' st1 db_get_update_id)
  ultimately show ?thesis
    using C I(1,2) item by (intro exI [of _ C] exI [of _ I]) (auto simp: waiting_in_def)
qed

theorem call_next_serves_head_witness:
  "\<exists>item st'. CallNext example_queue_env 30 ''c'' example_queue = Inr (item, st') \<and>
     db_get (qs_items st') (bm_ID item) = Some item \<and> bm_ID item = ''i2''"
proof -
  from example_call obtain item st' where c: "CallNext example_queue_env 30 ''c'' example_queue = Inr (item, st')"
    and "bm_ID item = ''i2''" by blast
  with call_next_serves_head [OF c example_queue_inv] show ?thesis by (metis fun_upd_same)
qed

text \<open>Every operation of the manager changes the status of an existing item only along the
  transition table and never loses an item; a completed, cancelled or expired item keeps its
  status for ever.\<close>
theorem item_status_follows_table:
  assumes "queue_reachable env st st'" and "queue_inv st" and "updates_save env"
    and "db_get (qs_items st) i = Some I"
  shows "\<exists>I'. db_get (qs_items st') i = Some I' \<and> (qi_Status I, qi_Status I') \<in> item_machine.reaches \<and>
    (qi_Status I \<in> {ItemStatusCompleted, ItemStatusCancelled, ItemStatusExpired} \<longrightarrow> qi_Status I' = qi_Status I)"
proof -
  have "queue_inv st' \<and> (\<exists>I'. db_get (qs_items st') i = Some I' \<and> (qi_Status I, qi_Status I') \<in> item_machine.reaches)"
    using assms(1) unfolding queue_reachable_def
  proof (induction rule: rtranclp_induct)
    case base
    then show ?case using assms(2,4) by (auto simp: item_machine.reaches_def)
  next
    case (step s t)
    then obtain J where J: "db_get (qs_items s) i = Some J" "(qi_Status I, qi_Status J) \<in> item_machine.reaches"
      and inv: "queue_inv s" by auto
    from queue_step_good [OF step(2) inv assms(3)] J(1) obtain K where
      "queue_inv t" "db_get (qs_items t) i = Some K" "status_step J K"
      by (auto simp: queue_good_def item_evolves_def)
    with J(2) show ?case
      by (auto simp: item_machine.reaches_def status_step_def intro: rtrancl_into_rtrancl)
  qed
  moreover have "s = t" if "(s, t) \<in> item_machine.reaches" "validItemTransitions s = []" for s t
    using that unfolding item_machine.reaches_def by (induction rule: converse_rtrancl_induct) auto
  ultimately show ?thesis by (fastforce simp: validItemTransitions_def)
qed

theorem item_status_follows_table_witness:
  "\<exists>st item I'. CallNext example_queue_env 30 ''c'' example_queue = Inr (item, st) \<and>
     db_get (qs_items st) ''i1'' = Some I' \<and> (ItemStatusWaiting, qi_Status I') \<in> item_machine.reaches"
proof -
  from example_call obtain item st where c: "CallNext example_queue_env 30 ''c'' example_queue = Inr (item, st)" by blast
  then have r: "queue_reachable example_queue_env example_queue st"
    unfolding queue_reachable_def by (blast intro: step_CallNext)
  have "db_get (qs_items example_queue) ''i1'' = Some (example_item ''i1'' 1 10)"
    by (simp add: example_queue_simps)
  from item_status_follows_table [OF r example_queue_inv example_queue_env_saves this] c
  show ?thesis by (auto simp: example_item_def)
qed

text \<open>A successful \<open>Enqueue\<close> stores exactly one new waiting item, with a priority between 1
  and the number of levels of the queue (for a queue with at least one level), and in a queue
  with a capacity the number of waiting items stays within it.\<close>
theorem enqueue_respects_capacity:
  assumes "Enqueue env now newID rnd item st = Inr (item', st')" and "ids_ok (qs_items st)"
    and "db_get (qs_defs st) (qi_QueueID item) = Some def" and "1 \<le> qd_PriorityLevels def"
  shows "qs_items st' = qs_items st @ [item'] \<and> qi_Status item' = ItemStatusWaiting \<and> qi_QueueID item' = qi_QueueID item \<and>
    1 \<le> qi_Priority item' \<and> qi_Priority item' \<le> qd_PriorityLevels def \<and> qi_JoinedAt item' = now \<and>
    (0 < qd_MaxCapacity def \<longrightarrow> int (affected (waiting_in (qi_QueueID item)) (qs_items st')) \<le> qd_MaxCapacity def)"
proof -
  from assms(1,3) have cap: "0 < qd_MaxCapacity def \<Longrightarrow>
      int (affected (waiting_in (qi_QueueID item)) (qs_items st)) < qd_MaxCapacity def"
    and ins: "\<exists>items. db_insert ticket_conflict item' (qs_items st) = Some items \<and> qs_items st' = items"
    and i': "qi_Status item' = ItemStatusWaiting" "qi_QueueID item' = qi_QueueID item" "qi_JoinedAt item' = now"
      "qi_Priority item' = clamp_priority (qd_PriorityLevels def) (qi_Priority item)" "live item'"
    by (auto simp: Enqueue_def queue_op_simps Let_def with_id_def live_def dest!: create_InrD split: if_splits)
  from ins have items: "qs_items st' = qs_items st @ [item']" by (auto dest: db_insert_SomeD)
  have "affected (waiting_in (qi_QueueID item)) (qs_items st') = Suc (affected (waiting_in (qi_QueueID item)) (qs_items st))"
    using i' by (simp add: items affected_def db_select_def waiting_in_def)
  with cap items i' assms(4) show ?thesis by (auto simp: clamp_priority_def Let_def)
qed

theorem enqueue_respects_capacity_witness:
  "\<exists>item' st'. Enqueue example_queue_env 40 ''n'' ''ABCD1234'' (example_item [] 7 0)
       (example_queue\<lparr>qs_items := []\<rparr>) = Inr (item', st') \<and>
     qi_Priority item' \<le> 3 \<and> int (affected (waiting_in ''q'') (qs_items st')) \<le> 1"
proof -
  have "\<exists>item' st'. Enqueue example_queue_env 40 ''n'' ''ABCD1234'' (example_item [] 7 0)
       (example_queue\<lparr>qs_items := []\<rparr>) = Inr (item', st')"
    by (rule is_okD') code_simp
  then obtain item' st' where e: "Enqueue example_queue_env 40 ''n'' ''ABCD1234'' (example_item [] 7 0)
       (example_queue\<lparr>qs_items := []\<rparr>) = Inr (item', st')" by blast
  from enqueue_respects_capacity [OF e, of example_def] e show ?thesis
    by (simp add: example_queue_simps ids_ok_def)
qed

text \<open>The position reported for a waiting item is one more than the number of waiting items
  of its queue that \<open>CallNext\<close> prefers to it, so the item that a counter without category
  filter calls next is an item at position 1.\<close>
theorem next_called_is_at_position_one:
  assumes "CallNext env now c st = Inr (item, st')" and "queue_inv st"
    and "db_get (qs_counters st) c = Some C" and "parse_categories (qc_Categories C) = []"
    and "\<not> qe_F env ''get item''" and "\<not> qe_F env ''get queue position''"
  shows "GetItemPosition env st (bm_ID item) = Inr 1"
proof -
  from CallNext_InrD [OF assms(1)] assms(3) obtain st1 where tx: "call_next_tx env now c C st = Inr (item, st1)" by auto
  let ?P = "\<lambda>i. waiting_in (qc_QueueID C) i \<and> in_categories (parse_categories (qc_Categories C)) i"
  from call_next_tx_InrD [OF tx] obtain I where
    f: "first_by call_order (db_select ?P (qs_items st)) = Some I" and id: "bm_ID item = bm_ID I" by auto
  have ok: "ids_ok (qs_items st)" using assms(2) by (simp add: queue_inv_def)
  from picked_item [OF ok f] have I: "db_get (qs_items st) (bm_ID I) = Some I" "?P I"
    "\<And>J. J \<in> set (qs_items st) \<Longrightarrow> live J \<Longrightarrow> ?P J \<Longrightarrow> call_order I \<le> call_order J" by auto
  have "affected (ahead_of I) (qs_items st) = 0"
    unfolding affected_0_iff
    using I(2,3) assms(4) by (fastforce simp: ahead_of_def waiting_in_def in_categories_def call_order_def less_eq_prod_def)
  with I assms(5,6) show ?thesis
    by (simp add: GetItemPosition_def GetPosition_def Item_GetByID_def repo_get_def because_def id waiting_in_def stmt_def guard_def)
qed

theorem next_called_is_at_position_one_witness:
  "\<exists>item st'. CallNext example_queue_env 30 ''c'' example_queue = Inr (item, st') \<and>
     GetItemPosition example_queue_env example_queue (bm_ID item) = Inr 1"
proof -
  from example_call obtain item st' where c: "CallNext example_queue_env 30 ''c'' example_queue = Inr (item, st')" by blast
  from next_called_is_at_position_one [OF c example_queue_inv, of example_counter] c show ?thesis
    by (fastforce simp: example_queue_simps)
qed


end
