(* ===== verification/Go_Sha256.thy ===== *)
theory Go_Sha256
  imports Trustage_Prelude
begin

text \<open>
  \<open>crypto/sha256\<close> and \<open>encoding/hex\<close> as the sources use them: \<open>sha256.Sum256\<close> of a byte
  string and \<open>hex.EncodeToString\<close>, after FIPS 180-4, and the functions of \<open>pkg/cryptoutil\<close> and
  of the repositories that are built from them.
\<close>

unbundle bit_operations_syntax

section \<open>The compression function\<close>

type_synonym w32 = "32 word"

definition sha_rotr :: "nat \<Rightarrow> w32 \<Rightarrow> w32" where
  "sha_rotr n x = drop_bit n x OR push_bit (32 - n) x"

definition sha_Ch :: "w32 \<Rightarrow> w32 \<Rightarrow> w32 \<Rightarrow> w32" where
  "sha_Ch x y z = (x AND y) XOR (NOT x AND z)"

definition sha_Maj :: "w32 \<Rightarrow> w32 \<Rightarrow> w32 \<Rightarrow> w32" where
  "sha_Maj x y z = (x AND y) XOR (x AND z) XOR (y AND z)"

definition sha_S0 :: "w32 \<Rightarrow> w32" where
  "sha_S0 x = sha_rotr 2 x XOR sha_rotr 13 x XOR sha_rotr 22 x"

definition sha_S1 :: "w32 \<Rightarrow> w32" where
  "sha_S1 x = sha_rotr 6 x XOR sha_rotr 11 x XOR sha_rotr 25 x"

definition sha_s0 :: "w32 \<Rightarrow> w32" where
  "sha_s0 x = sha_rotr 7 x XOR sha_rotr 18 x XOR drop_bit 3 x"

definition sha_s1 :: "w32 \<Rightarrow> w32" where
  "sha_s1 x = sha_rotr 17 x XOR sha_rotr 19 x XOR drop_bit 10 x"

definition sha_K :: "w32 list" where
  "sha_K =
    [1116352408, 1899447441, 3049323471, 3921009573, 961987163, 1508970993, 2453635748, 2870763221,
     3624381080, 310598401, 607225278, 1426881987, 1925078388, 2162078206, 2614888103, 3248222580,
     3835390401, 4022224774, 264347078, 604807628, 770255983, 1249150122, 1555081692, 1996064986,
     2554220882, 2821834349, 2952996808, 3210313671, 3336571891, 3584528711, 113926993, 338241895,
     666307205, 773529912, 1294757372, 1396182291, 1695183700, 1986661051, 2177026350, 2456956037,
     2730485921, 2820302411, 3259730800, 3345764771, 3516065817, 3600352804, 4094571909, 275423344,
     430227734, 506948616, 659060556, 883997877, 958139571, 1322822218, 1537002063, 1747873779,
     1955562222, 2024104815, 2227730452, 2361852424, 2428436474, 2756734187, 3204031479,
     3329325298]"

definition sha_H0 :: "w32 list" where
  "sha_H0 =
    [1779033703, 3144134277, 1013904242, 2773480762, 1359893119, 2600822924, 528734635, 1541459225]"

text \<open>
  The message schedule, kept as the window of the last sixteen words: a round consumes the
  oldest and appends the next.
\<close>

definition sha_next_word :: "w32 list \<Rightarrow> w32" where
  "sha_next_word w = sha_s1 (w ! 14) + w ! 9 + sha_s0 (w ! 1) + w ! 0"

fun sha_round :: "w32 list \<Rightarrow> w32 \<Rightarrow> w32 \<Rightarrow> w32 list" where
  "sha_round [a, b, c, d, e, f, g, h] k w =
     (let t1 = h + sha_S1 e + sha_Ch e f g + k + w;
          t2 = sha_S0 a + sha_Maj a b c
      in [t1 + t2, a, b, c, d + t1, e, f, g])"
| "sha_round v k w = v"

fun sha_rounds :: "w32 list \<Rightarrow> w32 list \<Rightarrow> w32 list \<Rightarrow> w32 list" where
  "sha_rounds [] w v = v"
| "sha_rounds (k # ks) w v = sha_rounds ks (tl w @ [sha_next_word w]) (sha_round v k (w ! 0))"

definition sha_block :: "w32 list \<Rightarrow> w32 list \<Rightarrow> w32 list" where
  "sha_block v w = map2 (+) v (sha_rounds sha_K w v)"

section \<open>Padding and words\<close>

text \<open>Bytes are integers: their arithmetic is then carried out on binary numerals.\<close>

definition be_bytes :: "nat \<Rightarrow> int \<Rightarrow> int list" where
  "be_bytes n x = map (\<lambda>i. (x div 256 ^ i) mod 256) (rev [0..<n])"

definition sha_pad :: "int list \<Rightarrow> int list" where
  "sha_pad m = m @ [128] @ replicate (nat ((- int (length m) - 9) mod 64)) 0 @ be_bytes 8 (8 * int (length m))"

fun be_words :: "int list \<Rightarrow> w32 list" where
  "be_words (a # b # c # d # bs) = word_of_int (((a * 256 + b) * 256 + c) * 256 + d) # be_words bs"
| "be_words bs = []"

function sha_blocks :: "w32 list \<Rightarrow> w32 list \<Rightarrow> w32 list" where
  "sha_blocks v ws = (if ws = [] then v else sha_blocks (sha_block v (take 16 ws)) (drop 16 ws))"
  by pat_completeness auto
termination by (relation "measure (\<lambda>(v, ws). length ws)") auto

declare sha_blocks.simps [simp del]

definition Sum256 :: "string \<Rightarrow> int list" where
  "Sum256 s = concat (map (\<lambda>w. be_bytes 4 (uint w)) (sha_blocks sha_H0 (be_words (sha_pad (map of_char s)))))"

definition hex_digit :: "int \<Rightarrow> char" where
  "hex_digit n = ''0123456789abcdef'' ! nat (n mod 16)"

definition EncodeToString :: "int list \<Rightarrow> string" where
  "EncodeToString bs = concat (map (\<lambda>b. [hex_digit (b div 16), hex_digit b]) bs)"

section \<open>Uses in the sources\<close>

definition HashToken :: "string \<Rightarrow> string" where
  "HashToken token = EncodeToString (Sum256 token)"

definition hashString :: "string \<Rightarrow> string" where
  "hashString value = EncodeToString (Sum256 value)"

section \<open>Lengths\<close>

lemma length_sha_round [simp]: "length (sha_round v k w) = length v"
  by (induction v k w rule: sha_round.induct) (simp_all add: Let_def)

lemma length_sha_rounds [simp]: "length (sha_rounds ks w v) = length v"
  by (induction ks w v rule: sha_rounds.induct) simp_all

lemma length_sha_blocks: "length (sha_blocks v ws) = length v"
proof (induction v ws rule: sha_blocks.induct)
  case (1 v ws)
  then show ?case by (subst sha_blocks.simps) (simp add: sha_block_def)
qed

lemma length_concat_const: "(\<And>x. length (f x) = n) \<Longrightarrow> length (concat (map f xs)) = n * length xs"
  by (induction xs) simp_all

lemma length_Sum256: "length (Sum256 s) = 32"
  by (simp add: Sum256_def be_bytes_def length_concat_const length_sha_blocks sha_H0_def)

lemma length_EncodeToString [simp]: "length (EncodeToString bs) = 2 * length bs"
  by (simp add: EncodeToString_def length_concat_const)

lemma HashToken_length [simp]: "length (HashToken t) = 64"
  by (simp add: HashToken_def length_Sum256)

lemma HashToken_not_empty [simp]: "HashToken t \<noteq> []"
  using HashToken_length [of t] by (cases "HashToken t") simp_all

end
