(* ===== verification/Engine_Models.thy ===== *)
theory Engine_Models
  imports Sql_Store Status_Machine Go_Sha256
begin

text \<open>
  The rows of the workflow service (\<open>apps/default/service/models\<close>), its database state and the
  inserts with the column defaults and unique indexes of \<open>repository/migrate.go\<close>. A pointer to a
  time is an optional \<^typ>\<open>int\<close>; a \<open>jsonb\<close> column is a \<^typ>\<open>raw_json\<close>. The tenant and partition
  columns are filled from the caller's claims: the model is the database of one tenant and
  partition.
\<close>

named_theorems engine_simps \<open>effects of the engine's statements on the tables\<close>

section \<open>Definitions (workflow_definition.go)\<close>

datatype WorkflowDefinitionStatus = WorkflowStatusDraft | WorkflowStatusActive | WorkflowStatusArchived

record WorkflowDefinition = base_model +
  wd_Name :: string
  wd_WorkflowVersion :: int
  wd_Status :: WorkflowDefinitionStatus
  wd_DSLBlob :: raw_json
  wd_InputSchemaHash :: string
  wd_TimeoutSeconds :: int

definition definition_status_string :: "WorkflowDefinitionStatus \<Rightarrow> string" where
  "definition_status_string s = (case s of
     WorkflowStatusDraft \<Rightarrow> ''draft'' | WorkflowStatusActive \<Rightarrow> ''active'' | WorkflowStatusArchived \<Rightarrow> ''archived'')"

definition validDefinitionTransitions :: "WorkflowDefinitionStatus \<Rightarrow> WorkflowDefinitionStatus list" where
  "validDefinitionTransitions s = (case s of
     WorkflowStatusDraft \<Rightarrow> [WorkflowStatusActive, WorkflowStatusArchived]
   | WorkflowStatusActive \<Rightarrow> [WorkflowStatusArchived]
   | WorkflowStatusArchived \<Rightarrow> [])"

definition definition_transition ::
    "WorkflowDefinitionStatus \<Rightarrow> WorkflowDefinitionStatus \<Rightarrow> WorkflowDefinitionStatus result" where
  "definition_transition s newStatus =
     (if s = newStatus then Inr s
      else if newStatus \<in> set (validDefinitionTransitions s) then Inr newStatus
      else Inl (transition_error ''invalid transition from %s to %s''
             (definition_status_string s) (definition_status_string newStatus)))"

definition WorkflowDefinition_TransitionTo ::
    "WorkflowDefinitionStatus \<Rightarrow> WorkflowDefinition \<Rightarrow> WorkflowDefinition result" where
  "WorkflowDefinition_TransitionTo newStatus w =
     and_then (definition_transition (wd_Status w) newStatus) (\<lambda>s. Inr (w\<lparr>wd_Status := s\<rparr>))"

interpretation definition_machine: status_machine
    "\<lambda>s. s # validDefinitionTransitions s" definition_transition
  by unfold_locales (auto simp: definition_transition_def)

section \<open>Instances (workflow_instance.go)\<close>

datatype WorkflowInstanceStatus =
    InstanceStatusRunning | InstanceStatusCompleted | InstanceStatusFailed
  | InstanceStatusCancelled | InstanceStatusSuspended

record WorkflowInstance = base_model +
  wi_WorkflowName :: string
  wi_WorkflowVersion :: int
  wi_CurrentState :: string
  wi_Status :: WorkflowInstanceStatus
  wi_Revision :: int
  wi_TriggerEventID :: string
  wi_CorrelationKey :: string
  wi_ParentInstanceID :: string
  wi_ParentExecutionID :: string
  wi_ScopeType :: string
  wi_ScopeParentState :: string
  wi_ScopeEntryState :: string
  wi_ScopeIndex :: int
  wi_Metadata :: raw_json
  wi_Vars :: raw_json
  wi_StartedAt :: "int option"
  wi_FinishedAt :: "int option"

definition instance_status_string :: "WorkflowInstanceStatus \<Rightarrow> string" where
  "instance_status_string s = (case s of
     InstanceStatusRunning \<Rightarrow> ''running'' | InstanceStatusCompleted \<Rightarrow> ''completed''
   | InstanceStatusFailed \<Rightarrow> ''failed'' | InstanceStatusCancelled \<Rightarrow> ''cancelled''
   | InstanceStatusSuspended \<Rightarrow> ''suspended'')"

definition validInstanceTransitions :: "WorkflowInstanceStatus \<Rightarrow> WorkflowInstanceStatus list" where
  "validInstanceTransitions s = (case s of
     InstanceStatusRunning \<Rightarrow>
       [InstanceStatusCompleted, InstanceStatusFailed, InstanceStatusCancelled, InstanceStatusSuspended]
   | InstanceStatusSuspended \<Rightarrow> [InstanceStatusRunning, InstanceStatusCancelled]
   | InstanceStatusCompleted \<Rightarrow> []
   | InstanceStatusFailed \<Rightarrow> []
   | InstanceStatusCancelled \<Rightarrow> [])"

definition instance_transition ::
    "WorkflowInstanceStatus \<Rightarrow> WorkflowInstanceStatus \<Rightarrow> WorkflowInstanceStatus result" where
  "instance_transition s newStatus =
     (if newStatus \<in> set (validInstanceTransitions s) then Inr newStatus
      else Inl (transition_error ''invalid instance transition from %s to %s''
             (instance_status_string s) (instance_status_string newStatus)))"

definition WorkflowInstance_TransitionTo ::
    "WorkflowInstanceStatus \<Rightarrow> WorkflowInstance \<Rightarrow> WorkflowInstance result" where
  "WorkflowInstance_TransitionTo newStatus i =
     and_then (instance_transition (wi_Status i) newStatus) (\<lambda>s. Inr (i\<lparr>wi_Status := s\<rparr>))"

interpretation instance_machine: status_machine validInstanceTransitions instance_transition
  by unfold_locales (auto simp: instance_transition_def)

section \<open>Executions (workflow_execution.go)\<close>

datatype ExecutionStatus =
    ExecStatusPending | ExecStatusDispatched | ExecStatusRunning | ExecStatusWaiting
  | ExecStatusCompleted | ExecStatusFailed | ExecStatusFatal | ExecStatusTimedOut
  | ExecStatusInvalidInputContract | ExecStatusInvalidOutputContract | ExecStatusStale
  | ExecStatusRetryScheduled

record WorkflowStateExecution = base_model +
  ex_InstanceID :: string
  ex_State :: string
  ex_StateVersion :: int
  ex_Attempt :: int
  ex_Status :: ExecutionStatus
  ex_ExecutionToken :: string
  ex_InputSchemaHash :: string
  ex_InputPayload :: raw_json
  ex_OutputSchemaHash :: string
  ex_ErrorClass :: string
  ex_ErrorMessage :: string
  ex_NextRetryAt :: "int option"
  ex_TimeoutAt :: "int option"
  ex_TraceID :: string
  ex_StartedAt :: "int option"
  ex_FinishedAt :: "int option"

text \<open>\<open>&models.WorkflowStateExecution{...}\<close>: the fields the composite literals set.\<close>

definition new_execution ::
    "string \<Rightarrow> string \<Rightarrow> int \<Rightarrow> ExecutionStatus \<Rightarrow> string \<Rightarrow> string \<Rightarrow> raw_json \<Rightarrow> string \<Rightarrow> WorkflowStateExecution" where
  "new_execution instanceID state attempt status token schemaHash payload trace =
     \<lparr>bm_ID = [], bm_CreatedAt = 0, bm_ModifiedAt = 0, bm_DeletedAt = None,
      ex_InstanceID = instanceID, ex_State = state, ex_StateVersion = 0, ex_Attempt = attempt,
      ex_Status = status, ex_ExecutionToken = token, ex_InputSchemaHash = schemaHash,
      ex_InputPayload = payload, ex_OutputSchemaHash = [], ex_ErrorClass = [], ex_ErrorMessage = [],
      ex_NextRetryAt = None, ex_TimeoutAt = None, ex_TraceID = trace,
      ex_StartedAt = None, ex_FinishedAt = None\<rparr>"

section \<open>Outputs, audit events, retry policies\<close>

record WorkflowStateOutput = base_model +
  so_ExecutionID :: string
  so_InstanceID :: string
  so_State :: string
  so_SchemaHash :: string
  so_Payload :: raw_json

record WorkflowAuditEvent = base_model +
  au_InstanceID :: string
  au_ExecutionID :: string
  au_EventType :: string
  au_State :: string
  au_FromState :: string
  au_ToState :: string
  au_Payload :: raw_json
  au_TraceID :: string

definition new_audit ::
    "string \<Rightarrow> string \<Rightarrow> string \<Rightarrow> string \<Rightarrow> string \<Rightarrow> raw_json \<Rightarrow> WorkflowAuditEvent" where
  "new_audit instanceID executionID eventType state trace payload =
     \<lparr>bm_ID = [], bm_CreatedAt = 0, bm_ModifiedAt = 0, bm_DeletedAt = None,
      au_InstanceID = instanceID, au_ExecutionID = executionID, au_EventType = eventType,
      au_State = state, au_FromState = [], au_ToState = [], au_Payload = payload, au_TraceID = trace\<rparr>"

record WorkflowRetryPolicy = base_model +
  rp_WorkflowName :: string
  rp_WorkflowVersion :: int
  rp_State :: string
  rp_MaxAttempts :: int
  rp_BackoffStrategy :: string
  rp_InitialDelayMs :: int
  rp_MaxDelayMs :: int
  rp_RetryOn :: string

section \<open>Timers, signals and scopes\<close>

record WorkflowTimer = base_model +
  tm_ExecutionID :: string
  tm_InstanceID :: string
  tm_State :: string
  tm_FiresAt :: int
  tm_FiredAt :: "int option"
  tm_ClaimUntil :: "int option"
  tm_ClaimOwner :: string
  tm_Attempts :: int

record WorkflowSignalWait = base_model +
  sw_ExecutionID :: string
  sw_InstanceID :: string
  sw_State :: string
  sw_SignalName :: string
  sw_OutputVar :: string
  sw_Status :: string
  sw_TimeoutAt :: "int option"
  sw_MatchedAt :: "int option"
  sw_TimedOutAt :: "int option"
  sw_MessageID :: string
  sw_ClaimUntil :: "int option"
  sw_ClaimOwner :: string
  sw_Attempts :: int

record WorkflowSignalMessage = base_model +
  sm_TargetInstanceID :: string
  sm_SignalName :: string
  sm_Payload :: raw_json
  sm_Status :: string
  sm_DeliveredAt :: "int option"
  sm_WaitID :: string
  sm_ClaimUntil :: "int option"
  sm_ClaimOwner :: string
  sm_Attempts :: int

record WorkflowScopeRun = base_model +
  sr_ParentExecutionID :: string
  sr_ParentInstanceID :: string
  sr_ParentState :: string
  sr_ScopeType :: string
  sr_Status :: string
  sr_WaitAll :: bool
  sr_TotalChildren :: int
  sr_CompletedChildren :: int
  sr_FailedChildren :: int
  sr_NextChildIndex :: int
  sr_MaxConcurrency :: int
  sr_ItemVar :: string
  sr_IndexVar :: string
  sr_ItemsPayload :: raw_json
  sr_ResultsPayload :: raw_json
  sr_ClaimUntil :: "int option"
  sr_ClaimOwner :: string

section \<open>The database of the service\<close>

record EngineState =
  es_defs :: "WorkflowDefinition list"
  es_instances :: "WorkflowInstance list"
  es_execs :: "WorkflowStateExecution list"
  es_outputs :: "WorkflowStateOutput list"
  es_audits :: "WorkflowAuditEvent list"
  es_policies :: "WorkflowRetryPolicy list"
  es_timers :: "WorkflowTimer list"
  es_waits :: "WorkflowSignalWait list"
  es_messages :: "WorkflowSignalMessage list"
  es_scopes :: "WorkflowScopeRun list"

text \<open>
  What an operation draws from its surroundings: the statements that fail, the bytes of a
  payload (the model keeps the decoded value), the ids the framework's hook gives new rows (by
  the role of the row) and the random tokens (by role).
\<close>

record engine_env =
  ee_F :: faults
  ee_text :: "raw_json \<Rightarrow> string"
  ee_id :: "string \<Rightarrow> string"
  ee_token :: "string \<Rightarrow> string"

definition trigger_conflict :: "WorkflowInstance \<Rightarrow> WorkflowInstance \<Rightarrow> bool" where
  "trigger_conflict r s \<longleftrightarrow> wi_TriggerEventID r \<noteq> [] \<and> wi_TriggerEventID r = wi_TriggerEventID s \<and>
     wi_WorkflowName r = wi_WorkflowName s \<and> wi_WorkflowVersion r = wi_WorkflowVersion s"

definition timer_conflict :: "WorkflowTimer \<Rightarrow> WorkflowTimer \<Rightarrow> bool" where
  "timer_conflict r s \<longleftrightarrow> tm_ExecutionID r = tm_ExecutionID s"

definition wait_conflict :: "WorkflowSignalWait \<Rightarrow> WorkflowSignalWait \<Rightarrow> bool" where
  "wait_conflict r s \<longleftrightarrow> sw_ExecutionID r = sw_ExecutionID s"

definition scope_conflict :: "WorkflowScopeRun \<Rightarrow> WorkflowScopeRun \<Rightarrow> bool" where
  "scope_conflict r s \<longleftrightarrow> sr_ParentExecutionID r = sr_ParentExecutionID s"

definition int_default :: "int \<Rightarrow> int \<Rightarrow> int" where
  "int_default d x = (if x = 0 then d else x)"

subsection \<open>Inserts\<close>

definition execution_row :: "engine_env \<Rightarrow> string \<Rightarrow> int \<Rightarrow> WorkflowStateExecution \<Rightarrow> WorkflowStateExecution" where
  "execution_row env role now e =
     (with_id (ee_id env role) now e)\<lparr>ex_StateVersion := int_default 1 (ex_StateVersion e),
        ex_Attempt := int_default 1 (ex_Attempt e),
        ex_InputPayload := json_default (VMap []) (ex_InputPayload e)\<rparr>"

definition insert_execution ::
    "engine_env \<Rightarrow> string \<Rightarrow> string \<Rightarrow> int \<Rightarrow> WorkflowStateExecution \<Rightarrow> EngineState \<Rightarrow> EngineState result" where
  "insert_execution env label role now e st =
     (let row = execution_row env role now e in
      and_then (jsonb label [ex_InputPayload row]) (\<lambda>_.
      and_then (create (ee_F env) label no_conflict row (es_execs st)) (\<lambda>t. Inr (st\<lparr>es_execs := t\<rparr>))))"

definition instance_row :: "engine_env \<Rightarrow> string \<Rightarrow> int \<Rightarrow> WorkflowInstance \<Rightarrow> WorkflowInstance" where
  "instance_row env role now i =
     (with_id (ee_id env role) now i)\<lparr>wi_Revision := int_default 1 (wi_Revision i),
        wi_Metadata := json_default (VMap []) (wi_Metadata i),
        wi_Vars := json_default (VMap []) (wi_Vars i)\<rparr>"

definition insert_instance ::
    "engine_env \<Rightarrow> string \<Rightarrow> string \<Rightarrow> int \<Rightarrow> WorkflowInstance \<Rightarrow> EngineState \<Rightarrow> EngineState result" where
  "insert_instance env label role now i st =
     (let row = instance_row env role now i in
      and_then (jsonb label [wi_Metadata row, wi_Vars row]) (\<lambda>_.
      and_then (create (ee_F env) label trigger_conflict row (es_instances st)) (\<lambda>t. Inr (st\<lparr>es_instances := t\<rparr>))))"

definition insert_output ::
    "engine_env \<Rightarrow> string \<Rightarrow> string \<Rightarrow> int \<Rightarrow> WorkflowStateOutput \<Rightarrow> EngineState \<Rightarrow> EngineState result" where
  "insert_output env label role now r st =
     and_then (jsonb label [so_Payload r]) (\<lambda>_.
     and_then (create (ee_F env) label no_conflict (with_id (ee_id env role) now r) (es_outputs st))
       (\<lambda>t. Inr (st\<lparr>es_outputs := t\<rparr>)))"

definition insert_audit ::
    "engine_env \<Rightarrow> string \<Rightarrow> string \<Rightarrow> int \<Rightarrow> WorkflowAuditEvent \<Rightarrow> EngineState \<Rightarrow> EngineState result" where
  "insert_audit env label role now r st =
     (let row = (with_id (ee_id env role) now r)\<lparr>au_Payload := json_default (VMap []) (au_Payload r)\<rparr> in
      and_then (jsonb label [au_Payload row]) (\<lambda>_.
      and_then (create (ee_F env) label no_conflict row (es_audits st)) (\<lambda>t. Inr (st\<lparr>es_audits := t\<rparr>))))"

definition insert_timer ::
    "engine_env \<Rightarrow> string \<Rightarrow> string \<Rightarrow> int \<Rightarrow> WorkflowTimer \<Rightarrow> EngineState \<Rightarrow> EngineState result" where
  "insert_timer env label role now r st =
     and_then (create (ee_F env) label timer_conflict (with_id (ee_id env role) now r) (es_timers st))
       (\<lambda>t. Inr (st\<lparr>es_timers := t\<rparr>))"

definition insert_wait ::
    "engine_env \<Rightarrow> string \<Rightarrow> string \<Rightarrow> int \<Rightarrow> WorkflowSignalWait \<Rightarrow> EngineState \<Rightarrow> EngineState result" where
  "insert_wait env label role now r st =
     and_then (create (ee_F env) label wait_conflict (with_id (ee_id env role) now r) (es_waits st))
       (\<lambda>t. Inr (st\<lparr>es_waits := t\<rparr>))"

definition insert_message ::
    "engine_env \<Rightarrow> string \<Rightarrow> string \<Rightarrow> int \<Rightarrow> WorkflowSignalMessage \<Rightarrow> EngineState \<Rightarrow> EngineState result" where
  "insert_message env label role now r st =
     (let row = (with_id (ee_id env role) now r)\<lparr>sm_Payload := json_default (VMap []) (sm_Payload r)\<rparr> in
      and_then (jsonb label [sm_Payload row]) (\<lambda>_.
      and_then (create (ee_F env) label no_conflict row (es_messages st)) (\<lambda>t. Inr (st\<lparr>es_messages := t\<rparr>))))"

definition scope_row :: "engine_env \<Rightarrow> string \<Rightarrow> int \<Rightarrow> WorkflowScopeRun \<Rightarrow> WorkflowScopeRun" where
  "scope_row env role now r =
     (with_id (ee_id env role) now r)\<lparr>sr_MaxConcurrency := int_default 1 (sr_MaxConcurrency r),
        sr_ItemsPayload := json_default (VList []) (sr_ItemsPayload r),
        sr_ResultsPayload := json_default (VList []) (sr_ResultsPayload r)\<rparr>"

definition insert_scope ::
    "engine_env \<Rightarrow> string \<Rightarrow> string \<Rightarrow> int \<Rightarrow> WorkflowScopeRun \<Rightarrow> EngineState \<Rightarrow> EngineState result" where
  "insert_scope env label role now r st =
     (let row = scope_row env role now r in
      and_then (jsonb label [sr_ItemsPayload row, sr_ResultsPayload row]) (\<lambda>_.
      and_then (create (ee_F env) label scope_conflict row (es_scopes st)) (\<lambda>t. Inr (st\<lparr>es_scopes := t\<rparr>))))"

subsection \<open>Facts about inserts\<close>

lemma live_with_id [simp]: "live (with_id i now r)"
  by (simp add: live_def with_id_def)

lemma with_id_ID [simp]: "bm_ID (with_id i now r) = (if bm_ID r = [] then i else bm_ID r)"
  by (simp add: with_id_def)

lemma execution_row_simps [simp]:
  "bm_ID (execution_row env role now e) = (if bm_ID e = [] then ee_id env role else bm_ID e)"
  "live (execution_row env role now e)"
  "ex_InstanceID (execution_row env role now e) = ex_InstanceID e"
  "ex_State (execution_row env role now e) = ex_State e"
  "ex_Status (execution_row env role now e) = ex_Status e"
  "ex_ExecutionToken (execution_row env role now e) = ex_ExecutionToken e"
  "ex_NextRetryAt (execution_row env role now e) = ex_NextRetryAt e"
  by (simp_all add: execution_row_def live_def with_id_def)

lemma instance_row_simps [simp]:
  "bm_ID (instance_row env role now i) = (if bm_ID i = [] then ee_id env role else bm_ID i)"
  "live (instance_row env role now i)"
  "wi_CurrentState (instance_row env role now i) = wi_CurrentState i"
  "wi_Status (instance_row env role now i) = wi_Status i"
  "wi_Revision (instance_row env role now i) = int_default 1 (wi_Revision i)"
  "wi_ParentExecutionID (instance_row env role now i) = wi_ParentExecutionID i"
  by (simp_all add: instance_row_def live_def with_id_def)

lemma scope_row_simps [simp]:
  "bm_ID (scope_row env role now r) = (if bm_ID r = [] then ee_id env role else bm_ID r)"
  "live (scope_row env role now r)"
  by (simp_all add: scope_row_def live_def with_id_def)

lemma insert_execution_InrD [dest]:
  assumes "insert_execution env label role now e st = Inr st'"
  shows "\<exists>t. st' = st\<lparr>es_execs := t\<rparr> \<and> db_insert no_conflict (execution_row env role now e) (es_execs st) = Some t"
  using assms by (auto simp: insert_execution_def Let_def res_simps dest!: create_InrD)

lemma insert_instance_InrD [dest]:
  assumes "insert_instance env label role now i st = Inr st'"
  shows "\<exists>t. st' = st\<lparr>es_instances := t\<rparr> \<and> db_insert trigger_conflict (instance_row env role now i) (es_instances st) = Some t"
  using assms by (auto simp: insert_instance_def Let_def res_simps dest!: create_InrD)

lemma insert_other_InrD [dest]:
  "insert_output env label role now r1 st = Inr st' \<Longrightarrow> \<exists>t. st' = st\<lparr>es_outputs := t\<rparr>"
  "insert_audit env label role now r2 st = Inr st' \<Longrightarrow> \<exists>t. st' = st\<lparr>es_audits := t\<rparr>"
  "insert_timer env label role now r3 st = Inr st' \<Longrightarrow> \<exists>t. st' = st\<lparr>es_timers := t\<rparr>"
  "insert_wait env label role now r4 st = Inr st' \<Longrightarrow> \<exists>t. st' = st\<lparr>es_waits := t\<rparr>"
  "insert_message env label role now r5 st = Inr st' \<Longrightarrow> \<exists>t. st' = st\<lparr>es_messages := t\<rparr>"
  "insert_scope env label role now r6 st = Inr st' \<Longrightarrow> \<exists>t. st' = st\<lparr>es_scopes := t\<rparr>"
  by (auto simp: insert_output_def insert_audit_def insert_timer_def insert_wait_def
      insert_message_def insert_scope_def Let_def res_simps)

end
