(* ===== verification/Runtime_Repository.thy ===== *)
theory Runtime_Repository
  imports Engine_Models Go_Time
begin

text \<open>
  \<open>apps/default/service/repository/workflow_runtime.go\<close>: the transactions of the workflow engine
  that write several tables. An operation takes the environment, the clock \<open>now\<close> (read once per
  transaction), its request and the state; an error result carries no state, since the
  transaction is rolled back. A request always has its execution and instance (the sources
  refuse nil pointers there before doing anything).
\<close>

section \<open>Errors\<close>

definition ErrStaleMutation :: errmsg where "ErrStaleMutation = Errf ''stale workflow runtime mutation'' []"

definition ErrInvalidExecutionToken :: errmsg where
  "ErrInvalidExecutionToken = Errf ''invalid execution token or execution not in dispatched state'' []"

section \<open>Rows under lock and row updates\<close>

definition lockExecution ::
    "engine_env \<Rightarrow> string \<Rightarrow> ExecutionStatus \<Rightarrow> string \<Rightarrow> bool \<Rightarrow> EngineState \<Rightarrow> WorkflowStateExecution result" where
  "lockExecution env executionID status tokenHash requireToken st =
     and_then (stmt (ee_F env) ''lock execution'') (\<lambda>_.
       case first_by bm_ID (db_select (\<lambda>e. bm_ID e = executionID \<and> ex_Status e = status \<and>
              (requireToken \<longrightarrow> ex_ExecutionToken e = tokenHash)) (es_execs st)) of
         None \<Rightarrow> Inl (if requireToken then ErrInvalidExecutionToken else wrap ''lock execution'' ErrStaleMutation)
       | Some e \<Rightarrow> Inr e)"

definition lockExecutionByToken ::
    "engine_env \<Rightarrow> string \<Rightarrow> string \<Rightarrow> ExecutionStatus \<Rightarrow> EngineState \<Rightarrow> WorkflowStateExecution result" where
  "lockExecutionByToken env executionID tokenHash status st =
     lockExecution env executionID status tokenHash True st"

definition lockExecutionByStatus ::
    "engine_env \<Rightarrow> string \<Rightarrow> ExecutionStatus \<Rightarrow> EngineState \<Rightarrow> WorkflowStateExecution result" where
  "lockExecutionByStatus env executionID status st = lockExecution env executionID status [] False st"

text \<open>\<open>UPDATE ... WHERE P AND deleted_at IS NULL\<close> that is an error when it affects no row.\<close>

definition update_some ::
    "faults \<Rightarrow> string \<Rightarrow> errmsg \<Rightarrow> ('a base_model_scheme \<Rightarrow> bool) \<Rightarrow> ('a base_model_scheme \<Rightarrow> 'a base_model_scheme)
      \<Rightarrow> 'a base_model_scheme list \<Rightarrow> 'a base_model_scheme list result" where
  "update_some F label none P f tbl =
     and_then (stmt F label) (\<lambda>_. and_then (guard (affected P tbl \<noteq> 0) none) (\<lambda>_. Inr (db_update P f tbl)))"

definition updateExecutionByID ::
    "engine_env \<Rightarrow> string \<Rightarrow> (WorkflowStateExecution \<Rightarrow> WorkflowStateExecution) \<Rightarrow> EngineState \<Rightarrow> EngineState result" where
  "updateExecutionByID env executionID updates st =
     and_then (update_some (ee_F env) ''update execution status'' (wrap ''update execution'' ErrStaleMutation)
                (\<lambda>e. bm_ID e = executionID) updates (es_execs st))
       (\<lambda>t. Inr (st\<lparr>es_execs := t\<rparr>))"

definition lockInstanceForMutation ::
    "engine_env \<Rightarrow> string \<Rightarrow> string \<Rightarrow> int \<Rightarrow> EngineState \<Rightarrow> WorkflowInstance result" where
  "lockInstanceForMutation env instanceID currentState revision st =
     and_then (stmt (ee_F env) ''lock workflow instance'') (\<lambda>_.
       case first_by bm_ID (db_select (\<lambda>i. bm_ID i = instanceID \<and> wi_CurrentState i = currentState \<and>
              wi_Revision i = revision \<and> wi_Status i = InstanceStatusRunning) (es_instances st)) of
         None \<Rightarrow> Inl (wrap ''lock instance'' ErrStaleMutation)
       | Some i \<Rightarrow> Inr i)"

definition set_vars :: "raw_json \<Rightarrow> WorkflowInstance \<Rightarrow> WorkflowInstance" where
  "set_vars vars i = (if vars \<noteq> RawEmpty then i\<lparr>wi_Vars := vars\<rparr> else i)"

definition advanced :: "int \<Rightarrow> string \<Rightarrow> raw_json \<Rightarrow> WorkflowInstance \<Rightarrow> WorkflowInstance" where
  "advanced now nextState vars i = set_vars vars
     (i\<lparr>wi_CurrentState := nextState, wi_Revision := wi_Revision i + 1, bm_ModifiedAt := now\<rparr>)"

definition transitionInstance ::
    "engine_env \<Rightarrow> int \<Rightarrow> string \<Rightarrow> string \<Rightarrow> raw_json \<Rightarrow> EngineState \<Rightarrow> EngineState result" where
  "transitionInstance env now instanceID nextState vars st =
     and_then (jsonb ''transition workflow instance'' (if vars \<noteq> RawEmpty then [vars] else [])) (\<lambda>_.
     and_then (update_some (ee_F env) ''transition workflow instance'' (wrap ''transition instance'' ErrStaleMutation)
                (\<lambda>i. bm_ID i = instanceID) (advanced now nextState vars) (es_instances st))
       (\<lambda>t. Inr (st\<lparr>es_instances := t\<rparr>)))"

definition finished :: "int \<Rightarrow> raw_json \<Rightarrow> WorkflowInstance \<Rightarrow> WorkflowInstance" where
  "finished now vars i = set_vars vars
     (i\<lparr>wi_Status := InstanceStatusCompleted, wi_Revision := wi_Revision i + 1,
        bm_ModifiedAt := now, wi_FinishedAt := Some now\<rparr>)"

definition completeInstance ::
    "engine_env \<Rightarrow> int \<Rightarrow> string \<Rightarrow> raw_json \<Rightarrow> EngineState \<Rightarrow> EngineState result" where
  "completeInstance env now instanceID vars st =
     and_then (jsonb ''complete workflow instance'' (if vars \<noteq> RawEmpty then [vars] else [])) (\<lambda>_.
     and_then (update_some (ee_F env) ''complete workflow instance'' (wrap ''complete instance'' ErrStaleMutation)
                (\<lambda>i. bm_ID i = instanceID) (finished now vars) (es_instances st))
       (\<lambda>t. Inr (st\<lparr>es_instances := t\<rparr>)))"

section \<open>Committing\<close>

record CommitExecutionRequest =
  cm_Execution :: WorkflowStateExecution
  cm_Instance :: WorkflowInstance
  cm_TokenHash :: string
  cm_VerifyToken :: bool
  cm_OutputPayload :: raw_json
  cm_ExpectedStatus :: ExecutionStatus
  cm_NextState :: string
  cm_NextInputPayload :: raw_json
  cm_NextInputSchemaHash :: string
  cm_InstanceVars :: raw_json

definition UpdateExecutionStatus ::
    "engine_env \<Rightarrow> int \<Rightarrow> WorkflowStateExecution \<Rightarrow> ExecutionStatus \<Rightarrow> EngineState \<Rightarrow> EngineState result" where
  "UpdateExecutionStatus env now exec status st =
     and_then (stmt (ee_F env) ''mark execution contract violation'') (\<lambda>_.
       Inr (st\<lparr>es_execs := db_update (\<lambda>e. bm_ID e = bm_ID exec)
         (\<lambda>e. e\<lparr>ex_Status := status, bm_ModifiedAt := now, ex_FinishedAt := Some now\<rparr>) (es_execs st)\<rparr>))"

definition computeOutputSchemaHash :: "engine_env \<Rightarrow> raw_json \<Rightarrow> string" where
  "computeOutputSchemaHash env payload = hashString (ee_text env payload)"

definition verifyCommitExecutionLock ::
    "engine_env \<Rightarrow> CommitExecutionRequest \<Rightarrow> EngineState \<Rightarrow> WorkflowStateExecution result" where
  "verifyCommitExecutionLock env req st =
     (if cm_VerifyToken req
      then lockExecutionByToken env (bm_ID (cm_Execution req)) (cm_TokenHash req) (cm_ExpectedStatus req) st
      else lockExecutionByStatus env (bm_ID (cm_Execution req)) (cm_ExpectedStatus req) st)"

definition storeCommitExecutionOutput ::
    "engine_env \<Rightarrow> int \<Rightarrow> CommitExecutionRequest \<Rightarrow> string \<Rightarrow> EngineState \<Rightarrow> EngineState result" where
  "storeCommitExecutionOutput env now req outputSchemaHash st =
     insert_output env ''store output'' ''output'' now
       \<lparr>bm_ID = [], bm_CreatedAt = 0, bm_ModifiedAt = 0, bm_DeletedAt = None,
        so_ExecutionID = bm_ID (cm_Execution req), so_InstanceID = ex_InstanceID (cm_Execution req),
        so_State = ex_State (cm_Execution req), so_SchemaHash = outputSchemaHash,
        so_Payload = cm_OutputPayload req\<rparr> st"

definition committed :: "int \<Rightarrow> string \<Rightarrow> WorkflowStateExecution \<Rightarrow> WorkflowStateExecution" where
  "committed now outputSchemaHash e = e\<lparr>ex_Status := ExecStatusCompleted, ex_OutputSchemaHash := outputSchemaHash,
     ex_ExecutionToken := [], bm_ModifiedAt := now, ex_FinishedAt := Some now\<rparr>"

definition markExecutionCommitted ::
    "engine_env \<Rightarrow> int \<Rightarrow> string \<Rightarrow> string \<Rightarrow> EngineState \<Rightarrow> EngineState result" where
  "markExecutionCommitted env now executionID outputSchemaHash st =
     updateExecutionByID env executionID (committed now outputSchemaHash) st"

definition lockCommitInstance ::
    "engine_env \<Rightarrow> CommitExecutionRequest \<Rightarrow> EngineState \<Rightarrow> WorkflowInstance result" where
  "lockCommitInstance env req st =
     lockInstanceForMutation env (bm_ID (cm_Instance req)) (ex_State (cm_Execution req)) (wi_Revision (cm_Instance req)) st"

definition appendCommitTransitionAudit ::
    "engine_env \<Rightarrow> int \<Rightarrow> CommitExecutionRequest \<Rightarrow> EngineState \<Rightarrow> EngineState result" where
  "appendCommitTransitionAudit env now req st =
     insert_audit env ''append transition audit'' ''transition audit'' now
       ((new_audit (ex_InstanceID (cm_Execution req)) (bm_ID (cm_Execution req)) ''transition.committed''
          (cm_NextState req) (ex_TraceID (cm_Execution req)) RawEmpty)
        \<lparr>au_FromState := ex_State (cm_Execution req), au_ToState := cm_NextState req\<rparr>) st"

definition createCommitNextExecution ::
    "engine_env \<Rightarrow> int \<Rightarrow> CommitExecutionRequest \<Rightarrow> EngineState \<Rightarrow> EngineState result" where
  "createCommitNextExecution env now req st =
     and_then (transitionInstance env now (bm_ID (cm_Instance req)) (cm_NextState req) (cm_InstanceVars req) st) (\<lambda>st1.
     and_then (stmt (ee_F env) ''generate next execution token'') (\<lambda>_.
     let nextExec = new_execution (ex_InstanceID (cm_Execution req)) (cm_NextState req) 1 ExecStatusPending
                      (HashToken (ee_token env ''next execution'')) (cm_NextInputSchemaHash req)
                      (cm_NextInputPayload req) (ex_TraceID (cm_Execution req)) in
     and_then (insert_execution env ''create next execution'' ''next execution'' now nextExec st1) (\<lambda>st2.
       appendCommitTransitionAudit env now req st2)))"

definition CommitExecution ::
    "engine_env \<Rightarrow> int \<Rightarrow> CommitExecutionRequest \<Rightarrow> EngineState \<Rightarrow> EngineState result" where
  "CommitExecution env now req st =
     (let outputSchemaHash = computeOutputSchemaHash env (cm_OutputPayload req) in
      and_then (verifyCommitExecutionLock env req st) (\<lambda>_.
      and_then (storeCommitExecutionOutput env now req outputSchemaHash st) (\<lambda>st1.
      and_then (markExecutionCommitted env now (bm_ID (cm_Execution req)) outputSchemaHash st1) (\<lambda>st2.
      and_then (lockCommitInstance env req st2) (\<lambda>_.
        if cm_NextState req = [] then completeInstance env now (bm_ID (cm_Instance req)) (cm_InstanceVars req) st2
        else createCommitNextExecution env now req st2)))))"

section \<open>Parking\<close>

record ParkExecutionRequest =
  pk_Execution :: WorkflowStateExecution
  pk_Instance :: WorkflowInstance
  pk_TokenHash :: string
  pk_FireAt :: int
  pk_AuditTrace :: string

definition parked :: "int \<Rightarrow> WorkflowStateExecution \<Rightarrow> WorkflowStateExecution" where
  "parked now e = e\<lparr>ex_Status := ExecStatusWaiting, ex_ExecutionToken := [], bm_ModifiedAt := now\<rparr>"

definition ParkExecution ::
    "engine_env \<Rightarrow> int \<Rightarrow> ParkExecutionRequest \<Rightarrow> EngineState \<Rightarrow> EngineState result" where
  "ParkExecution env now req st =
     (let exec = pk_Execution req in
      and_then (lockExecutionByToken env (bm_ID exec) (pk_TokenHash req) ExecStatusDispatched st) (\<lambda>_.
      and_then (updateExecutionByID env (bm_ID exec) (parked now) st) (\<lambda>st1.
      and_then (insert_timer env ''create workflow timer'' ''timer'' now
        \<lparr>bm_ID = [], bm_CreatedAt = 0, bm_ModifiedAt = 0, bm_DeletedAt = None,
         tm_ExecutionID = bm_ID exec, tm_InstanceID = ex_InstanceID exec, tm_State = ex_State exec,
         tm_FiresAt = pk_FireAt req, tm_FiredAt = None, tm_ClaimUntil = None, tm_ClaimOwner = [], tm_Attempts = 0\<rparr> st1)
        (\<lambda>st2.
      insert_audit env ''append delay audit'' ''delay audit'' now
        (new_audit (bm_ID (pk_Instance req)) (bm_ID exec) ''state.waiting'' (ex_State exec) (pk_AuditTrace req)
          (RawJson (VMap [(''wait_type'', VStr ''delay''), (''fire_at'', VStr (format_RFC3339 (pk_FireAt req)))]))) st2))))"

record StartSignalWaitRequest =
  ss_Execution :: WorkflowStateExecution
  ss_Instance :: WorkflowInstance
  ss_TokenHash :: string
  ss_SignalName :: string
  ss_OutputVar :: string
  ss_TimeoutAt :: "int option"
  ss_AuditTrace :: string

definition Runtime_StartSignalWait ::
    "engine_env \<Rightarrow> int \<Rightarrow> StartSignalWaitRequest \<Rightarrow> EngineState \<Rightarrow> EngineState result" where
  "Runtime_StartSignalWait env now req st =
     (let exec = ss_Execution req in
      and_then (lockExecutionByToken env (bm_ID exec) (ss_TokenHash req) ExecStatusDispatched st) (\<lambda>_.
      and_then (updateExecutionByID env (bm_ID exec) (parked now) st) (\<lambda>st1.
      and_then (insert_wait env ''create signal wait'' ''signal wait'' now
        \<lparr>bm_ID = [], bm_CreatedAt = 0, bm_ModifiedAt = 0, bm_DeletedAt = None,
         sw_ExecutionID = bm_ID exec, sw_InstanceID = ex_InstanceID exec, sw_State = ex_State exec,
         sw_SignalName = ss_SignalName req, sw_OutputVar = ss_OutputVar req, sw_Status = ''waiting'',
         sw_TimeoutAt = ss_TimeoutAt req, sw_MatchedAt = None, sw_TimedOutAt = None, sw_MessageID = [],
         sw_ClaimUntil = None, sw_ClaimOwner = [], sw_Attempts = 0\<rparr> st1) (\<lambda>st2.
      insert_audit env ''append signal wait audit'' ''signal wait audit'' now
        (new_audit (bm_ID (ss_Instance req)) (bm_ID exec) ''state.waiting'' (ex_State exec) (ss_AuditTrace req) RawEmpty)
        st2))))"

section \<open>Delivering signals\<close>

record ClaimSignalDeliveryRequest =
  cs_InstanceID :: string
  cs_SignalName :: string
  cs_Owner :: string
  cs_LeaseUntil :: int

text \<open>\<open>ORDER BY created_at ASC\<close>; \<open>First\<close> adds the primary key.\<close>

definition age_order :: "'a base_model_scheme \<Rightarrow> int \<times> string" where
  "age_order r = (bm_CreatedAt r, bm_ID r)"

definition pending_for :: "string \<Rightarrow> string \<Rightarrow> WorkflowSignalMessage \<Rightarrow> bool" where
  "pending_for instanceID signalName m \<longleftrightarrow>
     sm_TargetInstanceID m = instanceID \<and> sm_SignalName m = signalName \<and> sm_Status m = ''pending''"

definition waiting_for :: "string \<Rightarrow> string \<Rightarrow> WorkflowSignalWait \<Rightarrow> bool" where
  "waiting_for instanceID signalName w \<longleftrightarrow>
     sw_InstanceID w = instanceID \<and> sw_SignalName w = signalName \<and> sw_Status w = ''waiting''"

definition leased :: "ClaimSignalDeliveryRequest \<Rightarrow> int \<Rightarrow> WorkflowSignalMessage \<Rightarrow> WorkflowSignalMessage" where
  "leased req now m = m\<lparr>sm_ClaimOwner := cs_Owner req, sm_ClaimUntil := Some (cs_LeaseUntil req),
     sm_Attempts := sm_Attempts m + 1, bm_ModifiedAt := now\<rparr>"

definition claimPendingSignalMessage ::
    "engine_env \<Rightarrow> ClaimSignalDeliveryRequest \<Rightarrow> int \<Rightarrow> EngineState \<Rightarrow> ((WorkflowSignalMessage \<times> EngineState) option) result" where
  "claimPendingSignalMessage env req now st =
     and_then (stmt (ee_F env) ''claim signal message'') (\<lambda>_.
       case first_by age_order (db_select (pending_for (cs_InstanceID req) (cs_SignalName req)) (es_messages st)) of
         None \<Rightarrow> Inr None
       | Some message \<Rightarrow>
           and_then (stmt (ee_F env) ''lease signal message'') (\<lambda>_.
             Inr (Some (message\<lparr>sm_ClaimOwner := cs_Owner req, sm_ClaimUntil := Some (cs_LeaseUntil req),
                                sm_Attempts := sm_Attempts message + 1\<rparr>,
                        st\<lparr>es_messages := db_update (\<lambda>m. bm_ID m = bm_ID message) (leased req now) (es_messages st)\<rparr>))))"

definition loadWaitingSignalWait ::
    "engine_env \<Rightarrow> ClaimSignalDeliveryRequest \<Rightarrow> EngineState \<Rightarrow> (WorkflowSignalWait option) result" where
  "loadWaitingSignalWait env req st =
     and_then (stmt (ee_F env) ''load signal wait'') (\<lambda>_.
       Inr (first_by age_order (db_select (waiting_for (cs_InstanceID req) (cs_SignalName req)) (es_waits st))))"

definition matched :: "int \<Rightarrow> string \<Rightarrow> WorkflowSignalWait \<Rightarrow> WorkflowSignalWait" where
  "matched now messageID w = w\<lparr>sw_Status := ''matched'', sw_MatchedAt := Some now, sw_MessageID := messageID,
     bm_ModifiedAt := now\<rparr>"

definition delivered :: "int \<Rightarrow> string \<Rightarrow> WorkflowSignalMessage \<Rightarrow> WorkflowSignalMessage" where
  "delivered now waitID m = m\<lparr>sm_Status := ''delivered'', sm_DeliveredAt := Some now, sm_WaitID := waitID,
     sm_ClaimOwner := [], sm_ClaimUntil := None, bm_ModifiedAt := now\<rparr>"

definition finalizeSignalDeliveryClaim ::
    "engine_env \<Rightarrow> ClaimSignalDeliveryRequest \<Rightarrow> WorkflowSignalMessage \<Rightarrow> WorkflowSignalWait \<Rightarrow> int \<Rightarrow> EngineState
      \<Rightarrow> ((WorkflowSignalMessage \<times> WorkflowSignalWait) \<times> EngineState) result" where
  "finalizeSignalDeliveryClaim env req message wait now st =
     and_then (stmt (ee_F env) ''mark signal wait matched'') (\<lambda>_.
     let st1 = st\<lparr>es_waits := db_update (\<lambda>w. bm_ID w = bm_ID wait \<and> sw_Status w = ''waiting'')
                  (matched now (bm_ID message)) (es_waits st)\<rparr> in
     and_then (stmt (ee_F env) ''mark signal delivered'') (\<lambda>_.
     let st2 = st1\<lparr>es_messages := db_update (\<lambda>m. bm_ID m = bm_ID message \<and> sm_ClaimOwner m = cs_Owner req \<and>
                                            sm_Status m = ''pending'')
                  (delivered now (bm_ID wait)) (es_messages st1)\<rparr> in
     and_then (insert_audit env ''append signal delivery audit'' ''signal delivery audit'' now
       (new_audit (sw_InstanceID wait) (sw_ExecutionID wait) ''signal.received'' (sw_State wait) [] (sm_Payload message)) st2)
       (\<lambda>st3. Inr ((message\<lparr>sm_Status := ''delivered'', sm_DeliveredAt := Some now, sm_WaitID := bm_ID wait,
                            sm_ClaimOwner := [], sm_ClaimUntil := None\<rparr>,
                    wait\<lparr>sw_Status := ''matched'', sw_MatchedAt := Some now, sw_MessageID := bm_ID message\<rparr>), st3))))"

text \<open>
  The result is the claimed pair, if there is one. A claimed message for which there is no wait
  leaves the transaction without an error: its lease stays.
\<close>

definition ClaimSignalDelivery ::
    "engine_env \<Rightarrow> int \<Rightarrow> ClaimSignalDeliveryRequest \<Rightarrow> EngineState
      \<Rightarrow> ((WorkflowSignalMessage \<times> WorkflowSignalWait) option \<times> EngineState) result" where
  "ClaimSignalDelivery env now req st =
     and_then (claimPendingSignalMessage env req now st) (\<lambda>found. case found of
       None \<Rightarrow> Inr (None, st)
     | Some (message, st1) \<Rightarrow>
         and_then (loadWaitingSignalWait env req st1) (\<lambda>w. case w of
           None \<Rightarrow> Inr (None, st1)
         | Some wait \<Rightarrow>
             and_then (finalizeSignalDeliveryClaim env req message wait now st1) (\<lambda>(claim, st2).
               Inr (Some claim, st2))))"

section \<open>Failing and retrying\<close>

record FailExecutionRequest =
  fl_Execution :: WorkflowStateExecution
  fl_Instance :: WorkflowInstance
  fl_TokenHash :: string
  fl_VerifyToken :: bool
  fl_ExpectedStatus :: ExecutionStatus
  fl_Status :: ExecutionStatus
  fl_ErrorClass :: string
  fl_ErrorMessage :: string
  fl_AuditTrace :: string
  fl_AuditPayload :: raw_json

definition failed :: "int \<Rightarrow> FailExecutionRequest \<Rightarrow> WorkflowStateExecution \<Rightarrow> WorkflowStateExecution" where
  "failed now req e = e\<lparr>ex_Status := fl_Status req, ex_ErrorClass := fl_ErrorClass req,
     ex_ErrorMessage := fl_ErrorMessage req, ex_ExecutionToken := [], bm_ModifiedAt := now, ex_FinishedAt := Some now\<rparr>"

definition FailExecution ::
    "engine_env \<Rightarrow> int \<Rightarrow> FailExecutionRequest \<Rightarrow> EngineState \<Rightarrow> EngineState result" where
  "FailExecution env now req st =
     (let exec = fl_Execution req in
      and_then (if fl_VerifyToken req
                then lockExecutionByToken env (bm_ID exec) (fl_TokenHash req) (fl_ExpectedStatus req) st
                else lockExecutionByStatus env (bm_ID exec) (fl_ExpectedStatus req) st) (\<lambda>_.
      and_then (updateExecutionByID env (bm_ID exec) (failed now req) st) (\<lambda>st1.
      and_then (update_some (ee_F env) ''mark instance failed'' ErrStaleMutation
                 (\<lambda>i. bm_ID i = bm_ID (fl_Instance req) \<and> wi_Status i = InstanceStatusRunning)
                 (\<lambda>i. i\<lparr>wi_Status := InstanceStatusFailed, bm_ModifiedAt := now, wi_FinishedAt := Some now\<rparr>)
                 (es_instances st1)) (\<lambda>t.
      insert_audit env ''append failure audit'' ''failure audit'' now
        (new_audit (bm_ID (fl_Instance req)) (bm_ID exec)
          (if fl_Status req = ExecStatusTimedOut then ''state.timed_out'' else ''state.failed'')
          (ex_State exec) (fl_AuditTrace req) (fl_AuditPayload req)) (st1\<lparr>es_instances := t\<rparr>)))))"

record CreateRetryExecutionRequest =
  cr_Execution :: WorkflowStateExecution
  cr_Instance :: WorkflowInstance
  cr_NewExecution :: WorkflowStateExecution

definition CreateRetryExecution ::
    "engine_env \<Rightarrow> int \<Rightarrow> CreateRetryExecutionRequest \<Rightarrow> EngineState
      \<Rightarrow> (WorkflowStateExecution \<times> EngineState) result" where
  "CreateRetryExecution env now req st =
     and_then (insert_execution env ''create retry execution'' ''retry execution'' now (cr_NewExecution req) st) (\<lambda>st1.
     and_then (stmt (ee_F env) ''reset instance for retry'') (\<lambda>_.
       Inr (execution_row env ''retry execution'' now (cr_NewExecution req),
            st1\<lparr>es_instances := db_update (\<lambda>i. bm_ID i = bm_ID (cr_Instance req))
              (\<lambda>i. i\<lparr>wi_Status := InstanceStatusRunning, wi_CurrentState := ex_State (cr_Execution req),
                      bm_ModifiedAt := now, wi_FinishedAt := None, wi_Revision := wi_Revision i + 1\<rparr>)
              (es_instances st1)\<rparr>)))"

section \<open>Branch scopes\<close>

record ScopedChildRecord =
  ch_Instance :: WorkflowInstance
  ch_Execution :: WorkflowStateExecution
  ch_AuditEvent :: "WorkflowAuditEvent option"

text \<open>The generated ids of a child's rows are drawn by the id of its instance.\<close>

definition createScopedChildRecords ::
    "engine_env \<Rightarrow> int \<Rightarrow> ScopedChildRecord \<Rightarrow> EngineState \<Rightarrow> EngineState result" where
  "createScopedChildRecords env now child st =
     (let key = bm_ID (ch_Instance child) in
      and_then (insert_instance env ''create scoped child instance'' ''child instance'' now (ch_Instance child) st) (\<lambda>st1.
      and_then (insert_execution env ''create scoped child execution'' (''child execution '' @ key) now (ch_Execution child) st1)
        (\<lambda>st2. case ch_AuditEvent child of
          None \<Rightarrow> Inr st2
        | Some audit \<Rightarrow> insert_audit env ''append scoped child audit'' (''child audit '' @ key) now audit st2)))"

fun create_children :: "engine_env \<Rightarrow> int \<Rightarrow> ScopedChildRecord list \<Rightarrow> EngineState \<Rightarrow> EngineState result" where
  "create_children env now [] st = Inr st"
| "create_children env now (c # cs) st =
     and_then (createScopedChildRecords env now c st) (create_children env now cs)"

record StartBranchScopeRequest =
  sb_Execution :: WorkflowStateExecution
  sb_Instance :: WorkflowInstance
  sb_TokenHash :: string
  sb_Scope :: WorkflowScopeRun
  sb_LaunchChildren :: "ScopedChildRecord list"
  sb_AuditTrace :: string

definition Runtime_StartBranchScope ::
    "engine_env \<Rightarrow> int \<Rightarrow> StartBranchScopeRequest \<Rightarrow> EngineState \<Rightarrow> EngineState result" where
  "Runtime_StartBranchScope env now req st =
     (let exec = sb_Execution req; scope = scope_row env ''scope'' now (sb_Scope req) in
      and_then (lockExecutionByToken env (bm_ID exec) (sb_TokenHash req) ExecStatusDispatched st) (\<lambda>_.
      and_then (updateExecutionByID env (bm_ID exec) (parked now) st) (\<lambda>st1.
      and_then (insert_scope env ''create workflow scope run'' ''scope'' now (sb_Scope req) st1) (\<lambda>st2.
      and_then (create_children env now (sb_LaunchChildren req) st2) (\<lambda>st3.
      and_then (stmt (ee_F env) ''update scope launch state'') (\<lambda>_.
      let st4 = st3\<lparr>es_scopes := db_update (\<lambda>s. bm_ID s = bm_ID scope)
                   (\<lambda>s. s\<lparr>sr_NextChildIndex := sr_NextChildIndex (sb_Scope req), bm_ModifiedAt := now\<rparr>) (es_scopes st3)\<rparr> in
      insert_audit env ''append scope wait audit'' ''scope wait audit'' now
        (new_audit (bm_ID (sb_Instance req)) (bm_ID exec) ''state.waiting'' (ex_State exec) (sb_AuditTrace req) RawEmpty)
        st4))))))"

record UpdateScopeRequest =
  us_ScopeID :: string
  us_Status :: string
  us_CompletedChildren :: int
  us_FailedChildren :: int
  us_NextChildIndex :: int
  us_ResultsPayload :: raw_json
  us_ReleaseClaim :: bool
  us_LaunchChildren :: "ScopedChildRecord list"
  us_CancelRunningChildren :: bool
  us_ParentExecutionID :: string

definition scope_updates :: "int \<Rightarrow> UpdateScopeRequest \<Rightarrow> WorkflowScopeRun \<Rightarrow> WorkflowScopeRun" where
  "scope_updates now req s =
     (let s1 = s\<lparr>sr_Status := us_Status req, sr_CompletedChildren := us_CompletedChildren req,
                 sr_FailedChildren := us_FailedChildren req, sr_ResultsPayload := us_ResultsPayload req,
                 sr_NextChildIndex := us_NextChildIndex req, bm_ModifiedAt := now\<rparr>
      in if us_ReleaseClaim req then s1\<lparr>sr_ClaimOwner := [], sr_ClaimUntil := None\<rparr> else s1)"

definition child_of :: "string \<Rightarrow> WorkflowInstance \<Rightarrow> bool" where
  "child_of parentExecutionID i \<longleftrightarrow> wi_ParentExecutionID i = parentExecutionID"

definition UpdateScope ::
    "engine_env \<Rightarrow> int \<Rightarrow> UpdateScopeRequest \<Rightarrow> EngineState \<Rightarrow> EngineState result" where
  "UpdateScope env now req st =
     and_then (create_children env now (us_LaunchChildren req) st) (\<lambda>st1.
     and_then (jsonb ''update workflow scope'' [us_ResultsPayload req]) (\<lambda>_.
     and_then (stmt (ee_F env) ''update workflow scope'') (\<lambda>_.
     let st2 = st1\<lparr>es_scopes := db_update (\<lambda>s. bm_ID s = us_ScopeID req) (scope_updates now req) (es_scopes st1)\<rparr> in
     if us_CancelRunningChildren req then
       and_then (stmt (ee_F env) ''cancel running scoped children'') (\<lambda>_.
         Inr (st2\<lparr>es_instances := db_update
           (\<lambda>i. child_of (us_ParentExecutionID req) i \<and> wi_Status i = InstanceStatusRunning)
           (\<lambda>i. i\<lparr>wi_Status := InstanceStatusCancelled, bm_ModifiedAt := now, wi_FinishedAt := Some now\<rparr>)
           (es_instances st2)\<rparr>))
     else Inr st2)))"

end
