(* ===== verification/Execution_Repository.thy ===== *)
theory Execution_Repository
  imports Runtime_Repository
begin

text \<open>
  \<open>repository/workflow_execution.go\<close>, \<open>workflow_instance.go\<close>, \<open>workflow_output.go\<close> and
  \<open>retry_policy.go\<close>: the single-table statements on executions, instances, outputs and retry
  policies. \<open>FOR UPDATE SKIP LOCKED\<close> has no effect without a concurrent transaction. The column
  map of an \<open>UpdateColumns\<close> call is a list of column assignments.
\<close>

section \<open>Reading executions\<close>

definition Exec_GetByID :: "engine_env \<Rightarrow> string \<Rightarrow> EngineState \<Rightarrow> WorkflowStateExecution result" where
  "Exec_GetByID env i st = repo_get (ee_F env) ''get execution'' (es_execs st) i"

definition Exec_Create ::
    "engine_env \<Rightarrow> string \<Rightarrow> int \<Rightarrow> WorkflowStateExecution \<Rightarrow> EngineState \<Rightarrow> (WorkflowStateExecution \<times> EngineState) result" where
  "Exec_Create env role now exec st =
     and_then (insert_execution env ''create execution row'' role now exec st) (\<lambda>st'.
       Inr (execution_row env role now exec, st'))"

text \<open>\<open>ORDER BY created_at DESC, id DESC\<close>.\<close>

definition latest_by :: "('r \<Rightarrow> 'k::linorder) \<Rightarrow> 'r list \<Rightarrow> 'r option" where
  "latest_by key rows = (case rows of
     [] \<Rightarrow> None
   | r # rs \<Rightarrow> Some (foldl (\<lambda>m x. if key m < key x then x else m) r rs))"

definition GetLatestByInstance :: "engine_env \<Rightarrow> string \<Rightarrow> EngineState \<Rightarrow> WorkflowStateExecution result" where
  "GetLatestByInstance env instanceID st =
     and_then (stmt (ee_F env) ''get latest execution'') (\<lambda>_.
       case latest_by age_order (db_select (\<lambda>e. ex_InstanceID e = instanceID) (es_execs st)) of
         None \<Rightarrow> Inl (wrap ''get latest execution'' ErrRecordNotFound)
       | Some e \<Rightarrow> Inr e)"

definition batch_limit :: "int \<Rightarrow> int \<Rightarrow> nat" where
  "batch_limit dflt limit = nat (if limit \<le> 0 then dflt else limit)"

definition FindPending :: "engine_env \<Rightarrow> int \<Rightarrow> EngineState \<Rightarrow> WorkflowStateExecution list result" where
  "FindPending env limit st =
     and_then (stmt (ee_F env) ''find pending'') (\<lambda>_.
       Inr (take (batch_limit 50 limit)
         (sort_key bm_CreatedAt (db_select (\<lambda>e. ex_Status e = ExecStatusPending) (es_execs st)))))"

definition at_or_before :: "int option \<Rightarrow> int \<Rightarrow> bool" where
  "at_or_before t now \<longleftrightarrow> (case t of None \<Rightarrow> False | Some x \<Rightarrow> x \<le> now)"

definition FindRetryDue :: "engine_env \<Rightarrow> int \<Rightarrow> int \<Rightarrow> EngineState \<Rightarrow> WorkflowStateExecution list result" where
  "FindRetryDue env now limit st =
     and_then (stmt (ee_F env) ''find retry due'') (\<lambda>_.
       Inr (take (batch_limit 50 limit)
         (sort_key (\<lambda>e. the (ex_NextRetryAt e))
           (db_select (\<lambda>e. ex_Status e = ExecStatusRetryScheduled \<and> at_or_before (ex_NextRetryAt e) now) (es_execs st)))))"

definition FindTimedOut :: "engine_env \<Rightarrow> int \<Rightarrow> int \<Rightarrow> EngineState \<Rightarrow> WorkflowStateExecution list result" where
  "FindTimedOut env now limit st =
     and_then (stmt (ee_F env) ''find timed out'') (\<lambda>_.
       Inr (take (batch_limit 50 limit)
         (sort_key (\<lambda>e. the (ex_TimeoutAt e))
           (db_select (\<lambda>e. ex_Status e = ExecStatusDispatched \<and> at_or_before (ex_TimeoutAt e) now) (es_execs st)))))"

definition CountByInstance :: "engine_env \<Rightarrow> string \<Rightarrow> EngineState \<Rightarrow> int result" where
  "CountByInstance env instanceID st =
     and_then (stmt (ee_F env) ''count executions by instance'') (\<lambda>_.
       Inr (int (affected (\<lambda>e. ex_InstanceID e = instanceID) (es_execs st))))"

section \<open>Updating executions\<close>

definition VerifyAndConsumeTokenTx ::
    "engine_env \<Rightarrow> string \<Rightarrow> string \<Rightarrow> EngineState \<Rightarrow> (WorkflowStateExecution \<times> EngineState) result" where
  "VerifyAndConsumeTokenTx env executionID tokenHash st =
     and_then (stmt (ee_F env) ''verify token'') (\<lambda>_.
       case first_by bm_ID (db_select (\<lambda>e. bm_ID e = executionID \<and> ex_ExecutionToken e = tokenHash \<and>
              ex_Status e = ExecStatusDispatched) (es_execs st)) of
         None \<Rightarrow> Inl (Errf ''invalid execution token or execution not in dispatched state'' [])
       | Some exec \<Rightarrow>
           and_then (stmt (ee_F env) ''consume token'') (\<lambda>_.
             Inr (exec, st\<lparr>es_execs := db_update (\<lambda>e. bm_ID e = executionID) (\<lambda>e. e\<lparr>ex_ExecutionToken := []\<rparr>) (es_execs st)\<rparr>)))"

definition VerifyAndConsumeToken ::
    "engine_env \<Rightarrow> string \<Rightarrow> string \<Rightarrow> EngineState \<Rightarrow> (WorkflowStateExecution \<times> EngineState) result" where
  "VerifyAndConsumeToken env executionID tokenHash st = VerifyAndConsumeTokenTx env executionID tokenHash st"

datatype exec_column =
    Col_started_at "int option" | Col_execution_token string | Col_timeout_at "int option"
  | Col_error_class string | Col_error_message string | Col_next_retry_at "int option"
  | Col_finished_at "int option"

fun set_column :: "exec_column \<Rightarrow> WorkflowStateExecution \<Rightarrow> WorkflowStateExecution" where
  "set_column (Col_started_at v) e = e\<lparr>ex_StartedAt := v\<rparr>"
| "set_column (Col_execution_token v) e = e\<lparr>ex_ExecutionToken := v\<rparr>"
| "set_column (Col_timeout_at v) e = e\<lparr>ex_TimeoutAt := v\<rparr>"
| "set_column (Col_error_class v) e = e\<lparr>ex_ErrorClass := v\<rparr>"
| "set_column (Col_error_message v) e = e\<lparr>ex_ErrorMessage := v\<rparr>"
| "set_column (Col_next_retry_at v) e = e\<lparr>ex_NextRetryAt := v\<rparr>"
| "set_column (Col_finished_at v) e = e\<lparr>ex_FinishedAt := v\<rparr>"

definition finishes :: "ExecutionStatus \<Rightarrow> bool" where
  "finishes s \<longleftrightarrow> s \<in> {ExecStatusCompleted, ExecStatusFailed, ExecStatusFatal, ExecStatusTimedOut}"

definition is_finished_at :: "exec_column \<Rightarrow> bool" where
  "is_finished_at c = (case c of Col_finished_at _ \<Rightarrow> True | _ \<Rightarrow> False)"

definition status_updates ::
    "ExecutionStatus \<Rightarrow> exec_column list \<Rightarrow> exec_column list \<Rightarrow> WorkflowStateExecution \<Rightarrow> WorkflowStateExecution" where
  "status_updates status columns stamp e = fold set_column (columns @ stamp) (e\<lparr>ex_Status := status\<rparr>)"

definition UpdateStatus ::
    "engine_env \<Rightarrow> int \<Rightarrow> string \<Rightarrow> ExecutionStatus \<Rightarrow> exec_column list \<Rightarrow> EngineState \<Rightarrow> EngineState result" where
  "UpdateStatus env now executionID status columns st =
     and_then (update_some (ee_F env) ''update execution status'' (Errf ''update execution status: no rows updated'' [])
       (\<lambda>e. bm_ID e = executionID)
       (status_updates status columns (if finishes status then [Col_finished_at (Some now)] else []))
       (es_execs st)) (\<lambda>t. Inr (st\<lparr>es_execs := t\<rparr>))"

definition UpdateStatusExpected ::
    "engine_env \<Rightarrow> int \<Rightarrow> string \<Rightarrow> ExecutionStatus \<Rightarrow> ExecutionStatus \<Rightarrow> exec_column list \<Rightarrow> EngineState
      \<Rightarrow> EngineState result" where
  "UpdateStatusExpected env now executionID expectedFrom to columns st =
     and_then (update_some (ee_F env) ''update execution status expected'' ErrStaleMutation
       (\<lambda>e. bm_ID e = executionID \<and> ex_Status e = expectedFrom)
       (status_updates to columns
         (if finishes to \<and> \<not> list_ex is_finished_at columns then [Col_finished_at (Some now)] else []))
       (es_execs st)) (\<lambda>t. Inr (st\<lparr>es_execs := t\<rparr>))"

definition MarkStale :: "engine_env \<Rightarrow> int \<Rightarrow> string \<Rightarrow> EngineState \<Rightarrow> EngineState result" where
  "MarkStale env now executionID st = UpdateStatus env now executionID ExecStatusStale [] st"

definition MarkStaleExpected ::
    "engine_env \<Rightarrow> int \<Rightarrow> string \<Rightarrow> ExecutionStatus \<Rightarrow> EngineState \<Rightarrow> EngineState result" where
  "MarkStaleExpected env now executionID expectedFrom st =
     UpdateStatusExpected env now executionID expectedFrom ExecStatusStale [] st"

section \<open>Retries and timeouts\<close>

definition MarkTimedOutAndCreateRetry ::
    "engine_env \<Rightarrow> int \<Rightarrow> string \<Rightarrow> WorkflowStateExecution \<Rightarrow> EngineState \<Rightarrow> EngineState result" where
  "MarkTimedOutAndCreateRetry env now oldID retry st =
     and_then (update_some (ee_F env) ''mark timed out'' ErrStaleMutation
       (\<lambda>e. bm_ID e = oldID \<and> ex_Status e = ExecStatusDispatched)
       (\<lambda>e. e\<lparr>ex_Status := ExecStatusTimedOut, ex_ErrorClass := ''retryable'',
               ex_ErrorMessage := ''execution timed out'', ex_FinishedAt := Some now\<rparr>) (es_execs st)) (\<lambda>t.
       insert_execution env ''create retry execution'' ''retry execution'' now retry (st\<lparr>es_execs := t\<rparr>))"

definition MarkTerminalTimeout ::
    "engine_env \<Rightarrow> int \<Rightarrow> string \<Rightarrow> string \<Rightarrow> EngineState \<Rightarrow> EngineState result" where
  "MarkTerminalTimeout env now executionID errorMessage st =
     (let message = (if errorMessage = [] then ''execution timed out, retries exhausted'' else errorMessage) in
      and_then (update_some (ee_F env) ''mark terminal timeout'' ErrStaleMutation
        (\<lambda>e. bm_ID e = executionID \<and> ex_Status e = ExecStatusDispatched)
        (\<lambda>e. e\<lparr>ex_Status := ExecStatusFatal, ex_ErrorClass := ''retryable'', ex_ErrorMessage := message,
                ex_FinishedAt := Some now\<rparr>) (es_execs st)) (\<lambda>t. Inr (st\<lparr>es_execs := t\<rparr>)))"

definition MaterializeRetry ::
    "engine_env \<Rightarrow> int \<Rightarrow> string \<Rightarrow> WorkflowStateExecution \<Rightarrow> EngineState \<Rightarrow> EngineState result" where
  "MaterializeRetry env now oldID retry st =
     and_then (update_some (ee_F env) ''materialize retry mark stale'' ErrStaleMutation
       (\<lambda>e. bm_ID e = oldID \<and> ex_Status e = ExecStatusRetryScheduled)
       (\<lambda>e. e\<lparr>ex_Status := ExecStatusStale\<rparr>) (es_execs st)) (\<lambda>t.
       insert_execution env ''materialize retry create'' ''retry execution'' now retry (st\<lparr>es_execs := t\<rparr>))"

definition terminalStatuses :: "ExecutionStatus list" where
  "terminalStatuses = [ExecStatusCompleted, ExecStatusFatal, ExecStatusFailed, ExecStatusTimedOut,
     ExecStatusInvalidInputContract, ExecStatusInvalidOutputContract, ExecStatusStale]"

definition Exec_DeleteCompletedBefore ::
    "engine_env \<Rightarrow> int \<Rightarrow> int \<Rightarrow> int \<Rightarrow> EngineState \<Rightarrow> (int \<times> EngineState) result" where
  "Exec_DeleteCompletedBefore env now cutoff limit st =
     and_then (stmt (ee_F env) ''select completed executions'') (\<lambda>_.
     let ids = take (batch_limit 100 limit) (map bm_ID (db_select (\<lambda>e. ex_Status e \<in> set terminalStatuses \<and>
                  (case ex_FinishedAt e of None \<Rightarrow> False | Some t \<Rightarrow> t < cutoff)) (es_execs st))) in
     if ids = [] then Inr (0, st)
     else and_then (stmt (ee_F env) ''delete completed executions'') (\<lambda>_.
       Inr (int (affected (\<lambda>e. bm_ID e \<in> set ids) (es_execs st)),
            st\<lparr>es_execs := db_update (\<lambda>e. bm_ID e \<in> set ids) (\<lambda>e. e\<lparr>bm_DeletedAt := Some now\<rparr>) (es_execs st)\<rparr>)))"

section \<open>Instances, outputs and policies\<close>

definition Instance_GetByID :: "engine_env \<Rightarrow> string \<Rightarrow> EngineState \<Rightarrow> WorkflowInstance result" where
  "Instance_GetByID env i st = repo_get (ee_F env) ''get instance'' (es_instances st) i"

definition ListByParentExecutionID :: "engine_env \<Rightarrow> string \<Rightarrow> EngineState \<Rightarrow> WorkflowInstance list result" where
  "ListByParentExecutionID env parentExecutionID st =
     and_then (stmt (ee_F env) ''list instances by parent execution'') (\<lambda>_.
       Inr (sort_key wi_ScopeIndex (db_select (child_of parentExecutionID) (es_instances st))))"

definition FindByTriggerEvent ::
    "engine_env \<Rightarrow> string \<Rightarrow> int \<Rightarrow> string \<Rightarrow> EngineState \<Rightarrow> WorkflowInstance result" where
  "FindByTriggerEvent env workflowName workflowVersion triggerEventID st =
     and_then (stmt (ee_F env) ''find instance by trigger event'') (\<lambda>_.
       case first_by bm_ID (db_select (\<lambda>i. wi_WorkflowName i = workflowName \<and> wi_WorkflowVersion i = workflowVersion \<and>
              wi_TriggerEventID i = triggerEventID) (es_instances st)) of
         None \<Rightarrow> Inl (wrap ''find instance by trigger event'' ErrRecordNotFound)
       | Some i \<Rightarrow> Inr i)"

definition defaultFindByEventTypeLimit :: int where "defaultFindByEventTypeLimit = 200"

definition ListRunningByCorrelationKey ::
    "engine_env \<Rightarrow> string \<Rightarrow> int \<Rightarrow> string \<Rightarrow> int \<Rightarrow> EngineState \<Rightarrow> WorkflowInstance list result" where
  "ListRunningByCorrelationKey env workflowName workflowVersion key limit st =
     (if key = [] then Inr []
      else and_then (stmt (ee_F env) ''list instances by correlation key'') (\<lambda>_.
        Inr (take (batch_limit defaultFindByEventTypeLimit limit)
          (sort_key bm_ID (db_select (\<lambda>i. wi_WorkflowName i = workflowName \<and> wi_WorkflowVersion i = workflowVersion \<and>
             wi_CorrelationKey i = key \<and> wi_Status i = InstanceStatusRunning) (es_instances st))))))"

definition CASTransition ::
    "engine_env \<Rightarrow> int \<Rightarrow> string \<Rightarrow> string \<Rightarrow> int \<Rightarrow> string \<Rightarrow> EngineState \<Rightarrow> EngineState result" where
  "CASTransition env now instanceID expectedState expectedRevision newState st =
     and_then (update_some (ee_F env) ''CAS transition''
       (Errf ''CAS transition failed: stale revision or unexpected state'' [])
       (\<lambda>i. bm_ID i = instanceID \<and> wi_CurrentState i = expectedState \<and> wi_Revision i = expectedRevision \<and>
             wi_Status i = InstanceStatusRunning)
       (\<lambda>i. i\<lparr>wi_CurrentState := newState, wi_Revision := wi_Revision i + 1, bm_ModifiedAt := now\<rparr>)
       (es_instances st)) (\<lambda>t. Inr (st\<lparr>es_instances := t\<rparr>))"

definition Instance_UpdateStatus ::
    "engine_env \<Rightarrow> int \<Rightarrow> string \<Rightarrow> WorkflowInstanceStatus \<Rightarrow> EngineState \<Rightarrow> EngineState result" where
  "Instance_UpdateStatus env now instanceID status st =
     and_then (update_some (ee_F env) ''update instance status'' (Errf ''update instance status: no rows updated'' [])
       (\<lambda>i. bm_ID i = instanceID)
       (\<lambda>i. let i1 = i\<lparr>wi_Status := status, bm_ModifiedAt := now\<rparr> in
             if status \<in> {InstanceStatusCompleted, InstanceStatusFailed, InstanceStatusCancelled}
             then i1\<lparr>wi_FinishedAt := Some now\<rparr> else i1)
       (es_instances st)) (\<lambda>t. Inr (st\<lparr>es_instances := t\<rparr>))"

definition Output_GetByInstanceAndState ::
    "engine_env \<Rightarrow> string \<Rightarrow> string \<Rightarrow> EngineState \<Rightarrow> WorkflowStateOutput result" where
  "Output_GetByInstanceAndState env instanceID state st =
     and_then (stmt (ee_F env) ''get output by instance and state'') (\<lambda>_.
       case latest_by age_order (db_select (\<lambda>r. so_InstanceID r = instanceID \<and> so_State r = state) (es_outputs st)) of
         None \<Rightarrow> Inl (wrap ''get output by instance and state'' ErrRecordNotFound)
       | Some r \<Rightarrow> Inr r)"

definition RetryPolicy_Lookup ::
    "engine_env \<Rightarrow> string \<Rightarrow> int \<Rightarrow> string \<Rightarrow> EngineState \<Rightarrow> WorkflowRetryPolicy result" where
  "RetryPolicy_Lookup env workflowName version state st =
     and_then (stmt (ee_F env) ''lookup retry policy'') (\<lambda>_.
       case first_by bm_ID (db_select (\<lambda>p. rp_WorkflowName p = workflowName \<and> rp_WorkflowVersion p = version \<and>
              rp_State p = state) (es_policies st)) of
         None \<Rightarrow> Inl (wrap ''lookup retry policy'' ErrRecordNotFound)
       | Some p \<Rightarrow> Inr p)"

end
