(* ===== verification/Engine_Core.thy ===== *)
theory Engine_Core
  imports Execution_Repository
begin

text \<open>
  The part of the database that carries an instance through its workflow: executions, instances
  and stored outputs. An execution is in one of three phases (in the hands of the dispatcher or a
  worker, parked, closed). The primitive changes \<open>prim\<close> are what the statements of the
  repositories do to this core; they keep the invariant \<open>core_inv\<close> (at most one open execution per
  instance, in the state the instance is in, and at most one output per execution) and are
  monotone: an execution never goes back to an earlier phase, a deleted row never returns and the
  revision of an instance never decreases.
\<close>

section \<open>Statement facts\<close>

lemma first_select_id:
  assumes "ids_ok tbl"
  shows "first_by bm_ID (db_select (\<lambda>r. bm_ID r = i \<and> P r) tbl) = Some r \<longleftrightarrow> db_get tbl i = Some r \<and> P r"
proof
  assume "first_by bm_ID (db_select (\<lambda>r. bm_ID r = i \<and> P r) tbl) = Some r"
  then have "r \<in> set (db_select (\<lambda>r. bm_ID r = i \<and> P r) tbl)" by (simp add: first_by_SomeD)
  then show "db_get tbl i = Some r \<and> P r" by (auto simp: db_select_def db_get_iff [OF assms])
next
  assume r: "db_get tbl i = Some r \<and> P r"
  then have "r \<in> set (db_select (\<lambda>r. bm_ID r = i \<and> P r) tbl)" (is "_ \<in> set ?s")
    by (auto simp: db_select_def db_get_iff [OF assms])
  then obtain x where x: "first_by bm_ID ?s = Some x" by (cases "first_by bm_ID ?s") auto
  then have "x \<in> set ?s" by (simp add: first_by_SomeD)
  then have "db_get tbl i = Some x" by (auto simp: db_select_def db_get_iff [OF assms])
  with r x show "first_by bm_ID ?s = Some r" by simp
qed

lemma update_some_iff:
  "update_some F l none P f tbl = Inr t \<longleftrightarrow> \<not> F l \<and> affected P tbl \<noteq> 0 \<and> t = db_update P f tbl"
  by (auto simp: update_some_def res_simps)

lemma affected_id_and:
  assumes "ids_ok tbl"
  shows "affected (\<lambda>r. bm_ID r = i \<and> P r) tbl \<noteq> 0 \<longleftrightarrow> (\<exists>r. db_get tbl i = Some r \<and> P r)"
  unfolding affected_0_iff using assms by (auto simp: db_get_iff)

section \<open>Phases\<close>

fun phase :: "ExecutionStatus \<Rightarrow> nat" where
  "phase ExecStatusPending = 0"
| "phase ExecStatusDispatched = 0"
| "phase ExecStatusRunning = 0"
| "phase ExecStatusWaiting = 1"
| "phase ExecStatusRetryScheduled = 1"
| "phase _ = 2"

lemma phase_le_2: "phase s \<le> 2"
  by (cases s) auto

definition open_exec :: "WorkflowStateExecution \<Rightarrow> bool" where
  "open_exec e \<longleftrightarrow> phase (ex_Status e) < 2"

type_synonym core = "WorkflowStateExecution list \<times> WorkflowInstance list \<times> WorkflowStateOutput list"

definition core_of :: "EngineState \<Rightarrow> core" where
  "core_of st = (es_execs st, es_instances st, es_outputs st)"

definition no_open :: "string \<Rightarrow> WorkflowStateExecution list \<Rightarrow> bool" where
  "no_open n t \<longleftrightarrow> (\<forall>i e. db_get t i = Some e \<longrightarrow> ex_InstanceID e = n \<longrightarrow> \<not> open_exec e)"

definition same_place :: "WorkflowStateExecution \<Rightarrow> WorkflowStateExecution \<Rightarrow> bool" where
  "same_place e f \<longleftrightarrow> ex_InstanceID e = ex_InstanceID f \<and> ex_State e = ex_State f"

definition one_open :: "WorkflowStateExecution list \<Rightarrow> bool" where
  "one_open t \<longleftrightarrow> (\<forall>i j e f. db_get t i = Some e \<longrightarrow> db_get t j = Some f \<longrightarrow> open_exec e \<longrightarrow> open_exec f \<longrightarrow>
     ex_InstanceID e = ex_InstanceID f \<longrightarrow> i = j)"

lemma one_open_only:
  assumes "one_open t" and "db_get t y = Some f" and "open_exec f" and "ex_InstanceID f = k"
  shows "{x. \<exists>g. db_get t x = Some g \<and> open_exec g \<and> ex_InstanceID g = k} = {y}"
proof -
  have "x = y" if "db_get t x = Some g" "open_exec g" "ex_InstanceID g = k" for x g
    using assms that unfolding one_open_def by metis
  with assms show ?thesis by blast
qed

definition in_state :: "WorkflowStateExecution list \<Rightarrow> WorkflowInstance list \<Rightarrow> bool" where
  "in_state t n \<longleftrightarrow> (\<forall>i e m. db_get t i = Some e \<longrightarrow> open_exec e \<longrightarrow> db_get n (ex_InstanceID e) = Some m \<longrightarrow>
     wi_Status m = InstanceStatusRunning \<longrightarrow> ex_State e = wi_CurrentState m)"

definition has_instance :: "WorkflowStateExecution list \<Rightarrow> WorkflowInstance list \<Rightarrow> bool" where
  "has_instance t n \<longleftrightarrow> (\<forall>i e. db_get t i = Some e \<longrightarrow> ex_InstanceID e \<in> bm_ID ` set n)"

definition outputs_once :: "WorkflowStateExecution list \<Rightarrow> WorkflowStateOutput list \<Rightarrow> bool" where
  "outputs_once t os \<longleftrightarrow> distinct (map so_ExecutionID os) \<and>
     (\<forall>r \<in> set os. so_ExecutionID r \<in> bm_ID ` set t \<and>
        (\<forall>e. db_get t (so_ExecutionID r) = Some e \<longrightarrow> \<not> open_exec e))"

fun core_inv :: "core \<Rightarrow> bool" where
  "core_inv (t, n, os) \<longleftrightarrow>
     ids_ok t \<and> ids_ok n \<and> one_open t \<and> in_state t n \<and> has_instance t n \<and> outputs_once t os"

inductive prim :: "core \<Rightarrow> core \<Rightarrow> bool" where
  prim_exec: "keeps_key f \<Longrightarrow>
     (\<And>i e. db_get t i = Some e \<Longrightarrow> P e \<Longrightarrow> same_place e (f e) \<and> phase (ex_Status e) \<le> phase (ex_Status (f e))) \<Longrightarrow>
     prim (t, n, os) (db_update P f t, n, os)"
| prim_delete: "(\<And>i e. db_get t i = Some e \<Longrightarrow> P e \<Longrightarrow> \<not> open_exec e) \<Longrightarrow>
     prim (t, n, os) (db_update P (\<lambda>e. e\<lparr>bm_DeletedAt := Some now\<rparr>) t, n, os)"
| prim_insert: "db_insert no_conflict e t = Some t' \<Longrightarrow> live e \<Longrightarrow> bm_ID e \<noteq> [] \<Longrightarrow>
     ex_InstanceID e \<in> bm_ID ` set n \<Longrightarrow> no_open (ex_InstanceID e) t \<Longrightarrow>
     (\<And>m. db_get n (ex_InstanceID e) = Some m \<Longrightarrow> wi_Status m = InstanceStatusRunning \<Longrightarrow> ex_State e = wi_CurrentState m) \<Longrightarrow>
     prim (t, n, os) (t', n, os)"
| prim_inst: "keeps_key g \<Longrightarrow>
     (\<And>i m. db_get n i = Some m \<Longrightarrow> P m \<Longrightarrow> wi_Revision m \<le> wi_Revision (g m) \<and>
        (wi_Status (g m) = InstanceStatusRunning \<longrightarrow> wi_Status m = InstanceStatusRunning \<and> wi_CurrentState (g m) = wi_CurrentState m)) \<Longrightarrow>
     prim (t, n, os) (t, db_update P g n, os)"
| prim_advance: "keeps_key g \<Longrightarrow> no_open k t \<Longrightarrow>
     (\<And>m. db_get n k = Some m \<Longrightarrow> wi_Revision m \<le> wi_Revision (g m)) \<Longrightarrow>
     prim (t, n, os) (t, db_update (\<lambda>m. bm_ID m = k) g n, os)"
| prim_new_inst: "db_insert c m n = Some n' \<Longrightarrow> live m \<Longrightarrow> bm_ID m \<noteq> [] \<Longrightarrow> prim (t, n, os) (t, n', os)"
| prim_output: "so_ExecutionID r \<in> bm_ID ` set t \<Longrightarrow> so_ExecutionID r \<notin> so_ExecutionID ` set os \<Longrightarrow>
     (\<And>e. db_get t (so_ExecutionID r) = Some e \<Longrightarrow> \<not> open_exec e) \<Longrightarrow>
     prim (t, n, os) (t, n, os @ [r])"

lemma phase_open: "phase s \<le> phase s' \<Longrightarrow> phase s' < 2 \<Longrightarrow> phase s < 2"
  by simp

lemma ids_image [simp]: "keeps_key f \<Longrightarrow> bm_ID ` set (db_update P f t) = bm_ID ` set t"
  by (metis list.set_map map_ID_update)

lemma delete_update:
  "map bm_ID (db_update P (\<lambda>e. e\<lparr>bm_DeletedAt := Some now\<rparr>) t) = map bm_ID (t :: 'a base_model_scheme list)"
  by (simp add: db_update_def comp_def)

lemma db_get_delete:
  fixes t :: "'a base_model_scheme list"
  assumes "ids_ok t"
  shows "db_get (db_update P (\<lambda>e. e\<lparr>bm_DeletedAt := Some now\<rparr>) t) i = Some e \<longleftrightarrow> db_get t i = Some e \<and> \<not> P e"
proof -
  let ?t = "db_update P (\<lambda>e. e\<lparr>bm_DeletedAt := Some now\<rparr>) t"
  have ok: "ids_ok ?t" using assms unfolding ids_ok_def delete_update .
  show ?thesis unfolding db_get_iff [OF ok] db_get_iff [OF assms]
    by (auto simp: db_update_def live_def image_iff)
qed

text \<open>Tables of executions that differ by rows moving forward or going away.\<close>

definition forward :: "WorkflowStateExecution list \<Rightarrow> WorkflowStateExecution list \<Rightarrow> bool" where
  "forward t t' \<longleftrightarrow> (\<forall>i e'. db_get t' i = Some e' \<longrightarrow>
     (\<exists>e. db_get t i = Some e \<and> same_place e e' \<and> phase (ex_Status e) \<le> phase (ex_Status e')))"

lemma forwardE:
  assumes "forward t t'" and "db_get t' i = Some e'"
  obtains e where "db_get t i = Some e" "ex_InstanceID e' = ex_InstanceID e" "ex_State e' = ex_State e"
    "open_exec e' \<Longrightarrow> open_exec e"
proof -
  from assms obtain e where "db_get t i = Some e" "same_place e e'" "phase (ex_Status e) \<le> phase (ex_Status e')"
    unfolding forward_def by blast
  then show ?thesis by (intro that [of e]) (simp_all add: same_place_def open_exec_def)
qed

lemma forward_update:
  assumes "keeps_key f"
    and "\<And>i e. db_get t i = Some e \<Longrightarrow> P e \<Longrightarrow> same_place e (f e) \<and> phase (ex_Status e) \<le> phase (ex_Status (f e))"
  shows "forward t (db_update P f t)"
  unfolding forward_def using assms(2) by (auto simp: db_get_update [OF assms(1)] same_place_def)

lemma forward_delete: "ids_ok t \<Longrightarrow> forward t (db_update P (\<lambda>e. e\<lparr>bm_DeletedAt := Some now\<rparr>) t)"
  unfolding forward_def same_place_def by (auto simp: db_get_delete)

lemma forward_inv:
  assumes "forward t t'" and "map bm_ID t' = map bm_ID t" and "core_inv (t, n, os)"
  shows "core_inv (t', n, os)"
proof -
  from assms(2) have ids: "bm_ID ` set t' = bm_ID ` set t" by (metis list.set_map)
  from assms(3) have inv: "one_open t" "in_state t n" "has_instance t n" "outputs_once t os" by auto
  have "one_open t'" unfolding one_open_def
    by (metis forwardE [OF assms(1)] inv(1) [unfolded one_open_def])
  moreover have "in_state t' n" unfolding in_state_def
    by (metis forwardE [OF assms(1)] inv(2) [unfolded in_state_def])
  moreover have "has_instance t' n" unfolding has_instance_def
    by (metis forwardE [OF assms(1)] inv(3) [unfolded has_instance_def])
  moreover have "outputs_once t' os" unfolding outputs_once_def ids
    by (metis forwardE [OF assms(1)] inv(4) [unfolded outputs_once_def])
  moreover have "ids_ok t'" using assms(2,3) by (simp add: ids_ok_def)
  ultimately show ?thesis using assms(3) by simp
qed

lemma insert_exec_inv:
  assumes "db_insert no_conflict e t = Some t'" and "live e" and "bm_ID e \<noteq> []"
    and "ex_InstanceID e \<in> bm_ID ` set n" and "no_open (ex_InstanceID e) t"
    and "\<And>m. db_get n (ex_InstanceID e) = Some m \<Longrightarrow> wi_Status m = InstanceStatusRunning \<Longrightarrow> ex_State e = wi_CurrentState m"
    and "core_inv (t, n, os)"
  shows "core_inv (t', n, os)"
proof -
  have get: "db_get t' i = (if i = bm_ID e then Some e else db_get t i)" for i
    using db_get_insert assms(1,2) by metis
  have ids: "bm_ID ` set t' = insert (bm_ID e) (bm_ID ` set t)" "bm_ID e \<notin> bm_ID ` set t"
    using db_insert_SomeD [OF assms(1)] by auto
  from assms(7) have inv: "one_open t" "in_state t n" "has_instance t n" "outputs_once t os" by auto
  have "one_open t'" using inv(1) assms(5) unfolding one_open_def no_open_def get by (metis option.inject)
  moreover have "in_state t' n" using inv(2) assms(6) unfolding in_state_def get by (metis option.inject)
  moreover have "has_instance t' n" using inv(3) assms(4) unfolding has_instance_def get by (metis option.inject)
  moreover have "outputs_once t' os" using inv(4) ids unfolding outputs_once_def get by (metis insertCI)
  moreover have "ids_ok t'" using ids_ok_insert assms by auto
  ultimately show ?thesis using assms(7) by simp
qed

lemma instance_update_inv:
  assumes "keeps_key g" and "core_inv (t, n, os)"
    and "\<And>i e m. db_get t i = Some e \<Longrightarrow> open_exec e \<Longrightarrow> db_get n (ex_InstanceID e) = Some m \<Longrightarrow> P m \<Longrightarrow>
      wi_Status (g m) = InstanceStatusRunning \<Longrightarrow> wi_Status m = InstanceStatusRunning \<and> wi_CurrentState (g m) = wi_CurrentState m"
  shows "core_inv (t, db_update P g n, os)"
proof -
  from assms(2) have inv: "in_state t n" "has_instance t n" by auto
  have "in_state t (db_update P g n)"
    unfolding in_state_def db_get_update [OF assms(1)]
  proof (intro allI impI)
    fix i e m
    assume e: "db_get t i = Some e" "open_exec e"
      and m: "map_option (\<lambda>r. if P r then g r else r) (db_get n (ex_InstanceID e)) = Some m"
      and run: "wi_Status m = InstanceStatusRunning"
    from m obtain m0 where m0: "db_get n (ex_InstanceID e) = Some m0" "m = (if P m0 then g m0 else m0)" by auto
    with assms(3) [OF e m0(1)] run inv(1) e show "ex_State e = wi_CurrentState m"
      unfolding in_state_def by (metis (full_types))
  qed
  then show ?thesis using assms(1,2) by (simp add: has_instance_def)
qed

lemma new_instance_inv:
  assumes "db_insert c m n = Some n'" and "live m" and "bm_ID m \<noteq> []" and "core_inv (t, n, os)"
  shows "core_inv (t, n', os)"
proof -
  have get: "db_get n' i = (if i = bm_ID m then Some m else db_get n i)" for i
    using db_get_insert assms(1,2) by metis
  have ids: "bm_ID ` set n' = insert (bm_ID m) (bm_ID ` set n)" "bm_ID m \<notin> bm_ID ` set n"
    using db_insert_SomeD [OF assms(1)] by auto
  from assms(4) have inv: "in_state t n" "has_instance t n" by auto
  have "in_state t n'" using inv ids(2) unfolding in_state_def has_instance_def get by metis
  moreover have "has_instance t n'" using inv(2) ids(1) unfolding has_instance_def by blast
  moreover have "ids_ok n'" using ids_ok_insert assms by auto
  ultimately show ?thesis using assms(4) by simp
qed

lemma prim_inv: "prim c c' \<Longrightarrow> core_inv c \<Longrightarrow> core_inv c'"
proof (induction rule: prim.induct)
  case (prim_exec f t P n os)
  have "forward t (db_update P f t)" using prim_exec(1,2) by (rule forward_update)
  then show ?case using map_ID_update [OF prim_exec(1)] prim_exec(3) by (rule forward_inv)
next
  case (prim_delete t P n os now)
  then have "forward t (db_update P (\<lambda>e. e\<lparr>bm_DeletedAt := Some now\<rparr>) t)" by (intro forward_delete) simp
  then show ?case using delete_update prim_delete(2) by (rule forward_inv)
next
  case (prim_insert e t t' n os)
  then show ?case by (rule insert_exec_inv)
next
  case (prim_inst g n P t os)
  then show ?case by (intro instance_update_inv) auto
next
  case (prim_advance g k t n os)
  then have "\<not> open_exec e \<or> bm_ID m \<noteq> k" if "db_get t i = Some e" "db_get n (ex_InstanceID e) = Some m" for i e m
    using that unfolding no_open_def by (metis db_get_SomeD)
  then show ?case using prim_advance by (intro instance_update_inv) blast+
next
  case (prim_new_inst c m n n' t os)
  then show ?case by (rule new_instance_inv)
next
  case (prim_output r t os n)
  then show ?case by (auto simp: outputs_once_def)
qed


section \<open>Monotonicity\<close>

definition exec_mono :: "WorkflowStateExecution list \<Rightarrow> WorkflowStateExecution list \<Rightarrow> bool" where
  "exec_mono t t' \<longleftrightarrow> bm_ID ` set t \<subseteq> bm_ID ` set t' \<and>
     (\<forall>i e'. db_get t' i = Some e' \<longrightarrow> i \<in> bm_ID ` set t \<longrightarrow>
        (\<exists>e. db_get t i = Some e \<and> same_place e e' \<and> phase (ex_Status e) \<le> phase (ex_Status e')))"

definition inst_mono :: "WorkflowInstance list \<Rightarrow> WorkflowInstance list \<Rightarrow> bool" where
  "inst_mono n n' \<longleftrightarrow> bm_ID ` set n \<subseteq> bm_ID ` set n' \<and>
     (\<forall>k m'. db_get n' k = Some m' \<longrightarrow> k \<in> bm_ID ` set n \<longrightarrow>
        (\<exists>m. db_get n k = Some m \<and> wi_Revision m \<le> wi_Revision m'))"

lemma exec_monoD:
  assumes "exec_mono t t'" and "db_get t' i = Some e'" and "i \<in> bm_ID ` set t"
  obtains e where "db_get t i = Some e" "same_place e e'" "phase (ex_Status e) \<le> phase (ex_Status e')"
  using assms unfolding exec_mono_def by blast

lemma inst_monoD:
  assumes "inst_mono n n'" and "db_get n' k = Some m'" and "k \<in> bm_ID ` set n"
  obtains m where "db_get n k = Some m" "wi_Revision m \<le> wi_Revision m'"
  using assms unfolding inst_mono_def by blast

lemma exec_mono_refl: "exec_mono t t"
  by (simp add: exec_mono_def same_place_def)

lemma inst_mono_refl: "inst_mono n n"
  by (simp add: inst_mono_def)

lemma exec_mono_trans:
  assumes "exec_mono a b" and "exec_mono b c"
  shows "exec_mono a c"
proof -
  have sub: "bm_ID ` set a \<subseteq> bm_ID ` set b" "bm_ID ` set b \<subseteq> bm_ID ` set c"
    using assms by (simp_all add: exec_mono_def)
  have "\<exists>e. db_get a i = Some e \<and> same_place e e'' \<and> phase (ex_Status e) \<le> phase (ex_Status e'')"
    if i: "db_get c i = Some e''" "i \<in> bm_ID ` set a" for i e''
  proof -
    from i(2) sub have "i \<in> bm_ID ` set b" by blast
    then obtain e' where e': "db_get b i = Some e'" "same_place e' e''" "phase (ex_Status e') \<le> phase (ex_Status e'')"
      by (rule exec_monoD [OF assms(2) i(1)])
    obtain e where "db_get a i = Some e" "same_place e e'" "phase (ex_Status e) \<le> phase (ex_Status e')"
      by (rule exec_monoD [OF assms(1) e'(1) i(2)])
    with e' show ?thesis by (auto simp: same_place_def intro: order_trans)
  qed
  with sub show ?thesis unfolding exec_mono_def by blast
qed

lemma inst_mono_trans:
  assumes "inst_mono a b" and "inst_mono b c"
  shows "inst_mono a c"
proof -
  have sub: "bm_ID ` set a \<subseteq> bm_ID ` set b" "bm_ID ` set b \<subseteq> bm_ID ` set c"
    using assms by (simp_all add: inst_mono_def)
  have "\<exists>m. db_get a k = Some m \<and> wi_Revision m \<le> wi_Revision m''"
    if k: "db_get c k = Some m''" "k \<in> bm_ID ` set a" for k m''
  proof -
    from k(2) sub have "k \<in> bm_ID ` set b" by blast
    then obtain m' where m': "db_get b k = Some m'" "wi_Revision m' \<le> wi_Revision m''"
      by (rule inst_monoD [OF assms(2) k(1)])
    obtain m where "db_get a k = Some m" "wi_Revision m \<le> wi_Revision m'"
      by (rule inst_monoD [OF assms(1) m'(1) k(2)])
    with m' show ?thesis by (auto intro: order_trans)
  qed
  with sub show ?thesis unfolding inst_mono_def by blast
qed

fun core_mono :: "core \<Rightarrow> core \<Rightarrow> bool" where
  "core_mono (t, n, os) (t', n', os') \<longleftrightarrow> exec_mono t t' \<and> inst_mono n n'"

lemma core_mono_refl: "core_mono c c"
  by (cases c) (simp add: exec_mono_refl inst_mono_refl)

lemma core_mono_trans: "core_mono a b \<Longrightarrow> core_mono b c \<Longrightarrow> core_mono a c"
  by (cases a; cases b; cases c) (auto intro: exec_mono_trans inst_mono_trans)

lemma forward_mono: "forward t t' \<Longrightarrow> map bm_ID t' = map bm_ID t \<Longrightarrow> core_mono (t, n, os) (t', n, os)"
proof -
  assume a: "forward t t'" "map bm_ID t' = map bm_ID t"
  from a(2) have "bm_ID ` set t' = bm_ID ` set t" by (metis list.set_map)
  with a(1) show ?thesis unfolding forward_def by (auto simp: exec_mono_def inst_mono_refl)
qed

lemma insert_mono:
  assumes "db_insert c e t = Some t'" and "live e"
  shows "bm_ID ` set t \<subseteq> bm_ID ` set t'" and "i \<in> bm_ID ` set t \<Longrightarrow> db_get t' i = db_get t i"
proof -
  from db_insert_SomeD [OF assms(1)] have "bm_ID e \<notin> bm_ID ` set t" "t' = t @ [e]" by auto
  then show "bm_ID ` set t \<subseteq> bm_ID ` set t'" and "i \<in> bm_ID ` set t \<Longrightarrow> db_get t' i = db_get t i"
    using db_get_insert [OF assms, of i] by (auto split: if_splits)
qed

lemma prim_mono: "prim c c' \<Longrightarrow> core_inv c \<Longrightarrow> core_mono c c'"
proof (induction rule: prim.induct)
  case (prim_exec f t P n os)
  have "forward t (db_update P f t)" using prim_exec(1,2) by (rule forward_update)
  then show ?case using map_ID_update [OF prim_exec(1)] by (rule forward_mono)
next
  case (prim_delete t P n os now)
  then have "forward t (db_update P (\<lambda>e. e\<lparr>bm_DeletedAt := Some now\<rparr>) t)" by (intro forward_delete) simp
  then show ?case using delete_update by (rule forward_mono)
next
  case (prim_insert e t t' n os)
  then show ?case using insert_mono [OF prim_insert(1,2)] by (auto simp: exec_mono_def inst_mono_def same_place_def)
next
  case (prim_inst g n P t os)
  then show ?case by (auto simp: db_get_update [OF prim_inst(1)] exec_mono_refl inst_mono_def)
next
  case (prim_advance g k t n os)
  then show ?case by (auto simp: db_get_update_id [OF prim_advance(1)] exec_mono_refl inst_mono_def)
next
  case (prim_new_inst c m n n' t os)
  then show ?case using insert_mono [OF prim_new_inst(1,2)] by (auto simp: exec_mono_def inst_mono_def same_place_def)
next
  case (prim_output r t os n)
  then show ?case by (auto simp: exec_mono_def inst_mono_def same_place_def)
qed

lemma prims_inv: "prim\<^sup>*\<^sup>* c c' \<Longrightarrow> core_inv c \<Longrightarrow> core_inv c'"
  by (induction rule: rtranclp_induct) (auto intro: prim_inv)

lemma prims_mono: "prim\<^sup>*\<^sup>* c c' \<Longrightarrow> core_inv c \<Longrightarrow> core_mono c c'"
proof (induction rule: rtranclp_induct)
  case (step b d)
  then have "core_inv b" by (blast intro: prims_inv)
  with step show ?case by (blast intro: core_mono_trans prim_mono)
qed (rule core_mono_refl)

end
