(* ===== verification/Runtime_Effects.thy ===== *)
theory Runtime_Effects
  imports Engine_Core
begin

text \<open>
  What the transactions of \<open>workflow_runtime.go\<close> find and write, and that each of them is a
  sequence of primitive changes of the core.
\<close>

section \<open>Effects of the statements\<close>

lemma db_get_ID: "db_get t i = Some e \<Longrightarrow> i \<in> bm_ID ` set t"
  using db_get_SomeD [of t i e] by blast

lemma lockExecution_InrD:
  assumes "lockExecution env i s h b st = Inr e" and "ids_ok (es_execs st)"
  shows "db_get (es_execs st) i = Some e \<and> ex_Status e = s \<and> (b \<longrightarrow> ex_ExecutionToken e = h)"
  using assms(1) unfolding lockExecution_def first_select_id [OF assms(2)]
  by (auto simp: res_simps first_select_id [OF assms(2)] split: option.splits)

lemma lockInstance_InrD:
  assumes "lockInstanceForMutation env k s r st = Inr m" and "ids_ok (es_instances st)"
  shows "db_get (es_instances st) k = Some m \<and> wi_CurrentState m = s \<and> wi_Revision m = r \<and> wi_Status m = InstanceStatusRunning"
  using assms(1) unfolding lockInstanceForMutation_def
  by (auto simp: res_simps first_select_id [OF assms(2)] split: option.splits)

lemma updateExecutionByID_InrD:
  "updateExecutionByID env i f st = Inr st' \<Longrightarrow> st' = st\<lparr>es_execs := db_update (\<lambda>e. bm_ID e = i) f (es_execs st)\<rparr>"
  by (auto simp: updateExecutionByID_def res_simps update_some_iff)

lemma insert_output_InrD:
  "insert_output env label role now r st = Inr st' \<Longrightarrow>
     st' = st\<lparr>es_outputs := es_outputs st @ [with_id (ee_id env role) now r]\<rparr>"
  by (auto simp: insert_output_def res_simps dest!: create_InrD db_insert_SomeD)

lemma keeps_key_updates [simp]:
  "keeps_key (committed now h)" "keeps_key (parked now)" "keeps_key (failed now req)"
  "keeps_key (advanced now s v)" "keeps_key (finished now v)"
  by (simp_all add: keeps_key_def committed_def parked_def failed_def advanced_def finished_def set_vars_def)

lemma update_statuses [simp]:
  "ex_Status (committed now h e) = ExecStatusCompleted" "ex_Status (parked now e) = ExecStatusWaiting"
  "ex_Status (failed now req e) = fl_Status req"
  "same_place e (committed now h e)" "same_place e (parked now e)" "same_place e (failed now req e)"
  by (simp_all add: committed_def parked_def failed_def same_place_def)

lemma update_instances [simp]:
  "wi_CurrentState (advanced now s v m) = s" "wi_Revision (advanced now s v m) = wi_Revision m + 1"
  "wi_Status (advanced now s v m) = wi_Status m"
  "wi_Revision (finished now v m) = wi_Revision m + 1" "wi_Status (finished now v m) = InstanceStatusCompleted"
  by (simp_all add: advanced_def finished_def set_vars_def)

lemma set_column_simps [simp]:
  "bm_ID (set_column c e) = bm_ID e" "bm_DeletedAt (set_column c e) = bm_DeletedAt e"
  "ex_InstanceID (set_column c e) = ex_InstanceID e" "ex_State (set_column c e) = ex_State e"
  "ex_Status (set_column c e) = ex_Status e"
  by (cases c; simp)+

lemma fold_column_simps [simp]:
  "bm_ID (fold set_column cs e) = bm_ID e" "bm_DeletedAt (fold set_column cs e) = bm_DeletedAt e"
  "ex_InstanceID (fold set_column cs e) = ex_InstanceID e" "ex_State (fold set_column cs e) = ex_State e"
  "ex_Status (fold set_column cs e) = ex_Status e"
  by (induction cs arbitrary: e) simp_all

lemma status_updates_simps [simp]:
  "keeps_key (status_updates s cs ds)" "ex_Status (status_updates s cs ds e) = s"
  "same_place e (status_updates s cs ds e)"
  by (simp_all add: keeps_key_def status_updates_def same_place_def)

section \<open>Primitive steps on one row\<close>

lemma prim_exec_one:
  assumes "db_get t x = Some e" and "keeps_key f" and "same_place e (f e)"
    and "phase (ex_Status e) \<le> phase (ex_Status (f e))"
  shows "prim (t, n, os) (db_update (\<lambda>e. bm_ID e = x) f t, n, os)"
proof (rule prim_exec [OF assms(2)])
  fix i e' assume "db_get t i = Some e'" "bm_ID e' = x"
  then have "e' = e" using assms(1) by (metis db_get_SomeD option.inject)
  then show "same_place e' (f e') \<and> phase (ex_Status e') \<le> phase (ex_Status (f e'))" using assms by simp
qed

lemma prim_exec_if:
  assumes "keeps_key f" and "\<And>e. ex_Status e = s \<Longrightarrow> same_place e (f e) \<and> phase s \<le> phase (ex_Status (f e))"
  shows "prim (t, n, os) (db_update (\<lambda>e. bm_ID e = x \<and> ex_Status e = s) f t, n, os)"
  using assms by (intro prim_exec) auto

text \<open>Closing the open execution of an instance leaves the instance without one.\<close>

lemma no_open_after:
  assumes "one_open t" and "db_get t x = Some e" and "open_exec e" and "keeps_key f" and "same_place e (f e)"
    and "\<not> open_exec (f e)"
  shows "no_open (ex_InstanceID e) (db_update (\<lambda>e. bm_ID e = x) f t)"
  unfolding no_open_def db_get_update_id [OF assms(4)]
proof (intro allI impI)
  fix i e'
  assume e': "(if i = x then map_option f (db_get t i) else db_get t i) = Some e'" and "ex_InstanceID e' = ex_InstanceID e"
  show "\<not> open_exec e'"
  proof (cases "i = x")
    case True with e' assms show ?thesis by auto
  next
    case False
    with e' have "db_get t i = Some e'" by simp
    with False assms(1-3) \<open>ex_InstanceID e' = ex_InstanceID e\<close> show ?thesis unfolding one_open_def by metis
  qed
qed

definition snapshot :: "WorkflowStateExecution \<Rightarrow> EngineState \<Rightarrow> bool" where
  "snapshot e st \<longleftrightarrow> (\<forall>row \<in> set (es_execs st). bm_ID row = bm_ID e \<longrightarrow> same_place row e)"

lemma snapshotD:
  "snapshot e st \<Longrightarrow> db_get (es_execs st) (bm_ID e) = Some row \<Longrightarrow> ex_InstanceID row = ex_InstanceID e \<and> ex_State row = ex_State e"
  using db_get_SomeD [of "es_execs st" "bm_ID e" row] by (auto simp: snapshot_def same_place_def)

definition env_ok :: "engine_env \<Rightarrow> bool" where
  "env_ok env \<longleftrightarrow> (\<forall>role. ee_id env role \<noteq> [])"

section \<open>Commit\<close>

definition next_row :: "engine_env \<Rightarrow> int \<Rightarrow> CommitExecutionRequest \<Rightarrow> WorkflowStateExecution" where
  "next_row env now req = execution_row env ''next execution'' now
     (new_execution (ex_InstanceID (cm_Execution req)) (cm_NextState req) 1 ExecStatusPending
        (HashToken (ee_token env ''next execution'')) (cm_NextInputSchemaHash req)
        (cm_NextInputPayload req) (ex_TraceID (cm_Execution req)))"

lemma next_row_simps [simp]:
  "bm_ID (next_row env now req) = ee_id env ''next execution''"
  "live (next_row env now req)"
  "ex_InstanceID (next_row env now req) = ex_InstanceID (cm_Execution req)"
  "ex_State (next_row env now req) = cm_NextState req"
  "ex_Status (next_row env now req) = ExecStatusPending"
  by (simp_all add: next_row_def new_execution_def)

definition commit_hash :: "engine_env \<Rightarrow> CommitExecutionRequest \<Rightarrow> string" where
  "commit_hash env req = computeOutputSchemaHash env (cm_OutputPayload req)"

text \<open>What a commit that succeeds has found and written.\<close>

lemma CommitExecution_effect:
  assumes ok: "CommitExecution env now req st = Inr st'" and ids: "ids_ok (es_execs st)" "ids_ok (es_instances st)"
  obtains e m r where
    "db_get (es_execs st) (bm_ID (cm_Execution req)) = Some e" "ex_Status e = cm_ExpectedStatus req"
    "cm_VerifyToken req \<Longrightarrow> ex_ExecutionToken e = cm_TokenHash req"
    "db_get (es_instances st) (bm_ID (cm_Instance req)) = Some m" "wi_Status m = InstanceStatusRunning"
    "wi_CurrentState m = ex_State (cm_Execution req)" "wi_Revision m = wi_Revision (cm_Instance req)"
    "es_outputs st' = es_outputs st @ [r]" "so_ExecutionID r = bm_ID (cm_Execution req)" "so_Payload r = cm_OutputPayload req"
    "cm_NextState req = [] \<Longrightarrow>
       es_execs st' = db_update (\<lambda>e. bm_ID e = bm_ID (cm_Execution req)) (committed now (commit_hash env req)) (es_execs st) \<and>
       es_instances st' = db_update (\<lambda>i. bm_ID i = bm_ID (cm_Instance req)) (finished now (cm_InstanceVars req)) (es_instances st)"
    "cm_NextState req \<noteq> [] \<Longrightarrow>
       db_insert no_conflict (next_row env now req)
         (db_update (\<lambda>e. bm_ID e = bm_ID (cm_Execution req)) (committed now (commit_hash env req)) (es_execs st)) = Some (es_execs st') \<and>
       es_instances st' = db_update (\<lambda>i. bm_ID i = bm_ID (cm_Instance req)) (advanced now (cm_NextState req) (cm_InstanceVars req)) (es_instances st)"
proof -
  from ok obtain e st1 st2 m where
      lock: "verifyCommitExecutionLock env req st = Inr e"
      and st1: "storeCommitExecutionOutput env now req (commit_hash env req) st = Inr st1"
      and st2: "markExecutionCommitted env now (bm_ID (cm_Execution req)) (commit_hash env req) st1 = Inr st2"
      and inst: "lockCommitInstance env req st2 = Inr m"
      and fin: "(if cm_NextState req = [] then completeInstance env now (bm_ID (cm_Instance req)) (cm_InstanceVars req) st2
        else createCommitNextExecution env now req st2) = Inr st'"
    by (auto simp: CommitExecution_def Let_def res_simps commit_hash_def)
  from lock have e: "db_get (es_execs st) (bm_ID (cm_Execution req)) = Some e" "ex_Status e = cm_ExpectedStatus req"
      "cm_VerifyToken req \<Longrightarrow> ex_ExecutionToken e = cm_TokenHash req"
    by (auto simp: verifyCommitExecutionLock_def lockExecutionByToken_def lockExecutionByStatus_def
        dest!: lockExecution_InrD [OF _ ids(1)] split: if_splits)
  from st1 obtain r where r: "st1 = st\<lparr>es_outputs := es_outputs st @ [r]\<rparr>" "so_ExecutionID r = bm_ID (cm_Execution req)"
      "so_Payload r = cm_OutputPayload req"
    by (auto simp: storeCommitExecutionOutput_def with_id_def dest!: insert_output_InrD)
  from st2 r have st2': "st2 = st1\<lparr>es_execs := db_update (\<lambda>e. bm_ID e = bm_ID (cm_Execution req))
      (committed now (commit_hash env req)) (es_execs st)\<rparr>"
    by (auto simp: markExecutionCommitted_def dest!: updateExecutionByID_InrD)
  from inst have m: "db_get (es_instances st) (bm_ID (cm_Instance req)) = Some m" "wi_Status m = InstanceStatusRunning"
      "wi_CurrentState m = ex_State (cm_Execution req)" "wi_Revision m = wi_Revision (cm_Instance req)"
    using r st2' ids(2) by (auto simp: lockCommitInstance_def dest!: lockInstance_InrD)
  have out: "es_outputs st' = es_outputs st @ [r]"
    and empty: "cm_NextState req = [] \<Longrightarrow> es_execs st' = es_execs st2 \<and>
       es_instances st' = db_update (\<lambda>i. bm_ID i = bm_ID (cm_Instance req)) (finished now (cm_InstanceVars req)) (es_instances st)"
    and nonempty: "cm_NextState req \<noteq> [] \<Longrightarrow>
       db_insert no_conflict (next_row env now req) (es_execs st2) = Some (es_execs st') \<and>
       es_instances st' = db_update (\<lambda>i. bm_ID i = bm_ID (cm_Instance req)) (advanced now (cm_NextState req) (cm_InstanceVars req)) (es_instances st)"
    using fin r(1) st2'
    by (auto simp: completeInstance_def createCommitNextExecution_def transitionInstance_def update_some_iff res_simps
        Let_def appendCommitTransitionAudit_def next_row_def split: if_splits dest!: insert_execution_InrD insert_other_InrD)
  show ?thesis
    by (rule that [OF e m out r(2,3)]) (use empty nonempty st2' in simp_all)
qed

lemma commit_prims:
  assumes ok: "CommitExecution env now req st = Inr st'" and inv: "core_inv (core_of st)"
    and env: "env_ok env" and snap: "snapshot (cm_Execution req) st"
    and inst: "bm_ID (cm_Instance req) = ex_InstanceID (cm_Execution req)"
    and status: "phase (cm_ExpectedStatus req) < 2"
  shows "prim\<^sup>*\<^sup>* (core_of st) (core_of st')"
proof -
  let ?x = "bm_ID (cm_Execution req)" and ?k = "bm_ID (cm_Instance req)" and ?n = "es_instances st" and ?os = "es_outputs st"
  let ?t = "db_update (\<lambda>e. bm_ID e = ?x) (committed now (commit_hash env req)) (es_execs st)"
  have ids: "ids_ok (es_execs st)" "ids_ok ?n" and one: "one_open (es_execs st)"
    and has: "has_instance (es_execs st) ?n" and once: "outputs_once (es_execs st) ?os"
    using inv by (auto simp: core_of_def)
  obtain e m r where eff:
    "db_get (es_execs st) ?x = Some e" "ex_Status e = cm_ExpectedStatus req"
    "db_get ?n ?k = Some m" "es_outputs st' = ?os @ [r]" "so_ExecutionID r = ?x"
    "cm_NextState req = [] \<Longrightarrow> es_execs st' = ?t \<and>
       es_instances st' = db_update (\<lambda>i. bm_ID i = ?k) (finished now (cm_InstanceVars req)) ?n"
    "cm_NextState req \<noteq> [] \<Longrightarrow> db_insert no_conflict (next_row env now req) ?t = Some (es_execs st') \<and>
       es_instances st' = db_update (\<lambda>i. bm_ID i = ?k) (advanced now (cm_NextState req) (cm_InstanceVars req)) ?n"
    using CommitExecution_effect [OF ok ids] by metis
  have op: "open_exec e" using eff(2) status by (simp add: open_exec_def)
  have k: "ex_InstanceID e = ?k" using snapshotD [OF snap eff(1)] inst by simp
  have none: "no_open ?k ?t" using no_open_after [OF one eff(1) op] k by (simp add: open_exec_def)
  have p1: "prim (es_execs st, ?n, ?os) (?t, ?n, ?os)"
    by (rule prim_exec_one [OF eff(1)]) (simp_all add: phase_le_2)
  have "so_ExecutionID r \<notin> so_ExecutionID ` set ?os"
    using once eff(1,5) op unfolding outputs_once_def by (metis imageE)
  then have p2: "prim (?t, ?n, ?os) (?t, ?n, ?os @ [r])"
    using eff(1,5) by (intro prim_output) (auto simp: db_get_update_id open_exec_def dest: db_get_ID)
  have "prim\<^sup>*\<^sup>* (?t, ?n, ?os @ [r]) (core_of st')"
  proof (cases "cm_NextState req = []")
    case True
    with eff(4,6) none show ?thesis by (auto simp: core_of_def intro!: r_into_rtranclp prim_advance)
  next
    case False
    let ?n' = "db_update (\<lambda>i. bm_ID i = ?k) (advanced now (cm_NextState req) (cm_InstanceVars req)) ?n"
    have p3: "prim (?t, ?n, ?os @ [r]) (?t, ?n', ?os @ [r])" using none by (intro prim_advance) auto
    have mem: "?k \<in> bm_ID ` set ?n" using has eff(1) k unfolding has_instance_def by metis
    have p4: "prim (?t, ?n', ?os @ [r]) (es_execs st', ?n', ?os @ [r])"
      by (rule prim_insert [OF conjunct1 [OF eff(7) [OF False]]])
        (use none mem env inst in \<open>auto simp: env_ok_def db_get_update_id\<close>)
    from p3 p4 eff(4,7) False show ?thesis by (auto simp: core_of_def)
  qed
  with p1 p2 show ?thesis by (auto simp: core_of_def)
qed

section \<open>Parking, failing and branching\<close>

lemma park_prims:
  assumes "ParkExecution env now req st = Inr st'" and "core_inv (core_of st)"
  shows "prim\<^sup>*\<^sup>* (core_of st) (core_of st')"
proof -
  let ?x = "bm_ID (pk_Execution req)"
  have ids: "ids_ok (es_execs st)" using assms(2) by (simp add: core_of_def)
  from assms(1) obtain e where e: "db_get (es_execs st) ?x = Some e"
      and st': "core_of st' = (db_update (\<lambda>e. bm_ID e = ?x) (parked now) (es_execs st), es_instances st, es_outputs st)"
      and "ex_Status e = ExecStatusDispatched"
    by (auto simp: ParkExecution_def Let_def res_simps core_of_def lockExecutionByToken_def
        dest!: lockExecution_InrD [OF _ ids] updateExecutionByID_InrD insert_other_InrD)
  then show ?thesis using prim_exec_one [OF e] by (auto simp: core_of_def)
qed

lemma signal_wait_prims:
  assumes "Runtime_StartSignalWait env now req st = Inr st'" and "core_inv (core_of st)"
  shows "prim\<^sup>*\<^sup>* (core_of st) (core_of st')"
proof -
  let ?x = "bm_ID (ss_Execution req)"
  have ids: "ids_ok (es_execs st)" using assms(2) by (simp add: core_of_def)
  from assms(1) obtain e where e: "db_get (es_execs st) ?x = Some e"
      and st': "core_of st' = (db_update (\<lambda>e. bm_ID e = ?x) (parked now) (es_execs st), es_instances st, es_outputs st)"
      and "ex_Status e = ExecStatusDispatched"
    by (auto simp: Runtime_StartSignalWait_def Let_def res_simps core_of_def lockExecutionByToken_def
        dest!: lockExecution_InrD [OF _ ids] updateExecutionByID_InrD insert_other_InrD)
  then show ?thesis using prim_exec_one [OF e] by (auto simp: core_of_def)
qed

lemma FailExecution_effect:
  assumes "FailExecution env now req st = Inr st'" and "ids_ok (es_execs st)"
  obtains e where
    "db_get (es_execs st) (bm_ID (fl_Execution req)) = Some e" "ex_Status e = fl_ExpectedStatus req"
    "fl_VerifyToken req \<Longrightarrow> ex_ExecutionToken e = fl_TokenHash req"
    "es_execs st' = db_update (\<lambda>e. bm_ID e = bm_ID (fl_Execution req)) (failed now req) (es_execs st)"
    "es_instances st' = db_update (\<lambda>i. bm_ID i = bm_ID (fl_Instance req) \<and> wi_Status i = InstanceStatusRunning)
       (\<lambda>i. i\<lparr>wi_Status := InstanceStatusFailed, bm_ModifiedAt := now, wi_FinishedAt := Some now\<rparr>) (es_instances st)"
    "es_outputs st' = es_outputs st"
  using assms(1)
  by (auto simp: FailExecution_def Let_def res_simps update_some_iff lockExecutionByToken_def lockExecutionByStatus_def
      split: if_splits dest!: lockExecution_InrD [OF _ assms(2)] updateExecutionByID_InrD insert_other_InrD)

lemma fail_prims:
  assumes "FailExecution env now req st = Inr st'" and "core_inv (core_of st)" and "phase (fl_Status req) = 2"
  shows "prim\<^sup>*\<^sup>* (core_of st) (core_of st')"
proof -
  let ?x = "bm_ID (fl_Execution req)" and ?t = "db_update (\<lambda>e. bm_ID e = bm_ID (fl_Execution req)) (failed now req) (es_execs st)"
  have ids: "ids_ok (es_execs st)" using assms(2) by (simp add: core_of_def)
  obtain e where e: "db_get (es_execs st) ?x = Some e" "es_execs st' = ?t" "es_outputs st' = es_outputs st"
    "es_instances st' = db_update (\<lambda>i. bm_ID i = bm_ID (fl_Instance req) \<and> wi_Status i = InstanceStatusRunning)
       (\<lambda>i. i\<lparr>wi_Status := InstanceStatusFailed, bm_ModifiedAt := now, wi_FinishedAt := Some now\<rparr>) (es_instances st)"
    by (rule FailExecution_effect [OF assms(1) ids])
  have "prim (es_execs st, es_instances st, es_outputs st) (?t, es_instances st, es_outputs st)"
    using e(1) assms(3) by (intro prim_exec_one) (simp_all add: phase_le_2)
  moreover have "prim (?t, es_instances st, es_outputs st) (?t, es_instances st', es_outputs st)"
    unfolding e(4) by (intro prim_inst) (auto simp: keeps_key_def)
  ultimately show ?thesis using e(2,3) by (simp add: core_of_def)
qed

definition child_ok :: "ScopedChildRecord \<Rightarrow> bool" where
  "child_ok c \<longleftrightarrow> bm_ID (ch_Instance c) \<noteq> [] \<and> bm_ID (ch_Execution c) = [] \<and>
     ex_InstanceID (ch_Execution c) = bm_ID (ch_Instance c) \<and> ex_State (ch_Execution c) = wi_CurrentState (ch_Instance c)"

lemma child_prims:
  assumes ok: "createScopedChildRecords env now c st = Inr st'" and inv: "core_inv (core_of st)"
    and env: "env_ok env" and c: "child_ok c"
  shows "prim\<^sup>*\<^sup>* (core_of st) (core_of st')"
proof -
  let ?i = "instance_row env ''child instance'' now (ch_Instance c)"
  let ?e = "execution_row env (''child execution '' @ bm_ID (ch_Instance c)) now (ch_Execution c)"
  from ok have ins: "db_insert trigger_conflict ?i (es_instances st) = Some (es_instances st')"
      "db_insert no_conflict ?e (es_execs st) = Some (es_execs st')" "es_outputs st' = es_outputs st"
    by (auto simp: createScopedChildRecords_def Let_def res_simps split: option.splits
        dest!: insert_instance_InrD insert_execution_InrD insert_other_InrD)
  have i: "bm_ID ?i = bm_ID (ch_Instance c)" "wi_CurrentState ?i = wi_CurrentState (ch_Instance c)" using c by (simp_all add: child_ok_def)
  have "bm_ID (ch_Instance c) \<notin> bm_ID ` set (es_instances st)" using db_insert_SomeD [OF ins(1)] i by simp
  moreover have "has_instance (es_execs st) (es_instances st)" using inv by (simp add: core_of_def)
  ultimately have none: "no_open (ex_InstanceID ?e) (es_execs st)"
    using c unfolding has_instance_def no_open_def child_ok_def by (metis execution_row_simps(3))
  have p1: "prim (es_execs st, es_instances st, es_outputs st) (es_execs st, es_instances st', es_outputs st)"
    using ins(1) c i by (intro prim_new_inst) (auto simp: child_ok_def)
  have get: "db_get (es_instances st') (bm_ID (ch_Instance c)) = Some ?i"
    using db_get_insert [OF ins(1), of "bm_ID (ch_Instance c)"] i by simp
  have p2: "prim (es_execs st, es_instances st', es_outputs st) (es_execs st', es_instances st', es_outputs st)"
    by (rule prim_insert [OF ins(2)])
      (use none env c get db_get_ID [OF get] i in \<open>auto simp: env_ok_def child_ok_def\<close>)
  from p1 p2 ins(3) show ?thesis by (simp add: core_of_def)
qed

lemma children_prims:
  assumes "create_children env now cs st = Inr st'" and "core_inv (core_of st)" and "env_ok env" and "list_all child_ok cs"
  shows "prim\<^sup>*\<^sup>* (core_of st) (core_of st')"
  using assms
proof (induction cs arbitrary: st)
  case (Cons c cs)
  from Cons.prems(1) obtain st1 where st1: "createScopedChildRecords env now c st = Inr st1" "create_children env now cs st1 = Inr st'"
    by (auto simp: res_simps)
  have p: "prim\<^sup>*\<^sup>* (core_of st) (core_of st1)" using child_prims [OF st1(1)] Cons.prems by simp
  then have "core_inv (core_of st1)" using Cons.prems(2) by (rule prims_inv)
  with Cons st1(2) have "prim\<^sup>*\<^sup>* (core_of st1) (core_of st')" by simp
  with p show ?case by (rule rtranclp_trans)
qed simp

lemma branch_prims:
  assumes ok: "Runtime_StartBranchScope env now req st = Inr st'" and inv: "core_inv (core_of st)"
    and env: "env_ok env" and cs: "list_all child_ok (sb_LaunchChildren req)"
  shows "prim\<^sup>*\<^sup>* (core_of st) (core_of st')"
proof -
  let ?x = "bm_ID (sb_Execution req)"
  have ids: "ids_ok (es_execs st)" using inv by (simp add: core_of_def)
  from ok obtain e st1 st2 st3 where lock: "lockExecution env ?x ExecStatusDispatched (sb_TokenHash req) True st = Inr e"
      and st1: "updateExecutionByID env ?x (parked now) st = Inr st1"
      and scope: "insert_scope env ''create workflow scope run'' ''scope'' now (sb_Scope req) st1 = Inr st2"
      and st3: "create_children env now (sb_LaunchChildren req) st2 = Inr st3" and st': "core_of st' = core_of st3"
    by (auto simp: Runtime_StartBranchScope_def Let_def res_simps core_of_def lockExecutionByToken_def
        dest!: insert_other_InrD(2))
  from lock have e: "db_get (es_execs st) ?x = Some e" "ex_Status e = ExecStatusDispatched"
    by (auto dest!: lockExecution_InrD [OF _ ids])
  from st1 scope have st2: "core_of st2 = (db_update (\<lambda>e. bm_ID e = ?x) (parked now) (es_execs st), es_instances st, es_outputs st)"
    by (auto simp: core_of_def dest!: updateExecutionByID_InrD insert_other_InrD)
  have p: "prim\<^sup>*\<^sup>* (core_of st) (core_of st2)" using prim_exec_one [OF e(1)] e(2) st2 by (auto simp: core_of_def)
  then have "core_inv (core_of st2)" using inv by (rule prims_inv)
  with children_prims [OF st3 _ env cs] p st' show ?thesis by simp
qed

lemma update_scope_prims:
  assumes ok: "UpdateScope env now req st = Inr st'" and inv: "core_inv (core_of st)"
    and env: "env_ok env" and cs: "list_all child_ok (us_LaunchChildren req)"
  shows "prim\<^sup>*\<^sup>* (core_of st) (core_of st')"
proof -
  let ?P = "\<lambda>i. child_of (us_ParentExecutionID req) i \<and> wi_Status i = InstanceStatusRunning"
  let ?g = "\<lambda>i :: WorkflowInstance. i\<lparr>wi_Status := InstanceStatusCancelled, bm_ModifiedAt := now, wi_FinishedAt := Some now\<rparr>"
  from ok obtain st1 where st1: "create_children env now (us_LaunchChildren req) st = Inr st1"
      and st': "core_of st' = core_of st1 \<or> core_of st' = (es_execs st1, db_update ?P ?g (es_instances st1), es_outputs st1)"
    by (auto simp: UpdateScope_def Let_def res_simps core_of_def split: if_splits)
  have "prim (core_of st1) (es_execs st1, db_update ?P ?g (es_instances st1), es_outputs st1)"
    unfolding core_of_def by (intro prim_inst) (auto simp: keeps_key_def)
  with st' have "prim\<^sup>*\<^sup>* (core_of st1) (core_of st')" by auto
  with children_prims [OF st1 inv env cs] show ?thesis by (rule rtranclp_trans)
qed

end
