(* ===== verification/Engine_Steps.thy ===== *)
theory Engine_Steps
  imports Runtime_Effects
begin

text \<open>
  The transition system of the workflow engine: one step per successful transaction of the
  repositories. Every step is a sequence of primitive changes of the core, so that the invariant
  and the monotonicity of the core hold along every run.
\<close>

section \<open>The other operations\<close>

lemma claim_core:
  assumes "ClaimSignalDelivery env now req st = Inr (c, st')"
  shows "core_of st' = core_of st"
  using assms
  by (auto simp: ClaimSignalDelivery_def claimPendingSignalMessage_def loadWaitingSignalWait_def
      finalizeSignalDeliveryClaim_def res_simps Let_def core_of_def
      split: option.splits prod.splits dest!: insert_other_InrD)

lemma mark_prims:
  assumes "UpdateExecutionStatus env now exec status st = Inr st'" and "phase status = 2"
  shows "prim\<^sup>*\<^sup>* (core_of st) (core_of st')"
proof -
  let ?f = "\<lambda>e :: WorkflowStateExecution. e\<lparr>ex_Status := status, bm_ModifiedAt := now, ex_FinishedAt := Some now\<rparr>"
  have "prim (core_of st) (db_update (\<lambda>e. bm_ID e = bm_ID exec) ?f (es_execs st), es_instances st, es_outputs st)"
    unfolding core_of_def using assms(2) by (intro prim_exec) (auto simp: keeps_key_def same_place_def phase_le_2)
  with assms(1) show ?thesis by (auto simp: UpdateExecutionStatus_def res_simps core_of_def)
qed

lemma update_expected_prims:
  assumes "UpdateStatusExpected env now x s s' cs st = Inr st'" and "phase s \<le> phase s'"
  shows "prim\<^sup>*\<^sup>* (core_of st) (core_of st')"
proof -
  have "prim (core_of st) (db_update (\<lambda>e. bm_ID e = x \<and> ex_Status e = s) (status_updates s' cs ds) (es_execs st),
      es_instances st, es_outputs st)" for ds
    unfolding core_of_def using assms(2) by (intro prim_exec_if) auto
  with assms(1) show ?thesis by (auto simp: UpdateStatusExpected_def res_simps update_some_iff core_of_def)
qed

lemma schedule_retry_prims:
  assumes "UpdateStatus env now x s cs st = Inr st'" and "db_get (es_execs st) x = Some e"
    and "phase (ex_Status e) \<le> phase s"
  shows "prim\<^sup>*\<^sup>* (core_of st) (core_of st')"
proof -
  have "prim (core_of st) (db_update (\<lambda>e. bm_ID e = x) (status_updates s cs ds) (es_execs st), es_instances st, es_outputs st)" for ds
    unfolding core_of_def using assms(3) by (intro prim_exec_one [OF assms(2)]) simp_all
  with assms(1) show ?thesis by (auto simp: UpdateStatus_def res_simps update_some_iff core_of_def)
qed

text \<open>Closing an open execution and inserting its replacement for the same place.\<close>

lemma replace_prims:
  fixes f :: "WorkflowStateExecution \<Rightarrow> WorkflowStateExecution"
  assumes inv: "core_inv (core_of st)" and e: "db_get (es_execs st) x = Some e" and op: "open_exec e"
    and f: "keeps_key f" "same_place e (f e)" "\<not> open_exec (f e)"
    and ins: "insert_execution env label role now retry (st\<lparr>es_execs := db_update (\<lambda>e. bm_ID e = x) f (es_execs st)\<rparr>) = Inr st'"
    and retry: "same_place e retry" "bm_ID retry = []" and env: "env_ok env"
  shows "prim\<^sup>*\<^sup>* (core_of st) (core_of st')"
proof -
  let ?t = "db_update (\<lambda>e. bm_ID e = x) f (es_execs st)"
  have parts: "one_open (es_execs st)" "in_state (es_execs st) (es_instances st)" "has_instance (es_execs st) (es_instances st)"
    using inv by (auto simp: core_of_def)
  have p1: "prim (core_of st) (?t, es_instances st, es_outputs st)"
    unfolding core_of_def using f op by (intro prim_exec_one [OF e]) (simp_all add: open_exec_def)
  have none: "no_open (ex_InstanceID e) ?t" by (rule no_open_after [OF parts(1) e op f])
  from ins obtain t where t: "st' = st\<lparr>es_execs := t\<rparr>" "db_insert no_conflict (execution_row env role now retry) ?t = Some t"
    by (auto dest!: insert_execution_InrD)
  have p2: "prim (?t, es_instances st, es_outputs st) (t, es_instances st, es_outputs st)"
  proof (rule prim_insert [OF t(2)])
    show "ex_InstanceID (execution_row env role now retry) \<in> bm_ID ` set (es_instances st)"
      using parts(3) e retry(1) unfolding has_instance_def same_place_def by (metis execution_row_simps(3))
    show "no_open (ex_InstanceID (execution_row env role now retry)) ?t"
      using none retry(1) by (simp add: same_place_def)
    fix m assume "db_get (es_instances st) (ex_InstanceID (execution_row env role now retry)) = Some m"
      "wi_Status m = InstanceStatusRunning"
    then show "ex_State (execution_row env role now retry) = wi_CurrentState m"
      using parts(2) e op retry(1) unfolding in_state_def same_place_def by (metis execution_row_simps(3,4))
  qed (use env retry(2) in \<open>simp_all add: env_ok_def\<close>)
  from p1 p2 t(1) show ?thesis by (auto simp: core_of_def)
qed

lemma db_update_same_id:
  assumes "ids_ok t" and "db_get t x = Some e" and "P e"
  shows "db_update (\<lambda>r. bm_ID r = x \<and> P r) f t = db_update (\<lambda>r. bm_ID r = x) f t"
proof -
  have "r = e" if "r \<in> set t" "bm_ID r = x" "live r" for r
    using that assms(1,2) by (metis db_get_mem option.inject)
  then show ?thesis using assms(3) unfolding db_update_def by (intro map_cong) auto
qed

lemma materialize_prims:
  assumes ok: "MaterializeRetry env now x retry st = Inr st'" and inv: "core_inv (core_of st)" and env: "env_ok env"
    and retry: "\<And>e. db_get (es_execs st) x = Some e \<Longrightarrow> same_place e retry" "bm_ID retry = []"
  shows "prim\<^sup>*\<^sup>* (core_of st) (core_of st')"
proof -
  let ?f = "\<lambda>e :: WorkflowStateExecution. e\<lparr>ex_Status := ExecStatusStale\<rparr>"
  have ids: "ids_ok (es_execs st)" using inv by (simp add: core_of_def)
  from ok obtain e where e: "db_get (es_execs st) x = Some e" "ex_Status e = ExecStatusRetryScheduled"
    by (auto simp: MaterializeRetry_def res_simps update_some_iff affected_id_and [OF ids, simplified])
  with ok have "insert_execution env ''materialize retry create'' ''retry execution'' now retry
      (st\<lparr>es_execs := db_update (\<lambda>e. bm_ID e = x) ?f (es_execs st)\<rparr>) = Inr st'"
    by (auto simp: MaterializeRetry_def res_simps update_some_iff db_update_same_id [OF ids e(1)])
  then show ?thesis using e env retry
    by (intro replace_prims [OF inv e(1)]) (auto simp: open_exec_def keeps_key_def same_place_def)
qed

lemma timeout_retry_prims:
  assumes ok: "MarkTimedOutAndCreateRetry env now x retry st = Inr st'" and inv: "core_inv (core_of st)" and env: "env_ok env"
    and retry: "\<And>e. db_get (es_execs st) x = Some e \<Longrightarrow> same_place e retry" "bm_ID retry = []"
  shows "prim\<^sup>*\<^sup>* (core_of st) (core_of st')"
proof -
  let ?f = "\<lambda>e :: WorkflowStateExecution. e\<lparr>ex_Status := ExecStatusTimedOut, ex_ErrorClass := ''retryable'',
               ex_ErrorMessage := ''execution timed out'', ex_FinishedAt := Some now\<rparr>"
  have ids: "ids_ok (es_execs st)" using inv by (simp add: core_of_def)
  from ok obtain e where e: "db_get (es_execs st) x = Some e" "ex_Status e = ExecStatusDispatched"
    by (auto simp: MarkTimedOutAndCreateRetry_def res_simps update_some_iff affected_id_and [OF ids, simplified])
  with ok have "insert_execution env ''create retry execution'' ''retry execution'' now retry
      (st\<lparr>es_execs := db_update (\<lambda>e. bm_ID e = x) ?f (es_execs st)\<rparr>) = Inr st'"
    by (auto simp: MarkTimedOutAndCreateRetry_def res_simps update_some_iff db_update_same_id [OF ids e(1)])
  then show ?thesis using e env retry
    by (intro replace_prims [OF inv e(1)]) (auto simp: open_exec_def keeps_key_def same_place_def)
qed

lemma terminal_timeout_prims:
  assumes "MarkTerminalTimeout env now x msg st = Inr st'"
  shows "prim\<^sup>*\<^sup>* (core_of st) (core_of st')"
proof -
  have "prim (core_of st) (db_update (\<lambda>e. bm_ID e = x \<and> ex_Status e = ExecStatusDispatched)
      (\<lambda>e. e\<lparr>ex_Status := ExecStatusFatal, ex_ErrorClass := ''retryable'', ex_ErrorMessage := message,
                ex_FinishedAt := Some now\<rparr>) (es_execs st), es_instances st, es_outputs st)" for message
    unfolding core_of_def by (intro prim_exec_if) (auto simp: keeps_key_def same_place_def)
  with assms show ?thesis by (auto simp: MarkTerminalTimeout_def Let_def res_simps update_some_iff core_of_def)
qed

lemma cleanup_prims:
  assumes "Exec_DeleteCompletedBefore env now cutoff limit st = Inr (k, st')" and "ids_ok (es_execs st)"
  shows "prim\<^sup>*\<^sup>* (core_of st) (core_of st')"
proof -
  define finished_before where "finished_before = (\<lambda>e :: WorkflowStateExecution. ex_Status e \<in> set terminalStatuses \<and>
    (case ex_FinishedAt e of None \<Rightarrow> False | Some t \<Rightarrow> t < cutoff))"
  define ids where "ids = take (batch_limit 100 limit) (map bm_ID (db_select finished_before (es_execs st)))"
  have closed: "\<not> open_exec e" if "db_get (es_execs st) i = Some e" "bm_ID e \<in> set ids" for i e
  proof -
    from that(2) have "bm_ID e \<in> bm_ID ` set (db_select finished_before (es_execs st))"
      unfolding ids_def by (metis in_set_takeD list.set_map)
    then obtain e' where "e' \<in> set (es_execs st)" "live e'" "finished_before e'" "bm_ID e' = bm_ID e" by (auto simp: db_select_def)
    moreover from that(1) have "e \<in> set (es_execs st)" "live e" by (auto dest: db_get_SomeD)
    ultimately have "e' = e" using assms(2) by (metis db_get_mem option.inject)
    with \<open>finished_before e'\<close> show ?thesis by (auto simp: finished_before_def open_exec_def terminalStatuses_def)
  qed
  have "prim (core_of st) (db_update (\<lambda>e. bm_ID e \<in> set ids) (\<lambda>e. e\<lparr>bm_DeletedAt := Some now\<rparr>) (es_execs st), es_instances st, es_outputs st)"
    unfolding core_of_def using closed by (rule prim_delete)
  with assms(1) show ?thesis
    by (auto simp: Exec_DeleteCompletedBefore_def Let_def res_simps core_of_def ids_def finished_before_def split: if_splits)
qed

lemma instance_status_prims:
  assumes "Instance_UpdateStatus env now k s st = Inr st'" and "s \<noteq> InstanceStatusRunning"
  shows "prim\<^sup>*\<^sup>* (core_of st) (core_of st')"
proof -
  let ?g = "\<lambda>i :: WorkflowInstance. let i1 = i\<lparr>wi_Status := s, bm_ModifiedAt := now\<rparr> in
             if s \<in> {InstanceStatusCompleted, InstanceStatusFailed, InstanceStatusCancelled}
             then i1\<lparr>wi_FinishedAt := Some now\<rparr> else i1"
  have "prim (core_of st) (es_execs st, db_update (\<lambda>i. bm_ID i = k) ?g (es_instances st), es_outputs st)"
    unfolding core_of_def using assms(2) by (intro prim_inst) (auto simp: keeps_key_def Let_def)
  with assms(1) show ?thesis by (auto simp: Instance_UpdateStatus_def res_simps update_some_iff core_of_def)
qed

lemma new_instance_prims:
  assumes "insert_instance env label role now i st = Inr st'" and "env_ok env"
  shows "prim\<^sup>*\<^sup>* (core_of st) (core_of st')"
proof -
  from assms(1) obtain t where t: "st' = st\<lparr>es_instances := t\<rparr>"
      "db_insert trigger_conflict (instance_row env role now i) (es_instances st) = Some t"
    by (auto dest!: insert_instance_InrD)
  have "prim (core_of st) (es_execs st, t, es_outputs st)"
    unfolding core_of_def by (rule prim_new_inst [OF t(2)]) (use assms(2) in \<open>simp_all add: env_ok_def\<close>)
  with t(1) show ?thesis by (auto simp: core_of_def)
qed

lemma new_execution_prims:
  assumes ok: "insert_execution env label role now e st = Inr st'" and env: "env_ok env"
    and m: "db_get (es_instances st) (ex_InstanceID e) = Some m" "wi_CurrentState m = ex_State e"
    and none: "no_open (ex_InstanceID e) (es_execs st)"
  shows "prim\<^sup>*\<^sup>* (core_of st) (core_of st')"
proof -
  from ok obtain t where t: "st' = st\<lparr>es_execs := t\<rparr>" "db_insert no_conflict (execution_row env role now e) (es_execs st) = Some t"
    by (auto dest!: insert_execution_InrD)
  have "prim (core_of st) (t, es_instances st, es_outputs st)"
    unfolding core_of_def by (rule prim_insert [OF t(2)]) (use m none env db_get_ID [OF m(1)] in \<open>auto simp: env_ok_def\<close>)
  with t(1) show ?thesis by (auto simp: core_of_def)
qed

lemma manual_retry_prims:
  assumes ok: "CreateRetryExecution env now req st = Inr (row, st')" and env: "env_ok env"
    and none: "no_open (bm_ID (cr_Instance req)) (es_execs st)"
    and m: "bm_ID (cr_Instance req) \<in> bm_ID ` set (es_instances st)"
    and req: "ex_InstanceID (cr_NewExecution req) = bm_ID (cr_Instance req)" "ex_State (cr_NewExecution req) = ex_State (cr_Execution req)"
  shows "prim\<^sup>*\<^sup>* (core_of st) (core_of st')"
proof -
  let ?g = "\<lambda>i :: WorkflowInstance. i\<lparr>wi_Status := InstanceStatusRunning, wi_CurrentState := ex_State (cr_Execution req),
                      bm_ModifiedAt := now, wi_FinishedAt := None, wi_Revision := wi_Revision i + 1\<rparr>"
  let ?n = "db_update (\<lambda>i. bm_ID i = bm_ID (cr_Instance req)) ?g (es_instances st)"
  have keeps: "keeps_key ?g" by (simp add: keeps_key_def)
  from ok obtain t where t: "st' = st\<lparr>es_execs := t, es_instances := ?n\<rparr>"
      "db_insert no_conflict (execution_row env ''retry execution'' now (cr_NewExecution req)) (es_execs st) = Some t"
    by (auto simp: CreateRetryExecution_def res_simps dest!: insert_execution_InrD)
  have "prim (core_of st) (es_execs st, ?n, es_outputs st)"
    unfolding core_of_def using keeps none by (rule prim_advance) simp
  moreover have "prim (es_execs st, ?n, es_outputs st) (t, ?n, es_outputs st)"
    by (rule prim_insert [OF t(2)]) (use none env req m in \<open>auto simp: env_ok_def keeps db_get_update_id [OF keeps]\<close>)
  ultimately show ?thesis using t(1) by (simp add: core_of_def)
qed

section \<open>Steps of the engine\<close>

text \<open>
  One step is one transaction of the repositories that succeeds. The premises say what the
  callers pass: executions and instances are rows read before (their instance and state columns
  never change), a scheduled retry is reported for an execution that is dispatched, a manual
  retry is made for an instance with no open execution, generated ids are not empty.
\<close>

inductive engine_step :: "EngineState \<Rightarrow> EngineState \<Rightarrow> bool" where
  step_new_instance: "env_ok env \<Longrightarrow> insert_instance env label role now i st = Inr st' \<Longrightarrow> engine_step st st'"
| step_new_execution: "env_ok env \<Longrightarrow> db_get (es_instances st) (ex_InstanceID e) = Some m \<Longrightarrow>
     wi_CurrentState m = ex_State e \<Longrightarrow> no_open (ex_InstanceID e) (es_execs st) \<Longrightarrow>
     insert_execution env label role now e st = Inr st' \<Longrightarrow> engine_step st st'"
| step_dispatch: "UpdateStatusExpected env now x ExecStatusPending ExecStatusDispatched cs st = Inr st' \<Longrightarrow> engine_step st st'"
| step_revert: "UpdateStatusExpected env now x ExecStatusDispatched ExecStatusPending cs st = Inr st' \<Longrightarrow> engine_step st st'"
| step_commit: "env_ok env \<Longrightarrow> snapshot (cm_Execution req) st \<Longrightarrow>
     bm_ID (cm_Instance req) = ex_InstanceID (cm_Execution req) \<Longrightarrow> phase (cm_ExpectedStatus req) < 2 \<Longrightarrow>
     CommitExecution env now req st = Inr st' \<Longrightarrow> engine_step st st'"
| step_park: "ParkExecution env now preq st = Inr st' \<Longrightarrow> engine_step st st'"
| step_signal_wait: "Runtime_StartSignalWait env now wreq st = Inr st' \<Longrightarrow> engine_step st st'"
| step_send_signal: "env_ok env \<Longrightarrow> insert_message env label role now msg st = Inr st' \<Longrightarrow> engine_step st st'"
| step_claim_signal: "ClaimSignalDelivery env now creq st = Inr (claim, st') \<Longrightarrow> engine_step st st'"
| step_fail: "phase (fl_Status freq) = 2 \<Longrightarrow> FailExecution env now freq st = Inr st' \<Longrightarrow> engine_step st st'"
| step_mark: "phase s = 2 \<Longrightarrow> UpdateExecutionStatus env now exec s st = Inr st' \<Longrightarrow> engine_step st st'"
| step_mark_stale: "MarkStaleExpected env now x s st = Inr st' \<Longrightarrow> engine_step st st'"
| step_schedule_retry: "db_get (es_execs st) x = Some e \<Longrightarrow> ex_Status e = ExecStatusDispatched \<Longrightarrow>
     UpdateStatus env now x ExecStatusRetryScheduled cs st = Inr st' \<Longrightarrow> engine_step st st'"
| step_materialize: "env_ok env \<Longrightarrow> snapshot e st \<Longrightarrow> same_place e retry \<Longrightarrow> bm_ID retry = [] \<Longrightarrow>
     MaterializeRetry env now (bm_ID e) retry st = Inr st' \<Longrightarrow> engine_step st st'"
| step_timeout_retry: "env_ok env \<Longrightarrow> snapshot e st \<Longrightarrow> same_place e retry \<Longrightarrow> bm_ID retry = [] \<Longrightarrow>
     MarkTimedOutAndCreateRetry env now (bm_ID e) retry st = Inr st' \<Longrightarrow> engine_step st st'"
| step_terminal_timeout: "MarkTerminalTimeout env now x message st = Inr st' \<Longrightarrow> engine_step st st'"
| step_manual_retry: "env_ok env \<Longrightarrow> no_open (bm_ID (cr_Instance rreq)) (es_execs st) \<Longrightarrow>
     bm_ID (cr_Instance rreq) \<in> bm_ID ` set (es_instances st) \<Longrightarrow>
     ex_InstanceID (cr_NewExecution rreq) = bm_ID (cr_Instance rreq) \<Longrightarrow>
     ex_State (cr_NewExecution rreq) = ex_State (cr_Execution rreq) \<Longrightarrow>
     CreateRetryExecution env now rreq st = Inr (row, st') \<Longrightarrow> engine_step st st'"
| step_start_scope: "env_ok env \<Longrightarrow> list_all child_ok (sb_LaunchChildren breq) \<Longrightarrow>
     Runtime_StartBranchScope env now breq st = Inr st' \<Longrightarrow> engine_step st st'"
| step_update_scope: "env_ok env \<Longrightarrow> list_all child_ok (us_LaunchChildren ureq) \<Longrightarrow>
     UpdateScope env now ureq st = Inr st' \<Longrightarrow> engine_step st st'"
| step_instance_status: "is \<noteq> InstanceStatusRunning \<Longrightarrow> Instance_UpdateStatus env now k is st = Inr st' \<Longrightarrow> engine_step st st'"
| step_audit: "insert_audit env label role now a st = Inr st' \<Longrightarrow> engine_step st st'"
| step_cleanup: "Exec_DeleteCompletedBefore env now cutoff limit st = Inr (removed, st') \<Longrightarrow> engine_step st st'"

definition engine_inv :: "EngineState \<Rightarrow> bool" where
  "engine_inv st \<longleftrightarrow> core_inv (core_of st)"

lemma snapshot_same_place:
  "snapshot e st \<Longrightarrow> same_place e retry \<Longrightarrow> db_get (es_execs st) (bm_ID e) = Some row \<Longrightarrow> same_place row retry"
  by (auto simp: same_place_def dest: snapshotD)

lemma mark_stale_prims:
  "MarkStaleExpected env now x s st = Inr st' \<Longrightarrow> prim\<^sup>*\<^sup>* (core_of st) (core_of st')"
  unfolding MarkStaleExpected_def by (erule update_expected_prims) (simp add: phase_le_2)

lemma engine_step_prims:
  assumes "engine_step st st'" and "core_inv (core_of st)"
  shows "prim\<^sup>*\<^sup>* (core_of st) (core_of st')"
  using assms
proof (induction rule: engine_step.induct)
  case step_dispatch then show ?case by (auto elim: update_expected_prims)
next
  case step_revert then show ?case by (auto elim: update_expected_prims)
next
  case (step_commit env req st now st') then show ?case by (intro commit_prims) auto
next
  case (step_schedule_retry st x e) then show ?case by (auto elim: schedule_retry_prims)
next
  case (step_materialize env e st retry now st')
  then show ?case by (intro materialize_prims [of env now "bm_ID e" retry]) (auto intro: snapshot_same_place)
next
  case (step_timeout_retry env e st retry now st')
  then show ?case by (intro timeout_retry_prims [of env now "bm_ID e" retry]) (auto intro: snapshot_same_place)
next
  case (step_claim_signal env now creq st claim st') then show ?case by (simp add: claim_core)
next
  case (step_cleanup env now cutoff limit st removed st')
  then show ?case by (intro cleanup_prims) (auto simp: core_of_def)
next
  case (step_send_signal env label role now msg st st')
  then have "core_of st' = core_of st" by (auto simp: core_of_def dest!: insert_other_InrD)
  then show ?case by simp
next
  case (step_audit env label role now a st st')
  then have "core_of st' = core_of st" by (auto simp: core_of_def dest!: insert_other_InrD)
  then show ?case by simp
qed (blast intro: new_instance_prims new_execution_prims park_prims signal_wait_prims fail_prims mark_prims
    mark_stale_prims terminal_timeout_prims manual_retry_prims branch_prims update_scope_prims instance_status_prims)+

lemma engine_step_inv: "engine_inv st \<Longrightarrow> engine_step st st' \<Longrightarrow> engine_inv st'"
  unfolding engine_inv_def by (blast intro: prims_inv engine_step_prims)

lemma engine_step_mono: "engine_inv st \<Longrightarrow> engine_step st st' \<Longrightarrow> core_mono (core_of st) (core_of st')"
  unfolding engine_inv_def by (blast intro: prims_mono engine_step_prims)

definition initial_state :: "EngineState \<Rightarrow> bool" where
  "initial_state st \<longleftrightarrow> es_execs st = [] \<and> es_instances st = [] \<and> es_outputs st = [] \<and> es_messages st = []"

definition engine_reachable :: "EngineState \<Rightarrow> bool" where
  "engine_reachable st \<longleftrightarrow> (\<exists>s. initial_state s \<and> engine_step\<^sup>*\<^sup>* s st)"

lemma initial_inv: "initial_state st \<Longrightarrow> engine_inv st"
  by (simp add: initial_state_def engine_inv_def core_of_def ids_ok_def one_open_def in_state_def
      has_instance_def outputs_once_def db_get_def)

lemma steps_inv: "engine_step\<^sup>*\<^sup>* st st' \<Longrightarrow> engine_inv st \<Longrightarrow> engine_inv st'"
  by (induction rule: rtranclp_induct) (auto intro: engine_step_inv)

lemma reachable_inv: "engine_reachable st \<Longrightarrow> engine_inv st"
  unfolding engine_reachable_def by (blast intro: initial_inv steps_inv)

end
