(* ===== verification/Engine_Races.thy ===== *)
theory Engine_Races
  imports Engine_Steps
begin

text \<open>
  Competition between workers, timers, signals and schedulers for the same execution or the same
  instance revision. The pattern is the locale \<open>one_winner\<close>; it is interpreted for the uses of an
  execution token, for the ways out of a wait and for commits against an instance revision.
\<close>

section \<open>At most one winner\<close>

text \<open>
  Operations that compete for one thing: an attempt succeeds only while the thing is available,
  takes it, and no step makes it available again. Then at most one attempt of a run succeeds.
\<close>

locale one_winner =
  fixes step :: "'s \<Rightarrow> 's \<Rightarrow> bool"
    and inv :: "'s \<Rightarrow> bool"
    and available :: "'s \<Rightarrow> bool"
    and attempt :: "'r \<Rightarrow> 's \<Rightarrow> 'e + 's"
  assumes inv_step: "inv s \<Longrightarrow> step s s' \<Longrightarrow> inv s'"
    and taken_stays: "inv s \<Longrightarrow> step s s' \<Longrightarrow> \<not> available s \<Longrightarrow> \<not> available s'"
    and attempt_available: "inv s \<Longrightarrow> attempt r s = Inr s' \<Longrightarrow> available s"
    and attempt_takes: "inv s \<Longrightarrow> attempt r s = Inr s' \<Longrightarrow> \<not> available s'"
begin

lemma taken_forever:
  assumes "step\<^sup>*\<^sup>* s s'" and "inv s" and "\<not> available s"
  shows "inv s' \<and> \<not> available s'"
  using assms
proof (induction rule: rtranclp_induct)
  case (step y z)
  then have "inv y" "\<not> available y" by simp_all
  with step.hyps(2) show ?case using inv_step taken_stays by metis
qed simp

lemma at_most_one:
  assumes "inv s" and "attempt r s = Inr s1" and "inv s1" and "step\<^sup>*\<^sup>* s1 s2"
  shows "\<not> is_ok (attempt r' s2)"
proof
  assume "is_ok (attempt r' s2)"
  then obtain s3 where "attempt r' s2 = Inr s3" by (auto dest: is_okD)
  moreover have "inv s2 \<and> \<not> available s2"
    using taken_forever [OF assms(4,3)] attempt_takes [OF assms(1,2)] by blast
  ultimately show False using attempt_available by blast
qed

end

section \<open>Execution tokens\<close>

text \<open>
  The operations a worker calls with the token of its execution, with the flags the engine
  passes to the repository.
\<close>

datatype token_use =
    Use_commit CommitExecutionRequest
  | Use_fail FailExecutionRequest
  | Use_park ParkExecutionRequest
  | Use_wait StartSignalWaitRequest
  | Use_branch StartBranchScopeRequest

fun use_execution :: "token_use \<Rightarrow> string" where
  "use_execution (Use_commit req) = bm_ID (cm_Execution req)"
| "use_execution (Use_fail req) = bm_ID (fl_Execution req)"
| "use_execution (Use_park req) = bm_ID (pk_Execution req)"
| "use_execution (Use_wait req) = bm_ID (ss_Execution req)"
| "use_execution (Use_branch req) = bm_ID (sb_Execution req)"

fun use_token :: "engine_env \<Rightarrow> int \<Rightarrow> token_use \<Rightarrow> EngineState \<Rightarrow> EngineState result" where
  "use_token env now (Use_commit req) st =
     CommitExecution env now (req\<lparr>cm_VerifyToken := True, cm_ExpectedStatus := ExecStatusDispatched\<rparr>) st"
| "use_token env now (Use_fail req) st =
     FailExecution env now (req\<lparr>fl_VerifyToken := True, fl_ExpectedStatus := ExecStatusDispatched\<rparr>) st"
| "use_token env now (Use_park req) st = ParkExecution env now req st"
| "use_token env now (Use_wait req) st = Runtime_StartSignalWait env now req st"
| "use_token env now (Use_branch req) st = Runtime_StartBranchScope env now req st"

text \<open>The callers' side of a use, as in the rules of \<^const>\<open>engine_step\<close>.\<close>

fun use_ok :: "engine_env \<Rightarrow> token_use \<Rightarrow> EngineState \<Rightarrow> bool" where
  "use_ok env (Use_commit req) st \<longleftrightarrow> env_ok env \<and> snapshot (cm_Execution req) st \<and>
     bm_ID (cm_Instance req) = ex_InstanceID (cm_Execution req)"
| "use_ok env (Use_fail req) st \<longleftrightarrow> phase (fl_Status req) = 2"
| "use_ok env (Use_park req) st \<longleftrightarrow> True"
| "use_ok env (Use_wait req) st \<longleftrightarrow> True"
| "use_ok env (Use_branch req) st \<longleftrightarrow> env_ok env \<and> list_all child_ok (sb_LaunchChildren req)"

lemma use_token_step:
  assumes "use_token env now u st = Inr st'" and "use_ok env u st"
  shows "engine_step st st'"
proof (cases u)
  case (Use_commit req)
  let ?req = "req\<lparr>cm_VerifyToken := True, cm_ExpectedStatus := ExecStatusDispatched\<rparr>"
  show ?thesis by (rule step_commit [of env ?req]) (use assms Use_commit in auto)
next
  case (Use_fail req)
  let ?req = "req\<lparr>fl_VerifyToken := True, fl_ExpectedStatus := ExecStatusDispatched\<rparr>"
  show ?thesis by (rule step_fail [of ?req]) (use assms Use_fail in auto)
next
  case (Use_park req)
  with assms(1) have "ParkExecution env now req st = Inr st'" by simp
  then show ?thesis by (rule step_park)
next
  case (Use_wait req)
  with assms(1) have "Runtime_StartSignalWait env now req st = Inr st'" by simp
  then show ?thesis by (rule step_signal_wait)
next
  case (Use_branch req)
  show ?thesis by (rule step_start_scope [of env req]) (use assms Use_branch in auto)
qed

text \<open>An execution is available to its worker: not created yet, or still in its first phase.\<close>

definition in_phase :: "nat \<Rightarrow> string \<Rightarrow> EngineState \<Rightarrow> bool" where
  "in_phase p x st \<longleftrightarrow> x \<notin> bm_ID ` set (es_execs st) \<or>
     (\<exists>e. db_get (es_execs st) x = Some e \<and> phase (ex_Status e) \<le> p)"

lemma left_phase_stays:
  assumes "engine_inv st" and "engine_step st st'" and "\<not> in_phase p x st"
  shows "\<not> in_phase p x st'"
proof
  assume in': "in_phase p x st'"
  have mono: "exec_mono (es_execs st) (es_execs st')" using engine_step_mono [OF assms(1,2)] by (simp add: core_of_def)
  from assms(3) have x: "x \<in> bm_ID ` set (es_execs st)" by (simp add: in_phase_def)
  with mono have "x \<in> bm_ID ` set (es_execs st')" by (auto simp: exec_mono_def)
  with in' obtain e' where e': "db_get (es_execs st') x = Some e'" "phase (ex_Status e') \<le> p" by (auto simp: in_phase_def)
  obtain e where "db_get (es_execs st) x = Some e" "phase (ex_Status e) \<le> phase (ex_Status e')"
    by (rule exec_monoD [OF mono e'(1) x])
  with e'(2) assms(3) show False by (auto simp: in_phase_def)
qed

lemma left_phaseI:
  assumes "engine_inv st" and "db_get (es_execs st) x = Some e" and "p < phase (ex_Status e)"
  shows "\<not> in_phase p x st"
  using assms by (auto simp: in_phase_def dest: db_get_ID)

lemma db_get_one:
  "keeps_key f \<Longrightarrow> db_get t x = Some e \<Longrightarrow> db_get (db_update (\<lambda>e. bm_ID e = x) f t) x = Some (f e)"
  by (simp add: db_get_update_id)

lemma left_phase_table:
  assumes "es_execs st' = db_update (\<lambda>e. bm_ID e = x) f t" and "keeps_key f" and "db_get t x = Some e"
    and "p < phase (ex_Status (f e))"
  shows "\<not> in_phase p x st'"
proof -
  have "db_get (es_execs st') x = Some (f e)" unfolding assms(1) by (rule db_get_one [OF assms(2,3)])
  with assms(4) show ?thesis by (auto simp: in_phase_def dest: db_get_ID)
qed

lemma takes_table:
  assumes "db_get (es_execs st) x = Some e" and "phase (ex_Status e) \<le> p"
    and "es_execs st' = db_update (\<lambda>e. bm_ID e = x) f (es_execs st)" and "keeps_key f" and "p < phase (ex_Status (f e))"
  shows "in_phase p x st \<and> \<not> in_phase p x st'"
proof
  show "in_phase p x st" using assms(1,2) by (auto simp: in_phase_def)
  show "\<not> in_phase p x st'" by (rule left_phase_table [OF assms(3,4,1,5)])
qed

lemma left_phase_insert:
  assumes "db_insert no_conflict row (db_update (\<lambda>e. bm_ID e = x) f t) = Some (es_execs st')" and "live row"
    and "keeps_key f" and "db_get t x = Some e" and "p < phase (ex_Status (f e))"
  shows "\<not> in_phase p x st'"
proof -
  have "db_get (db_update (\<lambda>e. bm_ID e = x) f t) x = Some (f e)" by (rule db_get_one [OF assms(3,4)])
  then have "db_get (es_execs st') x = Some (f e)"
    using insert_mono(2) [OF assms(1,2), of x] by (auto dest: db_get_ID)
  with assms(5) show ?thesis by (auto simp: in_phase_def dest: db_get_ID)
qed

lemma commit_closes:
  assumes ok: "CommitExecution env now req st = Inr st'" and ids: "ids_ok (es_execs st)" "ids_ok (es_instances st)"
  obtains e m m' where "db_get (es_execs st) (bm_ID (cm_Execution req)) = Some e" "ex_Status e = cm_ExpectedStatus req"
    "\<not> in_phase 1 (bm_ID (cm_Execution req)) st'"
    "db_get (es_instances st) (bm_ID (cm_Instance req)) = Some m" "wi_Revision m = wi_Revision (cm_Instance req)"
    "db_get (es_instances st') (bm_ID (cm_Instance req)) = Some m'" "wi_Revision m' = wi_Revision (cm_Instance req) + 1"
proof -
  let ?x = "bm_ID (cm_Execution req)" and ?k = "bm_ID (cm_Instance req)"
  let ?t = "db_update (\<lambda>e. bm_ID e = ?x) (committed now (commit_hash env req)) (es_execs st)"
  obtain e m where e: "db_get (es_execs st) ?x = Some e" "ex_Status e = cm_ExpectedStatus req"
      and m: "db_get (es_instances st) ?k = Some m" "wi_Revision m = wi_Revision (cm_Instance req)"
      and empty: "cm_NextState req = [] \<Longrightarrow> es_execs st' = ?t \<and>
        es_instances st' = db_update (\<lambda>i. bm_ID i = ?k) (finished now (cm_InstanceVars req)) (es_instances st)"
      and nonempty: "cm_NextState req \<noteq> [] \<Longrightarrow> db_insert no_conflict (next_row env now req) ?t = Some (es_execs st') \<and>
        es_instances st' = db_update (\<lambda>i. bm_ID i = ?k) (advanced now (cm_NextState req) (cm_InstanceVars req)) (es_instances st)"
    using CommitExecution_effect [OF ok ids] by metis
  have "\<not> in_phase 1 ?x st' \<and> (\<exists>m'. db_get (es_instances st') ?k = Some m' \<and> wi_Revision m' = wi_Revision (cm_Instance req) + 1)"
  proof (cases "cm_NextState req = []")
    case True
    have "\<not> in_phase 1 ?x st'" by (rule left_phase_table [OF conjunct1 [OF empty [OF True]] _ e(1)]) simp_all
    with empty [OF True] m show ?thesis by (simp add: db_get_update_id)
  next
    case False
    have "\<not> in_phase 1 ?x st'" by (rule left_phase_insert [OF conjunct1 [OF nonempty [OF False]] _ _ e(1)]) simp_all
    with nonempty [OF False] m show ?thesis by (simp add: db_get_update_id)
  qed
  with e m that show ?thesis by blast
qed

lemma in_phase_le: "in_phase p x st \<Longrightarrow> p \<le> q \<Longrightarrow> in_phase q x st"
  by (auto simp: in_phase_def intro: order_trans)

lemma child_execs:
  assumes "createScopedChildRecords env now c st = Inr st'"
  obtains row where "live row" and "db_insert no_conflict row (es_execs st) = Some (es_execs st')"
proof -
  from assms obtain st1 st2 where
      "insert_instance env ''create scoped child instance'' ''child instance'' now (ch_Instance c) st = Inr st1"
      "insert_execution env ''create scoped child execution'' (''child execution '' @ bm_ID (ch_Instance c)) now (ch_Execution c) st1 = Inr st2"
      "es_execs st' = es_execs st2"
    by (auto simp: createScopedChildRecords_def Let_def res_simps split: option.splits dest!: insert_other_InrD(2))
  then show ?thesis
    by (intro that [of "execution_row env (''child execution '' @ bm_ID (ch_Instance c)) now (ch_Execution c)"])
      (auto dest!: insert_instance_InrD insert_execution_InrD)
qed

lemma children_execs:
  assumes "create_children env now cs st = Inr st'"
  shows "bm_ID ` set (es_execs st) \<subseteq> bm_ID ` set (es_execs st') \<and>
    (\<forall>i \<in> bm_ID ` set (es_execs st). db_get (es_execs st') i = db_get (es_execs st) i)"
  using assms
proof (induction cs arbitrary: st)
  case (Cons c cs)
  from Cons.prems obtain st1 where st1: "createScopedChildRecords env now c st = Inr st1"
      "create_children env now cs st1 = Inr st'" by (auto simp: res_simps)
  obtain row where "live row" "db_insert no_conflict row (es_execs st) = Some (es_execs st1)"
    by (rule child_execs [OF st1(1)])
  note row = insert_mono [OF this(2,1)] and rest = Cons.IH [OF st1(2)]
  show ?case
  proof (intro conjI ballI)
    show "bm_ID ` set (es_execs st) \<subseteq> bm_ID ` set (es_execs st')" by (rule order_trans [OF row(1) conjunct1 [OF rest]])
    fix i assume i: "i \<in> bm_ID ` set (es_execs st)"
    then have "i \<in> bm_ID ` set (es_execs st1)" using row(1) by (rule rev_subsetD)
    with rest row(2) [OF i] show "db_get (es_execs st') i = db_get (es_execs st) i" by metis
  qed
qed simp

text \<open>What every use of a token finds and leaves behind.\<close>

lemma use_token_phase:
  assumes "engine_inv st" and "use_token env now u st = Inr st'" and "\<And>req. u = Use_fail req \<Longrightarrow> 0 < phase (fl_Status req)"
  shows "in_phase 0 (use_execution u) st \<and> \<not> in_phase 0 (use_execution u) st'"
proof -
  have ids: "ids_ok (es_execs st)" "ids_ok (es_instances st)" using assms(1) by (simp_all add: engine_inv_def core_of_def)
  show ?thesis
  proof (cases u)
    case (Use_commit req)
    then have ok: "CommitExecution env now (req\<lparr>cm_VerifyToken := True, cm_ExpectedStatus := ExecStatusDispatched\<rparr>) st = Inr st'"
      using assms(2) by simp
    obtain e where "db_get (es_execs st) (bm_ID (cm_Execution req)) = Some e" "ex_Status e = ExecStatusDispatched"
        "\<not> in_phase 1 (bm_ID (cm_Execution req)) st'"
      by (rule commit_closes [OF ok ids]) simp
    then have "in_phase 0 (bm_ID (cm_Execution req)) st" "\<not> in_phase 0 (bm_ID (cm_Execution req)) st'"
      using in_phase_le [of 0 _ st' 1] by (auto simp: in_phase_def [of _ _ st])
    with Use_commit show ?thesis by simp
  next
    case (Use_fail req)
    then have ok: "FailExecution env now (req\<lparr>fl_VerifyToken := True, fl_ExpectedStatus := ExecStatusDispatched\<rparr>) st = Inr st'"
      using assms(2) by simp
    obtain e f where e: "db_get (es_execs st) (bm_ID (fl_Execution req)) = Some e" "ex_Status e = ExecStatusDispatched"
        and st': "es_execs st' = db_update (\<lambda>e. bm_ID e = bm_ID (fl_Execution req)) f (es_execs st)"
        and f: "keeps_key f" "ex_Status (f e) = fl_Status req"
      by (rule FailExecution_effect [OF ok ids(1)]) simp
    have "in_phase 0 (bm_ID (fl_Execution req)) st \<and> \<not> in_phase 0 (bm_ID (fl_Execution req)) st'"
      by (rule takes_table [OF e(1) _ st' f(1)]) (use e(2) f(2) Use_fail assms(3) in simp_all)
    with Use_fail show ?thesis by simp
  next
    case (Use_park req)
    with assms(2) obtain e where e: "db_get (es_execs st) (bm_ID (pk_Execution req)) = Some e" "ex_Status e = ExecStatusDispatched"
        and st': "es_execs st' = db_update (\<lambda>e. bm_ID e = bm_ID (pk_Execution req)) (parked now) (es_execs st)"
      by (auto simp: ParkExecution_def Let_def res_simps lockExecutionByToken_def
          dest!: lockExecution_InrD [OF _ ids(1)] updateExecutionByID_InrD insert_other_InrD)
    have "in_phase 0 (bm_ID (pk_Execution req)) st \<and> \<not> in_phase 0 (bm_ID (pk_Execution req)) st'"
      by (rule takes_table [OF e(1) _ st']) (use e(2) in simp_all)
    with Use_park show ?thesis by simp
  next
    case (Use_wait req)
    with assms(2) obtain e where e: "db_get (es_execs st) (bm_ID (ss_Execution req)) = Some e" "ex_Status e = ExecStatusDispatched"
        and st': "es_execs st' = db_update (\<lambda>e. bm_ID e = bm_ID (ss_Execution req)) (parked now) (es_execs st)"
      by (auto simp: Runtime_StartSignalWait_def Let_def res_simps lockExecutionByToken_def
          dest!: lockExecution_InrD [OF _ ids(1)] updateExecutionByID_InrD insert_other_InrD)
    have "in_phase 0 (bm_ID (ss_Execution req)) st \<and> \<not> in_phase 0 (bm_ID (ss_Execution req)) st'"
      by (rule takes_table [OF e(1) _ st']) (use e(2) in simp_all)
    with Use_wait show ?thesis by simp
  next
    case (Use_branch req)
    let ?x = "bm_ID (sb_Execution req)"
    from Use_branch assms(2) obtain e st1 st2 st3 where lock: "lockExecution env ?x ExecStatusDispatched (sb_TokenHash req) True st = Inr e"
        and st1: "updateExecutionByID env ?x (parked now) st = Inr st1"
        and scope: "insert_scope env ''create workflow scope run'' ''scope'' now (sb_Scope req) st1 = Inr st2"
        and st3: "create_children env now (sb_LaunchChildren req) st2 = Inr st3" and st': "es_execs st' = es_execs st3"
      by (auto simp: Runtime_StartBranchScope_def Let_def res_simps lockExecutionByToken_def dest!: insert_other_InrD(2))
    from lock have e: "db_get (es_execs st) ?x = Some e" "ex_Status e = ExecStatusDispatched"
      by (auto dest!: lockExecution_InrD [OF _ ids(1)])
    from st1 scope have "es_execs st2 = db_update (\<lambda>e. bm_ID e = ?x) (parked now) (es_execs st)"
      by (auto dest!: updateExecutionByID_InrD insert_other_InrD)
    then have "db_get (es_execs st2) ?x = Some (parked now e)" using db_get_one e(1) by (metis keeps_key_updates(2))
    then have "db_get (es_execs st') ?x = Some (parked now e)" using children_execs [OF st3] st' by (metis db_get_ID)
    with e Use_branch show ?thesis by (auto simp: in_phase_def dest: db_get_ID)
  qed
qed

interpretation token: one_winner engine_step engine_inv "in_phase 0 x"
    "\<lambda>(env, now, u) st. if use_execution u = x \<and> (\<forall>req. u = Use_fail req \<longrightarrow> phase (fl_Status req) = 2)
       then use_token env now u st else Inl ErrInvalidExecutionToken" for x
proof (unfold_locales, goal_cases)
  case 1 then show ?case by (rule engine_step_inv)
next
  case 2 then show ?case by (rule left_phase_stays)
next
  case (3 s r s') then show ?case using use_token_phase [of s "fst r" "fst (snd r)" "snd (snd r)" s'] by (auto split: prod.splits if_splits)
next
  case (4 s r s') then show ?case using use_token_phase [of s "fst r" "fst (snd r)" "snd (snd r)" s'] by (auto split: prod.splits if_splits)
qed

section \<open>Waiting executions\<close>

text \<open>The two ways out of a wait: completion by a timer, a signal or a scope, and failure.\<close>

datatype wake_up = Wake_commit CommitExecutionRequest | Wake_fail FailExecutionRequest

fun wake_execution :: "wake_up \<Rightarrow> string" where
  "wake_execution (Wake_commit req) = bm_ID (cm_Execution req)"
| "wake_execution (Wake_fail req) = bm_ID (fl_Execution req)"

fun wake :: "engine_env \<Rightarrow> int \<Rightarrow> wake_up \<Rightarrow> EngineState \<Rightarrow> EngineState result" where
  "wake env now (Wake_commit req) st =
     CommitExecution env now (req\<lparr>cm_VerifyToken := False, cm_ExpectedStatus := ExecStatusWaiting\<rparr>) st"
| "wake env now (Wake_fail req) st =
     FailExecution env now (req\<lparr>fl_VerifyToken := False, fl_ExpectedStatus := ExecStatusWaiting\<rparr>) st"

fun wake_ok :: "engine_env \<Rightarrow> wake_up \<Rightarrow> EngineState \<Rightarrow> bool" where
  "wake_ok env (Wake_commit req) st \<longleftrightarrow> env_ok env \<and> snapshot (cm_Execution req) st \<and>
     bm_ID (cm_Instance req) = ex_InstanceID (cm_Execution req)"
| "wake_ok env (Wake_fail req) st \<longleftrightarrow> phase (fl_Status req) = 2"

lemma wake_step:
  assumes "wake env now w st = Inr st'" and "wake_ok env w st"
  shows "engine_step st st'"
proof (cases w)
  case (Wake_commit req)
  let ?req = "req\<lparr>cm_VerifyToken := False, cm_ExpectedStatus := ExecStatusWaiting\<rparr>"
  show ?thesis by (rule step_commit [of env ?req]) (use assms Wake_commit in auto)
next
  case (Wake_fail req)
  let ?req = "req\<lparr>fl_VerifyToken := False, fl_ExpectedStatus := ExecStatusWaiting\<rparr>"
  show ?thesis by (rule step_fail [of ?req]) (use assms Wake_fail in auto)
qed

lemma wake_phase:
  assumes "engine_inv st" and "wake env now w st = Inr st'" and "\<And>req. w = Wake_fail req \<Longrightarrow> phase (fl_Status req) = 2"
  shows "in_phase 1 (wake_execution w) st \<and> \<not> in_phase 1 (wake_execution w) st'"
proof -
  have ids: "ids_ok (es_execs st)" "ids_ok (es_instances st)" using assms(1) by (simp_all add: engine_inv_def core_of_def)
  show ?thesis
  proof (cases w)
    case (Wake_commit req)
    then have ok: "CommitExecution env now (req\<lparr>cm_VerifyToken := False, cm_ExpectedStatus := ExecStatusWaiting\<rparr>) st = Inr st'"
      using assms(2) by simp
    obtain e where "db_get (es_execs st) (bm_ID (cm_Execution req)) = Some e" "ex_Status e = ExecStatusWaiting"
        "\<not> in_phase 1 (bm_ID (cm_Execution req)) st'"
      by (rule commit_closes [OF ok ids]) simp
    with Wake_commit show ?thesis by (auto simp: in_phase_def [of _ _ st])
  next
    case (Wake_fail req)
    then have ok: "FailExecution env now (req\<lparr>fl_VerifyToken := False, fl_ExpectedStatus := ExecStatusWaiting\<rparr>) st = Inr st'"
      using assms(2) by simp
    obtain e f where e: "db_get (es_execs st) (bm_ID (fl_Execution req)) = Some e" "ex_Status e = ExecStatusWaiting"
        and st': "es_execs st' = db_update (\<lambda>e. bm_ID e = bm_ID (fl_Execution req)) f (es_execs st)"
        and f: "keeps_key f" "ex_Status (f e) = fl_Status req"
      by (rule FailExecution_effect [OF ok ids(1)]) simp
    have "in_phase 1 (bm_ID (fl_Execution req)) st \<and> \<not> in_phase 1 (bm_ID (fl_Execution req)) st'"
      by (rule takes_table [OF e(1) _ st' f(1)]) (use e(2) f(2) Wake_fail assms(3) in simp_all)
    with Wake_fail show ?thesis by simp
  qed
qed

interpretation waiting: one_winner engine_step engine_inv "in_phase 1 x"
    "\<lambda>(env, now, w) st. if wake_execution w = x \<and> (\<forall>req. w = Wake_fail req \<longrightarrow> phase (fl_Status req) = 2)
       then wake env now w st else Inl ErrStaleMutation" for x
proof (unfold_locales, goal_cases)
  case 1 then show ?case by (rule engine_step_inv)
next
  case 2 then show ?case by (rule left_phase_stays)
next
  case (3 s r s') then show ?case using wake_phase [of s "fst r" "fst (snd r)" "snd (snd r)" s'] by (auto split: prod.splits if_splits)
next
  case (4 s r s') then show ?case using wake_phase [of s "fst r" "fst (snd r)" "snd (snd r)" s'] by (auto split: prod.splits if_splits)
qed

section \<open>Revisions\<close>

definition at_revision :: "string \<Rightarrow> int \<Rightarrow> EngineState \<Rightarrow> bool" where
  "at_revision k r st \<longleftrightarrow> k \<notin> bm_ID ` set (es_instances st) \<or>
     (\<exists>m. db_get (es_instances st) k = Some m \<and> wi_Revision m \<le> r)"

lemma past_revision_stays:
  assumes "engine_inv st" and "engine_step st st'" and "\<not> at_revision k r st"
  shows "\<not> at_revision k r st'"
proof
  assume in': "at_revision k r st'"
  have mono: "inst_mono (es_instances st) (es_instances st')" using engine_step_mono [OF assms(1,2)] by (simp add: core_of_def)
  from assms(3) have k: "k \<in> bm_ID ` set (es_instances st)" by (simp add: at_revision_def)
  with mono have "k \<in> bm_ID ` set (es_instances st')" by (auto simp: inst_mono_def)
  with in' obtain m' where m': "db_get (es_instances st') k = Some m'" "wi_Revision m' \<le> r" by (auto simp: at_revision_def)
  obtain m where "db_get (es_instances st) k = Some m" "wi_Revision m \<le> wi_Revision m'"
    by (rule inst_monoD [OF mono m'(1) k])
  with m'(2) assms(3) show False by (auto simp: at_revision_def)
qed

lemma commit_revision:
  assumes "engine_inv st" and "CommitExecution env now req st = Inr st'"
  shows "at_revision (bm_ID (cm_Instance req)) (wi_Revision (cm_Instance req)) st \<and>
    \<not> at_revision (bm_ID (cm_Instance req)) (wi_Revision (cm_Instance req)) st'"
proof -
  have ids: "ids_ok (es_execs st)" "ids_ok (es_instances st)" using assms(1) by (simp_all add: engine_inv_def core_of_def)
  show ?thesis
    by (rule commit_closes [OF assms(2) ids]) (auto simp: at_revision_def dest: db_get_ID)
qed

interpretation revision: one_winner engine_step engine_inv "at_revision k r"
    "\<lambda>(env, now, req) st. if bm_ID (cm_Instance req) = k \<and> wi_Revision (cm_Instance req) = r
       then CommitExecution env now req st else Inl ErrStaleMutation" for k r
proof (unfold_locales, goal_cases)
  case 1 then show ?case by (rule engine_step_inv)
next
  case 2 then show ?case by (rule past_revision_stays)
next
  case (3 s q s') then show ?case using commit_revision [of s "fst q" "fst (snd q)" "snd (snd q)" s'] by (auto split: prod.splits if_splits)
next
  case (4 s q s') then show ?case using commit_revision [of s "fst q" "fst (snd q)" "snd (snd q)" s'] by (auto split: prod.splits if_splits)
qed

end
