(* ===== verification/Signal_Delivery.thy ===== *)
theory Signal_Delivery
  imports Engine_Races
begin

text \<open>
  Signals: which message and which wait a delivery takes, what it writes, and that a message is
  delivered at most once along every run of the engine.
\<close>

section \<open>Signal messages\<close>

text \<open>The tables of messages and waits: which transactions leave them alone.\<close>

lemma insert_message_InrD:
  assumes "insert_message env label role now m st = Inr st'"
  obtains row where "live row" "bm_ID row = (if bm_ID m = [] then ee_id env role else bm_ID m)" "sm_Status row = sm_Status m"
    "db_insert no_conflict row (es_messages st) = Some (es_messages st')"
proof -
  let ?row = "(with_id (ee_id env role) now m)\<lparr>sm_Payload := json_default (VMap []) (sm_Payload m)\<rparr>"
  show ?thesis
    by (rule that [of ?row]) (use assms in \<open>auto simp: insert_message_def Let_def res_simps live_def with_id_def dest!: create_InrD\<close>)
qed

lemma commit_messages: "CommitExecution env now req st = Inr st' \<Longrightarrow> es_messages st' = es_messages st"
  by (auto simp: CommitExecution_def storeCommitExecutionOutput_def markExecutionCommitted_def completeInstance_def
      createCommitNextExecution_def transitionInstance_def appendCommitTransitionAudit_def updateExecutionByID_def Let_def res_simps
      split: if_splits dest!: insert_execution_InrD insert_other_InrD)

lemma other_messages:
  "ParkExecution env now r1 st = Inr st' \<Longrightarrow> es_messages st' = es_messages st"
  "Runtime_StartSignalWait env now r2 st = Inr st' \<Longrightarrow> es_messages st' = es_messages st"
  "FailExecution env now r3 st = Inr st' \<Longrightarrow> es_messages st' = es_messages st"
  "UpdateExecutionStatus env now e s st = Inr st' \<Longrightarrow> es_messages st' = es_messages st"
  "UpdateStatusExpected env now x s t cs st = Inr st' \<Longrightarrow> es_messages st' = es_messages st"
  "UpdateStatus env now x s cs st = Inr st' \<Longrightarrow> es_messages st' = es_messages st"
  "MaterializeRetry env now x e st = Inr st' \<Longrightarrow> es_messages st' = es_messages st"
  "MarkTimedOutAndCreateRetry env now x e st = Inr st' \<Longrightarrow> es_messages st' = es_messages st"
  "MarkTerminalTimeout env now x msg st = Inr st' \<Longrightarrow> es_messages st' = es_messages st"
  "CreateRetryExecution env now r4 st = Inr (row, st') \<Longrightarrow> es_messages st' = es_messages st"
  "Instance_UpdateStatus env now k s' st = Inr st' \<Longrightarrow> es_messages st' = es_messages st"
  "Exec_DeleteCompletedBefore env now cutoff limit st = Inr (n, st') \<Longrightarrow> es_messages st' = es_messages st"
  by (auto simp: ParkExecution_def Runtime_StartSignalWait_def FailExecution_def UpdateExecutionStatus_def
      UpdateStatusExpected_def UpdateStatus_def MaterializeRetry_def MarkTimedOutAndCreateRetry_def MarkTerminalTimeout_def
      CreateRetryExecution_def Instance_UpdateStatus_def Exec_DeleteCompletedBefore_def Let_def res_simps
      dest!: updateExecutionByID_InrD insert_execution_InrD insert_other_InrD split: if_splits)

lemma child_messages: "createScopedChildRecords env now c st = Inr st' \<Longrightarrow> es_messages st' = es_messages st"
  by (auto simp: createScopedChildRecords_def Let_def res_simps split: option.splits
      dest!: insert_instance_InrD insert_execution_InrD insert_other_InrD)

lemma children_messages: "create_children env now cs st = Inr st' \<Longrightarrow> es_messages st' = es_messages st"
proof (induction cs arbitrary: st)
  case (Cons c cs)
  then obtain st1 where "createScopedChildRecords env now c st = Inr st1" "create_children env now cs st1 = Inr st'"
    by (auto simp: res_simps)
  with Cons.IH child_messages show ?case by metis
qed simp

lemma scope_messages:
  "Runtime_StartBranchScope env now r st = Inr st' \<Longrightarrow> es_messages st' = es_messages st"
  "UpdateScope env now u st = Inr st' \<Longrightarrow> es_messages st' = es_messages st"
  by (auto simp: Runtime_StartBranchScope_def UpdateScope_def Let_def res_simps split: if_splits
      dest!: updateExecutionByID_InrD insert_other_InrD dest: children_messages)

text \<open>A claim: the oldest pending message, the oldest wait, and what is written.\<close>

lemma leased_simps [simp]:
  "keeps_key (leased req now)" "sm_Status (leased req now m) = sm_Status m" "sm_ClaimOwner (leased req now m) = cs_Owner req"
  "keeps_key (delivered now w)" "sm_Status (delivered now w m) = ''delivered''" "sm_WaitID (delivered now w m) = w"
  "keeps_key (matched now i)" "sw_Status (matched now i v) = ''matched''" "sw_MessageID (matched now i v) = i"
  by (simp_all add: keeps_key_def leased_def delivered_def matched_def)

lemma first_age:
  assumes "ids_ok tbl" and "first_by age_order (db_select P tbl) = Some r"
  shows "db_get tbl (bm_ID r) = Some r \<and> P r \<and> (\<forall>x \<in> set tbl. live x \<longrightarrow> P x \<longrightarrow> age_order r \<le> age_order x)"
  using first_by_SomeD [OF assms(2)] by (auto simp: db_select_def db_get_iff [OF assms(1)])

lemma claim_effect:
  assumes ok: "ClaimSignalDelivery env now req st = Inr (c, st')" and ids: "ids_ok (es_messages st)"
  obtains (none) "c = None" "es_messages st' = es_messages st" "es_waits st' = es_waits st"
  | (leased) m where "c = None" "db_get (es_messages st) (bm_ID m) = Some m" "pending_for (cs_InstanceID req) (cs_SignalName req) m"
      "es_messages st' = db_update (\<lambda>x. bm_ID x = bm_ID m) (leased req now) (es_messages st)" "es_waits st' = es_waits st"
  | (delivered) m w m' w' where "c = Some (m', w')" "bm_ID m' = bm_ID m" "bm_ID w' = bm_ID w"
      "first_by age_order (db_select (pending_for (cs_InstanceID req) (cs_SignalName req)) (es_messages st)) = Some m"
      "first_by age_order (db_select (waiting_for (cs_InstanceID req) (cs_SignalName req)) (es_waits st)) = Some w"
      "db_get (es_messages st') (bm_ID m) = Some (delivered now (bm_ID w) (leased req now m))"
      "\<And>i. i \<noteq> bm_ID m \<Longrightarrow> db_get (es_messages st') i = db_get (es_messages st) i"
      "map bm_ID (es_messages st') = map bm_ID (es_messages st)"
      "ids_ok (es_waits st) \<Longrightarrow> db_get (es_waits st') (bm_ID w) = Some (matched now (bm_ID m) w)"
      "\<And>i. i \<noteq> bm_ID w \<Longrightarrow> db_get (es_waits st') i = db_get (es_waits st) i"
proof -
  let ?sel = "db_select (pending_for (cs_InstanceID req) (cs_SignalName req)) (es_messages st)"
  show ?thesis
  proof (cases "first_by age_order ?sel")
    case None
    with ok have "c = None" "st' = st"
      by (auto simp: ClaimSignalDelivery_def claimPendingSignalMessage_def res_simps)
    then show ?thesis by (intro none) auto
  next
    case (Some m)
    have m: "db_get (es_messages st) (bm_ID m) = Some m" "pending_for (cs_InstanceID req) (cs_SignalName req) m"
      using first_age [OF ids Some] by auto
    let ?st1 = "st\<lparr>es_messages := db_update (\<lambda>x. bm_ID x = bm_ID m) (leased req now) (es_messages st)\<rparr>"
    let ?m1 = "m\<lparr>sm_ClaimOwner := cs_Owner req, sm_ClaimUntil := Some (cs_LeaseUntil req), sm_Attempts := sm_Attempts m + 1\<rparr>"
    let ?wsel = "db_select (waiting_for (cs_InstanceID req) (cs_SignalName req)) (es_waits st)"
    from ok Some have rest: "and_then (loadWaitingSignalWait env req ?st1) (\<lambda>w. case w of
           None \<Rightarrow> Inr (None, ?st1)
         | Some wait \<Rightarrow>
             and_then (finalizeSignalDeliveryClaim env req ?m1 wait now ?st1) (\<lambda>(claim, st2).
               Inr (Some claim, st2))) = Inr (c, st')"
      by (auto simp: ClaimSignalDelivery_def claimPendingSignalMessage_def res_simps)
    show ?thesis
    proof (cases "first_by age_order ?wsel")
      case None
      with rest have "c = None" "st' = ?st1" by (auto simp: loadWaitingSignalWait_def res_simps)
      with m show ?thesis by (intro leased) auto
    next
      case w: (Some w)
      have wrow: "db_get (es_waits st) (bm_ID w) = Some w" "waiting_for (cs_InstanceID req) (cs_SignalName req) w"
        if "ids_ok (es_waits st)" using first_age [OF that w] by auto
      let ?P = "\<lambda>x. bm_ID x = bm_ID m \<and> sm_ClaimOwner x = cs_Owner req \<and> sm_Status x = ''pending''"
      let ?Q = "\<lambda>x. bm_ID x = bm_ID w \<and> sw_Status x = ''waiting''"
      from rest w obtain m' w' where c: "c = Some (m', w')" "bm_ID m' = bm_ID m" "bm_ID w' = bm_ID w"
          and msgs: "es_messages st' = db_update ?P (delivered now (bm_ID w))
            (db_update (\<lambda>x. bm_ID x = bm_ID m) (leased req now) (es_messages st))"
          and waits: "es_waits st' = db_update ?Q (matched now (bm_ID m)) (es_waits st)"
        by (auto simp: loadWaitingSignalWait_def finalizeSignalDeliveryClaim_def Let_def res_simps dest!: insert_other_InrD(2))
      have mrow: "bm_ID r = bm_ID m \<Longrightarrow> r = m" if "db_get (es_messages st) i = Some r" for i r
        using that m(1) by (metis db_get_SomeD option.inject)
      show ?thesis
      proof (rule delivered [OF c Some w])
        show "db_get (es_messages st') (bm_ID m) = Some (Runtime_Repository.delivered now (bm_ID w) (Runtime_Repository.leased req now m))"
          using m unfolding msgs by (simp add: db_get_update db_get_update_id pending_for_def)
        show "db_get (es_messages st') i = db_get (es_messages st) i" if "i \<noteq> bm_ID m" for i
          using that unfolding msgs by (cases "db_get (es_messages st) i") (auto simp: db_get_update db_get_update_id dest: db_get_SomeD)
        show "map bm_ID (es_messages st') = map bm_ID (es_messages st)" unfolding msgs by simp
        show "db_get (es_waits st') (bm_ID w) = Some (matched now (bm_ID m) w)" if "ids_ok (es_waits st)"
          using wrow [OF that] unfolding waits by (simp add: db_get_update waiting_for_def)
        show "db_get (es_waits st') i = db_get (es_waits st) i" if "i \<noteq> bm_ID w" for i
          using that unfolding waits by (cases "db_get (es_waits st) i") (auto simp: db_get_update dest: db_get_SomeD)
      qed
    qed
  qed
qed


definition undelivered :: "string \<Rightarrow> EngineState \<Rightarrow> bool" where
  "undelivered i st \<longleftrightarrow> i \<notin> bm_ID ` set (es_messages st) \<or>
     (\<exists>m. db_get (es_messages st) i = Some m \<and> sm_Status m = ''pending'')"

definition messages_ok :: "EngineState \<Rightarrow> bool" where
  "messages_ok st \<longleftrightarrow> ids_ok (es_messages st)"

lemma claim_messages:
  assumes "ClaimSignalDelivery env now req st = Inr (c, st')" and "messages_ok st"
  shows "messages_ok st' \<and> (\<not> undelivered i st \<longrightarrow> \<not> undelivered i st')"
proof -
  have ids: "ids_ok (es_messages st)" using assms(2) by (simp add: messages_ok_def)
  show ?thesis
  proof (rule claim_effect [OF assms(1) ids], goal_cases)
    case 1 then show ?thesis using ids by (simp add: messages_ok_def undelivered_def)
  next
    case (2 m) then show ?thesis using ids by (auto simp: messages_ok_def undelivered_def db_get_update_id)
  next
    case (3 m w m' w')
    have "ids_ok (es_messages st')" using ids 3(8) by (simp add: ids_ok_def)
    moreover have "bm_ID ` set (es_messages st') = bm_ID ` set (es_messages st)" using 3(8) by (metis list.set_map)
    moreover have "\<not> undelivered i st'" if "\<not> undelivered i st"
    proof (cases "i = bm_ID m")
      case True
      with 3(6) show ?thesis by (auto simp: undelivered_def dest: db_get_ID)
    next
      case False
      with 3(7) that calculation(2) show ?thesis by (simp add: undelivered_def)
    qed
    ultimately show ?thesis by (simp add: messages_ok_def)
  qed
qed

lemma send_messages:
  assumes "insert_message env label role now m st = Inr st'" and "env_ok env" and "messages_ok st"
  shows "messages_ok st' \<and> (\<not> undelivered i st \<longrightarrow> \<not> undelivered i st')"
proof -
  obtain row where row: "live row" "bm_ID row = (if bm_ID m = [] then ee_id env role else bm_ID m)"
      "db_insert no_conflict row (es_messages st) = Some (es_messages st')"
    by (rule insert_message_InrD [OF assms(1)])
  have "ids_ok (es_messages st')"
    using ids_ok_insert [OF row(3)] assms(2,3) row(2) by (auto simp: messages_ok_def env_ok_def)
  moreover have "db_get (es_messages st') i = db_get (es_messages st) i \<and> i \<in> bm_ID ` set (es_messages st')"
    if "i \<in> bm_ID ` set (es_messages st)"
    using insert_mono [OF row(3,1)] that by auto
  ultimately show ?thesis by (auto simp: messages_ok_def undelivered_def)
qed

lemma step_messages:
  assumes "engine_step st st'" and "messages_ok st"
  shows "messages_ok st' \<and> (\<not> undelivered i st \<longrightarrow> \<not> undelivered i st')"
proof -
  have same: "messages_ok st' \<and> (\<not> undelivered i st \<longrightarrow> \<not> undelivered i st')" if "es_messages st' = es_messages st"
    using assms(2) that by (simp add: messages_ok_def undelivered_def)
  show ?thesis
    using assms(1)
  proof cases
    case step_claim_signal then show ?thesis using claim_messages assms(2) by metis
  next
    case step_send_signal then show ?thesis using send_messages assms(2) by metis
  next
    case (step_new_instance env label role now i)
    then show ?thesis by (auto intro!: same dest!: insert_instance_InrD)
  next
    case (step_new_execution env e m label role now)
    then show ?thesis by (auto intro!: same dest!: insert_execution_InrD)
  next
    case (step_audit env label role now a)
    then show ?thesis by (auto intro!: same dest!: insert_other_InrD)
  next
    case (step_mark_stale env now x s)
    then show ?thesis unfolding MarkStaleExpected_def by (blast intro!: same dest: other_messages)
  qed (blast intro!: same dest: other_messages commit_messages scope_messages)+
qed

lemma claim_takes:
  assumes "ClaimSignalDelivery env now req st = Inr (Some (m, w), st')" and "messages_ok st"
  shows "undelivered (bm_ID m) st \<and> \<not> undelivered (bm_ID m) st'"
proof -
  have ids: "ids_ok (es_messages st)" using assms(2) by (simp add: messages_ok_def)
  show ?thesis
  proof (rule claim_effect [OF assms(1) ids], goal_cases)
    case (3 m0 w0 m' w')
    then have "m' = m" by simp
    moreover have "db_get (es_messages st) (bm_ID m0) = Some m0" "sm_Status m0 = ''pending''"
      using first_age [OF ids 3(4)] by (auto simp: pending_for_def)
    ultimately show ?thesis using 3(2,6) by (auto simp: undelivered_def dest: db_get_ID)
  qed simp_all
qed

text \<open>Delivering the message \<open>i\<close>, as one attempt.\<close>

fun deliver :: "string \<Rightarrow> engine_env \<times> int \<times> ClaimSignalDeliveryRequest \<Rightarrow> EngineState \<Rightarrow> EngineState result" where
  "deliver i (env, now, req) st = and_then (ClaimSignalDelivery env now req st) (\<lambda>(c, st').
     case c of None \<Rightarrow> Inl ErrStaleMutation
     | Some (m, w) \<Rightarrow> and_then (guard (bm_ID m = i) ErrStaleMutation) (\<lambda>_. Inr st'))"

lemma deliver_iff:
  "deliver i (env, now, req) st = Inr st' \<longleftrightarrow> (\<exists>m w. ClaimSignalDelivery env now req st = Inr (Some (m, w), st') \<and> bm_ID m = i)"
  by (auto simp: res_simps split: option.splits prod.splits)

interpretation message: one_winner engine_step messages_ok "undelivered i" "deliver i" for i
proof (unfold_locales, goal_cases)
  case 1 then show ?case using step_messages by blast
next
  case 2 then show ?case using step_messages by blast
next
  case (3 s r s') then show ?case by (cases r) (auto simp: deliver_iff simp del: deliver.simps dest: claim_takes)
next
  case (4 s r s') then show ?case by (cases r) (auto simp: deliver_iff simp del: deliver.simps dest: claim_takes)
qed

lemma reachable_messages: "engine_reachable st \<Longrightarrow> messages_ok st"
proof -
  assume "engine_reachable st"
  then obtain s where s: "initial_state s" "engine_step\<^sup>*\<^sup>* s st" unfolding engine_reachable_def by blast
  from s(1) have "messages_ok s" by (simp add: initial_state_def messages_ok_def ids_ok_def)
  with s(2) show ?thesis by (induction rule: rtranclp_induct) (use step_messages in blast)+
qed

end
