(* ===== verification/Engine_Correct.thy ===== *)
theory Engine_Correct
  imports Signal_Delivery
begin

text \<open>
  The properties of the engine's transactions: over all runs of the transition system
  \<^const>\<open>engine_step\<close> (one open execution per instance, tokens and waits used once, one commit per
  revision, outputs stored once), and what a commit does.
\<close>

section \<open>When a commit succeeds\<close>


definition commit_ready :: "CommitExecutionRequest \<Rightarrow> EngineState \<Rightarrow> bool" where
  "commit_ready req st \<longleftrightarrow>
     (\<exists>e m. db_get (es_execs st) (bm_ID (cm_Execution req)) = Some e \<and> ex_Status e = cm_ExpectedStatus req \<and>
        (cm_VerifyToken req \<longrightarrow> ex_ExecutionToken e = cm_TokenHash req) \<and>
        db_get (es_instances st) (bm_ID (cm_Instance req)) = Some m \<and> wi_Status m = InstanceStatusRunning \<and>
        wi_CurrentState m = ex_State (cm_Execution req) \<and> wi_Revision m = wi_Revision (cm_Instance req))"

definition commit_input_ok :: "engine_env \<Rightarrow> CommitExecutionRequest \<Rightarrow> EngineState \<Rightarrow> bool" where
  "commit_input_ok env req st \<longleftrightarrow> ee_F env = no_faults \<and> jsonb_ok (cm_OutputPayload req) \<and>
     (cm_InstanceVars req = RawEmpty \<or> jsonb_ok (cm_InstanceVars req)) \<and>
     (cm_NextInputPayload req = RawEmpty \<or> jsonb_ok (cm_NextInputPayload req)) \<and>
     ee_id env ''next execution'' \<notin> bm_ID ` set (es_execs st) \<and>
     ee_id env ''output'' \<notin> bm_ID ` set (es_outputs st) \<and>
     ee_id env ''transition audit'' \<notin> bm_ID ` set (es_audits st)"

lemma create_ok:
  "\<not> F l \<Longrightarrow> bm_ID row \<notin> bm_ID ` set tbl \<Longrightarrow> create F l no_conflict row tbl = Inr (tbl @ [row])"
  by (auto simp: create_def db_insert_def list_ex_iff no_conflict_def stmt_def guard_def image_iff)

lemma jsonb_default: "p = RawEmpty \<or> jsonb_ok p \<Longrightarrow> jsonb_ok (json_default d p)"
  by (auto simp: json_default_def)

lemma insert_execution_ok:
  assumes "\<not> ee_F env label" and "ee_id env role \<notin> bm_ID ` set (es_execs st)" and "bm_ID e = []"
    and "ex_InputPayload e = RawEmpty \<or> jsonb_ok (ex_InputPayload e)"
  shows "\<exists>st'. insert_execution env label role now e st = Inr st' \<and> es_audits st' = es_audits st"
  using assms
  by (simp add: insert_execution_def Let_def create_ok jsonb_def guard_def execution_row_def with_id_def jsonb_default)

lemma insert_audit_ok:
  assumes "\<not> ee_F env label" and "ee_id env role \<notin> bm_ID ` set (es_audits st)" and "bm_ID a = []"
    and "au_Payload a = RawEmpty \<or> jsonb_ok (au_Payload a)"
  shows "is_ok (insert_audit env label role now a st)"
  using assms
  by (simp add: insert_audit_def Let_def create_ok jsonb_def guard_def with_id_def jsonb_default)

lemma affected_get: "ids_ok tbl \<Longrightarrow> db_get tbl i = Some r \<Longrightarrow> affected (\<lambda>r. bm_ID r = i) tbl \<noteq> 0"
  by (simp add: affected_id)

lemma lockExecution_ok:
  assumes "\<not> ee_F env ''lock execution''" and "ids_ok (es_execs st)" and "db_get (es_execs st) i = Some e"
    and "ex_Status e = s" and "b \<longrightarrow> ex_ExecutionToken e = h"
  shows "lockExecution env i s h b st = Inr e"
proof -
  have "first_by bm_ID (db_select (\<lambda>e. bm_ID e = i \<and> ex_Status e = s \<and> (b \<longrightarrow> ex_ExecutionToken e = h)) (es_execs st)) = Some e"
    using assms by (subst first_select_id) simp_all
  then show ?thesis using assms(1) by (simp add: lockExecution_def stmt_def guard_def)
qed

lemma lockInstance_ok:
  assumes "\<not> ee_F env ''lock workflow instance''" and "ids_ok (es_instances st)" and "db_get (es_instances st) k = Some m"
    and "wi_CurrentState m = s" and "wi_Revision m = r" and "wi_Status m = InstanceStatusRunning"
  shows "lockInstanceForMutation env k s r st = Inr m"
proof -
  have "first_by bm_ID (db_select (\<lambda>i. bm_ID i = k \<and> wi_CurrentState i = s \<and> wi_Revision i = r \<and>
      wi_Status i = InstanceStatusRunning) (es_instances st)) = Some m"
    using assms by (subst first_select_id) simp_all
  then show ?thesis using assms(1) by (simp add: lockInstanceForMutation_def stmt_def guard_def)
qed

lemma commit_ok:
  assumes ids: "ids_ok (es_execs st)" "ids_ok (es_instances st)" and ready: "commit_ready req st"
    and input: "commit_input_ok env req st"
  shows "is_ok (CommitExecution env now req st)"
proof -
  let ?x = "bm_ID (cm_Execution req)" and ?k = "bm_ID (cm_Instance req)" and ?h = "computeOutputSchemaHash env (cm_OutputPayload req)"
  from ready obtain e m where e: "db_get (es_execs st) ?x = Some e" "ex_Status e = cm_ExpectedStatus req"
        "cm_VerifyToken req \<longrightarrow> ex_ExecutionToken e = cm_TokenHash req"
      and m: "db_get (es_instances st) ?k = Some m" "wi_Status m = InstanceStatusRunning"
        "wi_CurrentState m = ex_State (cm_Execution req)" "wi_Revision m = wi_Revision (cm_Instance req)"
    by (auto simp: commit_ready_def)
  have F: "\<not> ee_F env l" for l using input by (simp add: commit_input_ok_def no_faults_def)
  have stmt: "stmt (ee_F env) l = Inr ()" for l using F by simp
  have lock: "verifyCommitExecutionLock env req st = Inr e"
    using e by (simp add: verifyCommitExecutionLock_def lockExecutionByToken_def lockExecutionByStatus_def
        lockExecution_ok [OF F ids(1) e(1)])
  obtain st1 where st1: "storeCommitExecutionOutput env now req ?h st = Inr st1"
      "es_execs st1 = es_execs st" "es_instances st1 = es_instances st" "es_audits st1 = es_audits st"
    using input F by (auto simp: storeCommitExecutionOutput_def insert_output_def commit_input_ok_def jsonb_def guard_def create_ok)
  let ?st2 = "st1\<lparr>es_execs := db_update (\<lambda>e. bm_ID e = ?x) (committed now ?h) (es_execs st)\<rparr>"
  have mark: "markExecutionCommitted env now ?x ?h st1 = Inr ?st2"
    using affected_get [OF ids(1) e(1)] st1(2)
    by (simp add: markExecutionCommitted_def updateExecutionByID_def update_some_def stmt guard_def)
  have inst: "lockCommitInstance env req ?st2 = Inr m"
    unfolding lockCommitInstance_def by (rule lockInstance_ok [OF F]) (use m ids(2) st1(3) in simp_all)
  have aff: "affected (\<lambda>i. bm_ID i = ?k) (es_instances ?st2) \<noteq> 0" using affected_get [OF ids(2) m(1)] st1(3) by simp
  have vars: "jsonb l (if cm_InstanceVars req \<noteq> RawEmpty then [cm_InstanceVars req] else []) = Inr ()" for l
    using input by (auto simp: commit_input_ok_def)
  show ?thesis
  proof (cases "cm_NextState req = []")
    case True
    with lock st1(1) mark inst aff show ?thesis
      by (simp add: CommitExecution_def Let_def completeInstance_def vars update_some_def stmt guard_def)
  next
    case False
    let ?nx = "new_execution (ex_InstanceID (cm_Execution req)) (cm_NextState req) 1 ExecStatusPending
                      (HashToken (ee_token env ''next execution'')) (cm_NextInputSchemaHash req)
                      (cm_NextInputPayload req) (ex_TraceID (cm_Execution req))"
    obtain st3 where st3: "transitionInstance env now ?k (cm_NextState req) (cm_InstanceVars req) ?st2 = Inr st3"
        "es_execs st3 = es_execs ?st2" "es_audits st3 = es_audits st"
      using aff st1(4) by (simp add: transitionInstance_def vars update_some_def stmt guard_def)
    obtain st4 where st4: "insert_execution env ''create next execution'' ''next execution'' now ?nx st3 = Inr st4" "es_audits st4 = es_audits st"
      using insert_execution_ok [of env "''create next execution''" "''next execution''" st3 ?nx now] F st3 input
      by (auto simp: commit_input_ok_def new_execution_def)
    have "is_ok (appendCommitTransitionAudit env now req st4)"
      unfolding appendCommitTransitionAudit_def
      by (rule insert_audit_ok) (use F st4(2) input in \<open>auto simp: new_audit_def commit_input_ok_def\<close>)
    with False lock st1(1) mark inst st3(1) st4(1) show ?thesis
      by (simp add: CommitExecution_def Let_def createCommitNextExecution_def stmt)
  qed
qed

lemma commit_ready_of_ok:
  assumes "CommitExecution env now req st = Inr st'" and "ids_ok (es_execs st)" "ids_ok (es_instances st)"
  shows "commit_ready req st"
  by (rule CommitExecution_effect [OF assms]) (auto simp: commit_ready_def)



section \<open>A small run\<close>

definition ex_env :: engine_env where
  "ex_env = \<lparr>ee_F = no_faults, ee_text = (\<lambda>_. ''{}''), ee_id = (\<lambda>role. CHR ''#'' # role), ee_token = (\<lambda>role. role)\<rparr>"

definition ex_instance :: WorkflowInstance where
  "ex_instance = \<lparr>bm_ID = ''wf'', bm_CreatedAt = 0, bm_ModifiedAt = 0, bm_DeletedAt = None,
     wi_WorkflowName = ''flow'', wi_WorkflowVersion = 1, wi_CurrentState = ''a'', wi_Status = InstanceStatusRunning,
     wi_Revision = 1, wi_TriggerEventID = [], wi_CorrelationKey = [], wi_ParentInstanceID = [], wi_ParentExecutionID = [],
     wi_ScopeType = [], wi_ScopeParentState = [], wi_ScopeEntryState = [], wi_ScopeIndex = 0,
     wi_Metadata = RawEmpty, wi_Vars = RawEmpty, wi_StartedAt = None, wi_FinishedAt = None\<rparr>"

definition ex_s0 :: EngineState where
  "ex_s0 = \<lparr>es_defs = [], es_instances = [], es_execs = [], es_outputs = [], es_audits = [], es_policies = [],
     es_timers = [], es_waits = [], es_messages = [], es_scopes = []\<rparr>"

definition or_else :: "'s \<Rightarrow> 's result \<Rightarrow> 's" where
  "or_else d r = (case r of Inr s \<Rightarrow> s | Inl _ \<Rightarrow> d)"

lemma or_else_ok: "is_ok r \<Longrightarrow> r = Inr (or_else ex_s0 r)"
  by (cases r) (simp_all add: or_else_def)

definition ex_s1 :: EngineState where
  "ex_s1 = or_else ex_s0 (insert_instance ex_env ''start'' ''wf'' 0 ex_instance ex_s0)"

definition ex_exec :: WorkflowStateExecution where
  "ex_exec = new_execution ''wf'' ''a'' 1 ExecStatusPending ''h0'' ''s'' RawEmpty ''trc''"

definition ex_s2 :: EngineState where
  "ex_s2 = or_else ex_s0 (insert_execution ex_env ''first'' ''ex'' 0 ex_exec ex_s1)"

definition ex_s3 :: EngineState where
  "ex_s3 = or_else ex_s0 (UpdateStatusExpected ex_env 1 ''#ex'' ExecStatusPending ExecStatusDispatched
     [Col_started_at (Some 1), Col_execution_token ''tok'', Col_timeout_at (Some 9)] ex_s2)"

lemma ex_is_ok:
  "is_ok (insert_instance ex_env ''start'' ''wf'' 0 ex_instance ex_s0)"
  "is_ok (insert_execution ex_env ''first'' ''ex'' 0 ex_exec ex_s1)"
  "is_ok (UpdateStatusExpected ex_env 1 ''#ex'' ExecStatusPending ExecStatusDispatched
     [Col_started_at (Some 1), Col_execution_token ''tok'', Col_timeout_at (Some 9)] ex_s2)"
  by code_simp+

lemma ex_env_ok: "env_ok ex_env"
  by (simp add: env_ok_def ex_env_def)

lemma ex_reach1: "engine_step ex_s0 ex_s1"
  by (rule step_new_instance [OF ex_env_ok or_else_ok [OF ex_is_ok(1)], folded ex_s1_def])


lemma ex_no_open: "no_open ''wf'' (es_execs ex_s1)"
proof -
  have "es_execs ex_s1 = []" by code_simp
  then show ?thesis by (simp add: no_open_def db_get_def)
qed

definition is_some_and :: "('a \<Rightarrow> bool) \<Rightarrow> 'a option \<Rightarrow> bool" where
  "is_some_and P v = (case v of None \<Rightarrow> False | Some x \<Rightarrow> P x)"

lemma is_some_andD: "is_some_and P v \<Longrightarrow> \<exists>x. v = Some x \<and> P x"
  by (simp add: is_some_and_def split: option.splits)

lemma ex_row1: "is_some_and (\<lambda>m. wi_CurrentState m = ''a'') (db_get (es_instances ex_s1) ''wf'')"
  by code_simp

lemma ex_reach2: "engine_step ex_s1 ex_s2"
proof -
  obtain m where m: "db_get (es_instances ex_s1) ''wf'' = Some m" "wi_CurrentState m = ''a''"
    using is_some_andD [OF ex_row1] by blast
  have e: "ex_InstanceID ex_exec = ''wf''" "ex_State ex_exec = ''a''" by (simp_all add: ex_exec_def new_execution_def)
  show ?thesis
    by (rule step_new_execution [OF ex_env_ok _ _ _ or_else_ok [OF ex_is_ok(2)], folded ex_s2_def])
      (use m e ex_no_open in simp_all)
qed

lemma ex_reach3: "engine_step ex_s2 ex_s3"
  by (rule step_dispatch [OF or_else_ok [OF ex_is_ok(3)], folded ex_s3_def])

lemma ex_reachable: "engine_reachable ex_s3"
proof -
  have "initial_state ex_s0" by (simp add: initial_state_def ex_s0_def)
  moreover have "engine_step\<^sup>*\<^sup>* ex_s0 ex_s3" using ex_reach1 ex_reach2 ex_reach3 by auto
  ultimately show ?thesis unfolding engine_reachable_def by blast
qed

definition ex_row :: WorkflowStateExecution where
  "ex_row = ex_exec\<lparr>bm_ID := ''#ex''\<rparr>"

definition ex_commit :: CommitExecutionRequest where
  "ex_commit = \<lparr>cm_Execution = ex_row, cm_Instance = ex_instance, cm_TokenHash = ''tok'', cm_VerifyToken = True,
     cm_OutputPayload = RawJson (VMap []), cm_ExpectedStatus = ExecStatusDispatched, cm_NextState = ''b'',
     cm_NextInputPayload = RawEmpty, cm_NextInputSchemaHash = [], cm_InstanceVars = RawEmpty\<rparr>"


lemma ex_ids: "ids_ok (es_execs ex_s3)" "ids_ok (es_instances ex_s3)"
  using reachable_inv [OF ex_reachable] by (simp_all add: engine_inv_def core_of_def)

definition ready_check :: "CommitExecutionRequest \<Rightarrow> EngineState \<Rightarrow> bool" where
  "ready_check req st \<longleftrightarrow>
     is_some_and (\<lambda>e. ex_Status e = cm_ExpectedStatus req \<and> ex_ExecutionToken e = cm_TokenHash req)
       (db_get (es_execs st) (bm_ID (cm_Execution req))) \<and>
     is_some_and (\<lambda>m. wi_Status m = InstanceStatusRunning \<and> wi_CurrentState m = ex_State (cm_Execution req) \<and>
         wi_Revision m = wi_Revision (cm_Instance req)) (db_get (es_instances st) (bm_ID (cm_Instance req)))"

lemma ready_checkD: "ready_check req st \<Longrightarrow> commit_ready req st"
  by (auto simp: ready_check_def commit_ready_def dest!: is_some_andD)

lemma ex_commit_ready: "commit_ready ex_commit ex_s3"
  by (rule ready_checkD) code_simp

lemma ex_commit_input: "commit_input_ok ex_env ex_commit ex_s3"
proof -
  have "set (map bm_ID (es_execs ex_s3)) = {''#ex''}" "es_outputs ex_s3 = []" "es_audits ex_s3 = []" by code_simp+
  then show ?thesis by (simp add: commit_input_ok_def ex_env_def ex_commit_def)
qed

lemma ex_commit_ok: "is_ok (CommitExecution ex_env 2 ex_commit ex_s3)"
  by (rule commit_ok [OF ex_ids ex_commit_ready ex_commit_input])

lemma ex_snapshot: "snapshot ex_row ex_s3"
proof -
  have "list_all (\<lambda>e. ex_InstanceID e = ''wf'' \<and> ex_State e = ''a'') (es_execs ex_s3)" by code_simp
  moreover have "ex_InstanceID ex_row = ''wf''" "ex_State ex_row = ''a''" by (simp_all add: ex_row_def ex_exec_def new_execution_def)
  ultimately show ?thesis by (auto simp: snapshot_def same_place_def list_all_iff)
qed

section \<open>Properties of every run\<close>




definition ex_open_row :: WorkflowStateExecution where
  "ex_open_row = hd (es_execs ex_s3)"

definition ex_run_row :: WorkflowInstance where
  "ex_run_row = hd (es_instances ex_s3)"



definition ex_s4 :: EngineState where
  "ex_s4 = or_else ex_s0 (CommitExecution ex_env 2 ex_commit ex_s3)"

lemma ex_s4: "CommitExecution ex_env 2 ex_commit ex_s3 = Inr ex_s4"
  using or_else_ok [OF ex_commit_ok] by (simp add: ex_s4_def)

lemma ex_reach4: "engine_step ex_s3 ex_s4"
proof (rule step_commit [OF ex_env_ok _ _ _ ex_s4])
  show "snapshot (cm_Execution ex_commit) ex_s3" using ex_snapshot by (simp add: ex_commit_def)
qed (simp_all add: ex_commit_def ex_instance_def ex_row_def ex_exec_def new_execution_def)

lemma ex_reachable4: "engine_reachable ex_s4"
  using ex_reachable ex_reach4 unfolding engine_reachable_def by (blast intro: rtranclp.rtrancl_into_rtrancl)



definition ex_park :: ParkExecutionRequest where
  "ex_park = \<lparr>pk_Execution = ex_row, pk_Instance = ex_instance, pk_TokenHash = ''tok'', pk_FireAt = 100, pk_AuditTrace = []\<rparr>"


text \<open>A waiting execution is woken at most once: when a timer, a signal or a branch scope has completed it, or it has
  been failed, then after any further steps every other attempt to complete or fail it is refused.\<close>
theorem waiting_execution_woken_once:
  assumes "engine_reachable st" and "wake_ok env w st" and "wake env now w st = Inr st1"
    and "engine_step\<^sup>*\<^sup>* st1 st2" and "wake_ok env' w' st2" and "wake_execution w' = wake_execution w"
  shows "\<not> is_ok (wake env' now' w' st2)"
proof -
  have fail: "phase (fl_Status req) = 2" if "wake_ok env w st" "w = Wake_fail req" for env w st req using that by simp
  have inv: "engine_inv st" by (rule reachable_inv [OF assms(1)])
  have inv1: "engine_inv st1" by (rule engine_step_inv [OF inv wake_step [OF assms(3,2)]])
  show ?thesis
    using waiting.at_most_one [OF inv _ inv1 assms(4), of "wake_execution w" "(env, now, w)" "(env', now', w')"]
      assms(2,3,5,6) fail by auto
qed

definition ex_parked :: EngineState where
  "ex_parked = or_else ex_s0 (ParkExecution ex_env 2 ex_park ex_s3)"

lemma ex_parked_reachable: "engine_reachable ex_parked"
proof -
  have "is_ok (ParkExecution ex_env 2 ex_park ex_s3)" by code_simp
  from or_else_ok [OF this] have "engine_step ex_s3 ex_parked" unfolding ex_parked_def [symmetric] by (rule step_park)
  then show ?thesis using ex_reachable unfolding engine_reachable_def by (blast intro: rtranclp.rtrancl_into_rtrancl)
qed

definition ex_fail :: FailExecutionRequest where
  "ex_fail = \<lparr>fl_Execution = ex_row, fl_Instance = ex_instance, fl_TokenHash = [], fl_VerifyToken = False,
     fl_ExpectedStatus = ExecStatusWaiting, fl_Status = ExecStatusTimedOut, fl_ErrorClass = ''timeout'',
     fl_ErrorMessage = ''late'', fl_AuditTrace = [], fl_AuditPayload = RawEmpty\<rparr>"

theorem waiting_execution_woken_once_witness:
  "is_ok (wake ex_env 3 (Wake_fail ex_fail) ex_parked) \<and>
   \<not> is_ok (wake ex_env 4 (Wake_fail ex_fail) (or_else ex_s0 (wake ex_env 3 (Wake_fail ex_fail) ex_parked)))"
proof -
  let ?s = "or_else ex_s0 (wake ex_env 3 (Wake_fail ex_fail) ex_parked)"
  have ok: "is_ok (wake ex_env 3 (Wake_fail ex_fail) ex_parked)" by code_simp
  have "\<not> is_ok (wake ex_env 4 (Wake_fail ex_fail) ?s)"
    by (rule waiting_execution_woken_once [OF ex_parked_reachable _ or_else_ok [OF ok] rtranclp.rtrancl_refl])
      (simp_all add: ex_fail_def)
  with ok show ?thesis by simp
qed

text \<open>Optimistic concurrency: of all the commits that read an instance at the same revision, by whatever path and for
  whatever execution, at most one succeeds in a run.\<close>
theorem revision_committed_once:
  assumes "engine_reachable st" and "engine_step st st1" and "CommitExecution env now req st = Inr st1"
    and "engine_step\<^sup>*\<^sup>* st1 st2" and "bm_ID (cm_Instance req') = bm_ID (cm_Instance req)"
    and "wi_Revision (cm_Instance req') = wi_Revision (cm_Instance req)"
  shows "\<not> is_ok (CommitExecution env' now' req' st2)"
proof -
  have inv: "engine_inv st" by (rule reachable_inv [OF assms(1)])
  show ?thesis
    using revision.at_most_one [OF inv _ engine_step_inv [OF inv assms(2)] assms(4),
        of "bm_ID (cm_Instance req)" "wi_Revision (cm_Instance req)" "(env, now, req)" "(env', now', req')"]
      assms(3,5,6) by simp
qed

theorem revision_committed_once_witness:
  "is_ok (CommitExecution ex_env 2 ex_commit ex_s3) \<and> \<not> is_ok (CommitExecution ex_env 3 ex_commit ex_s4)"
proof -
  have "\<not> is_ok (CommitExecution ex_env 3 ex_commit ex_s4)"
    by (rule revision_committed_once [OF ex_reachable ex_reach4 ex_s4 rtranclp.rtrancl_refl]) simp_all
  with ex_commit_ok show ?thesis by simp
qed

section \<open>Committing an execution\<close>

text \<open>C15: With a working database, JSON payloads and fresh generated ids, a commit succeeds exactly when the execution is
  in the expected status with the presented token (when one is asked for) and the instance is running, in the state of the
  execution and at the revision the committer read.\<close>
theorem commit_succeeds_iff:
  assumes "engine_reachable st" and "commit_input_ok env req st"
  shows "is_ok (CommitExecution env now req st) = commit_ready req st"
proof -
  have ids: "ids_ok (es_execs st)" "ids_ok (es_instances st)"
    using reachable_inv [OF assms(1)] by (simp_all add: engine_inv_def core_of_def)
  show ?thesis using commit_ok [OF ids _ assms(2)] commit_ready_of_ok [OF _ ids] by (auto dest: is_okD)
qed

theorem commit_succeeds_iff_witness: "is_ok (CommitExecution ex_env 2 ex_commit ex_s3)"
  using commit_succeeds_iff [OF ex_reachable ex_commit_input] ex_commit_ready by blast



section \<open>Signals\<close>

text \<open>C17: A signal delivery is first in, first out on both sides: it takes the oldest pending message of the signal for the
  instance and the oldest execution waiting for it (by creation time, then id), marks the message delivered to that wait and
  the wait matched with that message.\<close>
theorem signal_delivery_fifo:
  assumes "engine_reachable st" and "ids_ok (es_waits st)" and "ClaimSignalDelivery env now req st = Inr (Some (m, w), st')"
  shows "\<exists>m0 w0 m1 w1.
     db_get (es_messages st) (bm_ID m) = Some m0 \<and> pending_for (cs_InstanceID req) (cs_SignalName req) m0 \<and>
     (\<forall>x. x \<in> set (es_messages st) \<and> live x \<and> pending_for (cs_InstanceID req) (cs_SignalName req) x \<longrightarrow> age_order m0 \<le> age_order x) \<and>
     db_get (es_waits st) (bm_ID w) = Some w0 \<and> waiting_for (cs_InstanceID req) (cs_SignalName req) w0 \<and>
     (\<forall>x. x \<in> set (es_waits st) \<and> live x \<and> waiting_for (cs_InstanceID req) (cs_SignalName req) x \<longrightarrow> age_order w0 \<le> age_order x) \<and>
     db_get (es_messages st') (bm_ID m) = Some m1 \<and> sm_Status m1 = ''delivered'' \<and> sm_WaitID m1 = bm_ID w \<and>
     db_get (es_waits st') (bm_ID w) = Some w1 \<and> sw_Status w1 = ''matched'' \<and> sw_MessageID w1 = bm_ID m"
proof -
  have ids: "ids_ok (es_messages st)" using reachable_messages [OF assms(1)] by (simp add: messages_ok_def)
  show ?thesis
  proof (rule claim_effect [OF assms(3) ids], goal_cases)
    case (3 m0 w0 m' w')
    then have eq: "bm_ID m = bm_ID m0" "bm_ID w = bm_ID w0" by auto
    show ?thesis
      using first_age [OF ids 3(4)] first_age [OF assms(2) 3(5)] 3(6) 3(9) [OF assms(2)]
      unfolding eq by (intro exI conjI) (assumption | simp)+
  qed simp_all
qed

definition ex_signal_message :: "string \<Rightarrow> WorkflowSignalMessage" where
  "ex_signal_message i = \<lparr>bm_ID = i, bm_CreatedAt = 0, bm_ModifiedAt = 0, bm_DeletedAt = None, sm_TargetInstanceID = ''wf'',
     sm_SignalName = ''go'', sm_Payload = RawEmpty, sm_Status = ''pending'', sm_DeliveredAt = None, sm_WaitID = [],
     sm_ClaimUntil = None, sm_ClaimOwner = [], sm_Attempts = 0\<rparr>"

definition ex_wait :: StartSignalWaitRequest where
  "ex_wait = \<lparr>ss_Execution = ex_row, ss_Instance = ex_instance, ss_TokenHash = ''tok'', ss_SignalName = ''go'',
     ss_OutputVar = [], ss_TimeoutAt = None, ss_AuditTrace = []\<rparr>"

definition ex_waiting :: EngineState where
  "ex_waiting = or_else ex_s0 (Runtime_StartSignalWait ex_env 2 ex_wait ex_s3)"

definition ex_signalled :: EngineState where
  "ex_signalled = or_else ex_s0 (insert_message ex_env ''store'' ''m'' 3 (ex_signal_message ''m1'') ex_waiting)"

definition ex_claim :: ClaimSignalDeliveryRequest where
  "ex_claim = \<lparr>cs_InstanceID = ''wf'', cs_SignalName = ''go'', cs_Owner = ''me'', cs_LeaseUntil = 40\<rparr>"

lemma ex_signalled_reachable: "engine_reachable ex_signalled"
proof -
  have "is_ok (Runtime_StartSignalWait ex_env 2 ex_wait ex_s3)" by code_simp
  from or_else_ok [OF this] have 1: "engine_step ex_s3 ex_waiting" unfolding ex_waiting_def [symmetric] by (rule step_signal_wait)
  have "is_ok (insert_message ex_env ''store'' ''m'' 3 (ex_signal_message ''m1'') ex_waiting)" by code_simp
  from or_else_ok [OF this] have 2: "engine_step ex_waiting ex_signalled"
    unfolding ex_signalled_def [symmetric] by (rule step_send_signal [OF ex_env_ok])
  from ex_reachable 1 2 show ?thesis unfolding engine_reachable_def by (blast intro: rtranclp.rtrancl_into_rtrancl)
qed

definition ex_delivery :: "(WorkflowSignalMessage \<times> WorkflowSignalWait) option \<times> EngineState" where
  "ex_delivery = (case ClaimSignalDelivery ex_env 4 ex_claim ex_signalled of Inr r \<Rightarrow> r | Inl _ \<Rightarrow> (None, ex_s0))"

lemma ex_delivery:
  obtains m w where "fst ex_delivery = Some (m, w)"
    and "ClaimSignalDelivery ex_env 4 ex_claim ex_signalled = Inr (Some (m, w), snd ex_delivery)"
proof -
  have "(case ClaimSignalDelivery ex_env 4 ex_claim ex_signalled of Inr r \<Rightarrow> fst r \<noteq> None | Inl _ \<Rightarrow> False)" by code_simp
  then obtain r where r: "ClaimSignalDelivery ex_env 4 ex_claim ex_signalled = Inr r" "fst r \<noteq> None" by (auto simp: case_Inr_iff)
  then have eq: "ex_delivery = r" by (simp add: ex_delivery_def)
  from r(2) obtain m w where "fst r = Some (m, w)" by auto
  with r(1) eq show ?thesis by (intro that [of m w]) (simp_all add: prod_eq_iff)
qed

theorem signal_delivery_fifo_witness:
  "\<exists>m w m1. fst ex_delivery = Some (m, w) \<and> db_get (es_messages (snd ex_delivery)) (bm_ID m) = Some m1 \<and> sm_Status m1 = ''delivered''"
proof -
  have "ids_ok (es_waits ex_signalled)" by code_simp
  moreover obtain m w where "fst ex_delivery = Some (m, w)"
      "ClaimSignalDelivery ex_env 4 ex_claim ex_signalled = Inr (Some (m, w), snd ex_delivery)" by (rule ex_delivery)
  ultimately show ?thesis using signal_delivery_fifo [OF ex_signalled_reachable] by blast
qed

text \<open>C18: A signal message is delivered at most once: after a delivery has taken it, no later delivery in any run takes the
  same message again.\<close>
theorem signal_delivered_once:
  assumes "engine_reachable st" and "ClaimSignalDelivery env now req st = Inr (Some (m, w), st1)"
    and "engine_step\<^sup>*\<^sup>* st1 st2" and "bm_ID m' = bm_ID m"
  shows "ClaimSignalDelivery env' now' req' st2 \<noteq> Inr (Some (m', w'), st3)"
proof
  assume again: "ClaimSignalDelivery env' now' req' st2 = Inr (Some (m', w'), st3)"
  have ok: "messages_ok st" by (rule reachable_messages [OF assms(1)])
  have ok1: "messages_ok st1" using step_messages [OF step_claim_signal [OF assms(2)] ok] by blast
  have "deliver (bm_ID m) (env, now, req) st = Inr st1" using assms(2) by (auto simp: deliver_iff simp del: deliver.simps)
  from message.at_most_one [OF ok this ok1 assms(3)] have "\<not> is_ok (deliver (bm_ID m) (env', now', req') st2)" .
  moreover have "deliver (bm_ID m) (env', now', req') st2 = Inr st3" using again assms(4) by (auto simp: deliver_iff simp del: deliver.simps)
  ultimately show False by simp
qed

theorem signal_delivered_once_witness:
  "ClaimSignalDelivery ex_env 5 ex_claim (snd ex_delivery) \<noteq> Inr (fst ex_delivery, snd ex_delivery)"
proof -
  obtain m w where mw: "fst ex_delivery = Some (m, w)"
      and d: "ClaimSignalDelivery ex_env 4 ex_claim ex_signalled = Inr (Some (m, w), snd ex_delivery)" by (rule ex_delivery)
  show ?thesis
    using signal_delivered_once [OF ex_signalled_reachable d rtranclp.rtrancl_refl, of m ex_env 5 ex_claim w] mw by simp
qed

end
