(* ===== verification/Lease_Repository.thy ===== *)
theory Lease_Repository
  imports Execution_Repository
begin

text \<open>
  \<open>repository/workflow_timer.go\<close>, \<open>workflow_signal_wait.go\<close>, \<open>workflow_signal_message.go\<close> and
  \<open>workflow_scope_run.go\<close>: the tables whose rows a background worker claims for a while. A claim
  writes its owner and an expiry into the rows it takes; the locale \<open>lease\<close> states the contract
  the four tables share and is interpreted on each of them. A claim reads the clock of its
  argument \<open>now\<close>; \<open>SKIP LOCKED\<close> has no effect without a concurrent transaction.
\<close>

section \<open>Claims in general\<close>

text \<open>\<open>claim_until IS NULL OR claim_until < now\<close>.\<close>

definition lapsed :: "int \<Rightarrow> int option \<Rightarrow> bool" where
  "lapsed now claimUntil \<longleftrightarrow> (case claimUntil of None \<Rightarrow> True | Some t \<Rightarrow> t < now)"

text \<open>\<open>Limit(n)\<close>: a negative number is no limit.\<close>

definition sql_limit :: "int \<Rightarrow> 'r list \<Rightarrow> 'r list" where
  "sql_limit n rows = (if n < 0 then rows else take (nat n) rows)"

definition stmt_at :: "faults \<Rightarrow> string \<Rightarrow> string \<Rightarrow> unit result" where
  "stmt_at F site label = guard (\<not> F site) (wrap label (db_error site))"

lemma stmt_at_iff [res_simps, simp]: "stmt_at F site l = Inr u \<longleftrightarrow> \<not> F site"
  by (simp add: stmt_at_def guard_def)

text \<open>Select the rows a worker may take, in order, and write the lease into them.\<close>

definition claim_rows ::
    "faults \<Rightarrow> string \<Rightarrow> ('a base_model_scheme \<Rightarrow> bool) \<Rightarrow> ('a base_model_scheme \<Rightarrow> int) \<Rightarrow> int
      \<Rightarrow> ('a base_model_scheme \<Rightarrow> 'a base_model_scheme) \<Rightarrow> 'a base_model_scheme list
      \<Rightarrow> ('a base_model_scheme list \<times> 'a base_model_scheme list) result" where
  "claim_rows F label free key limit take_lease tbl =
     and_then (stmt F label) (\<lambda>_.
     let rows = sql_limit limit (sort_key key (db_select free tbl)) in
     if rows = [] then Inr ([], tbl)
     else and_then (stmt_at F (label @ '' (update)'') label) (\<lambda>_.
       Inr (map take_lease rows, db_update (\<lambda>r. bm_ID r \<in> bm_ID ` set rows) take_lease tbl)))"

text \<open>An update whose number of affected rows is not looked at.\<close>

definition update_where ::
    "faults \<Rightarrow> string \<Rightarrow> ('a base_model_scheme \<Rightarrow> bool) \<Rightarrow> ('a base_model_scheme \<Rightarrow> 'a base_model_scheme)
      \<Rightarrow> 'a base_model_scheme list \<Rightarrow> 'a base_model_scheme list result" where
  "update_where F label P f tbl = and_then (stmt F label) (\<lambda>_. Inr (db_update P f tbl))"

text \<open>The batch deletion of finished rows: select a batch of ids, then mark them deleted.\<close>

definition delete_batch ::
    "faults \<Rightarrow> string \<Rightarrow> string \<Rightarrow> ('a base_model_scheme \<Rightarrow> bool) \<Rightarrow> int \<Rightarrow> int \<Rightarrow> 'a base_model_scheme list
      \<Rightarrow> (int \<times> 'a base_model_scheme list) result" where
  "delete_batch F select_label delete_label old now limit tbl =
     and_then (stmt F select_label) (\<lambda>_.
     let ids = take (batch_limit 100 limit) (map bm_ID (db_select old tbl)) in
     if ids = [] then Inr (0, tbl)
     else and_then (stmt F delete_label) (\<lambda>_.
       Inr (int (affected (\<lambda>r. bm_ID r \<in> set ids) tbl),
            db_update (\<lambda>r. bm_ID r \<in> set ids) (\<lambda>r. r\<lparr>bm_DeletedAt := Some now\<rparr>) tbl)))"

definition before :: "int \<Rightarrow> int option \<Rightarrow> bool" where
  "before cutoff t \<longleftrightarrow> (case t of None \<Rightarrow> False | Some x \<Rightarrow> x < cutoff)"

text \<open>The list queries of the admin pages.\<close>

definition list_limit :: "int \<Rightarrow> nat" where
  "list_limit limit = nat (min 200 (if limit \<le> 0 then 100 else limit))"

section \<open>Timers (workflow_timer.go)\<close>

definition timer_free :: "int \<Rightarrow> WorkflowTimer \<Rightarrow> bool" where
  "timer_free now t \<longleftrightarrow> tm_FiredAt t = None \<and> tm_FiresAt t \<le> now \<and> lapsed now (tm_ClaimUntil t)"

definition timer_leased :: "string \<Rightarrow> int \<Rightarrow> WorkflowTimer \<Rightarrow> WorkflowTimer" where
  "timer_leased owner leaseUntil t =
     t\<lparr>tm_ClaimOwner := owner, tm_ClaimUntil := Some leaseUntil, tm_Attempts := tm_Attempts t + 1\<rparr>"

definition ClaimDue ::
    "engine_env \<Rightarrow> int \<Rightarrow> int \<Rightarrow> string \<Rightarrow> int \<Rightarrow> EngineState \<Rightarrow> (WorkflowTimer list \<times> EngineState) result" where
  "ClaimDue env now limit owner leaseUntil st =
     and_then (claim_rows (ee_F env) ''claim due timers'' (timer_free now) tm_FiresAt limit
       (timer_leased owner leaseUntil) (es_timers st)) (\<lambda>(rows, t). Inr (rows, st\<lparr>es_timers := t\<rparr>))"

definition timer_held :: "string \<Rightarrow> string \<Rightarrow> WorkflowTimer \<Rightarrow> bool" where
  "timer_held i owner t \<longleftrightarrow> bm_ID t = i \<and> tm_ClaimOwner t = owner \<and> tm_FiredAt t = None"

definition MarkFiredByOwner ::
    "engine_env \<Rightarrow> string \<Rightarrow> string \<Rightarrow> int \<Rightarrow> EngineState \<Rightarrow> EngineState result" where
  "MarkFiredByOwner env i owner firedAt st =
     and_then (update_where (ee_F env) ''mark timer fired'' (timer_held i owner)
       (\<lambda>t. t\<lparr>tm_FiredAt := Some firedAt, tm_ClaimOwner := [], tm_ClaimUntil := None\<rparr>) (es_timers st))
       (\<lambda>t. Inr (st\<lparr>es_timers := t\<rparr>))"

definition Timer_ReleaseClaim :: "engine_env \<Rightarrow> string \<Rightarrow> string \<Rightarrow> EngineState \<Rightarrow> EngineState result" where
  "Timer_ReleaseClaim env i owner st =
     and_then (update_where (ee_F env) ''release timer claim'' (timer_held i owner)
       (\<lambda>t. t\<lparr>tm_ClaimOwner := [], tm_ClaimUntil := None\<rparr>) (es_timers st)) (\<lambda>t. Inr (st\<lparr>es_timers := t\<rparr>))"

definition Timer_GetByExecutionID :: "engine_env \<Rightarrow> string \<Rightarrow> EngineState \<Rightarrow> WorkflowTimer result" where
  "Timer_GetByExecutionID env executionID st =
     and_then (stmt (ee_F env) ''get timer by execution'') (\<lambda>_.
       case first_by bm_ID (db_select (\<lambda>t. tm_ExecutionID t = executionID) (es_timers st)) of
         None \<Rightarrow> Inl (wrap ''get timer by execution'' ErrRecordNotFound)
       | Some t \<Rightarrow> Inr t)"

definition Timer_DeleteCompletedBefore ::
    "engine_env \<Rightarrow> int \<Rightarrow> int \<Rightarrow> int \<Rightarrow> EngineState \<Rightarrow> (int \<times> EngineState) result" where
  "Timer_DeleteCompletedBefore env now cutoff limit st =
     and_then (delete_batch (ee_F env) ''select fired timers'' ''delete fired timers''
       (\<lambda>t. before cutoff (tm_FiredAt t)) now limit (es_timers st)) (\<lambda>(n, t). Inr (n, st\<lparr>es_timers := t\<rparr>))"

section \<open>Signal waits (workflow_signal_wait.go)\<close>

definition wait_timed_out :: "int \<Rightarrow> WorkflowSignalWait \<Rightarrow> bool" where
  "wait_timed_out now w \<longleftrightarrow> sw_Status w = ''waiting'' \<and> at_or_before (sw_TimeoutAt w) now \<and> lapsed now (sw_ClaimUntil w)"

definition wait_leased :: "string \<Rightarrow> int \<Rightarrow> WorkflowSignalWait \<Rightarrow> WorkflowSignalWait" where
  "wait_leased owner leaseUntil w =
     w\<lparr>sw_ClaimOwner := owner, sw_ClaimUntil := Some leaseUntil, sw_Attempts := sw_Attempts w + 1\<rparr>"

definition ClaimTimedOut ::
    "engine_env \<Rightarrow> int \<Rightarrow> int \<Rightarrow> string \<Rightarrow> int \<Rightarrow> EngineState \<Rightarrow> (WorkflowSignalWait list \<times> EngineState) result" where
  "ClaimTimedOut env now limit owner leaseUntil st =
     and_then (claim_rows (ee_F env) ''claim timed out signal waits'' (wait_timed_out now)
       (\<lambda>w. the (sw_TimeoutAt w)) limit (wait_leased owner leaseUntil) (es_waits st))
       (\<lambda>(rows, t). Inr (rows, st\<lparr>es_waits := t\<rparr>))"

definition wait_held :: "string \<Rightarrow> string \<Rightarrow> WorkflowSignalWait \<Rightarrow> bool" where
  "wait_held i owner w \<longleftrightarrow> bm_ID w = i \<and> sw_ClaimOwner w = owner \<and> sw_Status w = ''waiting''"

definition MarkCompletedByOwner ::
    "engine_env \<Rightarrow> string \<Rightarrow> string \<Rightarrow> string \<Rightarrow> int \<Rightarrow> EngineState \<Rightarrow> EngineState result" where
  "MarkCompletedByOwner env i owner messageID matchedAt st =
     and_then (update_where (ee_F env) ''mark signal wait completed'' (wait_held i owner)
       (\<lambda>w. w\<lparr>sw_Status := ''matched'', sw_MatchedAt := Some matchedAt, sw_MessageID := messageID,
               sw_ClaimOwner := [], sw_ClaimUntil := None\<rparr>) (es_waits st)) (\<lambda>t. Inr (st\<lparr>es_waits := t\<rparr>))"

definition MarkTimedOutByOwner ::
    "engine_env \<Rightarrow> string \<Rightarrow> string \<Rightarrow> int \<Rightarrow> EngineState \<Rightarrow> EngineState result" where
  "MarkTimedOutByOwner env i owner timedOutAt st =
     and_then (update_where (ee_F env) ''mark signal wait timed out'' (wait_held i owner)
       (\<lambda>w. w\<lparr>sw_Status := ''timed_out'', sw_TimedOutAt := Some timedOutAt,
               sw_ClaimOwner := [], sw_ClaimUntil := None\<rparr>) (es_waits st)) (\<lambda>t. Inr (st\<lparr>es_waits := t\<rparr>))"

definition Wait_ReleaseClaim :: "engine_env \<Rightarrow> string \<Rightarrow> string \<Rightarrow> EngineState \<Rightarrow> EngineState result" where
  "Wait_ReleaseClaim env i owner st =
     and_then (update_where (ee_F env) ''release signal wait claim'' (wait_held i owner)
       (\<lambda>w. w\<lparr>sw_ClaimOwner := [], sw_ClaimUntil := None\<rparr>) (es_waits st)) (\<lambda>t. Inr (st\<lparr>es_waits := t\<rparr>))"

definition Wait_GetByExecutionID :: "engine_env \<Rightarrow> string \<Rightarrow> EngineState \<Rightarrow> WorkflowSignalWait result" where
  "Wait_GetByExecutionID env executionID st =
     and_then (stmt (ee_F env) ''get signal wait by execution'') (\<lambda>_.
       case first_by bm_ID (db_select (\<lambda>w. sw_ExecutionID w = executionID) (es_waits st)) of
         None \<Rightarrow> Inl (wrap ''get signal wait by execution'' ErrRecordNotFound)
       | Some w \<Rightarrow> Inr w)"

definition FindActiveByInstanceAndSignal ::
    "engine_env \<Rightarrow> string \<Rightarrow> string \<Rightarrow> EngineState \<Rightarrow> WorkflowSignalWait result" where
  "FindActiveByInstanceAndSignal env instanceID signalName st =
     and_then (stmt (ee_F env) ''find active signal wait'') (\<lambda>_.
       case first_by age_order (db_select (waiting_for instanceID signalName) (es_waits st)) of
         None \<Rightarrow> Inl (wrap ''find active signal wait'' ErrRecordNotFound)
       | Some w \<Rightarrow> Inr w)"

definition Wait_ListByInstance :: "engine_env \<Rightarrow> string \<Rightarrow> int \<Rightarrow> EngineState \<Rightarrow> WorkflowSignalWait list result" where
  "Wait_ListByInstance env instanceID limit st =
     and_then (stmt (ee_F env) ''list signal waits by instance'') (\<lambda>_.
       Inr (take (list_limit limit) (sort_key bm_CreatedAt (db_select (\<lambda>w. sw_InstanceID w = instanceID) (es_waits st)))))"

definition Wait_DeleteCompletedBefore ::
    "engine_env \<Rightarrow> int \<Rightarrow> int \<Rightarrow> int \<Rightarrow> EngineState \<Rightarrow> (int \<times> EngineState) result" where
  "Wait_DeleteCompletedBefore env now cutoff limit st =
     and_then (delete_batch (ee_F env) ''select terminal signal waits'' ''delete terminal signal waits''
       (\<lambda>w. sw_Status w \<in> {''matched'', ''timed_out''} \<and> bm_ModifiedAt w < cutoff) now limit (es_waits st))
       (\<lambda>(n, t). Inr (n, st\<lparr>es_waits := t\<rparr>))"

section \<open>Signal messages (workflow_signal_message.go)\<close>

definition Message_Create ::
    "engine_env \<Rightarrow> string \<Rightarrow> int \<Rightarrow> WorkflowSignalMessage \<Rightarrow> EngineState \<Rightarrow> EngineState result" where
  "Message_Create env role now message st = insert_message env ''create signal message'' role now message st"

text \<open>
  An insert with \<open>ON CONFLICT (id) DO NOTHING\<close>: a row with the id of the message, deleted or not,
  leaves the table alone and is reported by \<open>False\<close>.
\<close>

definition CreateIfAbsent ::
    "engine_env \<Rightarrow> int \<Rightarrow> WorkflowSignalMessage \<Rightarrow> EngineState \<Rightarrow> (bool \<times> EngineState) result" where
  "CreateIfAbsent env now message st =
     (if bm_ID message = [] then Inl (Errf ''create signal message: deterministic id is required'' [])
      else if bm_ID message \<in> bm_ID ` set (es_messages st)
      then and_then (stmt (ee_F env) ''create signal message'') (\<lambda>_. Inr (False, st))
      else and_then (insert_message env ''create signal message'' ''signal message'' now message st) (\<lambda>st'.
             Inr (True, st')))"

definition Message_ListByInstance ::
    "engine_env \<Rightarrow> string \<Rightarrow> int \<Rightarrow> EngineState \<Rightarrow> WorkflowSignalMessage list result" where
  "Message_ListByInstance env instanceID limit st =
     and_then (stmt (ee_F env) ''list signal messages by instance'') (\<lambda>_.
       Inr (take (list_limit limit)
         (sort_key bm_CreatedAt (db_select (\<lambda>m. sm_TargetInstanceID m = instanceID) (es_messages st)))))"

definition message_free :: "string \<Rightarrow> string \<Rightarrow> int \<Rightarrow> WorkflowSignalMessage \<Rightarrow> bool" where
  "message_free instanceID signalName now m \<longleftrightarrow> pending_for instanceID signalName m \<and> lapsed now (sm_ClaimUntil m)"

definition message_leased :: "string \<Rightarrow> int \<Rightarrow> WorkflowSignalMessage \<Rightarrow> WorkflowSignalMessage" where
  "message_leased owner leaseUntil m =
     m\<lparr>sm_ClaimOwner := owner, sm_ClaimUntil := Some leaseUntil, sm_Attempts := sm_Attempts m + 1\<rparr>"

definition ClaimOldestPendingForTarget ::
    "engine_env \<Rightarrow> int \<Rightarrow> string \<Rightarrow> string \<Rightarrow> string \<Rightarrow> int \<Rightarrow> EngineState
      \<Rightarrow> (WorkflowSignalMessage option \<times> EngineState) result" where
  "ClaimOldestPendingForTarget env now instanceID signalName owner leaseUntil st =
     and_then (stmt (ee_F env) ''claim signal message'') (\<lambda>_.
       case first_by age_order (db_select (message_free instanceID signalName now) (es_messages st)) of
         None \<Rightarrow> Inr (None, st)
       | Some message \<Rightarrow>
           and_then (stmt_at (ee_F env) ''claim signal message (update)'' ''claim signal message'') (\<lambda>_.
             Inr (Some (message_leased owner leaseUntil message),
                  st\<lparr>es_messages := db_update (\<lambda>m. bm_ID m = bm_ID message) (message_leased owner leaseUntil)
                       (es_messages st)\<rparr>)))"

definition message_held :: "string \<Rightarrow> string \<Rightarrow> WorkflowSignalMessage \<Rightarrow> bool" where
  "message_held i owner m \<longleftrightarrow> bm_ID m = i \<and> sm_ClaimOwner m = owner \<and> sm_Status m = ''pending''"

definition MarkDeliveredByOwner ::
    "engine_env \<Rightarrow> string \<Rightarrow> string \<Rightarrow> string \<Rightarrow> int \<Rightarrow> EngineState \<Rightarrow> EngineState result" where
  "MarkDeliveredByOwner env i owner waitID deliveredAt st =
     and_then (update_where (ee_F env) ''mark signal message delivered'' (message_held i owner)
       (\<lambda>m. m\<lparr>sm_Status := ''delivered'', sm_DeliveredAt := Some deliveredAt, sm_WaitID := waitID,
               sm_ClaimOwner := [], sm_ClaimUntil := None\<rparr>) (es_messages st)) (\<lambda>t. Inr (st\<lparr>es_messages := t\<rparr>))"

definition Message_ReleaseClaim :: "engine_env \<Rightarrow> string \<Rightarrow> string \<Rightarrow> EngineState \<Rightarrow> EngineState result" where
  "Message_ReleaseClaim env i owner st =
     and_then (update_where (ee_F env) ''release signal message claim'' (message_held i owner)
       (\<lambda>m. m\<lparr>sm_ClaimOwner := [], sm_ClaimUntil := None\<rparr>) (es_messages st)) (\<lambda>t. Inr (st\<lparr>es_messages := t\<rparr>))"

section \<open>Scope runs (workflow_scope_run.go)\<close>

definition Scope_GetByID :: "engine_env \<Rightarrow> string \<Rightarrow> EngineState \<Rightarrow> WorkflowScopeRun result" where
  "Scope_GetByID env i st = repo_get (ee_F env) ''get scope'' (es_scopes st) i"

definition Scope_GetByParentExecutionID :: "engine_env \<Rightarrow> string \<Rightarrow> EngineState \<Rightarrow> WorkflowScopeRun result" where
  "Scope_GetByParentExecutionID env parentExecutionID st =
     and_then (stmt (ee_F env) ''get scope by parent execution'') (\<lambda>_.
       case first_by bm_ID (db_select (\<lambda>s. sr_ParentExecutionID s = parentExecutionID) (es_scopes st)) of
         None \<Rightarrow> Inl (wrap ''get scope by parent execution'' ErrRecordNotFound)
       | Some s \<Rightarrow> Inr s)"

definition Scope_ListByInstance :: "engine_env \<Rightarrow> string \<Rightarrow> int \<Rightarrow> EngineState \<Rightarrow> WorkflowScopeRun list result" where
  "Scope_ListByInstance env parentInstanceID limit st =
     and_then (stmt (ee_F env) ''list scope runs by instance'') (\<lambda>_.
       Inr (take (list_limit limit)
         (sort_key bm_CreatedAt (db_select (\<lambda>s. sr_ParentInstanceID s = parentInstanceID) (es_scopes st)))))"

definition scope_free :: "int \<Rightarrow> WorkflowScopeRun \<Rightarrow> bool" where
  "scope_free now s \<longleftrightarrow> sr_Status s = ''running'' \<and> lapsed now (sr_ClaimUntil s)"

definition scope_leased :: "string \<Rightarrow> int \<Rightarrow> WorkflowScopeRun \<Rightarrow> WorkflowScopeRun" where
  "scope_leased owner leaseUntil s = s\<lparr>sr_ClaimOwner := owner, sr_ClaimUntil := Some leaseUntil\<rparr>"

definition ClaimRunning ::
    "engine_env \<Rightarrow> int \<Rightarrow> int \<Rightarrow> string \<Rightarrow> int \<Rightarrow> EngineState \<Rightarrow> (WorkflowScopeRun list \<times> EngineState) result" where
  "ClaimRunning env now limit owner leaseUntil st =
     and_then (claim_rows (ee_F env) ''claim running scopes'' (scope_free now) bm_CreatedAt limit
       (scope_leased owner leaseUntil) (es_scopes st)) (\<lambda>(rows, t). Inr (rows, st\<lparr>es_scopes := t\<rparr>))"

definition scope_held :: "string \<Rightarrow> string \<Rightarrow> WorkflowScopeRun \<Rightarrow> bool" where
  "scope_held i owner s \<longleftrightarrow> bm_ID s = i \<and> sr_ClaimOwner s = owner \<and> sr_Status s = ''running''"

definition Scope_ReleaseClaim :: "engine_env \<Rightarrow> string \<Rightarrow> string \<Rightarrow> EngineState \<Rightarrow> EngineState result" where
  "Scope_ReleaseClaim env i owner st =
     and_then (update_where (ee_F env) ''release scope claim'' (scope_held i owner)
       (\<lambda>s. s\<lparr>sr_ClaimOwner := [], sr_ClaimUntil := None\<rparr>) (es_scopes st)) (\<lambda>t. Inr (st\<lparr>es_scopes := t\<rparr>))"

end
