(* ===== verification/Lease_Correct.thy ===== *)
theory Lease_Correct
  imports Engine_Correct Lease_Repository
begin

text \<open>
  What a lease guarantees. The locale \<open>lease\<close> holds the laws of a table whose rows are claimed for
  a while, with the lemmas that follow from them; it is interpreted on the timers, the signal
  waits, the signal messages and the scope runs. The properties are those of the timers.
\<close>

section \<open>The contract of a leased table\<close>

locale lease =
  fixes free :: "int \<Rightarrow> 'r base_model_scheme \<Rightarrow> bool"
    and leased :: "string \<Rightarrow> int \<Rightarrow> 'r base_model_scheme \<Rightarrow> 'r base_model_scheme"
    and until :: "'r base_model_scheme \<Rightarrow> int option"
    and held :: "string \<Rightarrow> string \<Rightarrow> 'r base_model_scheme \<Rightarrow> bool"
  assumes keeps: "keeps_key (leased owner l)"
    and leased_until: "until (leased owner l r) = Some l"
    and leased_held: "free now r \<Longrightarrow> held (bm_ID r) owner (leased owner l r)"
    and free_lapsed: "free now r \<Longrightarrow> lapsed now (until r)"
    and held_owner: "held i owner r \<Longrightarrow> held j other r \<Longrightarrow> owner = other"

inductive lease_step ::
    "(int \<Rightarrow> 'r base_model_scheme \<Rightarrow> bool) \<Rightarrow> (string \<Rightarrow> int \<Rightarrow> 'r base_model_scheme \<Rightarrow> 'r base_model_scheme)
      \<Rightarrow> (string \<Rightarrow> string \<Rightarrow> 'r base_model_scheme \<Rightarrow> bool) \<Rightarrow> string \<Rightarrow> int
      \<Rightarrow> 'r base_model_scheme list \<Rightarrow> 'r base_model_scheme list \<Rightarrow> bool"
  for free leased held owner deadline where
  lease_claim: "claim_rows F label (free now) key limit (leased p l) tbl = Inr (rows, tbl') \<Longrightarrow> now \<le> deadline \<Longrightarrow>
    lease_step free leased held owner deadline tbl tbl'"
| lease_update: "update_where F label (held j p) f tbl = Inr tbl' \<Longrightarrow> p \<noteq> owner \<Longrightarrow> keeps_key f \<Longrightarrow>
    lease_step free leased held owner deadline tbl tbl'"
| lease_insert: "db_insert conflict row tbl = Some tbl' \<Longrightarrow> live row \<Longrightarrow> bm_ID row \<noteq> [] \<Longrightarrow>
    lease_step free leased held owner deadline tbl tbl'"

lemma claim_rows_InrD:
  assumes "claim_rows F label P key limit f tbl = Inr (rows, tbl')"
  shows "let sel = sql_limit limit (sort_key key (db_select P tbl)) in
    rows = map f sel \<and> tbl' = db_update (\<lambda>r. bm_ID r \<in> bm_ID ` set sel) f tbl"
proof -
  have "db_update (\<lambda>r. False) f tbl = tbl" by (simp add: db_update_def)
  then show ?thesis using assms by (auto simp: claim_rows_def Let_def res_simps split: if_splits)
qed

lemma set_sql_limit: "set (sql_limit n xs) \<subseteq> set xs"
  by (auto simp: sql_limit_def dest: in_set_takeD)

context lease
begin

lemma claimed_row:
  assumes "claim_rows F label (free now) key limit (leased owner l) tbl = Inr (rows, tbl')"
    and ids: "ids_ok tbl" and "r \<in> set rows"
  obtains r0 where "db_get tbl (bm_ID r) = Some r0" "free now r0" "r = leased owner l r0" "db_get tbl' (bm_ID r) = Some r"
proof -
  let ?sel = "sql_limit limit (sort_key key (db_select (free now) tbl))"
  from claim_rows_InrD [OF assms(1)] have rows: "rows = map (leased owner l) ?sel"
    and tbl': "tbl' = db_update (\<lambda>r. bm_ID r \<in> bm_ID ` set ?sel) (leased owner l) tbl" by (auto simp: Let_def)
  from rows assms(3) obtain r0 where r0: "r0 \<in> set ?sel" "r = leased owner l r0" by auto
  then have "r0 \<in> set tbl" "live r0" "free now r0" using set_sql_limit by (fastforce simp: db_select_def)+
  then have g: "db_get tbl (bm_ID r0) = Some r0" using ids by (auto intro: db_get_mem)
  have "bm_ID r = bm_ID r0" using r0(2) keeps by simp
  moreover have "db_get tbl' (bm_ID r0) = Some r"
    using g r0 keeps unfolding tbl' by (simp add: db_get_update)
  ultimately show ?thesis using g r0(2) \<open>free now r0\<close> by (intro that [of r0]) auto
qed

lemma kept_by_claim:
  assumes "claim_rows F label (free now) key limit (leased p l') tbl = Inr (rows, tbl')" and ids: "ids_ok tbl"
    and r: "db_get tbl i = Some r" "until r = Some l" and "now \<le> l"
  shows "db_get tbl' i = Some r"
proof -
  let ?sel = "sql_limit limit (sort_key key (db_select (free now) tbl))"
  from claim_rows_InrD [OF assms(1)]
  have tbl': "tbl' = db_update (\<lambda>r. bm_ID r \<in> bm_ID ` set ?sel) (leased p l') tbl" by (auto simp: Let_def)
  have "\<not> free now r" using free_lapsed [of now r] r(2) assms(5) by (auto simp: lapsed_def)
  moreover have "r0 = r" if "r0 \<in> set ?sel" "bm_ID r0 = i" for r0
  proof -
    have "r0 \<in> set tbl" "live r0" using that(1) set_sql_limit by (fastforce simp: db_select_def)+
    then show ?thesis using db_get_mem [OF ids, of r0] that(2) r(1) by simp
  qed
  moreover have "free now r0" if "r0 \<in> set ?sel" for r0 using that set_sql_limit by (fastforce simp: db_select_def)
  ultimately have "i \<notin> bm_ID ` set ?sel" by auto
  then show ?thesis using r(1) keeps unfolding tbl' by (auto simp: db_get_update dest: db_get_SomeD)
qed

lemma kept_by_step:
  assumes "lease_step free leased held owner deadline tbl tbl'" and ids: "ids_ok tbl"
    and r: "db_get tbl i = Some r" "held i owner r" "until r = Some l" and "deadline \<le> l"
  shows "db_get tbl' i = Some r"
  using assms(1)
proof cases
  case (lease_claim F label now key limit p l' rows)
  then show ?thesis using kept_by_claim [OF lease_claim(1) ids r(1,3)] assms(6) by simp
next
  case (lease_update F label j p f)
  then have "tbl' = db_update (held j p) f tbl" by (simp add: update_where_def res_simps)
  moreover have "\<not> held j p r" using held_owner [OF r(2)] lease_update(2) by blast
  ultimately show ?thesis using r(1) lease_update(3) by (simp add: db_get_update)
next
  case (lease_insert conflict row)
  have "bm_ID row \<notin> bm_ID ` set tbl" using db_insert_SomeD [OF lease_insert(1)] by simp
  then have "i \<noteq> bm_ID row" using r(1) by (metis db_get_SomeD imageI)
  then show ?thesis using db_get_insert [OF lease_insert(1,2)] r(1) by simp
qed

lemma ids_step: "lease_step free leased held owner deadline tbl tbl' \<Longrightarrow> ids_ok tbl \<Longrightarrow> ids_ok tbl'"
  by (erule lease_step.cases)
    (auto simp: update_where_def res_simps keeps ids_ok_insert Let_def dest!: claim_rows_InrD)

lemma protects:
  assumes "(lease_step free leased held owner deadline)\<^sup>*\<^sup>* tbl tbl'" and "ids_ok tbl"
    and "db_get tbl i = Some r" "held i owner r" "until r = Some l" and "deadline \<le> l"
  shows "ids_ok tbl' \<and> db_get tbl' i = Some r"
  using assms(1)
proof (induction rule: rtranclp_induct)
  case base show ?case using assms by simp
next
  case (step t t') then show ?case using kept_by_step ids_step assms(4-6) by metis
qed

lemma claim_protects:
  assumes "claim_rows F label (free now) key limit (leased owner l) tbl = Inr (rows, tbl1)" and "ids_ok tbl" and "r \<in> set rows"
    and "(lease_step free leased held owner l)\<^sup>*\<^sup>* tbl1 tbl2"
  shows "\<exists>r0. db_get tbl (bm_ID r) = Some r0 \<and> free now r0 \<and> r = leased owner l r0 \<and> db_get tbl2 (bm_ID r) = Some r"
proof -
  obtain r0 where r0: "db_get tbl (bm_ID r) = Some r0" "free now r0" "r = leased owner l r0" "db_get tbl1 (bm_ID r) = Some r"
    by (rule claimed_row [OF assms(1-3)])
  have "bm_ID r0 = bm_ID r" using r0(3) keeps by simp
  then have "held (bm_ID r) owner r" "until r = Some l" using leased_held [OF r0(2)] leased_until r0(3) by auto
  moreover have "ids_ok tbl1" using claim_rows_InrD [OF assms(1)] assms(2) by (auto simp: Let_def keeps)
  ultimately show ?thesis using protects [OF assms(4) _ r0(4)] r0 by blast
qed

text \<open>The rows taken come first in the order, and are no more than asked for.\<close>

lemma claim_first:
  assumes "claim_rows F label (free now) key limit (leased owner l) tbl = Inr (rows, tbl1)" and "0 \<le> limit"
    and same: "\<And>r. key (leased owner l r) = key r"
  shows "int (length rows) \<le> limit"
    and "r \<in> set rows \<Longrightarrow> x \<in> set tbl \<Longrightarrow> live x \<Longrightarrow> free now x \<Longrightarrow> bm_ID x \<notin> bm_ID ` set rows \<Longrightarrow> key r \<le> key x"
proof -
  let ?all = "sort_key key (db_select (free now) tbl)"
  from claim_rows_InrD [OF assms(1)] assms(2) have rows: "rows = map (leased owner l) (take (nat limit) ?all)"
    by (auto simp: Let_def sql_limit_def)
  then show "int (length rows) \<le> limit" using assms(2) by simp
  assume r: "r \<in> set rows" and x: "x \<in> set tbl" "live x" "free now x" "bm_ID x \<notin> bm_ID ` set rows"
  from rows r obtain r0 where r0: "r0 \<in> set (take (nat limit) ?all)" "key r = key r0" using same by auto
  have "bm_ID ` set rows = bm_ID ` set (take (nat limit) ?all)" by (simp add: rows image_image keeps)
  with x(4) have "x \<notin> set (take (nat limit) ?all)" by auto
  moreover have "x \<in> set ?all" using x by (simp add: db_select_def)
  ultimately have "x \<in> set (drop (nat limit) ?all)" by (metis UnE append_take_drop_id set_append)
  moreover have "sorted (map key (take (nat limit) ?all) @ map key (drop (nat limit) ?all))"
    by (metis append_take_drop_id map_append sorted_sort_key)
  ultimately show "key r \<le> key x" using r0 by (auto simp: sorted_append)
qed

end

interpretation timers: lease timer_free timer_leased tm_ClaimUntil timer_held
  by unfold_locales (auto simp: timer_leased_def timer_free_def timer_held_def keeps_key_def)

interpretation waits: lease wait_timed_out wait_leased sw_ClaimUntil wait_held
  by unfold_locales (auto simp: wait_leased_def wait_timed_out_def wait_held_def keeps_key_def)

interpretation messages: lease "message_free k s" message_leased sm_ClaimUntil message_held for k s
  by unfold_locales (auto simp: message_leased_def message_free_def pending_for_def message_held_def keeps_key_def)

interpretation scopes: lease scope_free scope_leased sr_ClaimUntil scope_held
  by unfold_locales (auto simp: scope_leased_def scope_free_def scope_held_def keeps_key_def)

section \<open>Timers under a lease\<close>

text \<open>
  What other workers and the engine do to the table of timers, up to the time \<open>deadline\<close>: claim due timers,
  mark fired or release what they own under another name, and create timers by parking an execution.
\<close>

inductive timer_step :: "string \<Rightarrow> int \<Rightarrow> EngineState \<Rightarrow> EngineState \<Rightarrow> bool" for owner deadline where
  other_claims: "ClaimDue env now limit p l st = Inr (rows, st') \<Longrightarrow> now \<le> deadline \<Longrightarrow> timer_step owner deadline st st'"
| other_fires: "MarkFiredByOwner env i p fired st = Inr st' \<Longrightarrow> p \<noteq> owner \<Longrightarrow> timer_step owner deadline st st'"
| other_releases: "Timer_ReleaseClaim env i p st = Inr st' \<Longrightarrow> p \<noteq> owner \<Longrightarrow> timer_step owner deadline st st'"
| engine_parks: "env_ok env \<Longrightarrow> ParkExecution env now req st = Inr st' \<Longrightarrow> timer_step owner deadline st st'"

lemma insert_timer_InrD:
  "insert_timer env label role now r st = Inr st' \<Longrightarrow>
     db_insert timer_conflict (with_id (ee_id env role) now r) (es_timers st) = Some (es_timers st')"
  by (auto simp: insert_timer_def res_simps dest!: create_InrD)

lemma park_timers:
  assumes "ParkExecution env now req st = Inr st'" and "env_ok env"
  shows "\<exists>row. db_insert timer_conflict row (es_timers st) = Some (es_timers st') \<and> live row \<and> bm_ID row \<noteq> []"
proof -
  let ?row = "\<lparr>bm_ID = [], bm_CreatedAt = 0, bm_ModifiedAt = 0, bm_DeletedAt = None,
     tm_ExecutionID = bm_ID (pk_Execution req), tm_InstanceID = ex_InstanceID (pk_Execution req),
     tm_State = ex_State (pk_Execution req), tm_FiresAt = pk_FireAt req, tm_FiredAt = None, tm_ClaimUntil = None,
     tm_ClaimOwner = [], tm_Attempts = 0\<rparr>"
  have "db_insert timer_conflict (with_id (ee_id env ''timer'') now ?row) (es_timers st) = Some (es_timers st')"
    using assms(1)
    by (auto simp: ParkExecution_def Let_def res_simps dest!: updateExecutionByID_InrD insert_other_InrD(2) insert_timer_InrD)
  moreover have "bm_ID (with_id (ee_id env ''timer'') now ?row) \<noteq> []" using assms(2) by (simp add: env_ok_def)
  ultimately show ?thesis by (intro exI [of _ "with_id (ee_id env ''timer'') now ?row"]) simp
qed

lemma timer_step_lease:
  "timer_step owner deadline st st' \<Longrightarrow> lease_step timer_free timer_leased timer_held owner deadline (es_timers st) (es_timers st')"
proof (induction rule: timer_step.induct)
  case (other_claims env now limit p l st rows st')
  then show ?case by (auto simp: ClaimDue_def res_simps intro: lease_claim)
next
  case (other_fires env i p fired st st')
  then show ?case by (auto simp: MarkFiredByOwner_def res_simps keeps_key_def intro: lease_update)
next
  case (other_releases env i p st st')
  then show ?case by (auto simp: Timer_ReleaseClaim_def res_simps keeps_key_def intro: lease_update)
next
  case (engine_parks env now req st st')
  then show ?case by (metis park_timers lease_insert)
qed

lemma timer_steps_lease:
  "(timer_step owner deadline)\<^sup>*\<^sup>* st st' \<Longrightarrow>
     (lease_step timer_free timer_leased timer_held owner deadline)\<^sup>*\<^sup>* (es_timers st) (es_timers st')"
  by (induction rule: rtranclp_induct) (auto intro: timer_step_lease rtranclp.rtrancl_into_rtrancl)

text \<open>C19: A timer a worker has claimed is the worker's alone until its lease lapses: it was due, had not fired and was not
  under a running lease when it was claimed, and whatever other workers (claims, firings and releases under another
  owner) and the engine do until then, its row stays as the claim left it. So no two workers fire a timer within one
  lease.\<close>
theorem timer_lease_protects:
  assumes "ClaimDue env now limit owner l st = Inr (rows, st1)" and "ids_ok (es_timers st)" and "t \<in> set rows"
    and "(timer_step owner l)\<^sup>*\<^sup>* st1 st2"
  shows "tm_FiresAt t \<le> now \<and> tm_FiredAt t = None \<and> tm_ClaimOwner t = owner \<and> tm_ClaimUntil t = Some l \<and>
    (\<exists>r0. db_get (es_timers st) (bm_ID t) = Some r0 \<and> lapsed now (tm_ClaimUntil r0)) \<and>
    db_get (es_timers st2) (bm_ID t) = Some t"
proof -
  from assms(1) have claim: "claim_rows (ee_F env) ''claim due timers'' (timer_free now) tm_FiresAt limit
       (timer_leased owner l) (es_timers st) = Inr (rows, es_timers st1)"
    by (auto simp: ClaimDue_def res_simps)
  from timers.claim_protects [OF claim assms(2,3) timer_steps_lease [OF assms(4)]]
  show ?thesis by (auto simp: timer_free_def timer_leased_def)
qed

text \<open>\<open>ClaimDue\<close> takes the timers that are due in the order of their deadlines, at most as many as asked for: no due,
  unclaimed timer it leaves fires earlier than one it takes.\<close>
theorem claim_due_takes_earliest:
  assumes "ClaimDue env now limit owner l st = Inr (rows, st1)" and "0 \<le> limit"
  shows "int (length rows) \<le> limit \<and>
    (\<forall>t \<in> set rows. \<forall>x \<in> set (es_timers st). live x \<and> timer_free now x \<and> bm_ID x \<notin> bm_ID ` set rows \<longrightarrow>
       tm_FiresAt t \<le> tm_FiresAt x)"
proof -
  from assms(1) have claim: "claim_rows (ee_F env) ''claim due timers'' (timer_free now) tm_FiresAt limit
       (timer_leased owner l) (es_timers st) = Inr (rows, es_timers st1)"
    by (auto simp: ClaimDue_def res_simps)
  have same: "tm_FiresAt (timer_leased owner l r) = tm_FiresAt r" for r by (simp add: timer_leased_def)
  show ?thesis using timers.claim_first [OF claim assms(2) same] by blast
qed

definition ex_timer :: "string \<Rightarrow> int \<Rightarrow> WorkflowTimer" where
  "ex_timer i fires = \<lparr>bm_ID = i, bm_CreatedAt = 0, bm_ModifiedAt = 0, bm_DeletedAt = None,
     tm_ExecutionID = i, tm_InstanceID = ''wf'', tm_State = ''s'', tm_FiresAt = fires, tm_FiredAt = None,
     tm_ClaimUntil = None, tm_ClaimOwner = [], tm_Attempts = 0\<rparr>"

definition ex_timers :: EngineState where
  "ex_timers = ex_s0\<lparr>es_timers := [ex_timer ''t1'' 9, ex_timer ''t2'' 5, ex_timer ''t3'' 7]\<rparr>"

definition ex_timers_rows :: "WorkflowTimer list" where
  "ex_timers_rows = map (timer_leased ''w'' 40) [ex_timer ''t2'' 5, ex_timer ''t3'' 7]"

definition ex_timers_claimed :: EngineState where
  "ex_timers_claimed = ex_timers\<lparr>es_timers := [ex_timer ''t1'' 9, timer_leased ''w'' 40 (ex_timer ''t2'' 5),
     timer_leased ''w'' 40 (ex_timer ''t3'' 7)]\<rparr>"

lemma ex_claim_due: "ClaimDue ex_env 10 2 ''w'' 40 ex_timers = Inr (ex_timers_rows, ex_timers_claimed)"
  by code_simp

definition ex_timers_other :: EngineState where
  "ex_timers_other = or_else ex_s0 (MarkFiredByOwner ex_env ''t2'' ''v'' 20 ex_timers_claimed)"

theorem timer_lease_protects_witness:
  "db_get (es_timers ex_timers_other) ''t2'' = Some (timer_leased ''w'' 40 (ex_timer ''t2'' 5))"
proof -
  have "is_ok (MarkFiredByOwner ex_env ''t2'' ''v'' 20 ex_timers_claimed)" by code_simp
  then have "timer_step ''w'' 40 ex_timers_claimed ex_timers_other"
    unfolding ex_timers_other_def by (intro other_fires [of ex_env "''t2''" "''v''" 20]) (auto intro: or_else_ok)
  then have steps: "(timer_step ''w'' 40)\<^sup>*\<^sup>* ex_timers_claimed ex_timers_other" by blast
  have ids: "ids_ok (es_timers ex_timers)" by code_simp
  have mem: "timer_leased ''w'' 40 (ex_timer ''t2'' 5) \<in> set ex_timers_rows" by (simp add: ex_timers_rows_def)
  have "bm_ID (timer_leased ''w'' 40 (ex_timer ''t2'' 5)) = ''t2''" by code_simp
  then show ?thesis using timer_lease_protects [OF ex_claim_due ids mem steps] by simp
qed

theorem claim_due_takes_earliest_witness: "length ex_timers_rows = 2 \<and>
    tm_FiresAt (timer_leased ''w'' 40 (ex_timer ''t3'' 7)) \<le> tm_FiresAt (ex_timer ''t1'' 9)"
proof -
  have t: "timer_leased ''w'' 40 (ex_timer ''t3'' 7) \<in> set ex_timers_rows" by (simp add: ex_timers_rows_def)
  have x: "ex_timer ''t1'' 9 \<in> set (es_timers ex_timers)" by (simp add: ex_timers_def)
  have "live (ex_timer ''t1'' 9) \<and> timer_free 10 (ex_timer ''t1'' 9) \<and> bm_ID (ex_timer ''t1'' 9) \<notin> bm_ID ` set ex_timers_rows"
    by (simp add: ex_timers_rows_def ex_timer_def live_def timer_free_def lapsed_def timer_leased_def)
  then have "tm_FiresAt (timer_leased ''w'' 40 (ex_timer ''t3'' 7)) \<le> tm_FiresAt (ex_timer ''t1'' 9)"
    using conjunct2 [OF claim_due_takes_earliest [OF ex_claim_due], rule_format, OF _ t x] by simp
  then show ?thesis by (simp add: ex_timers_rows_def)
qed

end
