(* ===== verification/Bounded_Cache.thy ===== *)
theory Bounded_Cache
  imports Trustage_Prelude
begin

text \<open>
  \<open>pkg/cacheutil/bounded.go\<close>: the in-process cache of parsed workflows and compiled schemas.
  The lock makes every operation atomic. The locale \<open>cache\<close> is what the users of the cache rely
  on: a lookup returns what was stored under the key, or nothing.
\<close>

section \<open>The cache\<close>

record 'v BoundedCache =
  bc_items :: "(string \<times> 'v) list"
  bc_order :: "string list"
  bc_maxSize :: int

definition NewBoundedCache :: "int \<Rightarrow> 'v BoundedCache" where
  "NewBoundedCache maxSize = \<lparr>bc_items = [], bc_order = [], bc_maxSize = maxSize\<rparr>"

definition Cache_Get :: "string \<Rightarrow> 'v BoundedCache \<Rightarrow> 'v option" where
  "Cache_Get key c = map_of (bc_items c) key"

text \<open>The loop that evicts the oldest entries while the cache is full.\<close>

fun evict :: "int \<Rightarrow> (string \<times> 'v) list \<Rightarrow> string list \<Rightarrow> (string \<times> 'v) list \<times> string list" where
  "evict maxSize items [] = (items, [])"
| "evict maxSize items (oldest # order) =
     (if int (length items) \<ge> maxSize then evict maxSize (AList.delete oldest items) order
      else (items, oldest # order))"

definition Cache_Put :: "string \<Rightarrow> 'v \<Rightarrow> 'v BoundedCache \<Rightarrow> 'v BoundedCache" where
  "Cache_Put key v c =
     (if map_of (bc_items c) key \<noteq> None then c\<lparr>bc_items := AList.update key v (bc_items c)\<rparr>
      else (case evict (bc_maxSize c) (bc_items c) (bc_order c) of (items, order) \<Rightarrow>
        c\<lparr>bc_items := AList.update key v items, bc_order := order @ [key]\<rparr>))"

definition Cache_Len :: "'v BoundedCache \<Rightarrow> int" where
  "Cache_Len c = int (length (bc_items c))"

section \<open>What the cache promises\<close>

locale cache =
  fixes inv :: "'c \<Rightarrow> bool" and get :: "string \<Rightarrow> 'c \<Rightarrow> 'v option" and put :: "string \<Rightarrow> 'v \<Rightarrow> 'c \<Rightarrow> 'c"
  assumes inv_put: "inv c \<Longrightarrow> inv (put k v c)"
    and get_put_same: "inv c \<Longrightarrow> get k (put k v c) = Some v"
    and get_put_other: "inv c \<Longrightarrow> j \<noteq> k \<Longrightarrow> get j (put k v c) = get j c \<or> get j (put k v c) = None"
begin

text \<open>A cache that only ever stores right values only ever returns right values.\<close>

lemma coherent_put:
  assumes "inv c" and "\<And>j w. get j c = Some w \<Longrightarrow> good j w" and "good k v" and "get j (put k v c) = Some w"
  shows "good j w"
proof (cases "j = k")
  case True
  with assms(3,4) get_put_same [OF assms(1)] show ?thesis by simp
next
  case False
  with get_put_other [OF assms(1) False, of v] assms(4) have "get j c = Some w" by auto
  with assms(2) show ?thesis by blast
qed

end

section \<open>The invariant\<close>

definition entries_ok :: "(string \<times> 'v) list \<Rightarrow> string list \<Rightarrow> bool" where
  "entries_ok items order \<longleftrightarrow> distinct (map fst items) \<and> distinct order \<and> set order = fst ` set items"

definition cache_inv :: "'v BoundedCache \<Rightarrow> bool" where
  "cache_inv c \<longleftrightarrow> entries_ok (bc_items c) (bc_order c) \<and> int (length (bc_items c)) \<le> max 1 (bc_maxSize c)"

lemma keys_delete: "fst ` set (AList.delete k al) = fst ` set al - {k}"
  by (metis AList.delete_keys list.set_map set_removeAll)

lemma length_delete_key:
  assumes "distinct (map fst al)" and "k \<in> fst ` set al"
  shows "length (AList.delete k al) = length al - 1"
proof -
  have "length (AList.delete k al) = length (removeAll k (map fst al))"
    by (metis AList.delete_keys length_map)
  also have "\<dots> = length (remove1 k (map fst al))" using assms(1) by (simp add: distinct_remove1_removeAll)
  also have "\<dots> = length al - 1" using assms(2) by (simp add: length_remove1)
  finally show ?thesis .
qed

lemma entries_ok_delete: "entries_ok items (oldest # order) \<Longrightarrow> entries_ok (AList.delete oldest items) order"
  by (auto simp: entries_ok_def keys_delete distinct_delete)

lemma evict_ok:
  assumes "entries_ok items order"
  shows "case evict m items order of (items', order') \<Rightarrow> entries_ok items' order' \<and> int (length items') < max 1 m \<and>
    (\<forall>k. map_of items' k = map_of items k \<or> map_of items' k = None)"
  using assms
proof (induction m items order rule: evict.induct)
  case (1 m items)
  then have "items = []" by (simp add: entries_ok_def)
  with 1 show ?case by simp
next
  case (2 m items oldest order)
  show ?case
  proof (cases "m \<le> int (length items)")
    case True
    from 2 True entries_ok_delete [OF 2(2)]
    have "case evict m (AList.delete oldest items) order of (items', order') \<Rightarrow> entries_ok items' order' \<and>
        int (length items') < max 1 m \<and> (\<forall>k. map_of items' k = map_of (AList.delete oldest items) k \<or> map_of items' k = None)" by simp
    moreover have "map_of (AList.delete oldest items) k = map_of items k \<or> map_of (AList.delete oldest items) k = None" for k
      by (simp add: delete_conv')
    ultimately show ?thesis using True by (simp split: prod.splits) metis
  next
    case False then show ?thesis using 2 by simp
  qed
qed

lemma length_update: "length (AList.update k v al) = (if k \<in> fst ` set al then length al else Suc (length al))"
  by (induction al) auto

lemma entries_ok_update:
  "entries_ok items order \<Longrightarrow> k \<in> fst ` set items \<Longrightarrow> entries_ok (AList.update k v items) order"
  "entries_ok items order \<Longrightarrow> k \<notin> fst ` set items \<Longrightarrow> entries_ok (AList.update k v items) (order @ [k])"
  unfolding entries_ok_def list.set_map [symmetric] update_keys by auto

lemma cache_inv_put:
  assumes "cache_inv c"
  shows "cache_inv (Cache_Put k v c)"
proof (cases "map_of (bc_items c) k")
  case (Some w)
  then have "k \<in> fst ` set (bc_items c)" by (metis domI dom_map_of_conv_image_fst)
  with Some assms show ?thesis by (simp add: Cache_Put_def cache_inv_def entries_ok_update length_update)
next
  case None
  obtain items order where e: "evict (bc_maxSize c) (bc_items c) (bc_order c) = (items, order)" by force
  with evict_ok [of "bc_items c" "bc_order c" "bc_maxSize c"] assms
  have ok: "entries_ok items order" "int (length items) < max 1 (bc_maxSize c)" "map_of items k = map_of (bc_items c) k \<or> map_of items k = None"
    by (auto simp: cache_inv_def)
  from ok(3) None have "map_of items k = None" by simp
  then have "k \<notin> fst ` set items" by (simp add: map_of_eq_None_iff)
  with ok None e show ?thesis by (simp add: Cache_Put_def cache_inv_def entries_ok_update length_update)
qed

lemma cache_get_put:
  assumes "cache_inv c"
  shows "Cache_Get k (Cache_Put k v c) = Some v"
    and "j \<noteq> k \<Longrightarrow> Cache_Get j (Cache_Put k v c) = Cache_Get j c \<or> Cache_Get j (Cache_Put k v c) = None"
  using assms evict_ok [of "bc_items c" "bc_order c" "bc_maxSize c"]
  by (simp_all add: Cache_Get_def Cache_Put_def cache_inv_def update_conv' split: prod.splits)

interpretation bounded: cache cache_inv Cache_Get Cache_Put
  by unfold_locales (simp_all add: cache_inv_put cache_get_put)

lemma cache_inv_new: "cache_inv (NewBoundedCache n)"
  by (simp add: cache_inv_def NewBoundedCache_def entries_ok_def)

text \<open>The cache is bounded: whatever is stored, it never holds more than its maximum size (one entry, where that is not
  positive), its eviction list names exactly its keys, a stored value is found again, and every other key keeps its
  value or is evicted.\<close>
theorem cache_bounded:
  assumes "cache_inv c"
  shows "cache_inv (Cache_Put k v c) \<and> Cache_Len (Cache_Put k v c) \<le> max 1 (bc_maxSize c) \<and>
    Cache_Get k (Cache_Put k v c) = Some v \<and>
    (\<forall>j. j \<noteq> k \<longrightarrow> Cache_Get j (Cache_Put k v c) = Cache_Get j c \<or> Cache_Get j (Cache_Put k v c) = None)"
proof -
  have "bc_maxSize (Cache_Put k v c) = bc_maxSize c" by (simp add: Cache_Put_def split: prod.splits)
  then show ?thesis
    using bounded.inv_put [OF assms, of k v] bounded.get_put_same [OF assms] bounded.get_put_other [OF assms]
    by (simp add: cache_inv_def Cache_Len_def)
qed

theorem cache_bounded_witness:
  "Cache_Len (Cache_Put ''c'' (3::int) (Cache_Put ''b'' 2 (Cache_Put ''a'' 1 (NewBoundedCache 2)))) \<le> 2"
proof -
  have "cache_inv (Cache_Put ''b'' (2::int) (Cache_Put ''a'' 1 (NewBoundedCache 2)))"
    by (intro cache_inv_put cache_inv_new)
  from cache_bounded [OF this, of "''c''" 3] show ?thesis by (simp add: Cache_Put_def NewBoundedCache_def)
qed

end
