(* ===== verification/Platform_Models.thy ===== *)
theory Platform_Models
  imports Engine_Models
begin

text \<open>
  The tables around the engine: schedules, trigger bindings, signal routes, the event log and the
  step schemas (\<open>models/schedule.go\<close>, \<open>trigger_binding.go\<close>, \<open>signal_route.go\<close>, \<open>event_log.go\<close>,
  \<open>workflow_schema.go\<close>). As everywhere in the model the tables hold the rows of one tenant and
  partition: the framework scopes every statement to the caller's, and the conditions on the two
  columns are true of all rows.
\<close>

section \<open>Rows\<close>

record ScheduleDefinition = base_model +
  sd_Name :: string
  sd_CronExpr :: string
  sd_Timezone :: string
  sd_WorkflowName :: string
  sd_WorkflowVersion :: int
  sd_InputPayload :: raw_json
  sd_Active :: bool
  sd_NextFireAt :: "int option"
  sd_LastFiredAt :: "int option"
  sd_JitterSeconds :: int

record TriggerBinding = base_model +
  tb_EventType :: string
  tb_EventFilter :: string
  tb_WorkflowName :: string
  tb_WorkflowVersion :: int
  tb_InputMapping :: raw_json
  tb_KeyExpr :: string
  tb_Active :: bool

record SignalRoute = base_model +
  rt_EventType :: string
  rt_WorkflowName :: string
  rt_WorkflowVersion :: int
  rt_SignalName :: string
  rt_Filter :: string
  rt_KeyExpr :: string
  rt_InstanceExpr :: string
  rt_Active :: bool

record EventLog = base_model +
  ev_EventType :: string
  ev_Source :: string
  ev_IdempotencyKey :: string
  ev_Payload :: raw_json
  ev_Published :: bool
  ev_PublishedAt :: "int option"
  ev_PublishClaimUntil :: "int option"
  ev_PublishClaimOwner :: string
  ev_PublishAttempts :: int

datatype SchemaType = SchemaTypeInput | SchemaTypeOutput | SchemaTypeError

record WorkflowStateSchema = base_model +
  ws_WorkflowName :: string
  ws_WorkflowVersion :: int
  ws_State :: string
  ws_SchemaType :: SchemaType
  ws_SchemaHash :: string
  ws_SchemaBlob :: raw_json

record Platform =
  pf_schedules :: "ScheduleDefinition list"
  pf_bindings :: "TriggerBinding list"
  pf_routes :: "SignalRoute list"
  pf_events :: "EventLog list"
  pf_schemas :: "WorkflowStateSchema list"

definition empty_platform :: Platform where
  "empty_platform = \<lparr>pf_schedules = [], pf_bindings = [], pf_routes = [], pf_events = [], pf_schemas = []\<rparr>"

definition empty_base :: base_model where
  "empty_base = \<lparr>bm_ID = [], bm_CreatedAt = 0, bm_ModifiedAt = 0, bm_DeletedAt = None\<rparr>"

section \<open>Unique indexes (migrate.go)\<close>

definition schedule_conflict :: "ScheduleDefinition \<Rightarrow> ScheduleDefinition \<Rightarrow> bool" where
  "schedule_conflict r s \<longleftrightarrow> sd_WorkflowName r = sd_WorkflowName s \<and>
     sd_WorkflowVersion r = sd_WorkflowVersion s \<and> sd_Name r = sd_Name s"

text \<open>The column is a string, never \<open>NULL\<close>: the empty key takes part in the index.\<close>

definition event_conflict :: "EventLog \<Rightarrow> EventLog \<Rightarrow> bool" where
  "event_conflict r s \<longleftrightarrow> ev_IdempotencyKey r = ev_IdempotencyKey s"

definition schema_conflict :: "WorkflowStateSchema \<Rightarrow> WorkflowStateSchema \<Rightarrow> bool" where
  "schema_conflict r s \<longleftrightarrow> ws_WorkflowName r = ws_WorkflowName s \<and> ws_WorkflowVersion r = ws_WorkflowVersion s \<and>
     ws_State r = ws_State s \<and> ws_SchemaType r = ws_SchemaType s"

section \<open>The event log's hook (event_log.go)\<close>

definition MaxEventLogPayloadBytes :: int where "MaxEventLogPayloadBytes = 2 ^ 20"

definition EventLog_BeforeCreate :: "engine_env \<Rightarrow> EventLog \<Rightarrow> unit result" where
  "EventLog_BeforeCreate env e =
     (let n = int (length (ee_text env (ev_Payload e))) in
      if n > MaxEventLogPayloadBytes then
        Inl (Errf ''event_log payload exceeds %d bytes (got %d): reduce payload size or split into multiple events''
          [EInt MaxEventLogPayloadBytes, EInt n])
      else Inr ())"

definition insert_event ::
    "engine_env \<Rightarrow> string \<Rightarrow> string \<Rightarrow> int \<Rightarrow> EventLog \<Rightarrow> EventLog list \<Rightarrow> EventLog list result" where
  "insert_event env label role now e tbl =
     and_then (EventLog_BeforeCreate env e) (\<lambda>_.
     and_then (jsonb label [ev_Payload e]) (\<lambda>_.
       create (ee_F env) label event_conflict (with_id (ee_id env role) now e) tbl))"

end
