(* ===== verification/Service_Ops.thy ===== *)
theory Service_Ops
  imports Execution_Repository Bounded_Cache Dsl_Navigation Platform_Models
begin

text \<open>
  How the business layer threads its effects. An operation runs on the database and the
  in-process cache of parsed workflows and gives a result together with the state it leaves, on
  the error paths too: a transaction of the repository either happens or changes nothing, but an
  operation that runs several of them keeps those that succeeded. \<open>wp m Q s\<close> says that running
  \<open>m\<close> in \<open>s\<close> gives a result and a state that satisfy \<open>Q\<close>; its rules (\<open>wp_simps\<close>) reduce a
  statement about an operation to the repository calls it makes.
\<close>

named_theorems wp_simps \<open>rules of the weakest precondition\<close>

record Svc =
  sv_db :: EngineState
  sv_plat :: Platform
  sv_dsl :: "WorkflowSpec BoundedCache"

type_synonym 'a op = "Svc \<Rightarrow> 'a result \<times> Svc"

section \<open>Operations\<close>

definition op_ok :: "'a \<Rightarrow> 'a op" where "op_ok x s = (Inr x, s)"

definition op_err :: "errmsg \<Rightarrow> 'a op" where "op_err e s = (Inl e, s)"

definition op_of :: "'a result \<Rightarrow> 'a op" where "op_of r s = (r, s)"

definition op_seq :: "'a op \<Rightarrow> ('a \<Rightarrow> 'b op) \<Rightarrow> 'b op" where
  "op_seq m f s = (case m s of (r, s') \<Rightarrow> (case r of Inl e \<Rightarrow> (Inl e, s') | Inr x \<Rightarrow> f x s'))"

text \<open>
  A panic of the Go runtime is an error no caller looks at: it passes through every call.
\<close>

definition go_panic :: "string \<Rightarrow> errmsg" where
  "go_panic reason = Errf ''panic: %v'' [EStr reason]"

fun is_panic :: "errmsg \<Rightarrow> bool" where
  "is_panic (Errf f args) \<longleftrightarrow> f = ''panic: %v''"

text \<open>The result as a value, and a call whose error is ignored (\<open>_ = f()\<close>).\<close>

definition op_try :: "'a op \<Rightarrow> 'a result op" where
  "op_try m s = (case m s of (r, s') \<Rightarrow>
     (case r of Inl e \<Rightarrow> (if is_panic e then Inl e else Inr (Inl e)) | Inr x \<Rightarrow> Inr (Inr x), s'))"

definition op_ignore :: "'a op \<Rightarrow> unit op" where
  "op_ignore m = op_seq (op_try m) (\<lambda>_. op_ok ())"

text \<open>\<open>if err != nil { return g(err) }\<close>.\<close>

definition op_map_err :: "(errmsg \<Rightarrow> errmsg) \<Rightarrow> 'a op \<Rightarrow> 'a op" where
  "op_map_err g m s = (case m s of (r, s') \<Rightarrow>
     (case r of Inl e \<Rightarrow> Inl (if is_panic e then e else g e) | Inr x \<Rightarrow> Inr x, s'))"

section \<open>Repository calls\<close>

definition db_read :: "(EngineState \<Rightarrow> 'a result) \<Rightarrow> 'a op" where
  "db_read f s = (f (sv_db s), s)"

definition db_run :: "(EngineState \<Rightarrow> ('a \<times> EngineState) result) \<Rightarrow> 'a op" where
  "db_run f s = (case f (sv_db s) of Inl e \<Rightarrow> (Inl e, s) | Inr (x, d) \<Rightarrow> (Inr x, s\<lparr>sv_db := d\<rparr>))"

definition db_exec :: "(EngineState \<Rightarrow> EngineState result) \<Rightarrow> unit op" where
  "db_exec f s = (case f (sv_db s) of Inl e \<Rightarrow> (Inl e, s) | Inr d \<Rightarrow> (Inr (), s\<lparr>sv_db := d\<rparr>))"

text \<open>The same on the tables around the engine.\<close>

definition plat_read :: "(Platform \<Rightarrow> 'a result) \<Rightarrow> 'a op" where
  "plat_read f s = (f (sv_plat s), s)"

definition plat_run :: "(Platform \<Rightarrow> ('a \<times> Platform) result) \<Rightarrow> 'a op" where
  "plat_run f s = (case f (sv_plat s) of Inl e \<Rightarrow> (Inl e, s) | Inr (x, p) \<Rightarrow> (Inr x, s\<lparr>sv_plat := p\<rparr>))"

definition plat_exec :: "(Platform \<Rightarrow> Platform result) \<Rightarrow> unit op" where
  "plat_exec f s = (case f (sv_plat s) of Inl e \<Rightarrow> (Inl e, s) | Inr p \<Rightarrow> (Inr (), s\<lparr>sv_plat := p\<rparr>))"

definition cache_put :: "string \<Rightarrow> WorkflowSpec \<Rightarrow> unit op" where
  "cache_put key spec s = (Inr (), s\<lparr>sv_dsl := Cache_Put key spec (sv_dsl s)\<rparr>)"

definition cache_get :: "string \<Rightarrow> WorkflowSpec option op" where
  "cache_get key s = (Inr (Cache_Get key (sv_dsl s)), s)"

section \<open>Weakest preconditions\<close>

definition wp :: "'a op \<Rightarrow> ('a result \<Rightarrow> Svc \<Rightarrow> bool) \<Rightarrow> Svc \<Rightarrow> bool" where
  "wp m Q s = (case m s of (r, s') \<Rightarrow> Q r s')"

lemma wp_ok [wp_simps]: "wp (op_ok x) Q s = Q (Inr x) s"
  by (simp add: wp_def op_ok_def)

lemma wp_err [wp_simps]: "wp (op_err e) Q s = Q (Inl e) s"
  by (simp add: wp_def op_err_def)

lemma wp_of [wp_simps]: "wp (op_of r) Q s = Q r s"
  by (simp add: wp_def op_of_def)

lemma wp_seq [wp_simps]:
  "wp (op_seq m f) Q s = wp m (\<lambda>r s'. case r of Inl e \<Rightarrow> Q (Inl e) s' | Inr x \<Rightarrow> wp (f x) Q s') s"
  by (simp add: wp_def op_seq_def split: prod.splits sum.splits)

lemma wp_try [wp_simps]:
  "wp (op_try m) Q s =
     wp m (\<lambda>r s'. Q (case r of Inl e \<Rightarrow> (if is_panic e then Inl e else Inr (Inl e)) | Inr x \<Rightarrow> Inr (Inr x)) s') s"
  by (simp add: wp_def op_try_def split: prod.splits)

lemma wp_ignore [wp_simps]:
  "wp (op_ignore m) Q s =
     wp m (\<lambda>r s'. Q (case r of Inl e \<Rightarrow> (if is_panic e then Inl e else Inr ()) | Inr x \<Rightarrow> Inr ()) s') s"
  by (simp add: op_ignore_def wp_def op_seq_def op_try_def op_ok_def split: prod.splits sum.splits)

lemma wp_map_err [wp_simps]:
  "wp (op_map_err g m) Q s = wp m (\<lambda>r s'. Q (case r of Inl e \<Rightarrow> Inl (if is_panic e then e else g e) | Inr x \<Rightarrow> Inr x) s') s"
  by (simp add: wp_def op_map_err_def split: prod.splits)

lemma wp_read [wp_simps]: "wp (db_read f) Q s = Q (f (sv_db s)) s"
  by (simp add: wp_def db_read_def)

lemma wp_run [wp_simps]:
  "wp (db_run f) Q s = (case f (sv_db s) of Inl e \<Rightarrow> Q (Inl e) s | Inr (x, d) \<Rightarrow> Q (Inr x) (s\<lparr>sv_db := d\<rparr>))"
  by (simp add: wp_def db_run_def split: prod.splits sum.splits)

lemma wp_exec [wp_simps]:
  "wp (db_exec f) Q s = (case f (sv_db s) of Inl e \<Rightarrow> Q (Inl e) s | Inr d \<Rightarrow> Q (Inr ()) (s\<lparr>sv_db := d\<rparr>))"
  by (simp add: wp_def db_exec_def split: sum.splits)

lemma wp_plat_read [wp_simps]: "wp (plat_read f) Q s = Q (f (sv_plat s)) s"
  by (simp add: wp_def plat_read_def)

lemma wp_plat_run [wp_simps]:
  "wp (plat_run f) Q s = (case f (sv_plat s) of Inl e \<Rightarrow> Q (Inl e) s | Inr (x, p) \<Rightarrow> Q (Inr x) (s\<lparr>sv_plat := p\<rparr>))"
  by (simp add: wp_def plat_run_def split: prod.splits sum.splits)

lemma wp_plat_exec [wp_simps]:
  "wp (plat_exec f) Q s = (case f (sv_plat s) of Inl e \<Rightarrow> Q (Inl e) s | Inr p \<Rightarrow> Q (Inr ()) (s\<lparr>sv_plat := p\<rparr>))"
  by (simp add: wp_def plat_exec_def split: sum.splits)

lemma wp_cache_put [wp_simps]: "wp (cache_put k v) Q s = Q (Inr ()) (s\<lparr>sv_dsl := Cache_Put k v (sv_dsl s)\<rparr>)"
  by (simp add: wp_def cache_put_def)

lemma wp_cache_get [wp_simps]: "wp (cache_get k) Q s = Q (Inr (Cache_Get k (sv_dsl s))) s"
  by (simp add: wp_def cache_get_def)

lemma wpI: "(\<And>r s'. m s = (r, s') \<Longrightarrow> Q r s') \<Longrightarrow> wp m Q s"
  by (auto simp: wp_def)

lemma wpD: "wp m Q s \<Longrightarrow> m s = (r, s') \<Longrightarrow> Q r s'"
  by (simp add: wp_def)

lemma wp_mono: "wp m Q s \<Longrightarrow> (\<And>r s'. Q r s' \<Longrightarrow> R r s') \<Longrightarrow> wp m R s"
  by (auto simp: wp_def)

text \<open>An operation that leaves the database alone.\<close>

definition reads_only :: "'a op \<Rightarrow> bool" where
  "reads_only m \<longleftrightarrow> (\<forall>s. sv_db (snd (m s)) = sv_db s)"

section \<open>Definitions of workflows (workflow_definition.go)\<close>

definition Def_GetByNameAndVersion :: "engine_env \<Rightarrow> string \<Rightarrow> int \<Rightarrow> EngineState \<Rightarrow> WorkflowDefinition result" where
  "Def_GetByNameAndVersion env name version st =
     and_then (stmt (ee_F env) ''get workflow by name and version'') (\<lambda>_.
       case first_by bm_ID (db_select (\<lambda>d. wd_Name d = name \<and> wd_WorkflowVersion d = version) (es_defs st)) of
         None \<Rightarrow> Inl (wrap ''get workflow by name and version'' ErrRecordNotFound)
       | Some d \<Rightarrow> Inr d)"

definition Def_GetByIDForUpdate :: "engine_env \<Rightarrow> string \<Rightarrow> EngineState \<Rightarrow> WorkflowDefinition result" where
  "Def_GetByIDForUpdate env i st =
     and_then (stmt (ee_F env) ''get workflow by id (primary)'') (\<lambda>_.
       case first_by bm_ID (db_select (\<lambda>d. bm_ID d = i) (es_defs st)) of
         None \<Rightarrow> Inl (wrap ''get workflow by id (primary)'' ErrRecordNotFound)
       | Some d \<Rightarrow> Inr d)"

text \<open>\<open>ORDER BY workflow_version DESC\<close>.\<close>

definition ListByNameForUpdate :: "engine_env \<Rightarrow> string \<Rightarrow> EngineState \<Rightarrow> WorkflowDefinition list result" where
  "ListByNameForUpdate env name st =
     and_then (stmt (ee_F env) ''list workflow versions (primary)'') (\<lambda>_.
       Inr (sort_key (\<lambda>d. - wd_WorkflowVersion d) (db_select (\<lambda>d. wd_Name d = name) (es_defs st))))"

text \<open>The unique index on name and version (migrate.go).\<close>

definition definition_conflict :: "WorkflowDefinition \<Rightarrow> WorkflowDefinition \<Rightarrow> bool" where
  "definition_conflict r s \<longleftrightarrow> wd_Name r = wd_Name s \<and> wd_WorkflowVersion r = wd_WorkflowVersion s"

end
