(* ===== verification/Engine_Vars.thy ===== *)
theory Engine_Vars
  imports Service_Ops
begin

text \<open>
  \<open>business/engine_vars.go\<close> with \<open>resolveNextStepForInstance\<close> of \<open>engine_scope.go\<close>: the variables
  an instance carries from step to step and the plan that moves a completed execution on. A
  \<open>json.RawMessage\<close> that is nil is \<open>RawEmpty\<close>. A Go map is iterated in an order the language
  leaves open; the loops of this file write distinct keys, so the order has no effect.
\<close>

section \<open>Instance variables\<close>

definition decodeInstanceVars :: "raw_json \<Rightarrow> go_map result" where
  "decodeInstanceVars raw =
     (if raw = RawEmpty then Inr []
      else case json_unmarshal_map raw of
        Inl err \<Rightarrow> Inl (Errf ''decode instance vars: %w'' [EErr err])
      | Inr None \<Rightarrow> Inr []
      | Inr (Some vars) \<Rightarrow> Inr vars)"

text \<open>The \<open>output_var\<close> a step declares: only call and signal_wait do.\<close>

definition output_var_name :: "StepSpec \<Rightarrow> string" where
  "output_var_name step = (case step_Type step of
     StepTypeCall \<Rightarrow> (case step_Call step of Some c \<Rightarrow> call_OutputVar c | None \<Rightarrow> [])
   | StepTypeSignalWait \<Rightarrow> (case step_SignalWait step of Some w \<Rightarrow> SignalWaitSpec.sw_OutputVar w | None \<Rightarrow> [])
   | _ \<Rightarrow> [])"

definition outputVarValue :: "StepSpec option \<Rightarrow> raw_json \<Rightarrow> ((string \<times> any) option) result" where
  "outputVarValue step_opt output = (case step_opt of
     None \<Rightarrow> Inr None
   | Some step \<Rightarrow>
       (let name = output_var_name step in
        if name = [] then Inr None
        else and_then (if output = RawEmpty then Inr VNil
                       else case json_unmarshal output of
                         Inl err \<Rightarrow> Inl (Errf ''decode output of %s: %w'' [EStr (step_ID step), EErr err])
                       | Inr v \<Rightarrow> Inr v) (\<lambda>value.
          Inr (Some (name,
            if step_Type step = StepTypeSignalWait then
              (case as_map value of
                 Some wrapped \<Rightarrow> (case map_of wrapped name of Some v \<Rightarrow> v | None \<Rightarrow> VNil)
               | None \<Rightarrow> value)
            else value)))))"

definition nextInstanceVars ::
    "WorkflowInstance \<Rightarrow> StepSpec option \<Rightarrow> raw_json \<Rightarrow> go_map \<Rightarrow> (go_map \<times> raw_json) result" where
  "nextInstanceVars inst step output carried =
     and_then (decodeInstanceVars (wi_Vars inst)) (\<lambda>vars0.
     let vars1 = map_put_all carried vars0 in
     and_then (outputVarValue step output) (\<lambda>set.
       case set of
         Some (name, value) \<Rightarrow>
           (let vars = map_put name value vars1 in Inr (vars, json_marshal (VMap vars)))
       | None \<Rightarrow>
           (if carried \<noteq> [] then Inr (vars1, json_marshal (VMap vars1)) else Inr (vars1, RawEmpty))))"

section \<open>What transition conditions see\<close>

definition instanceMetadata :: "WorkflowInstance \<Rightarrow> string \<Rightarrow> go_map" where
  "instanceMetadata inst executionID =
     [(''instance_id'', VStr (bm_ID inst)), (''execution_id'', VStr executionID),
      (''workflow_name'', VStr (wi_WorkflowName inst)), (''workflow_version'', VInt (wi_WorkflowVersion inst)),
      (''correlation_key'', VStr (wi_CorrelationKey inst))]"

definition expressionScope ::
    "WorkflowInstance \<Rightarrow> WorkflowStateExecution \<Rightarrow> raw_json \<Rightarrow> raw_json \<Rightarrow> go_map \<Rightarrow> go_map result" where
  "expressionScope inst exec input output vars =
     and_then (if output = RawEmpty then Inr VNil
               else case json_unmarshal output of
                 Inl err \<Rightarrow> Inl (Errf ''unmarshal output for transition: %w'' [EErr err])
               | Inr v \<Rightarrow> Inr v) (\<lambda>outputData.
     and_then (if input = RawEmpty then Inr []
               else case json_unmarshal_map input of
                 Inl err \<Rightarrow> Inl (Errf ''unmarshal input for transition: %w'' [EErr err])
               | Inr None \<Rightarrow> Inr []
               | Inr (Some m) \<Rightarrow> Inr m) (\<lambda>payload.
       Inr [(''output'', outputData), (''vars'', VMap vars), (''payload'', VMap payload),
            (''metadata'', VMap (instanceMetadata inst (bm_ID exec)))]))"

fun branchCarriedVars :: "go_map \<Rightarrow> WorkflowInstance list \<Rightarrow> go_map result" where
  "branchCarriedVars carried [] = Inr carried"
| "branchCarriedVars carried (child # children) =
     (if wi_Status child \<noteq> InstanceStatusCompleted then branchCarriedVars carried children
      else and_then (decodeInstanceVars (wi_Vars child)) (\<lambda>vars.
        branchCarriedVars (map_put_all vars carried) children))"

section \<open>The next step of an instance\<close>

definition resolveNextStepForInstance ::
    "('env, 'ast, 'prg) cel_lib \<Rightarrow> WorkflowSpec \<Rightarrow> WorkflowInstance \<Rightarrow> string \<Rightarrow> go_map \<Rightarrow> (StepSpec option) result" where
  "resolveNextStepForInstance cel spec inst currentState vars =
     (if wi_ParentExecutionID inst = [] then ResolveNextStep cel (Some spec) currentState vars
      else if wi_ScopeType inst = step_type_string StepTypeParallel then
        ResolveNextStepInSubtree cel (Some spec) (wi_ScopeEntryState inst) currentState vars
      else if wi_ScopeType inst = step_type_string StepTypeForeach then
        ResolveNextStepInContainer cel (Some spec) (wi_ScopeParentState inst) currentState vars
      else ResolveNextStep cel (Some spec) currentState vars)"

record advancePlan =
  ap_nextStep :: "StepSpec option"
  ap_nextInput :: raw_json
  ap_varsJSON :: raw_json

definition executionInputPayload :: "WorkflowStateExecution \<Rightarrow> raw_json" where
  "executionInputPayload exec = (if ex_InputPayload exec = RawEmpty then empty_object else ex_InputPayload exec)"

definition planAdvance ::
    "('env, 'ast, 'prg) cel_lib \<Rightarrow> WorkflowSpec \<Rightarrow> WorkflowInstance \<Rightarrow> WorkflowStateExecution \<Rightarrow> raw_json \<Rightarrow> go_map
      \<Rightarrow> advancePlan result" where
  "planAdvance cel spec inst exec output carried =
     (let step = FindStep (Some spec) (ex_State exec) in
      and_then (nextInstanceVars inst step output carried) (\<lambda>(vars, varsJSON).
      let input = executionInputPayload exec in
      and_then (expressionScope inst exec input output vars) (\<lambda>scope.
      and_then (labelled ''resolve next step'' (resolveNextStepForInstance cel spec inst (ex_State exec) scope)) (\<lambda>nextStep.
        Inr \<lparr>ap_nextStep = nextStep, ap_nextInput = (if nextStep \<noteq> None then input else RawEmpty),
             ap_varsJSON = varsJSON\<rparr>))))"

definition instanceVarsJSON :: "WorkflowInstance \<Rightarrow> raw_json" where
  "instanceVarsJSON inst = (if wi_Vars inst = RawEmpty then empty_object else wi_Vars inst)"

section \<open>Facts\<close>

text \<open>\<open>carried\<close> in a plan made without a finished branch scope is empty (\<open>nil\<close>).\<close>

lemma planAdvance_InrD:
  assumes "planAdvance cel spec inst exec output carried = Inr plan"
  shows "ap_nextInput plan = (if ap_nextStep plan \<noteq> None then executionInputPayload exec else RawEmpty) \<and>
    (\<exists>vars scope. nextInstanceVars inst (FindStep (Some spec) (ex_State exec)) output carried = Inr (vars, ap_varsJSON plan) \<and>
       expressionScope inst exec (executionInputPayload exec) output vars = Inr scope \<and>
       resolveNextStepForInstance cel spec inst (ex_State exec) scope = Inr (ap_nextStep plan))"
  using assms by (auto simp: planAdvance_def Let_def res_simps)

lemma decode_encoded [simp]: "decodeInstanceVars (json_marshal (VMap vars)) = Inr (map (map_prod id json_norm) vars)"
  by (simp add: decodeInstanceVars_def json_unmarshal_map_def json_unmarshal_def json_marshal_def)

end
