(* ===== verification/State_Engine.thy ===== *)
theory State_Engine
  imports Engine_Vars Lease_Repository Dsl_Duration Go_Time
begin

text \<open>
  \<open>business/engine.go\<close> and \<open>business/engine_signal.go\<close>: the operations of the state engine. The
  engine's collaborators are the fields of \<open>svc_env\<close>: the database's environment, the CEL
  library, the decoder behind \<open>dsl.Parse\<close>, the schema registry, the optional timeout resolver,
  the blobs the shared cache holds, the tenant of the caller and the random number generator.
  Metrics, logs and the best-effort notifier have no effect on the state. An operation reads the
  clock once, \<open>now\<close>.
\<close>

section \<open>Errors (errors.go)\<close>

definition ErrWorkflowNotFound :: errmsg where "ErrWorkflowNotFound = Errf ''workflow not found'' []"
definition ErrInstanceNotFound :: errmsg where "ErrInstanceNotFound = Errf ''instance not found'' []"
definition ErrExecutionNotFound :: errmsg where "ErrExecutionNotFound = Errf ''execution not found'' []"
definition ErrStaleExecution :: errmsg where "ErrStaleExecution = Errf ''stale execution: CAS transition failed'' []"
definition ErrAlreadyDispatched :: errmsg where
  "ErrAlreadyDispatched = Errf ''execution already dispatched or not pending'' []"
definition ErrInvalidToken :: errmsg where "ErrInvalidToken = Errf ''invalid execution token'' []"
definition ErrInputContractViolation :: errmsg where "ErrInputContractViolation = Errf ''input contract violation'' []"
definition ErrOutputContractViolation :: errmsg where "ErrOutputContractViolation = Errf ''output contract violation'' []"
definition ErrSchemaNotFound :: errmsg where "ErrSchemaNotFound = Errf ''schema not found'' []"
definition ErrDSLValidationFailed :: errmsg where "ErrDSLValidationFailed = Errf ''DSL validation failed'' []"
definition ErrInvalidWorkflowStatus :: errmsg where
  "ErrInvalidWorkflowStatus = Errf ''invalid workflow status transition'' []"

definition wrapped_in :: "errmsg \<Rightarrow> errmsg \<Rightarrow> errmsg" where
  "wrapped_in sentinel err = Errf ''%w: %w'' [EErr sentinel, EErr err]"

section \<open>The engine and its messages\<close>

record schema_registry =
  reg_ValidateInput :: "string \<Rightarrow> int \<Rightarrow> string \<Rightarrow> raw_json \<Rightarrow> string result"
  reg_ValidateOutput :: "string \<Rightarrow> int \<Rightarrow> string \<Rightarrow> raw_json \<Rightarrow> unit result"
  reg_ValidateError :: "string \<Rightarrow> int \<Rightarrow> string \<Rightarrow> raw_json \<Rightarrow> unit result"

record ('env, 'ast, 'prg) svc_env =
  se_db :: engine_env
  se_cel :: "('env, 'ast, 'prg) cel_lib"
  se_unmarshal :: "raw_json \<Rightarrow> WorkflowSpec result"
  se_schemas :: schema_registry
  se_resolver :: "(string \<Rightarrow> int \<Rightarrow> string \<Rightarrow> int \<Rightarrow> int result) option"
  se_defaultTimeout :: int
  se_maxStepTimeout :: int
  se_blob :: "(string \<Rightarrow> raw_json option) option"
  se_claims :: "string option"
  se_rand :: "int \<Rightarrow> int"

record ExecutionCommand =
  ec_ExecutionID :: string
  ec_InstanceID :: string
  ec_CorrelationKey :: string
  ec_Vars :: raw_json
  ec_Workflow :: string
  ec_WorkflowVersion :: int
  ec_State :: string
  ec_StateVersion :: int
  ec_Attempt :: int
  ec_InputPayload :: raw_json
  ec_InputSchemaHash :: string
  ec_ExecutionToken :: string
  ec_TraceID :: string

record CommitError =
  ce_Class :: string
  ce_Code :: string
  ce_Message :: string

record CommitRequest =
  rq_ExecutionID :: string
  rq_ExecutionToken :: string
  rq_Output :: raw_json
  rq_Error :: "CommitError option"

definition maxDSLCacheSize :: int where "maxDSLCacheSize = 200"

definition marshal_commit_error :: "CommitError \<Rightarrow> raw_json" where
  "marshal_commit_error e = json_marshal (VMap [(''class'', VStr (ce_Class e)), (''code'', VStr (ce_Code e)),
     (''message'', VStr (ce_Message e))])"

section \<open>Loading the workflow\<close>

definition tenantFromContext :: "string option \<Rightarrow> string" where
  "tenantFromContext claims = (case claims of
     None \<Rightarrow> ''unknown''
   | Some tenantID \<Rightarrow> (if tenantID = [] then ''unknown'' else tenantID))"

definition spec_key :: "string \<Rightarrow> string \<Rightarrow> int \<Rightarrow> string" where
  "spec_key tenantID workflowName version = ''dsl:'' @ tenantID @ '':'' @ workflowName @ '':'' @ itoa version"

definition spec_from_blob :: "('env, 'ast, 'prg) svc_env \<Rightarrow> string \<Rightarrow> WorkflowSpec option" where
  "spec_from_blob env cacheKey = (case se_blob env of
     None \<Rightarrow> None
   | Some blobs \<Rightarrow> (case blobs cacheKey of
       None \<Rightarrow> None
     | Some blob \<Rightarrow> (case Parse (se_unmarshal env) blob of Inl _ \<Rightarrow> None | Inr spec \<Rightarrow> Some spec)))"

definition loadSpec :: "('env, 'ast, 'prg) svc_env \<Rightarrow> string \<Rightarrow> int \<Rightarrow> WorkflowSpec op" where
  "loadSpec env workflowName version =
     (let cacheKey = spec_key (tenantFromContext (se_claims env)) workflowName version in
      op_seq (cache_get cacheKey) (\<lambda>cached. case cached of
        Some spec \<Rightarrow> op_ok spec
      | None \<Rightarrow> (case spec_from_blob env cacheKey of
          Some spec \<Rightarrow> op_seq (cache_put cacheKey spec) (\<lambda>_. op_ok spec)
        | None \<Rightarrow>
            op_seq (op_map_err (wrap ''load workflow definition'')
              (db_read (Def_GetByNameAndVersion (se_db env) workflowName version))) (\<lambda>def.
            op_seq (op_map_err (wrap ''parse workflow DSL'') (op_of (Parse (se_unmarshal env) (wd_DSLBlob def)))) (\<lambda>spec.
            op_seq (cache_put cacheKey spec) (\<lambda>_. op_ok spec))))))"

section \<open>Creating and dispatching executions\<close>

definition append_audit ::
    "('env, 'ast, 'prg) svc_env \<Rightarrow> string \<Rightarrow> int \<Rightarrow> WorkflowAuditEvent \<Rightarrow> unit op" where
  "append_audit env role now event =
     op_ignore (db_exec (insert_audit (se_db env) ''append audit event'' role now event))"

definition CreateInitialExecution ::
    "('env, 'ast, 'prg) svc_env \<Rightarrow> int \<Rightarrow> WorkflowInstance \<Rightarrow> raw_json \<Rightarrow> ExecutionCommand op" where
  "CreateInitialExecution env now inst inputPayload =
     op_seq (op_map_err (wrap ''validate initial input'')
       (op_of (reg_ValidateInput (se_schemas env) (wi_WorkflowName inst) (wi_WorkflowVersion inst)
         (wi_CurrentState inst) inputPayload))) (\<lambda>schemaHash.
     op_seq (op_of (stmt (ee_F (se_db env)) ''generate token'')) (\<lambda>_.
     let rawToken = ee_token (se_db env) ''initial execution'';
         traceID = ''trc_'' @ ee_id (se_db env) ''trace'' in
     op_seq (op_map_err (wrap ''create execution'') (db_run (Exec_Create (se_db env) ''initial execution'' now
       (new_execution (bm_ID inst) (wi_CurrentState inst) 1 ExecStatusPending (HashToken rawToken) schemaHash
          inputPayload traceID)))) (\<lambda>exec.
     op_seq (append_audit env ''initial audit'' now
       (new_audit (bm_ID inst) (bm_ID exec) ''state.dispatched'' (wi_CurrentState inst) traceID RawEmpty)) (\<lambda>_.
     op_ok \<lparr>ec_ExecutionID = bm_ID exec, ec_InstanceID = bm_ID inst, ec_CorrelationKey = wi_CorrelationKey inst,
            ec_Vars = instanceVarsJSON inst, ec_Workflow = wi_WorkflowName inst,
            ec_WorkflowVersion = wi_WorkflowVersion inst, ec_State = wi_CurrentState inst, ec_StateVersion = 0,
            ec_Attempt = 1, ec_InputPayload = inputPayload, ec_InputSchemaHash = schemaHash,
            ec_ExecutionToken = rawToken, ec_TraceID = traceID\<rparr>))))"

text \<open>The zero \<open>time.Time\<close> is the first of January of the year 1.\<close>

definition zero_time :: int where "zero_time = - 62135596800 * second"

definition dispatch_deadline :: "('env, 'ast, 'prg) svc_env \<Rightarrow> int \<Rightarrow> WorkflowInstance \<Rightarrow> string \<Rightarrow> int" where
  "dispatch_deadline env now inst state =
     (let timeoutAt = now + se_defaultTimeout env;
          resolved = (case se_resolver env of
            None \<Rightarrow> timeoutAt
          | Some resolve \<Rightarrow>
              (case resolve (wi_WorkflowName inst) (wi_WorkflowVersion inst) state now of
                 Inl _ \<Rightarrow> timeoutAt
               | Inr at_time \<Rightarrow> (if at_time \<noteq> zero_time then at_time else timeoutAt)))
      in if se_maxStepTimeout env > 0 \<and> resolved > now + se_maxStepTimeout env
         then now + se_maxStepTimeout env else resolved)"

definition Dispatch ::
    "('env, 'ast, 'prg) svc_env \<Rightarrow> int \<Rightarrow> WorkflowStateExecution \<Rightarrow> ExecutionCommand op" where
  "Dispatch env now execution =
     op_seq (op_map_err (wrap ''load instance for dispatch'')
       (db_read (Instance_GetByID (se_db env) (ex_InstanceID execution)))) (\<lambda>inst.
     op_seq (op_of (stmt (ee_F (se_db env)) ''generate dispatch token'')) (\<lambda>_.
     let rawToken = ee_token (se_db env) ''dispatch'';
         timeoutAt = dispatch_deadline env now inst (ex_State execution) in
     op_seq (op_map_err (\<lambda>err. if error_is err ErrStaleMutation then ErrAlreadyDispatched else wrap ''mark dispatched'' err)
       (db_exec (UpdateStatusExpected (se_db env) now (bm_ID execution) ExecStatusPending ExecStatusDispatched
         [Col_started_at (Some now), Col_execution_token (HashToken rawToken), Col_timeout_at (Some timeoutAt)]))) (\<lambda>_.
     op_ok \<lparr>ec_ExecutionID = bm_ID execution, ec_InstanceID = ex_InstanceID execution,
            ec_CorrelationKey = wi_CorrelationKey inst, ec_Vars = instanceVarsJSON inst,
            ec_Workflow = wi_WorkflowName inst, ec_WorkflowVersion = wi_WorkflowVersion inst,
            ec_State = ex_State execution, ec_StateVersion = 0, ec_Attempt = ex_Attempt execution,
            ec_InputPayload = ex_InputPayload execution, ec_InputSchemaHash = ex_InputSchemaHash execution,
            ec_ExecutionToken = rawToken, ec_TraceID = ex_TraceID execution\<rparr>)))"

definition RevertDispatch :: "('env, 'ast, 'prg) svc_env \<Rightarrow> int \<Rightarrow> string \<Rightarrow> unit op" where
  "RevertDispatch env now executionID =
     op_seq (op_try (db_exec (UpdateStatusExpected (se_db env) now executionID ExecStatusDispatched ExecStatusPending
       [Col_started_at None, Col_execution_token [], Col_timeout_at None]))) (\<lambda>r. case r of
       Inl err \<Rightarrow> (if error_is err ErrStaleMutation then op_ok () else op_err err)
     | Inr _ \<Rightarrow> op_ok ())"

section \<open>Reporting a failure\<close>

text \<open>
  \<open>float64(x) * math.Pow(2, n)\<close> converted back by \<open>int64(_)\<close>: scaling by a power of two is exact,
  and a product beyond the range of \<open>int64\<close>, an infinite one included, converts to the smallest
  \<open>int64\<close> (amd64). \<open>rand.Int64N\<close> panics when its bound is not positive.
\<close>

definition float_of_int :: "int \<Rightarrow> rat" where
  "float_of_int x = (if x < 0 then - float64 (of_int (- x)) else float64 (of_int x))"

definition scaled_delay :: "int \<Rightarrow> int \<Rightarrow> int" where
  "scaled_delay initial n =
     (if n \<ge> 1024 then min_int64
      else float_to_int64 (if n \<ge> 0 then float_of_int initial * 2 ^ nat n else float_of_int initial / 2 ^ nat (- n)))"

definition exponentialBase :: int where "exponentialBase = 2"

definition retry_delay_ms :: "int \<Rightarrow> WorkflowRetryPolicy \<Rightarrow> int" where
  "retry_delay_ms attempt policy =
     (let delayMs = (if rp_BackoffStrategy policy = ''exponential''
                     then scaled_delay (rp_InitialDelayMs policy) (attempt - 1) else rp_InitialDelayMs policy)
      in if delayMs > rp_MaxDelayMs policy then rp_MaxDelayMs policy else delayMs)"

definition int64N :: "(int \<Rightarrow> int) \<Rightarrow> int \<Rightarrow> int result" where
  "int64N rnd n = (if n \<le> 0 then Inl (go_panic ''invalid argument to Int64N'') else Inr (rnd n))"

definition millisecond :: int where "millisecond = 1000000"

definition computeRetryTime :: "(int \<Rightarrow> int) \<Rightarrow> int \<Rightarrow> int \<Rightarrow> WorkflowRetryPolicy \<Rightarrow> int result" where
  "computeRetryTime rnd now attempt policy =
     and_then (int64N rnd (int64 (retry_delay_ms attempt policy + 1))) (\<lambda>jitteredMs.
       Inr (now + int64 (jitteredMs * millisecond)))"

definition retry_audit_payload :: "int \<Rightarrow> int \<Rightarrow> int \<Rightarrow> raw_json" where
  "retry_audit_payload nextRetryAt attempt maxAttempts =
     json_marshal (VMap [(''next_retry_at'', VStr (format_RFC3339 nextRetryAt)), (''attempt'', VInt attempt),
       (''max_attempts'', VInt maxAttempts)])"

definition scheduleRetryIfAllowed ::
    "('env, 'ast, 'prg) svc_env \<Rightarrow> int \<Rightarrow> WorkflowStateExecution \<Rightarrow> WorkflowInstance \<Rightarrow> CommitRequest \<Rightarrow> CommitError
      \<Rightarrow> bool op" where
  "scheduleRetryIfAllowed env now exec inst req failure =
     op_seq (op_try (db_read (RetryPolicy_Lookup (se_db env) (wi_WorkflowName inst) (wi_WorkflowVersion inst)
       (ex_State exec)))) (\<lambda>r. case r of
       Inl _ \<Rightarrow> op_ok False
     | Inr policy \<Rightarrow>
         (if ex_Attempt exec \<ge> rp_MaxAttempts policy then op_ok False
          else op_seq (op_of (computeRetryTime (se_rand env) now (ex_Attempt exec) policy)) (\<lambda>nextRetryAt.
            op_seq (op_map_err (wrap ''schedule retry'') (db_exec (UpdateStatus (se_db env) now (rq_ExecutionID req)
              ExecStatusRetryScheduled [Col_error_class (ce_Class failure), Col_error_message (ce_Message failure),
                Col_next_retry_at (Some nextRetryAt)]))) (\<lambda>_.
            op_seq (append_audit env ''retry audit'' now
              (new_audit (ex_InstanceID exec) (rq_ExecutionID req) ''state.retried'' (ex_State exec) (ex_TraceID exec)
                (retry_audit_payload nextRetryAt (ex_Attempt exec + 1) (rp_MaxAttempts policy)))) (\<lambda>_.
            op_ok True)))))"

text \<open>The sentinel errors the engine turns those of the repository into, in the order it tests them.\<close>

definition token_or_stale :: "errmsg \<Rightarrow> errmsg" where
  "token_or_stale err =
     (if error_is err ErrInvalidExecutionToken then wrapped_in ErrInvalidToken err
      else if error_is err ErrStaleMutation then ErrStaleExecution else err)"

definition stale_or_token :: "errmsg \<Rightarrow> errmsg" where
  "stale_or_token err =
     (if error_is err ErrStaleMutation then ErrStaleExecution
      else if error_is err ErrInvalidExecutionToken then wrapped_in ErrInvalidToken err else err)"

definition stale_only :: "errmsg \<Rightarrow> errmsg" where
  "stale_only err = (if error_is err ErrStaleMutation then ErrStaleExecution else err)"

definition retryable_class :: "string \<Rightarrow> bool" where
  "retryable_class c \<longleftrightarrow> c = ''retryable'' \<or> c = ''external_dependency''"

definition commitError ::
    "('env, 'ast, 'prg) svc_env \<Rightarrow> int \<Rightarrow> CommitRequest \<Rightarrow> CommitError \<Rightarrow> WorkflowStateExecution \<Rightarrow> WorkflowInstance
      \<Rightarrow> unit op" where
  "commitError env now req failure exec inst =
     op_seq (if retryable_class (ce_Class failure)
             then op_try (scheduleRetryIfAllowed env now exec inst req failure) else op_ok (Inr False)) (\<lambda>scheduled.
     if scheduled = Inr True then op_ok ()
     else op_map_err stale_or_token (db_exec (FailExecution (se_db env) now
       \<lparr>fl_Execution = exec, fl_Instance = inst, fl_TokenHash = HashToken (rq_ExecutionToken req), fl_VerifyToken = True,
        fl_ExpectedStatus = ExecStatusDispatched,
        fl_Status = (if ce_Class failure = ''timeout'' then ExecStatusTimedOut else ExecStatusFatal),
        fl_ErrorClass = ce_Class failure, fl_ErrorMessage = ce_Message failure, fl_AuditTrace = ex_TraceID exec,
        fl_AuditPayload = marshal_commit_error failure\<rparr>)))"

section \<open>Completing an execution\<close>

definition validateNextInput ::
    "('env, 'ast, 'prg) svc_env \<Rightarrow> WorkflowInstance \<Rightarrow> StepSpec option \<Rightarrow> raw_json \<Rightarrow> string result" where
  "validateNextInput env inst nextStep mappedInput = (case nextStep of
     None \<Rightarrow> Inr []
   | Some step \<Rightarrow>
       (if mappedInput = RawEmpty then Inr []
        else labelled ''validate next state input''
          (reg_ValidateInput (se_schemas env) (wi_WorkflowName inst) (wi_WorkflowVersion inst) (step_ID step) mappedInput)))"

text \<open>The request both kinds of completion send to the repository.\<close>

definition next_state :: "advancePlan \<Rightarrow> string" where
  "next_state plan = (case ap_nextStep plan of None \<Rightarrow> [] | Some step \<Rightarrow> step_ID step)"

definition commit_request ::
    "WorkflowStateExecution \<Rightarrow> WorkflowInstance \<Rightarrow> string \<Rightarrow> bool \<Rightarrow> ExecutionStatus \<Rightarrow> raw_json \<Rightarrow> advancePlan \<Rightarrow> string
      \<Rightarrow> CommitExecutionRequest" where
  "commit_request exec inst tokenHash verify expected output plan nextHash =
     \<lparr>cm_Execution = exec, cm_Instance = inst, cm_TokenHash = tokenHash, cm_VerifyToken = verify,
      cm_OutputPayload = output, cm_ExpectedStatus = expected, cm_NextState = next_state plan,
      cm_NextInputPayload = ap_nextInput plan, cm_NextInputSchemaHash = nextHash, cm_InstanceVars = ap_varsJSON plan\<rparr>"

text \<open>The check of an output, whose failure marks the execution.\<close>

definition check_output ::
    "('env, 'ast, 'prg) svc_env \<Rightarrow> int \<Rightarrow> WorkflowStateExecution \<Rightarrow> WorkflowInstance \<Rightarrow> raw_json \<Rightarrow> unit op" where
  "check_output env now exec inst output =
     (case reg_ValidateOutput (se_schemas env) (wi_WorkflowName inst) (wi_WorkflowVersion inst) (ex_State exec) output of
        Inr _ \<Rightarrow> op_ok ()
      | Inl err \<Rightarrow>
          op_seq (op_ignore (db_exec (UpdateExecutionStatus (se_db env) now exec ExecStatusInvalidOutputContract))) (\<lambda>_.
          op_err (wrapped_in ErrOutputContractViolation err)))"

definition load_instance :: "('env, 'ast, 'prg) svc_env \<Rightarrow> WorkflowStateExecution \<Rightarrow> WorkflowInstance op" where
  "load_instance env exec = op_map_err (wrap ''load instance'') (db_read (Instance_GetByID (se_db env) (ex_InstanceID exec)))"

definition load_execution :: "('env, 'ast, 'prg) svc_env \<Rightarrow> string \<Rightarrow> WorkflowStateExecution op" where
  "load_execution env executionID =
     op_map_err (wrapped_in ErrExecutionNotFound) (db_read (Exec_GetByID (se_db env) executionID))"

definition Commit :: "('env, 'ast, 'prg) svc_env \<Rightarrow> int \<Rightarrow> CommitRequest \<Rightarrow> unit op" where
  "Commit env now req =
     (let tokenHash = HashToken (rq_ExecutionToken req) in
      op_seq (load_execution env (rq_ExecutionID req)) (\<lambda>exec.
      op_seq (load_instance env exec) (\<lambda>inst.
      case rq_Error req of
        Some failure \<Rightarrow> commitError env now req failure exec inst
      | None \<Rightarrow>
          op_seq (loadSpec env (wi_WorkflowName inst) (wi_WorkflowVersion inst)) (\<lambda>spec.
          op_seq (check_output env now exec inst (rq_Output req)) (\<lambda>_.
          op_seq (op_of (planAdvance (se_cel env) spec inst exec (rq_Output req) [])) (\<lambda>plan.
          op_seq (op_of (validateNextInput env inst (ap_nextStep plan) (ap_nextInput plan))) (\<lambda>nextHash.
          op_seq (op_map_err token_or_stale (db_exec (CommitExecution (se_db env) now
            (commit_request exec inst tokenHash True ExecStatusDispatched (rq_Output req) plan nextHash)))) (\<lambda>_.
          append_audit env ''completion audit'' now
            (new_audit (ex_InstanceID exec) (rq_ExecutionID req) ''state.completed'' (ex_State exec) (ex_TraceID exec)
               (rq_Output req))))))))))"

definition ParkExecutionUntil :: "('env, 'ast, 'prg) svc_env \<Rightarrow> int \<Rightarrow> string \<Rightarrow> string \<Rightarrow> int \<Rightarrow> unit op" where
  "ParkExecutionUntil env now executionID executionToken fireAt =
     op_seq (load_execution env executionID) (\<lambda>exec.
     op_seq (load_instance env exec) (\<lambda>inst.
     op_map_err stale_or_token (db_exec (ParkExecution (se_db env) now
       \<lparr>pk_Execution = exec, pk_Instance = inst, pk_TokenHash = HashToken executionToken, pk_FireAt = fireAt,
        pk_AuditTrace = ex_TraceID exec\<rparr>))))"

definition resumeWaitingExecution ::
    "('env, 'ast, 'prg) svc_env \<Rightarrow> int \<Rightarrow> string \<Rightarrow> raw_json \<Rightarrow> go_map \<Rightarrow> unit op" where
  "resumeWaitingExecution env now executionID output0 carried =
     op_seq (load_execution env executionID) (\<lambda>exec.
     if ex_Status exec \<noteq> ExecStatusWaiting then op_err ErrStaleExecution
     else op_seq (load_instance env exec) (\<lambda>inst.
     if wi_Status inst \<noteq> InstanceStatusRunning then
       op_ignore (db_exec (UpdateExecutionStatus (se_db env) now exec ExecStatusStale))
     else op_seq (loadSpec env (wi_WorkflowName inst) (wi_WorkflowVersion inst)) (\<lambda>spec.
     let output = (if output0 = RawEmpty then empty_object else output0) in
     op_seq (check_output env now exec inst output) (\<lambda>_.
     op_seq (op_of (planAdvance (se_cel env) spec inst exec output carried)) (\<lambda>plan.
     op_seq (op_of (validateNextInput env inst (ap_nextStep plan) (ap_nextInput plan))) (\<lambda>nextHash.
     op_seq (op_map_err stale_only (db_exec (CommitExecution (se_db env) now
       (commit_request exec inst [] False ExecStatusWaiting output plan nextHash)))) (\<lambda>_.
     append_audit env ''completion audit'' now
       (new_audit (ex_InstanceID exec) (bm_ID exec) ''state.completed'' (ex_State exec) [] RawEmpty))))))))"

definition ResumeWaitingExecution :: "('env, 'ast, 'prg) svc_env \<Rightarrow> int \<Rightarrow> string \<Rightarrow> raw_json \<Rightarrow> unit op" where
  "ResumeWaitingExecution env now executionID output = resumeWaitingExecution env now executionID output []"

definition FailWaitingExecution ::
    "('env, 'ast, 'prg) svc_env \<Rightarrow> int \<Rightarrow> string \<Rightarrow> ExecutionStatus \<Rightarrow> CommitError \<Rightarrow> unit op" where
  "FailWaitingExecution env now executionID status failure =
     op_seq (load_execution env executionID) (\<lambda>exec.
     if ex_Status exec \<noteq> ExecStatusWaiting then op_err ErrStaleExecution
     else op_seq (load_instance env exec) (\<lambda>inst.
     op_map_err stale_only (db_exec (FailExecution (se_db env) now
       \<lparr>fl_Execution = exec, fl_Instance = inst, fl_TokenHash = [], fl_VerifyToken = False,
        fl_ExpectedStatus = ExecStatusWaiting, fl_Status = status, fl_ErrorClass = ce_Class failure,
        fl_ErrorMessage = ce_Message failure, fl_AuditTrace = ex_TraceID exec, fl_AuditPayload = RawEmpty\<rparr>))))"

section \<open>Signals (engine_signal.go)\<close>

definition signalDeliveryLeaseTTL :: int where "signalDeliveryLeaseTTL = 30 * second"

definition buildSignalOutputPayload :: "string \<Rightarrow> raw_json \<Rightarrow> raw_json result" where
  "buildSignalOutputPayload outputVar payload0 =
     (let payload = (if payload0 = RawEmpty then empty_object else payload0) in
      if outputVar = [] then Inr payload
      else case json_unmarshal payload of
        Inl err \<Rightarrow> Inl (Errf ''unmarshal signal payload: %w'' [EErr err])
      | Inr value \<Rightarrow> Inr (json_marshal (VMap [(outputVar, value)])))"

text \<open>The owner of a delivery names the nanosecond it was made in.\<close>

definition delivery_owner :: "int \<Rightarrow> string" where
  "delivery_owner now = ''signal-delivery:'' @ itoa now"

text \<open>The claim returns a message together with its wait or nothing, so the release of a claim without a wait never runs.\<close>

definition tryDeliverSignal :: "('env, 'ast, 'prg) svc_env \<Rightarrow> int \<Rightarrow> string \<Rightarrow> string \<Rightarrow> bool op" where
  "tryDeliverSignal env now instanceID signalName =
     op_seq (db_run (ClaimSignalDelivery (se_db env) now
       \<lparr>cs_InstanceID = instanceID, cs_SignalName = signalName, cs_Owner = delivery_owner now,
        cs_LeaseUntil = now + signalDeliveryLeaseTTL\<rparr>)) (\<lambda>claim. case claim of
       None \<Rightarrow> op_ok False
     | Some (message, wait) \<Rightarrow>
         op_seq (op_of (buildSignalOutputPayload (WorkflowSignalWait.sw_OutputVar wait) (sm_Payload message))) (\<lambda>output.
         op_seq (op_try (ResumeWaitingExecution env now (sw_ExecutionID wait) output)) (\<lambda>r. case r of
           Inl resumeErr \<Rightarrow> (if error_is resumeErr ErrStaleExecution then op_ok True else op_err resumeErr)
         | Inr _ \<Rightarrow> op_ok True)))"

definition StartSignalWait ::
    "('env, 'ast, 'prg) svc_env \<Rightarrow> int \<Rightarrow> ExecutionCommand \<Rightarrow> StepSpec option \<Rightarrow> unit op" where
  "StartSignalWait env now cmd step_opt =
     (case (case step_opt of None \<Rightarrow> None | Some step \<Rightarrow> step_SignalWait step) of
        None \<Rightarrow> op_err (Errf ''signal_wait step is missing signal_wait configuration'' [])
      | Some wait \<Rightarrow>
          op_seq (load_execution env (ec_ExecutionID cmd)) (\<lambda>exec.
          op_seq (load_instance env exec) (\<lambda>inst.
          op_seq (op_map_err token_or_stale (db_exec (Runtime_StartSignalWait (se_db env) now
            \<lparr>ss_Execution = exec, ss_Instance = inst, ss_TokenHash = HashToken (ec_ExecutionToken cmd),
             ss_SignalName = SignalWaitSpec.sw_SignalName wait, ss_OutputVar = SignalWaitSpec.sw_OutputVar wait,
             ss_TimeoutAt = (if sw_Timeout wait > 0 then Some (now + sw_Timeout wait) else None),
             ss_AuditTrace = ex_TraceID exec\<rparr>))) (\<lambda>_.
          op_seq (tryDeliverSignal env now (ex_InstanceID exec) (SignalWaitSpec.sw_SignalName wait)) (\<lambda>_. op_ok ())))))"

definition signal_message :: "string \<Rightarrow> string \<Rightarrow> string \<Rightarrow> raw_json \<Rightarrow> WorkflowSignalMessage" where
  "signal_message i instanceID signalName payload =
     \<lparr>bm_ID = i, bm_CreatedAt = 0, bm_ModifiedAt = 0, bm_DeletedAt = None,
      sm_TargetInstanceID = instanceID, sm_SignalName = signalName,
      sm_Payload = (if payload = RawEmpty then empty_object else payload), sm_Status = ''pending'',
      sm_DeliveredAt = None, sm_WaitID = [], sm_ClaimUntil = None, sm_ClaimOwner = [], sm_Attempts = 0\<rparr>"

definition SendSignal :: "('env, 'ast, 'prg) svc_env \<Rightarrow> int \<Rightarrow> string \<Rightarrow> string \<Rightarrow> raw_json \<Rightarrow> bool op" where
  "SendSignal env now instanceID signalName payload =
     (if instanceID = [] then op_err (Errf ''instance_id is required'' [])
      else if signalName = [] then op_err (Errf ''signal_name is required'' [])
      else op_seq (op_map_err (wrap ''store signal message'') (db_exec (Message_Create (se_db env) ''signal message'' now
             (signal_message [] instanceID signalName payload)))) (\<lambda>_.
           tryDeliverSignal env now instanceID signalName))"

text \<open>\<open>instance_dedupe.go\<close>.\<close>

definition deterministicEventSignalID :: "string \<Rightarrow> string \<Rightarrow> string \<Rightarrow> string" where
  "deterministicEventSignalID eventID instanceID signalName =
     ''wsg_'' @ take 40 (EncodeToString (Sum256
       (''event='' @ eventID @ ''|instance='' @ instanceID @ ''|signal='' @ signalName)))"

definition deterministicEventInstanceID :: "string \<Rightarrow> string \<Rightarrow> string \<Rightarrow> int \<Rightarrow> string \<Rightarrow> string" where
  "deterministicEventInstanceID tenantID partitionID workflowName workflowVersion triggerEventID =
     ''wfi_'' @ take 40 (EncodeToString (Sum256
       (''tenant='' @ tenantID @ ''|partition='' @ partitionID @ ''|workflow='' @ workflowName @
        ''|version='' @ itoa workflowVersion @ ''|event='' @ triggerEventID)))"

definition DeliverEventSignal ::
    "('env, 'ast, 'prg) svc_env \<Rightarrow> int \<Rightarrow> string \<Rightarrow> string \<Rightarrow> string \<Rightarrow> raw_json \<Rightarrow> bool op" where
  "DeliverEventSignal env now eventID instanceID signalName payload =
     (if eventID = [] then op_err (Errf ''event_id is required'' [])
      else if instanceID = [] then op_err (Errf ''instance_id is required'' [])
      else if signalName = [] then op_err (Errf ''signal_name is required'' [])
      else op_seq (op_map_err (wrap ''store signal message'') (db_run (CreateIfAbsent (se_db env) now
             (signal_message (deterministicEventSignalID eventID instanceID signalName) instanceID signalName payload)))) (\<lambda>_.
           tryDeliverSignal env now instanceID signalName))"

end
