(* ===== verification/Branch_Scope.thy ===== *)
theory Branch_Scope
  imports State_Engine
begin

text \<open>
  \<open>business/engine_scope.go\<close>: parallel and foreach steps. A scope parks its parent execution,
  launches child instances, and is reconciled until its children decide it. Scope indices are
  the positions of children in their list.
\<close>

section \<open>Children\<close>

record scopedChildDefinition =
  sc_Index :: int
  sc_EntryState :: string
  sc_Input :: raw_json
  sc_Item :: any

text \<open>
  \<open>json.Unmarshal\<close> of \<open>null\<close> makes the map nil, and writing into a nil map panics. The extra
  entries are written in the order of the literal, later ones over earlier ones.
\<close>

definition augmentInputPayload :: "raw_json \<Rightarrow> go_map \<Rightarrow> raw_json result" where
  "augmentInputPayload base extra =
     (if base = RawEmpty then Inr (json_marshal (VMap (map_put_all extra [])))
      else case json_unmarshal_map base of
        Inl err \<Rightarrow> Inl (Errf ''unmarshal input payload: %w'' [EErr err])
      | Inr None \<Rightarrow> (if extra = [] then Inr (json_marshal VNil) else Inl (go_panic ''assignment to entry in nil map''))
      | Inr (Some payloadMap) \<Rightarrow> Inr (json_marshal (VMap (map_put_all extra payloadMap))))"

definition defaultForeachConcurrency :: "int \<Rightarrow> int" where
  "defaultForeachConcurrency value = (if value \<le> 0 then 1 else value)"

definition defaultForeachItemVar :: "string \<Rightarrow> string" where
  "defaultForeachItemVar value = (if value = [] then ''item'' else value)"

definition defaultForeachIndexVar :: "string \<Rightarrow> string" where
  "defaultForeachIndexVar value = (if value = [] then ''index'' else value)"

definition parallelChildrenFromStep ::
    "StepSpec \<Rightarrow> raw_json \<Rightarrow> string \<Rightarrow> string \<Rightarrow> scopedChildDefinition list result" where
  "parallelChildrenFromStep step inputPayload parentInstanceID parentExecutionID = (case step_Parallel step of
     None \<Rightarrow> Inl (Errf ''parallel step is missing parallel configuration'' [])
   | Some par \<Rightarrow>
       and_then (augmentInputPayload inputPayload
         [(''parent_instance_id'', VStr parentInstanceID), (''parent_execution_id'', VStr parentExecutionID)]) (\<lambda>baseInput.
       Inr (map (\<lambda>(index, child). \<lparr>sc_Index = int index, sc_EntryState = step_ID child, sc_Input = baseInput, sc_Item = VNil\<rparr>)
              (enumerate 0 (par_Steps par)))))"

text \<open>The environment of the items expression: the payload, its entries, and the instance variables.\<close>

definition foreach_env :: "go_map \<Rightarrow> go_map \<Rightarrow> go_map" where
  "foreach_env payload stored =
     map_put ''vars'' (VMap stored) (map_put_all payload [(''payload'', VMap payload)])"

definition evaluateForeachItems ::
    "('env, 'ast, 'prg) cel_lib \<Rightarrow> string \<Rightarrow> raw_json \<Rightarrow> raw_json \<Rightarrow> any list result" where
  "evaluateForeachItems cel items inputPayload instanceVars =
     and_then (if inputPayload = RawEmpty then Inr []
               else case json_unmarshal_map inputPayload of
                 Inl err \<Rightarrow> Inl (Errf ''unmarshal foreach input payload: %w'' [EErr err])
               | Inr None \<Rightarrow> Inr []
               | Inr (Some m) \<Rightarrow> Inr m) (\<lambda>payload.
     and_then (labelled ''create CEL env'' (NewExpressionEnv cel)) (\<lambda>celenv.
     and_then (labelled ''compile foreach.items'' (CompileExpression cel celenv items)) (\<lambda>ast.
     and_then (decodeInstanceVars instanceVars) (\<lambda>stored.
     and_then (labelled ''evaluate foreach.items'' (EvaluateExpression cel celenv ast (foreach_env payload stored))) (\<lambda>value.
       case value of
         VList vs \<Rightarrow> Inr vs
       | _ \<Rightarrow> Inl (Errf ''foreach.items must evaluate to list, got %T'' []))))))"

fun foreach_children ::
    "string \<Rightarrow> string \<Rightarrow> string \<Rightarrow> raw_json \<Rightarrow> string \<Rightarrow> string \<Rightarrow> int \<Rightarrow> any list \<Rightarrow> scopedChildDefinition list result" where
  "foreach_children entry itemVar indexVar input parentInstanceID parentExecutionID index [] = Inr []"
| "foreach_children entry itemVar indexVar input parentInstanceID parentExecutionID index (item # rest) =
     and_then (augmentInputPayload input
       [(''parent_instance_id'', VStr parentInstanceID), (''parent_execution_id'', VStr parentExecutionID),
        (itemVar, item), (indexVar, VInt index), (''scope_index'', VInt index)]) (\<lambda>childInput.
     and_then (foreach_children entry itemVar indexVar input parentInstanceID parentExecutionID (index + 1) rest) (\<lambda>children.
       Inr (\<lparr>sc_Index = index, sc_EntryState = entry, sc_Input = childInput, sc_Item = item\<rparr> # children)))"

definition foreachChildrenFromStep ::
    "('env, 'ast, 'prg) cel_lib \<Rightarrow> StepSpec \<Rightarrow> raw_json \<Rightarrow> raw_json \<Rightarrow> string \<Rightarrow> string
      \<Rightarrow> scopedChildDefinition list result" where
  "foreachChildrenFromStep cel step inputPayload instanceVars parentInstanceID parentExecutionID = (case step_Foreach step of
     None \<Rightarrow> Inl (Errf ''foreach step is missing foreach configuration'' [])
   | Some fe \<Rightarrow> (case fe_Steps fe of
       [] \<Rightarrow> Inr []
     | entry # _ \<Rightarrow>
         and_then (evaluateForeachItems cel (fe_Items fe) inputPayload instanceVars) (\<lambda>items.
         foreach_children (step_ID entry) (defaultForeachItemVar (fe_ItemVar fe)) (defaultForeachIndexVar (fe_IndexVar fe))
           inputPayload parentInstanceID parentExecutionID 0 items)))"

definition branchChildrenFromStep ::
    "('env, 'ast, 'prg) cel_lib \<Rightarrow> StepSpec \<Rightarrow> raw_json \<Rightarrow> raw_json \<Rightarrow> string \<Rightarrow> string
      \<Rightarrow> scopedChildDefinition list result" where
  "branchChildrenFromStep cel step inputPayload instanceVars parentInstanceID parentExecutionID = (case step_Type step of
     StepTypeParallel \<Rightarrow> parallelChildrenFromStep step inputPayload parentInstanceID parentExecutionID
   | StepTypeForeach \<Rightarrow> foreachChildrenFromStep cel step inputPayload instanceVars parentInstanceID parentExecutionID
   | t \<Rightarrow> Inl (Errf ''unsupported scope type %q'' [EStr (step_type_string t)]))"

definition scopedChildInstanceID :: "string \<Rightarrow> string \<Rightarrow> int \<Rightarrow> string \<Rightarrow> string" where
  "scopedChildInstanceID parentExecutionID parentState index entryState =
     ''wfi_'' @ take 40 (EncodeToString (Sum256
       (parentExecutionID @ '':'' @ parentState @ '':'' @ itoa index @ '':'' @ entryState)))"

text \<open>
  The rows of a child. The audit event copies the id of the execution before the insert gives it
  one, so that it is always empty.
\<close>

definition buildScopedChildRecord ::
    "('env, 'ast, 'prg) svc_env \<Rightarrow> int \<Rightarrow> WorkflowInstance \<Rightarrow> WorkflowStateExecution \<Rightarrow> StepSpec
      \<Rightarrow> scopedChildDefinition \<Rightarrow> ScopedChildRecord result" where
  "buildScopedChildRecord env now parent parentExec parentStep child =
     and_then (labelled ''validate scoped child input'' (reg_ValidateInput (se_schemas env) (wi_WorkflowName parent)
       (wi_WorkflowVersion parent) (sc_EntryState child) (sc_Input child))) (\<lambda>schemaHash.
     let childID = scopedChildInstanceID (bm_ID parentExec) (step_ID parentStep) (sc_Index child) (sc_EntryState child) in
     and_then (stmt (ee_F (se_db env)) ''generate scoped child token'') (\<lambda>_.
     Inr \<lparr>ch_Instance = \<lparr>bm_ID = childID, bm_CreatedAt = 0, bm_ModifiedAt = 0, bm_DeletedAt = None,
            wi_WorkflowName = wi_WorkflowName parent, wi_WorkflowVersion = wi_WorkflowVersion parent,
            wi_CurrentState = sc_EntryState child, wi_Status = InstanceStatusRunning, wi_Revision = 1,
            wi_TriggerEventID = [], wi_CorrelationKey = wi_CorrelationKey parent, wi_ParentInstanceID = bm_ID parent,
            wi_ParentExecutionID = bm_ID parentExec, wi_ScopeType = step_type_string (step_Type parentStep),
            wi_ScopeParentState = step_ID parentStep, wi_ScopeEntryState = sc_EntryState child,
            wi_ScopeIndex = sc_Index child, wi_Metadata = empty_object, wi_Vars = wi_Vars parent,
            wi_StartedAt = Some now, wi_FinishedAt = None\<rparr>,
          ch_Execution = new_execution childID (sc_EntryState child) 1 ExecStatusPending
            (HashToken (ee_token (se_db env) (''child execution '' @ childID))) schemaHash (sc_Input child) (ex_TraceID parentExec),
          ch_AuditEvent = Some (new_audit childID [] ''instance.created'' (sc_EntryState child) (ex_TraceID parentExec) RawEmpty)\<rparr>))"

fun build_children ::
    "('env, 'ast, 'prg) svc_env \<Rightarrow> int \<Rightarrow> WorkflowInstance \<Rightarrow> WorkflowStateExecution \<Rightarrow> StepSpec
      \<Rightarrow> scopedChildDefinition list \<Rightarrow> ScopedChildRecord list result" where
  "build_children env now parent parentExec parentStep [] = Inr []"
| "build_children env now parent parentExec parentStep (c # cs) =
     and_then (buildScopedChildRecord env now parent parentExec parentStep c) (\<lambda>record.
     and_then (build_children env now parent parentExec parentStep cs) (\<lambda>records. Inr (record # records)))"

section \<open>Starting a scope\<close>

definition loadBranchScopeParent ::
    "('env, 'ast, 'prg) svc_env \<Rightarrow> ExecutionCommand \<Rightarrow> StepSpec option
      \<Rightarrow> (StepSpec \<times> WorkflowStateExecution \<times> WorkflowInstance) op" where
  "loadBranchScopeParent env cmd step_opt = (case step_opt of
     None \<Rightarrow> op_err (Errf ''branch scope step is required'' [])
   | Some step \<Rightarrow>
       (if step_Type step \<noteq> StepTypeParallel \<and> step_Type step \<noteq> StepTypeForeach
        then op_err (Errf ''unsupported branch scope type %q'' [EStr (step_type_string (step_Type step))])
        else op_seq (load_execution env (ec_ExecutionID cmd)) (\<lambda>exec.
             op_seq (load_instance env exec) (\<lambda>inst. op_ok (step, exec, inst)))))"

definition marshalEmptyResults :: "int \<Rightarrow> raw_json" where
  "marshalEmptyResults childCount = json_marshal (VList (replicate (nat childCount) VNil))"

definition extractForeachItems :: "scopedChildDefinition list \<Rightarrow> any list" where
  "extractForeachItems children = map sc_Item children"

definition new_scope :: "StepSpec \<Rightarrow> WorkflowStateExecution \<Rightarrow> WorkflowInstance \<Rightarrow> int \<Rightarrow> WorkflowScopeRun" where
  "new_scope step exec inst childCount =
     \<lparr>bm_ID = [], bm_CreatedAt = 0, bm_ModifiedAt = 0, bm_DeletedAt = None,
      sr_ParentExecutionID = bm_ID exec, sr_ParentInstanceID = bm_ID inst, sr_ParentState = ex_State exec,
      sr_ScopeType = step_type_string (step_Type step), sr_Status = ''running'', sr_WaitAll = False,
      sr_TotalChildren = childCount, sr_CompletedChildren = 0, sr_FailedChildren = 0, sr_NextChildIndex = 0,
      sr_MaxConcurrency = 0, sr_ItemVar = [], sr_IndexVar = [], sr_ItemsPayload = RawEmpty,
      sr_ResultsPayload = marshalEmptyResults childCount, sr_ClaimUntil = None, sr_ClaimOwner = []\<rparr>"

definition initializeBranchScope ::
    "StepSpec \<Rightarrow> WorkflowStateExecution \<Rightarrow> WorkflowInstance \<Rightarrow> scopedChildDefinition list \<Rightarrow> WorkflowScopeRun result" where
  "initializeBranchScope step exec inst childDefs =
     (let scope = new_scope step exec inst (int (length childDefs)) in
      case step_Type step of
        StepTypeParallel \<Rightarrow> (case step_Parallel step of
          None \<Rightarrow> Inl (go_panic ''nil pointer dereference'')
        | Some par \<Rightarrow> Inr (scope\<lparr>sr_WaitAll := par_WaitAll par, sr_MaxConcurrency := int (length childDefs)\<rparr>))
      | StepTypeForeach \<Rightarrow> (case step_Foreach step of
          None \<Rightarrow> Inl (go_panic ''nil pointer dereference'')
        | Some fe \<Rightarrow> Inr (scope\<lparr>sr_WaitAll := True,
            sr_MaxConcurrency := defaultForeachConcurrency (fe_MaxConcurrency fe),
            sr_ItemVar := defaultForeachItemVar (fe_ItemVar fe),
            sr_IndexVar := defaultForeachIndexVar (fe_IndexVar fe),
            sr_ItemsPayload := json_marshal (VList (extractForeachItems childDefs))\<rparr>))
      | t \<Rightarrow> Inl (Errf ''unsupported branch scope type %q'' [EStr (step_type_string t)]))"

definition launch_count :: "StepSpec \<Rightarrow> WorkflowScopeRun \<Rightarrow> nat \<Rightarrow> nat" where
  "launch_count step scope childCount =
     (if step_Type step = StepTypeForeach \<and> int childCount > sr_MaxConcurrency scope then nat (sr_MaxConcurrency scope) else childCount)"

definition prepareBranchScopeLaunch ::
    "('env, 'ast, 'prg) svc_env \<Rightarrow> int \<Rightarrow> WorkflowInstance \<Rightarrow> WorkflowStateExecution \<Rightarrow> StepSpec \<Rightarrow> WorkflowScopeRun
      \<Rightarrow> scopedChildDefinition list \<Rightarrow> (ScopedChildRecord list \<times> WorkflowScopeRun) result" where
  "prepareBranchScopeLaunch env now inst exec step scope childDefs =
     (let launchCount = launch_count step scope (length childDefs) in
      and_then (build_children env now inst exec step (take launchCount childDefs)) (\<lambda>childRecords.
        Inr (childRecords, scope\<lparr>sr_NextChildIndex := int launchCount\<rparr>)))"

definition emptyScopeOutput :: "StepType \<Rightarrow> raw_json" where
  "emptyScopeOutput t = (case t of
     StepTypeForeach \<Rightarrow> RawJson (VMap [(''items'', VList [])])
   | StepTypeParallel \<Rightarrow> RawJson (VMap [(''branches'', VList [])])
   | StepTypeOther _ \<Rightarrow> RawJson (VMap [(''branches'', VList [])])
   | _ \<Rightarrow> empty_object)"

definition StartBranchScope ::
    "('env, 'ast, 'prg) svc_env \<Rightarrow> int \<Rightarrow> ExecutionCommand \<Rightarrow> StepSpec option \<Rightarrow> unit op" where
  "StartBranchScope env now cmd step_opt =
     op_seq (loadBranchScopeParent env cmd step_opt) (\<lambda>(step, exec, inst).
     op_seq (op_of (branchChildrenFromStep (se_cel env) step (ec_InputPayload cmd) (wi_Vars inst) (bm_ID inst) (bm_ID exec)))
       (\<lambda>childDefs.
     op_seq (op_of (initializeBranchScope step exec inst childDefs)) (\<lambda>scope0.
     op_seq (op_of (prepareBranchScopeLaunch env now inst exec step scope0 childDefs)) (\<lambda>(childRecords, scope).
     op_seq (op_map_err token_or_stale (db_exec (Runtime_StartBranchScope (se_db env) now
       \<lparr>sb_Execution = exec, sb_Instance = inst, sb_TokenHash = HashToken (ec_ExecutionToken cmd), sb_Scope = scope,
        sb_LaunchChildren = childRecords, sb_AuditTrace = ex_TraceID exec\<rparr>))) (\<lambda>_.
     if sr_TotalChildren scope = 0 then ResumeWaitingExecution env now (bm_ID exec) (emptyScopeOutput (step_Type step))
     else op_ok ())))))"

section \<open>Reconciling a scope\<close>

record branchScopeContext =
  bx_scope :: WorkflowScopeRun
  bx_parentExec :: WorkflowStateExecution
  bx_parentInstance :: WorkflowInstance
  bx_parentStep :: StepSpec
  bx_children :: "WorkflowInstance list"

definition loadScopeContext :: "('env, 'ast, 'prg) svc_env \<Rightarrow> string \<Rightarrow> branchScopeContext op" where
  "loadScopeContext env scopeID =
     op_seq (op_map_err (wrap ''load workflow scope'') (db_read (Scope_GetByID (se_db env) scopeID))) (\<lambda>scope.
     op_seq (op_map_err (wrap ''load parent execution'') (db_read (Exec_GetByID (se_db env) (sr_ParentExecutionID scope))))
       (\<lambda>parentExec.
     op_seq (op_map_err (wrap ''load parent instance'') (db_read (Instance_GetByID (se_db env) (sr_ParentInstanceID scope))))
       (\<lambda>parentInstance.
     op_seq (loadSpec env (wi_WorkflowName parentInstance) (wi_WorkflowVersion parentInstance)) (\<lambda>spec.
     case FindStep (Some spec) (sr_ParentState scope) of
       None \<Rightarrow> op_err (Errf ''scope parent step %q not found'' [EStr (sr_ParentState scope)])
     | Some parentStep \<Rightarrow>
         op_seq (db_read (ListByParentExecutionID (se_db env) (sr_ParentExecutionID scope))) (\<lambda>children.
         op_ok \<lparr>bx_scope = scope, bx_parentExec = parentExec, bx_parentInstance = parentInstance,
                bx_parentStep = parentStep, bx_children = children\<rparr>)))))"

record scope_results =
  re_results :: "any list"
  re_completed :: int
  re_failed :: int
  re_running :: int
  re_failure :: "CommitError option"

text \<open>The stored output of a completed child, when there is one that can be read.\<close>

definition child_output :: "engine_env \<Rightarrow> EngineState \<Rightarrow> WorkflowInstance \<Rightarrow> any option" where
  "child_output env st child =
     (case Output_GetByInstanceAndState env (bm_ID child) (wi_CurrentState child) st of
        Inl _ \<Rightarrow> None
      | Inr output \<Rightarrow>
          (if so_Payload output = RawEmpty then None
           else case json_unmarshal (so_Payload output) of Inl _ \<Rightarrow> None | Inr payload \<Rightarrow> Some payload))"

definition child_failure :: "engine_env \<Rightarrow> EngineState \<Rightarrow> WorkflowInstance \<Rightarrow> CommitError option" where
  "child_failure env st child =
     (case GetLatestByInstance env (bm_ID child) st of
        Inl _ \<Rightarrow> None
      | Inr latestExec \<Rightarrow> Some \<lparr>ce_Class = ex_ErrorClass latestExec, ce_Code = ''branch_failed'',
          ce_Message = ex_ErrorMessage latestExec\<rparr>)"

fun collect_child :: "engine_env \<Rightarrow> EngineState \<Rightarrow> WorkflowInstance \<Rightarrow> scope_results \<Rightarrow> scope_results" where
  "collect_child env st child r = (case wi_Status child of
     InstanceStatusCompleted \<Rightarrow>
       r\<lparr>re_completed := re_completed r + 1,
         re_results := (case child_output env st child of
             Some payload \<Rightarrow>
               (if wi_ScopeIndex child < int (length (re_results r))
                then (re_results r)[nat (wi_ScopeIndex child) := payload] else re_results r)
           | None \<Rightarrow> re_results r)\<rparr>
   | InstanceStatusFailed \<Rightarrow> r\<lparr>re_failed := re_failed r + 1,
       re_failure := (if re_failure r = None then child_failure env st child else re_failure r)\<rparr>
   | InstanceStatusCancelled \<Rightarrow> r\<lparr>re_failed := re_failed r + 1,
       re_failure := (if re_failure r = None then child_failure env st child else re_failure r)\<rparr>
   | InstanceStatusRunning \<Rightarrow> r\<lparr>re_running := re_running r + 1\<rparr>
   | InstanceStatusSuspended \<Rightarrow> r\<lparr>re_running := re_running r + 1\<rparr>)"

definition collectScopeResults ::
    "engine_env \<Rightarrow> EngineState \<Rightarrow> WorkflowInstance list \<Rightarrow> int \<Rightarrow> scope_results" where
  "collectScopeResults env st children totalChildren =
     fold (collect_child env st) children
       \<lparr>re_results = replicate (nat totalChildren) VNil, re_completed = 0, re_failed = 0, re_running = 0, re_failure = None\<rparr>"

text \<open>The first result that is not null, with its index.\<close>

fun first_result :: "int \<Rightarrow> any list \<Rightarrow> (int \<times> any) option" where
  "first_result i [] = None"
| "first_result i (v # vs) = (if v = VNil then first_result (i + 1) vs else Some (i, v))"

definition evaluateScopeSuccess :: "WorkflowScopeRun \<Rightarrow> any list \<Rightarrow> int \<Rightarrow> int \<Rightarrow> raw_json option" where
  "evaluateScopeSuccess scope results completedCount failedCount =
     (if failedCount > 0 then None
      else if sr_ScopeType scope = step_type_string StepTypeParallel then
        (if \<not> sr_WaitAll scope then
           (if completedCount = 0 then None
            else case first_result 0 results of
              None \<Rightarrow> None
            | Some (index, result) \<Rightarrow>
                Some (json_marshal (VMap [(''winner_index'', VInt index), (''winner'', result), (''branches'', VList results)])))
         else if completedCount \<noteq> sr_TotalChildren scope then None
         else Some (json_marshal (VMap [(''branches'', VList results)])))
      else if sr_ScopeType scope = step_type_string StepTypeForeach then
        (if completedCount \<noteq> sr_TotalChildren scope then None
         else Some (json_marshal (VMap [(''items'', VList results)])))
      else None)"

definition scope_request ::
    "branchScopeContext \<Rightarrow> string \<Rightarrow> scope_results \<Rightarrow> int \<Rightarrow> ScopedChildRecord list \<Rightarrow> bool \<Rightarrow> string
      \<Rightarrow> UpdateScopeRequest" where
  "scope_request bx status r nextIndex launch cancel parent =
     \<lparr>us_ScopeID = bm_ID (bx_scope bx), us_Status = status, us_CompletedChildren = re_completed r,
      us_FailedChildren = re_failed r, us_NextChildIndex = nextIndex, us_ResultsPayload = json_marshal (VList (re_results r)),
      us_ReleaseClaim = True, us_LaunchChildren = launch, us_CancelRunningChildren = cancel,
      us_ParentExecutionID = parent\<rparr>"

text \<open>\<open>childDefs[lo:hi]\<close> panics when \<open>lo\<close> is beyond \<open>hi\<close>.\<close>

definition buildForeachLaunchRecords ::
    "('env, 'ast, 'prg) svc_env \<Rightarrow> int \<Rightarrow> branchScopeContext \<Rightarrow> int \<Rightarrow> (int \<times> ScopedChildRecord list) result" where
  "buildForeachLaunchRecords env now bx capacity =
     and_then (branchChildrenFromStep (se_cel env) (bx_parentStep bx) (ex_InputPayload (bx_parentExec bx))
       (wi_Vars (bx_parentInstance bx)) (bm_ID (bx_parentInstance bx)) (bm_ID (bx_parentExec bx))) (\<lambda>childDefs.
     let lo = sr_NextChildIndex (bx_scope bx);
         launchUntil = min (lo + capacity) (int (length childDefs)) in
     if lo > launchUntil then Inl (go_panic ''slice bounds out of range'')
     else and_then (build_children env now (bx_parentInstance bx) (bx_parentExec bx) (bx_parentStep bx)
            (drop (nat lo) (take (nat launchUntil) childDefs))) (\<lambda>childRecords. Inr (launchUntil, childRecords)))"

definition tryLaunchMoreForeachChildren ::
    "('env, 'ast, 'prg) svc_env \<Rightarrow> int \<Rightarrow> branchScopeContext \<Rightarrow> scope_results \<Rightarrow> bool op" where
  "tryLaunchMoreForeachChildren env now bx r =
     (let scope = bx_scope bx; capacity = sr_MaxConcurrency scope - re_running r in
      if sr_ScopeType scope \<noteq> step_type_string StepTypeForeach \<or> re_failed r > 0 \<or>
         sr_NextChildIndex scope \<ge> sr_TotalChildren scope then op_ok False
      else if capacity \<le> 0 then op_ok False
      else op_seq (op_of (buildForeachLaunchRecords env now bx capacity)) (\<lambda>(launchUntil, childRecords).
        if length childRecords = 0 then op_ok False
        else op_seq (op_map_err stale_only (db_exec (UpdateScope (se_db env) now
               (scope_request bx ''running'' r launchUntil childRecords False [])))) (\<lambda>_. op_ok True)))"

definition failBranchScopeExecution ::
    "('env, 'ast, 'prg) svc_env \<Rightarrow> int \<Rightarrow> branchScopeContext \<Rightarrow> scope_results \<Rightarrow> unit op" where
  "failBranchScopeExecution env now bx r =
     (let failure = (case re_failure r of Some f \<Rightarrow> f | None \<Rightarrow>
            \<lparr>ce_Class = ''fatal'', ce_Code = ''branch_failed'', ce_Message = ''one or more scoped child workflows failed''\<rparr>) in
      op_seq (op_try (FailWaitingExecution env now (bm_ID (bx_parentExec bx)) ExecStatusFatal failure)) (\<lambda>failErr.
      case failErr of
        Inl err \<Rightarrow>
          (if \<not> error_is err ErrStaleExecution then op_err err
           else db_exec (UpdateScope (se_db env) now
             (scope_request bx ''failed'' r (sr_NextChildIndex (bx_scope bx)) [] True (sr_ParentExecutionID (bx_scope bx)))))
      | Inr _ \<Rightarrow> db_exec (UpdateScope (se_db env) now
          (scope_request bx ''failed'' r (sr_NextChildIndex (bx_scope bx)) [] True (sr_ParentExecutionID (bx_scope bx))))))"

definition completeBranchScopeExecution ::
    "('env, 'ast, 'prg) svc_env \<Rightarrow> int \<Rightarrow> branchScopeContext \<Rightarrow> scope_results \<Rightarrow> raw_json \<Rightarrow> unit op" where
  "completeBranchScopeExecution env now bx r successOutput =
     op_seq (op_of (branchCarriedVars [] (bx_children bx))) (\<lambda>carried.
     op_seq (op_try (resumeWaitingExecution env now (bm_ID (bx_parentExec bx)) successOutput carried)) (\<lambda>resumeErr.
     let finish = db_exec (UpdateScope (se_db env) now (scope_request bx ''completed'' r (sr_NextChildIndex (bx_scope bx)) []
           (sr_ScopeType (bx_scope bx) = step_type_string StepTypeParallel \<and> \<not> sr_WaitAll (bx_scope bx))
           (sr_ParentExecutionID (bx_scope bx)))) in
     case resumeErr of
       Inl err \<Rightarrow> (if \<not> error_is err ErrStaleExecution then op_err err else finish)
     | Inr _ \<Rightarrow> finish))"

definition finalizeBranchScope ::
    "('env, 'ast, 'prg) svc_env \<Rightarrow> int \<Rightarrow> branchScopeContext \<Rightarrow> scope_results \<Rightarrow> unit op" where
  "finalizeBranchScope env now bx r =
     (let success = evaluateScopeSuccess (bx_scope bx) (map json_norm (re_results r)) (re_completed r) (re_failed r) in
      if re_failed r > 0 then failBranchScopeExecution env now bx r
      else case success of
        Some successOutput \<Rightarrow> completeBranchScopeExecution env now bx r successOutput
      | None \<Rightarrow> db_exec (UpdateScope (se_db env) now
          (scope_request bx ''running'' r (sr_NextChildIndex (bx_scope bx)) [] False [])))"

definition ReconcileBranchScope :: "('env, 'ast, 'prg) svc_env \<Rightarrow> int \<Rightarrow> string \<Rightarrow> unit op" where
  "ReconcileBranchScope env now scopeID =
     op_seq (loadScopeContext env scopeID) (\<lambda>bx.
     if sr_Status (bx_scope bx) \<noteq> ''running'' then op_ok ()
     else op_seq (db_read (\<lambda>st. Inr (collectScopeResults (se_db env) st (bx_children bx) (sr_TotalChildren (bx_scope bx))))) (\<lambda>r.
       op_seq (tryLaunchMoreForeachChildren env now bx r) (\<lambda>launched.
       if launched then op_ok () else finalizeBranchScope env now bx r)))"

end
