(* ===== verification/Service_Steps.thy ===== *)
theory Service_Steps
  imports Engine_Correct Branch_Scope
begin

text \<open>
  The operations of the state engine refine the step relation of its transactions: whatever
  happens on the way, running one takes the database along steps of the engine, so that the
  invariants and the races proved of the steps hold of every run of the service.
\<close>

section \<open>Operations as steps of the engine\<close>

text \<open>
  Running \<open>m\<close> takes the database along steps of the engine, on every path. The rules follow the
  operations' structure; the continuation may assume the invariant.
\<close>

definition advances :: "'a op \<Rightarrow> Svc \<Rightarrow> bool" where
  "advances m s \<longleftrightarrow> (engine_inv (sv_db s) \<longrightarrow> engine_step\<^sup>*\<^sup>* (sv_db s) (sv_db (snd (m s))))"

named_theorems advances_intros \<open>rules of \<open>advances\<close>\<close>

lemma advances_pure [advances_intros]:
  "advances (op_ok x) s" "advances (op_err e) s" "advances (op_of r) s" "advances (db_read f) s"
  "advances (cache_get k) s" "advances (cache_put k v) s"
  by (simp_all add: advances_def op_ok_def op_err_def op_of_def db_read_def cache_get_def cache_put_def)

lemma advances_seq [advances_intros]:
  assumes "advances m s" and "\<And>x s'. m s = (Inr x, s') \<Longrightarrow> engine_inv (sv_db s') \<Longrightarrow> advances (f x) s'"
  shows "advances (op_seq m f) s"
proof -
  obtain r s' where m: "m s = (r, s')" by force
  show ?thesis
  proof (cases r)
    case (Inl e) with assms(1) m show ?thesis by (simp add: advances_def op_seq_def)
  next
    case (Inr x)
    have "engine_step\<^sup>*\<^sup>* (sv_db s) (sv_db (snd (f x s')))" if "engine_inv (sv_db s)"
    proof -
      have a: "engine_step\<^sup>*\<^sup>* (sv_db s) (sv_db s')" using assms(1) m that by (simp add: advances_def)
      then have inv: "engine_inv (sv_db s')" using steps_inv that by blast
      with assms(2) m Inr have "engine_step\<^sup>*\<^sup>* (sv_db s') (sv_db (snd (f x s')))" by (simp add: advances_def)
      with a show ?thesis by simp
    qed
    then show ?thesis using m Inr by (simp add: advances_def op_seq_def)
  qed
qed

lemma advances_try [advances_intros]: "advances m s \<Longrightarrow> advances (op_try m) s"
  by (cases "m s") (simp add: advances_def op_try_def)

lemma advances_map_err [advances_intros]: "advances m s \<Longrightarrow> advances (op_map_err g m) s"
  by (cases "m s") (simp add: advances_def op_map_err_def)

lemma advances_ignore [advances_intros]: "advances m s \<Longrightarrow> advances (op_ignore m) s"
  unfolding op_ignore_def by (intro advances_intros)

lemma advances_exec:
  "(\<And>d. engine_inv (sv_db s) \<Longrightarrow> f (sv_db s) = Inr d \<Longrightarrow> engine_step (sv_db s) d) \<Longrightarrow> advances (db_exec f) s"
  by (auto simp: advances_def db_exec_def split: sum.splits)

lemma advances_run:
  "(\<And>x d. engine_inv (sv_db s) \<Longrightarrow> f (sv_db s) = Inr (x, d) \<Longrightarrow> engine_step\<^sup>*\<^sup>* (sv_db s) d) \<Longrightarrow> advances (db_run f) s"
  by (auto simp: advances_def db_run_def split: sum.splits)

section \<open>What the reads of an operation establish\<close>

lemma read_Inr [simp]: "op_map_err g (db_read f) s = (Inr x, s') \<longleftrightarrow> f (sv_db s) = Inr x \<and> s' = s"
  by (auto simp: op_map_err_def db_read_def split: sum.splits)

lemma plain_read_Inr [simp]: "db_read f s = (Inr x, s') \<longleftrightarrow> f (sv_db s) = Inr x \<and> s' = s"
  by (auto simp: db_read_def)

lemma of_Inr [simp]: "op_of r s = (Inr x, s') \<longleftrightarrow> r = Inr x \<and> s' = s"
  by (auto simp: op_of_def)

lemma map_err_of_Inr [simp]: "op_map_err g (op_of r) s = (Inr x, s') \<longleftrightarrow> r = Inr x \<and> s' = s"
  by (auto simp: op_map_err_def op_of_def split: sum.splits)

lemma load_execution_Inr: "load_execution env i s = (Inr e, s') \<Longrightarrow> db_get (es_execs (sv_db s)) i = Some e \<and> s' = s"
  by (auto simp: load_execution_def Exec_GetByID_def repo_get_iff)

lemma load_instance_Inr:
  "load_instance env e s = (Inr m, s') \<Longrightarrow> db_get (es_instances (sv_db s)) (ex_InstanceID e) = Some m \<and> s' = s"
  by (auto simp: load_instance_def Instance_GetByID_def repo_get_iff)

lemma loadSpec_db:
  assumes "loadSpec env name version s = (r, s')"
  shows "sv_db s' = sv_db s"
proof -
  have "wp (loadSpec env name version) (\<lambda>r s'. sv_db s' = sv_db s) s"
    by (simp add: loadSpec_def Let_def wp_simps split: option.splits sum.splits)
  then show ?thesis using assms by (rule wpD)
qed

lemma check_output_Inr: "check_output env now exec inst output s = (Inr u, s') \<Longrightarrow> s' = s"
  by (auto simp: check_output_def op_ok_def op_seq_def op_err_def split: sum.splits prod.splits)

lemma row_snapshot:
  assumes "engine_inv st" and "db_get (es_execs st) i = Some e"
  shows "snapshot e st"
proof -
  have ids: "ids_ok (es_execs st)" using assms(1) by (simp add: engine_inv_def core_of_def)
  have e: "e \<in> set (es_execs st)" using db_get_SomeD [OF assms(2)] by simp
  have "row = e" if "row \<in> set (es_execs st)" "bm_ID row = bm_ID e" for row
    using ids e that unfolding ids_ok_def by (auto simp: distinct_map dest: inj_onD)
  then show ?thesis by (auto simp: snapshot_def same_place_def)
qed

section \<open>The operations\<close>

lemma advances_audit [advances_intros]: "advances (append_audit env role now a) s"
  unfolding append_audit_def by (intro advances_intros advances_exec) (rule step_audit)

lemma advances_loadSpec [advances_intros]: "advances (loadSpec env name version) s"
  by (simp add: advances_def loadSpec_db [OF surjective_pairing])

lemma advances_load [advances_intros]: "advances (load_execution env i) s" "advances (load_instance env e) s"
  unfolding load_execution_def load_instance_def by (intro advances_intros)+

lemma advances_check_output [advances_intros]: "advances (check_output env now exec inst output) s"
proof (cases "reg_ValidateOutput (se_schemas env) (wi_WorkflowName inst) (wi_WorkflowVersion inst) (ex_State exec) output")
  case (Inl err)
  have "advances (op_ignore (db_exec (UpdateExecutionStatus (se_db env) now exec ExecStatusInvalidOutputContract))) s"
    by (intro advances_intros advances_exec step_mark) auto
  with Inl show ?thesis by (auto simp: check_output_def intro!: advances_intros)
next
  case (Inr u) then show ?thesis by (simp add: check_output_def advances_intros)
qed

lemma advances_commit:
  assumes "env_ok (se_db env)" and "db_get (es_execs (sv_db s)) i = Some exec"
    and "db_get (es_instances (sv_db s)) (ex_InstanceID exec) = Some inst" and "phase expected < 2"
  shows "advances (db_exec (CommitExecution (se_db env) now (commit_request exec inst h v expected output plan nh))) s"
proof (rule advances_exec)
  fix d assume inv: "engine_inv (sv_db s)"
    and ok: "CommitExecution (se_db env) now (commit_request exec inst h v expected output plan nh) (sv_db s) = Inr d"
  have "bm_ID inst = ex_InstanceID exec" using db_get_SomeD [OF assms(3)] by simp
  with row_snapshot [OF inv assms(2)] assms(1,4) ok show "engine_step (sv_db s) d"
    by (intro step_commit [OF assms(1)]) (auto simp: commit_request_def)
qed

lemma advances_fail:
  "phase (fl_Status req) = 2 \<Longrightarrow> advances (db_exec (FailExecution env now req)) s"
  by (intro advances_exec step_fail)

text \<open>What a worker's commit and the resumption of a waiting execution share.\<close>

lemma advances_complete:
  assumes env: "env_ok (se_db env)" and e: "db_get (es_execs (sv_db s)) i = Some exec"
    and m: "db_get (es_instances (sv_db s)) (ex_InstanceID exec) = Some inst" and ph: "phase expected < 2"
  shows "advances (op_seq (loadSpec env name version) (\<lambda>spec. op_seq (check_output env now exec inst output) (\<lambda>_.
      op_seq (op_of (plan_of spec)) (\<lambda>plan. op_seq (op_of (hash_of plan)) (\<lambda>nextHash.
      op_seq (op_map_err g (db_exec (CommitExecution (se_db env) now (commit_request exec inst h v expected output plan nextHash))))
        (\<lambda>_. append_audit env role now a)))))) s"
proof (rule advances_seq [OF advances_loadSpec])
  fix spec s1 assume "loadSpec env name version s = (Inr spec, s1)"
  then have s1: "sv_db s1 = sv_db s" by (rule loadSpec_db)
  have "advances (db_exec (CommitExecution (se_db env) now (commit_request exec inst h v expected output plan nh))) s1" for plan nh
    by (rule advances_commit [OF env _ _ ph]) (use s1 e m in auto)
  then show "advances (op_seq (check_output env now exec inst output) (\<lambda>_.
      op_seq (op_of (plan_of spec)) (\<lambda>plan. op_seq (op_of (hash_of plan)) (\<lambda>nextHash.
      op_seq (op_map_err g (db_exec (CommitExecution (se_db env) now (commit_request exec inst h v expected output plan nextHash))))
        (\<lambda>_. append_audit env role now a))))) s1"
    by (intro advances_intros) (auto dest!: check_output_Inr)
qed

lemma advances_dispatch: "advances (Dispatch env now execution) s"
  unfolding Dispatch_def Let_def by (intro advances_intros advances_exec) (rule step_dispatch)

lemma advances_revert: "advances (RevertDispatch env now x) s"
proof -
  have "advances (db_exec (UpdateStatusExpected (se_db env) now x ExecStatusDispatched ExecStatusPending cs)) s" for cs
    by (intro advances_exec) (rule step_revert)
  then show ?thesis unfolding RevertDispatch_def
    by (intro advances_intros) (auto split: sum.splits intro: advances_intros)
qed

lemma advances_park: "advances (ParkExecutionUntil env now x tok fireAt) s"
  unfolding ParkExecutionUntil_def by (intro advances_intros advances_exec) (rule step_park)

lemma advances_fail_waiting:
  assumes "phase status = 2"
  shows "advances (FailWaitingExecution env now x status failure) s"
  unfolding FailWaitingExecution_def
proof (rule advances_seq [OF advances_load(1)])
  fix exec s1
  show "advances (if ex_Status exec \<noteq> ExecStatusWaiting then op_err ErrStaleExecution
     else op_seq (load_instance env exec) (\<lambda>inst.
     op_map_err stale_only (db_exec (FailExecution (se_db env) now
       \<lparr>fl_Execution = exec, fl_Instance = inst, fl_TokenHash = [], fl_VerifyToken = False,
        fl_ExpectedStatus = ExecStatusWaiting, fl_Status = status, fl_ErrorClass = ce_Class failure,
        fl_ErrorMessage = ce_Message failure, fl_AuditTrace = ex_TraceID exec, fl_AuditPayload = RawEmpty\<rparr>)))) s1"
    using assms by (auto intro!: advances_intros advances_fail)
qed

lemma advances_if: "(c \<Longrightarrow> advances a s) \<Longrightarrow> (\<not> c \<Longrightarrow> advances b s) \<Longrightarrow> advances (if c then a else b) s"
  by simp

lemma advances_resume:
  assumes "env_ok (se_db env)"
  shows "advances (resumeWaitingExecution env now x output carried) s"
  unfolding resumeWaitingExecution_def Let_def
proof (rule advances_seq [OF advances_load(1)], rule advances_if, rule advances_pure(2),
    rule advances_seq [OF advances_load(2)], rule advances_if, goal_cases)
  case (1 exec s1 inst s2)
  show ?case by (intro advances_intros advances_exec step_mark) auto
next
  case (2 exec s1 inst s2)
  have e: "db_get (es_execs (sv_db s2)) x = Some exec" "db_get (es_instances (sv_db s2)) (ex_InstanceID exec) = Some inst"
    using load_execution_Inr [OF 2(1)] load_instance_Inr [OF 2(4)] by auto
  show ?case by (rule advances_complete [OF assms e]) simp
qed

lemma advances_try_deliver:
  assumes "env_ok (se_db env)"
  shows "advances (tryDeliverSignal env now k name) s"
  unfolding tryDeliverSignal_def ResumeWaitingExecution_def
proof (rule advances_seq)
  show "advances (db_run (ClaimSignalDelivery (se_db env) now
       \<lparr>cs_InstanceID = k, cs_SignalName = name, cs_Owner = delivery_owner now,
        cs_LeaseUntil = now + signalDeliveryLeaseTTL\<rparr>)) s"
    by (intro advances_run) (auto intro: step_claim_signal)
qed (auto split: option.splits sum.splits intro!: advances_intros advances_resume [OF assms])

lemma advances_send:
  assumes "env_ok (se_db env)"
  shows "advances (SendSignal env now k name payload) s"
proof -
  have "advances (db_exec (Message_Create (se_db env) role now msg)) s" for role msg
    unfolding Message_Create_def by (intro advances_exec step_send_signal [OF assms])
  then show ?thesis unfolding SendSignal_def by (auto intro!: advances_intros advances_try_deliver [OF assms])
qed

lemma advances_event_signal:
  assumes "env_ok (se_db env)"
  shows "advances (DeliverEventSignal env now ev k name payload) s"
proof -
  have "advances (db_run (CreateIfAbsent (se_db env) now msg)) s" for msg
    by (intro advances_run)
      (auto simp: CreateIfAbsent_def res_simps split: if_splits intro!: r_into_rtranclp step_send_signal [OF assms])
  then show ?thesis unfolding DeliverEventSignal_def by (auto intro!: advances_intros advances_try_deliver [OF assms])
qed

lemma advances_signal_wait:
  assumes "env_ok (se_db env)"
  shows "advances (StartSignalWait env now cmd step) s"
proof -
  have "advances (db_exec (Runtime_StartSignalWait (se_db env) now req)) s'" for req s'
    by (intro advances_exec) (rule step_signal_wait)
  then show ?thesis unfolding StartSignalWait_def
    by (auto split: option.splits intro!: advances_intros advances_try_deliver [OF assms])
qed

text \<open>
  A failure report is a step of the engine when its class is not retryable or the execution is
  still dispatched: the retry is scheduled without looking at the status.
\<close>

definition report_in_time :: "CommitRequest \<Rightarrow> EngineState \<Rightarrow> bool" where
  "report_in_time req st \<longleftrightarrow> (\<forall>failure e. rq_Error req = Some failure \<longrightarrow> retryable_class (ce_Class failure) \<longrightarrow>
     db_get (es_execs st) (rq_ExecutionID req) = Some e \<longrightarrow> ex_Status e = ExecStatusDispatched)"

lemma advances_commit_error:
  assumes e: "db_get (es_execs (sv_db s)) (rq_ExecutionID req) = Some exec"
    and ok: "retryable_class (ce_Class failure) \<Longrightarrow> ex_Status exec = ExecStatusDispatched"
  shows "advances (commitError env now req failure exec inst) s"
proof -
  have schedule: "advances (scheduleRetryIfAllowed env now exec inst req failure) s" if "retryable_class (ce_Class failure)"
  proof -
    have "advances (db_exec (UpdateStatus (se_db env) now (rq_ExecutionID req) ExecStatusRetryScheduled cs)) s" for cs
      by (intro advances_exec step_schedule_retry [OF e ok [OF that]])
    then show ?thesis unfolding scheduleRetryIfAllowed_def
      by (intro advances_seq advances_try advances_pure)
        (auto simp: op_try_def db_read_def split: sum.splits if_splits intro!: advances_intros)
  qed
  then show ?thesis unfolding commitError_def
    by (intro advances_seq) (auto intro!: advances_intros advances_fail)
qed

lemma advances_Commit:
  assumes "env_ok (se_db env)" and "report_in_time req (sv_db s)"
  shows "advances (Commit env now req) s"
  unfolding Commit_def Let_def
proof (rule advances_seq [OF advances_load(1)], rule advances_seq [OF advances_load(2)], goal_cases)
  case (1 exec s1 inst s2)
  have e: "db_get (es_execs (sv_db s2)) (rq_ExecutionID req) = Some exec"
      "db_get (es_instances (sv_db s2)) (ex_InstanceID exec) = Some inst" "s2 = s"
    using load_execution_Inr [OF 1(1)] load_instance_Inr [OF 1(3)] by auto
  show ?case
  proof (cases "rq_Error req")
    case None
    show ?thesis unfolding None option.case by (rule advances_complete [OF assms(1) e(1,2)]) simp
  next
    case (Some failure)
    have "ex_Status exec = ExecStatusDispatched" if "retryable_class (ce_Class failure)"
      using assms(2) Some e that by (auto simp: report_in_time_def)
    then show ?thesis unfolding Some option.case by (rule advances_commit_error [OF e(1)])
  qed
qed

lemma build_children_ok:
  assumes "build_children env now parent pe step cs = Inr records"
  shows "list_all child_ok records"
  using assms
  by (induction cs arbitrary: records)
    (auto simp: res_simps buildScopedChildRecord_def Let_def child_ok_def scopedChildInstanceID_def new_execution_def)

lemma length_build_children: "build_children env now parent pe step cs = Inr records \<Longrightarrow> length records = length cs"
  by (induction cs arbitrary: records) (auto simp: res_simps)

lemma prepare_ok: "prepareBranchScopeLaunch env now inst exec step scope defs = Inr (records, scope') \<Longrightarrow> list_all child_ok records"
  by (auto simp: prepareBranchScopeLaunch_def Let_def res_simps dest: build_children_ok)

lemma launch_ok: "buildForeachLaunchRecords env now bx capacity = Inr (n, records) \<Longrightarrow> list_all child_ok records"
  by (auto simp: buildForeachLaunchRecords_def Let_def res_simps split: if_splits dest: build_children_ok)

lemma advances_StartBranchScope:
  assumes "env_ok (se_db env)"
  shows "advances (StartBranchScope env now cmd step) s"
proof -
  have start: "advances (db_exec (Runtime_StartBranchScope (se_db env) now req)) s'" if "list_all child_ok (sb_LaunchChildren req)" for req s'
    by (intro advances_exec step_start_scope [OF assms that])
  have "advances (loadBranchScopeParent env cmd step) s"
    unfolding loadBranchScopeParent_def by (auto split: option.splits intro!: advances_intros)
  then show ?thesis unfolding StartBranchScope_def ResumeWaitingExecution_def
    by (intro advances_seq) (auto intro!: advances_intros start advances_resume [OF assms] dest: prepare_ok split: prod.splits)
qed

lemma advances_update_scope:
  assumes "env_ok (se_db env)" and "list_all child_ok (us_LaunchChildren req)"
  shows "advances (db_exec (UpdateScope (se_db env) now req)) s"
  by (intro advances_exec step_update_scope [OF assms])

lemma advances_reconcile:
  assumes "env_ok (se_db env)"
  shows "advances (ReconcileBranchScope env now scopeID) s"
proof -
  note update = advances_update_scope [OF assms]
  have load: "advances (loadScopeContext env scopeID) s'" for s'
    unfolding loadScopeContext_def by (intro advances_seq advances_intros) (auto split: option.splits intro!: advances_intros)
  have launch: "advances (tryLaunchMoreForeachChildren env now bx r) s'" for bx r s'
    unfolding tryLaunchMoreForeachChildren_def Let_def
    by (auto intro!: advances_intros update simp: scope_request_def) (blast intro: launch_ok)
  have failing: "advances (failBranchScopeExecution env now bx r) s'" for bx r s'
    unfolding failBranchScopeExecution_def Let_def
    by (auto intro!: advances_intros advances_fail_waiting update simp: scope_request_def split: sum.splits)
  have completing: "advances (completeBranchScopeExecution env now bx r out) s'" for bx r out s'
    unfolding completeBranchScopeExecution_def Let_def
    by (auto intro!: advances_intros advances_resume [OF assms] update simp: scope_request_def split: sum.splits)
  have "advances (finalizeBranchScope env now bx r) s'" for bx r s'
    unfolding finalizeBranchScope_def Let_def
    by (auto intro!: failing completing update simp: scope_request_def split: option.splits)
  then show ?thesis unfolding ReconcileBranchScope_def
    by (auto intro!: advances_seq load launch advances_intros)
qed

text \<open>A new instance's first execution: the instance is stored in the state the caller holds and has no open execution.\<close>

definition fresh_instance :: "WorkflowInstance \<Rightarrow> EngineState \<Rightarrow> bool" where
  "fresh_instance inst st \<longleftrightarrow> (\<exists>m. db_get (es_instances st) (bm_ID inst) = Some m \<and> wi_CurrentState m = wi_CurrentState inst) \<and>
     no_open (bm_ID inst) (es_execs st)"

lemma advances_initial:
  assumes "env_ok (se_db env)" and "fresh_instance inst (sv_db s)"
  shows "advances (CreateInitialExecution env now inst payload) s"
proof -
  obtain m where m: "db_get (es_instances (sv_db s)) (bm_ID inst) = Some m" "wi_CurrentState m = wi_CurrentState inst"
      "no_open (bm_ID inst) (es_execs (sv_db s))" using assms(2) by (auto simp: fresh_instance_def)
  have "advances (db_run (Exec_Create (se_db env) role now
       (new_execution (bm_ID inst) (wi_CurrentState inst) 1 ExecStatusPending h sh payload tr))) s" for role h sh tr
    by (intro advances_run)
      (use m in \<open>auto simp: Exec_Create_def res_simps new_execution_def intro!: r_into_rtranclp step_new_execution [OF assms(1), of _ _ m]\<close>)
  then show ?thesis unfolding CreateInitialExecution_def Let_def
    by (auto intro!: advances_seq advances_intros)
qed

section \<open>Calls of the service\<close>

datatype service_call =
    Create_call WorkflowInstance raw_json
  | Dispatch_call WorkflowStateExecution
  | Revert_call string
  | Commit_call CommitRequest
  | Park_call string string int
  | Resume_call string raw_json
  | Fail_call string ExecutionStatus CommitError
  | Wait_call ExecutionCommand "StepSpec option"
  | Signal_call string string raw_json
  | Event_call string string string raw_json
  | Scope_call ExecutionCommand "StepSpec option"
  | Reconcile_call string

fun perform :: "('env, 'ast, 'prg) svc_env \<Rightarrow> int \<Rightarrow> service_call \<Rightarrow> Svc \<Rightarrow> Svc" where
  "perform env now (Create_call inst payload) s = snd (CreateInitialExecution env now inst payload s)"
| "perform env now (Dispatch_call exec) s = snd (Dispatch env now exec s)"
| "perform env now (Revert_call x) s = snd (RevertDispatch env now x s)"
| "perform env now (Commit_call req) s = snd (Commit env now req s)"
| "perform env now (Park_call x tok fireAt) s = snd (ParkExecutionUntil env now x tok fireAt s)"
| "perform env now (Resume_call x output) s = snd (ResumeWaitingExecution env now x output s)"
| "perform env now (Fail_call x status failure) s = snd (FailWaitingExecution env now x status failure s)"
| "perform env now (Wait_call cmd step) s = snd (StartSignalWait env now cmd step s)"
| "perform env now (Signal_call k name payload) s = snd (SendSignal env now k name payload s)"
| "perform env now (Event_call ev k name payload) s = snd (DeliverEventSignal env now ev k name payload s)"
| "perform env now (Scope_call cmd step) s = snd (StartBranchScope env now cmd step s)"
| "perform env now (Reconcile_call x) s = snd (ReconcileBranchScope env now x s)"

text \<open>What the callers of the service keep to.\<close>

fun call_ok :: "service_call \<Rightarrow> EngineState \<Rightarrow> bool" where
  "call_ok (Create_call inst payload) st \<longleftrightarrow> fresh_instance inst st"
| "call_ok (Commit_call req) st \<longleftrightarrow> report_in_time req st"
| "call_ok (Fail_call x status failure) st \<longleftrightarrow> phase status = 2"
| "call_ok _ st \<longleftrightarrow> True"

definition ex_svc_env :: "(unit, string, string) svc_env" where
  "ex_svc_env = \<lparr>se_db = ex_env, se_cel = example_cel, se_unmarshal = (\<lambda>_. Inr example_spec),
     se_schemas = \<lparr>reg_ValidateInput = (\<lambda>_ _ _ _. Inr ''h''), reg_ValidateOutput = (\<lambda>_ _ _ _. Inr ()),
                   reg_ValidateError = (\<lambda>_ _ _ _. Inr ())\<rparr>,
     se_resolver = None, se_defaultTimeout = 300 * second, se_maxStepTimeout = 300 * second,
     se_blob = None, se_claims = None, se_rand = (\<lambda>n. n - 1)\<rparr>"

definition ex_svc :: "EngineState \<Rightarrow> Svc" where
  "ex_svc st = \<lparr>sv_db = st, sv_plat = empty_platform, sv_dsl = NewBoundedCache maxDSLCacheSize\<rparr>"

lemma advancesD: "advances m s \<Longrightarrow> engine_inv (sv_db s) \<Longrightarrow> engine_step\<^sup>*\<^sup>* (sv_db s) (sv_db (snd (m s)))"
  by (simp add: advances_def)



end
