(* ===== verification/State_Engine_Correct.thy ===== *)
theory State_Engine_Correct
  imports Lease_Correct Service_Steps
begin

text \<open>
  What the operations of the state engine do: failure reports, completion, dispatch, signals and
  branch scopes, on top of the repository's effects and the refinement of \<open>Service_Steps\<close>.
\<close>

section \<open>Failure reports\<close>

text \<open>The row a scheduled retry leaves.\<close>

definition retry_scheduled :: "CommitError \<Rightarrow> int \<Rightarrow> WorkflowStateExecution \<Rightarrow> WorkflowStateExecution" where
  "retry_scheduled failure nextRetryAt e = e\<lparr>ex_Status := ExecStatusRetryScheduled, ex_ErrorClass := ce_Class failure,
     ex_ErrorMessage := ce_Message failure, ex_NextRetryAt := Some nextRetryAt\<rparr>"

lemma db_get_ne_affected: "db_get tbl i = Some r \<Longrightarrow> affected (\<lambda>r. bm_ID r = i) tbl \<noteq> 0"
  by (auto simp: affected_0_iff dest: db_get_SomeD)

lemma wrap_no_panic [simp]: "is_panic (wrap l e) \<longleftrightarrow> l @ '': %w'' = ''panic: %v''"
  by (simp add: wrap_def)

lemma insert_audit_no_panic: "insert_audit env ''append audit event'' role now a st = Inl e \<Longrightarrow> \<not> is_panic e"
  by (auto simp: insert_audit_def create_def Let_def jsonb_def stmt_def guard_def and_then_def split: if_splits option.splits)

text \<open>A best-effort audit event never stops its operation and writes the audit table only.\<close>

lemma audit_runs:
  obtains s' t where "append_audit env role now a s = (Inr (), s')" "s' = s\<lparr>sv_db := (sv_db s)\<lparr>es_audits := t\<rparr>\<rparr>"
proof (cases "insert_audit (se_db env) ''append audit event'' role now a (sv_db s)")
  case (Inl e)
  then show ?thesis using insert_audit_no_panic [OF Inl]
    by (intro that [of s "es_audits (sv_db s)"]) (simp_all add: append_audit_def op_ignore_def op_seq_def op_try_def op_ok_def db_exec_def)
next
  case (Inr d)
  then obtain t where "d = (sv_db s)\<lparr>es_audits := t\<rparr>" by (auto dest!: insert_other_InrD(2))
  with Inr show ?thesis
    by (intro that [of _ t]) (auto simp: append_audit_def op_ignore_def op_seq_def op_try_def op_ok_def db_exec_def)
qed

text \<open>C23: A retryable failure report takes effect whatever the status of the execution and whatever token the worker sends:
  when the retry policy allows another attempt, the report of a worker succeeds, and the execution, even one that is
  completed and has handed its instance on, is scheduled for a retry. (The comments at \<open>Commit\<close> and \<open>commitError\<close> say
  that the token is verified.)\<close>
theorem retry_report_ignores_token_and_status:
  assumes exec: "db_get (es_execs (sv_db s)) (rq_ExecutionID req) = Some exec"
    and inst: "db_get (es_instances (sv_db s)) (ex_InstanceID exec) = Some inst"
    and db: "ee_F (se_db env) = no_faults"
    and failure: "rq_Error req = Some failure" "retryable_class (ce_Class failure)"
    and policy: "RetryPolicy_Lookup (se_db env) (wi_WorkflowName inst) (wi_WorkflowVersion inst) (ex_State exec) (sv_db s) = Inr policy"
      "ex_Attempt exec < rp_MaxAttempts policy"
    and time: "computeRetryTime (se_rand env) now (ex_Attempt exec) policy = Inr nextRetryAt"
  shows "\<exists>s'. Commit env now req s = (Inr (), s') \<and>
    db_get (es_execs (sv_db s')) (rq_ExecutionID req) = Some (retry_scheduled failure nextRetryAt exec)"
proof -
  let ?cs = "[Col_error_class (ce_Class failure), Col_error_message (ce_Message failure), Col_next_retry_at (Some nextRetryAt)]"
  let ?execs = "db_update (\<lambda>e. bm_ID e = rq_ExecutionID req) (status_updates ExecStatusRetryScheduled ?cs []) (es_execs (sv_db s))"
  let ?s = "s\<lparr>sv_db := (sv_db s)\<lparr>es_execs := ?execs\<rparr>\<rparr>"
  have keeps: "keeps_key (status_updates ExecStatusRetryScheduled ?cs [])"
    by (simp add: keeps_key_def status_updates_def)
  have "UpdateStatus (se_db env) now (rq_ExecutionID req) ExecStatusRetryScheduled ?cs (sv_db s) = Inr (sv_db ?s)"
    using db db_get_ne_affected [OF exec]
    by (simp add: UpdateStatus_def update_some_def guard_def finishes_def)
  then have upd: "db_exec (UpdateStatus (se_db env) now (rq_ExecutionID req) ExecStatusRetryScheduled ?cs) s = (Inr (), ?s)"
    by (simp add: db_exec_def)
  let ?audit = "append_audit env ''retry audit'' now (new_audit (ex_InstanceID exec) (rq_ExecutionID req) ''state.retried'' (ex_State exec)
     (ex_TraceID exec) (retry_audit_payload nextRetryAt (ex_Attempt exec + 1) (rp_MaxAttempts policy)))"
  obtain s' t where audit: "?audit ?s = (Inr (), s')" "s' = ?s\<lparr>sv_db := (sv_db ?s)\<lparr>es_audits := t\<rparr>\<rparr>" by (rule audit_runs)
  have "scheduleRetryIfAllowed env now exec inst req failure s = (Inr True, s')"
    using policy time upd audit
    by (simp add: scheduleRetryIfAllowed_def op_seq_def op_try_def db_read_def op_of_def op_map_err_def op_ok_def)
  then have "Commit env now req s = (Inr (), s')"
    using exec inst db failure
    by (simp add: Commit_def Let_def load_execution_def load_instance_def Exec_GetByID_def Instance_GetByID_def repo_get_def
        commitError_def op_seq_def op_map_err_def db_read_def op_try_def op_ok_def no_faults_def)
  moreover have "es_execs (sv_db s') = ?execs" using audit(2) by simp
  ultimately show ?thesis
    using exec keeps by (auto simp: db_get_update_id status_updates_def retry_scheduled_def)
qed

text \<open>A completed execution of a running instance, and the policy of its state.\<close>

definition ex_finished :: EngineState where
  "ex_finished = ex_s0\<lparr>es_instances := [ex_instance],
     es_execs := [ex_row\<lparr>ex_Status := ExecStatusCompleted\<rparr>],
     es_policies := [\<lparr>bm_ID = ''rp'', bm_CreatedAt = 0, bm_ModifiedAt = 0, bm_DeletedAt = None,
       rp_WorkflowName = ''flow'', rp_WorkflowVersion = 1, rp_State = ''a'', rp_MaxAttempts = 3,
       rp_BackoffStrategy = ''fixed'', rp_InitialDelayMs = 1000, rp_MaxDelayMs = 300000, rp_RetryOn = []\<rparr>]\<rparr>"

definition ex_report :: "CommitError option \<Rightarrow> CommitRequest" where
  "ex_report failure = \<lparr>rq_ExecutionID = ''#ex'', rq_ExecutionToken = ''wrong'', rq_Output = RawEmpty, rq_Error = failure\<rparr>"

lemmas ex_finished_simps = ex_finished_def ex_s0_def ex_row_def ex_exec_def new_execution_def ex_instance_def ex_svc_def
  ex_report_def ex_svc_env_def ex_env_def no_faults_def live_def

theorem retry_report_ignores_token_and_status_witness:
  "\<exists>s'. Commit ex_svc_env 5 (ex_report (Some \<lparr>ce_Class = ''retryable'', ce_Code = [], ce_Message = ''m''\<rparr>)) (ex_svc ex_finished) = (Inr (), s') \<and>
    map_option ex_Status (db_get (es_execs (sv_db s')) ''#ex'') = Some ExecStatusRetryScheduled"
proof -
  let ?s = "ex_svc ex_finished" and ?f = "\<lparr>ce_Class = ''retryable'', ce_Code = [], ce_Message = ''m''\<rparr>"
  have "\<exists>s'. Commit ex_svc_env 5 (ex_report (Some ?f)) ?s = (Inr (), s') \<and>
    db_get (es_execs (sv_db s')) (rq_ExecutionID (ex_report (Some ?f))) =
      Some (retry_scheduled ?f (5 + 1000 * millisecond) (ex_row\<lparr>ex_Status := ExecStatusCompleted\<rparr>))"
    by (rule retry_report_ignores_token_and_status [where inst = ex_instance and policy = "hd (es_policies ex_finished)"])
      (simp_all add: ex_finished_simps db_get_def retryable_class_def RetryPolicy_Lookup_def res_simps
         stmt_def first_by_def db_select_def computeRetryTime_def retry_delay_ms_def int64N_def int64_def millisecond_def)
  then show ?thesis by (auto simp: ex_report_def retry_scheduled_def)
qed

section \<open>Rejected outputs\<close>

text \<open>The row an output that breaks its contract leaves.\<close>

definition contract_broken :: "int \<Rightarrow> WorkflowStateExecution \<Rightarrow> WorkflowStateExecution" where
  "contract_broken now e = e\<lparr>ex_Status := ExecStatusInvalidOutputContract, bm_ModifiedAt := now, ex_FinishedAt := Some now\<rparr>"

text \<open>An output that breaks its contract is recorded before the token and the status are looked at: whoever reports it,
  the execution, even one that is completed, becomes invalid_output_contract and the call fails with the contract
  violation, while no output is stored and no instance is touched.\<close>
theorem invalid_output_ignores_token:
  assumes exec: "db_get (es_execs (sv_db s)) (rq_ExecutionID req) = Some exec"
    and inst: "db_get (es_instances (sv_db s)) (ex_InstanceID exec) = Some inst"
    and db: "ee_F (se_db env) = no_faults" and succeeded: "rq_Error req = None"
    and spec: "loadSpec env (wi_WorkflowName inst) (wi_WorkflowVersion inst) s = (Inr spec, s1)"
    and invalid: "reg_ValidateOutput (se_schemas env) (wi_WorkflowName inst) (wi_WorkflowVersion inst) (ex_State exec)
      (rq_Output req) = Inl err"
  shows "\<exists>s'. Commit env now req s = (Inl (wrapped_in ErrOutputContractViolation err), s') \<and>
    db_get (es_execs (sv_db s')) (rq_ExecutionID req) = Some (contract_broken now exec) \<and>
    es_instances (sv_db s') = es_instances (sv_db s) \<and> es_outputs (sv_db s') = es_outputs (sv_db s)"
proof -
  have s1: "sv_db s1 = sv_db s" by (rule loadSpec_db [OF spec])
  have id: "bm_ID exec = rq_ExecutionID req" using db_get_SomeD [OF exec] by simp
  let ?f = "\<lambda>e. e\<lparr>ex_Status := ExecStatusInvalidOutputContract, bm_ModifiedAt := now, ex_FinishedAt := Some now\<rparr>"
  have keeps: "keeps_key ?f" by (simp add: keeps_key_def)
  have load: "load_execution env (rq_ExecutionID req) s = (Inr exec, s)" "load_instance env exec s = (Inr inst, s)"
    using exec inst db by (simp_all add: load_execution_def load_instance_def Exec_GetByID_def Instance_GetByID_def repo_get_def no_faults_def)
  have "Commit env now req s = (Inl (wrapped_in ErrOutputContractViolation err),
      s1\<lparr>sv_db := (sv_db s)\<lparr>es_execs := db_update (\<lambda>e. bm_ID e = bm_ID exec) ?f (es_execs (sv_db s))\<rparr>\<rparr>)"
    using load succeeded spec invalid db s1
    by (simp add: Commit_def Let_def op_seq_def check_output_def UpdateExecutionStatus_def db_exec_def op_ignore_def op_try_def
        op_ok_def op_err_def wrapped_in_def)
  then show ?thesis
    using exec id db_get_update_id [OF keeps, of "rq_ExecutionID req" "es_execs (sv_db s)"] by (auto simp: contract_broken_def)
qed

section \<open>Completion follows the document\<close>

lemma db_exec_InrD: "op_map_err g (db_exec f) s = (Inr u, s') \<Longrightarrow> \<exists>d. f (sv_db s) = Inr d \<and> s' = s\<lparr>sv_db := d\<rparr>"
  by (auto simp: op_map_err_def db_exec_def split: sum.splits)

lemma seq_InrD: "op_seq m f s = (Inr x, s') \<Longrightarrow> \<exists>y s1. m s = (Inr y, s1) \<and> f y s1 = (Inr x, s')"
  by (auto simp: op_seq_def split: prod.splits sum.splits)

lemma audit_InrD:
  assumes "append_audit env role now a s = (Inr (), s')"
  shows "\<exists>t. s' = s\<lparr>sv_db := (sv_db s)\<lparr>es_audits := t\<rparr>\<rparr>"
  using assms audit_runs [of env role now a s] by (metis prod.inject)

text \<open>What a successful report of an output has read, planned and run.\<close>

lemma Commit_InrD:
  assumes "Commit env now req s = (Inr (), s')" and "rq_Error req = None"
  obtains exec inst spec plan nextHash d t where
    "db_get (es_execs (sv_db s)) (rq_ExecutionID req) = Some exec"
    "db_get (es_instances (sv_db s)) (ex_InstanceID exec) = Some inst"
    "fst (loadSpec env (wi_WorkflowName inst) (wi_WorkflowVersion inst) s) = Inr spec"
    "reg_ValidateOutput (se_schemas env) (wi_WorkflowName inst) (wi_WorkflowVersion inst) (ex_State exec) (rq_Output req) = Inr ()"
    "planAdvance (se_cel env) spec inst exec (rq_Output req) [] = Inr plan"
    "validateNextInput env inst (ap_nextStep plan) (ap_nextInput plan) = Inr nextHash"
    "CommitExecution (se_db env) now (commit_request exec inst (HashToken (rq_ExecutionToken req)) True ExecStatusDispatched
       (rq_Output req) plan nextHash) (sv_db s) = Inr d"
    "sv_db s' = d\<lparr>es_audits := t\<rparr>"
proof -
  let ?out = "rq_Output req" and ?h = "HashToken (rq_ExecutionToken req)"
  obtain exec s1 inst s2 spec s3 s4 plan nextHash s5 where
      load: "load_execution env (rq_ExecutionID req) s = (Inr exec, s1)" "load_instance env exec s1 = (Inr inst, s2)"
        "loadSpec env (wi_WorkflowName inst) (wi_WorkflowVersion inst) s2 = (Inr spec, s3)"
      and checked: "check_output env now exec inst ?out s3 = (Inr (), s4)"
      and plan: "planAdvance (se_cel env) spec inst exec ?out [] = Inr plan"
        "validateNextInput env inst (ap_nextStep plan) (ap_nextInput plan) = Inr nextHash"
      and commit: "op_map_err token_or_stale (db_exec (CommitExecution (se_db env) now
         (commit_request exec inst ?h True ExecStatusDispatched ?out plan nextHash))) s4 = (Inr (), s5)"
      and audit: "append_audit env ''completion audit'' now (new_audit (ex_InstanceID exec) (rq_ExecutionID req)
         ''state.completed'' (ex_State exec) (ex_TraceID exec) ?out) s5 = (Inr (), s')"
    using assms by (auto simp: Commit_def Let_def dest!: seq_InrD)
  have s12: "s1 = s" "s2 = s" and rows: "db_get (es_execs (sv_db s)) (rq_ExecutionID req) = Some exec"
      "db_get (es_instances (sv_db s)) (ex_InstanceID exec) = Some inst"
    using load_execution_Inr [OF load(1)] load_instance_Inr [OF load(2)] by auto
  have s4: "sv_db s4 = sv_db s" using check_output_Inr [OF checked] loadSpec_db [OF load(3)] s12 by simp
  have valid: "reg_ValidateOutput (se_schemas env) (wi_WorkflowName inst) (wi_WorkflowVersion inst) (ex_State exec) ?out = Inr ()"
    using checked by (auto simp: check_output_def op_seq_def op_err_def split: sum.splits prod.splits)
  obtain d t where "CommitExecution (se_db env) now (commit_request exec inst ?h True ExecStatusDispatched ?out plan nextHash) (sv_db s) = Inr d"
      "sv_db s' = d\<lparr>es_audits := t\<rparr>"
    using db_exec_InrD [OF commit] audit_InrD [OF audit] s4 by auto
  moreover have "fst (loadSpec env (wi_WorkflowName inst) (wi_WorkflowVersion inst) s) = Inr spec" using load(3) s12 by simp
  ultimately show thesis using rows valid plan by (intro that)
qed

lemma load_runs:
  assumes "ee_F (se_db env) = no_faults"
  shows "db_get (es_execs (sv_db s)) i = Some e \<Longrightarrow> load_execution env i s = (Inr e, s)"
    and "db_get (es_instances (sv_db s)) (ex_InstanceID e) = Some m \<Longrightarrow> load_instance env e s = (Inr m, s)"
  using assms by (simp_all add: load_execution_def load_instance_def Exec_GetByID_def Instance_GetByID_def repo_get_def no_faults_def)

text \<open>And conversely: what a report needs to succeed.\<close>

lemma Commit_runs:
  assumes rows: "db_get (es_execs (sv_db s)) (rq_ExecutionID req) = Some exec"
      "db_get (es_instances (sv_db s)) (ex_InstanceID exec) = Some inst"
    and db: "ee_F (se_db env) = no_faults" and succeeded: "rq_Error req = None"
    and spec: "fst (loadSpec env (wi_WorkflowName inst) (wi_WorkflowVersion inst) s) = Inr spec"
    and valid: "reg_ValidateOutput (se_schemas env) (wi_WorkflowName inst) (wi_WorkflowVersion inst) (ex_State exec) (rq_Output req) = Inr ()"
    and plan: "planAdvance (se_cel env) spec inst exec (rq_Output req) [] = Inr plan"
      "validateNextInput env inst (ap_nextStep plan) (ap_nextInput plan) = Inr nextHash"
    and commit: "CommitExecution (se_db env) now (commit_request exec inst (HashToken (rq_ExecutionToken req)) True
       ExecStatusDispatched (rq_Output req) plan nextHash) (sv_db s) = Inr d"
  obtains s' t where "Commit env now req s = (Inr (), s')" "sv_db s' = d\<lparr>es_audits := t\<rparr>"
proof -
  obtain s1 where s1: "loadSpec env (wi_WorkflowName inst) (wi_WorkflowVersion inst) s = (Inr spec, s1)" "sv_db s1 = sv_db s"
    using spec loadSpec_db [of env _ _ s] by (metis prod.collapse)
  let ?a = "append_audit env ''completion audit'' now (new_audit (ex_InstanceID exec) (rq_ExecutionID req) ''state.completed''
     (ex_State exec) (ex_TraceID exec) (rq_Output req))"
  obtain s' t where a: "?a (s1\<lparr>sv_db := d\<rparr>) = (Inr (), s')" "s' = s1\<lparr>sv_db := d\<lparr>es_audits := t\<rparr>\<rparr>"
    by (rule audit_runs [of env _ now _ "s1\<lparr>sv_db := d\<rparr>"]) simp
  have "op_map_err token_or_stale (db_exec (CommitExecution (se_db env) now (commit_request exec inst
      (HashToken (rq_ExecutionToken req)) True ExecStatusDispatched (rq_Output req) plan nextHash))) s1 = (Inr (), s1\<lparr>sv_db := d\<rparr>)"
    using commit s1(2) by (simp add: op_map_err_def db_exec_def)
  then have "Commit env now req s = (Inr (), s')"
    using load_runs(1) [OF db rows(1)] load_runs(2) [OF db rows(2)] succeeded s1(1) valid plan a(1)
    by (simp add: Commit_def Let_def op_seq_def check_output_def op_ok_def op_of_def)
  then show thesis by (rule that) (simp add: a(2))
qed

lemma commit_request_simps [simp]:
  fixes exec inst h v expected output0 plan nh
  defines "rq \<equiv> commit_request exec inst h v expected output0 plan nh"
  shows "cm_Execution rq = exec" "cm_Instance rq = inst" "cm_TokenHash rq = h" "cm_VerifyToken rq = v"
    "cm_OutputPayload rq = output0" "cm_ExpectedStatus rq = expected" "cm_NextState rq = next_state plan"
    "cm_NextInputPayload rq = ap_nextInput plan" "cm_InstanceVars rq = ap_varsJSON plan"
  by (simp_all add: rq_def commit_request_def)

text \<open>What the commit of a plan has found and leaves.\<close>

lemma commit_request_effect:
  assumes ok: "CommitExecution env now (commit_request exec inst h True expected output plan nh) st = Inr d"
    and ids: "ids_ok (es_execs st)" "ids_ok (es_instances st)"
    and rows: "db_get (es_execs st) (bm_ID exec) = Some exec" "db_get (es_instances st) (bm_ID inst) = Some inst"
  defines "row \<equiv> next_row env now (commit_request exec inst h True expected output plan nh)"
  shows "ex_Status exec = expected \<and> ex_ExecutionToken exec = h \<and> wi_Status inst = InstanceStatusRunning \<and>
      wi_CurrentState inst = ex_State exec"
    and "map_option ex_Status (db_get (es_execs d) (bm_ID exec)) = Some ExecStatusCompleted"
    and "db_get (es_instances d) (bm_ID inst) = Some (if next_state plan = [] then finished now (ap_varsJSON plan) inst
      else advanced now (next_state plan) (ap_varsJSON plan) inst)"
    and "next_state plan \<noteq> [] \<Longrightarrow> row \<in> set (es_execs d) \<and> row \<notin> set (es_execs st) \<and>
      ex_InputPayload row = json_default (VMap []) (ap_nextInput plan)"
proof -
  let ?rq = "commit_request exec inst h True expected output plan nh"
  let ?f = "committed now (commit_hash env ?rq)"
  let ?t = "db_update (\<lambda>e. bm_ID e = bm_ID exec) ?f (es_execs st)"
  obtain e m r where eff:
      "db_get (es_execs st) (bm_ID exec) = Some e" "ex_Status e = expected" "ex_ExecutionToken e = h"
      "db_get (es_instances st) (bm_ID inst) = Some m" "wi_Status m = InstanceStatusRunning" "wi_CurrentState m = ex_State exec"
    and complete: "next_state plan = [] \<Longrightarrow> es_execs d = ?t \<and>
       es_instances d = db_update (\<lambda>i. bm_ID i = bm_ID inst) (finished now (ap_varsJSON plan)) (es_instances st)"
    and advance: "next_state plan \<noteq> [] \<Longrightarrow> db_insert no_conflict row ?t = Some (es_execs d) \<and>
       es_instances d = db_update (\<lambda>i. bm_ID i = bm_ID inst) (advanced now (next_state plan) (ap_varsJSON plan)) (es_instances st)"
    using CommitExecution_effect [OF ok ids, unfolded commit_request_simps] unfolding row_def by metis
  with rows show "ex_Status exec = expected \<and> ex_ExecutionToken exec = h \<and> wi_Status inst = InstanceStatusRunning \<and>
      wi_CurrentState inst = ex_State exec" by simp
  have get_t: "db_get ?t (bm_ID exec) = Some (?f exec)" using rows(1) by (simp add: db_get_update_id)
  have row: "live row" by (simp add: row_def)
  show "map_option ex_Status (db_get (es_execs d) (bm_ID exec)) = Some ExecStatusCompleted"
  proof (cases "next_state plan = []")
    case False
    with advance have i: "db_insert no_conflict row ?t = Some (es_execs d)" by simp
    have "bm_ID exec \<noteq> bm_ID row" using db_insert_SomeD [OF i] db_get_ID [OF get_t] by auto
    with db_get_insert [OF i row] get_t show ?thesis by (simp add: committed_def)
  qed (use complete get_t in \<open>simp add: committed_def\<close>)
  show "db_get (es_instances d) (bm_ID inst) = Some (if next_state plan = [] then finished now (ap_varsJSON plan) inst
      else advanced now (next_state plan) (ap_varsJSON plan) inst)"
    using complete advance rows(2) by (simp add: db_get_update_id)
  assume "next_state plan \<noteq> []"
  with advance have i: "db_insert no_conflict row ?t = Some (es_execs d)" by simp
  have "bm_ID row \<notin> bm_ID ` set (es_execs st)"
    using db_insert_SomeD [OF i] unfolding list.set_map [symmetric] by simp
  then have "row \<notin> set (es_execs st)" by blast
  moreover have "ex_InputPayload row = json_default (VMap []) (ap_nextInput plan)"
    by (simp add: row_def next_row_def execution_row_def new_execution_def with_id_def)
  ultimately show "row \<in> set (es_execs d) \<and> row \<notin> set (es_execs st) \<and>
      ex_InputPayload row = json_default (VMap []) (ap_nextInput plan)"
    using db_insert_SomeD [OF i] by simp
qed


text \<open>A dispatched execution, with the definition of its workflow stored.\<close>

definition ex_definition :: WorkflowDefinition where
  "ex_definition = \<lparr>bm_ID = ''def'', bm_CreatedAt = 0, bm_ModifiedAt = 0, bm_DeletedAt = None, wd_Name = ''flow'',
     wd_WorkflowVersion = 1, wd_Status = WorkflowStatusActive, wd_DSLBlob = RawJson (VMap []), wd_InputSchemaHash = [],
     wd_TimeoutSeconds = 0\<rparr>"

definition ex_dispatched :: EngineState where
  "ex_dispatched = ex_s0\<lparr>es_defs := [ex_definition], es_instances := [ex_instance],
     es_execs := [ex_row\<lparr>ex_Status := ExecStatusDispatched, ex_ExecutionToken := HashToken ''tok''\<rparr>]\<rparr>"

definition ex_success :: CommitRequest where
  "ex_success = \<lparr>rq_ExecutionID = ''#ex'', rq_ExecutionToken = ''tok'', rq_Output = RawJson (VMap []), rq_Error = None\<rparr>"

lemma single_row_inv:
  assumes "es_execs st = [e]" "es_instances st = [m]" "es_outputs st = []"
    and "bm_ID e \<noteq> []" "bm_ID m \<noteq> []" "ex_InstanceID e = bm_ID m" "ex_State e = wi_CurrentState m"
  shows "engine_inv st"
  using assms
  by (auto simp: engine_inv_def core_of_def ids_ok_def one_open_def in_state_def has_instance_def outputs_once_def db_get_def)

lemmas ex_row_simps = ex_dispatched_def ex_definition_def ex_success_def ex_finished_simps

lemma ex_dispatched_inv: "engine_inv (sv_db (ex_svc ex_dispatched))"
  by (rule single_row_inv [where e = "hd (es_execs ex_dispatched)" and m = ex_instance]) (simp_all add: ex_row_simps)

lemma ex_Parse: "Parse (\<lambda>_. Inr example_spec) blob = Inr example_spec"
  by (simp add: Parse_def example_spec_def)

lemma ex_loadSpec: "fst (loadSpec ex_svc_env ''flow'' 1 (ex_svc ex_dispatched)) = Inr example_spec"
  by (simp add: loadSpec_def Let_def op_seq_def cache_get_def NewBoundedCache_def Cache_Get_def spec_from_blob_def op_map_err_def
      db_read_def Def_GetByNameAndVersion_def first_by_def db_select_def stmt_def guard_def op_of_def op_ok_def cache_put_def
      ex_Parse ex_row_simps)

definition ex_dispatched_row :: WorkflowStateExecution where
  "ex_dispatched_row = ex_row\<lparr>ex_Status := ExecStatusDispatched, ex_ExecutionToken := HashToken ''tok''\<rparr>"

definition ex_plan :: "advancePlan result" where
  "ex_plan = planAdvance example_cel example_spec ex_instance ex_row (RawJson (VMap [])) []"

definition plan_to :: "string \<Rightarrow> advancePlan result \<Rightarrow> bool" where
  "plan_to target r = (case r of Inl _ \<Rightarrow> False
     | Inr plan \<Rightarrow> next_state plan = target \<and> ap_nextInput plan = empty_object \<and> ap_varsJSON plan = RawEmpty)"

lemma ex_plan_ok: "plan_to ''s'' ex_plan"
  by code_simp

lemma ex_plan_row: "planAdvance example_cel example_spec ex_instance ex_dispatched_row out [] =
    planAdvance example_cel example_spec ex_instance ex_row out []"
  by (simp add: planAdvance_def expressionScope_def executionInputPayload_def ex_dispatched_row_def)

lemma ex_Commit:
  obtains s' where "Commit ex_svc_env 5 ex_success (ex_svc ex_dispatched) = (Inr (), s')"
proof -
  let ?s = "ex_svc ex_dispatched"
  obtain plan where plan: "planAdvance example_cel example_spec ex_instance ex_dispatched_row (RawJson (VMap [])) [] = Inr plan"
      "next_state plan = ''s''" "ap_nextInput plan = empty_object" "ap_varsJSON plan = RawEmpty"
    using ex_plan_ok ex_plan_row by (auto simp: plan_to_def ex_plan_def split: sum.splits)
  have rows: "db_get (es_execs ex_dispatched) ''#ex'' = Some ex_dispatched_row" "db_get (es_instances ex_dispatched) ''wf'' = Some ex_instance"
    by (simp_all add: db_get_def ex_dispatched_row_def ex_row_simps)
  obtain nh where nh: "validateNextInput ex_svc_env ex_instance (ap_nextStep plan) (ap_nextInput plan) = Inr nh"
    using plan(3) by (cases "ap_nextStep plan") (auto simp: validateNextInput_def ex_svc_env_def labelled_def empty_object_def)
  let ?rq = "commit_request ex_dispatched_row ex_instance (HashToken ''tok'') True ExecStatusDispatched (RawJson (VMap [])) plan nh"
  have "commit_ready ?rq ex_dispatched" using rows
    by (simp add: commit_ready_def) (simp add: ex_dispatched_row_def ex_row_simps)
  moreover have "commit_input_ok ex_env ?rq ex_dispatched"
    using plan by (simp add: commit_input_ok_def empty_object_def) (simp add: ex_row_simps)
  moreover have "ids_ok (es_execs ex_dispatched)" "ids_ok (es_instances ex_dispatched)"
    by (simp_all add: ids_ok_def ex_row_simps)
  ultimately have "is_ok (CommitExecution ex_env 5 ?rq ex_dispatched)" by (intro commit_ok)
  then have commit: "CommitExecution ex_env 5 ?rq ex_dispatched = Inr (or_else ex_s0 (CommitExecution ex_env 5 ?rq ex_dispatched))"
    by (rule or_else_ok)
  show thesis
    by (rule Commit_runs [where env = ex_svc_env and s = ?s and req = ex_success and exec = ex_dispatched_row and inst = ex_instance
        and spec = example_spec and plan = plan and nextHash = nh and now = 5])
      (use rows ex_loadSpec plan nh commit that in \<open>auto simp: ex_svc_def ex_success_def ex_instance_def ex_svc_env_def ex_env_def
         ex_dispatched_row_def ex_row_def ex_exec_def new_execution_def\<close>)
qed


text \<open>The service with a registry that accepts no output, and a report of somebody without the token.\<close>

definition ex_strict_env :: "(unit, string, string) svc_env" where
  "ex_strict_env = ex_svc_env\<lparr>se_schemas := (se_schemas ex_svc_env)\<lparr>reg_ValidateOutput := (\<lambda>_ _ _ _. Inl (Errf ''invalid'' []))\<rparr>\<rparr>"

lemma ex_strict_loadSpec:
  "loadSpec ex_strict_env ''flow'' 1 (ex_svc ex_finished\<lparr>sv_dsl := Cache_Put (spec_key ''unknown'' ''flow'' 1) example_spec (NewBoundedCache 2)\<rparr>)
     = (Inr example_spec, ex_svc ex_finished\<lparr>sv_dsl := Cache_Put (spec_key ''unknown'' ''flow'' 1) example_spec (NewBoundedCache 2)\<rparr>)"
  using cache_get_put(1) [OF cache_inv_new, of "spec_key ''unknown'' ''flow'' 1" example_spec 2]
  by (simp add: loadSpec_def Let_def op_seq_def cache_get_def op_ok_def tenantFromContext_def ex_strict_env_def ex_svc_env_def)

theorem invalid_output_ignores_token_witness:
  "\<exists>s'. Commit ex_strict_env 5 (ex_report None) (ex_svc ex_finished\<lparr>sv_dsl := Cache_Put (spec_key ''unknown'' ''flow'' 1) example_spec (NewBoundedCache 2)\<rparr>)
      = (Inl (wrapped_in ErrOutputContractViolation (Errf ''invalid'' [])), s') \<and>
    map_option ex_Status (db_get (es_execs (sv_db s')) ''#ex'') = Some ExecStatusInvalidOutputContract"
proof -
  let ?s = "ex_svc ex_finished\<lparr>sv_dsl := Cache_Put (spec_key ''unknown'' ''flow'' 1) example_spec (NewBoundedCache 2)\<rparr>"
  let ?e = "ex_row\<lparr>ex_Status := ExecStatusCompleted\<rparr>"
  have "\<exists>s'. Commit ex_strict_env 5 (ex_report None) ?s = (Inl (wrapped_in ErrOutputContractViolation (Errf ''invalid'' [])), s') \<and>
    db_get (es_execs (sv_db s')) (rq_ExecutionID (ex_report None)) = Some (contract_broken 5 ?e) \<and>
    es_instances (sv_db s') = es_instances (sv_db ?s) \<and> es_outputs (sv_db s') = es_outputs (sv_db ?s)"
    by (rule invalid_output_ignores_token [where inst = ex_instance and spec = example_spec and ?s1.0 = ?s])
      (use ex_strict_loadSpec in \<open>simp_all add: ex_finished_simps ex_strict_env_def db_get_def\<close>)
  then show ?thesis by (auto simp: ex_report_def contract_broken_def)
qed

section \<open>Retry times\<close>

lemma float_of_int_exact: "0 \<le> n \<Longrightarrow> n < 2 ^ 53 \<Longrightarrow> float_of_int n = of_int n"
  by (simp add: float_of_int_def float64_int)

lemma float_to_int64_of_int: "float_to_int64 (of_int k) = (if in_int64 k then k else min_int64)"
  by (auto simp: float_to_int64_def Let_def simp flip: of_int_minus)

lemma scaled_delay_exact:
  assumes "0 \<le> initial" "initial < 2 ^ 53" and "0 \<le> n" "n < 1024"
  shows "scaled_delay initial n = (if initial * 2 ^ nat n < 2 ^ 63 then initial * 2 ^ nat n else min_int64)"
proof -
  have "float_of_int initial * 2 ^ nat n = of_int (initial * 2 ^ nat n)" using assms by (simp add: float_of_int_exact)
  then have "scaled_delay initial n = float_to_int64 (of_int (initial * 2 ^ nat n))" using assms by (simp add: scaled_delay_def)
  moreover have "0 \<le> initial * 2 ^ nat n" using assms by simp
  ultimately show ?thesis by (simp only: float_to_int64_of_int) (simp add: in_int64_def min_int64_def max_int64_def)
qed

text \<open>The delay a policy asks for before jitter: doubling with every attempt under exponential backoff.\<close>

definition backoff_ms :: "int \<Rightarrow> WorkflowRetryPolicy \<Rightarrow> int" where
  "backoff_ms attempt policy = (if rp_BackoffStrategy policy = ''exponential''
     then rp_InitialDelayMs policy * 2 ^ nat (attempt - 1) else rp_InitialDelayMs policy)"

text \<open>A policy whose delays are representable, and an attempt its backoff does not overflow at.\<close>

definition policy_ok :: "WorkflowRetryPolicy \<Rightarrow> bool" where
  "policy_ok policy \<longleftrightarrow> 0 \<le> rp_InitialDelayMs policy \<and> rp_InitialDelayMs policy < 2 ^ 53 \<and>
     0 \<le> rp_MaxDelayMs policy \<and> rp_MaxDelayMs policy * millisecond < 2 ^ 63"

lemma retry_delay_exact:
  assumes "policy_ok policy" and "1 \<le> attempt" and "backoff_ms attempt policy < 2 ^ 63" and "attempt \<le> 1024"
  shows "retry_delay_ms attempt policy = min (backoff_ms attempt policy) (rp_MaxDelayMs policy)"
  using assms by (auto simp: policy_ok_def backoff_ms_def retry_delay_ms_def scaled_delay_exact Let_def)

text \<open>The retry time stays in its window: for a policy with representable delays the next attempt is due within the
  backoff of the attempt, doubled with every attempt under exponential backoff and capped by the maximum, and never before
  now, whatever the random jitter.\<close>
theorem retry_time_bounds:
  assumes "policy_ok policy" and "1 \<le> attempt" "attempt \<le> 1024" and "backoff_ms attempt policy < 2 ^ 63"
    and jitter: "\<And>n. 0 < n \<Longrightarrow> 0 \<le> rnd n \<and> rnd n < n"
  shows "\<exists>t. computeRetryTime rnd now attempt policy = Inr t \<and> now \<le> t \<and>
    t \<le> now + min (backoff_ms attempt policy) (rp_MaxDelayMs policy) * millisecond"
proof -
  define delay where "delay = min (backoff_ms attempt policy) (rp_MaxDelayMs policy)"
  have delay: "retry_delay_ms attempt policy = delay" "0 \<le> delay" "delay * millisecond < 2 ^ 63" "delay + 1 < 2 ^ 63"
    using assms(1) retry_delay_exact [OF assms(1,2,4,3)]
    by (auto simp: delay_def policy_ok_def backoff_ms_def millisecond_def min_def)
  have id: "int64 x = x" if "0 \<le> x" "x < 2 ^ 63" for x
    using that by (simp add: int64_def)
  have bound: "int64 (delay + 1) = delay + 1" using delay by (intro id) auto
  have j: "0 \<le> rnd (delay + 1)" "rnd (delay + 1) \<le> delay" using jitter [of "delay + 1"] delay(2) by auto
  then have "rnd (delay + 1) * millisecond \<le> delay * millisecond" "0 \<le> rnd (delay + 1) * millisecond"
    by (auto simp: millisecond_def)
  moreover from this delay(3) have "int64 (rnd (delay + 1) * millisecond) = rnd (delay + 1) * millisecond" by (intro id) auto
  ultimately show ?thesis
    using delay(2) by (simp add: computeRetryTime_def int64N_def delay(1) bound delay_def [symmetric])
qed

theorem retry_time_bounds_witness:
  "\<exists>t. computeRetryTime (\<lambda>n. n div 2) 10 3 ((hd (es_policies ex_finished))\<lparr>rp_BackoffStrategy := ''exponential''\<rparr>) = Inr t \<and> 10 \<le> t \<and>
    t \<le> 10 + 4000 * millisecond"
proof -
  let ?p = "(hd (es_policies ex_finished))\<lparr>rp_BackoffStrategy := ''exponential''\<rparr>"
  have p: "policy_ok ?p" "backoff_ms 3 ?p = 4000" "rp_MaxDelayMs ?p = 300000"
    by (simp_all add: policy_ok_def backoff_ms_def millisecond_def ex_finished_simps)
  have "backoff_ms 3 ?p < 2 ^ 63" by (simp add: p)
  from retry_time_bounds [OF p(1) _ _ this, of "\<lambda>n. n div 2" 10] show ?thesis by (simp add: p)
qed

text \<open>Exponential backoff overflows before it is capped: once the doubled delay leaves the range of int64, its conversion
  gives the smallest integer, which is below the maximum, and the jitter panics on a negative bound, so that the report of
  the failure panics instead of scheduling a retry at the maximal delay.\<close>
theorem retry_backoff_overflow_panics:
  assumes "policy_ok policy" and "rp_BackoffStrategy policy = ''exponential''" and "1 \<le> attempt" "attempt \<le> 1024"
    and "backoff_ms attempt policy \<ge> 2 ^ 63"
  shows "computeRetryTime rnd now attempt policy = Inl (go_panic ''invalid argument to Int64N'')"
proof -
  have "scaled_delay (rp_InitialDelayMs policy) (attempt - 1) = min_int64"
    using assms by (simp add: scaled_delay_exact policy_ok_def backoff_ms_def)
  then have "retry_delay_ms attempt policy = min_int64"
    using assms(1,2) by (simp add: retry_delay_ms_def Let_def policy_ok_def min_int64_def)
  then show ?thesis by (simp add: computeRetryTime_def int64N_def int64_def min_int64_def)
qed

theorem retry_backoff_overflow_panics_witness:
  "computeRetryTime (\<lambda>n. 0) 10 60 ((hd (es_policies ex_finished))\<lparr>rp_BackoffStrategy := ''exponential''\<rparr>)
    = Inl (go_panic ''invalid argument to Int64N'')"
  by (rule retry_backoff_overflow_panics)
    (simp_all add: policy_ok_def backoff_ms_def millisecond_def ex_finished_simps)

section \<open>Cached workflows\<close>

lemma split_last_colon:
  assumes "a @ x # b = c @ x # d" and "x \<notin> set b" "x \<notin> set d"
  shows "a = c \<and> b = d"
proof -
  have "takeWhile (\<lambda>y. y \<noteq> x) (rev (a @ x # b)) = rev b" "takeWhile (\<lambda>y. y \<noteq> x) (rev (c @ x # d)) = rev d"
    using assms(2,3) by (simp_all add: takeWhile_tail) (metis (mono_tags, lifting) set_rev takeWhile_append2 takeWhile_tail)+
  with assms(1) have "b = d" by (metis rev_rev_ident)
  with assms(1) show ?thesis by simp
qed

lemma spec_key_inj: "spec_key t name v = spec_key t name' v' \<Longrightarrow> name = name' \<and> v = v'"
  using split_last_colon [OF _ itoa_no_colon itoa_no_colon, of name v name' v']
  by (auto simp: spec_key_def dest: itoa_inj)

text \<open>The document of a definition, and caches that only hold such documents.\<close>

definition document_of :: "('env, 'ast, 'prg) svc_env \<Rightarrow> EngineState \<Rightarrow> string \<Rightarrow> int \<Rightarrow> WorkflowSpec option" where
  "document_of env st name version =
     (case first_by bm_ID (db_select (\<lambda>d. wd_Name d = name \<and> wd_WorkflowVersion d = version) (es_defs st)) of
        None \<Rightarrow> None
      | Some d \<Rightarrow> (case Parse (se_unmarshal env) (wd_DSLBlob d) of Inl _ \<Rightarrow> None | Inr spec \<Rightarrow> Some spec))"

abbreviation key_of :: "('env, 'ast, 'prg) svc_env \<Rightarrow> string \<Rightarrow> int \<Rightarrow> string" where
  "key_of env \<equiv> spec_key (tenantFromContext (se_claims env))"

definition caches_right :: "('env, 'ast, 'prg) svc_env \<Rightarrow> Svc \<Rightarrow> bool" where
  "caches_right env s \<longleftrightarrow> cache_inv (sv_dsl s) \<and>
     (\<forall>name version spec. Cache_Get (key_of env name version) (sv_dsl s) = Some spec \<longrightarrow>
        document_of env (sv_db s) name version = Some spec) \<and>
     (\<forall>name version spec. spec_from_blob env (key_of env name version) = Some spec \<longrightarrow>
        document_of env (sv_db s) name version = Some spec)"

lemma caches_right_put:
  assumes "caches_right env s" and "document_of env (sv_db s) name version = Some spec"
  shows "caches_right env (s\<lparr>sv_dsl := Cache_Put (key_of env name version) spec (sv_dsl s)\<rparr>)"
proof -
  let ?good = "\<lambda>j w. \<forall>n v. j = key_of env n v \<longrightarrow> document_of env (sv_db s) n v = Some w"
  have inv: "cache_inv (sv_dsl s)" and held: "\<And>j w. Cache_Get j (sv_dsl s) = Some w \<Longrightarrow> ?good j w"
    using assms(1) by (auto simp: caches_right_def)
  have new: "?good (key_of env name version) spec" using assms(2) by (auto dest: spec_key_inj)
  have "?good j w" if "Cache_Get j (Cache_Put (key_of env name version) spec (sv_dsl s)) = Some w" for j w
    by (rule bounded.coherent_put [where good = ?good, OF inv held new that])
  then show ?thesis using assms(1) bounded.inv_put [OF inv] by (auto simp: caches_right_def)
qed

text \<open>The two caches of parsed workflows are transparent: as long as they hold documents of stored definitions, loading
  a workflow gives exactly the parsed document of its definition, or an error when there is none or it does not parse, and
  leaves such caches behind, whatever was evicted on the way.\<close>
theorem load_spec_transparent:
  assumes "caches_right env s" and "ee_F (se_db env) = no_faults"
  shows "(\<forall>spec. fst (loadSpec env name version s) = Inr spec \<longleftrightarrow> document_of env (sv_db s) name version = Some spec) \<and>
    caches_right env (snd (loadSpec env name version s))"
proof (cases "Cache_Get (key_of env name version) (sv_dsl s)")
  case (Some spec)
  with assms(1) have "document_of env (sv_db s) name version = Some spec" by (auto simp: caches_right_def)
  with Some assms(1) show ?thesis by (auto simp: loadSpec_def Let_def op_seq_def cache_get_def op_ok_def)
next
  case miss: None
  show ?thesis
  proof (cases "spec_from_blob env (key_of env name version)")
    case (Some spec)
    with assms(1) have d: "document_of env (sv_db s) name version = Some spec" by (auto simp: caches_right_def)
    with miss Some caches_right_put [OF assms(1) d] show ?thesis
      by (auto simp: loadSpec_def Let_def op_seq_def cache_get_def op_ok_def cache_put_def)
  next
    case None
    show ?thesis
    proof (cases "document_of env (sv_db s) name version")
      case (Some spec)
      with caches_right_put [OF assms(1) Some] miss None assms(2) show ?thesis
        by (auto simp: loadSpec_def Let_def op_seq_def cache_get_def op_ok_def cache_put_def op_map_err_def db_read_def op_of_def
            Def_GetByNameAndVersion_def stmt_def guard_def no_faults_def document_of_def first_by_def split: option.splits sum.splits list.splits)
    next
      case absent: None
      with miss None assms show ?thesis
        by (auto simp: loadSpec_def Let_def op_seq_def cache_get_def op_ok_def cache_put_def op_map_err_def db_read_def op_of_def
            Def_GetByNameAndVersion_def stmt_def guard_def no_faults_def document_of_def first_by_def split: option.splits sum.splits list.splits)
    qed
  qed
qed

theorem load_spec_transparent_witness:
  "fst (loadSpec ex_svc_env ''flow'' 1 (ex_svc ex_dispatched)) = Inr example_spec"
proof -
  have "caches_right ex_svc_env (ex_svc ex_dispatched)"
    using cache_inv_new [of maxDSLCacheSize]
    by (simp add: caches_right_def ex_svc_def spec_from_blob_def ex_svc_env_def Cache_Get_def NewBoundedCache_def)
  moreover have "ee_F (se_db ex_svc_env) = no_faults" by (simp add: ex_svc_env_def ex_env_def)
  moreover have "document_of ex_svc_env (sv_db (ex_svc ex_dispatched)) ''flow'' 1 = Some example_spec"
    by (simp add: document_of_def first_by_def db_select_def ex_Parse ex_row_simps)
  ultimately show ?thesis using load_spec_transparent by blast
qed

section \<open>Signals\<close>

text \<open>C25: What a signal carries reaches the variable it is meant for: the payload of a message, wrapped under the output
  variable of the wait it wakes, is what the instance stores in that variable when the signal_wait step completes (its
  integers as JSON numbers), for every payload that decodes, the empty one included, which counts as an empty object.\<close>
theorem signal_payload_reaches_variable:
  assumes "step_Type step = StepTypeSignalWait" and "output_var_name step = var" and "var \<noteq> []"
    and "json_unmarshal (if payload = RawEmpty then empty_object else payload) = Inr v"
    and "decodeInstanceVars (wi_Vars inst) = Inr vars"
  shows "\<exists>out vars'. buildSignalOutputPayload var payload = Inr out \<and>
    nextInstanceVars inst (Some step) out [] = Inr (vars', json_marshal (VMap vars')) \<and>
    map_of vars' var = Some (json_norm v) \<and> (\<forall>x. x \<noteq> var \<longrightarrow> map_of vars' x = map_of vars x)"
  using assms
  by (auto simp: buildSignalOutputPayload_def Let_def nextInstanceVars_def outputVarValue_def map_put_all_def json_marshal_def
      json_unmarshal_def as_map_def split: raw_json.splits)

definition ex_wait_step :: StepSpec where
  "ex_wait_step = StepSpec ''w'' StepTypeSignalWait [] [] None 0 None no_transition no_transition None None None None None None
     (Some \<lparr>sw_SignalName = ''paid'', sw_Timeout = 0, sw_OutputVar = ''receipt''\<rparr>) None"

theorem signal_payload_reaches_variable_witness:
  "\<exists>out vars'. buildSignalOutputPayload ''receipt'' (RawJson (VInt 7)) = Inr out \<and>
    nextInstanceVars ex_instance (Some ex_wait_step) out [] = Inr (vars', json_marshal (VMap vars')) \<and>
    map_of vars' ''receipt'' = Some (VFloat 7)"
proof -
  have w: "step_Type ex_wait_step = StepTypeSignalWait" "output_var_name ex_wait_step = ''receipt''"
    by (simp_all add: ex_wait_step_def output_var_name_def)
  have v: "json_unmarshal (if RawJson (VInt 7) = RawEmpty then empty_object else RawJson (VInt 7)) = Inr (VInt 7)"
      "decodeInstanceVars (wi_Vars ex_instance) = Inr []"
    by (simp_all add: json_unmarshal_def decodeInstanceVars_def ex_instance_def)
  show ?thesis using signal_payload_reaches_variable [OF w _ v] by auto
qed

text \<open>The messages stored, with their payloads: delivering leases and marks them, and nothing else.\<close>

definition stored_messages :: "Svc \<Rightarrow> (string \<times> raw_json) list" where
  "stored_messages s = map (\<lambda>m. (bm_ID m, sm_Payload m)) (es_messages (sv_db s))"

lemma stored_update:
  assumes "\<And>m. bm_ID (f m) = bm_ID m \<and> sm_Payload (f m) = sm_Payload m"
  shows "map (\<lambda>m. (bm_ID m, sm_Payload m)) (db_update P f tbl) = map (\<lambda>m. (bm_ID m, sm_Payload m)) tbl"
  using assms by (induction tbl) (auto simp: db_update_def)

lemma claim_stored:
  assumes "ClaimSignalDelivery env now req st = Inr (c, st')"
  shows "map (\<lambda>m. (bm_ID m, sm_Payload m)) (es_messages st') = map (\<lambda>m. (bm_ID m, sm_Payload m)) (es_messages st)"
proof -
  have keep: "bm_ID (leased req now m) = bm_ID m \<and> sm_Payload (leased req now m) = sm_Payload m"
      "bm_ID (delivered now w m) = bm_ID m \<and> sm_Payload (delivered now w m) = sm_Payload m" for m w
    by (simp_all add: leased_def delivered_def)
  show ?thesis using assms
    by (auto simp: ClaimSignalDelivery_def claimPendingSignalMessage_def finalizeSignalDeliveryClaim_def Let_def res_simps
        stored_update [OF keep(1)] stored_update [OF keep(2)] split: option.splits dest!: insert_other_InrD(2))
qed

lemma audit_messages: "wp (append_audit env role now a) (\<lambda>r s'. es_messages (sv_db s') = es_messages (sv_db s)) s"
  by (rule wpI) (metis audit_runs prod.inject Svc.select_convs(1) Svc.surjective Svc.update_convs(1)
      EngineState.ext_inject EngineState.surjective EngineState.update_convs(5))

lemma same_messages:
  "wp (loadSpec env name version) (\<lambda>r s'. es_messages (sv_db s') = es_messages (sv_db s)) s"
  "wp (check_output env now exec inst output) (\<lambda>r s'. es_messages (sv_db s') = es_messages (sv_db s)) s"
  by (rule wpI, simp add: loadSpec_db)
    (auto simp: check_output_def wp_simps split: sum.splits dest: other_messages)

lemma resume_messages:
  "wp (resumeWaitingExecution env now x out carried) (\<lambda>r s'. es_messages (sv_db s') = es_messages (sv_db s)) s"
proof -
  note keep = wp_mono [OF same_messages(1)] wp_mono [OF same_messages(2)] wp_mono [OF audit_messages]
  show ?thesis
    by (auto simp: resumeWaitingExecution_def load_execution_def load_instance_def wp_simps Let_def
        split: sum.splits intro!: keep dest: commit_messages other_messages)
qed

lemma deliver_stored:
  "wp (tryDeliverSignal env now k name) (\<lambda>r s'. stored_messages s' = stored_messages s) s"
  by (auto simp: tryDeliverSignal_def ResumeWaitingExecution_def wp_simps stored_messages_def
      split: sum.splits option.splits intro!: wp_mono [OF resume_messages] dest: claim_stored)

text \<open>C26: An event's signal is stored once: once an event has been delivered to an instance, delivering it again, at any later
  time, with whatever payload and whatever came in between (messages are never removed while they may be redelivered), adds
  no message and changes the payload of none.\<close>
theorem event_signal_stored_once:
  assumes "DeliverEventSignal env now ev k name p s = (Inr b, s1)"
    and "fst ` set (stored_messages s1) \<subseteq> fst ` set (stored_messages s2)"
    and "DeliverEventSignal env' now' ev k name p' s2 = (r, s3)"
  shows "stored_messages s3 = stored_messages s2 \<and> deterministicEventSignalID ev k name \<in> fst ` set (stored_messages s2)"
proof -
  let ?i = "deterministicEventSignalID ev k name"
  have ids: "fst ` set (stored_messages s) = bm_ID ` set (es_messages (sv_db s))" for s
    by (simp add: stored_messages_def image_image)
  have i: "bm_ID (signal_message ?i k name q) = ?i" "?i \<noteq> []" for q
    by (simp_all add: signal_message_def deterministicEventSignalID_def)
  obtain b0 d where store: "CreateIfAbsent (se_db env) now (signal_message ?i k name p) (sv_db s) = Inr (b0, d)"
      and deliver: "tryDeliverSignal env now k name (s\<lparr>sv_db := d\<rparr>) = (Inr b, s1)"
    using assms(1) by (auto simp: DeliverEventSignal_def op_err_def op_map_err_def db_run_def split: if_splits sum.splits prod.splits
        dest!: seq_InrD)
  have "?i \<in> bm_ID ` set (es_messages (sv_db (s\<lparr>sv_db := d\<rparr>)))"
    using store i by (auto simp: CreateIfAbsent_def res_simps split: if_splits
        elim!: insert_message_InrD dest!: db_insert_SomeD)
  moreover have "stored_messages s1 = stored_messages (s\<lparr>sv_db := d\<rparr>)" using wpD [OF deliver_stored deliver] .
  ultimately have mem: "?i \<in> fst ` set (stored_messages s2)" using assms(2) ids by (metis subsetD)
  have "wp (DeliverEventSignal env' now' ev k name p') (\<lambda>r s'. stored_messages s' = stored_messages s2) s2"
    using mem i unfolding ids
    by (auto simp: DeliverEventSignal_def wp_simps CreateIfAbsent_def res_simps stmt_def split: sum.splits if_splits
        intro!: deliver_stored)
  with assms(3) mem show ?thesis by (auto dest: wpD)
qed

lemma ex_event_delivered:
  "fst (DeliverEventSignal ex_svc_env 5 ''ev'' ''wf'' ''paid'' RawEmpty (ex_svc ex_s0)) = Inr False"
proof -
  have i: "deterministicEventSignalID ''ev'' ''wf'' ''paid'' \<noteq> []" by (simp add: deterministicEventSignalID_def)
  show ?thesis
    by (simp add: DeliverEventSignal_def signal_message_def i op_seq_def op_map_err_def db_run_def CreateIfAbsent_def insert_message_def
        Let_def with_id_def jsonb_def create_def db_insert_def no_conflict_def stmt_def guard_def tryDeliverSignal_def ClaimSignalDelivery_def
        claimPendingSignalMessage_def first_by_def db_select_def pending_for_def loadWaitingSignalWait_def json_default_def
        empty_object_def op_ok_def ex_finished_simps)
qed

theorem event_signal_stored_once_witness:
  "\<exists>s1 r s3. DeliverEventSignal ex_svc_env 5 ''ev'' ''wf'' ''paid'' RawEmpty (ex_svc ex_s0) = (Inr False, s1) \<and>
     DeliverEventSignal ex_svc_env 6 ''ev'' ''wf'' ''paid'' (RawJson (VInt 1)) s1 = (r, s3) \<and> stored_messages s3 = stored_messages s1"
proof -
  obtain s1 where s1: "DeliverEventSignal ex_svc_env 5 ''ev'' ''wf'' ''paid'' RawEmpty (ex_svc ex_s0) = (Inr False, s1)"
    using ex_event_delivered by (metis prod.collapse)
  obtain r s3 where s3: "DeliverEventSignal ex_svc_env 6 ''ev'' ''wf'' ''paid'' (RawJson (VInt 1)) s1 = (r, s3)" by force
  show ?thesis using s1 s3 event_signal_stored_once [OF s1 subset_refl s3] by blast
qed

section \<open>Dispatch\<close>

lemma UpdateStatusExpected_InrD:
  assumes "UpdateStatusExpected env now x from to cs st = Inr d" and "ids_ok (es_execs st)"
  obtains e P f where "db_get (es_execs st) x = Some e" "ex_Status e = from"
    "d = st\<lparr>es_execs := db_update P f (es_execs st)\<rparr>" "\<And>e. P e \<longleftrightarrow> bm_ID e = x \<and> ex_Status e = from"
    "f = status_updates to cs (if finishes to \<and> \<not> list_ex is_finished_at cs then [Col_finished_at (Some now)] else [])"
proof -
  from assms(1) obtain row where "row \<in> set (es_execs st)" "live row" "bm_ID row = x" "ex_Status row = from"
    by (auto simp: UpdateStatusExpected_def update_some_def res_simps affected_0_iff guard_def split: if_splits)
  with db_get_mem [OF assms(2), of row] have "db_get (es_execs st) x = Some row" "ex_Status row = from" by simp_all
  then show thesis using assms(1)
    by (intro that [where P = "\<lambda>e. bm_ID e = x \<and> ex_Status e = from"])
      (auto simp: UpdateStatusExpected_def update_some_def res_simps)
qed

text \<open>Dispatching hands an execution out at most once and on terms: when it succeeds, the execution was pending and is now
  dispatched with the hash of the token in the command, started now and due to time out no later than the step limit allows;
  the command names the execution, its state, attempt and payload and the workflow and variables of its instance; every
  other execution and everything else stored is untouched.\<close>
theorem dispatch_hands_out_command:
  assumes "Dispatch env now execution s = (Inr cmd, s')" and "engine_inv (sv_db s)"
  shows "\<exists>e e' inst deadline.
    db_get (es_execs (sv_db s)) (bm_ID execution) = Some e \<and> ex_Status e = ExecStatusPending \<and>
    db_get (es_execs (sv_db s')) (bm_ID execution) = Some e' \<and>
    e' = e\<lparr>ex_Status := ExecStatusDispatched, ex_StartedAt := Some now, ex_ExecutionToken := HashToken (ec_ExecutionToken cmd),
           ex_TimeoutAt := Some deadline\<rparr> \<and>
    (se_maxStepTimeout env > 0 \<longrightarrow> deadline \<le> now + se_maxStepTimeout env) \<and>
    db_get (es_instances (sv_db s)) (ex_InstanceID execution) = Some inst \<and>
    ec_ExecutionID cmd = bm_ID execution \<and> ec_State cmd = ex_State execution \<and> ec_Attempt cmd = ex_Attempt execution \<and>
    ec_InputPayload cmd = ex_InputPayload execution \<and> ec_Workflow cmd = wi_WorkflowName inst \<and>
    ec_WorkflowVersion cmd = wi_WorkflowVersion inst \<and> ec_Vars cmd = instanceVarsJSON inst \<and>
    (\<forall>i. i \<noteq> bm_ID execution \<longrightarrow> db_get (es_execs (sv_db s')) i = db_get (es_execs (sv_db s)) i) \<and>
    (\<exists>execs. sv_db s' = (sv_db s)\<lparr>es_execs := execs\<rparr>)"
proof -
  have ids: "ids_ok (es_execs (sv_db s))" using assms(2) by (simp add: engine_inv_def core_of_def)
  let ?x = "bm_ID execution"
  obtain inst d where inst: "db_get (es_instances (sv_db s)) (ex_InstanceID execution) = Some inst"
      and upd: "UpdateStatusExpected (se_db env) now ?x ExecStatusPending ExecStatusDispatched
         [Col_started_at (Some now), Col_execution_token (HashToken (ee_token (se_db env) ''dispatch'')),
          Col_timeout_at (Some (dispatch_deadline env now inst (ex_State execution)))] (sv_db s) = Inr d"
      and s': "s' = s\<lparr>sv_db := d\<rparr>"
      and cmd: "ec_ExecutionToken cmd = ee_token (se_db env) ''dispatch''" "ec_ExecutionID cmd = ?x" "ec_State cmd = ex_State execution"
        "ec_Attempt cmd = ex_Attempt execution" "ec_InputPayload cmd = ex_InputPayload execution" "ec_Workflow cmd = wi_WorkflowName inst"
        "ec_WorkflowVersion cmd = wi_WorkflowVersion inst" "ec_Vars cmd = instanceVarsJSON inst"
    using assms(1)
    by (auto simp: Dispatch_def Let_def Instance_GetByID_def repo_get_iff op_ok_def dest!: seq_InrD db_exec_InrD)
  obtain e P f where e: "db_get (es_execs (sv_db s)) ?x = Some e" "ex_Status e = ExecStatusPending"
      and d: "d = (sv_db s)\<lparr>es_execs := db_update P f (es_execs (sv_db s))\<rparr>" and P: "\<And>e. P e \<longleftrightarrow> bm_ID e = ?x \<and> ex_Status e = ExecStatusPending"
      and f: "f = status_updates ExecStatusDispatched [Col_started_at (Some now), Col_execution_token (HashToken (ec_ExecutionToken cmd)),
          Col_timeout_at (Some (dispatch_deadline env now inst (ex_State execution)))] []"
    using UpdateStatusExpected_InrD [OF upd ids] cmd(1) by (auto simp: finishes_def)
  have keeps: "keeps_key f" by (simp add: f)
  have id: "bm_ID e = ?x" using db_get_SomeD [OF e(1)] by simp
  let ?deadline = "dispatch_deadline env now inst (ex_State execution)"
  have get: "db_get (es_execs d) i = (if i = ?x then Some (f e) else db_get (es_execs (sv_db s)) i)" for i
  proof (cases "db_get (es_execs (sv_db s)) i")
    case (Some r)
    then have "bm_ID r = i" by (simp add: db_get_SomeD)
    with Some e show ?thesis by (auto simp: d db_get_update [OF keeps] P)
  qed (use e in \<open>auto simp: d db_get_update [OF keeps]\<close>)
  have fe: "f e = e\<lparr>ex_Status := ExecStatusDispatched, ex_StartedAt := Some now,
      ex_ExecutionToken := HashToken (ec_ExecutionToken cmd), ex_TimeoutAt := Some ?deadline\<rparr>"
    by (simp add: f status_updates_def)
  have limit: "se_maxStepTimeout env > 0 \<longrightarrow> ?deadline \<le> now + se_maxStepTimeout env"
    by (simp add: dispatch_deadline_def Let_def)
  have db: "sv_db s' = d" by (simp add: s')
  have frame: "\<exists>execs. sv_db s' = (sv_db s)\<lparr>es_execs := execs\<rparr>" using d db by blast
  show ?thesis
    by (rule exI [of _ e], rule exI [of _ "f e"], rule exI [of _ inst], rule exI [of _ ?deadline])
      (use e inst cmd get fe limit frame in \<open>simp add: db\<close>)
qed

definition ex_pending :: EngineState where
  "ex_pending = ex_s0\<lparr>es_instances := [ex_instance], es_execs := [ex_row]\<rparr>"

lemma ex_dispatch:
  "\<exists>cmd s'. Dispatch ex_svc_env 5 ex_row (ex_svc ex_pending) = (Inr cmd, s')"
  by (simp add: Dispatch_def Let_def op_seq_def op_map_err_def db_read_def Instance_GetByID_def repo_get_def db_get_def op_of_def stmt_def
      guard_def db_exec_def UpdateStatusExpected_def update_some_def affected_def db_select_def op_ok_def ex_pending_def ex_finished_simps)

theorem dispatch_hands_out_command_witness:
  "\<exists>cmd s' e'. Dispatch ex_svc_env 5 ex_row (ex_svc ex_pending) = (Inr cmd, s') \<and>
     db_get (es_execs (sv_db s')) ''#ex'' = Some e' \<and> ex_Status e' = ExecStatusDispatched"
proof -
  obtain cmd s' where ok: "Dispatch ex_svc_env 5 ex_row (ex_svc ex_pending) = (Inr cmd, s')" using ex_dispatch by blast
  have "engine_inv (sv_db (ex_svc ex_pending))"
    by (rule single_row_inv [where e = ex_row and m = ex_instance]) (simp_all add: ex_pending_def ex_finished_simps)
  from dispatch_hands_out_command [OF ok this] ok show ?thesis by (auto simp: ex_row_def)
qed

end
