(* ===== verification/Branch_Correct.thy ===== *)
theory Branch_Correct
  imports State_Engine_Correct
begin

text \<open>
  What the reconciliation of a branch scope guarantees: the concurrency of a foreach step, the
  results it collects, and when they decide the scope.
\<close>

section \<open>Branch scopes\<close>


text \<open>A foreach over three items, of which the second may be launched.\<close>

definition ex_foreach_step :: StepSpec where
  "ex_foreach_step = StepSpec ''f'' StepTypeForeach [] [] None 0 None no_transition no_transition None None None None None
     (Some (ForeachSpec ''items'' [] [] 1 [example_step ''b'' StepTypeCall])) None None"

definition ex_scope_row :: "string \<Rightarrow> bool \<Rightarrow> WorkflowScopeRun" where
  "ex_scope_row scopeType waitAll = \<lparr>bm_ID = ''sc'', bm_CreatedAt = 0, bm_ModifiedAt = 0, bm_DeletedAt = None,
     sr_ParentExecutionID = ''#ex'', sr_ParentInstanceID = ''wf'', sr_ParentState = ''f'', sr_ScopeType = scopeType,
     sr_Status = ''running'', sr_WaitAll = waitAll, sr_TotalChildren = 3, sr_CompletedChildren = 0, sr_FailedChildren = 0,
     sr_NextChildIndex = 1, sr_MaxConcurrency = 1, sr_ItemVar = ''item'', sr_IndexVar = ''index'', sr_ItemsPayload = RawEmpty,
     sr_ResultsPayload = RawEmpty, sr_ClaimUntil = None, sr_ClaimOwner = []\<rparr>"

definition ex_branch :: "string \<Rightarrow> bool \<Rightarrow> branchScopeContext" where
  "ex_branch scopeType waitAll = \<lparr>bx_scope = ex_scope_row scopeType waitAll, bx_parentExec = ex_row, bx_parentInstance = ex_instance,
     bx_parentStep = ex_foreach_step, bx_children = []\<rparr>"

definition ex_items_env :: "(unit, string, string) svc_env" where
  "ex_items_env = ex_svc_env\<lparr>se_cel := example_cel\<lparr>cel_Eval := (\<lambda>_ _. Inr (VList [VInt 1, VInt 2, VInt 3]))\<rparr>\<rparr>"

definition ex_results :: scope_results where
  "ex_results = \<lparr>re_results = [VNil, VNil, VNil], re_completed = 1, re_failed = 0, re_running = 0, re_failure = None\<rparr>"

definition three_children :: "scopedChildDefinition list result \<Rightarrow> bool" where
  "three_children r = (case r of Inr [a, b, c] \<Rightarrow> (case sc_Input b of RawJson v \<Rightarrow> True | _ \<Rightarrow> False) | _ \<Rightarrow> False)"

lemma ex_three: "three_children (branchChildrenFromStep (se_cel ex_items_env) ex_foreach_step RawEmpty RawEmpty ''wf'' ''#ex'')"
  by code_simp

lemma ex_launch: "\<exists>s'. tryLaunchMoreForeachChildren ex_items_env 5 (ex_branch ''foreach'' True) ex_results (ex_svc ex_s0) = (Inr True, s')"
proof -
  obtain a b c v where defs: "branchChildrenFromStep (se_cel ex_items_env) ex_foreach_step RawEmpty RawEmpty ''wf'' ''#ex'' = Inr [a, b, c]"
      and v: "sc_Input b = RawJson v"
    using ex_three by (auto simp: three_children_def split: sum.splits list.splits raw_json.splits)
  have "scopedChildInstanceID x y i z \<noteq> []" for x y i z by (simp add: scopedChildInstanceID_def)
  with defs v show ?thesis
    by (simp add: tryLaunchMoreForeachChildren_def Let_def op_seq_def op_of_def buildForeachLaunchRecords_def buildScopedChildRecord_def
        labelled_def stmt_def guard_def op_map_err_def db_exec_def UpdateScope_def createScopedChildRecords_def insert_instance_def
        insert_execution_def insert_audit_def instance_row_def execution_row_def with_id_def jsonb_def create_def db_insert_def
        new_audit_def json_default_def empty_object_def json_marshal_def ex_branch_def ex_scope_row_def
        ex_results_def ex_items_env_def scope_request_def step_type_string_def op_ok_def ex_finished_simps)
qed


section \<open>Results of a scope\<close>

definition stopped :: "WorkflowInstance \<Rightarrow> bool" where
  "stopped c \<longleftrightarrow> wi_Status c = InstanceStatusFailed \<or> wi_Status c = InstanceStatusCancelled"

lemma collect_counts:
  "re_completed (fold (collect_child env st) cs r) = re_completed r + int (length (filter (\<lambda>c. wi_Status c = InstanceStatusCompleted) cs))"
  "re_failed (fold (collect_child env st) cs r) = re_failed r + int (length (filter stopped cs))"
  "length (re_results (fold (collect_child env st) cs r)) = length (re_results r)"
  by (induction cs arbitrary: r) (auto simp: stopped_def split: WorkflowInstanceStatus.splits option.splits)

text \<open>The output a completed child has stored under its index.\<close>

definition output_at :: "engine_env \<Rightarrow> EngineState \<Rightarrow> nat \<Rightarrow> WorkflowInstance \<Rightarrow> any option" where
  "output_at env st i c =
     (if wi_Status c = InstanceStatusCompleted \<and> nat (wi_ScopeIndex c) = i then child_output env st c else None)"

lemma collect_results:
  assumes "distinct (map (\<lambda>c. nat (wi_ScopeIndex c)) cs)" and "i < length (re_results r)"
  shows "re_results (fold (collect_child env st) cs r) ! i =
    (case find (\<lambda>c. output_at env st i c \<noteq> None) cs of Some c \<Rightarrow> the (output_at env st i c) | None \<Rightarrow> re_results r ! i)"
  using assms
proof (induction cs arbitrary: r)
  case (Cons c cs)
  let ?r = "collect_child env st c r"
  have len: "length (re_results ?r) = length (re_results r)" using collect_counts(3) [of env st "[c]" r] by simp
  have IH: "re_results (fold (collect_child env st) cs ?r) ! i =
     (case find (\<lambda>c. output_at env st i c \<noteq> None) cs of Some c \<Rightarrow> the (output_at env st i c) | None \<Rightarrow> re_results ?r ! i)"
    using Cons.IH [of ?r] Cons.prems len by (simp del: collect_child.simps)
  show ?case
  proof (cases "output_at env st i c")
    case (Some v)
    then have c: "wi_Status c = InstanceStatusCompleted" "nat (wi_ScopeIndex c) = i" "child_output env st c = Some v"
      by (auto simp: output_at_def split: if_splits)
    then have "\<forall>d \<in> set cs. nat (wi_ScopeIndex d) \<noteq> i" using Cons.prems(1) by (auto simp: image_iff)
    then have "find (\<lambda>c. output_at env st i c \<noteq> None) cs = None" by (auto simp: find_None_iff output_at_def)
    moreover have "re_results ?r ! i = v" using c Cons.prems(2) by auto
    ultimately show ?thesis using IH Some by (simp del: collect_child.simps)
  next
    case None
    then have "re_results ?r ! i = re_results r ! i"
      by (auto simp: output_at_def nth_list_update split: WorkflowInstanceStatus.splits option.splits if_splits)
    with IH None show ?thesis by (simp del: collect_child.simps split: option.splits)
  qed
qed simp

text \<open>Reconciliation sees a scope as it is: it counts as completed, failed and running exactly the children of those
  statuses (cancelled ones as failed, suspended ones as running), and the results hold, at the index of each completed child,
  the output it stored, and null everywhere else.\<close>
theorem collect_scope_results_correct:
  fixes env :: engine_env and st :: EngineState and n :: int
  assumes "distinct (map (\<lambda>c. nat (wi_ScopeIndex c)) children)"
  defines "r \<equiv> collectScopeResults env st children n"
  shows "re_completed r = int (length (filter (\<lambda>c. wi_Status c = InstanceStatusCompleted) children)) \<and>
    re_failed r = int (length (filter stopped children)) \<and>
    re_completed r + re_failed r + re_running r = int (length children) \<and>
    length (re_results r) = nat n \<and>
    (\<forall>c \<in> set children. \<forall>v. wi_Status c = InstanceStatusCompleted \<longrightarrow> nat (wi_ScopeIndex c) < nat n \<longrightarrow>
       child_output env st c = Some v \<longrightarrow> re_results r ! nat (wi_ScopeIndex c) = v) \<and>
    (\<forall>i < nat n. (\<forall>c \<in> set children. output_at env st i c = None) \<longrightarrow> re_results r ! i = VNil)"
proof -
  let ?r0 = "\<lparr>re_results = replicate (nat n) VNil, re_completed = 0, re_failed = 0, re_running = 0, re_failure = None\<rparr>"
  have r: "r = fold (collect_child env st) children ?r0" by (simp add: r_def collectScopeResults_def)
  have sum: "re_completed (fold (collect_child env st) cs q) + re_failed (fold (collect_child env st) cs q) +
      re_running (fold (collect_child env st) cs q) = re_completed q + re_failed q + re_running q + int (length cs)" for cs q
    by (induction cs arbitrary: q) (auto split: WorkflowInstanceStatus.splits)
  have at_child: "re_results r ! nat (wi_ScopeIndex c) = v"
    if "c \<in> set children" "wi_Status c = InstanceStatusCompleted" "nat (wi_ScopeIndex c) < nat n" "child_output env st c = Some v" for c v
  proof -
    let ?i = "nat (wi_ScopeIndex c)"
    note c = that
    have o: "output_at env st ?i c = Some v" using that by (simp add: output_at_def)
    then obtain d where d: "find (\<lambda>c. output_at env st ?i c \<noteq> None) children = Some d"
      using c(1) by (cases "find (\<lambda>c. output_at env st ?i c \<noteq> None) children") (auto simp: find_None_iff)
    then have "d \<in> set children" "output_at env st ?i d \<noteq> None" by (auto dest: find_SomeD)
    then have "nat (wi_ScopeIndex d) = ?i" "d \<in> set children" by (auto simp: output_at_def split: if_splits)
    with assms(1) c(1) have "d = c" by (auto simp: distinct_map inj_on_def)
    with d o show ?thesis using collect_results [OF assms(1), of ?i ?r0 env st] c(3) by (simp add: r)
  qed
  have elsewhere: "re_results r ! i = VNil" if "i < nat n" "\<forall>c \<in> set children. output_at env st i c = None" for i
  proof -
    have "find (\<lambda>c. output_at env st i c \<noteq> None) children = None" using that(2) by (auto simp: find_None_iff)
    then show ?thesis using collect_results [OF assms(1), of i ?r0 env st] that(1) by (simp add: r)
  qed
  show ?thesis
    using at_child elsewhere sum [of children ?r0] collect_counts [of env st children ?r0] by (simp add: r)
qed

definition ex_child :: "string \<Rightarrow> int \<Rightarrow> WorkflowInstanceStatus \<Rightarrow> WorkflowInstance" where
  "ex_child i index status = ex_instance\<lparr>bm_ID := i, wi_ScopeIndex := index, wi_Status := status\<rparr>"

theorem collect_scope_results_correct_witness:
  "re_completed (collectScopeResults ex_env ex_s0 [ex_child ''c1'' 0 InstanceStatusCompleted, ex_child ''c2'' 1 InstanceStatusCancelled] 2) = 1"
proof -
  have "distinct (map (\<lambda>c. nat (wi_ScopeIndex c)) [ex_child ''c1'' 0 InstanceStatusCompleted, ex_child ''c2'' 1 InstanceStatusCancelled])"
    by (simp add: ex_child_def)
  from collect_scope_results_correct [OF this, of ex_env ex_s0 2] show ?thesis by (simp add: ex_child_def)
qed

lemma first_result_Some:
  "first_result k vs = Some (i, v) \<longleftrightarrow>
     (\<exists>j < length vs. i = k + int j \<and> v = vs ! j \<and> v \<noteq> VNil \<and> list_all (\<lambda>x. x = VNil) (take j vs))"
  by (induction vs arbitrary: k) (auto simp: Ex_less_Suc2 add.assoc)

text \<open>A scope's parent is resumed exactly when its children decide it: with no failed child, a foreach or a parallel step
  that waits for all when every child has completed, with the results in the order of the children; a race when a child
  has completed and left a result other than null, with the first such result as the winner.\<close>
theorem scope_success_iff:
  "evaluateScopeSuccess scope results completedCount failedCount = Some out \<longleftrightarrow>
    failedCount \<le> 0 \<and>
    (sr_ScopeType scope = ''foreach'' \<and> completedCount = sr_TotalChildren scope \<and>
       out = json_marshal (VMap [(''items'', VList results)]) \<or>
     sr_ScopeType scope = ''parallel'' \<and> sr_WaitAll scope \<and> completedCount = sr_TotalChildren scope \<and>
       out = json_marshal (VMap [(''branches'', VList results)]) \<or>
     sr_ScopeType scope = ''parallel'' \<and> (\<not> sr_WaitAll scope) \<and> completedCount \<noteq> 0 \<and>
       (\<exists>i < length results. results ! i \<noteq> VNil \<and> list_all (\<lambda>v. v = VNil) (take i results) \<and>
          out = json_marshal (VMap [(''winner_index'', VInt (int i)), (''winner'', results ! i), (''branches'', VList results)])))"
proof -
  have race: "(case first_result 0 results of None \<Rightarrow> None | Some (index, result) \<Rightarrow> Some (F index result)) = Some out \<longleftrightarrow>
      (\<exists>i < length results. results ! i \<noteq> VNil \<and> list_all (\<lambda>v. v = VNil) (take i results) \<and> out = F (int i) (results ! i))"
    for F :: "int \<Rightarrow> any \<Rightarrow> raw_json"
  proof -
    have "(case first_result 0 results of None \<Rightarrow> None | Some (index, result) \<Rightarrow> Some (F index result)) = Some out \<longleftrightarrow>
        (\<exists>index result. first_result 0 results = Some (index, result) \<and> out = F index result)"
      by (auto split: option.splits)
    then show ?thesis by (auto simp: first_result_Some)
  qed
  have types: "step_type_string StepTypeParallel = ''parallel''" "step_type_string StepTypeForeach = ''foreach''"
    by (simp_all add: step_type_string_def)
  show ?thesis
    unfolding evaluateScopeSuccess_def types
    by (cases "failedCount > 0"; cases "sr_ScopeType scope = ''parallel''"; cases "sr_WaitAll scope"; cases "completedCount = 0")
      (simp_all add: race, auto)
qed

text \<open>A race whose children all complete without a result never ends: when every result is null, the reconciliation of a
  parallel step that does not wait for all leaves the scope running and its parent execution waiting, however many children
  have completed.\<close>
theorem race_without_result_never_resumes:
  assumes "sr_ScopeType (bx_scope bx) = ''parallel''" and "\<not> sr_WaitAll (bx_scope bx)" and "re_failed r \<le> 0"
    and "list_all (\<lambda>v. v = VNil) (re_results r)" and "finalizeBranchScope env now bx r s = (Inr (), s')"
  shows "es_execs (sv_db s') = es_execs (sv_db s) \<and> es_instances (sv_db s') = es_instances (sv_db s) \<and>
    map_option sr_Status (db_get (es_scopes (sv_db s')) (bm_ID (bx_scope bx))) =
      map_option (\<lambda>_. ''running'') (db_get (es_scopes (sv_db s)) (bm_ID (bx_scope bx)))"
proof -
  let ?rs = "map json_norm (re_results r)"
  have "list_all (\<lambda>v. v = VNil) vs \<Longrightarrow> first_result k (map json_norm vs) = None" for k vs
    by (induction vs arbitrary: k) auto
  then have "evaluateScopeSuccess (bx_scope bx) ?rs (re_completed r) (re_failed r) = None"
    using assms(1,2,4) by (simp add: evaluateScopeSuccess_def step_type_string_def)
  then have upd: "db_exec (UpdateScope (se_db env) now (scope_request bx ''running'' r (sr_NextChildIndex (bx_scope bx)) [] False [])) s = (Inr (), s')"
    using assms(3,5) by (simp add: finalizeBranchScope_def Let_def)
  let ?rq = "scope_request bx ''running'' r (sr_NextChildIndex (bx_scope bx)) [] False []"
  have keeps: "keeps_key (scope_updates now ?rq)" by (simp add: keeps_key_def scope_updates_def Let_def)
  have "sv_db s' = (sv_db s)\<lparr>es_scopes := db_update (\<lambda>x. bm_ID x = bm_ID (bx_scope bx)) (scope_updates now ?rq) (es_scopes (sv_db s))\<rparr>"
    using upd by (auto simp: db_exec_def UpdateScope_def res_simps scope_request_def split: sum.splits)
  then show ?thesis
    using db_get_update_id [OF keeps] by (auto simp: option.map_comp scope_updates_def Let_def scope_request_def o_def)
qed

theorem race_without_result_never_resumes_witness:
  "\<exists>s'. finalizeBranchScope ex_svc_env 5 (ex_branch ''parallel'' False) (ex_results\<lparr>re_completed := 3\<rparr>)
      (ex_svc (ex_s0\<lparr>es_scopes := [ex_scope_row ''parallel'' False]\<rparr>)) = (Inr (), s') \<and>
     map_option sr_Status (db_get (es_scopes (sv_db s')) ''sc'') = Some ''running''"
proof -
  let ?s = "ex_svc (ex_s0\<lparr>es_scopes := [ex_scope_row ''parallel'' False]\<rparr>)" and ?b = "ex_branch ''parallel'' False" and ?r = "ex_results\<lparr>re_completed := 3\<rparr>"
  have "fst (finalizeBranchScope ex_svc_env 5 ?b ?r ?s) = Inr ()"
    by (simp add: finalizeBranchScope_def Let_def evaluateScopeSuccess_def step_type_string_def db_exec_def UpdateScope_def
        scope_request_def json_marshal_def jsonb_def stmt_def guard_def ex_branch_def ex_scope_row_def ex_results_def ex_finished_simps)
  then obtain s' where ok: "finalizeBranchScope ex_svc_env 5 ?b ?r ?s = (Inr (), s')" by (metis prod.collapse)
  have "sr_ScopeType (bx_scope ?b) = ''parallel''" "\<not> sr_WaitAll (bx_scope ?b)" "re_failed ?r \<le> 0" "list_all (\<lambda>v. v = VNil) (re_results ?r)"
    by (simp_all add: ex_branch_def ex_scope_row_def ex_results_def)
  from race_without_result_never_resumes [OF this ok] ok show ?thesis
    by (auto simp: ex_branch_def ex_scope_row_def ex_svc_def db_get_def live_def)
qed

end
