(* ===== verification/Platform_Repository.thy ===== *)
theory Platform_Repository
  imports Platform_Models Lease_Repository Go_Time Go_Sha256
begin

text \<open>
  The repositories of the tables around the engine: \<open>repository/routing.go\<close>, \<open>trigger_binding.go\<close>,
  \<open>signal_route.go\<close>, \<open>schedule.go\<close>, \<open>event_log.go\<close>, \<open>schema_registry.go\<close> and the parts of
  \<open>audit_event.go\<close> and \<open>pagination.go\<close> the services call. Conditions on the tenant and the
  partition hold of every row of the model.
\<close>

section \<open>Deterministic routing rows (routing.go)\<close>

record WorkflowRoutingTarget =
  tg_WorkflowName :: string
  tg_WorkflowVersion :: int
  tg_TenantID :: string
  tg_PartitionID :: string

definition routingRowIDHexLen :: nat where "routingRowIDHexLen = 40"

definition routing_key :: "string \<Rightarrow> WorkflowRoutingTarget \<Rightarrow> nat \<Rightarrow> string" where
  "routing_key kind target index =
     ''kind='' @ kind @ ''|tenant='' @ tg_TenantID target @ ''|partition='' @ tg_PartitionID target @
     ''|workflow='' @ tg_WorkflowName target @ ''|version='' @ itoa (tg_WorkflowVersion target) @
     ''|index='' @ itoa (int index)"

definition routingRowID :: "string \<Rightarrow> string \<Rightarrow> WorkflowRoutingTarget \<Rightarrow> nat \<Rightarrow> string" where
  "routingRowID prefix kind target index =
     prefix @ take routingRowIDHexLen (EncodeToString (Sum256 (routing_key kind target index)))"

definition stampDeterministicRow :: "string \<Rightarrow> int \<Rightarrow> 'a base_model_scheme \<Rightarrow> 'a base_model_scheme" where
  "stampDeterministicRow i now row = row\<lparr>bm_ID := i, bm_CreatedAt := now, bm_ModifiedAt := now\<rparr>"

section \<open>Upserts\<close>

text \<open>
  \<open>INSERT ... ON CONFLICT (id) DO UPDATE\<close> of several rows in one statement: a row whose id is in
  the table, deleted or not, is merged into it; the statement is refused when it would write one
  row twice.
\<close>

definition upsert_row ::
    "('a base_model_scheme \<Rightarrow> 'a base_model_scheme \<Rightarrow> 'a base_model_scheme) \<Rightarrow> 'a base_model_scheme
      \<Rightarrow> 'a base_model_scheme list \<Rightarrow> 'a base_model_scheme list" where
  "upsert_row merge row tbl =
     (if bm_ID row \<in> bm_ID ` set tbl then map (\<lambda>r. if bm_ID r = bm_ID row then merge row r else r) tbl
      else tbl @ [row])"

definition upsert ::
    "faults \<Rightarrow> string \<Rightarrow> ('a base_model_scheme \<Rightarrow> 'a base_model_scheme \<Rightarrow> 'a base_model_scheme)
      \<Rightarrow> 'a base_model_scheme list \<Rightarrow> 'a base_model_scheme list \<Rightarrow> 'a base_model_scheme list result" where
  "upsert F label merge rows tbl =
     (if rows = [] then Inr tbl
      else and_then (stmt F label) (\<lambda>_.
        if distinct (map bm_ID rows) then Inr (fold (upsert_row merge) rows tbl)
        else Inl (wrap label (Errf ''ON CONFLICT DO UPDATE command cannot affect row a second time'' []))))"

section \<open>Trigger bindings (trigger_binding.go)\<close>

definition find_limit :: "int \<Rightarrow> nat" where
  "find_limit limit = batch_limit defaultFindByEventTypeLimit limit"

definition FindByEventType :: "engine_env \<Rightarrow> string \<Rightarrow> int \<Rightarrow> Platform \<Rightarrow> TriggerBinding list result" where
  "FindByEventType env eventType limit pf =
     and_then (stmt (ee_F env) ''find trigger bindings'') (\<lambda>_.
       Inr (take (find_limit limit)
         (sort_key bm_ID (db_select (\<lambda>b. tb_EventType b = eventType \<and> tb_Active b) (pf_bindings pf)))))"

definition binding_off :: "int \<Rightarrow> TriggerBinding \<Rightarrow> TriggerBinding" where
  "binding_off now b = b\<lparr>tb_Active := False, bm_ModifiedAt := now\<rparr>"

definition stamp_binding :: "WorkflowRoutingTarget \<Rightarrow> int \<Rightarrow> nat \<Rightarrow> TriggerBinding \<Rightarrow> TriggerBinding" where
  "stamp_binding target now index b =
     (stampDeterministicRow (routingRowID ''tb_'' ''trigger'' target index) now b)
       \<lparr>tb_WorkflowName := tg_WorkflowName target, tb_WorkflowVersion := tg_WorkflowVersion target,
        tb_Active := True, tb_InputMapping := json_default (VMap []) (tb_InputMapping b)\<rparr>"

text \<open>The columns the upsert assigns in a row that is there.\<close>

definition merge_binding :: "TriggerBinding \<Rightarrow> TriggerBinding \<Rightarrow> TriggerBinding" where
  "merge_binding new old =
     old\<lparr>tb_EventType := tb_EventType new, tb_EventFilter := tb_EventFilter new, tb_KeyExpr := tb_KeyExpr new,
         tb_InputMapping := tb_InputMapping new, tb_Active := tb_Active new, bm_ModifiedAt := bm_ModifiedAt new,
         bm_DeletedAt := bm_DeletedAt new\<rparr>"

definition index_rows :: "(nat \<Rightarrow> 'r \<Rightarrow> 'r) \<Rightarrow> 'r list \<Rightarrow> 'r list" where
  "index_rows stamp rows = map (\<lambda>(i, r). stamp i r) (enumerate 0 rows)"

definition binding_of :: "WorkflowRoutingTarget \<Rightarrow> TriggerBinding \<Rightarrow> bool" where
  "binding_of target b \<longleftrightarrow> tb_WorkflowName b = tg_WorkflowName target \<and> tb_WorkflowVersion b = tg_WorkflowVersion target"

definition replace_label :: "string \<Rightarrow> WorkflowRoutingTarget \<Rightarrow> errmsg \<Rightarrow> errmsg" where
  "replace_label what target err =
     Errf (''replace '' @ what @ '' for %s v%d: %w'') [EStr (tg_WorkflowName target), EInt (tg_WorkflowVersion target), EErr err]"

definition relabel :: "(errmsg \<Rightarrow> errmsg) \<Rightarrow> 'a result \<Rightarrow> 'a result" where
  "relabel g r = (case r of Inl err \<Rightarrow> Inl (g err) | Inr x \<Rightarrow> Inr x)"

lemma relabel_iff [res_simps, simp]: "relabel g r = Inr x \<longleftrightarrow> r = Inr x"
  by (auto simp: relabel_def split: sum.splits)

definition ReplaceForWorkflow ::
    "engine_env \<Rightarrow> int \<Rightarrow> WorkflowRoutingTarget \<Rightarrow> TriggerBinding list \<Rightarrow> Platform \<Rightarrow> Platform result" where
  "ReplaceForWorkflow env now target bindings pf =
     (let rows = index_rows (stamp_binding target now) bindings;
          ids = map bm_ID rows
      in relabel (replace_label ''trigger bindings'' target)
        (and_then (update_where (ee_F env) ''deactivate other versions''
           (\<lambda>b. tb_WorkflowName b = tg_WorkflowName target \<and> tb_WorkflowVersion b \<noteq> tg_WorkflowVersion target \<and> tb_Active b)
           (binding_off now) (pf_bindings pf)) (\<lambda>t1.
         and_then (jsonb ''upsert bindings'' (map tb_InputMapping rows)) (\<lambda>_.
         and_then (upsert (ee_F env) ''upsert bindings'' merge_binding rows t1) (\<lambda>t2.
         and_then (update_where (ee_F env) ''deactivate stale bindings''
           (\<lambda>b. binding_of target b \<and> tb_Active b \<and> bm_ID b \<notin> set ids) (binding_off now) t2) (\<lambda>t3.
           Inr (pf\<lparr>pf_bindings := t3\<rparr>)))))))"

definition DeactivateByWorkflowVersion ::
    "engine_env \<Rightarrow> int \<Rightarrow> WorkflowRoutingTarget \<Rightarrow> Platform \<Rightarrow> Platform result" where
  "DeactivateByWorkflowVersion env now target pf =
     and_then (update_where (ee_F env) ''deactivate trigger bindings''
       (\<lambda>b. binding_of target b \<and> tb_Active b) (binding_off now) (pf_bindings pf)) (\<lambda>t. Inr (pf\<lparr>pf_bindings := t\<rparr>))"

definition Binding_ListByWorkflow :: "engine_env \<Rightarrow> string \<Rightarrow> Platform \<Rightarrow> TriggerBinding list result" where
  "Binding_ListByWorkflow env workflowName pf =
     and_then (stmt (ee_F env) ''list trigger bindings'') (\<lambda>_.
       Inr (sort_key (\<lambda>b. (tb_WorkflowVersion b, bm_ID b))
         (db_select (\<lambda>b. tb_WorkflowName b = workflowName) (pf_bindings pf))))"

section \<open>Signal routes (signal_route.go)\<close>

definition route_off :: "int \<Rightarrow> SignalRoute \<Rightarrow> SignalRoute" where
  "route_off now r = r\<lparr>rt_Active := False, bm_ModifiedAt := now\<rparr>"

definition stamp_route :: "WorkflowRoutingTarget \<Rightarrow> int \<Rightarrow> nat \<Rightarrow> SignalRoute \<Rightarrow> SignalRoute" where
  "stamp_route target now index r =
     (stampDeterministicRow (routingRowID ''sr_'' ''signal'' target index) now r)
       \<lparr>rt_WorkflowName := tg_WorkflowName target, rt_WorkflowVersion := tg_WorkflowVersion target, rt_Active := True\<rparr>"

definition merge_route :: "SignalRoute \<Rightarrow> SignalRoute \<Rightarrow> SignalRoute" where
  "merge_route new old =
     old\<lparr>rt_EventType := rt_EventType new, rt_SignalName := rt_SignalName new, rt_Filter := rt_Filter new,
         rt_KeyExpr := rt_KeyExpr new, rt_InstanceExpr := rt_InstanceExpr new, rt_Active := rt_Active new,
         bm_ModifiedAt := bm_ModifiedAt new, bm_DeletedAt := bm_DeletedAt new\<rparr>"

definition route_of :: "WorkflowRoutingTarget \<Rightarrow> SignalRoute \<Rightarrow> bool" where
  "route_of target r \<longleftrightarrow> rt_WorkflowName r = tg_WorkflowName target \<and> rt_WorkflowVersion r = tg_WorkflowVersion target"

definition ReplaceForWorkflowVersion ::
    "engine_env \<Rightarrow> int \<Rightarrow> WorkflowRoutingTarget \<Rightarrow> SignalRoute list \<Rightarrow> Platform \<Rightarrow> Platform result" where
  "ReplaceForWorkflowVersion env now target routes pf =
     (let rows = index_rows (stamp_route target now) routes;
          ids = map bm_ID rows
      in relabel (replace_label ''signal routes'' target)
        (and_then (upsert (ee_F env) ''upsert signal routes'' merge_route rows (pf_routes pf)) (\<lambda>t1.
         and_then (update_where (ee_F env) ''deactivate stale signal routes''
           (\<lambda>r. route_of target r \<and> rt_Active r \<and> bm_ID r \<notin> set ids) (route_off now) t1) (\<lambda>t2.
           Inr (pf\<lparr>pf_routes := t2\<rparr>)))))"

definition FindActiveByEventType :: "engine_env \<Rightarrow> string \<Rightarrow> int \<Rightarrow> Platform \<Rightarrow> SignalRoute list result" where
  "FindActiveByEventType env eventType limit pf =
     and_then (stmt (ee_F env) ''find signal routes'') (\<lambda>_.
       Inr (take (find_limit limit)
         (sort_key bm_ID (db_select (\<lambda>r. rt_EventType r = eventType \<and> rt_Active r) (pf_routes pf)))))"

section \<open>Schedules (schedule.go)\<close>

definition schedule_row :: "engine_env \<Rightarrow> string \<Rightarrow> int \<Rightarrow> ScheduleDefinition \<Rightarrow> ScheduleDefinition" where
  "schedule_row env role now s =
     (with_id (ee_id env role) now s)\<lparr>sd_Timezone := (if sd_Timezone s = [] then ''UTC'' else sd_Timezone s),
        sd_InputPayload := json_default (VMap []) (sd_InputPayload s)\<rparr>"

fun insert_schedules ::
    "engine_env \<Rightarrow> int \<Rightarrow> nat \<Rightarrow> ScheduleDefinition list \<Rightarrow> ScheduleDefinition list \<Rightarrow> ScheduleDefinition list result" where
  "insert_schedules env now k [] tbl = Inr tbl"
| "insert_schedules env now k (s # rest) tbl =
     (let row = schedule_row env (''schedule '' @ itoa (int k)) now s in
      and_then (jsonb ''create schedule batch'' [sd_InputPayload row]) (\<lambda>_.
      and_then (create (ee_F env) ''create schedule batch'' schedule_conflict row tbl) (\<lambda>tbl'.
      insert_schedules env now (Suc k) rest tbl')))"

definition CreateBatch :: "engine_env \<Rightarrow> int \<Rightarrow> ScheduleDefinition list \<Rightarrow> Platform \<Rightarrow> Platform result" where
  "CreateBatch env now scheds pf =
     (if scheds = [] then Inr pf
      else and_then (insert_schedules env now 0 scheds (pf_schedules pf)) (\<lambda>t. Inr (pf\<lparr>pf_schedules := t\<rparr>)))"

definition Schedule_GetByID :: "engine_env \<Rightarrow> string \<Rightarrow> Platform \<Rightarrow> ScheduleDefinition result" where
  "Schedule_GetByID env i pf = repo_get (ee_F env) ''get schedule'' (pf_schedules pf) i"

definition schedule_of :: "string \<Rightarrow> int \<Rightarrow> ScheduleDefinition \<Rightarrow> bool" where
  "schedule_of workflowName workflowVersion s \<longleftrightarrow> sd_WorkflowName s = workflowName \<and> sd_WorkflowVersion s = workflowVersion"

definition listByWorkflow :: "engine_env \<Rightarrow> string \<Rightarrow> int \<Rightarrow> Platform \<Rightarrow> ScheduleDefinition list result" where
  "listByWorkflow env workflowName workflowVersion pf =
     and_then (stmt (ee_F env) ''list schedules by workflow'') (\<lambda>_.
       Inr (sort_key sd_Name (db_select (schedule_of workflowName workflowVersion) (pf_schedules pf))))"

record ScheduleActivation =
  sa_ID :: string
  sa_NextFireAt :: int
  sa_JitterSeconds :: int

definition schedule_off :: "int \<Rightarrow> ScheduleDefinition \<Rightarrow> ScheduleDefinition" where
  "schedule_off now s = s\<lparr>sd_Active := False, sd_NextFireAt := None, bm_ModifiedAt := now\<rparr>"

definition schedule_on :: "int \<Rightarrow> ScheduleActivation \<Rightarrow> ScheduleDefinition \<Rightarrow> ScheduleDefinition" where
  "schedule_on now f s =
     s\<lparr>sd_Active := True, sd_NextFireAt := Some (sa_NextFireAt f), sd_JitterSeconds := sa_JitterSeconds f, bm_ModifiedAt := now\<rparr>"

text \<open>
  An \<open>UPDATE ... FROM (VALUES ...)\<close>: each row with the id of a tuple takes the tuple's columns. The
  callers pass each id once.
\<close>

definition activate_row :: "int \<Rightarrow> ScheduleActivation list \<Rightarrow> ScheduleDefinition \<Rightarrow> ScheduleDefinition" where
  "activate_row now fires s = (case List.find (\<lambda>f. sa_ID f = bm_ID s) fires of None \<Rightarrow> s | Some f \<Rightarrow> schedule_on now f s)"

definition ActivateByWorkflow ::
    "engine_env \<Rightarrow> int \<Rightarrow> string \<Rightarrow> int \<Rightarrow> ScheduleActivation list \<Rightarrow> Platform \<Rightarrow> Platform result" where
  "ActivateByWorkflow env now workflowName workflowVersion fires pf =
     and_then (update_where (ee_F env) ''deactivate sibling versions''
       (\<lambda>s. sd_WorkflowName s = workflowName \<and> sd_WorkflowVersion s \<noteq> workflowVersion) (schedule_off now)
       (pf_schedules pf)) (\<lambda>t1.
     if fires = [] then Inr (pf\<lparr>pf_schedules := t1\<rparr>)
     else if ee_F env ''activate schedules'' then Inl (db_error ''activate schedules'')
     else Inr (pf\<lparr>pf_schedules := db_update (\<lambda>s. bm_ID s \<in> sa_ID ` set fires) (activate_row now fires) t1\<rparr>))"

definition DeactivateByWorkflow :: "engine_env \<Rightarrow> int \<Rightarrow> string \<Rightarrow> Platform \<Rightarrow> Platform result" where
  "DeactivateByWorkflow env now workflowName pf =
     (if ee_F env ''deactivate schedules'' then Inl (db_error ''deactivate schedules'')
      else Inr (pf\<lparr>pf_schedules := db_update (\<lambda>s. sd_WorkflowName s = workflowName) (schedule_off now) (pf_schedules pf)\<rparr>))"

subsection \<open>Firing\<close>

text \<open>What the planner gives for a schedule: an event or none, the next fire time or none, the jitter.\<close>

type_synonym schedule_plan = "EventLog option \<times> int option \<times> int"

definition schedule_due :: "int \<Rightarrow> ScheduleDefinition \<Rightarrow> bool" where
  "schedule_due now s \<longleftrightarrow> sd_Active s \<and> at_or_before (sd_NextFireAt s) now"

text \<open>A row whose plan fails is left out; the others are planned.\<close>

fun plan_rows ::
    "(ScheduleDefinition \<Rightarrow> schedule_plan result) \<Rightarrow> ScheduleDefinition list \<Rightarrow> (ScheduleDefinition \<times> schedule_plan) list" where
  "plan_rows plan [] = []"
| "plan_rows plan (s # rest) =
     (case plan s of Inl _ \<Rightarrow> plan_rows plan rest | Inr p \<Rightarrow> (s, p) # plan_rows plan rest)"

definition planned_events :: "(ScheduleDefinition \<times> schedule_plan) list \<Rightarrow> EventLog list" where
  "planned_events rows = concat (map (\<lambda>(s, ev, _). (case ev of None \<Rightarrow> [] | Some e \<Rightarrow> [e])) rows)"

fun insert_events :: "engine_env \<Rightarrow> int \<Rightarrow> nat \<Rightarrow> EventLog list \<Rightarrow> EventLog list \<Rightarrow> EventLog list result" where
  "insert_events env now k [] tbl = Inr tbl"
| "insert_events env now k (e # rest) tbl =
     and_then (insert_event env ''batch insert event_log'' (''fired event '' @ itoa (int k)) now e tbl) (\<lambda>tbl'.
       insert_events env now (Suc k) rest tbl')"

definition fire_row :: "int \<Rightarrow> (ScheduleDefinition \<times> schedule_plan) list \<Rightarrow> ScheduleDefinition \<Rightarrow> ScheduleDefinition" where
  "fire_row now rows s = (case List.find (\<lambda>(r, _). bm_ID r = bm_ID s) rows of
     None \<Rightarrow> s
   | Some (_, _, nextFire, jitter) \<Rightarrow>
       s\<lparr>sd_LastFiredAt := Some now, sd_NextFireAt := nextFire, sd_JitterSeconds := jitter, bm_ModifiedAt := now\<rparr>)"

text \<open>The rows of a sweep are those of one tenant, so the count per tenant is the count.\<close>

definition ClaimAndFireBatch ::
    "engine_env \<Rightarrow> int \<Rightarrow> (ScheduleDefinition \<Rightarrow> schedule_plan result) \<Rightarrow> int \<Rightarrow> int \<Rightarrow> Platform \<Rightarrow> (nat \<times> Platform) result" where
  "ClaimAndFireBatch env clock plan now limit pf =
     and_then (stmt (ee_F env) ''claim due batch'') (\<lambda>_.
     let batch = sql_limit limit (sort_key (\<lambda>s. the (sd_NextFireAt s)) (db_select (schedule_due now) (pf_schedules pf)));
         rows = plan_rows plan batch
     in if rows = [] then Inr (0, pf)
        else and_then (insert_events env clock 0 (planned_events rows) (pf_events pf)) (\<lambda>t.
          and_then (stmt (ee_F env) ''batch update schedules'') (\<lambda>_.
          Inr (length rows, pf\<lparr>pf_events := t, pf_schedules := map (fire_row now rows) (pf_schedules pf)\<rparr>))))"

definition BacklogSeconds :: "engine_env \<Rightarrow> int \<Rightarrow> Platform \<Rightarrow> rat result" where
  "BacklogSeconds env now pf =
     and_then (stmt (ee_F env) ''scheduler backlog query'') (\<lambda>_.
       case first_by (\<lambda>s. the (sd_NextFireAt s)) (db_select (schedule_due now) (pf_schedules pf)) of
         None \<Rightarrow> Inr 0
       | Some s \<Rightarrow> (let lag = of_int (now - the (sd_NextFireAt s)) / of_int second in Inr (if lag < 0 then 0 else lag)))"

end
