(* ===== verification/Event_Repository.thy ===== *)
theory Event_Repository
  imports Platform_Repository
begin

text \<open>
  \<open>repository/event_log.go\<close>, the outbox table whose rows are leased to a publisher; the schema store
  \<open>schema_registry.go\<close>; the retention and listing of \<open>audit_event.go\<close>; \<open>normalizeListLimit\<close> of
  \<open>pagination.go\<close>.
\<close>

section \<open>The event log (event_log.go)\<close>

definition outboxLeaseTTL :: int where "outboxLeaseTTL = 30 * second"

definition Event_Create :: "engine_env \<Rightarrow> string \<Rightarrow> int \<Rightarrow> EventLog \<Rightarrow> Platform \<Rightarrow> (EventLog \<times> Platform) result" where
  "Event_Create env role now e pf =
     and_then (insert_event env ''create event'' role now e (pf_events pf)) (\<lambda>t.
       Inr (with_id (ee_id env role) now e, pf\<lparr>pf_events := t\<rparr>))"

definition FindByIdempotencyKey :: "engine_env \<Rightarrow> string \<Rightarrow> Platform \<Rightarrow> EventLog result" where
  "FindByIdempotencyKey env key pf =
     and_then (stmt (ee_F env) ''find by idempotency key'') (\<lambda>_.
       case first_by bm_ID (db_select (\<lambda>e. ev_IdempotencyKey e = key) (pf_events pf)) of
         None \<Rightarrow> Inl (wrap ''find by idempotency key'' ErrRecordNotFound)
       | Some e \<Rightarrow> Inr e)"

definition FindUnpublished :: "engine_env \<Rightarrow> int \<Rightarrow> Platform \<Rightarrow> EventLog list result" where
  "FindUnpublished env limit pf =
     and_then (stmt (ee_F env) ''find unpublished'') (\<lambda>_.
       Inr (take (batch_limit 50 limit) (sort_key bm_CreatedAt (db_select (\<lambda>e. \<not> ev_Published e) (pf_events pf)))))"

definition event_published :: "int \<Rightarrow> EventLog \<Rightarrow> EventLog" where
  "event_published now e = e\<lparr>ev_Published := True, ev_PublishedAt := Some now\<rparr>"

definition MarkPublished :: "engine_env \<Rightarrow> int \<Rightarrow> string \<Rightarrow> Platform \<Rightarrow> Platform result" where
  "MarkPublished env now i pf =
     and_then (update_where (ee_F env) ''mark published'' (\<lambda>e. bm_ID e = i) (event_published now) (pf_events pf)) (\<lambda>t.
       Inr (pf\<lparr>pf_events := t\<rparr>))"

definition MarkPublishedIfUnpublished :: "engine_env \<Rightarrow> int \<Rightarrow> string \<Rightarrow> Platform \<Rightarrow> Platform result" where
  "MarkPublishedIfUnpublished env now i pf =
     and_then (update_some (ee_F env) ''mark published if unpublished'' ErrStaleMutation
       (\<lambda>e. bm_ID e = i \<and> \<not> ev_Published e) (event_published now) (pf_events pf)) (\<lambda>t. Inr (pf\<lparr>pf_events := t\<rparr>))"

definition event_free :: "int \<Rightarrow> EventLog \<Rightarrow> bool" where
  "event_free now e \<longleftrightarrow> \<not> ev_Published e \<and> lapsed now (ev_PublishClaimUntil e)"

definition event_leased :: "string \<Rightarrow> int \<Rightarrow> EventLog \<Rightarrow> EventLog" where
  "event_leased owner leaseUntil e =
     e\<lparr>ev_PublishClaimOwner := owner, ev_PublishClaimUntil := Some leaseUntil, ev_PublishAttempts := ev_PublishAttempts e + 1\<rparr>"

text \<open>The rows were just read under lock, so the update always affects some row.\<close>

definition ClaimUnpublished ::
    "engine_env \<Rightarrow> int \<Rightarrow> int \<Rightarrow> string \<Rightarrow> int \<Rightarrow> Platform \<Rightarrow> (EventLog list \<times> Platform) result" where
  "ClaimUnpublished env now limit owner leaseUntil pf =
     and_then (claim_rows (ee_F env) ''claim unpublished'' (event_free now) bm_CreatedAt (if limit \<le> 0 then 50 else limit)
       (event_leased owner leaseUntil) (pf_events pf)) (\<lambda>(rows, t). Inr (rows, pf\<lparr>pf_events := t\<rparr>))"

definition event_owned :: "string \<Rightarrow> string \<Rightarrow> EventLog \<Rightarrow> bool" where
  "event_owned i owner e \<longleftrightarrow> bm_ID e = i \<and> ev_PublishClaimOwner e = owner"

definition event_unclaimed :: "EventLog \<Rightarrow> EventLog" where
  "event_unclaimed e = e\<lparr>ev_PublishClaimOwner := [], ev_PublishClaimUntil := None\<rparr>"

definition MarkPublishedByOwner :: "engine_env \<Rightarrow> string \<Rightarrow> string \<Rightarrow> int \<Rightarrow> Platform \<Rightarrow> Platform result" where
  "MarkPublishedByOwner env i owner publishedAt pf =
     and_then (update_some (ee_F env) ''mark published by owner''
       (Errf ''mark published by owner: no rows updated'' []) (event_owned i owner)
       (\<lambda>e. event_unclaimed (event_published publishedAt e)) (pf_events pf)) (\<lambda>t. Inr (pf\<lparr>pf_events := t\<rparr>))"

definition Event_ReleaseClaim :: "engine_env \<Rightarrow> string \<Rightarrow> string \<Rightarrow> Platform \<Rightarrow> Platform result" where
  "Event_ReleaseClaim env i owner pf =
     and_then (update_some (ee_F env) ''release event claim'' (Errf ''release event claim: no rows updated'' [])
       (\<lambda>e. event_owned i owner e \<and> \<not> ev_Published e) event_unclaimed (pf_events pf)) (\<lambda>t. Inr (pf\<lparr>pf_events := t\<rparr>))"

text \<open>A call whose error is dropped.\<close>

definition or_keep :: "'s result \<Rightarrow> 's \<Rightarrow> 's" where
  "or_keep r s = (case r of Inl _ \<Rightarrow> s | Inr s' \<Rightarrow> s')"

fun process_claimed ::
    "engine_env \<Rightarrow> string \<Rightarrow> int \<Rightarrow> (EventLog \<Rightarrow> unit result) \<Rightarrow> EventLog list \<Rightarrow> nat \<times> Platform \<Rightarrow> nat \<times> Platform" where
  "process_claimed env owner now fn [] (n, pf) = (n, pf)"
| "process_claimed env owner now fn (e # rest) (n, pf) =
     (case and_then (fn e) (\<lambda>_. MarkPublishedByOwner env (bm_ID e) owner now pf) of
        Inl _ \<Rightarrow> process_claimed env owner now fn rest (n, or_keep (Event_ReleaseClaim env (bm_ID e) owner pf) pf)
      | Inr pf' \<Rightarrow> process_claimed env owner now fn rest (n + 1, pf'))"

definition FindAndProcessUnpublished ::
    "engine_env \<Rightarrow> int \<Rightarrow> int \<Rightarrow> (EventLog \<Rightarrow> unit result) \<Rightarrow> Platform \<Rightarrow> (nat \<times> Platform) result" where
  "FindAndProcessUnpublished env now limit fn pf =
     and_then (labelled ''claim unpublished for processing''
       (ClaimUnpublished env now limit ''compat-processor'' (now + outboxLeaseTTL) pf)) (\<lambda>(claimed, pf').
       Inr (process_claimed env ''compat-processor'' now fn claimed (0, pf')))"

definition DeletePublishedBefore :: "engine_env \<Rightarrow> int \<Rightarrow> int \<Rightarrow> int \<Rightarrow> Platform \<Rightarrow> (int \<times> Platform) result" where
  "DeletePublishedBefore env now cutoff limit pf =
     and_then (delete_batch (ee_F env) ''select published events for delete'' ''delete published events''
       (\<lambda>e. ev_Published e \<and> before cutoff (ev_PublishedAt e)) now limit (pf_events pf)) (\<lambda>(n, t).
       Inr (n, pf\<lparr>pf_events := t\<rparr>))"

section \<open>Step schemas (schema_registry.go)\<close>

text \<open>An insert that collides with a stored schema of the step is taken for a stored one.\<close>

definition Schema_Store :: "engine_env \<Rightarrow> string \<Rightarrow> int \<Rightarrow> WorkflowStateSchema \<Rightarrow> Platform \<Rightarrow> Platform result" where
  "Schema_Store env role now schema pf =
     and_then (stmt (ee_F env) ''store schema'') (\<lambda>_.
     and_then (jsonb ''store schema'' [ws_SchemaBlob schema]) (\<lambda>_.
       case db_insert schema_conflict (with_id (ee_id env role) now schema) (pf_schemas pf) of
         None \<Rightarrow> Inr pf
       | Some t \<Rightarrow> Inr (pf\<lparr>pf_schemas := t\<rparr>)))"

definition schema_for :: "string \<Rightarrow> int \<Rightarrow> string \<Rightarrow> SchemaType \<Rightarrow> WorkflowStateSchema \<Rightarrow> bool" where
  "schema_for workflowName version state kind s \<longleftrightarrow> ws_WorkflowName s = workflowName \<and> ws_WorkflowVersion s = version \<and>
     ws_State s = state \<and> ws_SchemaType s = kind"

definition Schema_Lookup ::
    "engine_env \<Rightarrow> string \<Rightarrow> int \<Rightarrow> string \<Rightarrow> SchemaType \<Rightarrow> Platform \<Rightarrow> WorkflowStateSchema result" where
  "Schema_Lookup env workflowName version state kind pf =
     and_then (stmt (ee_F env) ''lookup schema'') (\<lambda>_.
       case first_by bm_ID (db_select (schema_for workflowName version state kind) (pf_schemas pf)) of
         None \<Rightarrow> Inl (wrap ''lookup schema'' ErrRecordNotFound)
       | Some s \<Rightarrow> Inr s)"

definition LookupByHash :: "engine_env \<Rightarrow> string \<Rightarrow> Platform \<Rightarrow> WorkflowStateSchema result" where
  "LookupByHash env hash pf =
     and_then (stmt (ee_F env) ''lookup schema by hash'') (\<lambda>_.
       case first_by bm_ID (db_select (\<lambda>s. ws_SchemaHash s = hash) (pf_schemas pf)) of
         None \<Rightarrow> Inl (wrap ''lookup schema by hash'' ErrRecordNotFound)
       | Some s \<Rightarrow> Inr s)"

section \<open>Audit events (audit_event.go) and list limits (pagination.go)\<close>

definition service_maxListLimit :: int where "service_maxListLimit = 200"
definition defaultListLimit :: int where "defaultListLimit = 50"

definition normalizeListLimit :: "int \<Rightarrow> int" where
  "normalizeListLimit limit =
     (if limit \<le> 0 then defaultListLimit else if limit > service_maxListLimit then service_maxListLimit else limit)"

definition Audit_DeleteBefore :: "engine_env \<Rightarrow> int \<Rightarrow> int \<Rightarrow> int \<Rightarrow> EngineState \<Rightarrow> (int \<times> EngineState) result" where
  "Audit_DeleteBefore env now cutoff limit st =
     and_then (delete_batch (ee_F env) ''select old audit events'' ''delete old audit events''
       (\<lambda>a. bm_CreatedAt a < cutoff) now limit (es_audits st)) (\<lambda>(n, t). Inr (n, st\<lparr>es_audits := t\<rparr>))"

definition ListByInstanceWithLimit :: "engine_env \<Rightarrow> string \<Rightarrow> int \<Rightarrow> EngineState \<Rightarrow> WorkflowAuditEvent list result" where
  "ListByInstanceWithLimit env instanceID limit st =
     and_then (stmt (ee_F env) ''list audit events'') (\<lambda>_.
       Inr (take (list_limit limit)
         (sort_key bm_CreatedAt (db_select (\<lambda>a. au_InstanceID a = instanceID) (es_audits st)))))"

definition Audit_ListByInstance :: "engine_env \<Rightarrow> string \<Rightarrow> EngineState \<Rightarrow> WorkflowAuditEvent list result" where
  "Audit_ListByInstance env instanceID st = ListByInstanceWithLimit env instanceID service_maxListLimit st"

end
