(* ===== verification/Event_Router.thy ===== *)
theory Event_Router
  imports Event_Repository State_Engine Dsl_Validator
begin

text \<open>
  \<open>business/event_router.go\<close> and \<open>event_router_signals.go\<close>: an ingested event creates an instance of
  every live trigger binding whose filter it meets and is delivered as a signal along every live
  route. The caches of compiled expressions hold what compiling gives and have no effect on it;
  logs and metrics are left out. Work on a row draws its ids and tokens from an environment of its
  own, \<open>ro_row\<close> of a name for that work.
\<close>

section \<open>The text of an error (instance_dedupe.go)\<close>

text \<open>The verbs of \<open>fmt.Errorf\<close>; a quoted text is taken to need no escapes.\<close>

fun fmt_args :: "string \<Rightarrow> string list \<Rightarrow> string" where
  "fmt_args [] args = []"
| "fmt_args (c # f) args =
     (if c \<noteq> CHR ''%'' then c # fmt_args f args
      else (case f of [] \<Rightarrow> [c] | verb # f' \<Rightarrow>
        (case args of
           [] \<Rightarrow> c # verb # fmt_args f' []
         | a # as \<Rightarrow> (if verb = CHR ''q'' then CHR 0x22 # a @ [CHR 0x22] else a) @ fmt_args f' as)))"

fun errmsg_text :: "errmsg \<Rightarrow> string" and earg_text :: "earg \<Rightarrow> string" where
  "errmsg_text (Errf f args) = fmt_args f (map earg_text args)"
| "earg_text (EStr s) = s"
| "earg_text (EInt n) = itoa n"
| "earg_text (EErr e) = errmsg_text e"
| "earg_text (EStrs ss) = concat ss"

definition lower_char :: "char \<Rightarrow> char" where
  "lower_char c = (let n = (of_char c :: nat) in if 65 \<le> n \<and> n \<le> 90 then char_of (n + 32) else c)"

definition contains_text :: "string \<Rightarrow> string \<Rightarrow> bool" where
  "contains_text s sub = list_ex (\<lambda>k. take (length sub) (drop k s) = sub) [0..<Suc (length s)]"

text \<open>\<open>gorm.ErrDuplicatedKey\<close> names itself a duplicated key, so its text decides too.\<close>

definition isDuplicateCreateError :: "errmsg \<Rightarrow> bool" where
  "isDuplicateCreateError err = contains_text (map lower_char (errmsg_text err)) ''duplicate''"

section \<open>Events and the router\<close>

text \<open>A payload map that is nil is \<open>None\<close>; it encodes as null.\<close>

record IngestedEventMessage =
  im_EventID :: string
  im_TenantID :: string
  im_PartitionID :: string
  im_EventType :: string
  im_Source :: string
  im_Payload :: "go_map option"

definition event_vars :: "IngestedEventMessage \<Rightarrow> go_map" where
  "event_vars event = (case im_Payload event of None \<Rightarrow> [] | Some m \<Rightarrow> m)"

definition event_payload :: "IngestedEventMessage \<Rightarrow> raw_json" where
  "event_payload event = json_marshal (case im_Payload event of None \<Rightarrow> VNil | Some m \<Rightarrow> VMap m)"

definition DefaultEventRouterBindingLimit :: int where "DefaultEventRouterBindingLimit = 200"

definition ScheduleFiredType :: string where "ScheduleFiredType = ''schedule.fired''"

record ('env, 'ast, 'prg) eventRouter =
  ro_env :: "('env, 'ast, 'prg) svc_env"
  ro_row :: "string \<Rightarrow> ('env, 'ast, 'prg) svc_env"
  ro_ff :: "rat \<Rightarrow> string"
  ro_routes :: bool
  ro_execRepo :: bool
  ro_bindingLimit :: int

definition NewEventRouter ::
    "('env, 'ast, 'prg) svc_env \<Rightarrow> (string \<Rightarrow> ('env, 'ast, 'prg) svc_env) \<Rightarrow> (rat \<Rightarrow> string) \<Rightarrow> bool \<Rightarrow> bool \<Rightarrow> int
      \<Rightarrow> ('env, 'ast, 'prg) eventRouter" where
  "NewEventRouter env row ff routes execRepo bindingLimit =
     \<lparr>ro_env = env, ro_row = row, ro_ff = ff, ro_routes = routes, ro_execRepo = execRepo,
      ro_bindingLimit = (if bindingLimit \<le> 0 then DefaultEventRouterBindingLimit else bindingLimit)\<rparr>"

section \<open>Routing expressions\<close>

definition compileRoutingExpr :: "('env, 'ast, 'prg) cel_lib \<Rightarrow> string \<Rightarrow> ('env \<times> 'ast) result" where
  "compileRoutingExpr cel expr =
     and_then (labelled ''create CEL env'' (NewExpressionEnv cel)) (\<lambda>env.
     and_then (labelled ''compile expression'' (CompileExpression cel env expr)) (\<lambda>ast. Inr (env, ast)))"

definition evaluateTriggerFilter :: "('env, 'ast, 'prg) cel_lib \<Rightarrow> string \<Rightarrow> IngestedEventMessage \<Rightarrow> bool result" where
  "evaluateTriggerFilter cel expr event =
     (if expr = [] then Inr True
      else and_then (compileRoutingExpr cel expr) (\<lambda>(env, ast).
        EvaluateCondition cel env ast [(''payload'', VMap (event_vars event))]))"

definition evaluateRoutingValue ::
    "('env, 'ast, 'prg) cel_lib \<Rightarrow> (rat \<Rightarrow> string) \<Rightarrow> string \<Rightarrow> IngestedEventMessage \<Rightarrow> string result" where
  "evaluateRoutingValue cel ff expr event =
     and_then (compileRoutingExpr cel expr) (\<lambda>(env, ast).
     and_then (EvaluateExpression cel env ast [(''payload'', VMap (event_vars event))]) (\<lambda>v.
       case FormatCorrelationKey ff v of (key, ok) \<Rightarrow>
         if ok then Inr key else Inl (Errf ''expression %q yielded %T, want a non-empty scalar'' [EStr expr])))"

definition correlationKey :: "('env, 'ast, 'prg) eventRouter \<Rightarrow> TriggerBinding \<Rightarrow> IngestedEventMessage \<Rightarrow> string" where
  "correlationKey r binding event =
     (if tb_KeyExpr binding = [] then []
      else (case evaluateRoutingValue (se_cel (ro_env r)) (ro_ff r) (tb_KeyExpr binding) event of
        Inl _ \<Rightarrow> [] | Inr key \<Rightarrow> key))"

section \<open>Creating an instance\<close>

definition event_instance ::
    "('env, 'ast, 'prg) eventRouter \<Rightarrow> int \<Rightarrow> TriggerBinding \<Rightarrow> IngestedEventMessage \<Rightarrow> StepSpec \<Rightarrow> WorkflowInstance" where
  "event_instance r now binding event initialStep =
     \<lparr>bm_ID = deterministicEventInstanceID (im_TenantID event) (im_PartitionID event) (tb_WorkflowName binding)
        (tb_WorkflowVersion binding) (im_EventID event),
      bm_CreatedAt = 0, bm_ModifiedAt = 0, bm_DeletedAt = None,
      wi_WorkflowName = tb_WorkflowName binding, wi_WorkflowVersion = tb_WorkflowVersion binding,
      wi_CurrentState = step_ID initialStep, wi_Status = InstanceStatusRunning, wi_Revision = 1,
      wi_TriggerEventID = im_EventID event, wi_CorrelationKey = correlationKey r binding event,
      wi_ParentInstanceID = [], wi_ParentExecutionID = [], wi_ScopeType = [], wi_ScopeParentState = [],
      wi_ScopeEntryState = [], wi_ScopeIndex = 0, wi_Metadata = RawEmpty, wi_Vars = RawEmpty,
      wi_StartedAt = Some now, wi_FinishedAt = None\<rparr>"

definition Instance_Create :: "engine_env \<Rightarrow> int \<Rightarrow> WorkflowInstance \<Rightarrow> EngineState \<Rightarrow> (WorkflowInstance \<times> EngineState) result" where
  "Instance_Create env now inst st =
     and_then (insert_instance env ''create instance'' ''instance'' now inst st) (\<lambda>st'.
       Inr (instance_row env ''instance'' now inst, st'))"

definition healMissingInitialExecution ::
    "('env, 'ast, 'prg) eventRouter \<Rightarrow> ('env, 'ast, 'prg) svc_env \<Rightarrow> int \<Rightarrow> WorkflowInstance \<Rightarrow> IngestedEventMessage \<Rightarrow> unit op" where
  "healMissingInitialExecution r env now inst event =
     (if wi_Status inst \<noteq> InstanceStatusRunning \<or> \<not> ro_execRepo r then op_ok ()
      else op_seq (op_map_err (wrap ''heal count executions'') (db_read (CountByInstance (se_db env) (bm_ID inst)))) (\<lambda>n.
        if n > 0 then op_ok () else op_ignore (CreateInitialExecution env now inst (event_payload event))))"

definition handleCreateInstanceError ::
    "('env, 'ast, 'prg) eventRouter \<Rightarrow> ('env, 'ast, 'prg) svc_env \<Rightarrow> int \<Rightarrow> errmsg \<Rightarrow> TriggerBinding
      \<Rightarrow> IngestedEventMessage \<Rightarrow> bool op" where
  "handleCreateInstanceError r env now err binding event =
     (if \<not> isDuplicateCreateError err then op_err (wrap ''create instance'' err)
      else op_seq (op_try (db_read (FindByTriggerEvent (se_db env) (tb_WorkflowName binding) (tb_WorkflowVersion binding)
             (im_EventID event)))) (\<lambda>found. case found of
          Inl _ \<Rightarrow> op_err (wrap ''create instance'' err)
        | Inr existing \<Rightarrow>
            op_seq (append_audit env ''dedupe audit'' now
              (new_audit (bm_ID existing) [] ''trigger.deduplicated'' (wi_CurrentState existing) [] RawEmpty)) (\<lambda>_.
            op_seq (healMissingInitialExecution r env now existing event) (\<lambda>_. op_ok False))))"

definition createInstance ::
    "('env, 'ast, 'prg) eventRouter \<Rightarrow> ('env, 'ast, 'prg) svc_env \<Rightarrow> int \<Rightarrow> TriggerBinding \<Rightarrow> IngestedEventMessage \<Rightarrow> bool op" where
  "createInstance r env now binding event =
     op_seq (op_map_err (wrap ''load workflow'')
       (db_read (Def_GetByNameAndVersion (se_db env) (tb_WorkflowName binding) (tb_WorkflowVersion binding)))) (\<lambda>def.
     if wd_Status def \<noteq> WorkflowStatusActive then op_ok False
     else op_seq (op_map_err (wrap ''parse DSL'') (op_of (Parse (se_unmarshal env) (wd_DSLBlob def)))) (\<lambda>spec.
     case InitialStep spec of
       None \<Rightarrow> op_err (Errf ''workflow %s has no steps'' [EStr (tb_WorkflowName binding)])
     | Some initialStep \<Rightarrow>
         op_seq (op_try (db_run (Instance_Create (se_db env) now (event_instance r now binding event initialStep)))) (\<lambda>made.
         case made of
           Inl err \<Rightarrow> handleCreateInstanceError r env now err binding event
         | Inr inst \<Rightarrow>
             op_seq (append_audit env ''created audit'' now
               (new_audit (bm_ID inst) [] ''instance.created'' (step_ID initialStep) [] RawEmpty)) (\<lambda>_.
             op_seq (op_map_err (wrap ''create initial execution'')
               (CreateInitialExecution env now inst (event_payload event))) (\<lambda>_. op_ok True)))))"

section \<open>Triggers\<close>

fun route_bindings ::
    "('env, 'ast, 'prg) eventRouter \<Rightarrow> int \<Rightarrow> IngestedEventMessage \<Rightarrow> TriggerBinding list \<Rightarrow> int \<Rightarrow> int op" where
  "route_bindings r now event [] created = op_ok created"
| "route_bindings r now event (binding # rest) created =
     (if evaluateTriggerFilter (se_cel (ro_env r)) (tb_EventFilter binding) event \<noteq> Inr True
      then route_bindings r now event rest created
      else op_seq (op_try (createInstance r (ro_row r (bm_ID binding)) now binding event)) (\<lambda>res.
        route_bindings r now event rest (if res = Inr True then created + 1 else created)))"

definition routeTriggers :: "('env, 'ast, 'prg) eventRouter \<Rightarrow> int \<Rightarrow> IngestedEventMessage \<Rightarrow> int op" where
  "routeTriggers r now event =
     op_seq (op_map_err (wrap ''find triggers'')
       (plat_read (FindByEventType (se_db (ro_env r)) (im_EventType event) (ro_bindingLimit r)))) (\<lambda>bindings.
     route_bindings r now event bindings 0)"

definition scheduled_binding :: "ScheduleDefinition \<Rightarrow> TriggerBinding" where
  "scheduled_binding sched =
     \<lparr>bm_ID = [], bm_CreatedAt = 0, bm_ModifiedAt = 0, bm_DeletedAt = None,
      tb_EventType = [], tb_EventFilter = [], tb_WorkflowName = sd_WorkflowName sched,
      tb_WorkflowVersion = sd_WorkflowVersion sched, tb_InputMapping = sd_InputPayload sched, tb_KeyExpr = [],
      tb_Active = False\<rparr>"

definition scheduleID_of :: "IngestedEventMessage \<Rightarrow> string" where
  "scheduleID_of event = (case map_of (event_vars event) ''schedule_id'' of Some (VStr s) \<Rightarrow> s | _ \<Rightarrow> [])"

definition routeScheduleFired :: "('env, 'ast, 'prg) eventRouter \<Rightarrow> int \<Rightarrow> IngestedEventMessage \<Rightarrow> int op" where
  "routeScheduleFired r now event =
     (let scheduleID = scheduleID_of event in
      if scheduleID = [] then
        op_err (Errf ''schedule.fired event missing schedule_id (event=%s)'' [EStr (im_EventID event)])
      else op_seq (op_map_err (\<lambda>err. Errf ''lookup schedule %s: %w'' [EStr scheduleID, EErr err])
             (plat_read (Schedule_GetByID (se_db (ro_env r)) scheduleID))) (\<lambda>sched.
        op_seq (createInstance r (ro_row r scheduleID) now (scheduled_binding sched) event) (\<lambda>created.
        op_ok (if created then 1 else 0))))"

section \<open>Signals (event_router_signals.go)\<close>

definition instanceRouteTarget ::
    "('env, 'ast, 'prg) eventRouter \<Rightarrow> SignalRoute \<Rightarrow> IngestedEventMessage \<Rightarrow> string list op" where
  "instanceRouteTarget r route event =
     (case evaluateRoutingValue (se_cel (ro_env r)) (ro_ff r) (rt_InstanceExpr route) event of
        Inl _ \<Rightarrow> op_ok []
      | Inr instanceID \<Rightarrow>
          op_seq (op_try (db_read (Instance_GetByID (se_db (ro_env r)) instanceID))) (\<lambda>found. case found of
            Inl err \<Rightarrow> (if error_is err ErrRecordNotFound then op_ok []
                       else op_err (wrap ''load signal target instance'' err))
          | Inr inst \<Rightarrow>
              (if wi_WorkflowName inst \<noteq> rt_WorkflowName route \<or> wi_WorkflowVersion inst \<noteq> rt_WorkflowVersion route \<or>
                  wi_Status inst \<noteq> InstanceStatusRunning then op_ok []
               else op_ok [bm_ID inst])))"

definition signalTargets ::
    "('env, 'ast, 'prg) eventRouter \<Rightarrow> SignalRoute \<Rightarrow> IngestedEventMessage \<Rightarrow> string list op" where
  "signalTargets r route event =
     (if evaluateTriggerFilter (se_cel (ro_env r)) (rt_Filter route) event \<noteq> Inr True then op_ok []
      else if rt_InstanceExpr route \<noteq> [] then instanceRouteTarget r route event
      else (case evaluateRoutingValue (se_cel (ro_env r)) (ro_ff r) (rt_KeyExpr route) event of
        Inl _ \<Rightarrow> op_ok []
      | Inr key \<Rightarrow>
          op_seq (op_map_err (wrap ''find instances by correlation key'')
            (db_read (ListRunningByCorrelationKey (se_db (ro_env r)) (rt_WorkflowName route) (rt_WorkflowVersion route)
              key (ro_bindingLimit r)))) (\<lambda>instances. op_ok (map bm_ID instances))))"

text \<open>The first error of a sweep is returned after all routes were tried.\<close>

definition first_error :: "errmsg option \<Rightarrow> errmsg \<Rightarrow> errmsg option" where
  "first_error firstErr err = (case firstErr of None \<Rightarrow> Some err | Some e \<Rightarrow> Some e)"

definition deliver_work :: "SignalRoute \<Rightarrow> string \<Rightarrow> string" where
  "deliver_work route instanceID = bm_ID route @ '' '' @ instanceID"

fun deliver_targets ::
    "('env, 'ast, 'prg) eventRouter \<Rightarrow> int \<Rightarrow> SignalRoute \<Rightarrow> IngestedEventMessage \<Rightarrow> string list \<Rightarrow> errmsg option
      \<Rightarrow> (errmsg option) op" where
  "deliver_targets r now route event [] firstErr = op_ok firstErr"
| "deliver_targets r now route event (instanceID # rest) firstErr =
     op_seq (op_try (DeliverEventSignal (ro_row r (deliver_work route instanceID)) now (im_EventID event) instanceID
       (rt_SignalName route) (event_payload event))) (\<lambda>res.
     deliver_targets r now route event rest (case res of
       Inl err \<Rightarrow> first_error firstErr (Errf ''deliver signal %s to %s: %w''
         [EStr (rt_SignalName route), EStr instanceID, EErr err])
     | Inr _ \<Rightarrow> firstErr))"

fun route_loop ::
    "('env, 'ast, 'prg) eventRouter \<Rightarrow> int \<Rightarrow> IngestedEventMessage \<Rightarrow> SignalRoute list \<Rightarrow> errmsg option \<Rightarrow> (errmsg option) op" where
  "route_loop r now event [] firstErr = op_ok firstErr"
| "route_loop r now event (route # rest) firstErr =
     op_seq (op_try (signalTargets r route event)) (\<lambda>targets. case targets of
       Inl err \<Rightarrow> route_loop r now event rest (first_error firstErr err)
     | Inr ids \<Rightarrow>
         op_seq (deliver_targets r now route event ids firstErr) (\<lambda>firstErr'.
         route_loop r now event rest firstErr'))"

definition routeSignals :: "('env, 'ast, 'prg) eventRouter \<Rightarrow> int \<Rightarrow> IngestedEventMessage \<Rightarrow> unit op" where
  "routeSignals r now event =
     (if \<not> ro_routes r then op_ok ()
      else op_seq (op_map_err (wrap ''find signal routes'')
        (plat_read (FindActiveByEventType (se_db (ro_env r)) (im_EventType event) (ro_bindingLimit r)))) (\<lambda>routes.
      op_seq (route_loop r now event routes None) (\<lambda>firstErr.
      case firstErr of None \<Rightarrow> op_ok () | Some err \<Rightarrow> op_err err)))"

text \<open>The count of a failed delivery is returned with the error; the model keeps the error.\<close>

definition RouteEvent :: "('env, 'ast, 'prg) eventRouter \<Rightarrow> int \<Rightarrow> IngestedEventMessage \<Rightarrow> int op" where
  "RouteEvent r now event =
     (if im_EventType event = ScheduleFiredType then routeScheduleFired r now event
      else op_seq (routeTriggers r now event) (\<lambda>created.
        op_seq (routeSignals r now event) (\<lambda>_. op_ok created)))"

text \<open>The worker on the event stream (queues/event_router_worker.go), after decoding the message.\<close>

definition EventRouterWorker_Handle ::
    "('env, 'ast, 'prg) eventRouter \<Rightarrow> int \<Rightarrow> IngestedEventMessage result \<Rightarrow> unit op" where
  "EventRouterWorker_Handle r now message = (case message of
     Inl err \<Rightarrow> op_err (wrap ''unmarshal event'' err)
   | Inr event \<Rightarrow>
       op_seq (op_map_err (\<lambda>err. Errf ''route event %s: %w'' [EStr (im_EventID event), EErr err])
         (RouteEvent r now event)) (\<lambda>_. op_ok ()))"

end
