(* ===== verification/Schedulers.thy ===== *)
theory Schedulers
  imports Event_Router Branch_Scope Dsl_Schedule
begin

text \<open>
  \<open>service/schedulers\<close>: the background sweeps. A sweep reads or claims a batch of rows and works on
  them one after another; a row whose work fails is skipped. The work on a row draws its ids,
  tokens and random numbers from an environment of its own, \<open>row\<close> of the row's id. A sweep reads
  the clock once. Publishing a message is the parameter \<open>publish\<close>; a sweep returns what it
  published. The sizes and times of \<open>config.Config\<close> are arguments.
\<close>

type_synonym ('env, 'ast, 'prg) row_env = "string \<Rightarrow> ('env, 'ast, 'prg) svc_env"

section \<open>Sweeps\<close>

fun sweep :: "('r \<Rightarrow> bool op) \<Rightarrow> 'r list \<Rightarrow> int \<Rightarrow> int op" where
  "sweep step [] n = op_ok n"
| "sweep step (r # rest) n = op_seq (step r) (\<lambda>counted. sweep step rest (if counted then n + 1 else n))"

text \<open>A batch that cannot be read ends the sweep with 0.\<close>

definition sweep_batch :: "'r list op \<Rightarrow> ('r \<Rightarrow> bool op) \<Rightarrow> int op" where
  "sweep_batch batch step =
     op_seq (op_try batch) (\<lambda>r. case r of Inl _ \<Rightarrow> op_ok 0 | Inr rows \<Rightarrow> sweep step rows 0)"

text \<open>Run an operation whose error ends the work on the row.\<close>

definition try_then :: "'a op \<Rightarrow> ('a \<Rightarrow> bool op) \<Rightarrow> bool op" where
  "try_then m f = op_seq (op_try m) (\<lambda>r. case r of Inl _ \<Rightarrow> op_ok False | Inr x \<Rightarrow> f x)"

text \<open>
  \<open>RunUntilDrained\<close>: further batches while they come back full, \<open>maxBatches\<close> at most. The \<open>k\<close>-th batch
  is \<open>once k\<close>, with its own reading of the clock.
\<close>

fun drain :: "(nat \<Rightarrow> int op) \<Rightarrow> int \<Rightarrow> nat \<Rightarrow> nat \<Rightarrow> int \<Rightarrow> int op" where
  "drain once batchSize k 0 n = op_ok n"
| "drain once batchSize k (Suc fuel) n =
     op_seq (once k) (\<lambda>m. if m < batchSize then op_ok (n + m) else drain once batchSize (Suc k) fuel (n + m))"

definition RunUntilDrained :: "(nat \<Rightarrow> int op) \<Rightarrow> int \<Rightarrow> int \<Rightarrow> int op" where
  "RunUntilDrained once batchSize maxBatches = drain once batchSize 0 (nat (if maxBatches \<le> 0 then 1 else maxBatches)) 0"

section \<open>Retries (retry.go)\<close>

text \<open>The execution a retry creates: the same state and input, the next attempt, a new token.\<close>

definition retry_execution ::
    "WorkflowStateExecution \<Rightarrow> string \<Rightarrow> int option \<Rightarrow> WorkflowStateExecution" where
  "retry_execution exec rawToken nextRetryAt =
     (new_execution (ex_InstanceID exec) (ex_State exec) (ex_Attempt exec + 1) ExecStatusPending (HashToken rawToken)
        (ex_InputSchemaHash exec) (ex_InputPayload exec) (ex_TraceID exec))
       \<lparr>ex_StateVersion := ex_StateVersion exec, ex_NextRetryAt := nextRetryAt\<rparr>"

definition retry_one :: "('env, 'ast, 'prg) svc_env \<Rightarrow> int \<Rightarrow> WorkflowStateExecution \<Rightarrow> bool op" where
  "retry_one env now exec =
     (let drop = op_seq (op_ignore (db_exec (MarkStaleExpected (se_db env) now (bm_ID exec) ExecStatusRetryScheduled)))
        (\<lambda>_. op_ok False) in
      op_seq (op_try (db_read (Instance_GetByID (se_db env) (ex_InstanceID exec)))) (\<lambda>r. case r of
        Inl _ \<Rightarrow> drop
      | Inr inst \<Rightarrow>
          (if wi_Status inst \<noteq> InstanceStatusRunning then drop
           else try_then (op_of (stmt (ee_F (se_db env)) ''generate token'')) (\<lambda>_.
             try_then (db_exec (MaterializeRetry (se_db env) now (bm_ID exec)
               (retry_execution exec (ee_token (se_db env) ''retry'') None))) (\<lambda>_. op_ok True)))))"

definition Retry_RunOnce ::
    "('env, 'ast, 'prg) svc_env \<Rightarrow> ('env, 'ast, 'prg) row_env \<Rightarrow> int \<Rightarrow> int \<Rightarrow> int op" where
  "Retry_RunOnce env row now batchSize =
     sweep_batch (db_read (FindRetryDue (se_db env) now batchSize)) (\<lambda>exec. retry_one (row (bm_ID exec)) now exec)"

section \<open>Timeouts (timeout.go)\<close>

definition timeout_delay_ms :: "int \<Rightarrow> WorkflowRetryPolicy \<Rightarrow> int" where
  "timeout_delay_ms attempt policy =
     (if rp_BackoffStrategy policy = ''exponential''
      then min (scaled_delay (rp_InitialDelayMs policy) (attempt - 1)) (rp_MaxDelayMs policy)
      else rp_InitialDelayMs policy)"

definition timeout_retry :: "('env, 'ast, 'prg) svc_env \<Rightarrow> int \<Rightarrow> WorkflowStateExecution \<Rightarrow> bool op" where
  "timeout_retry env now exec =
     try_then (db_read (Instance_GetByID (se_db env) (ex_InstanceID exec))) (\<lambda>inst.
     try_then (db_read (RetryPolicy_Lookup (se_db env) (wi_WorkflowName inst) (wi_WorkflowVersion inst) (ex_State exec))) (\<lambda>policy.
     if ex_Attempt exec \<ge> rp_MaxAttempts policy then op_ok False
     else op_seq (op_of (int64N (se_rand env) (int64 (timeout_delay_ms (ex_Attempt exec) policy + 1)))) (\<lambda>jitteredMs.
     let nextRetry = now + int64 (jitteredMs * millisecond) in
     try_then (op_of (stmt (ee_F (se_db env)) ''generate token'')) (\<lambda>_.
     try_then (db_exec (MarkTimedOutAndCreateRetry (se_db env) now (bm_ID exec)
       (retry_execution exec (ee_token (se_db env) ''retry'') (Some nextRetry)))) (\<lambda>_.
     op_seq (append_audit env ''retry audit'' now
       (new_audit (ex_InstanceID exec) (ee_id (se_db env) ''retry execution'') ''state.retried'' (ex_State exec) [] RawEmpty))
       (\<lambda>_. op_ok True))))))"

definition timeout_one :: "('env, 'ast, 'prg) svc_env \<Rightarrow> int \<Rightarrow> WorkflowStateExecution \<Rightarrow> bool op" where
  "timeout_one env now exec =
     op_seq (timeout_retry env now exec) (\<lambda>retried.
     if retried then op_ok True
     else try_then (db_exec (MarkTerminalTimeout (se_db env) now (bm_ID exec) ''execution timed out, retries exhausted'')) (\<lambda>_.
       op_seq (op_ignore (db_exec (Instance_UpdateStatus (se_db env) now (ex_InstanceID exec) InstanceStatusFailed))) (\<lambda>_.
       op_seq (append_audit env ''timeout audit'' now
         (new_audit (ex_InstanceID exec) (bm_ID exec) ''state.failed'' (ex_State exec) [] RawEmpty)) (\<lambda>_. op_ok True))))"

definition Timeout_RunOnce ::
    "('env, 'ast, 'prg) svc_env \<Rightarrow> ('env, 'ast, 'prg) row_env \<Rightarrow> int \<Rightarrow> int \<Rightarrow> int op" where
  "Timeout_RunOnce env row now batchSize =
     sweep_batch (db_read (FindTimedOut (se_db env) now batchSize)) (\<lambda>exec. timeout_one (row (bm_ID exec)) now exec)"

section \<open>Timers (timer.go)\<close>

text \<open>\<open>err != nil && !errors.Is(err, ErrStaleExecution)\<close>.\<close>

definition hard_failure :: "'a result \<Rightarrow> bool" where
  "hard_failure r \<longleftrightarrow> (case r of Inl err \<Rightarrow> \<not> error_is err ErrStaleExecution | Inr _ \<Rightarrow> False)"

definition timer_owner :: string where "timer_owner = ''timer-scheduler''"

definition timer_one :: "('env, 'ast, 'prg) svc_env \<Rightarrow> int \<Rightarrow> WorkflowTimer \<Rightarrow> bool op" where
  "timer_one env now timer =
     op_seq (op_try (ResumeWaitingExecution env now (tm_ExecutionID timer) RawEmpty)) (\<lambda>r.
     if hard_failure r
     then op_seq (op_ignore (db_exec (Timer_ReleaseClaim (se_db env) (bm_ID timer) timer_owner))) (\<lambda>_. op_ok False)
     else try_then (db_exec (MarkFiredByOwner (se_db env) (bm_ID timer) timer_owner now)) (\<lambda>_. op_ok True))"

definition Timer_RunOnce ::
    "('env, 'ast, 'prg) svc_env \<Rightarrow> ('env, 'ast, 'prg) row_env \<Rightarrow> int \<Rightarrow> int \<Rightarrow> int \<Rightarrow> int op" where
  "Timer_RunOnce env row now batchSize claimTTLSeconds =
     sweep_batch (db_run (ClaimDue (se_db env) now batchSize timer_owner (now + int64 (claimTTLSeconds * second))))
       (\<lambda>timer. timer_one (row (bm_ID timer)) now timer)"

section \<open>Signal waits (signal.go)\<close>

definition signal_owner :: string where "signal_owner = ''signal-scheduler''"

definition wait_failure :: CommitError where
  "wait_failure = \<lparr>ce_Class = ''timeout'', ce_Code = ''signal_wait_timeout'',
     ce_Message = ''signal wait timed out before a matching signal was delivered''\<rparr>"

definition signal_one :: "('env, 'ast, 'prg) svc_env \<Rightarrow> int \<Rightarrow> WorkflowSignalWait \<Rightarrow> bool op" where
  "signal_one env now w =
     op_seq (op_try (FailWaitingExecution env now (sw_ExecutionID w) ExecStatusTimedOut wait_failure)) (\<lambda>r.
     if hard_failure r
     then op_seq (op_ignore (db_exec (Wait_ReleaseClaim (se_db env) (bm_ID w) signal_owner))) (\<lambda>_. op_ok False)
     else try_then (db_exec (MarkTimedOutByOwner (se_db env) (bm_ID w) signal_owner now)) (\<lambda>_. op_ok True))"

definition Signal_RunOnce ::
    "('env, 'ast, 'prg) svc_env \<Rightarrow> ('env, 'ast, 'prg) row_env \<Rightarrow> int \<Rightarrow> int \<Rightarrow> int \<Rightarrow> int op" where
  "Signal_RunOnce env row now batchSize claimTTLSeconds =
     sweep_batch (db_run (ClaimTimedOut (se_db env) now batchSize signal_owner (now + int64 (claimTTLSeconds * second))))
       (\<lambda>w. signal_one (row (bm_ID w)) now w)"

section \<open>Branch scopes (scope.go)\<close>

definition scope_owner :: string where "scope_owner = ''scope-scheduler''"

definition scope_one :: "('env, 'ast, 'prg) svc_env \<Rightarrow> int \<Rightarrow> WorkflowScopeRun \<Rightarrow> bool op" where
  "scope_one env now scope =
     op_seq (op_try (ReconcileBranchScope env now (bm_ID scope))) (\<lambda>r.
     op_seq (op_ignore (db_exec (Scope_ReleaseClaim (se_db env) (bm_ID scope) scope_owner))) (\<lambda>_. op_ok (is_ok r)))"

definition Scope_RunOnce ::
    "('env, 'ast, 'prg) svc_env \<Rightarrow> ('env, 'ast, 'prg) row_env \<Rightarrow> int \<Rightarrow> int \<Rightarrow> int \<Rightarrow> int op" where
  "Scope_RunOnce env row now batchSize claimTTLSeconds =
     sweep_batch (db_run (ClaimRunning (se_db env) now batchSize scope_owner (now + int64 (claimTTLSeconds * second))))
       (\<lambda>scope. scope_one (row (bm_ID scope)) now scope)"

section \<open>Dispatch (dispatch.go)\<close>

definition dispatch_one ::
    "('env, 'ast, 'prg) svc_env \<Rightarrow> (ExecutionCommand \<Rightarrow> unit result) \<Rightarrow> int \<Rightarrow> WorkflowStateExecution \<Rightarrow> bool op" where
  "dispatch_one env publish now exec =
     try_then (Dispatch env now exec) (\<lambda>cmd. case publish cmd of
       Inr _ \<Rightarrow> op_ok True
     | Inl _ \<Rightarrow> op_seq (op_ignore (RevertDispatch env now (bm_ID exec))) (\<lambda>_. op_ok False))"

definition Dispatch_RunOnce ::
    "('env, 'ast, 'prg) svc_env \<Rightarrow> ('env, 'ast, 'prg) row_env \<Rightarrow> (ExecutionCommand \<Rightarrow> unit result) \<Rightarrow> int \<Rightarrow> int \<Rightarrow> int op" where
  "Dispatch_RunOnce env row publish now batchSize =
     sweep_batch (db_read (FindPending (se_db env) batchSize)) (\<lambda>exec. dispatch_one (row (bm_ID exec)) publish now exec)"

end
