(* ===== verification/Schema_Registry.thy ===== *)
theory Schema_Registry
  imports Event_Repository State_Engine
begin

text \<open>
  \<open>business/schema_registry.go\<close>: registering the JSON schemas of a step and validating data against
  them. The schema library (\<open>github.com/santhosh-tekuri/jsonschema\<close>) is the parameter record
  \<open>schema_lib\<close>; the shared blob cache is the optional argument \<open>blobs\<close>, read before the table. The
  in-process cache of compiled schemas is threaded through a validation.
\<close>

section \<open>Registering\<close>

text \<open>The bytes of a JSON message: the model keeps the value of a valid one.\<close>

definition blob_text :: "engine_env \<Rightarrow> raw_json \<Rightarrow> string" where
  "blob_text env b = (case b of RawEmpty \<Rightarrow> [] | RawInvalid s \<Rightarrow> s | RawJson v \<Rightarrow> ee_text env b)"

definition computeSchemaHash :: "engine_env \<Rightarrow> raw_json \<Rightarrow> string" where
  "computeSchemaHash env blob = EncodeToString (Sum256 (blob_text env blob))"

definition RegisterSchema ::
    "engine_env \<Rightarrow> string \<Rightarrow> int \<Rightarrow> string \<Rightarrow> int \<Rightarrow> string \<Rightarrow> SchemaType \<Rightarrow> raw_json \<Rightarrow> Platform
      \<Rightarrow> (string \<times> Platform) result" where
  "RegisterSchema env role now workflowName version state kind schemaBlob pf =
     (let hash = computeSchemaHash env schemaBlob;
          schema = \<lparr>bm_ID = [], bm_CreatedAt = 0, bm_ModifiedAt = 0, bm_DeletedAt = None,
            ws_WorkflowName = workflowName, ws_WorkflowVersion = version, ws_State = state, ws_SchemaType = kind,
            ws_SchemaHash = hash, ws_SchemaBlob = schemaBlob\<rparr>
      in and_then (labelled ''register schema'' (Schema_Store env role now schema pf)) (\<lambda>pf'. Inr (hash, pf')))"

section \<open>Looking up\<close>

definition schema_type_string :: "SchemaType \<Rightarrow> string" where
  "schema_type_string k = (case k of SchemaTypeInput \<Rightarrow> ''input'' | SchemaTypeOutput \<Rightarrow> ''output'' | SchemaTypeError \<Rightarrow> ''error'')"

definition schemaCacheKey :: "string \<Rightarrow> string \<Rightarrow> int \<Rightarrow> string \<Rightarrow> SchemaType \<Rightarrow> string" where
  "schemaCacheKey tenantID workflowName version state kind =
     ''schema:'' @ tenantID @ '':'' @ workflowName @ '':'' @ itoa version @ '':'' @ state @ '':'' @ schema_type_string kind"

record cachedSchema =
  ch_SchemaHash :: string
  ch_SchemaBlob :: raw_json

text \<open>
  An entry the cache holds and that decodes wins over the table. Writing the entry back is
  best-effort and has no effect on the result.
\<close>

definition lookupSchema ::
    "engine_env \<Rightarrow> (string \<Rightarrow> cachedSchema option) option \<Rightarrow> string option \<Rightarrow> string \<Rightarrow> int \<Rightarrow> string \<Rightarrow> SchemaType
      \<Rightarrow> Platform \<Rightarrow> cachedSchema result" where
  "lookupSchema env blobs claims workflowName version state kind pf =
     (let key = schemaCacheKey (tenantFromContext claims) workflowName version state kind in
      case (case blobs of None \<Rightarrow> None | Some get \<Rightarrow> get key) of
        Some entry \<Rightarrow> Inr entry
      | None \<Rightarrow> and_then (Schema_Lookup env workflowName version state kind pf) (\<lambda>schema.
          Inr \<lparr>ch_SchemaHash = ws_SchemaHash schema, ch_SchemaBlob = ws_SchemaBlob schema\<rparr>))"

section \<open>Validating\<close>

record ('doc, 'schema) schema_lib =
  js_UnmarshalJSON :: "string \<Rightarrow> 'doc result"
  js_AddResource :: "'doc \<Rightarrow> unit result"
  js_Compile :: "'doc \<Rightarrow> 'schema result"
  js_Validate :: "'schema \<Rightarrow> any \<Rightarrow> unit result"

definition maxSchemaCacheSize :: int where "maxSchemaCacheSize = 1000"

definition normalized_schema :: "engine_env \<Rightarrow> raw_json \<Rightarrow> string" where
  "normalized_schema env schemaBlob =
     (let normalized = TrimSpace (blob_text env schemaBlob) in
      case schemaBlob of
        RawJson (VStr unquoted) \<Rightarrow>
          (let trimmed = TrimSpace unquoted in
           if trimmed \<noteq> [] \<and> hd trimmed \<in> {CHR ''{'', CHR ''[''} then trimmed else normalized)
      | _ \<Rightarrow> normalized)"

definition compile_schema :: "('doc, 'schema) schema_lib \<Rightarrow> string \<Rightarrow> 'schema result" where
  "compile_schema lib normalized =
     and_then (labelled ''decode schema'' (js_UnmarshalJSON lib normalized)) (\<lambda>doc.
     and_then (labelled ''add schema resource'' (js_AddResource lib doc)) (\<lambda>_.
     labelled ''compile schema'' (js_Compile lib doc)))"

definition compiled_schema ::
    "('doc, 'schema) schema_lib \<Rightarrow> string \<Rightarrow> 'schema BoundedCache \<Rightarrow> 'schema result \<times> 'schema BoundedCache" where
  "compiled_schema lib normalized sc =
     (let cacheKey = EncodeToString (Sum256 normalized) in
      case Cache_Get cacheKey sc of
        Some schema \<Rightarrow> (Inr schema, sc)
      | None \<Rightarrow> (case compile_schema lib normalized of
          Inl err \<Rightarrow> (Inl err, sc)
        | Inr schema \<Rightarrow> (Inr schema, Cache_Put cacheKey schema sc)))"

definition check_data :: "('doc, 'schema) schema_lib \<Rightarrow> 'schema \<Rightarrow> raw_json \<Rightarrow> unit result" where
  "check_data lib schema data =
     and_then (labelled ''unmarshal data'' (json_unmarshal data)) (\<lambda>v. labelled ''validation'' (js_Validate lib schema v))"

definition validateAgainstSchema ::
    "engine_env \<Rightarrow> ('doc, 'schema) schema_lib \<Rightarrow> raw_json \<Rightarrow> raw_json \<Rightarrow> 'schema BoundedCache
      \<Rightarrow> unit result \<times> 'schema BoundedCache" where
  "validateAgainstSchema env lib schemaBlob data sc =
     (if TrimSpace (blob_text env schemaBlob) = [] then (Inl (Errf ''schema blob is empty'' []), sc)
      else (case compiled_schema lib (normalized_schema env schemaBlob) sc of (r, sc') \<Rightarrow>
        (and_then r (\<lambda>schema. check_data lib schema data), sc')))"

section \<open>The registry\<close>

record ('doc, 'schema) registry =
  rg_env :: engine_env
  rg_lib :: "('doc, 'schema) schema_lib"
  rg_blobs :: "(string \<Rightarrow> cachedSchema option) option"
  rg_claims :: "string option"

definition schema_missing :: "string \<Rightarrow> string \<Rightarrow> string \<Rightarrow> errmsg \<Rightarrow> errmsg" where
  "schema_missing which workflowName state err =
     Errf (''%w: '' @ which @ '' schema for %s/%s: %w'') [EErr ErrSchemaNotFound, EStr workflowName, EStr state, EErr err]"

definition ValidateInput ::
    "('doc, 'schema) registry \<Rightarrow> string \<Rightarrow> int \<Rightarrow> string \<Rightarrow> raw_json \<Rightarrow> Platform \<Rightarrow> 'schema BoundedCache
      \<Rightarrow> string result \<times> 'schema BoundedCache" where
  "ValidateInput rg workflowName version state data pf sc =
     (case lookupSchema (rg_env rg) (rg_blobs rg) (rg_claims rg) workflowName version state SchemaTypeInput pf of
        Inl err \<Rightarrow> (Inl (schema_missing ''input'' workflowName state err), sc)
      | Inr schema \<Rightarrow> (case validateAgainstSchema (rg_env rg) (rg_lib rg) (ch_SchemaBlob schema) data sc of
          (r, sc') \<Rightarrow> (case r of Inl err \<Rightarrow> Inl (wrapped_in ErrInputContractViolation err)
                                 | Inr _ \<Rightarrow> Inr (ch_SchemaHash schema), sc')))"

definition ValidateOutput ::
    "('doc, 'schema) registry \<Rightarrow> string \<Rightarrow> int \<Rightarrow> string \<Rightarrow> raw_json \<Rightarrow> Platform \<Rightarrow> 'schema BoundedCache
      \<Rightarrow> unit result \<times> 'schema BoundedCache" where
  "ValidateOutput rg workflowName version state data pf sc =
     (case lookupSchema (rg_env rg) (rg_blobs rg) (rg_claims rg) workflowName version state SchemaTypeOutput pf of
        Inl err \<Rightarrow> (Inl (schema_missing ''output'' workflowName state err), sc)
      | Inr schema \<Rightarrow> (case validateAgainstSchema (rg_env rg) (rg_lib rg) (ch_SchemaBlob schema) data sc of
          (r, sc') \<Rightarrow> (case r of Inl err \<Rightarrow> Inl (wrapped_in ErrOutputContractViolation err) | Inr _ \<Rightarrow> Inr (), sc')))"

text \<open>The schema of errors is optional.\<close>

definition ValidateError ::
    "('doc, 'schema) registry \<Rightarrow> string \<Rightarrow> int \<Rightarrow> string \<Rightarrow> raw_json \<Rightarrow> Platform \<Rightarrow> 'schema BoundedCache
      \<Rightarrow> unit result \<times> 'schema BoundedCache" where
  "ValidateError rg workflowName version state data pf sc =
     (case lookupSchema (rg_env rg) (rg_blobs rg) (rg_claims rg) workflowName version state SchemaTypeError pf of
        Inl _ \<Rightarrow> (Inr (), sc)
      | Inr schema \<Rightarrow> (case validateAgainstSchema (rg_env rg) (rg_lib rg) (ch_SchemaBlob schema) data sc of
          (r, sc') \<Rightarrow> (labelled ''error contract violation'' r, sc')))"

end
