(* ===== verification/Workflow_Business.thy ===== *)
theory Workflow_Business
  imports Schema_Registry Dsl_Validator
begin

text \<open>
  \<open>business/workflow.go\<close>: the life of a workflow definition. Creating a version stores its step
  schemas, its row and its schedules in separate transactions; activating it turns on its
  schedules, makes its triggers the live bindings of the workflow and stores its signal routes;
  archiving it turns schedules and bindings off. Each operation reads the clock once, \<open>now\<close>. The
  framework's \<open>Update\<close> of a row is the parameter \<open>be_UpdateDef\<close>.
\<close>

record ('env, 'ast, 'prg, 'sch, 'loc) business_env =
  be_svc :: "('env, 'ast, 'prg) svc_env"
  be_cron :: "('sch, 'loc) cron_lib"
  be_UpdateDef :: "WorkflowDefinition \<Rightarrow> WorkflowDefinition list \<Rightarrow> WorkflowDefinition list result"
  be_TenantID :: string
  be_PartitionID :: string

abbreviation be_db :: "('env, 'ast, 'prg, 'sch, 'loc) business_env \<Rightarrow> engine_env" where
  "be_db env \<equiv> se_db (be_svc env)"

section \<open>Versions\<close>

text \<open>\<open>reflect.DeepEqual\<close> of two decoded JSON values: objects are equal whatever the order of their keys.\<close>

primrec json_canon :: "any \<Rightarrow> any" where
  "json_canon VNil = VNil"
| "json_canon (VBool b) = VBool b"
| "json_canon (VInt n) = VInt n"
| "json_canon (VFloat q) = VFloat q"
| "json_canon (VStr s) = VStr s"
| "json_canon (VList vs) = VList (map json_canon vs)"
| "json_canon (VMap m) = VMap (sort_key fst (map (map_prod id json_canon) m))"

definition sameDSL :: "raw_json \<Rightarrow> raw_json \<Rightarrow> bool" where
  "sameDSL stored incoming = (case (json_unmarshal stored, json_unmarshal incoming) of
     (Inr a, Inr b) \<Rightarrow> json_canon a = json_canon b
   | _ \<Rightarrow> False)"

fun next_version_loop ::
    "raw_json \<Rightarrow> int \<Rightarrow> WorkflowDefinition list \<Rightarrow> int \<times> WorkflowDefinition option" where
  "next_version_loop dslBlob version [] = (version, None)"
| "next_version_loop dslBlob version (e # rest) =
     (let version' = (if wd_WorkflowVersion e \<ge> version then wd_WorkflowVersion e + 1 else version) in
      if wd_Status e \<noteq> WorkflowStatusArchived \<and> sameDSL (wd_DSLBlob e) dslBlob then (version', Some e)
      else next_version_loop dslBlob version' rest)"

definition nextVersionOrIdentical :: "WorkflowDefinition list \<Rightarrow> raw_json \<Rightarrow> int \<times> WorkflowDefinition option" where
  "nextVersionOrIdentical existing dslBlob = next_version_loop dslBlob 1 existing"

section \<open>Planning rows\<close>

definition planned_schedule :: "WorkflowDefinition \<Rightarrow> ScheduleSpec \<Rightarrow> ScheduleDefinition" where
  "planned_schedule def s =
     \<lparr>bm_ID = [], bm_CreatedAt = 0, bm_ModifiedAt = 0, bm_DeletedAt = None,
      sd_Name = sched_Name s, sd_CronExpr = sched_CronExpr s,
      sd_Timezone = (if sched_Timezone s = [] then ''UTC'' else sched_Timezone s),
      sd_WorkflowName = wd_Name def, sd_WorkflowVersion = wd_WorkflowVersion def,
      sd_InputPayload = (if sched_InputPayload s \<noteq> [] then json_marshal (VMap (sched_InputPayload s)) else empty_object),
      sd_Active = False, sd_NextFireAt = None, sd_LastFiredAt = None, sd_JitterSeconds = 0\<rparr>"

text \<open>A nil entry is dereferenced; the validator refuses such documents before.\<close>

fun planScheduleRows :: "WorkflowDefinition \<Rightarrow> ScheduleSpec option list \<Rightarrow> ScheduleDefinition list result" where
  "planScheduleRows def [] = Inr []"
| "planScheduleRows def (None # rest) = Inl (go_panic ''nil pointer dereference'')"
| "planScheduleRows def (Some s # rest) =
     and_then (planScheduleRows def rest) (\<lambda>rows. Inr (planned_schedule def s # rows))"

definition executable_type :: "StepType \<Rightarrow> bool" where
  "executable_type t \<longleftrightarrow> t \<in> {StepTypeCall, StepTypeSequence, StepTypeIf, StepTypeDelay, StepTypeParallel,
     StepTypeForeach, StepTypeSignalWait, StepTypeSignalSend}"

definition validateExecutableWorkflow :: "WorkflowSpec \<Rightarrow> unit result" where
  "validateExecutableWorkflow spec =
     (case List.find (\<lambda>step. \<not> executable_type (step_Type step)) (CollectAllSteps spec) of
        None \<Rightarrow> Inr ()
      | Some step \<Rightarrow> Inl (Errf ''step %q uses unsupported runtime step type %q''
          [EStr (step_ID step), EStr (step_type_string (step_Type step))]))"

definition binding_row :: "TriggerSpec \<Rightarrow> TriggerBinding" where
  "binding_row t =
     \<lparr>bm_ID = [], bm_CreatedAt = 0, bm_ModifiedAt = 0, bm_DeletedAt = None,
      tb_EventType = trig_EventType t, tb_EventFilter = trig_Filter t, tb_WorkflowName = [], tb_WorkflowVersion = 0,
      tb_InputMapping = empty_object, tb_KeyExpr = trig_Key t, tb_Active = True\<rparr>"

definition route_row :: "SignalRouteSpec \<Rightarrow> SignalRoute" where
  "route_row r =
     \<lparr>bm_ID = [], bm_CreatedAt = 0, bm_ModifiedAt = 0, bm_DeletedAt = None,
      rt_EventType = sr_EventType r, rt_WorkflowName = [], rt_WorkflowVersion = 0,
      rt_SignalName = EffectiveSignalName r, rt_Filter = sr_Filter r, rt_KeyExpr = sr_Key r,
      rt_InstanceExpr = sr_Instance r, rt_Active = True\<rparr>"

definition planRouting :: "WorkflowSpec \<Rightarrow> TriggerBinding list \<times> SignalRoute list" where
  "planRouting spec =
     (map binding_row (List.map_filter id (wf_Triggers spec)), map route_row (List.map_filter id (wf_Signals spec)))"

definition routingTarget :: "('env, 'ast, 'prg, 'sch, 'loc) business_env \<Rightarrow> WorkflowDefinition \<Rightarrow> WorkflowRoutingTarget" where
  "routingTarget env def =
     \<lparr>tg_WorkflowName = wd_Name def, tg_WorkflowVersion = wd_WorkflowVersion def,
      tg_TenantID = be_TenantID env, tg_PartitionID = be_PartitionID env\<rparr>"

section \<open>Step schemas\<close>

definition objectSchema :: raw_json where
  "objectSchema = RawJson (VMap [(''type'', VStr ''object'')])"

definition typed :: "string \<Rightarrow> any" where
  "typed t = VMap [(''type'', VStr t)]"

definition object_with :: "go_map \<Rightarrow> string list \<Rightarrow> raw_json" where
  "object_with props required = RawJson (VMap [(''type'', VStr ''object''), (''properties'', VMap props),
     (''required'', VList (map VStr required))])"

definition errorSchema :: raw_json where
  "errorSchema = object_with [(''class'', typed ''string''), (''code'', typed ''string''), (''message'', typed ''string'')]
     [''class'', ''code'', ''message'']"

definition defaultSchemasForStep :: "StepSpec \<Rightarrow> (raw_json \<times> raw_json \<times> raw_json) option" where
  "defaultSchemasForStep step = (case step_Type step of
     StepTypeCall \<Rightarrow> Some (objectSchema, objectSchema, errorSchema)
   | StepTypeDelay \<Rightarrow> Some (objectSchema, objectSchema, errorSchema)
   | StepTypeSequence \<Rightarrow> Some (objectSchema, objectSchema, errorSchema)
   | StepTypeSignalSend \<Rightarrow> Some (objectSchema, objectSchema, errorSchema)
   | StepTypeParallel \<Rightarrow> Some (objectSchema, object_with [(''branches'', typed ''array'')] [''branches''], errorSchema)
   | StepTypeForeach \<Rightarrow> Some (objectSchema, object_with [(''items'', typed ''array'')] [''items''], errorSchema)
   | StepTypeSignalWait \<Rightarrow> Some (objectSchema, objectSchema, errorSchema)
   | StepTypeIf \<Rightarrow> Some (objectSchema,
       object_with [(''branch'', VMap [(''type'', VStr ''string''), (''enum'', VList [VStr ''then'', VStr ''else''])])]
         [''branch''], errorSchema)
   | _ \<Rightarrow> None)"

definition register_step_schema ::
    "('env, 'ast, 'prg, 'sch, 'loc) business_env \<Rightarrow> int \<Rightarrow> string \<Rightarrow> int \<Rightarrow> StepSpec \<Rightarrow> string \<Rightarrow> SchemaType \<Rightarrow> raw_json
      \<Rightarrow> unit op" where
  "register_step_schema env now name version step which kind blob =
     op_seq (op_map_err (\<lambda>err. Errf (''register '' @ which @ '' schema for step %s: %w'') [EStr (step_ID step), EErr err])
       (plat_run (RegisterSchema (be_db env) (''schema '' @ step_ID step @ '' '' @ which) now name version
          (step_ID step) kind blob))) (\<lambda>_. op_ok ())"

fun register_steps ::
    "('env, 'ast, 'prg, 'sch, 'loc) business_env \<Rightarrow> int \<Rightarrow> string \<Rightarrow> int \<Rightarrow> StepSpec list \<Rightarrow> unit op" where
  "register_steps env now name version [] = op_ok ()"
| "register_steps env now name version (step # steps) =
     (case defaultSchemasForStep step of
        None \<Rightarrow> register_steps env now name version steps
      | Some (inputSchema, outputSchema, errSchema) \<Rightarrow>
          op_seq (register_step_schema env now name version step ''input'' SchemaTypeInput inputSchema) (\<lambda>_.
          op_seq (register_step_schema env now name version step ''output'' SchemaTypeOutput outputSchema) (\<lambda>_.
          op_seq (register_step_schema env now name version step ''error'' SchemaTypeError errSchema) (\<lambda>_.
          register_steps env now name version steps))))"

definition registerStepSchemas ::
    "('env, 'ast, 'prg, 'sch, 'loc) business_env \<Rightarrow> int \<Rightarrow> WorkflowSpec \<Rightarrow> int \<Rightarrow> unit op" where
  "registerStepSchemas env now spec version = register_steps env now (wf_Name spec) version (CollectAllSteps spec)"

section \<open>Routing\<close>

definition assertRouting ::
    "('env, 'ast, 'prg, 'sch, 'loc) business_env \<Rightarrow> int \<Rightarrow> WorkflowDefinition \<Rightarrow> WorkflowSpec \<Rightarrow> unit op" where
  "assertRouting env now def spec =
     (let target = routingTarget env def in
      case planRouting spec of (bindings, routes) \<Rightarrow>
        op_seq (op_map_err (wrap ''activate trigger bindings'')
          (plat_exec (ReplaceForWorkflow (be_db env) now target bindings))) (\<lambda>_.
        op_map_err (wrap ''activate signal routes'')
          (plat_exec (ReplaceForWorkflowVersion (be_db env) now target routes))))"

section \<open>Creating a version\<close>

text \<open>\<open>int64(d.Seconds())\<close>: the seconds as a float64, truncated.\<close>

definition duration_seconds :: "int \<Rightarrow> int" where
  "duration_seconds d =
     \<lfloor>float64 (of_int (d div second) + float64 (of_int (d mod second) / 1000000000))\<rfloor>"

definition new_definition :: "WorkflowSpec \<Rightarrow> int \<Rightarrow> raw_json \<Rightarrow> WorkflowDefinition" where
  "new_definition spec version dslBlob =
     \<lparr>bm_ID = [], bm_CreatedAt = 0, bm_ModifiedAt = 0, bm_DeletedAt = None,
      wd_Name = wf_Name spec, wd_WorkflowVersion = version, wd_Status = WorkflowStatusDraft, wd_DSLBlob = dslBlob,
      wd_InputSchemaHash = [], wd_TimeoutSeconds = (if wf_Timeout spec > 0 then duration_seconds (wf_Timeout spec) else 0)\<rparr>"

definition Def_Create :: "engine_env \<Rightarrow> int \<Rightarrow> WorkflowDefinition \<Rightarrow> EngineState \<Rightarrow> (WorkflowDefinition \<times> EngineState) result" where
  "Def_Create env now def st =
     (let row = with_id (ee_id env ''workflow'') now def in
      and_then (jsonb ''create workflow'' [wd_DSLBlob row]) (\<lambda>_.
      and_then (create (ee_F env) ''create workflow'' definition_conflict row (es_defs st)) (\<lambda>t.
        Inr (row, st\<lparr>es_defs := t\<rparr>))))"

definition Def_Update ::
    "('env, 'ast, 'prg, 'sch, 'loc) business_env \<Rightarrow> WorkflowDefinition \<Rightarrow> EngineState \<Rightarrow> EngineState result" where
  "Def_Update env def st = and_then (be_UpdateDef env def (es_defs st)) (\<lambda>t. Inr (st\<lparr>es_defs := t\<rparr>))"

definition createWorkflow ::
    "('env, 'ast, 'prg, 'sch, 'loc) business_env \<Rightarrow> int \<Rightarrow> raw_json \<Rightarrow> WorkflowDefinition op" where
  "createWorkflow env now dslBlob =
     op_seq (op_map_err (wrap ''parse DSL'') (op_of (Parse (se_unmarshal (be_svc env)) dslBlob))) (\<lambda>spec.
     case ValidationResult_Error (Validate (se_cel (be_svc env)) (be_cron env) spec) of
       Some err \<Rightarrow> op_err (wrapped_in ErrDSLValidationFailed err)
     | None \<Rightarrow> op_seq (op_map_err (wrapped_in ErrDSLValidationFailed) (op_of (validateExecutableWorkflow spec))) (\<lambda>_.
     op_seq (op_map_err (wrap ''list existing versions'') (db_read (ListByNameForUpdate (be_db env) (wf_Name spec)))) (\<lambda>existing.
     case nextVersionOrIdentical existing dslBlob of
       (version, Some identical) \<Rightarrow>
         (if wd_Status identical = WorkflowStatusActive
          then op_seq (assertRouting env now identical spec) (\<lambda>_. op_ok identical) else op_ok identical)
     | (version, None) \<Rightarrow>
         op_seq (op_map_err (wrap ''register schemas'') (registerStepSchemas env now spec version)) (\<lambda>_.
         op_seq (op_map_err (wrap ''persist workflow'')
           (db_run (Def_Create (be_db env) now (new_definition spec version dslBlob)))) (\<lambda>def.
         op_seq (op_of (planScheduleRows def (wf_Schedules spec))) (\<lambda>scheds.
         if scheds = [] then op_ok def
         else op_seq (op_map_err (\<lambda>err. Errf
             ''materialise schedules (orphan DRAFT at workflow %s; retry blocked by idx_wd_name_version): %w''
             [EStr (bm_ID def), EErr err]) (plat_exec (CreateBatch (be_db env) now scheds))) (\<lambda>_. op_ok def)))))))"

definition CreateWorkflow ::
    "('env, 'ast, 'prg, 'sch, 'loc) business_env \<Rightarrow> int \<Rightarrow> raw_json \<Rightarrow> WorkflowDefinition op" where
  "CreateWorkflow env now dslBlob = createWorkflow env now dslBlob"

section \<open>Activating\<close>

text \<open>The first fire of a schedule: the nominal time in the schedule's zone, read in UTC, with its jitter.\<close>

definition first_fire :: "('sch, 'loc) cron_lib \<Rightarrow> int \<Rightarrow> ScheduleDefinition \<Rightarrow> ScheduleActivation result" where
  "first_fire cron now sch =
     and_then (case ParseCron cron (sd_CronExpr sch) of
        Inl err \<Rightarrow> Inl (Errf ''parse cron for %s: %w'' [EStr (sd_Name sch), EErr err]) | Inr c \<Rightarrow> Inr c) (\<lambda>cronSched.
     and_then (case NextInZone cron cronSched now (sd_Timezone sch) of
        Inl err \<Rightarrow> Inl (Errf ''timezone for %s: %w'' [EStr (sd_Name sch), EErr err]) | Inr t \<Rightarrow> Inr t) (\<lambda>nominal.
     let jitter = JitterFor cron (bm_ID sch) cronSched (loc_UTC cron) nominal in
       Inr \<lparr>sa_ID = bm_ID sch, sa_NextFireAt = nominal + jitter, sa_JitterSeconds = go_div jitter time_Second\<rparr>))"

fun plan_fires :: "('sch, 'loc) cron_lib \<Rightarrow> int \<Rightarrow> ScheduleDefinition list \<Rightarrow> ScheduleActivation list result" where
  "plan_fires cron now [] = Inr []"
| "plan_fires cron now (sch # rest) =
     and_then (first_fire cron now sch) (\<lambda>f. and_then (plan_fires cron now rest) (\<lambda>fs. Inr (f # fs)))"

definition load_definition :: "('env, 'ast, 'prg, 'sch, 'loc) business_env \<Rightarrow> string \<Rightarrow> WorkflowDefinition op" where
  "load_definition env i = op_map_err (wrapped_in ErrWorkflowNotFound) (db_read (Def_GetByIDForUpdate (be_db env) i))"

definition move_definition :: "WorkflowDefinitionStatus \<Rightarrow> WorkflowDefinition \<Rightarrow> WorkflowDefinition op" where
  "move_definition status def =
     op_map_err (wrapped_in ErrInvalidWorkflowStatus) (op_of (WorkflowDefinition_TransitionTo status def))"

definition activateWorkflow :: "('env, 'ast, 'prg, 'sch, 'loc) business_env \<Rightarrow> int \<Rightarrow> string \<Rightarrow> unit op" where
  "activateWorkflow env now i =
     op_seq (load_definition env i) (\<lambda>def0.
     op_seq (move_definition WorkflowStatusActive def0) (\<lambda>def.
     op_seq (op_map_err (wrap ''update workflow'') (db_exec (Def_Update env def))) (\<lambda>_.
     op_seq (op_map_err (wrap ''list schedules'')
       (plat_read (listByWorkflow (be_db env) (wd_Name def) (wd_WorkflowVersion def)))) (\<lambda>myScheds.
     op_seq (op_of (plan_fires (be_cron env) now myScheds)) (\<lambda>fires.
     op_seq (op_map_err (wrap ''activate schedules'')
       (plat_exec (ActivateByWorkflow (be_db env) now (wd_Name def) (wd_WorkflowVersion def) fires))) (\<lambda>_.
     op_seq (op_map_err (wrap ''parse DSL'') (op_of (Parse (se_unmarshal (be_svc env)) (wd_DSLBlob def)))) (\<lambda>spec.
     assertRouting env now def spec)))))))"

definition ActivateWorkflow :: "('env, 'ast, 'prg, 'sch, 'loc) business_env \<Rightarrow> int \<Rightarrow> string \<Rightarrow> unit op" where
  "ActivateWorkflow env now i = activateWorkflow env now i"

section \<open>Archiving\<close>

definition archiveWorkflow :: "('env, 'ast, 'prg, 'sch, 'loc) business_env \<Rightarrow> int \<Rightarrow> string \<Rightarrow> unit op" where
  "archiveWorkflow env now i =
     op_seq (load_definition env i) (\<lambda>def0.
     op_seq (move_definition WorkflowStatusArchived def0) (\<lambda>def.
     op_seq (op_map_err (wrap ''deactivate schedules'')
       (plat_exec (DeactivateByWorkflow (be_db env) now (wd_Name def)))) (\<lambda>_.
     op_seq (op_map_err (wrap ''deactivate trigger bindings'')
       (plat_exec (DeactivateByWorkflowVersion (be_db env) now (routingTarget env def)))) (\<lambda>_.
     op_map_err (wrap ''update workflow status'') (db_exec (Def_Update env def))))))"

definition ArchiveWorkflow :: "('env, 'ast, 'prg, 'sch, 'loc) business_env \<Rightarrow> int \<Rightarrow> string \<Rightarrow> unit op" where
  "ArchiveWorkflow env now i = archiveWorkflow env now i"

section \<open>Reading\<close>

definition Workflow_GetByID :: "engine_env \<Rightarrow> string \<Rightarrow> EngineState \<Rightarrow> WorkflowDefinition result" where
  "Workflow_GetByID env i st = repo_get (ee_F env) ''get workflow'' (es_defs st) i"

definition GetWorkflow :: "('env, 'ast, 'prg, 'sch, 'loc) business_env \<Rightarrow> string \<Rightarrow> WorkflowDefinition op" where
  "GetWorkflow env i = op_map_err (wrapped_in ErrWorkflowNotFound) (db_read (Workflow_GetByID (be_db env) i))"

definition GetWorkflowWithSchedules ::
    "('env, 'ast, 'prg, 'sch, 'loc) business_env \<Rightarrow> string \<Rightarrow> (WorkflowDefinition \<times> ScheduleDefinition list) op" where
  "GetWorkflowWithSchedules env i =
     op_seq (GetWorkflow env i) (\<lambda>def.
     op_seq (op_map_err (wrap ''list schedules'')
       (plat_read (listByWorkflow (be_db env) (wd_Name def) (wd_WorkflowVersion def)))) (\<lambda>scheds.
     op_ok (def, scheds)))"

end
