(* ===== verification/Outbox_Cron.thy ===== *)
theory Outbox_Cron
  imports Schedulers Workflow_Business
begin

text \<open>
  The sweeps on the tables around the engine: \<open>schedulers/cron.go\<close> with the payload of
  \<open>pkg/events\<close>, \<open>outbox.go\<close> and \<open>cleanup.go\<close>, and \<open>handlers/outbox_publish.go\<close>, the publication of
  an event right after it was stored.
\<close>

section \<open>The payload of a fired schedule (pkg/events)\<close>

text \<open>\<open>json:"input,omitempty"\<close>: an empty map is left out.\<close>

definition schedule_fired_payload :: "string \<Rightarrow> string \<Rightarrow> string \<Rightarrow> go_map \<Rightarrow> raw_json" where
  "schedule_fired_payload scheduleID scheduleName firedAt userInput =
     json_marshal (VMap ([(''schedule_id'', VStr scheduleID), (''schedule_name'', VStr scheduleName), (''fired_at'', VStr firedAt)]
       @ (if userInput = [] then [] else [(''input'', VMap userInput)])))"

section \<open>Cron (cron.go)\<close>

definition cronMissedFireThreshold :: int where "cronMissedFireThreshold = 5 * 60 * second"
definition cronDefaultBatchSize :: int where "cronDefaultBatchSize = 500"

definition schedule_input :: "raw_json \<Rightarrow> go_map" where
  "schedule_input payload =
     (if payload = RawEmpty then []
      else (case json_unmarshal_map payload of Inr (Some m) \<Rightarrow> m | _ \<Rightarrow> []))"

definition buildEvent :: "ScheduleDefinition \<Rightarrow> int \<Rightarrow> EventLog" where
  "buildEvent sched now =
     \<lparr>bm_ID = [], bm_CreatedAt = 0, bm_ModifiedAt = 0, bm_DeletedAt = None,
      ev_EventType = ScheduleFiredType, ev_Source = ''schedule:'' @ bm_ID sched,
      ev_IdempotencyKey = bm_ID sched @ '':'' @ format_RFC3339Nano now,
      ev_Payload = schedule_fired_payload (bm_ID sched) (sd_Name sched) (format_RFC3339 now) (schedule_input (sd_InputPayload sched)),
      ev_Published = False, ev_PublishedAt = None, ev_PublishClaimUntil = None, ev_PublishClaimOwner = [],
      ev_PublishAttempts = 0\<rparr>"

text \<open>The time the next fire is computed from: the due time, unless it is too long ago.\<close>

definition fire_base :: "int \<Rightarrow> ScheduleDefinition \<Rightarrow> int" where
  "fire_base now sched = (case sd_NextFireAt sched of
     None \<Rightarrow> now
   | Some t \<Rightarrow> (if time_Sub now t \<le> cronMissedFireThreshold then t else now))"

definition planOne :: "('sch, 'loc) cron_lib \<Rightarrow> int \<Rightarrow> ScheduleDefinition \<Rightarrow> schedule_plan result" where
  "planOne cron now sched = (case ParseCron cron (sd_CronExpr sched) of
     Inl _ \<Rightarrow> Inr (None, None, 0)
   | Inr cronSched \<Rightarrow> (case NextInZone cron cronSched (fire_base now sched) (sd_Timezone sched) of
       Inl _ \<Rightarrow> Inr (None, None, 0)
     | Inr nominal \<Rightarrow>
         (let jitter = JitterFor cron (bm_ID sched) cronSched (loc_UTC cron) nominal in
          Inr (Some (buildEvent sched now), Some (nominal + jitter), go_div jitter time_Second))))"

definition cron_batchSize :: "int \<Rightarrow> int" where
  "cron_batchSize configured = (if configured > 0 then configured else cronDefaultBatchSize)"

definition Cron_RunOnce ::
    "engine_env \<Rightarrow> ('sch, 'loc) cron_lib \<Rightarrow> int \<Rightarrow> int \<Rightarrow> nat op" where
  "Cron_RunOnce env cron now batchSize =
     op_seq (op_try (plat_run (ClaimAndFireBatch env now (planOne cron now) now (cron_batchSize batchSize)))) (\<lambda>r.
     case r of Inl _ \<Rightarrow> op_ok 0 | Inr fired \<Rightarrow> op_ok fired)"

section \<open>The outbox (outbox.go)\<close>

definition defaultOutboxLeaseTTL :: int where "defaultOutboxLeaseTTL = 30 * second"

definition buildIngestedEventMessage :: "string \<Rightarrow> string \<Rightarrow> EventLog \<Rightarrow> IngestedEventMessage result" where
  "buildIngestedEventMessage tenantID partitionID event =
     and_then (labelled ''unmarshal payload'' (json_unmarshal_map (ev_Payload event))) (\<lambda>payload.
       Inr \<lparr>im_EventID = bm_ID event, im_TenantID = tenantID, im_PartitionID = partitionID,
            im_EventType = ev_EventType event, im_Source = ev_Source event, im_Payload = payload\<rparr>)"

text \<open>Messages are published concurrently; which of them fail is the parameter \<open>publish\<close>.\<close>

definition outbox_one ::
    "engine_env \<Rightarrow> string \<Rightarrow> string \<Rightarrow> (IngestedEventMessage \<Rightarrow> unit result) \<Rightarrow> string \<Rightarrow> int \<Rightarrow> EventLog \<Rightarrow> bool op" where
  "outbox_one env tenantID partitionID publish owner now event =
     (case and_then (buildIngestedEventMessage tenantID partitionID event) publish of
        Inl _ \<Rightarrow> op_seq (op_ignore (plat_exec (Event_ReleaseClaim env (bm_ID event) owner))) (\<lambda>_. op_ok False)
      | Inr _ \<Rightarrow> try_then (plat_exec (MarkPublishedByOwner env (bm_ID event) owner now)) (\<lambda>_. op_ok True))"

definition outbox_lease :: "int \<Rightarrow> int" where
  "outbox_lease claimTTLSeconds =
     (let leaseTTL = int64 (claimTTLSeconds * second) in if leaseTTL \<le> 0 then defaultOutboxLeaseTTL else leaseTTL)"

definition Outbox_RunOnce ::
    "engine_env \<Rightarrow> string \<Rightarrow> string \<Rightarrow> (IngestedEventMessage \<Rightarrow> unit result) \<Rightarrow> string \<Rightarrow> int \<Rightarrow> int \<Rightarrow> int \<Rightarrow> int op" where
  "Outbox_RunOnce env tenantID partitionID publish owner now batchSize claimTTLSeconds =
     sweep_batch (plat_run (ClaimUnpublished env now batchSize owner (now + outbox_lease claimTTLSeconds)))
       (outbox_one env tenantID partitionID publish owner now)"

text \<open>Several batches in one wake-up, the \<open>k\<close>-th at the time \<open>clock k\<close>.\<close>

definition Outbox_RunUntilDrained ::
    "engine_env \<Rightarrow> string \<Rightarrow> string \<Rightarrow> (IngestedEventMessage \<Rightarrow> unit result) \<Rightarrow> string \<Rightarrow> (nat \<Rightarrow> int) \<Rightarrow> int \<Rightarrow> int \<Rightarrow> int \<Rightarrow> int op" where
  "Outbox_RunUntilDrained env tenantID partitionID publish owner clock batchSize claimTTLSeconds maxBatches =
     RunUntilDrained (\<lambda>k. Outbox_RunOnce env tenantID partitionID publish owner (clock k) batchSize claimTTLSeconds) batchSize maxBatches"

text \<open>The publication after the insert of the event (handlers/outbox_publish.go).\<close>

definition PublishAfterCreate ::
    "engine_env \<Rightarrow> string \<Rightarrow> string \<Rightarrow> string \<Rightarrow> (IngestedEventMessage \<Rightarrow> unit result) \<Rightarrow> int \<Rightarrow> EventLog \<Rightarrow> unit op" where
  "PublishAfterCreate env tenantID partitionID queueName publish now event =
     (if bm_ID event = [] \<or> queueName = [] then op_ok ()
      else (case (if ev_Payload event = RawEmpty then Inr None else json_unmarshal_map (ev_Payload event)) of
        Inl _ \<Rightarrow> op_ok ()
      | Inr payload \<Rightarrow>
          (case publish \<lparr>im_EventID = bm_ID event, im_TenantID = tenantID, im_PartitionID = partitionID,
             im_EventType = ev_EventType event, im_Source = ev_Source event,
             im_Payload = Some (case payload of None \<Rightarrow> [] | Some m \<Rightarrow> m)\<rparr> of
             Inl _ \<Rightarrow> op_ok ()
           | Inr _ \<Rightarrow> op_ignore (plat_exec (MarkPublishedIfUnpublished env now (bm_ID event))))))"

section \<open>Ingesting an event (handlers/event.go)\<close>

record IngestEventRequest =
  ir_EventType :: string
  ir_Source :: string
  ir_IdempotencyKey :: string
  ir_Payload :: "go_map option"

datatype ingest_reply = BadRequest string | StoreFailed | AlreadyIngested string | Ingested string

definition event_of_request :: "IngestEventRequest \<Rightarrow> EventLog" where
  "event_of_request req =
     \<lparr>bm_ID = [], bm_CreatedAt = 0, bm_ModifiedAt = 0, bm_DeletedAt = None,
      ev_EventType = ir_EventType req, ev_Source = ir_Source req, ev_IdempotencyKey = ir_IdempotencyKey req,
      ev_Payload = json_marshal (case ir_Payload req of None \<Rightarrow> VNil | Some m \<Rightarrow> VMap m),
      ev_Published = False, ev_PublishedAt = None, ev_PublishClaimUntil = None, ev_PublishClaimOwner = [],
      ev_PublishAttempts = 0\<rparr>"

text \<open>After the checks of the caller and the rate limit, which the handler makes before (\<open>Rest_Handlers\<close>).\<close>

definition IngestEvent ::
    "engine_env \<Rightarrow> string \<Rightarrow> string \<Rightarrow> string \<Rightarrow> (IngestedEventMessage \<Rightarrow> unit result) \<Rightarrow> int \<Rightarrow> IngestEventRequest
      \<Rightarrow> ingest_reply op" where
  "IngestEvent env tenantID partitionID queueName publish now req =
     (if ir_EventType req = [] then op_ok (BadRequest ''event_type is required'')
      else op_seq (if ir_IdempotencyKey req = [] then op_ok None
                   else op_seq (op_try (plat_read (FindByIdempotencyKey env (ir_IdempotencyKey req)))) (\<lambda>r.
                     op_ok (case r of Inl _ \<Rightarrow> None | Inr e \<Rightarrow> Some e))) (\<lambda>existing.
        case existing of
          Some e \<Rightarrow> op_ok (AlreadyIngested (bm_ID e))
        | None \<Rightarrow>
            op_seq (op_try (plat_run (Event_Create env ''event'' now (event_of_request req)))) (\<lambda>made. case made of
              Inl _ \<Rightarrow> op_ok StoreFailed
            | Inr e \<Rightarrow>
                op_seq (PublishAfterCreate env tenantID partitionID queueName publish now e) (\<lambda>_.
                op_ok (Ingested (bm_ID e))))))"

section \<open>Retention (cleanup.go)\<close>

definition cleanupBatch :: int where "cleanupBatch = 1000"

definition deleted_count :: "int op \<Rightarrow> int op" where
  "deleted_count m = op_seq (op_try m) (\<lambda>r. op_ok (case r of Inl _ \<Rightarrow> 0 | Inr n \<Rightarrow> n))"

definition deleteWorkflowRows :: "engine_env \<Rightarrow> bool \<Rightarrow> int \<Rightarrow> int \<Rightarrow> int op" where
  "deleteWorkflowRows env wired now retentionHours =
     (if \<not> wired then op_ok 0
      else let wfCutoff = now - int64 (retentionHours * (3600 * second)) in
        op_seq (deleted_count (db_run (Exec_DeleteCompletedBefore env now wfCutoff cleanupBatch))) (\<lambda>a.
        op_seq (deleted_count (db_run (Timer_DeleteCompletedBefore env now wfCutoff cleanupBatch))) (\<lambda>b.
        op_seq (deleted_count (db_run (Wait_DeleteCompletedBefore env now wfCutoff cleanupBatch))) (\<lambda>c.
        op_ok (a + b + c)))))"

definition Cleanup_RunOnce :: "engine_env \<Rightarrow> bool \<Rightarrow> int \<Rightarrow> int \<Rightarrow> int \<Rightarrow> int op" where
  "Cleanup_RunOnce env wired now retentionDays retentionHours =
     (let cutoff = now - int64 (retentionDays * (24 * 3600 * second)) in
      op_seq (deleted_count (plat_run (DeletePublishedBefore env now cutoff cleanupBatch))) (\<lambda>a.
      op_seq (deleted_count (db_run (Audit_DeleteBefore env now cutoff cleanupBatch))) (\<lambda>b.
      op_seq (deleteWorkflowRows env wired now retentionHours) (\<lambda>c.
      op_ok (a + b + c)))))"

end
