(* ===== verification/Work_Control.thy ===== *)
theory Work_Control
  imports Outbox_Cron
begin

text \<open>
  \<open>scheduling/timeout_resolver.go\<close> and \<open>multi_sweep.go\<close>, \<open>queues/wake_worker.go\<close> and
  \<open>reconcile_worker.go\<close>, \<open>handlers/retry_helpers.go\<close>: what decides when work is done. A wake message
  either dispatches one execution or runs a sweep; the sweeps of a runner are operations that
  return a count.
\<close>

section \<open>Deadlines (timeout_resolver.go)\<close>

record TimeoutResolver =
  tr_defaultTimeout :: int
  tr_maxTimeout :: int

definition defaultExecutionTimeout :: int where "defaultExecutionTimeout = 300 * second"
definition defaultMaxStepTimeout :: int where "defaultMaxStepTimeout = 300 * second"

definition NewTimeoutResolver :: "int \<Rightarrow> int \<Rightarrow> TimeoutResolver" where
  "NewTimeoutResolver defaultTimeout maxTimeout =
     \<lparr>tr_defaultTimeout = (if defaultTimeout \<le> 0 then defaultExecutionTimeout else defaultTimeout),
      tr_maxTimeout = (if maxTimeout \<le> 0 then defaultMaxStepTimeout else maxTimeout)\<rparr>"

definition minDuration :: "int \<Rightarrow> int \<Rightarrow> int" where
  "minDuration a b = (if a < b then a else b)"

text \<open>The definition is an argument, as the loader returns it.\<close>

definition ResolveTimeoutAt ::
    "TimeoutResolver \<Rightarrow> (raw_json \<Rightarrow> WorkflowSpec result) \<Rightarrow> WorkflowDefinition result \<Rightarrow> string \<Rightarrow> int \<Rightarrow> string
      \<Rightarrow> int \<Rightarrow> int result" where
  "ResolveTimeoutAt r unmarshal loaded workflowName workflowVersion state now =
     (let fallback = now + minDuration (tr_defaultTimeout r) (tr_maxTimeout r) in
      case loaded of
        Inl _ \<Rightarrow> Inr fallback
      | Inr def \<Rightarrow>
        (case Parse unmarshal (wd_DSLBlob def) of
           Inl _ \<Rightarrow> Inr fallback
         | Inr spec \<Rightarrow>
             (let dur0 = (case FindStep (Some spec) state of
                    Some step \<Rightarrow> (if step_Timeout step > 0 then step_Timeout step
                                else if wf_Timeout spec > 0 then wf_Timeout spec else tr_defaultTimeout r)
                  | None \<Rightarrow> (if wf_Timeout spec > 0 then wf_Timeout spec else tr_defaultTimeout r));
                  dur = minDuration dur0 (tr_maxTimeout r)
              in if dur \<le> 0 then
                   Inl (Errf ''resolved timeout non-positive for %s/%d/%s'' [EStr workflowName, EInt workflowVersion, EStr state])
                 else Inr (now + dur))))"

section \<open>Manual retries (retry_helpers.go)\<close>

definition retryableStatuses :: "ExecutionStatus \<Rightarrow> bool" where
  "retryableStatuses s = (case s of
     ExecStatusPending \<Rightarrow> False | ExecStatusDispatched \<Rightarrow> False | ExecStatusRunning \<Rightarrow> False
   | ExecStatusCompleted \<Rightarrow> False | ExecStatusFailed \<Rightarrow> True | ExecStatusFatal \<Rightarrow> True | ExecStatusTimedOut \<Rightarrow> True
   | ExecStatusInvalidInputContract \<Rightarrow> True | ExecStatusInvalidOutputContract \<Rightarrow> True | ExecStatusStale \<Rightarrow> False
   | ExecStatusRetryScheduled \<Rightarrow> True | ExecStatusWaiting \<Rightarrow> False)"

definition execution_status_string :: "ExecutionStatus \<Rightarrow> string" where
  "execution_status_string s = (case s of
     ExecStatusPending \<Rightarrow> ''pending'' | ExecStatusDispatched \<Rightarrow> ''dispatched'' | ExecStatusRunning \<Rightarrow> ''running''
   | ExecStatusWaiting \<Rightarrow> ''waiting'' | ExecStatusCompleted \<Rightarrow> ''completed'' | ExecStatusFailed \<Rightarrow> ''failed''
   | ExecStatusFatal \<Rightarrow> ''fatal'' | ExecStatusTimedOut \<Rightarrow> ''timed_out''
   | ExecStatusInvalidInputContract \<Rightarrow> ''invalid_input_contract''
   | ExecStatusInvalidOutputContract \<Rightarrow> ''invalid_output_contract''
   | ExecStatusStale \<Rightarrow> ''stale'' | ExecStatusRetryScheduled \<Rightarrow> ''retry_scheduled'')"

definition createRetryExecution ::
    "('env, 'ast, 'prg) svc_env \<Rightarrow> bool \<Rightarrow> int \<Rightarrow> WorkflowStateExecution \<Rightarrow> WorkflowInstance \<Rightarrow> WorkflowStateExecution op" where
  "createRetryExecution env audits now exec inst =
     (if \<not> retryableStatuses (ex_Status exec) then
        op_err (Errf ''execution not retryable in status %s'' [EStr (execution_status_string (ex_Status exec))])
      else op_seq (op_map_err (wrap ''generate token'') (op_of (stmt (ee_F (se_db env)) ''generate token''))) (\<lambda>_.
        op_seq (op_map_err (\<lambda>err. if error_is err ErrStaleMutation then wrap ''reset instance for retry'' err else err)
          (db_run (CreateRetryExecution (se_db env) now
            \<lparr>cr_Execution = exec, cr_Instance = inst,
             cr_NewExecution = retry_execution exec (ee_token (se_db env) ''retry'') None\<rparr>))) (\<lambda>newExec.
        op_seq (if audits then append_audit env ''retry audit'' now
            (new_audit (ex_InstanceID exec) (bm_ID newExec) ''state.retried'' (ex_State exec) (ex_TraceID exec) RawEmpty)
          else op_ok ()) (\<lambda>_. op_ok newExec))))"

section \<open>Running several sweeps (multi_sweep.go)\<close>

definition sweep_order :: "string list" where
  "sweep_order = [''dispatch'', ''outbox'', ''retry'', ''timer'', ''timeout'', ''signal'', ''scope'', ''cron'']"

text \<open>The named sweeps in their order, then the others, which the source takes in the order of its map.\<close>

definition NewMultiSweepRunner :: "(string \<times> int op) list \<Rightarrow> (string \<times> int op) list" where
  "NewMultiSweepRunner sweeps =
     List.map_filter (\<lambda>name. map_option (Pair name) (map_of sweeps name)) sweep_order @
     filter (\<lambda>(name, fn). name \<notin> set sweep_order) sweeps"

fun run_jobs :: "string list \<Rightarrow> (string \<times> int op) list \<Rightarrow> int \<Rightarrow> int op" where
  "run_jobs jobs [] acc = op_ok acc"
| "run_jobs jobs ((name, fn) # rest) acc =
     (if jobs \<noteq> [] \<and> name \<notin> set jobs then run_jobs jobs rest acc
      else op_seq fn (\<lambda>n. run_jobs jobs rest (acc + n)))"

definition RunJobsOnce :: "(string \<times> int op) list \<Rightarrow> string list \<Rightarrow> int op" where
  "RunJobsOnce runner jobs = run_jobs jobs runner 0"

text \<open>\<open>runAll\<close> without a cancelled context.\<close>

definition runAll :: "(string \<times> int op) list \<Rightarrow> unit op" where
  "runAll runner = op_seq (RunJobsOnce runner []) (\<lambda>_. op_ok ())"

section \<open>Wake messages (wake_worker.go, reconcile_worker.go)\<close>

record WakeMessage =
  wm_Kind :: string
  wm_ExecutionID :: string
  wm_Jobs :: "string list"

definition ErrNotRetryable :: errmsg where "ErrNotRetryable = Errf ''not retryable'' []"

text \<open>A message is absent (no bytes), or decodes or not.\<close>

definition parseWake :: "WakeMessage result option \<Rightarrow> WakeMessage result" where
  "parseWake message = (case message of
     None \<Rightarrow> Inr \<lparr>wm_Kind = [], wm_ExecutionID = [], wm_Jobs = []\<rparr>
   | Some (Inl err) \<Rightarrow> Inl (Errf ''%w: unmarshal wake: %w'' [EErr ErrNotRetryable, EErr err])
   | Some (Inr wake) \<Rightarrow> Inr wake)"

definition parseWakeMessage :: "WakeMessage result option \<Rightarrow> string \<Rightarrow> WakeMessage result" where
  "parseWakeMessage message defaultKind =
     and_then (parseWake message) (\<lambda>wake. Inr (if wm_Kind wake = [] then wake\<lparr>wm_Kind := defaultKind\<rparr> else wake))"

text \<open>A worker has the sweeps it was built with; without a target it only sweeps.\<close>

record ('env, 'ast, 'prg) WakeWorker =
  ww_kind :: string
  ww_sweeps :: "(string \<times> int op) list"
  ww_target :: "(('env, 'ast, 'prg) row_env \<times> (ExecutionCommand \<Rightarrow> unit result)) option"

definition dispatchOne ::
    "('env, 'ast, 'prg) svc_env \<Rightarrow> (ExecutionCommand \<Rightarrow> unit result) \<Rightarrow> int \<Rightarrow> string \<Rightarrow> unit op" where
  "dispatchOne env publish now executionID =
     op_seq (op_try (db_read (Exec_GetByID (se_db env) executionID))) (\<lambda>r. case r of
       Inl _ \<Rightarrow> op_ok ()
     | Inr exec \<Rightarrow>
         op_seq (op_try (Dispatch env now exec)) (\<lambda>d. case d of
           Inl err \<Rightarrow> (if error_is err ErrAlreadyDispatched then op_ok () else op_err (wrap ''dispatch wake'' err))
         | Inr cmd \<Rightarrow> (case publish cmd of
             Inr _ \<Rightarrow> op_ok ()
           | Inl perr \<Rightarrow>
               op_seq (op_ignore (RevertDispatch env now (bm_ID exec))) (\<lambda>_. op_err (wrap ''dispatch wake publish'' perr)))))"

definition run_sweep :: "(string \<times> int op) list \<Rightarrow> string \<Rightarrow> unit op" where
  "run_sweep sweeps name = (case map_of sweeps name of None \<Rightarrow> op_ok () | Some m \<Rightarrow> op_seq m (\<lambda>_. op_ok ()))"

definition handleDispatch :: "('env, 'ast, 'prg) WakeWorker \<Rightarrow> int \<Rightarrow> string \<Rightarrow> unit op" where
  "handleDispatch w now executionID = (case ww_target w of
     Some (row, publish) \<Rightarrow>
       (if executionID \<noteq> [] then dispatchOne (row executionID) publish now executionID else run_sweep (ww_sweeps w) ''dispatch'')
   | None \<Rightarrow> run_sweep (ww_sweeps w) ''dispatch'')"

definition WakeWorker_Handle :: "('env, 'ast, 'prg) WakeWorker \<Rightarrow> int \<Rightarrow> WakeMessage result option \<Rightarrow> unit op" where
  "WakeWorker_Handle w now message = (case parseWakeMessage message (ww_kind w) of
     Inl err \<Rightarrow> op_err err
   | Inr wake \<Rightarrow>
       (if wm_Kind wake = ''dispatch'' then handleDispatch w now (wm_ExecutionID wake)
        else if wm_Kind wake \<in> {''retry'', ''timer'', ''timeout'', ''signal''} then run_sweep (ww_sweeps w) (wm_Kind wake)
        else op_err (Errf ''%w: unknown wake kind %q'' [EErr ErrNotRetryable, EStr (wm_Kind wake)])))"

record ReconcileWorker =
  rw_runner :: "(string \<times> int op) list option"
  rw_cronOnce :: "int op option"
  rw_cleanup :: "int op option"

definition run_fixed :: "int op option \<Rightarrow> (string \<times> int op) list option \<Rightarrow> string \<Rightarrow> unit op" where
  "run_fixed once runner job = (case once of
     Some m \<Rightarrow> op_seq m (\<lambda>_. op_ok ())
   | None \<Rightarrow> (case runner of None \<Rightarrow> op_ok () | Some r \<Rightarrow> op_seq (RunJobsOnce r [job]) (\<lambda>_. op_ok ())))"

definition runReconcile :: "ReconcileWorker \<Rightarrow> WakeMessage \<Rightarrow> unit op" where
  "runReconcile w wake = (case rw_runner w of
     None \<Rightarrow> op_err (Errf ''%w: reconcile runner not configured'' [EErr ErrNotRetryable])
   | Some r \<Rightarrow>
       (let jobs = (if wm_Kind wake \<noteq> [] \<and> wm_Kind wake \<noteq> ''reconcile'' \<and> wm_Jobs wake = []
                    then [wm_Kind wake] else wm_Jobs wake)
        in op_seq (RunJobsOnce r jobs) (\<lambda>_. op_ok ())))"

definition ReconcileWorker_Handle :: "ReconcileWorker \<Rightarrow> WakeMessage result option \<Rightarrow> unit op" where
  "ReconcileWorker_Handle w message = (case parseWake message of
     Inl err \<Rightarrow> op_err err
   | Inr wake \<Rightarrow>
       (if rw_cronOnce w \<noteq> None \<or> wm_Kind wake = ''cron'' then run_fixed (rw_cronOnce w) (rw_runner w) ''cron''
        else if rw_cleanup w \<noteq> None \<or> wm_Kind wake = ''cleanup'' then run_fixed (rw_cleanup w) (rw_runner w) ''cleanup''
        else runReconcile w wake))"

end
