(* ===== verification/Connector.thy ===== *)
theory Connector
  imports Event_Router
begin

text \<open>
  \<open>connector/types.go\<close>, \<open>adapter.go\<close> and \<open>registry.go\<close>: what an adapter takes and gives, and the
  registry adapters are looked up in. The JSON schemas an adapter describes itself with are read by
  nothing in the repository and are left out.
\<close>

section \<open>Types (types.go)\<close>

definition ErrorRetryable :: string where "ErrorRetryable = ''retryable''"
definition ErrorFatal :: string where "ErrorFatal = ''fatal''"
definition ErrorCompensatable :: string where "ErrorCompensatable = ''compensatable''"
definition ErrorExternalDependency :: string where "ErrorExternalDependency = ''external_dependency''"

definition ErrorClass_IsValid :: "string \<Rightarrow> bool" where
  "ErrorClass_IsValid ec \<longleftrightarrow> ec \<in> {ErrorRetryable, ErrorFatal, ErrorCompensatable, ErrorExternalDependency}"

record ExecuteRequest =
  er_Input :: go_map
  er_Config :: go_map
  er_Credentials :: "(string \<times> string) list"
  er_Metadata :: "(string \<times> string) list"
  er_IdempotencyKey :: string

text \<open>An output map that is nil is \<open>None\<close>; it encodes as null.\<close>

record ExecuteResponse =
  rp_Output :: "go_map option"
  rp_RawBody :: raw_json

record ExecutionError =
  xe_Class :: string
  xe_Code :: string
  xe_Message :: string
  xe_Details :: "go_map option"

definition ExecutionError_Error :: "ExecutionError \<Rightarrow> string" where
  "ExecutionError_Error e = ''['' @ xe_Class e @ ''] '' @ xe_Code e @ '': '' @ xe_Message e"

section \<open>Adapters and their registry (adapter.go, registry.go)\<close>

record Adapter =
  ad_Type :: string
  ad_DisplayName :: string
  ad_Execute :: "ExecuteRequest \<Rightarrow> ExecutionError + ExecuteResponse"
  ad_Validate :: "ExecuteRequest \<Rightarrow> unit result"

type_synonym Registry = "(string \<times> Adapter) list"

definition NewRegistry :: Registry where "NewRegistry = []"

definition Registry_Register :: "Adapter \<Rightarrow> Registry \<Rightarrow> Registry result" where
  "Registry_Register adapter r =
     (let t = ad_Type adapter in
      if map_of r t \<noteq> None then Inl (Errf ''adapter %q already registered'' [EStr t]) else Inr (AList.update t adapter r))"

definition Registry_Get :: "string \<Rightarrow> Registry \<Rightarrow> Adapter result" where
  "Registry_Get adapterType r = (case map_of r adapterType of
     None \<Rightarrow> Inl (Errf ''adapter %q not registered'' [EStr adapterType]) | Some adapter \<Rightarrow> Inr adapter)"

definition Registry_List :: "Registry \<Rightarrow> string list" where
  "Registry_List r = map fst r"

end
