(* ===== verification/Execution_Worker.thy ===== *)
theory Execution_Worker
  imports Connector Branch_Scope Go_Time_Parse
begin

text \<open>
  \<open>queues/execution_worker.go\<close>: a worker takes an execution command,
  performs its step and reports the result to the engine. The adapters behind the registry are
  the values of the registry; the time zone of \<open>now\<close> and the timestamps of the CEL library are
  the parameters \<open>wk_now\<close> and \<open>wk_time\<close>. A command is handled at the time \<open>now\<close>.
\<close>

section \<open>The worker and what a step reads\<close>

text \<open>A signal step makes two calls of the engine; the first one draws from \<open>wk_send\<close>.\<close>

record ('env, 'ast, 'prg) ExecutionWorker =
  wk_svc :: "('env, 'ast, 'prg) svc_env"
  wk_send :: "('env, 'ast, 'prg) svc_env"
  wk_ff :: "rat \<Rightarrow> string"
  wk_registry :: Registry
  wk_now :: "int \<Rightarrow> any"
  wk_time :: "any \<Rightarrow> int option"

definition executionMetadata :: "ExecutionCommand \<Rightarrow> go_map" where
  "executionMetadata cmd =
     [(''instance_id'', VStr (ec_InstanceID cmd)), (''execution_id'', VStr (ec_ExecutionID cmd)),
      (''workflow_name'', VStr (ec_Workflow cmd)), (''workflow_version'', VInt (ec_WorkflowVersion cmd)),
      (''correlation_key'', VStr (ec_CorrelationKey cmd))]"

definition command_vars :: "ExecutionCommand \<Rightarrow> go_map" where
  "command_vars cmd =
     (if ec_Vars cmd = RawEmpty then []
      else (case json_unmarshal_map (ec_Vars cmd) of Inr (Some m) \<Rightarrow> m | _ \<Rightarrow> []))"

record step_scope =
  ps_metadata :: go_map
  ps_vars :: go_map

definition executionScope :: "ExecutionCommand \<Rightarrow> step_scope" where
  "executionScope cmd = \<lparr>ps_metadata = executionMetadata cmd, ps_vars = command_vars cmd\<rparr>"

definition expressionVars :: "go_map \<Rightarrow> any \<Rightarrow> step_scope \<Rightarrow> go_map" where
  "expressionVars payload now scope =
     [(''payload'', VMap payload), (''now'', now), (''vars'', VMap (ps_vars scope)), (''metadata'', VMap (ps_metadata scope))]"

text \<open>Decoding an input payload into a map: absent and null give an empty one.\<close>

definition decode_payload :: "string \<Rightarrow> raw_json \<Rightarrow> go_map result" where
  "decode_payload label payload =
     (if payload = RawEmpty then Inr []
      else (case json_unmarshal_map payload of
        Inl err \<Rightarrow> Inl (wrap label err) | Inr None \<Rightarrow> Inr [] | Inr (Some m) \<Rightarrow> Inr m))"

definition payloadVars :: "raw_json \<Rightarrow> step_scope \<Rightarrow> go_map result" where
  "payloadVars inputPayload scope =
     and_then (decode_payload ''unmarshal input payload'' inputPayload) (\<lambda>payload.
     let vars = map_put_all payload [(''payload'', VMap payload)];
         carried = (case map_of payload ''metadata'' of Some (VMap m) \<Rightarrow> m | _ \<Rightarrow> []);
         with_metadata = (if ps_metadata scope \<noteq> []
           then map_put ''metadata'' (VMap (map_put_all (ps_metadata scope) (map_put_all carried []))) vars else vars)
     in Inr (map_put ''vars'' (VMap (ps_vars scope)) with_metadata))"

definition resolveStepInput :: "(rat \<Rightarrow> string) \<Rightarrow> go_map \<Rightarrow> raw_json \<Rightarrow> step_scope \<Rightarrow> go_map result" where
  "resolveStepInput ff stepInput inputPayload scope =
     and_then (payloadVars inputPayload scope) (\<lambda>vars.
     if stepInput = [] then
       (case map_of vars ''payload'' of
          Some (VMap payload) \<Rightarrow> Inr payload | _ \<Rightarrow> Inl (Errf ''resolved payload was not an object'' []))
     else and_then (labelled ''resolve step input templates'' (ResolveTemplateValue ff (VMap stepInput) vars)) (\<lambda>resolved.
       case resolved of VMap m \<Rightarrow> Inr m | _ \<Rightarrow> Inl (Errf ''resolved step input was not an object'' [])))"

definition resolveSignalSend ::
    "(rat \<Rightarrow> string) \<Rightarrow> SignalSendSpec \<Rightarrow> raw_json \<Rightarrow> step_scope \<Rightarrow> (string \<times> raw_json) result" where
  "resolveSignalSend ff spec inputPayload scope =
     and_then (payloadVars inputPayload scope) (\<lambda>vars.
     and_then (labelled ''resolve signal target'' (ResolveTemplate ff (ss_TargetWorkflowID spec) vars)) (\<lambda>target.
     and_then (labelled ''resolve signal payload'' (ResolveTemplateValue ff (VMap (SignalSendSpec.ss_Payload spec)) vars)) (\<lambda>v.
       if v = VNil then Inr (target, empty_object) else Inr (target, json_marshal v))))"

definition resolveDelayFireAt ::
    "('env, 'ast, 'prg) ExecutionWorker \<Rightarrow> int \<Rightarrow> StepSpec \<Rightarrow> raw_json \<Rightarrow> step_scope \<Rightarrow> int result" where
  "resolveDelayFireAt w now step inputPayload scope = (case step_Delay step of
     None \<Rightarrow> Inl (Errf ''delay step is missing delay configuration'' [])
   | Some delay \<Rightarrow>
       (if delay_Duration delay > 0 then Inr (now + delay_Duration delay)
        else and_then (decode_payload ''unmarshal delay input payload'' inputPayload) (\<lambda>payload.
          let cel = se_cel (wk_svc w) in
          and_then (labelled ''create CEL env'' (NewExpressionEnv cel)) (\<lambda>env.
          and_then (labelled ''compile delay.until'' (CompileExpression cel env (delay_Until delay))) (\<lambda>ast.
          and_then (labelled ''evaluate delay.until''
            (EvaluateExpression cel env ast (expressionVars payload (wk_now w now) scope))) (\<lambda>v.
          case wk_time w v of
            Some t \<Rightarrow> Inr t
          | None \<Rightarrow> (case v of
              VStr s \<Rightarrow> (case parse_RFC3339 s of
                 None \<Rightarrow> Inl (Errf ''parse delay timestamp %q: %w'' [EStr s, EErr (Errf ''cannot parse time'' [])])
               | Some t \<Rightarrow> Inr t)
            | _ \<Rightarrow> Inl (Errf ''delay.until must evaluate to RFC3339 string or timestamp, got %T'' []))))))))"

section \<open>Reporting to the engine\<close>

text \<open>\<open>errors.Is(err, ErrInvalidToken) || errors.Is(err, ErrStaleExecution)\<close>: the command was used up.\<close>

definition used_up :: "errmsg \<Rightarrow> bool" where
  "used_up err \<longleftrightarrow> error_is err ErrInvalidToken \<or> error_is err ErrStaleExecution"

definition unless_used_up :: "(errmsg \<Rightarrow> errmsg) \<Rightarrow> 'a op \<Rightarrow> unit op" where
  "unless_used_up label m = op_seq (op_try m) (\<lambda>r. case r of
     Inl err \<Rightarrow> (if used_up err then op_ok () else op_err (label err)) | Inr _ \<Rightarrow> op_ok ())"

definition commitSuccess :: "('env, 'ast, 'prg) ExecutionWorker \<Rightarrow> int \<Rightarrow> ExecutionCommand \<Rightarrow> raw_json \<Rightarrow> unit op" where
  "commitSuccess w now cmd output = unless_used_up (wrap ''commit'') (Commit (wk_svc w) now
     \<lparr>rq_ExecutionID = ec_ExecutionID cmd, rq_ExecutionToken = ec_ExecutionToken cmd,
      rq_Output = (if output = RawEmpty then empty_object else output), rq_Error = None\<rparr>)"

definition worker_commitError ::
    "('env, 'ast, 'prg) ExecutionWorker \<Rightarrow> int \<Rightarrow> ExecutionCommand \<Rightarrow> string \<Rightarrow> string \<Rightarrow> string \<Rightarrow> unit op" where
  "worker_commitError w now cmd errorClass errorCode errorMessage = op_ignore (Commit (wk_svc w) now
     \<lparr>rq_ExecutionID = ec_ExecutionID cmd, rq_ExecutionToken = ec_ExecutionToken cmd, rq_Output = RawEmpty,
      rq_Error = Some \<lparr>ce_Class = errorClass, ce_Code = errorCode, ce_Message = errorMessage\<rparr>\<rparr>)"

definition worker_fatal ::
    "('env, 'ast, 'prg) ExecutionWorker \<Rightarrow> int \<Rightarrow> ExecutionCommand \<Rightarrow> string \<Rightarrow> errmsg \<Rightarrow> unit op" where
  "worker_fatal w now cmd errorCode err = worker_commitError w now cmd ''fatal'' errorCode (errmsg_text err)"

section \<open>Steps\<close>

definition call_request :: "('env, 'ast, 'prg) ExecutionWorker \<Rightarrow> ExecutionCommand \<Rightarrow> go_map \<Rightarrow> ExecuteRequest" where
  "call_request w cmd input =
     \<lparr>er_Input = input, er_Config = [], er_Credentials = [],
      er_Metadata = [(''execution_id'', ec_ExecutionID cmd), (''instance_id'', ec_InstanceID cmd),
        (''tenant_id'', (case se_claims (wk_svc w) of None \<Rightarrow> [] | Some t \<Rightarrow> t)), (''state'', ec_State cmd)],
      er_IdempotencyKey = ec_ExecutionID cmd @ '':'' @ itoa (ec_Attempt cmd)\<rparr>"

definition executeCallStep ::
    "('env, 'ast, 'prg) ExecutionWorker \<Rightarrow> int \<Rightarrow> ExecutionCommand \<Rightarrow> StepSpec \<Rightarrow> unit op" where
  "executeCallStep w now cmd step = (case step_Call step of
     None \<Rightarrow> op_err (go_panic ''nil pointer dereference'')
   | Some call \<Rightarrow>
     (case Registry_Get (call_Action call) (wk_registry w) of
        Inl err \<Rightarrow> worker_fatal w now cmd ''connector_not_found''
          (Errf ''connector %q not found: %v'' [EStr (call_Action call), EErr err])
      | Inr adapter \<Rightarrow>
          (case resolveStepInput (wk_ff w) (call_Input call) (ec_InputPayload cmd) (executionScope cmd) of
             Inl err \<Rightarrow> worker_fatal w now cmd ''input_resolution_failed'' err
           | Inr input \<Rightarrow>
               (case ad_Execute adapter (call_request w cmd input) of
                  Inl failure \<Rightarrow> worker_commitError w now cmd (xe_Class failure) (xe_Code failure) (xe_Message failure)
                | Inr resp \<Rightarrow> commitSuccess w now cmd
                    (json_marshal (case rp_Output resp of None \<Rightarrow> VNil | Some m \<Rightarrow> VMap m))))))"

definition executeIfStep ::
    "('env, 'ast, 'prg) ExecutionWorker \<Rightarrow> int \<Rightarrow> ExecutionCommand \<Rightarrow> StepSpec \<Rightarrow> unit op" where
  "executeIfStep w now cmd step = (case step_If step of
     None \<Rightarrow> worker_commitError w now cmd ''fatal'' ''invalid_if_step'' ''if step is missing if configuration''
   | Some cond \<Rightarrow>
     (case decode_payload ''unmarshal input payload'' (ec_InputPayload cmd) of
        Inl err \<Rightarrow> worker_fatal w now cmd ''input_unmarshal_error'' err
      | Inr payload \<Rightarrow>
        (let cel = se_cel (wk_svc w) in
         op_seq (op_map_err (wrap ''create CEL env'') (op_of (NewExpressionEnv cel))) (\<lambda>env.
         case CompileExpression cel env (if_Expr cond) of
           Inl err \<Rightarrow> worker_fatal w now cmd ''invalid_if_expression'' err
         | Inr ast \<Rightarrow>
           (case EvaluateCondition cel env ast (expressionVars payload (wk_now w now) (executionScope cmd)) of
              Inl err \<Rightarrow> worker_fatal w now cmd ''if_evaluation_failed'' err
            | Inr holds \<Rightarrow> commitSuccess w now cmd
                (json_marshal (VMap [(''branch'', VStr (if holds then ''then'' else ''else''))])))))))"

definition executeDelayStep ::
    "('env, 'ast, 'prg) ExecutionWorker \<Rightarrow> int \<Rightarrow> ExecutionCommand \<Rightarrow> StepSpec \<Rightarrow> unit op" where
  "executeDelayStep w now cmd step =
     (case resolveDelayFireAt w now step (ec_InputPayload cmd) (executionScope cmd) of
        Inl err \<Rightarrow> worker_fatal w now cmd ''delay_resolution_failed'' err
      | Inr fireAt \<Rightarrow>
          (if \<not> fireAt > now then commitSuccess w now cmd RawEmpty
           else unless_used_up (\<lambda>err. Errf ''park execution until %s: %w'' [EStr (format_RFC3339 fireAt), EErr err])
             (ParkExecutionUntil (wk_svc w) now (ec_ExecutionID cmd) (ec_ExecutionToken cmd) fireAt)))"

definition executeSignalWaitStep ::
    "('env, 'ast, 'prg) ExecutionWorker \<Rightarrow> int \<Rightarrow> ExecutionCommand \<Rightarrow> StepSpec \<Rightarrow> unit op" where
  "executeSignalWaitStep w now cmd step =
     unless_used_up (wrap ''start signal wait'') (StartSignalWait (wk_svc w) now cmd (Some step))"

definition executeSignalSendStep ::
    "('env, 'ast, 'prg) ExecutionWorker \<Rightarrow> int \<Rightarrow> ExecutionCommand \<Rightarrow> StepSpec \<Rightarrow> unit op" where
  "executeSignalSendStep w now cmd step = (case step_SignalSend step of
     None \<Rightarrow> worker_commitError w now cmd ''fatal'' ''invalid_signal_send_step''
       ''signal_send step is missing signal_send configuration''
   | Some send \<Rightarrow>
     (case resolveSignalSend (wk_ff w) send (ec_InputPayload cmd) (executionScope cmd) of
        Inl err \<Rightarrow> worker_fatal w now cmd ''signal_resolution_failed'' err
      | Inr (target, payload) \<Rightarrow>
          op_seq (op_map_err (wrap ''send signal'')
            (SendSignal (wk_send w) now target (SignalSendSpec.ss_SignalName send) payload)) (\<lambda>_.
          commitSuccess w now cmd empty_object)))"

definition executeBranchScopeStep ::
    "('env, 'ast, 'prg) ExecutionWorker \<Rightarrow> int \<Rightarrow> ExecutionCommand \<Rightarrow> StepSpec \<Rightarrow> unit op" where
  "executeBranchScopeStep w now cmd step =
     unless_used_up (wrap ''start branch scope'') (StartBranchScope (wk_svc w) now cmd (Some step))"

definition execute_step ::
    "('env, 'ast, 'prg) ExecutionWorker \<Rightarrow> int \<Rightarrow> ExecutionCommand \<Rightarrow> StepSpec \<Rightarrow> unit op" where
  "execute_step w now cmd step = (case step_Type step of
     StepTypeCall \<Rightarrow> executeCallStep w now cmd step
   | StepTypeIf \<Rightarrow> executeIfStep w now cmd step
   | StepTypeDelay \<Rightarrow> executeDelayStep w now cmd step
   | StepTypeSignalWait \<Rightarrow> executeSignalWaitStep w now cmd step
   | StepTypeSignalSend \<Rightarrow> executeSignalSendStep w now cmd step
   | StepTypeSequence \<Rightarrow> commitSuccess w now cmd RawEmpty
   | StepTypeParallel \<Rightarrow> executeBranchScopeStep w now cmd step
   | StepTypeForeach \<Rightarrow> executeBranchScopeStep w now cmd step
   | _ \<Rightarrow> worker_commitError w now cmd ''fatal'' ''unsupported_step_type''
       (errmsg_text (Errf ''step type %q is not executable by the current runtime'' [EStr (step_type_string (step_Type step))])))"

definition ExecutionWorker_Handle ::
    "('env, 'ast, 'prg) ExecutionWorker \<Rightarrow> int \<Rightarrow> ExecutionCommand result \<Rightarrow> unit op" where
  "ExecutionWorker_Handle w now message = (case message of
     Inl err \<Rightarrow> op_err (wrap ''unmarshal execution command'' err)
   | Inr cmd \<Rightarrow>
       op_seq (op_try (op_map_err (wrap ''load workflow definition'')
         (db_read (Def_GetByNameAndVersion (se_db (wk_svc w)) (ec_Workflow cmd) (ec_WorkflowVersion cmd))))) (\<lambda>r. case r of
         Inl err \<Rightarrow> worker_fatal w now cmd ''definition_not_found'' err
       | Inr def \<Rightarrow>
         (case Parse (se_unmarshal (wk_svc w)) (wd_DSLBlob def) of
            Inl err \<Rightarrow> worker_fatal w now cmd ''dsl_parse_error'' (wrap ''parse workflow DSL'' err)
          | Inr spec \<Rightarrow>
            (case FindStep (Some spec) (ec_State cmd) of
               None \<Rightarrow> worker_fatal w now cmd ''step_not_found'' (Errf ''step %q not found in workflow'' [EStr (ec_State cmd)])
             | Some step \<Rightarrow> execute_step w now cmd step))))"

end
