(* ===== verification/Workflow_Correct.thy ===== *)
theory Workflow_Correct
  imports Outbox_Cron State_Engine_Correct
begin

text \<open>
  What holds of the versions of a workflow: replacing the trigger bindings of a workflow leaves exactly
  the given ones live, and at most one version of a workflow is live, in its schedules and in its
  bindings, whatever requests are served and wherever they fail.
\<close>

section \<open>Replacing bindings\<close>

definition merged ::
    "('a base_model_scheme \<Rightarrow> 'a base_model_scheme \<Rightarrow> 'a base_model_scheme) \<Rightarrow> 'a base_model_scheme list
      \<Rightarrow> 'a base_model_scheme \<Rightarrow> 'a base_model_scheme" where
  "merged merge rows r = (case List.find (\<lambda>n. bm_ID n = bm_ID r) rows of None \<Rightarrow> r | Some n \<Rightarrow> merge n r)"

lemma find_ID_None: "List.find (\<lambda>n. bm_ID n = i) rows = None \<longleftrightarrow> i \<notin> bm_ID ` set rows"
  by (auto simp: find_None_iff')

lemma ids_of_map: "(\<And>r. bm_ID (f r) = bm_ID r) \<Longrightarrow> bm_ID ` set (map f tbl) = bm_ID ` set tbl"
  by (simp add: image_image)

lemma fold_upsert:
  assumes "distinct (map bm_ID rows)" and "\<And>n r. bm_ID (merge n r) = bm_ID r"
  shows "fold (upsert_row merge) rows tbl =
    map (merged merge rows) tbl @ filter (\<lambda>n. bm_ID n \<notin> bm_ID ` set tbl) rows"
  using assms(1)
proof (induction rows arbitrary: tbl)
  case (Cons n rows)
  have fresh: "List.find (\<lambda>m. bm_ID m = bm_ID n) rows = None" using Cons.prems by (simp add: find_ID_None)
  note IH = Cons.IH [where tbl = "upsert_row merge n tbl"]
  show ?case
  proof (cases "bm_ID n \<in> bm_ID ` set tbl")
    case True
    have m: "merged merge rows (if bm_ID r = bm_ID n then merge n r else r) = merged merge (n # rows) r" for r
      using fresh assms(2) by (auto simp: merged_def)
    have ids: "bm_ID ` set (upsert_row merge n tbl) = bm_ID ` set tbl"
    proof -
      have "map bm_ID (upsert_row merge n tbl) = map bm_ID tbl" using True assms(2) by (simp add: upsert_row_def)
      then show ?thesis by (metis set_map)
    qed
    have "map (merged merge rows) (upsert_row merge n tbl) = map (merged merge (n # rows)) tbl"
      using True by (simp add: upsert_row_def m comp_def)
    with IH Cons.prems ids True show ?thesis by simp
  next
    case False
    have m: "merged merge rows r = merged merge (n # rows) r" if "r \<in> set tbl" for r
      using False that by (auto simp: merged_def)
    have "merged merge rows n = n" using fresh by (simp add: merged_def)
    moreover have "filter (\<lambda>m. bm_ID m \<noteq> bm_ID n \<and> bm_ID m \<notin> bm_ID ` set tbl) rows
        = filter (\<lambda>m. bm_ID m \<notin> bm_ID ` set tbl) rows"
      using Cons.prems by (intro filter_cong) (auto simp: image_iff)
    ultimately show ?thesis
      using IH Cons.prems False m by (simp add: upsert_row_def cong: map_cong)
  qed
qed (simp add: merged_def fun_eq_iff map_idI)

definition live_binding :: "string \<Rightarrow> TriggerBinding \<Rightarrow> bool" where
  "live_binding name b \<longleftrightarrow> live b \<and> tb_Active b \<and> tb_WorkflowName b = name"

text \<open>The rows of the table that carry one of the first ids of a target are the target's.\<close>

definition own_rows :: "WorkflowRoutingTarget \<Rightarrow> nat \<Rightarrow> TriggerBinding list \<Rightarrow> bool" where
  "own_rows target n tbl \<longleftrightarrow>
     (\<forall>b \<in> set tbl. \<forall>i < n. bm_ID b = routingRowID ''tb_'' ''trigger'' target i \<longrightarrow> binding_of target b)"

definition stamped :: "WorkflowRoutingTarget \<Rightarrow> int \<Rightarrow> TriggerBinding list \<Rightarrow> TriggerBinding list" where
  "stamped target now bindings = index_rows (stamp_binding target now) bindings"

lemma stamped_nth:
  "r \<in> set (stamped target now bindings) \<longleftrightarrow>
    (\<exists>i < length bindings. r = stamp_binding target now i (bindings ! i))"
  proof
  assume "r \<in> set (stamped target now bindings)"
  then obtain i where "i < length bindings" "r = stamp_binding target now i (bindings ! i)"
    by (auto simp: stamped_def index_rows_def in_set_conv_nth nth_enumerate_eq)
  then show "\<exists>i < length bindings. r = stamp_binding target now i (bindings ! i)" by blast
next
  assume "\<exists>i < length bindings. r = stamp_binding target now i (bindings ! i)"
  then obtain i where "i < length bindings" "r = stamp_binding target now i (bindings ! i)" by blast
  then have "i < length (stamped target now bindings) \<and> stamped target now bindings ! i = r"
    by (simp add: stamped_def index_rows_def nth_enumerate_eq)
  then show "r \<in> set (stamped target now bindings)" by (metis nth_mem)
qed

lemma stamp_binding_simps [simp]:
  "bm_ID (stamp_binding target now i b) = routingRowID ''tb_'' ''trigger'' target i"
  "tb_Active (stamp_binding target now i b)"
  "live (stamp_binding target now i b) = live b"
  "binding_of target (stamp_binding target now i b)"
  "tb_WorkflowName (stamp_binding target now i b) = tg_WorkflowName target"
  "tb_WorkflowVersion (stamp_binding target now i b) = tg_WorkflowVersion target"
  "tb_EventType (stamp_binding target now i b) = tb_EventType b"
  "tb_EventFilter (stamp_binding target now i b) = tb_EventFilter b"
  "tb_KeyExpr (stamp_binding target now i b) = tb_KeyExpr b"
  by (simp_all add: stamp_binding_def stampDeterministicRow_def live_def binding_of_def)

lemma merge_binding_simps [simp]:
  "bm_ID (merge_binding n r) = bm_ID r"
  "tb_WorkflowName (merge_binding n r) = tb_WorkflowName r"
  "tb_WorkflowVersion (merge_binding n r) = tb_WorkflowVersion r"
  "tb_Active (merge_binding n r) = tb_Active n"
  "live (merge_binding n r) = live n"
  "tb_EventType (merge_binding n r) = tb_EventType n"
  "tb_EventFilter (merge_binding n r) = tb_EventFilter n"
  "tb_KeyExpr (merge_binding n r) = tb_KeyExpr n"
  by (simp_all add: merge_binding_def live_def)

lemma binding_off_simps [simp]:
  "bm_ID (binding_off now b) = bm_ID b" "\<not> tb_Active (binding_off now b)"
  "tb_WorkflowName (binding_off now b) = tb_WorkflowName b"
  "tb_WorkflowVersion (binding_off now b) = tb_WorkflowVersion b" "live (binding_off now b) = live b"
  by (simp_all add: binding_off_def live_def)

lemma ReplaceForWorkflow_InrD:
  assumes "ReplaceForWorkflow env now target bindings pf = Inr pf'"
  shows "let rows = stamped target now bindings;
             t1 = db_update (\<lambda>b. tb_WorkflowName b = tg_WorkflowName target \<and>
                    tb_WorkflowVersion b \<noteq> tg_WorkflowVersion target \<and> tb_Active b) (binding_off now) (pf_bindings pf);
             t2 = fold (upsert_row merge_binding) rows t1
         in distinct (map bm_ID rows) \<and>
            pf' = pf\<lparr>pf_bindings := db_update (\<lambda>b. binding_of target b \<and> tb_Active b \<and> bm_ID b \<notin> bm_ID ` set rows)
                        (binding_off now) t2\<rparr>"
  using assms
  by (auto simp: ReplaceForWorkflow_def Let_def res_simps update_where_def upsert_def stamped_def split: if_splits)

text \<open>What the three statements make of one row.\<close>

definition replaced :: "WorkflowRoutingTarget \<Rightarrow> int \<Rightarrow> TriggerBinding list \<Rightarrow> TriggerBinding \<Rightarrow> TriggerBinding" where
  "replaced target now rows b =
     (case List.find (\<lambda>n. bm_ID n = bm_ID b) rows of
        Some n \<Rightarrow> merge_binding n (if live_binding (tg_WorkflowName target) b \<and> tb_WorkflowVersion b \<noteq> tg_WorkflowVersion target
                                  then binding_off now b else b)
      | None \<Rightarrow> (if live_binding (tg_WorkflowName target) b then binding_off now b else b))"

lemma ReplaceForWorkflow_rows:
  assumes "ReplaceForWorkflow env now target bindings pf = Inr pf'"
  shows "let rows = stamped target now bindings in
    pf' = pf\<lparr>pf_bindings := map (replaced target now rows) (pf_bindings pf) @
             filter (\<lambda>n. bm_ID n \<notin> bm_ID ` set (pf_bindings pf)) rows\<rparr>"
proof -
  define rows where "rows = stamped target now bindings"
  let ?off = "\<lambda>b. if tb_WorkflowName b = tg_WorkflowName target \<and> tb_WorkflowVersion b \<noteq> tg_WorkflowVersion target \<and>
    tb_Active b \<and> live b then binding_off now b else b"
  let ?fin = "\<lambda>b. if binding_of target b \<and> tb_Active b \<and> bm_ID b \<notin> bm_ID ` set rows \<and> live b then binding_off now b else b"
  have d: "distinct (map bm_ID rows)"
    and t: "pf' = pf\<lparr>pf_bindings := map ?fin (fold (upsert_row merge_binding) rows (map ?off (pf_bindings pf)))\<rparr>"
    using ReplaceForWorkflow_InrD [OF assms] by (simp_all add: Let_def rows_def db_update_def conj_assoc)
  have ids: "bm_ID ` set (map ?off (pf_bindings pf)) = bm_ID ` set (pf_bindings pf)"
    by (rule ids_of_map) simp
  have "map ?fin (filter (\<lambda>n. bm_ID n \<notin> bm_ID ` set (pf_bindings pf)) rows) =
      filter (\<lambda>n. bm_ID n \<notin> bm_ID ` set (pf_bindings pf)) rows"
    by (intro map_idI) auto
  moreover have "?fin (merged merge_binding rows (?off b)) = replaced target now rows b" for b
  proof (cases "List.find (\<lambda>n. bm_ID n = bm_ID b) rows")
    case None
    then have "bm_ID b \<notin> bm_ID ` set rows" by (simp add: find_ID_None)
    with None show ?thesis by (simp add: merged_def replaced_def live_binding_def binding_of_def)
  next
    case (Some n)
    then have "n \<in> set rows" "bm_ID n = bm_ID b" by (auto dest: find_SomeD)
    then have "bm_ID b \<in> bm_ID ` set rows" by (metis image_eqI)
    with Some show ?thesis by (simp add: merged_def replaced_def live_binding_def conj_commute conj_left_commute)
  qed
  moreover have "fold (upsert_row merge_binding) rows (map ?off (pf_bindings pf)) =
      map (merged merge_binding rows) (map ?off (pf_bindings pf)) @ filter (\<lambda>n. bm_ID n \<notin> bm_ID ` set (pf_bindings pf)) rows"
    by (simp only: fold_upsert [OF d merge_binding_simps(1)] ids)
  ultimately have "map ?fin (fold (upsert_row merge_binding) rows (map ?off (pf_bindings pf))) =
      map (replaced target now rows) (pf_bindings pf) @ filter (\<lambda>n. bm_ID n \<notin> bm_ID ` set (pf_bindings pf)) rows"
    by (simp only: map_append map_map comp_def)
  then show ?thesis unfolding t Let_def rows_def [symmetric] by (rule arg_cong)
qed

lemma replaced_simps [simp]:
  "bm_ID (replaced target now rows b) = bm_ID b"
  "tb_WorkflowName (replaced target now rows b) = tb_WorkflowName b"
  "tb_WorkflowVersion (replaced target now rows b) = tb_WorkflowVersion b"
  by (auto simp: replaced_def split: option.splits)

definition trigger_content :: "TriggerBinding \<Rightarrow> string \<times> string \<times> string" where
  "trigger_content b = (tb_EventType b, tb_EventFilter b, tb_KeyExpr b)"

text \<open>The live bindings of the workflow after the replacement.\<close>

lemma live_after_replace:
  assumes "own_rows target (length bindings) tbl" and "list_all live bindings"
    and "b \<in> set tbl"
  shows "live_binding name (replaced target now (stamped target now bindings) b) \<longleftrightarrow>
    (if name = tg_WorkflowName target then bm_ID b \<in> bm_ID ` set (stamped target now bindings) else live_binding name b)"
proof (cases "List.find (\<lambda>n. bm_ID n = bm_ID b) (stamped target now bindings)")
  case None
  then have "bm_ID b \<notin> bm_ID ` set (stamped target now bindings)" by (simp add: find_ID_None)
  with None show ?thesis by (auto simp: replaced_def live_binding_def)
next
  case (Some n)
  then have n: "n \<in> set (stamped target now bindings)" "bm_ID n = bm_ID b" by (auto dest: find_SomeD)
  then obtain i where i: "i < length bindings" "n = stamp_binding target now i (bindings ! i)" by (auto simp: stamped_nth)
  with n assms have "binding_of target b" "live n" "tb_Active n" by (auto simp: own_rows_def list_all_length)
  moreover have "bm_ID b \<in> bm_ID ` set (stamped target now bindings)" using n by (metis image_eqI)
  ultimately show ?thesis using Some by (simp add: replaced_def live_binding_def binding_of_def)
qed

lemma new_row:
  assumes "n \<in> set (stamped target now bindings)" and "list_all live bindings"
  shows "live_binding (tg_WorkflowName target) n \<and> trigger_content n \<in> trigger_content ` set bindings \<and>
      tb_WorkflowVersion n = tg_WorkflowVersion target \<and> tb_WorkflowName n = tg_WorkflowName target"
proof -
  from assms(1) obtain i where "i < length bindings" "n = stamp_binding target now i (bindings ! i)" by (auto simp: stamped_nth)
  with assms(2) show ?thesis by (auto simp: live_binding_def list_all_length trigger_content_def)
qed

lemma old_row:
  assumes "own_rows target (length bindings) tbl" and "distinct (map bm_ID (stamped target now bindings))"
    and "b \<in> set tbl" and "n \<in> set (stamped target now bindings)" and "bm_ID n = bm_ID b"
  shows "trigger_content (replaced target now (stamped target now bindings) b) = trigger_content n \<and>
      tb_WorkflowVersion b = tg_WorkflowVersion target"
proof -
  have "List.find (\<lambda>m. bm_ID m = bm_ID b) (stamped target now bindings) = Some n"
    using find_unique [OF assms(2,4)] assms(5) by simp
  moreover have "binding_of target b" using assms by (auto simp: stamped_nth own_rows_def)
  ultimately show ?thesis by (simp add: replaced_def trigger_content_def binding_of_def)
qed

text \<open>The live bindings of the target's workflow are the given ones.\<close>

lemma replaced_live_content:
  assumes "own_rows target (length bindings) tbl" and "list_all live bindings" and "distinct (map bm_ID (stamped target now bindings))"
    and tbl': "tbl' = map (replaced target now (stamped target now bindings)) tbl @
      filter (\<lambda>n. bm_ID n \<notin> bm_ID ` set tbl) (stamped target now bindings)"
  shows "(\<lambda>b. (tb_WorkflowVersion b, trigger_content b)) ` {b \<in> set tbl'. live_binding (tg_WorkflowName target) b}
    = (\<lambda>b. (tg_WorkflowVersion target, trigger_content b)) ` set bindings" (is "?f ` ?A = ?B")
proof (intro subset_antisym subsetI)
  define rows where "rows = stamped target now bindings"
  note live = live_after_replace [OF assms(1,2), where now = now, folded rows_def]
  note new = new_row [where target = target and now = now and bindings = bindings, folded rows_def, OF _ assms(2)]
  note old = old_row [OF assms(1,3), folded rows_def]
  fix x assume "x \<in> ?f ` ?A"
  then obtain c where c: "c \<in> set tbl'" "live_binding (tg_WorkflowName target) c" "x = ?f c" by auto
  consider b where "b \<in> set tbl" "c = replaced target now rows b" | "c \<in> set rows"
    using c(1) by (auto simp: tbl' rows_def)
  then show "x \<in> ?B"
  proof cases
    case 1
    with c(2) live have "bm_ID b \<in> bm_ID ` set rows" by simp
    then obtain n where n: "n \<in> set rows" "bm_ID n = bm_ID b" by auto
    from old [OF 1(1) n] new [OF n(1)] show ?thesis by (auto simp: c(3) 1(2))
  next
    case 2
    from new [OF this] show ?thesis by (auto simp: c(3))
  qed
next
  define rows where "rows = stamped target now bindings"
  note live = live_after_replace [OF assms(1,2), where now = now, folded rows_def]
  note new = new_row [where target = target and now = now and bindings = bindings, folded rows_def, OF _ assms(2)]
  note old = old_row [OF assms(1,3), folded rows_def]
  fix x assume "x \<in> ?B"
  then obtain i where i: "i < length bindings" "x = (tg_WorkflowVersion target, trigger_content (bindings ! i))"
    by (auto simp: in_set_conv_nth)
  define n where "n = stamp_binding target now i (bindings ! i)"
  have n: "n \<in> set rows" using i(1) by (auto simp: rows_def stamped_nth n_def)
  have x: "x = ?f n" by (simp add: i(2) n_def trigger_content_def)
  show "x \<in> ?f ` ?A"
  proof (cases "bm_ID n \<in> bm_ID ` set tbl")
    case False
    with n new [OF n] have "n \<in> ?A" by (simp add: tbl' rows_def)
    with x show ?thesis by (rule image_eqI)
  next
    case True
    then obtain b where b: "b \<in> set tbl" "bm_ID b = bm_ID n" by auto
    have "live_binding (tg_WorkflowName target) (replaced target now rows b)"
      using live [OF b(1), of "tg_WorkflowName target"] n b(2) by (force simp: image_iff)
    with b(1) have "replaced target now rows b \<in> ?A" by (simp add: tbl' rows_def)
    moreover have "x = ?f (replaced target now rows b)" using old [OF b(1) n] b(2) new [OF n] x by simp
    ultimately show ?thesis by (rule image_eqI [rotated])
  qed
qed

text \<open>The live bindings of the other workflows are as before.\<close>

lemma replaced_other:
  assumes "own_rows target (length bindings) tbl" and "list_all live bindings" and ne: "name \<noteq> tg_WorkflowName target"
    and tbl': "tbl' = map (replaced target now (stamped target now bindings)) tbl @
      filter (\<lambda>n. bm_ID n \<notin> bm_ID ` set tbl) (stamped target now bindings)"
  shows "{b \<in> set tbl'. live_binding name b} = {b \<in> set tbl. live_binding name b}"
proof -
  define rows where "rows = stamped target now bindings"
  have keep: "replaced target now rows b = b" if "b \<in> set tbl" "live_binding name b" for b
  proof -
    have "bm_ID b \<notin> bm_ID ` set rows"
      using assms(1) that ne by (auto simp: rows_def stamped_nth own_rows_def binding_of_def live_binding_def)
    then have "List.find (\<lambda>n. bm_ID n = bm_ID b) rows = None" by (simp add: find_ID_None)
    with that ne show ?thesis by (simp add: replaced_def live_binding_def)
  qed
  have fresh: "\<not> live_binding name n" if "n \<in> set rows" for n
    using new_row [OF that [unfolded rows_def] assms(2)] ne by (simp add: live_binding_def)
  have flag: "live_binding name (replaced target now rows b) \<longleftrightarrow> live_binding name b" if "b \<in> set tbl" for b
    using live_after_replace [OF assms(1,2) that, of name now] ne by (simp add: rows_def)
  show ?thesis
  proof (intro subset_antisym subsetI)
    fix x assume "x \<in> {b \<in> set tbl'. live_binding name b}"
    then obtain b where "b \<in> set tbl" "x = replaced target now rows b" "live_binding name x"
      using fresh by (auto simp: tbl' rows_def)
    with flag keep show "x \<in> {b \<in> set tbl. live_binding name b}" by auto
  next
    fix x assume "x \<in> {b \<in> set tbl. live_binding name b}"
    then have "x \<in> replaced target now rows ` set tbl" "live_binding name x"
      using keep [of x] by (auto intro: image_eqI [of _ _ x])
    then show "x \<in> {b \<in> set tbl'. live_binding name b}" by (simp add: tbl' rows_def)
  qed
qed

text \<open>Replacing the trigger bindings of a workflow makes the given bindings, under the target version, the
  only live ones of the workflow's name, whatever was stored before, and leaves the rows of every other
  workflow as they are.\<close>
theorem replace_makes_only_live_bindings:
  assumes "ReplaceForWorkflow env now target bindings pf = Inr pf'"
    and "own_rows target (length bindings) (pf_bindings pf)" and "list_all live bindings"
  shows "(\<lambda>b. (tb_WorkflowVersion b, trigger_content b)) ` {b \<in> set (pf_bindings pf'). live_binding (tg_WorkflowName target) b}
      = (\<lambda>b. (tg_WorkflowVersion target, trigger_content b)) ` set bindings \<and>
    (name \<noteq> tg_WorkflowName target \<longrightarrow>
       {b \<in> set (pf_bindings pf'). live_binding name b} = {b \<in> set (pf_bindings pf). live_binding name b})"
proof -
  note r = ReplaceForWorkflow_rows [OF assms(1), unfolded Let_def]
  have d: "distinct (map bm_ID (stamped target now bindings))"
    using ReplaceForWorkflow_InrD [OF assms(1)] by (simp add: Let_def)
  have t: "pf_bindings pf' = map (replaced target now (stamped target now bindings)) (pf_bindings pf) @
      filter (\<lambda>n. bm_ID n \<notin> bm_ID ` set (pf_bindings pf)) (stamped target now bindings)" by (simp add: r)
  from replaced_live_content [OF assms(2,3) d t] replaced_other [OF assms(2,3) _ t, of name]
  show ?thesis by blast
qed

section \<open>One live version\<close>

definition one_version :: "('r \<Rightarrow> bool) \<Rightarrow> ('r \<Rightarrow> string) \<Rightarrow> ('r \<Rightarrow> int) \<Rightarrow> 'r list \<Rightarrow> bool" where
  "one_version on name version tbl \<longleftrightarrow>
     (\<forall>a \<in> set tbl. \<forall>b \<in> set tbl. on a \<and> on b \<and> name a = name b \<longrightarrow> version a = version b)"

definition schedule_live :: "ScheduleDefinition \<Rightarrow> bool" where
  "schedule_live s \<longleftrightarrow> live s \<and> sd_Active s"

definition binding_live :: "TriggerBinding \<Rightarrow> bool" where
  "binding_live b \<longleftrightarrow> live b \<and> tb_Active b"

definition workflow_schedules_ok :: "ScheduleDefinition list \<Rightarrow> bool" where
  "workflow_schedules_ok tbl \<longleftrightarrow> distinct (map bm_ID tbl) \<and> one_version schedule_live sd_WorkflowName sd_WorkflowVersion tbl"

definition bindings_ok :: "TriggerBinding list \<Rightarrow> bool" where
  "bindings_ok tbl \<longleftrightarrow> one_version binding_live tb_WorkflowName tb_WorkflowVersion tbl"

definition platform_ok :: "Platform \<Rightarrow> bool" where
  "platform_ok pf \<longleftrightarrow> workflow_schedules_ok (pf_schedules pf) \<and> bindings_ok (pf_bindings pf)"

text \<open>An update that turns rows on does so for one version of one name, and turns the others of that name off.\<close>

lemma one_version_only:
  assumes "one_version on name version tbl"
    and "\<And>r. r \<in> set tbl \<Longrightarrow> name (f r) = name r \<and> version (f r) = version r"
    and "\<And>r. r \<in> set tbl \<Longrightarrow> on (f r) \<Longrightarrow> on r \<and> name r \<noteq> n \<or> name r = n \<and> version r = v"
  shows "one_version on name version (map f tbl)"
  unfolding one_version_def
proof (intro ballI impI, elim conjE)
  fix a b assume "a \<in> set (map f tbl)" "b \<in> set (map f tbl)" and l: "on a" "on b" "name a = name b"
  then obtain r s where r: "r \<in> set tbl" "a = f r" and s: "s \<in> set tbl" "b = f s" by auto
  have names: "name r = name s" using l(3) assms(2) [OF r(1)] assms(2) [OF s(1)] by (simp add: r(2) s(2))
  have "version r = version s"
  proof (cases "name r = n")
    case True
    with names assms(3) [OF r(1)] assms(3) [OF s(1)] l(1,2) show ?thesis by (simp add: r(2) s(2))
  next
    case False
    then have "on r" "on s" using names assms(3) [OF r(1)] assms(3) [OF s(1)] l(1,2) by (auto simp: r(2) s(2))
    with assms(1) r(1) s(1) names show ?thesis unfolding one_version_def by blast
  qed
  then show "version a = version b" using assms(2) [OF r(1)] assms(2) [OF s(1)] by (simp add: r(2) s(2))
qed

lemma one_version_map:
  assumes "one_version on name version tbl"
    and "\<And>r. r \<in> set tbl \<Longrightarrow> name (f r) = name r \<and> version (f r) = version r"
    and "\<And>r. r \<in> set tbl \<Longrightarrow> on (f r) \<Longrightarrow> on r"
  shows "one_version on name version (map f tbl)"
  unfolding one_version_def
proof (intro ballI impI, elim conjE)
  fix a b assume "a \<in> set (map f tbl)" "b \<in> set (map f tbl)" and l: "on a" "on b" "name a = name b"
  then obtain r s where r: "r \<in> set tbl" "a = f r" and s: "s \<in> set tbl" "b = f s" by auto
  have "on r" "on s" "name r = name s"
    using l assms(2,3) [OF r(1)] assms(2,3) [OF s(1)] by (simp_all add: r(2) s(2))
  with assms(1) r(1) s(1) have "version r = version s" unfolding one_version_def by blast
  then show "version a = version b" using assms(2) [OF r(1)] assms(2) [OF s(1)] by (simp add: r(2) s(2))
qed

lemma one_version_append:
  assumes "one_version on name version tbl"
    and "\<And>r. r \<in> set tbl \<Longrightarrow> on r \<Longrightarrow> name r = n \<Longrightarrow> version r = v"
    and "\<And>r. r \<in> set rows \<Longrightarrow> name r = n \<and> version r = v"
  shows "one_version on name version (tbl @ rows)"
  unfolding one_version_def
proof (intro ballI impI, elim conjE)
  fix a b assume m: "a \<in> set (tbl @ rows)" "b \<in> set (tbl @ rows)" and l: "on a" "on b" "name a = name b"
  show "version a = version b"
  proof (cases "name a = n")
    case True
    with m l assms(2,3) show ?thesis by (metis Un_iff set_append)
  next
    case False
    with m l(3) assms(3) have "a \<in> set tbl" "b \<in> set tbl" by auto
    with l assms(1) show ?thesis unfolding one_version_def by blast
  qed
qed

lemma workflow_schedules_ok_map:
  assumes "workflow_schedules_ok tbl"
    and "\<And>r. r \<in> set tbl \<Longrightarrow> bm_ID (f r) = bm_ID r"
    and "\<And>r. r \<in> set tbl \<Longrightarrow> sd_WorkflowName (f r) = sd_WorkflowName r \<and> sd_WorkflowVersion (f r) = sd_WorkflowVersion r"
    and "\<And>r. r \<in> set tbl \<Longrightarrow> schedule_live (f r) \<Longrightarrow> schedule_live r"
  shows "workflow_schedules_ok (map f tbl)"
proof -
  have "map bm_ID (map f tbl) = map bm_ID tbl" using assms(2) by simp
  moreover have "one_version schedule_live sd_WorkflowName sd_WorkflowVersion (map f tbl)"
  proof (rule one_version_map)
    show "one_version schedule_live sd_WorkflowName sd_WorkflowVersion tbl" using assms(1) by (simp add: workflow_schedules_ok_def)
  qed (use assms(3,4) in simp_all)
  ultimately show ?thesis using assms(1) by (simp only: workflow_schedules_ok_def)
qed

lemma schedule_off_simps [simp]:
  "bm_ID (schedule_off now s) = bm_ID s" "\<not> schedule_live (schedule_off now s)"
  "sd_WorkflowName (schedule_off now s) = sd_WorkflowName s"
  "sd_WorkflowVersion (schedule_off now s) = sd_WorkflowVersion s"
  by (simp_all add: schedule_off_def schedule_live_def)

lemma activate_row_simps [simp]:
  "bm_ID (activate_row now fires s) = bm_ID s"
  "sd_WorkflowName (activate_row now fires s) = sd_WorkflowName s"
  "sd_WorkflowVersion (activate_row now fires s) = sd_WorkflowVersion s"
  "live (activate_row now fires s) = live s"
  by (simp_all add: activate_row_def schedule_on_def live_def split: option.splits)

lemma fire_row_simps [simp]:
  "bm_ID (fire_row now rows s) = bm_ID s"
  "sd_WorkflowName (fire_row now rows s) = sd_WorkflowName s"
  "sd_WorkflowVersion (fire_row now rows s) = sd_WorkflowVersion s"
  "schedule_live (fire_row now rows s) = schedule_live s"
  by (auto simp: fire_row_def schedule_live_def live_def split: option.splits)

lemma workflow_schedules_ok_insert:
  assumes "workflow_schedules_ok tbl" and "bm_ID row \<notin> bm_ID ` set tbl" and "\<not> sd_Active row"
  shows "workflow_schedules_ok (tbl @ [row])"
proof -
  have "\<not> schedule_live row" using assms(3) by (simp add: schedule_live_def)
  then have "one_version schedule_live sd_WorkflowName sd_WorkflowVersion (tbl @ [row])"
    unfolding one_version_def
  proof (intro ballI impI, elim conjE)
    fix a b assume "a \<in> set (tbl @ [row])" "b \<in> set (tbl @ [row])" "schedule_live a" "schedule_live b"
      and name: "sd_WorkflowName a = sd_WorkflowName b"
    with \<open>\<not> schedule_live row\<close> have "a \<in> set tbl" "b \<in> set tbl" "schedule_live a" "schedule_live b" by auto
    with name assms(1) show "sd_WorkflowVersion a = sd_WorkflowVersion b"
      unfolding workflow_schedules_ok_def one_version_def by blast
  qed
  with assms(1,2) show ?thesis by (simp add: workflow_schedules_ok_def)
qed

lemma insert_schedules_ok:
  assumes "insert_schedules env now k scheds tbl = Inr tbl'" and "workflow_schedules_ok tbl"
    and "list_all (\<lambda>s. \<not> sd_Active s) scheds"
  shows "workflow_schedules_ok tbl'"
  using assms
proof (induction scheds arbitrary: k tbl)
  case (Cons s scheds)
  define row where "row = schedule_row env (''schedule '' @ itoa (int k)) now s"
  from Cons.prems(1) obtain t where t: "create (ee_F env) ''create schedule batch'' schedule_conflict row tbl = Inr t"
    and rest: "insert_schedules env now (Suc k) scheds t = Inr tbl'"
    by (auto simp: res_simps Let_def row_def)
  have "\<not> sd_Active row" using Cons.prems(3) by (simp add: row_def schedule_row_def with_id_def)
  moreover have "t = tbl @ [row]" "bm_ID row \<notin> bm_ID ` set tbl"
    using create_InrD [OF t] by (auto dest: db_insert_SomeD)
  ultimately have "workflow_schedules_ok t" using workflow_schedules_ok_insert Cons.prems(2) by simp
  with Cons.IH [OF rest] Cons.prems(3) show ?case by simp
qed simp

lemma planned_inactive: "planScheduleRows def specs = Inr rows \<Longrightarrow> list_all (\<lambda>s. \<not> sd_Active s) rows"
  by (induction def specs arbitrary: rows rule: planScheduleRows.induct)
    (auto simp: res_simps planned_schedule_def)

lemma CreateBatch_ok:
  assumes "CreateBatch env now scheds pf = Inr pf'" and "platform_ok pf" and "list_all (\<lambda>s. \<not> sd_Active s) scheds"
  shows "platform_ok pf'"
  using assms by (auto simp: CreateBatch_def platform_ok_def res_simps insert_schedules_ok split: if_splits)

text \<open>The ids a plan activates are those of the listed schedules.\<close>

lemma plan_fires_ids: "plan_fires cron now scheds = Inr fires \<Longrightarrow> map sa_ID fires = map bm_ID scheds"
  by (induction scheds arbitrary: fires) (auto simp: res_simps first_fire_def Let_def split: sum.splits)

lemma ActivateByWorkflow_ok:
  assumes "ActivateByWorkflow env now name version fires pf = Inr pf'" and "platform_ok pf"
    and "sa_ID ` set fires = bm_ID ` {s \<in> set (pf_schedules pf). schedule_of name version s \<and> live s}"
  shows "platform_ok pf'"
proof -
  let ?off = "\<lambda>s. if (sd_WorkflowName s = name \<and> sd_WorkflowVersion s \<noteq> version) \<and> live s then schedule_off now s else s"
  let ?on = "\<lambda>s. if bm_ID s \<in> sa_ID ` set fires \<and> live s then activate_row now fires s else s"
  have ok: "workflow_schedules_ok (pf_schedules pf)" using assms(2) by (simp add: platform_ok_def)
  have ids: "distinct (map bm_ID (pf_schedules pf))" using ok by (simp add: workflow_schedules_ok_def)
  have off: "workflow_schedules_ok (map ?off (pf_schedules pf))" by (rule workflow_schedules_ok_map [OF ok]) (auto split: if_splits)
  have own: "schedule_of name version s" if "s \<in> set (pf_schedules pf)" "bm_ID s \<in> sa_ID ` set fires" for s
  proof -
    from that(2) assms(3) obtain r where r: "r \<in> set (pf_schedules pf)" "schedule_of name version r" "bm_ID r = bm_ID s"
      by auto
    with ids that(1) have "r = s" by (auto simp: distinct_map inj_on_def)
    with r show ?thesis by simp
  qed
  have id: "bm_ID (?on (?off s)) = bm_ID s" "sd_WorkflowName (?on (?off s)) = sd_WorkflowName s"
    "sd_WorkflowVersion (?on (?off s)) = sd_WorkflowVersion s" for s by auto
  have cases: "schedule_live s \<and> sd_WorkflowName s \<noteq> name \<or> sd_WorkflowName s = name \<and> sd_WorkflowVersion s = version"
    if "s \<in> set (pf_schedules pf)" "schedule_live (?on (?off s))" for s
  proof (cases "sd_WorkflowName s = name")
    case True
    have "live s" using that(2) by (auto simp: schedule_live_def split: if_splits)
    then show ?thesis using True that own [OF that(1)] by (auto simp: schedule_of_def split: if_splits)
  next
    case False
    then show ?thesis using that own [OF that(1)] by (auto simp: schedule_of_def split: if_splits)
  qed
  have "one_version schedule_live sd_WorkflowName sd_WorkflowVersion (map (\<lambda>s. ?on (?off s)) (pf_schedules pf))"
    using ok cases by (intro one_version_only [where n = name and v = version]) (simp_all only: workflow_schedules_ok_def id)
  moreover have "map bm_ID (map (\<lambda>s. ?on (?off s)) (pf_schedules pf)) = map bm_ID (pf_schedules pf)"
    by (simp only: map_map comp_def id)
  ultimately have on: "workflow_schedules_ok (map (\<lambda>s. ?on (?off s)) (pf_schedules pf))" using ids by (simp only: workflow_schedules_ok_def)
  let ?t = "db_update (\<lambda>s. sd_WorkflowName s = name \<and> sd_WorkflowVersion s \<noteq> version) (schedule_off now) (pf_schedules pf)"
  have "workflow_schedules_ok ?t" using off by (simp only: db_update_def)
  moreover have "workflow_schedules_ok (db_update (\<lambda>s. bm_ID s \<in> sa_ID ` set fires) (activate_row now fires) ?t)"
    using on by (simp only: db_update_def map_map comp_def)
  moreover have "pf' \<in> {pf\<lparr>pf_schedules := ?t\<rparr>,
      pf\<lparr>pf_schedules := db_update (\<lambda>s. bm_ID s \<in> sa_ID ` set fires) (activate_row now fires) ?t\<rparr>}"
    using assms(1) by (auto simp: ActivateByWorkflow_def res_simps update_where_def split: if_splits)
  ultimately show ?thesis using assms(2) by (auto simp: platform_ok_def)
qed

lemma DeactivateByWorkflow_ok:
  "DeactivateByWorkflow env now name pf = Inr pf' \<Longrightarrow> platform_ok pf \<Longrightarrow> platform_ok pf'"
  by (auto simp: DeactivateByWorkflow_def platform_ok_def db_update_def split: if_splits intro!: workflow_schedules_ok_map)

lemma DeactivateByWorkflowVersion_ok:
  "DeactivateByWorkflowVersion env now target pf = Inr pf' \<Longrightarrow> platform_ok pf \<Longrightarrow> platform_ok pf'"
  by (auto simp: DeactivateByWorkflowVersion_def platform_ok_def bindings_ok_def update_where_def db_update_def
      binding_live_def res_simps split: if_splits intro!: one_version_map)

lemma ClaimAndFireBatch_ok:
  "ClaimAndFireBatch env clock plan now limit pf = Inr (n, pf') \<Longrightarrow> platform_ok pf \<Longrightarrow> platform_ok pf'"
  by (auto simp: ClaimAndFireBatch_def platform_ok_def Let_def res_simps split: if_splits intro!: workflow_schedules_ok_map)

lemma ReplaceForWorkflowVersion_ok:
  "ReplaceForWorkflowVersion env now target routes pf = Inr pf' \<Longrightarrow> platform_ok pf \<Longrightarrow> platform_ok pf'"
  by (auto simp: ReplaceForWorkflowVersion_def platform_ok_def Let_def res_simps)

lemma ReplaceForWorkflow_ok:
  assumes "ReplaceForWorkflow env now target bindings pf = Inr pf'" and "platform_ok pf"
    and "own_rows target (length bindings) (pf_bindings pf)" and "list_all live bindings"
  shows "platform_ok pf'"
proof -
  define rows where "rows = stamped target now bindings"
  note t = ReplaceForWorkflow_rows [OF assms(1), unfolded Let_def, folded rows_def]
  have old: "binding_live b \<and> tb_WorkflowName b \<noteq> tg_WorkflowName target \<or>
      tb_WorkflowName b = tg_WorkflowName target \<and> tb_WorkflowVersion b = tg_WorkflowVersion target"
    if "b \<in> set (pf_bindings pf)" "binding_live (replaced target now rows b)" for b
  proof (cases "tb_WorkflowName b = tg_WorkflowName target")
    case True
    then have "live_binding (tg_WorkflowName target) (replaced target now rows b)"
      using that(2) by (simp add: live_binding_def binding_live_def)
    then have "bm_ID b \<in> bm_ID ` set rows"
      using live_after_replace [OF assms(3,4) that(1), of "tg_WorkflowName target" now] by (simp add: rows_def)
    then have "binding_of target b" using assms(3) that(1) by (auto simp: rows_def stamped_nth own_rows_def)
    with True show ?thesis by (simp add: binding_of_def)
  next
    case False
    then have "live_binding (tb_WorkflowName b) b"
      using that(2) live_after_replace [OF assms(3,4) that(1), of "tb_WorkflowName b" now]
      by (simp add: rows_def live_binding_def binding_live_def)
    with False show ?thesis by (simp add: live_binding_def binding_live_def)
  qed
  have "bindings_ok (map (replaced target now rows) (pf_bindings pf))"
    using assms(2) old unfolding bindings_ok_def platform_ok_def
    by (intro one_version_only [where n = "tg_WorkflowName target" and v = "tg_WorkflowVersion target"]) simp_all
  moreover have "tb_WorkflowVersion b = tg_WorkflowVersion target"
    if "b \<in> set (map (replaced target now rows) (pf_bindings pf))" "binding_live b" "tb_WorkflowName b = tg_WorkflowName target" for b
    using that by (auto dest: old)
  moreover have "tb_WorkflowName n = tg_WorkflowName target \<and> tb_WorkflowVersion n = tg_WorkflowVersion target"
    if "n \<in> set rows" for n using that by (auto simp: rows_def stamped_nth)
  moreover have "pf_bindings pf' = map (replaced target now rows) (pf_bindings pf) @
      filter (\<lambda>n. bm_ID n \<notin> bm_ID ` set (pf_bindings pf)) rows" by (simp add: t)
  ultimately have "bindings_ok (pf_bindings pf')"
    unfolding bindings_ok_def
    by (simp only:, intro one_version_append [where n = "tg_WorkflowName target" and v = "tg_WorkflowVersion target"]) auto
  with assms(2) show ?thesis by (simp add: platform_ok_def t)
qed

section \<open>The operations\<close>

lemma planned_bindings_live: "planRouting spec = (bs, rs) \<Longrightarrow> list_all live bs \<and> length bs \<le> length (wf_Triggers spec)"
  by (auto simp: planRouting_def list_all_iff binding_row_def live_def List.map_filter_def)

lemma own_rows_mono: "own_rows target n tbl \<Longrightarrow> m \<le> n \<Longrightarrow> own_rows target m tbl"
  unfolding own_rows_def by (meson less_le_trans)

lemma assertRouting_ok:
  assumes "platform_ok (sv_plat s)" and "own_rows (routingTarget env def) (length (wf_Triggers spec)) (pf_bindings (sv_plat s))"
  shows "wp (assertRouting env now def spec) (\<lambda>_ s'. platform_ok (sv_plat s')) s"
proof -
  obtain bs rs where p: "planRouting spec = (bs, rs)" by force
  note b = planned_bindings_live [OF p]
  have "own_rows (routingTarget env def) (length bs) (pf_bindings (sv_plat s))"
    using own_rows_mono [OF assms(2)] b by simp
  then have *: "platform_ok pf'" if "ReplaceForWorkflow (be_db env) now (routingTarget env def) bs (sv_plat s) = Inr pf'" for pf'
    using ReplaceForWorkflow_ok [OF that assms(1)] b by simp
  show ?thesis
    using assms(1) * by (auto simp: assertRouting_def p wp_simps Let_def ReplaceForWorkflowVersion_ok split: sum.splits)
qed

lemma RegisterSchema_ok:
  "RegisterSchema env role now name version state kind blob pf = Inr (h, pf') \<Longrightarrow> platform_ok pf \<Longrightarrow> platform_ok pf'"
  by (auto simp: RegisterSchema_def Schema_Store_def Let_def res_simps platform_ok_def split: option.splits)

lemma register_step_schema_ok:
  assumes "platform_ok (sv_plat s)"
  shows "wp (register_step_schema env now name version step which kind blob) (\<lambda>_ s'. platform_ok (sv_plat s')) s"
  using assms by (auto simp: register_step_schema_def wp_simps split: sum.splits dest: RegisterSchema_ok)

lemma wp_seq_inv:
  assumes "wp m (\<lambda>_. I) s" and "\<And>x s'. I s' \<Longrightarrow> wp (f x) (\<lambda>_. I) s'"
  shows "wp (op_seq m f) (\<lambda>_. I) s"
  unfolding wp_seq by (rule wp_mono [OF assms(1)]) (auto split: sum.splits intro: assms(2))

lemma wp_seq_of: "wp (op_seq (op_of r) f) Q s = (case r of Inl e \<Rightarrow> Q (Inl e) s | Inr x \<Rightarrow> wp (f x) Q s)"
  by (simp add: wp_simps)

lemma wp_seq_read:
  "wp (op_seq (op_map_err g (db_read h)) f) Q s =
     (case h (sv_db s) of Inl e \<Rightarrow> Q (Inl (if is_panic e then e else g e)) s | Inr x \<Rightarrow> wp (f x) Q s)"
  "wp (op_seq (op_map_err g (op_of r)) f) Q s =
     (case r of Inl e \<Rightarrow> Q (Inl (if is_panic e then e else g e)) s | Inr x \<Rightarrow> wp (f x) Q s)"
  by (simp_all add: wp_simps split: sum.splits)

lemma wp_map_err_inv: "wp m (\<lambda>_. I) s \<Longrightarrow> wp (op_map_err g m) (\<lambda>_. I) s"
  by (simp add: wp_map_err)

lemma register_steps_ok:
  "platform_ok (sv_plat s) \<Longrightarrow> wp (register_steps env now name version steps) (\<lambda>_ s'. platform_ok (sv_plat s')) s"
proof (induction steps arbitrary: s)
  case (Cons step steps)
  then show ?case
    by (auto split: option.splits intro!: wp_seq_inv [where I = "\<lambda>s. platform_ok (sv_plat s)"] register_step_schema_ok)
qed (simp add: wp_simps)

text \<open>The ids the documents' triggers would take belong to their rows, for up to \<open>n\<close> triggers.\<close>

definition triggers_upto :: "('env, 'ast, 'prg, 'sch, 'loc) business_env \<Rightarrow> nat \<Rightarrow> raw_json \<Rightarrow> bool" where
  "triggers_upto env n blob = (case Parse (se_unmarshal (be_svc env)) blob of
     Inl _ \<Rightarrow> True | Inr spec \<Rightarrow> length (wf_Triggers spec) \<le> n)"

definition routing_ids_own :: "('env, 'ast, 'prg, 'sch, 'loc) business_env \<Rightarrow> nat \<Rightarrow> Svc \<Rightarrow> bool" where
  "routing_ids_own env n s \<longleftrightarrow> (\<forall>def \<in> set (es_defs (sv_db s)).
     own_rows (routingTarget env def) n (pf_bindings (sv_plat s)) \<and> triggers_upto env n (wd_DSLBlob def))"

lemma next_version_mem: "next_version_loop blob v existing = (v', Some d) \<Longrightarrow> d \<in> set existing"
  by (induction blob v existing rule: next_version_loop.induct) (auto simp: Let_def split: if_splits)

lemma createWorkflow_ok:
  assumes "platform_ok (sv_plat s)" and "routing_ids_own env n s" and "triggers_upto env n blob"
  shows "wp (createWorkflow env now blob) (\<lambda>_ s'. platform_ok (sv_plat s')) s"
proof -
  have routing: "wp (assertRouting env now def spec) (\<lambda>_ s'. platform_ok (sv_plat s')) s"
    if "ListByNameForUpdate (be_db env) name (sv_db s) = Inr existing" "nextVersionOrIdentical existing blob = (v, Some def)"
      "Parse (se_unmarshal (be_svc env)) blob = Inr spec" for def spec existing v name
  proof -
    from that(1,2) have "def \<in> set (es_defs (sv_db s))"
      by (auto simp: ListByNameForUpdate_def nextVersionOrIdentical_def db_select_def res_simps dest!: next_version_mem)
    with assms(2,3) that(3) show ?thesis
      by (intro assertRouting_ok [OF assms(1)]) (auto simp: routing_ids_own_def triggers_upto_def intro: own_rows_mono)
  qed
  have schemas: "wp (registerStepSchemas env now spec v) (\<lambda>_ s'. platform_ok (sv_plat s')) s" for spec v
    using register_steps_ok [OF assms(1)] by (simp add: registerStepSchemas_def)
  let ?I = "\<lambda>s :: Svc. platform_ok (sv_plat s)"
  have fresh: "wp (op_seq (op_map_err (wrap ''register schemas'') (registerStepSchemas env now spec v)) (\<lambda>_.
         op_seq (op_map_err (wrap ''persist workflow'') (db_run (Def_Create (be_db env) now (new_definition spec v blob)))) (\<lambda>def.
         op_seq (op_of (planScheduleRows def (wf_Schedules spec))) (f def)))) (\<lambda>_. ?I) s"
    if "\<And>def scheds s'. ?I s' \<Longrightarrow> list_all (\<lambda>s. \<not> sd_Active s) scheds \<Longrightarrow> wp (f def scheds) (\<lambda>_. ?I) s'" for spec v f
  proof (rule wp_seq_inv [OF wp_map_err_inv [OF schemas]], rule wp_seq_inv)
    fix s' assume "?I s'"
    then show "wp (op_map_err (wrap ''persist workflow'') (db_run (Def_Create (be_db env) now (new_definition spec v blob)))) (\<lambda>_. ?I) s'"
      by (simp add: wp_simps split: sum.splits)
  next
    fix def s' assume "?I s'"
    with that planned_inactive [of def "wf_Schedules spec"]
    show "wp (op_seq (op_of (planScheduleRows def (wf_Schedules spec))) (f def)) (\<lambda>_. ?I) s'"
      by (auto simp: wp_simps split: sum.splits)
  qed
  note seq = createWorkflow_def wp_seq_of wp_seq_read wp_map_err wp_of wp_err
  show ?thesis
  proof (cases "Parse (se_unmarshal (be_svc env)) blob")
    case (Inl e)
    with assms(1) show ?thesis by (simp add: seq)
  next
    case (Inr spec)
    show ?thesis
    proof (cases "ListByNameForUpdate (be_db env) (wf_Name spec) (sv_db s)")
      case (Inl e)
      with Inr assms(1) show ?thesis by (simp add: seq split: option.splits sum.splits)
    next
      case existing: (Inr existing)
      obtain v same where v: "nextVersionOrIdentical existing blob = (v, same)" by force
      show ?thesis
      proof (cases same)
        case None
        show ?thesis
          by (simp add: seq Inr existing v None assms(1) split: option.splits sum.splits) (intro allI impI fresh, auto simp: wp_simps CreateBatch_ok split: sum.splits)
      next
        case (Some def)
        have "wp (op_seq (assertRouting env now def spec) (\<lambda>_. op_ok def)) (\<lambda>_. ?I) s"
          using routing [OF existing v [unfolded Some] Inr] by (rule wp_seq_inv) (simp add: wp_simps)
        then show ?thesis
          by (simp add: seq Inr existing v Some assms(1) wp_ok split: option.splits sum.splits)
      qed
    qed
  qed
qed

lemma load_definition_mem:
  "Def_GetByIDForUpdate env i st = Inr def \<Longrightarrow> def \<in> set (es_defs st)"
  by (auto simp: Def_GetByIDForUpdate_def res_simps db_select_def split: option.splits dest!: first_by_SomeD)

lemma TransitionTo_definition:
  "WorkflowDefinition_TransitionTo status d = Inr def \<Longrightarrow>
     wd_Name def = wd_Name d \<and> wd_WorkflowVersion def = wd_WorkflowVersion d \<and> wd_DSLBlob def = wd_DSLBlob d"
  by (auto simp: WorkflowDefinition_TransitionTo_def res_simps split: if_splits)

lemma activateWorkflow_ok:
  assumes "platform_ok (sv_plat s)" and "routing_ids_own env n s"
  shows "wp (activateWorkflow env now i) (\<lambda>_ s'. platform_ok (sv_plat s')) s"
proof -
  let ?I = "\<lambda>s :: Svc. platform_ok (sv_plat s)"
  have act: "platform_ok pf'"
    if "listByWorkflow (be_db env) name v pf = Inr scheds" "plan_fires cron now scheds = Inr fires"
      "ActivateByWorkflow (be_db env) now name v fires pf = Inr pf'" "platform_ok pf"
    for name v cron scheds fires pf pf'
  proof -
    have "set (map sa_ID fires) = bm_ID ` {s \<in> set (pf_schedules pf). schedule_of name v s \<and> live s}"
      using plan_fires_ids [OF that(2)] that(1) by (auto simp: listByWorkflow_def res_simps db_select_def)
    with ActivateByWorkflow_ok [OF that(3,4)] show ?thesis by simp
  qed
  have bindings: "pf_bindings pf' = pf_bindings pf" if "ActivateByWorkflow e now name v fires pf = Inr pf'" for e name v fires pf pf'
    using that by (auto simp: ActivateByWorkflow_def res_simps split: if_splits)
  have routing: "wp (assertRouting env now def spec) (\<lambda>_. ?I) (s\<lparr>sv_db := db, sv_plat := pf\<rparr>)"
    if "Def_GetByIDForUpdate (be_db env) i (sv_db s) = Inr d" "WorkflowDefinition_TransitionTo WorkflowStatusActive d = Inr def"
      "Parse (se_unmarshal (be_svc env)) (wd_DSLBlob def) = Inr spec" "platform_ok pf"
      "pf_bindings pf = pf_bindings (sv_plat s)" for d def spec db pf
  proof -
    have "routingTarget env def = routingTarget env d" using TransitionTo_definition [OF that(2)] by (simp add: routingTarget_def)
    moreover have "own_rows (routingTarget env d) n (pf_bindings (sv_plat s)) \<and> triggers_upto env n (wd_DSLBlob def)"
      using assms(2) load_definition_mem [OF that(1)] TransitionTo_definition [OF that(2)] by (simp add: routing_ids_own_def)
    ultimately show ?thesis
      using that(3-5) by (intro assertRouting_ok) (auto simp: triggers_upto_def intro: own_rows_mono)
  qed
  show ?thesis
    using assms(1)
    by (auto simp: activateWorkflow_def load_definition_def move_definition_def wp_simps bindings
        split: sum.splits intro: act routing)
qed

lemma archiveWorkflow_ok:
  assumes "platform_ok (sv_plat s)"
  shows "wp (archiveWorkflow env now i) (\<lambda>_ s'. platform_ok (sv_plat s')) s"
  using assms
  by (auto simp: archiveWorkflow_def load_definition_def move_definition_def wp_simps split: sum.splits
      dest: DeactivateByWorkflow_ok DeactivateByWorkflowVersion_ok)

lemma Cron_RunOnce_ok:
  assumes "platform_ok (sv_plat s)"
  shows "wp (Cron_RunOnce env cron now batch) (\<lambda>_ s'. platform_ok (sv_plat s')) s"
  using assms by (auto simp: Cron_RunOnce_def wp_simps split: sum.splits dest: ClaimAndFireBatch_ok)

datatype platform_request =
  CreateVersion raw_json | ActivateVersion string | ArchiveVersion string | CronSweep int

text \<open>The state a request leaves, whether it succeeds or not.\<close>

fun serve_platform :: "('env, 'ast, 'prg, 'sch, 'loc) business_env \<Rightarrow> int \<Rightarrow> platform_request \<Rightarrow> Svc \<Rightarrow> Svc" where
  "serve_platform env now (CreateVersion blob) s = snd (CreateWorkflow env now blob s)"
| "serve_platform env now (ActivateVersion i) s = snd (ActivateWorkflow env now i s)"
| "serve_platform env now (ArchiveVersion i) s = snd (ArchiveWorkflow env now i s)"
| "serve_platform env now (CronSweep batch) s = snd (Cron_RunOnce (be_db env) (be_cron env) now batch s)"

lemma wp_snd: "wp m (\<lambda>_. I) s \<Longrightarrow> I (snd (m s))"
  by (simp add: wp_def split: prod.splits)

text \<open>C28: at most one version of a workflow is live: its live active schedules share one version and so do its
  live active trigger bindings, and this survives creating, activating and archiving versions and cron sweeps,
  also when they fail half way, as long as the deterministic row ids of the stored versions do not collide.\<close>
theorem one_live_version:
  assumes "platform_ok (sv_plat s)" and "routing_ids_own env n s"
    and "\<And>blob. request = CreateVersion blob \<Longrightarrow> triggers_upto env n blob"
  shows "platform_ok (sv_plat (serve_platform env now request s))"
proof (cases request)
  case (CreateVersion blob)
  with wp_snd [OF createWorkflow_ok [OF assms(1,2), of blob now]] assms(3) show ?thesis by (simp add: CreateWorkflow_def)
next
  case (ActivateVersion i)
  with wp_snd [OF activateWorkflow_ok [OF assms(1,2), of now i]] show ?thesis by (simp add: ActivateWorkflow_def)
next
  case (ArchiveVersion i)
  with wp_snd [OF archiveWorkflow_ok [OF assms(1), of env now i]] show ?thesis by (simp add: ArchiveWorkflow_def)
next
  case (CronSweep batch)
  with wp_snd [OF Cron_RunOnce_ok [OF assms(1), of "be_db env" "be_cron env" now batch]] show ?thesis by simp
qed

section \<open>Examples\<close>

definition ex_business :: "(unit, string, string, unit, unit) business_env" where
  "ex_business = \<lparr>be_svc = ex_svc_env, be_cron = example_cron, be_UpdateDef = (\<lambda>_ t. Inr t),
     be_TenantID = ''t'', be_PartitionID = ''p''\<rparr>"

definition ex_schedule :: "string \<Rightarrow> int \<Rightarrow> bool \<Rightarrow> ScheduleDefinition" where
  "ex_schedule i version active =
     \<lparr>bm_ID = i, bm_CreatedAt = 0, bm_ModifiedAt = 0, bm_DeletedAt = None, sd_Name = ''nightly'',
      sd_CronExpr = ''* * * * *'', sd_Timezone = ''UTC'', sd_WorkflowName = ''flow'', sd_WorkflowVersion = version,
      sd_InputPayload = empty_object, sd_Active = active, sd_NextFireAt = (if active then Some 5 else None),
      sd_LastFiredAt = None, sd_JitterSeconds = 0\<rparr>"

definition ex_binding :: "string \<Rightarrow> string \<Rightarrow> int \<Rightarrow> TriggerBinding" where
  "ex_binding i name version =
     \<lparr>bm_ID = i, bm_CreatedAt = 0, bm_ModifiedAt = 0, bm_DeletedAt = None, tb_EventType = ''order.created'',
      tb_EventFilter = [], tb_WorkflowName = name, tb_WorkflowVersion = version, tb_InputMapping = empty_object,
      tb_KeyExpr = [], tb_Active = True\<rparr>"

definition ex_platform :: Platform where
  "ex_platform = empty_platform\<lparr>pf_schedules := [ex_schedule ''s1'' 2 True, ex_schedule ''s2'' 1 False],
     pf_bindings := [ex_binding ''b1'' ''flow'' 2, ex_binding ''b2'' ''other'' 1]\<rparr>"

definition ex_target :: WorkflowRoutingTarget where
  "ex_target = \<lparr>tg_WorkflowName = ''flow'', tg_WorkflowVersion = 1, tg_TenantID = ''t'', tg_PartitionID = ''p''\<rparr>"

lemma ex_own_rows: "own_rows (routingTarget ex_business ex_definition) n (pf_bindings ex_platform)"
  "own_rows ex_target n (pf_bindings ex_platform)"
  by (simp_all add: own_rows_def ex_platform_def ex_binding_def routingRowID_def)

lemma ex_platform_ok: "platform_ok ex_platform"
  by (simp add: platform_ok_def workflow_schedules_ok_def bindings_ok_def one_version_def ex_platform_def ex_schedule_def
      ex_binding_def schedule_live_def)

theorem replace_makes_only_live_bindings_witness:
  "\<exists>pf'. ReplaceForWorkflow ex_env 7 ex_target [ex_binding [] [] 0] ex_platform = Inr pf' \<and>
    (\<lambda>b. (tb_WorkflowVersion b, trigger_content b)) ` {b \<in> set (pf_bindings pf'). live_binding ''flow'' b}
      = {(1, ''order.created'', [], [])} \<and>
    {b \<in> set (pf_bindings pf'). live_binding ''other'' b} = {ex_binding ''b2'' ''other'' 1}"
proof -
  have l: "list_all live [ex_binding [] [] 0]" by (simp add: ex_binding_def live_def)
  have "is_ok (ReplaceForWorkflow ex_env 7 ex_target [ex_binding [] [] 0] ex_platform)"
    by (simp add: ReplaceForWorkflow_def Let_def index_rows_def enumerate_Suc_eq stamp_binding_def stampDeterministicRow_def
        update_where_def upsert_def ex_env_def no_faults_def relabel_def ex_platform_def jsonb_def stmt_def guard_def ex_binding_def
        empty_object_def json_default_def is_ok_def)
  then obtain pf' where r: "ReplaceForWorkflow ex_env 7 ex_target [ex_binding [] [] 0] ex_platform = Inr pf'"
    by (cases "ReplaceForWorkflow ex_env 7 ex_target [ex_binding [] [] 0] ex_platform") (auto simp: is_ok_def)
  from replace_makes_only_live_bindings [OF r _ l, of "''other''"] ex_own_rows(2)
  show ?thesis
    by (intro exI [of _ pf'] conjI r)
      (auto simp: ex_target_def trigger_content_def ex_binding_def ex_platform_def live_binding_def live_def empty_platform_def)
qed

lemma ex_triggers: "triggers_upto ex_business n blob"
  by (auto simp: triggers_upto_def Parse_def ex_business_def ex_svc_env_def example_spec_def res_simps split: sum.splits)

theorem one_live_version_witness:
  "platform_ok (sv_plat (serve_platform ex_business 7 (ActivateVersion ''def'')
     ((ex_svc ex_dispatched)\<lparr>sv_plat := ex_platform\<rparr>)))"
proof (rule one_live_version [where n = 0])
  show "routing_ids_own ex_business 0 ((ex_svc ex_dispatched)\<lparr>sv_plat := ex_platform\<rparr>)"
    using ex_own_rows(1) [of 0]
    by (simp add: routing_ids_own_def ex_svc_def ex_dispatched_def ex_triggers)
qed (simp_all add: ex_platform_ok)

end
