(* ===== verification/Schedule_Correct.thy ===== *)
theory Schedule_Correct
  imports Workflow_Correct
begin

text \<open>
  What a sweep of the cron scheduler does to the schedules and the event log, and what becomes of a
  schedule whose expression matches no date.
\<close>

section \<open>Firing due schedules\<close>

definition due_batch :: "int \<Rightarrow> int \<Rightarrow> Platform \<Rightarrow> ScheduleDefinition list" where
  "due_batch now limit pf =
     sql_limit limit (sort_key (\<lambda>s. the (sd_NextFireAt s)) (db_select (schedule_due now) (pf_schedules pf)))"

text \<open>The nominal time a schedule fires at next, when its expression and its zone are good.\<close>

definition next_nominal :: "('sch, 'loc) cron_lib \<Rightarrow> int \<Rightarrow> ScheduleDefinition \<Rightarrow> ('sch CronSchedule \<times> int) option" where
  "next_nominal cron now s = (case ParseCron cron (sd_CronExpr s) of
     Inl _ \<Rightarrow> None
   | Inr c \<Rightarrow> (case NextInZone cron c (fire_base now s) (sd_Timezone s) of Inl _ \<Rightarrow> None | Inr t \<Rightarrow> Some (c, t)))"

definition fired_plan :: "('sch, 'loc) cron_lib \<Rightarrow> int \<Rightarrow> ScheduleDefinition \<Rightarrow> schedule_plan" where
  "fired_plan cron now s = (case next_nominal cron now s of
     None \<Rightarrow> (None, None, 0)
   | Some (c, t) \<Rightarrow> (let j = JitterFor cron (bm_ID s) c (loc_UTC cron) t in
       (Some (buildEvent s now), Some (t + j), go_div j time_Second)))"

lemma planOne_total: "planOne cron now s = Inr (fired_plan cron now s)"
  by (simp add: planOne_def fired_plan_def next_nominal_def Let_def split: sum.splits)

lemma plan_rows_planOne: "plan_rows (planOne cron now) batch = map (\<lambda>s. (s, fired_plan cron now s)) batch"
  by (induction batch) (simp_all add: planOne_total)

definition fired :: "('sch, 'loc) cron_lib \<Rightarrow> int \<Rightarrow> ScheduleDefinition \<Rightarrow> ScheduleDefinition" where
  "fired cron now s = (case fired_plan cron now s of (_, nextFire, jitter) \<Rightarrow>
     s\<lparr>sd_LastFiredAt := Some now, sd_NextFireAt := nextFire, sd_JitterSeconds := jitter, bm_ModifiedAt := now\<rparr>)"

definition event_kind :: "EventLog \<Rightarrow> string \<times> string" where
  "event_kind e = (ev_EventType e, ev_Source e)"

lemma insert_events_InrD:
  "insert_events env now k evs tbl = Inr tbl' \<Longrightarrow> \<exists>new. tbl' = tbl @ new \<and> map event_kind new = map event_kind evs"
proof (induction evs arbitrary: k tbl)
  case (Cons e evs)
  then obtain t where t: "insert_event env ''batch insert event_log'' (''fired event '' @ itoa (int k)) now e tbl = Inr t"
    "insert_events env now (Suc k) evs t = Inr tbl'" by (auto simp: res_simps)
  from t(1) have "t = tbl @ [with_id (ee_id env (''fired event '' @ itoa (int k))) now e]"
    by (auto simp: insert_event_def res_simps dest!: create_InrD db_insert_SomeD)
  with Cons.IH [OF t(2)] show ?case by (auto simp: event_kind_def with_id_def)
qed simp

lemma planned_events_fired:
  "planned_events (map (\<lambda>s. (s, fired_plan cron now s)) batch) =
     map (\<lambda>s. buildEvent s now) (filter (\<lambda>s. next_nominal cron now s \<noteq> None) batch)"
  by (induction batch) (auto simp: planned_events_def fired_plan_def Let_def split: option.splits)

lemma find_map: "List.find P (map f xs) = map_option f (List.find (\<lambda>x. P (f x)) xs)"
  by (induction xs) auto

lemma fire_row_fired:
  assumes "distinct (map bm_ID tbl)" and "set batch \<subseteq> set tbl" and "s \<in> set tbl"
  shows "fire_row now (map (\<lambda>s. (s, fired_plan cron now s)) batch) s = (if s \<in> set batch then fired cron now s else s)"
proof (cases "List.find (\<lambda>r. bm_ID r = bm_ID s) batch")
  case None
  then have "bm_ID s \<notin> bm_ID ` set batch" by (auto simp: find_None_iff')
  with None show ?thesis by (auto simp: fire_row_def find_map comp_def case_prod_unfold)
next
  case (Some r)
  then have r: "r \<in> set batch" "bm_ID r = bm_ID s" by (auto dest: find_SomeD)
  with assms have "r = s" by (auto simp: distinct_map inj_on_def)
  with Some r show ?thesis
    by (simp add: fire_row_def find_map comp_def case_prod_unfold fired_def)
qed

lemma due_batch_subset: "set (due_batch now limit pf) \<subseteq> {s \<in> set (pf_schedules pf). schedule_due now s \<and> live s}"
  by (auto simp: due_batch_def sql_limit_def db_select_def dest!: in_set_takeD split: if_splits)

lemma ClaimAndFireBatch_fired:
  assumes "ClaimAndFireBatch env clock (planOne cron now) now limit pf = Inr (n, pf')"
    and "distinct (map bm_ID (pf_schedules pf))"
  shows "n = length (due_batch now limit pf)"
    and "\<exists>new. pf_events pf' = pf_events pf @ new \<and> map event_kind new =
      map (\<lambda>s. (ScheduleFiredType, ''schedule:'' @ bm_ID s)) (filter (\<lambda>s. next_nominal cron now s \<noteq> None) (due_batch now limit pf))"
    and "pf_schedules pf' = map (\<lambda>s. if s \<in> set (due_batch now limit pf) then fired cron now s else s) (pf_schedules pf)"
proof -
  define batch where "batch = due_batch now limit pf"
  have sub: "set batch \<subseteq> set (pf_schedules pf)" using due_batch_subset unfolding batch_def by blast
  note fr = fire_row_fired [OF assms(2) sub, of _ now cron]
  from assms(1) have n: "n = length batch"
    and r: "batch = [] \<and> pf' = pf \<or> (\<exists>t. insert_events env clock 0 (map (\<lambda>s. buildEvent s now)
          (filter (\<lambda>s. next_nominal cron now s \<noteq> None) batch)) (pf_events pf) = Inr t \<and>
        pf' = pf\<lparr>pf_events := t, pf_schedules := map (fire_row now (map (\<lambda>s. (s, fired_plan cron now s)) batch)) (pf_schedules pf)\<rparr>)"
    by (auto simp: ClaimAndFireBatch_def res_simps Let_def plan_rows_planOne planned_events_fired
        due_batch_def [symmetric] batch_def [symmetric] split: if_splits)
  show "n = length (due_batch now limit pf)" using n by (simp add: batch_def)
  show "pf_schedules pf' = map (\<lambda>s. if s \<in> set (due_batch now limit pf) then fired cron now s else s) (pf_schedules pf)"
    using r fr by (auto simp: batch_def [symmetric] map_idI)
  show "\<exists>new. pf_events pf' = pf_events pf @ new \<and> map event_kind new =
      map (\<lambda>s. (ScheduleFiredType, ''schedule:'' @ bm_ID s)) (filter (\<lambda>s. next_nominal cron now s \<noteq> None) (due_batch now limit pf))"
    using r by (auto simp: batch_def [symmetric] event_kind_def buildEvent_def comp_def dest!: insert_events_InrD)
qed

text \<open>A due schedule is planned from a time at most the tolerance ago, and not before its own due time.\<close>

lemma fire_base_bounds:
  assumes "schedule_due now s"
  shows "now - cronMissedFireThreshold \<le> fire_base now s" and "the (sd_NextFireAt s) \<le> fire_base now s"
  using assms
  by (auto simp: schedule_due_def fire_base_def at_or_before_def time_Sub_def cronMissedFireThreshold_def second_def
      max_int64_def min_int64_def split: option.splits)

text \<open>C30: a sweep of the cron scheduler takes a batch of the due schedules, the longest due first, stores one
  event for each of them whose expression and zone are good, and leaves all other schedules alone. A schedule
  of the batch whose expression or zone is bad has no next fire time any more; every other one moves strictly forward,
  past its old due time and past the tolerance for missed fires, when the cron library gives a time after the one
  it is asked from.\<close>
theorem sweep_fires_due_schedules:
  assumes "ClaimAndFireBatch env clock (planOne cron now) now limit pf = Inr (n, pf')"
    and "distinct (map bm_ID (pf_schedules pf))"
    and "\<And>s c loc. s \<in> set (due_batch now limit pf) \<Longrightarrow> ParseCron cron (sd_CronExpr s) = Inr c \<Longrightarrow>
      fire_base now s < cron_Next cron (cs_schedule c) loc (fire_base now s)"
  shows "n = length (due_batch now limit pf) \<and>
    (\<exists>new. pf_events pf' = pf_events pf @ new \<and> map event_kind new =
      map (\<lambda>s. (ScheduleFiredType, ''schedule:'' @ bm_ID s)) (filter (\<lambda>s. next_nominal cron now s \<noteq> None) (due_batch now limit pf))) \<and>
    pf_schedules pf' = map (\<lambda>s. if s \<in> set (due_batch now limit pf) then fired cron now s else s) (pf_schedules pf) \<and>
    (\<forall>s \<in> set (due_batch now limit pf). case sd_NextFireAt (fired cron now s) of
        None \<Rightarrow> next_nominal cron now s = None
      | Some t \<Rightarrow> next_nominal cron now s \<noteq> None \<and> the (sd_NextFireAt s) < t \<and> now - cronMissedFireThreshold < t)"
proof (intro conjI ballI)
  fix s assume "s \<in> set (due_batch now limit pf)"
  then have due: "schedule_due now s" and s: "s \<in> set (due_batch now limit pf)" using due_batch_subset by blast+
  have "the (sd_NextFireAt s) < t + j \<and> now - cronMissedFireThreshold < t + j"
    if "next_nominal cron now s = Some (c, t)" "0 \<le> j" for c t j
  proof -
    have "fire_base now s < t"
      using that(1) assms(3) [OF s] by (auto simp: next_nominal_def NextInZone_def split: sum.splits if_splits)
    with that(2) fire_base_bounds [OF due] show ?thesis by simp
  qed
  moreover have "0 \<le> JitterFor cron i c loc t" for i c loc t by (simp add: JitterFor_def Let_def)
  ultimately show "case sd_NextFireAt (fired cron now s) of
        None \<Rightarrow> next_nominal cron now s = None
      | Some t \<Rightarrow> next_nominal cron now s \<noteq> None \<and> the (sd_NextFireAt s) < t \<and> now - cronMissedFireThreshold < t"
    by (auto simp: fired_def fired_plan_def Let_def split: option.splits)
qed (use ClaimAndFireBatch_fired [OF assms(1,2)] in auto)

section \<open>Expressions that match no date\<close>

text \<open>The zero \<open>time.Time\<close> is what the cron library gives when it finds no match within five years.\<close>

lemma due_batch_active: "s \<in> set (due_batch now limit pf) \<Longrightarrow> s \<in> set (pf_schedules pf) \<and> sd_Active s"
  using due_batch_subset by (auto simp: schedule_due_def)

text \<open>A cron expression that parses and matches no date, such as the 30th of February, is taken for one that is always
  overdue: activation gives its schedule the zero time as first fire, and a sweep that takes the schedule stores an event and leaves it due for
  every later sweep.\<close>
theorem impossible_cron_fires_every_sweep:
  assumes "ClaimAndFireBatch env clock (planOne cron now) now limit pf = Inr (n, pf')"
    and "distinct (map bm_ID (pf_schedules pf))"
    and "s \<in> set (due_batch now limit pf)" and "ParseCron cron (sd_CronExpr s) = Inr c" and "sd_Timezone s = ''UTC''"
    and "\<And>loc t. cron_Next cron (cs_schedule c) loc t = zero_time" and "0 \<le> now" and "now \<le> now'"
  shows "first_fire cron now s = Inr \<lparr>sa_ID = bm_ID s, sa_NextFireAt = zero_time, sa_JitterSeconds = 0\<rparr> \<and>
    (\<exists>e \<in> set (drop (length (pf_events pf)) (pf_events pf')). event_kind e = (ScheduleFiredType, ''schedule:'' @ bm_ID s)) \<and>
    (\<exists>s' \<in> set (pf_schedules pf'). bm_ID s' = bm_ID s \<and> sd_CronExpr s' = sd_CronExpr s \<and> schedule_due now' s')"
proof (intro conjI)
  have jitter: "JitterFor cron i c loc zero_time = 0" for i loc
    using assms(6) by (simp add: JitterFor_def CronSchedule_Next_def time_Sub_def max_int64_def min_int64_def)
  have nominal: "next_nominal cron now s = Some (c, zero_time)"
    using assms(4-6) by (simp add: next_nominal_def NextInZone_def)
  show "first_fire cron now s = Inr \<lparr>sa_ID = bm_ID s, sa_NextFireAt = zero_time, sa_JitterSeconds = 0\<rparr>"
    using assms(4-6) jitter by (simp add: first_fire_def NextInZone_def Let_def go_div_def)
  note f = ClaimAndFireBatch_fired [OF assms(1,2)]
  from f(2) obtain new where new: "pf_events pf' = pf_events pf @ new" "map event_kind new =
      map (\<lambda>s. (ScheduleFiredType, ''schedule:'' @ bm_ID s)) (filter (\<lambda>s. next_nominal cron now s \<noteq> None) (due_batch now limit pf))"
    by blast
  have "(ScheduleFiredType, ''schedule:'' @ bm_ID s) \<in> set (map event_kind new)"
    unfolding new(2) using assms(3) nominal by auto
  then show "\<exists>e \<in> set (drop (length (pf_events pf)) (pf_events pf')). event_kind e = (ScheduleFiredType, ''schedule:'' @ bm_ID s)"
    by (auto simp: new(1))
  have s: "s \<in> set (pf_schedules pf)" "sd_Active s" using due_batch_active [OF assms(3)] by auto
  have "fired cron now s \<in> set (pf_schedules pf')" using f(3) s assms(3) by force
  moreover have "bm_ID (fired cron now s) = bm_ID s" "sd_CronExpr (fired cron now s) = sd_CronExpr s"
    "sd_Active (fired cron now s)" "sd_NextFireAt (fired cron now s) = Some zero_time"
    using s by (simp_all add: fired_def fired_plan_def nominal Let_def jitter)
  ultimately show "\<exists>s' \<in> set (pf_schedules pf'). bm_ID s' = bm_ID s \<and> sd_CronExpr s' = sd_CronExpr s \<and> schedule_due now' s'"
    using assms(7,8) by (intro bexI [of _ "fired cron now s"]) (auto simp: schedule_due_def at_or_before_def zero_time_def second_def)
qed

section \<open>Examples\<close>

definition never_cron :: "(unit, unit) cron_lib" where
  "never_cron = example_cron\<lparr>cron_Next := (\<lambda>_ _ _. zero_time)\<rparr>"

definition due_platform :: Platform where
  "due_platform = empty_platform\<lparr>pf_schedules := [ex_schedule ''s1'' 2 True, ex_schedule ''s2'' 1 False]\<rparr>"

lemma due_platform_batch: "due_batch 9 10 due_platform = [ex_schedule ''s1'' 2 True]"
  by (simp add: due_batch_def due_platform_def db_select_def schedule_due_def at_or_before_def ex_schedule_def sql_limit_def live_def)

lemma due_platform_fired:
  assumes "\<And>s. s \<in> set (due_batch 9 10 due_platform) \<Longrightarrow> next_nominal cron 9 s \<noteq> None"
  shows "\<exists>pf'. ClaimAndFireBatch ex_env 9 (planOne cron 9) 9 10 due_platform = Inr (1, pf')"
proof -
  have "plan_rows (planOne cron 9) (due_batch 9 10 due_platform) = [(ex_schedule ''s1'' 2 True, fired_plan cron 9 (ex_schedule ''s1'' 2 True))]"
    by (simp add: planOne_total due_platform_batch)
  moreover have "planned_events [(ex_schedule ''s1'' 2 True, fired_plan cron 9 (ex_schedule ''s1'' 2 True))] =
      [buildEvent (ex_schedule ''s1'' 2 True) 9]"
    using assms planned_events_fired [of cron 9 "[ex_schedule ''s1'' 2 True]"] by (simp add: due_platform_batch)
  moreover have "\<exists>t. insert_events ex_env 9 0 [buildEvent (ex_schedule ''s1'' 2 True) 9] (pf_events due_platform) = Inr t"
    by (simp add: insert_event_def EventLog_BeforeCreate_def Let_def ex_env_def MaxEventLogPayloadBytes_def jsonb_def guard_def buildEvent_def
        schedule_fired_payload_def json_marshal_def create_def no_faults_def stmt_def db_insert_def due_platform_def empty_platform_def)
  ultimately show ?thesis
    by (auto simp: ClaimAndFireBatch_def Let_def due_batch_def [symmetric] stmt_def guard_def ex_env_def no_faults_def)
qed

lemma due_platform_ids: "distinct (map bm_ID (pf_schedules due_platform))"
  by (simp add: due_platform_def ex_schedule_def)

lemma ex_parse_cron: "ParseCron example_cron ''* * * * *'' = Inr \<lparr>cs_expr = ''* * * * *'', cs_schedule = ()\<rparr>"
  "ParseCron never_cron ''* * * * *'' = Inr \<lparr>cs_expr = ''* * * * *'', cs_schedule = ()\<rparr>"
  by code_simp+

theorem sweep_fires_due_schedules_witness:
  "\<exists>pf'. ClaimAndFireBatch ex_env 9 (planOne example_cron 9) 9 10 due_platform = Inr (1, pf') \<and>
    map event_kind (pf_events pf') = [(ScheduleFiredType, ''schedule:s1'')]"
proof -
  have nom: "next_nominal example_cron 9 (ex_schedule ''s1'' 2 True) \<noteq> None"
    by (simp add: next_nominal_def ex_schedule_def ex_parse_cron NextInZone_def)
  then obtain pf' where r: "ClaimAndFireBatch ex_env 9 (planOne example_cron 9) 9 10 due_platform = Inr (1, pf')"
    using due_platform_fired [of example_cron] by (auto simp: due_platform_batch)
  have later: "fire_base 9 s < cron_Next example_cron (cs_schedule c) loc (fire_base 9 s)" for s c loc
    by (simp add: example_cron_def)
  have "pf_events due_platform = []" by (simp add: due_platform_def empty_platform_def)
  with sweep_fires_due_schedules [OF r due_platform_ids later]
  have "map event_kind (pf_events pf') = map (\<lambda>s. (ScheduleFiredType, ''schedule:'' @ bm_ID s))
      (filter (\<lambda>s. next_nominal example_cron 9 s \<noteq> None) (due_batch 9 10 due_platform))"
    by (elim conjE exE) (simp only: append.simps)
  also have "\<dots> = [(ScheduleFiredType, ''schedule:'' @ bm_ID (ex_schedule ''s1'' 2 True))]"
    using nom by (simp only: due_platform_batch filter.simps not_False_eq_True if_True list.simps)
  also have "\<dots> = [(ScheduleFiredType, ''schedule:s1'')]" by (simp add: ex_schedule_def)
  finally have "map event_kind (pf_events pf') = [(ScheduleFiredType, ''schedule:s1'')]" .
  with r show ?thesis by (intro exI [of _ pf'] conjI)
qed

theorem impossible_cron_fires_every_sweep_witness:
  "\<exists>pf'. ClaimAndFireBatch ex_env 9 (planOne never_cron 9) 9 10 due_platform = Inr (1, pf') \<and>
    (\<exists>s' \<in> set (pf_schedules pf'). bm_ID s' = ''s1'' \<and> schedule_due 10 s')"
proof -
  have nom: "next_nominal never_cron 9 (ex_schedule ''s1'' 2 True) \<noteq> None"
    by (simp add: next_nominal_def ex_schedule_def ex_parse_cron NextInZone_def)
  then obtain pf' where r: "ClaimAndFireBatch ex_env 9 (planOne never_cron 9) 9 10 due_platform = Inr (1, pf')"
    using due_platform_fired [of never_cron] by (auto simp: due_platform_batch)
  have s: "ex_schedule ''s1'' 2 True \<in> set (due_batch 9 10 due_platform)" by (simp add: due_platform_batch)
  have "ParseCron never_cron (sd_CronExpr (ex_schedule ''s1'' 2 True)) = Inr \<lparr>cs_expr = ''* * * * *'', cs_schedule = ()\<rparr>"
    by (simp add: ex_schedule_def ex_parse_cron)
  from impossible_cron_fires_every_sweep [OF r due_platform_ids s this, of 10]
  show ?thesis by (intro exI [of _ pf'] conjI r) (auto simp: never_cron_def ex_schedule_def)
qed

end
