(* ===== verification/Outbox_Correct.thy ===== *)
theory Outbox_Correct
  imports Schedule_Correct Lease_Correct
begin

text \<open>
  What the outbox promises: the event log is a leased table, a sweep publishes and acknowledges exactly
  the batch it claims, and one wake-up of the scheduler drains a backlog that fits into its batches.
\<close>

interpretation events: lease event_free event_leased ev_PublishClaimUntil event_owned
  by unfold_locales (auto simp: event_leased_def event_free_def event_owned_def keeps_key_def)

section \<open>One sweep\<close>

text \<open>An event after it was published and acknowledged.\<close>

definition acknowledged :: "int \<Rightarrow> EventLog \<Rightarrow> EventLog" where
  "acknowledged now e = event_unclaimed (event_published now e)"

lemma acknowledged_simps [simp]:
  "bm_ID (acknowledged now e) = bm_ID e" "ev_Published (acknowledged now e)" "keeps_key (acknowledged now)"
  by (simp_all add: acknowledged_def event_unclaimed_def event_published_def keeps_key_def)

text \<open>The events a worker holds, acknowledged when they are among \<open>ids\<close>.\<close>

lemma acknowledged_keeps [simp]: "live (acknowledged now e) = live e" "ev_PublishClaimOwner (acknowledged now e) = []"
  by (simp_all add: acknowledged_def event_unclaimed_def event_published_def live_def)

definition ack_all :: "string set \<Rightarrow> string \<Rightarrow> int \<Rightarrow> EventLog list \<Rightarrow> EventLog list" where
  "ack_all ids owner now tbl = db_update (\<lambda>e. bm_ID e \<in> ids \<and> ev_PublishClaimOwner e = owner) (acknowledged now) tbl"

definition decodable :: "EventLog \<Rightarrow> bool" where
  "decodable e \<longleftrightarrow> is_ok (json_unmarshal_map (ev_Payload e))"

lemma decodable_message: "decodable e \<Longrightarrow> \<exists>m. buildIngestedEventMessage tenant part e = Inr m"
  by (auto simp: decodable_def buildIngestedEventMessage_def labelled_def is_ok_def split: sum.splits)

definition quiet :: "faults \<Rightarrow> bool" where
  "quiet F \<longleftrightarrow> \<not> F ''claim unpublished'' \<and> \<not> F ''claim unpublished (update)'' \<and> \<not> F ''mark published by owner''"

lemma outbox_one_acks:
  assumes "quiet (ee_F env)" and "\<And>m. publish m = Inr ()" and "decodable e"
    and "\<exists>x \<in> set (pf_events (sv_plat s)). live x \<and> event_owned (bm_ID e) owner x"
  shows "outbox_one env tenant part publish owner now e s =
    (Inr True, s\<lparr>sv_plat := (sv_plat s)\<lparr>pf_events := ack_all {bm_ID e} owner now (pf_events (sv_plat s))\<rparr>\<rparr>)"
proof -
  obtain m where m: "buildIngestedEventMessage tenant part e = Inr m" using decodable_message [OF assms(3)] by blast
  have "affected (event_owned (bm_ID e) owner) (pf_events (sv_plat s)) \<noteq> 0" using assms(4) by (auto simp: affected_0_iff)
  moreover have f: "(\<lambda>x. event_unclaimed (event_published now x)) = acknowledged now" by (simp add: fun_eq_iff acknowledged_def)
  ultimately have "MarkPublishedByOwner env (bm_ID e) owner now (sv_plat s) =
      Inr ((sv_plat s)\<lparr>pf_events := ack_all {bm_ID e} owner now (pf_events (sv_plat s))\<rparr>)"
    using assms(1) by (simp add: MarkPublishedByOwner_def update_some_def stmt_def guard_def quiet_def ack_all_def event_owned_def [abs_def] f)
  with m assms(2) show ?thesis
    by (simp add: outbox_one_def try_then_def op_seq_def op_try_def plat_exec_def op_ok_def)
qed

lemma acknowledged_ID: "bm_ID (acknowledged now e) = bm_ID e"
  by (simp add: acknowledged_def event_unclaimed_def event_published_def)

lemma ack_all_ack_all:
  "i \<notin> ids \<Longrightarrow> ack_all ids owner now (ack_all {i} owner now tbl) = ack_all (insert i ids) owner now tbl"
  by (auto simp: ack_all_def db_update_def acknowledged_ID)

lemma sweep_acks:
  assumes "quiet (ee_F env)" and "\<And>m. publish m = Inr ()" and "list_all decodable rows" and "distinct (map bm_ID rows)"
    and "\<And>r. r \<in> set rows \<Longrightarrow> \<exists>x \<in> set (pf_events (sv_plat s)). live x \<and> event_owned (bm_ID r) owner x"
  shows "sweep (outbox_one env tenant part publish owner now) rows n s =
    (Inr (n + int (length rows)),
     s\<lparr>sv_plat := (sv_plat s)\<lparr>pf_events := ack_all (bm_ID ` set rows) owner now (pf_events (sv_plat s))\<rparr>\<rparr>)"
  using assms(3-5)
proof (induction rows arbitrary: n s)
  case Nil
  then show ?case by (simp add: op_ok_def ack_all_def db_update_def)
next
  case (Cons e rows)
  let ?s = "s\<lparr>sv_plat := (sv_plat s)\<lparr>pf_events := ack_all {bm_ID e} owner now (pf_events (sv_plat s))\<rparr>\<rparr>"
  have one: "outbox_one env tenant part publish owner now e s = (Inr True, ?s)"
    using outbox_one_acks [OF assms(1,2)] Cons.prems by simp
  have "\<exists>x \<in> set (pf_events (sv_plat ?s)). live x \<and> event_owned (bm_ID r) owner x" if r: "r \<in> set rows" for r
  proof -
    obtain x where "x \<in> set (pf_events (sv_plat s))" "live x" "event_owned (bm_ID r) owner x" using Cons.prems(3) [of r] r by auto
    moreover have "bm_ID r \<noteq> bm_ID e" using Cons.prems(2) r by (auto simp: image_iff)
    ultimately show ?thesis
      by (auto simp: ack_all_def db_update_def event_owned_def intro!: bexI [of _ x] image_eqI [of _ _ x])
  qed
  with Cons.IH [of ?s "n + 1"] Cons.prems one
  show ?case by (simp add: op_seq_def ack_all_ack_all)
qed

definition outbox_batch :: "int \<Rightarrow> int \<Rightarrow> EventLog list \<Rightarrow> EventLog list" where
  "outbox_batch now batchSize tbl = sql_limit batchSize (sort_key bm_CreatedAt (db_select (event_free now) tbl))"

lemma outbox_batch_subset: "set (outbox_batch now n tbl) \<subseteq> {e \<in> set tbl. live e \<and> event_free now e}"
  by (auto simp: outbox_batch_def sql_limit_def db_select_def dest: in_set_takeD)

lemma outbox_batch_distinct:
  assumes "distinct (map bm_ID tbl)"
  shows "distinct (map bm_ID (outbox_batch now n tbl))"
proof -
  have "distinct (map bm_ID (sort_key bm_CreatedAt (db_select (event_free now) tbl)))"
    using assms by (simp add: distinct_map db_select_def inj_on_def)
  then show ?thesis by (auto simp: outbox_batch_def sql_limit_def take_map [symmetric])
qed

text \<open>What a sweep makes of the table.\<close>

definition swept :: "int \<Rightarrow> int \<Rightarrow> EventLog list \<Rightarrow> EventLog \<Rightarrow> EventLog" where
  "swept now batchSize tbl e = (if e \<in> set (outbox_batch now batchSize tbl)
     then (acknowledged now e)\<lparr>ev_PublishAttempts := ev_PublishAttempts e + 1\<rparr> else e)"

lemma outbox_sweep:
  assumes "quiet (ee_F env)" and "\<And>m. publish m = Inr ()" and "0 < batchSize"
    and "ids_ok (pf_events (sv_plat s))" and "\<And>e. e \<in> set (pf_events (sv_plat s)) \<Longrightarrow> decodable e"
  shows "Outbox_RunOnce env tenant part publish owner now batchSize ttl s =
    (Inr (int (length (outbox_batch now batchSize (pf_events (sv_plat s))))),
     s\<lparr>sv_plat := (sv_plat s)\<lparr>pf_events := map (swept now batchSize (pf_events (sv_plat s))) (pf_events (sv_plat s))\<rparr>\<rparr>)"
proof -
  define tbl where "tbl = pf_events (sv_plat s)"
  define batch where "batch = outbox_batch now batchSize tbl"
  define ids where "ids = bm_ID ` set batch"
  let ?lease = "event_leased owner (now + outbox_lease ttl)"
  let ?t1 = "db_update (\<lambda>e. bm_ID e \<in> ids) ?lease tbl"
  have d: "distinct (map bm_ID tbl)" using assms(4) by (simp add: ids_ok_def tbl_def)
  have sub: "set batch \<subseteq> {e \<in> set tbl. live e \<and> event_free now e}" using outbox_batch_subset by (simp add: batch_def)
  have mem: "bm_ID e \<in> ids \<longleftrightarrow> e \<in> set batch" if "e \<in> set tbl" for e
    using that sub d by (auto simp: ids_def distinct_map inj_on_def)
  have claim: "ClaimUnpublished env now batchSize owner (now + outbox_lease ttl) (sv_plat s) =
      Inr (map ?lease batch, (sv_plat s)\<lparr>pf_events := ?t1\<rparr>)"
  proof -
    have "db_update (\<lambda>e. False) ?lease tbl = tbl" by (simp add: db_update_def)
    then show ?thesis
      using assms(1,3) by (simp add: ClaimUnpublished_def claim_rows_def Let_def quiet_def stmt_def stmt_at_def guard_def
          outbox_batch_def [symmetric] tbl_def [symmetric] batch_def [symmetric] ids_def)
  qed
  let ?s1 = "s\<lparr>sv_plat := (sv_plat s)\<lparr>pf_events := ?t1\<rparr>\<rparr>"
  have lease: "bm_ID (?lease e) = bm_ID e" "live (?lease e) = live e" "ev_Payload (?lease e) = ev_Payload e"
      "ev_PublishClaimOwner (?lease e) = owner" for e
    by (simp_all add: event_leased_def live_def)
  have rows: "sweep (outbox_one env tenant part publish owner now) (map ?lease batch) 0 ?s1 =
    (Inr (0 + int (length (map ?lease batch))),
     ?s1\<lparr>sv_plat := (sv_plat ?s1)\<lparr>pf_events := ack_all (bm_ID ` set (map ?lease batch)) owner now (pf_events (sv_plat ?s1))\<rparr>\<rparr>)"
  proof (rule sweep_acks [OF assms(1,2)])
    show "list_all decodable (map ?lease batch)"
      using sub assms(5) by (auto simp: list_all_iff decodable_def lease tbl_def)
    show "distinct (map bm_ID (map ?lease batch))" using outbox_batch_distinct [OF d] by (simp add: batch_def comp_def lease)
  next
    fix r assume "r \<in> set (map ?lease batch)"
    then obtain e where e: "e \<in> set batch" "r = ?lease e" by auto
    then have "e \<in> set tbl" "live e" using sub by auto
    then have "r \<in> set ?t1" using e by (force simp: db_update_def ids_def)
    with e \<open>live e\<close> show "\<exists>x \<in> set (pf_events (sv_plat ?s1)). live x \<and> event_owned (bm_ID r) owner x"
      by (auto simp: event_owned_def lease intro!: bexI [of _ r])
  qed
  have "ack_all ids owner now ?t1 = map (swept now batchSize tbl) tbl"
  proof -
    have "live e" if "e \<in> set batch" for e using that sub by auto
    then show ?thesis
      using mem by (auto simp: ack_all_def db_update_def swept_def batch_def [symmetric] lease acknowledged_def event_unclaimed_def
          event_published_def event_leased_def live_def)
  qed
  moreover have "bm_ID ` set (map ?lease batch) = ids" by (simp add: ids_def image_image lease)
  ultimately show ?thesis
    using rows by (simp add: Outbox_RunOnce_def sweep_batch_def op_seq_def op_try_def plat_run_def claim tbl_def batch_def)
qed


section \<open>Draining\<close>

definition unpublished :: "EventLog \<Rightarrow> bool" where
  "unpublished e \<longleftrightarrow> live e \<and> \<not> ev_Published e"

definition backlog :: "Svc \<Rightarrow> nat" where
  "backlog s = length (filter unpublished (pf_events (sv_plat s)))"

lemma swept_simps [simp]:
  "bm_ID (swept now n tbl e) = bm_ID e" "live (swept now n tbl e) = live e"
  "ev_Payload (swept now n tbl e) = ev_Payload e"
  "ev_Published (swept now n tbl e) \<longleftrightarrow> e \<in> set (outbox_batch now n tbl) \<or> ev_Published e"
  by (simp_all add: swept_def acknowledged_def event_unclaimed_def event_published_def live_def)

lemma ids_ok_swept: "ids_ok (map (swept now n tbl) tbl') = ids_ok tbl'"
  by (simp add: ids_ok_def comp_def)

lemma swept_backlog:
  assumes "ids_ok tbl"
  shows "length (filter unpublished (map (swept now n tbl) tbl)) + length (outbox_batch now n tbl) = length (filter unpublished tbl)"
proof -
  let ?b = "outbox_batch now n tbl"
  have d: "distinct tbl" "distinct ?b"
    using assms outbox_batch_distinct [of tbl now n] by (auto simp: ids_ok_def distinct_map)
  have sub: "set ?b \<subseteq> {e \<in> set tbl. unpublished e}" using outbox_batch_subset by (fastforce simp: unpublished_def event_free_def)
  have "length ?b = card (set ?b)" using d(2) by (simp add: distinct_card)
  also have "set ?b = set (filter (\<lambda>e. e \<in> set ?b) (filter unpublished tbl))" using sub by auto
  also have "card \<dots> = length (filter (\<lambda>e. e \<in> set ?b) (filter unpublished tbl))" using d(1) by (intro distinct_card) simp
  finally have "length ?b = length (filter (\<lambda>e. e \<in> set ?b) (filter unpublished tbl))" .
  moreover have "length (filter unpublished (map (swept now n tbl) tbl)) = length (filter (\<lambda>e. e \<notin> set ?b) (filter unpublished tbl))"
    by (simp add: filter_map comp_def unpublished_def conj_ac)
  ultimately show ?thesis using sum_length_filter_compl [of "\<lambda>e. e \<in> set ?b" "filter unpublished tbl"] by simp
qed

lemma short_batch_takes_all:
  assumes "0 < n" and "int (length (outbox_batch now n tbl)) < n" and "e \<in> set tbl" and "live e" and "event_free now e"
  shows "e \<in> set (outbox_batch now n tbl)"
proof -
  let ?all = "sort_key bm_CreatedAt (db_select (event_free now) tbl)"
  have "outbox_batch now n tbl = take (nat n) ?all" using assms(1) by (simp add: outbox_batch_def sql_limit_def)
  then have "length (take (nat n) ?all) < nat n" using assms(1,2) by simp
  then have "take (nat n) ?all = ?all" by simp
  moreover have "e \<in> set ?all" using assms(3-5) by (simp add: db_select_def)
  ultimately show ?thesis using assms(1) by (simp add: outbox_batch_def sql_limit_def)
qed

lemma event_free_mono: "event_free now e \<Longrightarrow> now \<le> now' \<Longrightarrow> event_free now' e"
  by (auto simp: event_free_def lapsed_def split: option.splits)

lemma drain_publishes:
  assumes "quiet (ee_F env)" and "\<And>m. publish m = Inr ()" and "0 < batchSize" and "\<And>i j. i \<le> j \<Longrightarrow> clock i \<le> clock j"
    and "ids_ok (pf_events (sv_plat s))" and "\<And>e. e \<in> set (pf_events (sv_plat s)) \<Longrightarrow> decodable e"
    and "int (backlog s) \<le> batchSize * int fuel"
  shows "\<exists>n' s'. drain (\<lambda>k. Outbox_RunOnce env tenant part publish owner (clock k) batchSize ttl) batchSize k fuel n s = (Inr n', s') \<and>
    (\<forall>e \<in> set (pf_events (sv_plat s)). live e \<and> (ev_Published e \<or> event_free (clock k) e) \<longrightarrow>
      (\<exists>e' \<in> set (pf_events (sv_plat s')). bm_ID e' = bm_ID e \<and> ev_Published e')) \<and>
    n' = n + int (backlog s) - int (backlog s')"
  using assms(5-7)
proof (induction fuel arbitrary: k n s)
  case 0
  then have "filter unpublished (pf_events (sv_plat s)) = []" by (simp add: backlog_def)
  then show ?case by (auto simp: op_ok_def filter_empty_conv unpublished_def event_free_def)
next
  case (Suc fuel)
  define tbl where "tbl = pf_events (sv_plat s)"
  define batch where "batch = outbox_batch (clock k) batchSize tbl"
  define s1 where "s1 = s\<lparr>sv_plat := (sv_plat s)\<lparr>pf_events := map (swept (clock k) batchSize tbl) tbl\<rparr>\<rparr>"
  have run: "Outbox_RunOnce env tenant part publish owner (clock k) batchSize ttl s = (Inr (int (length batch)), s1)"
    using outbox_sweep [OF assms(1-3) Suc.prems(1,2)] by (simp add: tbl_def batch_def s1_def)
  have events: "pf_events (sv_plat s1) = map (swept (clock k) batchSize tbl) tbl" by (simp add: s1_def)
  have left: "backlog s1 + length batch = backlog s"
    using swept_backlog [of tbl "clock k" batchSize] Suc.prems(1) by (simp add: backlog_def events batch_def tbl_def)
  let ?goal = "\<lambda>s'. \<forall>e \<in> set tbl. live e \<and> (ev_Published e \<or> event_free (clock k) e) \<longrightarrow>
      (\<exists>e' \<in> set (pf_events (sv_plat s')). bm_ID e' = bm_ID e \<and> ev_Published e')"
  show ?case
  proof (cases "int (length batch) < batchSize")
    case True
    have "?goal s1"
      using short_batch_takes_all [OF assms(3) True [unfolded batch_def]] by (auto simp: events)
    with True run left show ?thesis by (simp add: op_seq_def op_ok_def tbl_def)
  next
    case False
    have "ids_ok (pf_events (sv_plat s1))" using Suc.prems(1) by (simp add: events ids_ok_swept tbl_def)
    moreover have "decodable e" if "e \<in> set (pf_events (sv_plat s1))" for e
      using that Suc.prems(2) by (auto simp: events decodable_def tbl_def)
    moreover have "int (backlog s1) \<le> batchSize * int fuel"
      using Suc.prems(3) left False by (simp add: algebra_simps)
    ultimately obtain n' s' where rest: "drain (\<lambda>k. Outbox_RunOnce env tenant part publish owner (clock k) batchSize ttl)
          batchSize (Suc k) fuel (n + int (length batch)) s1 = (Inr n', s')"
      and all: "\<forall>e \<in> set (pf_events (sv_plat s1)). live e \<and> (ev_Published e \<or> event_free (clock (Suc k)) e) \<longrightarrow>
        (\<exists>e' \<in> set (pf_events (sv_plat s')). bm_ID e' = bm_ID e \<and> ev_Published e')"
      and n': "n' = n + int (length batch) + int (backlog s1) - int (backlog s')"
      using Suc.IH by blast
    have "?goal s'"
    proof (intro ballI impI)
      fix e assume e: "e \<in> set tbl" "live e \<and> (ev_Published e \<or> event_free (clock k) e)"
      let ?e = "swept (clock k) batchSize tbl e"
      have "ev_Published ?e \<or> event_free (clock (Suc k)) ?e"
      proof (cases "e \<in> set batch")
        case False
        then have "?e = e" by (simp add: swept_def batch_def)
        with e show ?thesis using event_free_mono [of "clock k" e "clock (Suc k)"] assms(4) [of k "Suc k"] by auto
      qed (simp add: batch_def)
      moreover have "?e \<in> set (pf_events (sv_plat s1))" using e by (simp add: events)
      ultimately show "\<exists>e' \<in> set (pf_events (sv_plat s')). bm_ID e' = bm_ID e \<and> ev_Published e'"
        using all e by (metis swept_simps(1,2))
    qed
    moreover have "n' = n + int (backlog s) - int (backlog s')" using n' left by simp
    ultimately show ?thesis using False run rest by (simp add: op_seq_def tbl_def)
  qed
qed


definition ex_event :: "string \<Rightarrow> int \<Rightarrow> EventLog" where
  "ex_event i created = \<lparr>bm_ID = i, bm_CreatedAt = created, bm_ModifiedAt = 0, bm_DeletedAt = None, ev_EventType = ''order.created'',
     ev_Source = ''api'', ev_IdempotencyKey = i, ev_Payload = RawJson (VMap []), ev_Published = False, ev_PublishedAt = None,
     ev_PublishClaimUntil = None, ev_PublishClaimOwner = [], ev_PublishAttempts = 0\<rparr>"


end
