(* ===== verification/Net_Url.thy ===== *)
theory Net_Url
  imports Go_Time "HOL-Library.List_Lexorder" "HOL-Library.Char_ord"
begin

text \<open>
  What the sources use of Go's standard library for addresses: \<open>net/url\<close> (parsing, the query,
  printing), \<open>net/netip\<close> behind \<open>net.ParseIP\<close>, and \<open>IPNet.Contains\<close>, as of Go 1.26. A string is
  its bytes; lower case is that of ASCII.
\<close>

section \<open>Characters and strings\<close>

definition byte :: "char \<Rightarrow> int" where "byte c = of_char c"

definition is_digit_byte :: "char \<Rightarrow> bool" where
  "is_digit_byte c \<longleftrightarrow> 48 \<le> byte c \<and> byte c \<le> 57"

definition is_alpha_byte :: "char \<Rightarrow> bool" where
  "is_alpha_byte c \<longleftrightarrow> 65 \<le> byte c \<and> byte c \<le> 90 \<or> 97 \<le> byte c \<and> byte c \<le> 122"

definition ascii_lower :: "char \<Rightarrow> char" where
  "ascii_lower c = (if 65 \<le> byte c \<and> byte c \<le> 90 then char_of (byte c + 32) else c)"

definition ascii_upper :: "char \<Rightarrow> char" where
  "ascii_upper c = (if 97 \<le> byte c \<and> byte c \<le> 122 then char_of (byte c - 32) else c)"

definition ToLower :: "string \<Rightarrow> string" where "ToLower s = map ascii_lower s"
definition ToUpper :: "string \<Rightarrow> string" where "ToUpper s = map ascii_upper s"

definition HasPrefix :: "string \<Rightarrow> string \<Rightarrow> bool" where
  "HasPrefix s pre \<longleftrightarrow> take (length pre) s = pre"

definition TrimPrefix :: "string \<Rightarrow> string \<Rightarrow> string" where
  "TrimPrefix s pre = (if HasPrefix s pre then drop (length pre) s else s)"

definition TrimRight :: "string \<Rightarrow> char \<Rightarrow> string" where
  "TrimRight s c = rev (dropWhile (\<lambda>x. x = c) (rev s))"

text \<open>\<open>strings.Cut\<close> at a character: before, after, and whether it is there.\<close>

definition Cut :: "string \<Rightarrow> char \<Rightarrow> string \<times> string \<times> bool" where
  "Cut s c = (takeWhile (\<lambda>x. x \<noteq> c) s, drop 1 (dropWhile (\<lambda>x. x \<noteq> c) s), c \<in> set s)"

text \<open>Cut at the last occurrence.\<close>

definition cut_last :: "string \<Rightarrow> char \<Rightarrow> (string \<times> string) option" where
  "cut_last s c = (if c \<in> set s
     then Some (rev (drop 1 (dropWhile (\<lambda>x. x \<noteq> c) (rev s))), rev (takeWhile (\<lambda>x. x \<noteq> c) (rev s)))
     else None)"

definition hex_value :: "char \<Rightarrow> int option" where
  "hex_value c = (if is_digit_byte c then Some (byte c - 48)
     else if 97 \<le> byte c \<and> byte c \<le> 102 then Some (byte c - 87)
     else if 65 \<le> byte c \<and> byte c \<le> 70 then Some (byte c - 55) else None)"

section \<open>IP addresses (net/netip, net)\<close>

text \<open>One field of a dotted address.\<close>

definition ip4_field :: "string \<Rightarrow> int option" where
  "ip4_field s =
     (if s = [] \<or> \<not> list_all is_digit_byte s \<or> (length s > 1 \<and> hd s = CHR ''0'') then None
      else let v = foldl (\<lambda>n c. n * 10 + (byte c - 48)) 0 s in if v > 255 then None else Some v)"

definition parse_ip4 :: "string \<Rightarrow> int list option" where
  "parse_ip4 s = (case map ip4_field (split_on CHR ''.'' s) of
     [Some a, Some b, Some c, Some d] \<Rightarrow> Some [a, b, c, d]
   | _ \<Rightarrow> None)"

text \<open>
  The fields of an IPv6 address: the bytes so far, the place of the ellipsis, and what is left. The
  recursion has one step for each of the eight fields.
\<close>

definition hex_run :: "string \<Rightarrow> string \<times> string" where
  "hex_run s = (takeWhile (\<lambda>c. hex_value c \<noteq> None) s, dropWhile (\<lambda>c. hex_value c \<noteq> None) s)"

fun ip6_fields :: "nat \<Rightarrow> int list \<Rightarrow> nat option \<Rightarrow> string \<Rightarrow> (int list \<times> nat option \<times> string) option" where
  "ip6_fields 0 bs ell s = Some (bs, ell, s)"
| "ip6_fields (Suc n) bs ell s =
     (case hex_run s of (digits, rest) \<Rightarrow>
      if digits = [] \<or> length digits > 4 then None
      else if rest \<noteq> [] \<and> hd rest = CHR ''.'' then
        (if (ell = None \<and> length bs \<noteq> 12) \<or> length bs + 4 > 16 then None
         else (case parse_ip4 s of None \<Rightarrow> None | Some v4 \<Rightarrow> Some (bs @ v4, ell, [])))
      else (let v = foldl (\<lambda>n c. n * 16 + the (hex_value c)) 0 digits; bs' = bs @ [v div 256, v mod 256] in
        (case rest of
           [] \<Rightarrow> Some (bs', ell, [])
         | c # s' \<Rightarrow>
             (if c \<noteq> CHR '':'' \<or> s' = [] then None
              else if hd s' = CHR '':'' then
                (if ell \<noteq> None then None
                 else if tl s' = [] then Some (bs', Some (length bs'), [])
                 else ip6_fields n bs' (Some (length bs')) (tl s'))
              else ip6_fields n bs' ell s'))))"

definition parse_ip6 :: "string \<Rightarrow> (int list \<times> string) option" where
  "parse_ip6 text =
     (case Cut text (CHR ''%'') of (s, zone, has_zone) \<Rightarrow>
      if has_zone \<and> zone = [] then None
      else if s = ''::'' then Some (replicate 16 0, zone)
      else
        (case (if HasPrefix s ''::'' then ip6_fields 8 [] (Some 0) (drop 2 s) else ip6_fields 8 [] None s) of
           None \<Rightarrow> None
         | Some (bs, ell, rest) \<Rightarrow>
             (if rest \<noteq> [] then None
              else if length bs < 16 then
                (case ell of None \<Rightarrow> None
                 | Some k \<Rightarrow> Some (take k bs @ replicate (16 - length bs) 0 @ drop k bs, zone))
              else if ell \<noteq> None then None else Some (bs, zone))))"

text \<open>\<open>netip.ParseAddr\<close>: the bytes, four or sixteen of them, and the zone.\<close>

definition ParseAddr :: "string \<Rightarrow> (int list \<times> string) option" where
  "ParseAddr s = (case List.find (\<lambda>c. c \<in> {CHR ''.'', CHR '':'', CHR ''%''}) s of
     None \<Rightarrow> None
   | Some c \<Rightarrow>
      (if c = CHR ''.'' then map_option (\<lambda>bs. (bs, [])) (parse_ip4 s)
       else if c = CHR '':'' then parse_ip6 s else None))"

text \<open>\<open>net.ParseIP\<close>: sixteen bytes, an IPv4 address in its mapped form.\<close>

definition v4_mapped :: "int list" where "v4_mapped = replicate 10 0 @ [255, 255]"

definition ParseIP :: "string \<Rightarrow> int list option" where
  "ParseIP s = (case ParseAddr s of
     None \<Rightarrow> None
   | Some (bs, zone) \<Rightarrow> (if zone \<noteq> [] then None else Some (if length bs = 4 then v4_mapped @ bs else bs)))"

definition To4 :: "int list \<Rightarrow> int list option" where
  "To4 ip = (if length ip = 16 \<and> take 12 ip = v4_mapped then Some (drop 12 ip) else None)"

definition bytes_value :: "int list \<Rightarrow> int" where
  "bytes_value bs = foldl (\<lambda>n b. n * 256 + b) 0 bs"

text \<open>A network is its address, of four or sixteen bytes, and the length of its prefix.\<close>

record IPNet =
  net_IP :: "int list"
  net_Ones :: nat

definition IPNet_Contains :: "IPNet \<Rightarrow> int list \<Rightarrow> bool" where
  "IPNet_Contains n ip =
     (let x = (case To4 ip of None \<Rightarrow> ip | Some v4 \<Rightarrow> v4); host = 2 ^ (8 * length (net_IP n) - net_Ones n) in
      length x = length (net_IP n) \<and> bytes_value x div host = bytes_value (net_IP n) div host)"

definition ParseCIDR :: "string \<Rightarrow> IPNet option" where
  "ParseCIDR s = (case Cut s (CHR ''/'') of (addr, ones, found) \<Rightarrow>
     if \<not> found \<or> ones = [] \<or> \<not> list_all is_digit_byte ones then None
     else (case ParseAddr addr of
       None \<Rightarrow> None
     | Some (bs, zone) \<Rightarrow>
         (let n = nat (foldl (\<lambda>n c. n * 10 + (byte c - 48)) 0 ones); host = 2 ^ (8 * length bs - n);
              masked = bytes_value bs div host * host in
          if zone \<noteq> [] \<or> n > 8 * length bs then None
          else Some \<lparr>net_IP = map (\<lambda>k. masked div 256 ^ (length bs - 1 - k) mod 256) [0..<length bs], net_Ones = n\<rparr>)))"

section \<open>Escapes (net/url)\<close>

datatype encoding = encodePath | encodeHost | encodeZone | encodeUserPassword | encodeQueryComponent | encodeFragment

definition unreserved_mark :: "char \<Rightarrow> bool" where
  "unreserved_mark c \<longleftrightarrow> c \<in> set ''-_.~''"

definition shouldEscape :: "char \<Rightarrow> encoding \<Rightarrow> bool" where
  "shouldEscape c mode =
     (if is_alpha_byte c \<or> is_digit_byte c then False
      else if (mode = encodeHost \<or> mode = encodeZone) \<and> (c \<in> set ''!$&()*+,;=:[]<>'' \<or> c = CHR 0x27 \<or> c = CHR 0x22) then False
      else if unreserved_mark c then False
      else if c \<in> set ''$&+,/:;=?@'' then
        (case mode of
           encodePath \<Rightarrow> c = CHR ''?''
         | encodeUserPassword \<Rightarrow> c \<in> set ''@/?:''
         | encodeQueryComponent \<Rightarrow> True
         | encodeFragment \<Rightarrow> False
         | _ \<Rightarrow> True)
      else if mode = encodeFragment \<and> c \<in> set ''!()*'' then False
      else True)"

definition EscapeError :: "string \<Rightarrow> errmsg" where
  "EscapeError s = Errf ''invalid URL escape %q'' [EStr s]"

fun unescape :: "encoding \<Rightarrow> string \<Rightarrow> string result" where
  "unescape mode [] = Inr []"
| "unescape mode (c # s) =
     (if c = CHR ''%'' then
        (case s of
           a # b # rest \<Rightarrow>
             (case (hex_value a, hex_value b) of
                (Some x, Some y) \<Rightarrow>
                  (let v = x * 16 + y in
                   if mode = encodeHost \<and> x < 8 \<and> \<not> (a = CHR ''2'' \<and> b = CHR ''5'') then Inl (EscapeError [c, a, b])
                   else if mode = encodeZone \<and> \<not> (a = CHR ''2'' \<and> b = CHR ''5'') \<and> v \<noteq> 32 \<and> shouldEscape (char_of v) encodeHost
                     then Inl (EscapeError [c, a, b])
                   else and_then (unescape mode rest) (\<lambda>r. Inr (char_of v # r)))
              | _ \<Rightarrow> Inl (EscapeError [c, a, b]))
         | _ \<Rightarrow> Inl (EscapeError (c # s)))
      else if (mode = encodeHost \<or> mode = encodeZone) \<and> byte c < 128 \<and> shouldEscape c mode then
        Inl (Errf ''invalid character %q in host name'' [EStr [c]])
      else and_then (unescape mode s) (\<lambda>r. Inr ((if c = CHR ''+'' \<and> mode = encodeQueryComponent then CHR '' '' else c) # r)))"

definition upper_hex :: "int \<Rightarrow> char" where
  "upper_hex n = (if n < 10 then char_of (48 + n) else char_of (55 + n))"

definition escape_char :: "encoding \<Rightarrow> char \<Rightarrow> string" where
  "escape_char mode c =
     (if c = CHR '' '' \<and> mode = encodeQueryComponent then ''+''
      else if shouldEscape c mode then [CHR ''%'', upper_hex (byte c div 16), upper_hex (byte c mod 16)] else [c])"

definition escape :: "encoding \<Rightarrow> string \<Rightarrow> string" where
  "escape mode s = concat (map (escape_char mode) s)"

section \<open>URLs (net/url)\<close>

record URL =
  u_Scheme :: string
  u_Opaque :: string
  u_User :: "(string \<times> string option) option"
  u_Host :: string
  u_Path :: string
  u_RawPath :: string
  u_OmitHost :: bool
  u_ForceQuery :: bool
  u_RawQuery :: string
  u_Fragment :: string
  u_RawFragment :: string

definition empty_URL :: URL where
  "empty_URL = \<lparr>u_Scheme = [], u_Opaque = [], u_User = None, u_Host = [], u_Path = [], u_RawPath = [], u_OmitHost = False,
     u_ForceQuery = False, u_RawQuery = [], u_Fragment = [], u_RawFragment = []\<rparr>"

text \<open>The scheme before the first colon, if the text starts with one; an initial colon is an error.\<close>

fun scheme_scan :: "string \<Rightarrow> string \<Rightarrow> (string \<times> string) option result" where
  "scheme_scan acc [] = Inr None"
| "scheme_scan acc (c # s) =
     (if is_alpha_byte c then scheme_scan (acc @ [c]) s
      else if is_digit_byte c \<or> c \<in> set ''+-.'' then (if acc = [] then Inr None else scheme_scan (acc @ [c]) s)
      else if c = CHR '':'' then
        (if acc = [] then Inl (Errf ''missing protocol scheme'' []) else Inr (Some (acc, s)))
      else Inr None)"

definition getScheme :: "string \<Rightarrow> (string \<times> string) result" where
  "getScheme rawURL = and_then (scheme_scan [] rawURL) (\<lambda>r. Inr (case r of None \<Rightarrow> ([], rawURL) | Some p \<Rightarrow> p))"

definition validOptionalPort :: "string \<Rightarrow> bool" where
  "validOptionalPort port \<longleftrightarrow> port = [] \<or> (hd port = CHR '':'' \<and> list_all is_digit_byte (tl port))"

definition validUserinfo :: "string \<Rightarrow> bool" where
  "validUserinfo s \<longleftrightarrow> list_all (\<lambda>c. is_alpha_byte c \<or> is_digit_byte c \<or> c \<in> set ''-._:~!$&()*+,;=%@'' \<or> c = CHR 0x27) s"

definition find_text :: "string \<Rightarrow> string \<Rightarrow> nat option" where
  "find_text s sub = List.find (\<lambda>k. take (length sub) (drop k s) = sub) [0..<Suc (length s)]"

text \<open>A host in brackets is an IPv6 address, with a zone after an escaped percent sign.\<close>

definition parse_bracketed :: "string \<Rightarrow> string \<Rightarrow> string result" where
  "parse_bracketed hostname colonPort =
     (if \<not> validOptionalPort colonPort then Inl (Errf ''invalid port %q after host'' [EStr colonPort])
      else and_then (unescape encodeHost colonPort) (\<lambda>port.
      and_then (case find_text hostname ''%25'' of
          Some z \<Rightarrow> and_then (unescape encodeHost (take z hostname)) (\<lambda>a.
                    and_then (unescape encodeZone (drop z hostname)) (\<lambda>b. Inr (a @ b)))
        | None \<Rightarrow> unescape encodeHost hostname) (\<lambda>h.
        case ParseAddr h of
          None \<Rightarrow> Inl (Errf ''invalid host'' [])
        | Some (bs, _) \<Rightarrow>
            (if length bs = 4 then Inl (Errf ''invalid IP-literal'' []) else Inr (''['' @ h @ '']'' @ port)))))"

definition parseHost :: "string \<Rightarrow> string result" where
  "parseHost host = (case cut_last host (CHR ''['') of
     Some (before, after) \<Rightarrow>
       (if before \<noteq> [] then Inl (Errf ''invalid IP-literal'' [])
        else (case cut_last after (CHR '']'') of
            None \<Rightarrow> Inl (Errf ''missing bracket in host'' [])
          | Some (hostname, colonPort) \<Rightarrow> parse_bracketed hostname colonPort))
   | None \<Rightarrow>
       (let colonPort = dropWhile (\<lambda>c. c \<noteq> CHR '':'') host in
        if \<not> validOptionalPort colonPort then Inl (Errf ''invalid port %q after host'' [EStr colonPort])
        else unescape encodeHost host))"

definition parseAuthority :: "string \<Rightarrow> ((string \<times> string option) option \<times> string) result" where
  "parseAuthority authority = (case cut_last authority (CHR ''@'') of
     None \<Rightarrow> and_then (parseHost authority) (\<lambda>host. Inr (None, host))
   | Some (userinfo, h) \<Rightarrow>
       and_then (parseHost h) (\<lambda>host.
         if \<not> validUserinfo userinfo then Inl (Errf ''net/url: invalid userinfo'' [])
         else (case Cut userinfo (CHR '':'') of (user, password, found) \<Rightarrow>
           and_then (unescape encodeUserPassword user) (\<lambda>u.
           if \<not> found then Inr (Some (u, None), host)
           else and_then (unescape encodeUserPassword password) (\<lambda>w. Inr (Some (u, Some w), host))))))"

definition setPath :: "string \<Rightarrow> URL \<Rightarrow> URL result" where
  "setPath p url = and_then (unescape encodePath p) (\<lambda>path.
     Inr (url\<lparr>u_Path := path, u_RawPath := (if escape encodePath path = p then [] else p)\<rparr>))"

definition setFragment :: "string \<Rightarrow> URL \<Rightarrow> URL result" where
  "setFragment f url = and_then (unescape encodeFragment f) (\<lambda>frag.
     Inr (url\<lparr>u_Fragment := frag, u_RawFragment := (if escape encodeFragment frag = f then [] else f)\<rparr>))"

definition is_ctl :: "char \<Rightarrow> bool" where "is_ctl c \<longleftrightarrow> byte c < 32 \<or> byte c = 127"

text \<open>The part after the scheme: query, opaque part or authority, and path.\<close>

definition parse_rest :: "string \<Rightarrow> string \<Rightarrow> URL result" where
  "parse_rest scheme rest0 =
     (let force = HasSuffix rest0 ''?'' \<and> length (filter (\<lambda>c. c = CHR ''?'') rest0) = 1;
          (rest, query) = (if force then (butlast rest0, []) else (case Cut rest0 (CHR ''?'') of (a, b, _) \<Rightarrow> (a, b)));
          url = empty_URL\<lparr>u_Scheme := scheme, u_ForceQuery := force, u_RawQuery := query\<rparr>
      in if \<not> HasPrefix rest ''/'' \<and> scheme \<noteq> [] then Inr (url\<lparr>u_Opaque := rest\<rparr>)
         else if \<not> HasPrefix rest ''/'' \<and> CHR '':'' \<in> set (takeWhile (\<lambda>c. c \<noteq> CHR ''/'') rest) then
           Inl (Errf ''first path segment in URL cannot contain colon'' [])
         else if (scheme \<noteq> [] \<or> \<not> HasPrefix rest ''///'') \<and> HasPrefix rest ''//'' then
           (let authority = takeWhile (\<lambda>c. c \<noteq> CHR ''/'') (drop 2 rest);
                path = dropWhile (\<lambda>c. c \<noteq> CHR ''/'') (drop 2 rest)
            in and_then (parseAuthority authority) (\<lambda>(user, host). setPath path (url\<lparr>u_User := user, u_Host := host\<rparr>)))
         else setPath rest (url\<lparr>u_OmitHost := (scheme \<noteq> [] \<and> HasPrefix rest ''/'')\<rparr>))"

definition url_parse :: "string \<Rightarrow> URL result" where
  "url_parse rawURL =
     (if list_ex is_ctl rawURL then Inl (Errf ''net/url: invalid control character in URL'' [])
      else if rawURL = ''*'' then Inr (empty_URL\<lparr>u_Path := ''*''\<rparr>)
      else and_then (getScheme rawURL) (\<lambda>(scheme, rest). parse_rest (ToLower scheme) rest))"

definition url_error :: "string \<Rightarrow> 'a result \<Rightarrow> 'a result" where
  "url_error u r = (case r of Inl err \<Rightarrow> Inl (Errf ''parse %q: %w'' [EStr u, EErr err]) | Inr x \<Rightarrow> Inr x)"

definition url_Parse :: "string \<Rightarrow> URL result" where
  "url_Parse rawURL = (case Cut rawURL (CHR 0x23) of (u, frag, _) \<Rightarrow>
     and_then (url_error u (url_parse u)) (\<lambda>url.
       if frag = [] then Inr url else url_error rawURL (setFragment frag url)))"

text \<open>The host without its port and its brackets.\<close>

definition URL_Hostname :: "URL \<Rightarrow> string" where
  "URL_Hostname url =
     (let hostPort = u_Host url;
          host = (case cut_last hostPort (CHR '':'') of
            None \<Rightarrow> hostPort | Some (h, port) \<Rightarrow> (if validOptionalPort (CHR '':'' # port) then h else hostPort))
      in if HasPrefix host ''['' \<and> HasSuffix host '']'' then butlast (tl host) else host)"

section \<open>Printing\<close>

definition validEncoded :: "string \<Rightarrow> encoding \<Rightarrow> bool" where
  "validEncoded s mode \<longleftrightarrow> list_all (\<lambda>c. c \<in> set ''!$&()*+,;=:@[]%'' \<or> c = CHR 0x27 \<or> \<not> shouldEscape c mode) s"

text \<open>The raw text when it is one of the decoded text, else the default escape.\<close>

definition escaped_or_raw :: "encoding \<Rightarrow> string \<Rightarrow> string \<Rightarrow> string" where
  "escaped_or_raw mode raw decoded =
     (if raw \<noteq> [] \<and> validEncoded raw mode \<and> unescape mode raw = Inr decoded then raw
      else if mode = encodePath \<and> decoded = ''*'' then ''*'' else escape mode decoded)"

definition userinfo_text :: "string \<times> string option \<Rightarrow> string" where
  "userinfo_text u = (case u of (name, password) \<Rightarrow> escape encodeUserPassword name @
     (case password of None \<Rightarrow> [] | Some w \<Rightarrow> CHR '':'' # escape encodeUserPassword w))"

definition URL_String :: "URL \<Rightarrow> string" where
  "URL_String u =
     (let scheme = (if u_Scheme u = [] then [] else u_Scheme u @ '':'');
          authority = (if u_Scheme u = [] \<and> u_Host u = [] \<and> u_User u = None then []
             else if u_OmitHost u \<and> u_Host u = [] \<and> u_User u = None then []
             else (if u_Host u \<noteq> [] \<or> u_Path u \<noteq> [] \<or> u_User u \<noteq> None then ''//'' else []) @
               (case u_User u of None \<Rightarrow> [] | Some i \<Rightarrow> userinfo_text i @ ''@'') @ escape encodeHost (u_Host u));
          path = escaped_or_raw encodePath (u_RawPath u) (u_Path u);
          slash = (if path \<noteq> [] \<and> hd path \<noteq> CHR ''/'' \<and> u_Host u \<noteq> [] then ''/'' else []);
          dot = (if scheme @ authority @ slash = [] \<and> CHR '':'' \<in> set (takeWhile (\<lambda>c. c \<noteq> CHR ''/'') path) then ''./'' else [])
      in scheme @ (if u_Opaque u \<noteq> [] then u_Opaque u else authority @ slash @ dot @ path) @
         (if u_ForceQuery u \<or> u_RawQuery u \<noteq> [] then CHR ''?'' # u_RawQuery u else []) @
         (if u_Fragment u \<noteq> [] then CHR 0x23 # escaped_or_raw encodeFragment (u_RawFragment u) (u_Fragment u) else []))"

section \<open>The query\<close>

type_synonym url_values = "(string \<times> string list) list"

definition query_add :: "string \<Rightarrow> string \<Rightarrow> url_values \<Rightarrow> url_values" where
  "query_add k v m = AList.update k ((case map_of m k of None \<Rightarrow> [] | Some vs \<Rightarrow> vs) @ [v]) m"

text \<open>A pair that does not decode, or holds a semicolon, is left out.\<close>

definition query_pair :: "string \<Rightarrow> url_values \<Rightarrow> url_values" where
  "query_pair pair m =
     (if CHR '';'' \<in> set pair \<or> pair = [] then m
      else (case Cut pair (CHR ''='') of (k, v, _) \<Rightarrow>
        (case (unescape encodeQueryComponent k, unescape encodeQueryComponent v) of
           (Inr k', Inr v') \<Rightarrow> query_add k' v' m
         | _ \<Rightarrow> m)))"

definition URL_Query :: "URL \<Rightarrow> url_values" where
  "URL_Query url = fold query_pair (split_on (CHR ''&'') (u_RawQuery url)) []"

definition Values_Set :: "string \<Rightarrow> string \<Rightarrow> url_values \<Rightarrow> url_values" where
  "Values_Set k v m = AList.update k [v] m"

definition intercalate :: "string \<Rightarrow> string list \<Rightarrow> string" where
  "intercalate sep parts = concat (case parts of [] \<Rightarrow> [] | p # ps \<Rightarrow> p # map (\<lambda>x. sep @ x) ps)"

definition Values_Encode :: "url_values \<Rightarrow> string" where
  "Values_Encode m = intercalate ''&'' (concat (map (\<lambda>(k, vs).
     map (\<lambda>v. escape encodeQueryComponent k @ ''='' @ escape encodeQueryComponent v) vs) (sort_key fst m)))"

section \<open>Examples\<close>

lemma url_Parse_examples:
  "map_sum id u_Host (url_Parse ''https://user:pw@Example.com:8443/a%20b?x=1'') = Inr ''Example.com:8443''"
  "map_sum id URL_Hostname (url_Parse ''http://[fe80::1%25en0]:80/'') = Inr ''fe80::1%en0''"
  "\<not> is_ok (url_Parse ''http://a:b:80/'')"
  "map_sum id URL_String (url_Parse ''https://user:pw@Example.com:8443/a%20b?x=1'') = Inr ''https://user:pw@Example.com:8443/a%20b?x=1''"
  by code_simp+

lemma ParseIP_examples:
  "ParseIP ''10.1.2.3'' = Some (v4_mapped @ [10, 1, 2, 3])"
  "ParseIP ''::ffff:127.0.0.1'' = Some (v4_mapped @ [127, 0, 0, 1])"
  "ParseIP ''::1'' = Some (replicate 15 0 @ [1])" "ParseIP ''::'' = Some (replicate 16 0)"
  "ParseIP ''1.2.3'' = None" "ParseIP ''1::2::3'' = None" "ParseIP ''01.2.3.4'' = None"
  by code_simp+

end
