(* ===== verification/Connector_Http.thy ===== *)
theory Connector_Http
  imports Connector Net_Url
begin

text \<open>
  \<open>connector/adapters/urlvalidation.go\<close>, \<open>apipost.go\<close>, \<open>webhook.go\<close>, \<open>http.go\<close> and
  \<open>connect_call.go\<close>: the guard against calls into the internal network and the adapters that send
  requests of the workflow's own making. The HTTP client, the resolver, the environment variables
  and the clock are the parameter \<open>net_lib\<close>; the answer of the client is a function of the request,
  and a response has at most the megabyte of its body that is read. Encoding JSON values does not
  fail. The deadline of a request is left out: a request that runs out of time is one the client
  fails.
\<close>

section \<open>Requests and responses\<close>

record http_request =
  hq_Method :: string
  hq_URL :: URL
  hq_Header :: "(string \<times> string) list"
  hq_Body :: "raw_json option"

text \<open>The body as JSON and as text.\<close>

record http_response =
  hs_StatusCode :: int
  hs_Header :: "(string \<times> string list) list"
  hs_Body :: "(raw_json \<times> string) result"

record net_lib =
  nl_Do :: "http_request \<Rightarrow> http_response result"
  nl_LookupHost :: "string \<Rightarrow> string list result"
  nl_Getenv :: "string \<Rightarrow> string"
  nl_now :: int

type_synonym 'a exec_result = "ExecutionError + 'a"

definition exec_error :: "string \<Rightarrow> string \<Rightarrow> string \<Rightarrow> ExecutionError" where
  "exec_error errorClass errorCode message = \<lparr>xe_Class = errorClass, xe_Code = errorCode, xe_Message = message, xe_Details = None\<rparr>"

definition failing :: "string \<Rightarrow> string \<Rightarrow> string \<Rightarrow> 'a result \<Rightarrow> 'a exec_result" where
  "failing errorClass errorCode label r = (case r of
     Inl err \<Rightarrow> Inl (exec_error errorClass errorCode (errmsg_text (Errf (label @ '': %v'') [EErr err]))) | Inr x \<Rightarrow> Inr x)"

definition is_token_char :: "char \<Rightarrow> bool" where
  "is_token_char c \<longleftrightarrow> is_alpha_byte c \<or> is_digit_byte c \<or> c \<in> set ''!#$%&*+-.^_|~'' \<or> c = CHR 0x27 \<or> c = CHR 0x60"

text \<open>\<open>Header.Set\<close> under the canonical form of the key: upper case at the start and after each dash.\<close>

fun canonical_from :: "bool \<Rightarrow> string \<Rightarrow> string" where
  "canonical_from up [] = []"
| "canonical_from up (c # s) = (if up then ascii_upper c else ascii_lower c) # canonical_from (c = CHR ''-'') s"

definition CanonicalHeaderKey :: "string \<Rightarrow> string" where
  "CanonicalHeaderKey k = (if list_all is_token_char k then canonical_from True k else k)"

definition Header_Set :: "string \<Rightarrow> string \<Rightarrow> (string \<times> string) list \<Rightarrow> (string \<times> string) list" where
  "Header_Set k v h = AList.update (CanonicalHeaderKey k) v h"

text \<open>An empty method is GET; a host that ends in a colon loses it.\<close>

definition NewRequest :: "string \<Rightarrow> string \<Rightarrow> raw_json option \<Rightarrow> http_request result" where
  "NewRequest method rawURL body =
     (let m = (if method = [] then ''GET'' else method) in
      if \<not> list_all is_token_char m then Inl (Errf ''net/http: invalid method %q'' [EStr m])
      else and_then (url_Parse rawURL) (\<lambda>u.
        Inr \<lparr>hq_Method = m, hq_URL = u\<lparr>u_Host := TrimSuffix (u_Host u) '':''\<rparr>, hq_Header = [], hq_Body = body\<rparr>))"

section \<open>The guard (urlvalidation.go)\<close>

definition defaultTrustedHostSuffixes :: "string list" where
  "defaultTrustedHostSuffixes = [''.svc'', ''.svc.cluster.local'']"

definition trusted_suffix :: "string \<Rightarrow> string list" where
  "trusted_suffix part = (let s = ToLower (TrimSpace part) in
     if s = [] then [] else if HasPrefix s ''.'' then [s] else [CHR ''.'' # s])"

definition trustedHostSuffixes :: "net_lib \<Rightarrow> string list" where
  "trustedHostSuffixes net =
     (let raw = TrimSpace (nl_Getenv net ''TRUSTAGE_URL_TRUSTED_HOST_SUFFIXES'') in
      if raw = [] then defaultTrustedHostSuffixes
      else let out = concat (map trusted_suffix (split_on (CHR '','') raw)) in
        if out = [] then defaultTrustedHostSuffixes else out)"

definition isTrustedHostSuffix :: "net_lib \<Rightarrow> string \<Rightarrow> bool" where
  "isTrustedHostSuffix net lowerHost =
     list_ex (\<lambda>suffix. lowerHost = TrimPrefix suffix ''.'' \<or> HasSuffix lowerHost suffix) (trustedHostSuffixes net)"

definition privateRanges :: "string list" where
  "privateRanges = [''10.0.0.0/8'', ''172.16.0.0/12'', ''192.168.0.0/16'', ''127.0.0.0/8'', ''169.254.0.0/16'',
     ''100.64.0.0/10'', ''::1/128'', ''fc00::/7'', ''fe80::/10'', ''fd00::/8'', ''0.0.0.0/8'', ''198.18.0.0/15'',
     ''224.0.0.0/4'', ''240.0.0.0/4'']"

definition isPrivateIP :: "int list \<Rightarrow> bool" where
  "isPrivateIP ip = list_ex (\<lambda>n. IPNet_Contains n ip) (List.map_filter ParseCIDR privateRanges)"

definition internal_name :: "string \<Rightarrow> bool" where
  "internal_name lower \<longleftrightarrow> lower = ''localhost'' \<or> lower = ''metadata.google.internal'' \<or>
     HasSuffix lower ''.internal'' \<or> HasSuffix lower ''.local''"

definition private_address :: "string \<Rightarrow> bool" where
  "private_address ipStr = (case ParseIP ipStr of None \<Rightarrow> False | Some ip \<Rightarrow> isPrivateIP ip)"

definition validateExternalURL :: "net_lib \<Rightarrow> string \<Rightarrow> unit result" where
  "validateExternalURL net rawURL =
     and_then (labelled ''invalid URL'' (url_Parse rawURL)) (\<lambda>parsed.
     let scheme = ToLower (u_Scheme parsed); hostname = URL_Hostname parsed; lower = ToLower hostname in
     if scheme \<noteq> ''https'' \<and> scheme \<noteq> ''http'' then
       Inl (Errf ''unsupported scheme %q: only http and https are allowed'' [EStr (u_Scheme parsed)])
     else if hostname = [] then Inl (Errf ''URL must have a hostname'' [])
     else if isTrustedHostSuffix net lower then Inr ()
     else if internal_name lower then Inl (Errf ''URL hostname %q is not allowed: internal hostname'' [EStr hostname])
     else (case nl_LookupHost net hostname of
       Inl _ \<Rightarrow> Inr ()
     | Inr ips \<Rightarrow> (case List.find private_address ips of
         None \<Rightarrow> Inr ()
       | Some ipStr \<Rightarrow> Inl (Errf ''URL hostname %q resolves to private IP %s'' [EStr hostname, EStr ipStr]))))"

section \<open>Statuses (webhook.go)\<close>

definition maxErrorBodyLen :: nat where "maxErrorBodyLen = 512"

definition truncateBody :: "string \<Rightarrow> string" where
  "truncateBody body = (if length body > maxErrorBodyLen then take maxErrorBodyLen body @ ''...(truncated)'' else body)"

definition http_code :: "int \<Rightarrow> string" where "http_code status = ''HTTP_'' @ itoa status"

definition classifyHTTPStatus :: "int \<Rightarrow> string \<Rightarrow> ExecutionError option" where
  "classifyHTTPStatus status body =
     (let safeBody = truncateBody body in
      if 200 \<le> status \<and> status < 300 then None
      else if status \<in> {400, 401, 403, 404, 405, 409, 422} then Some (exec_error ErrorFatal (http_code status) safeBody)
      else if status = 429 then Some (exec_error ErrorRetryable ''HTTP_429'' ''rate limited'')
      else if status \<ge> 500 then Some (exec_error ErrorExternalDependency (http_code status) safeBody)
      else Some (exec_error ErrorRetryable (http_code status) safeBody))"

text \<open>Send, read the body and classify the status: the end every adapter shares.\<close>

definition exchange :: "net_lib \<Rightarrow> http_request \<Rightarrow> (http_response \<times> raw_json) exec_result" where
  "exchange net req =
     and_then (failing ErrorExternalDependency ''HTTP_ERROR'' ''request failed'' (nl_Do net req)) (\<lambda>resp.
     and_then (failing ErrorRetryable ''READ_ERROR'' ''failed to read response'' (hs_Body resp)) (\<lambda>(body, text).
     case classifyHTTPStatus (hs_StatusCode resp) text of Some err \<Rightarrow> Inl err | None \<Rightarrow> Inr (resp, body)))"

text \<open>\<open>_ = json.Unmarshal(body, &parsed)\<close> into a map: nil unless the body is an object.\<close>

definition parsed_body :: "raw_json \<Rightarrow> go_map option" where
  "parsed_body body = (case json_unmarshal_map body of Inr (Some m) \<Rightarrow> Some m | _ \<Rightarrow> None)"

definition body_value :: "raw_json \<Rightarrow> any" where
  "body_value body = (case parsed_body body of None \<Rightarrow> VNil | Some m \<Rightarrow> VMap m)"

definition checked_url :: "net_lib \<Rightarrow> string \<Rightarrow> unit exec_result" where
  "checked_url net url = failing ErrorFatal ''SSRF_BLOCKED'' ''URL not allowed'' (validateExternalURL net url)"

definition new_request :: "string \<Rightarrow> string \<Rightarrow> raw_json option \<Rightarrow> http_request exec_result" where
  "new_request method url body = failing ErrorFatal ''REQUEST_ERROR'' ''failed to create request'' (NewRequest method url body)"

definition set_header :: "string \<Rightarrow> string \<Rightarrow> http_request \<Rightarrow> http_request" where
  "set_header k v req = req\<lparr>hq_Header := Header_Set k v (hq_Header req)\<rparr>"

text \<open>The string members of \<open>headers\<close>; a map is walked in some order.\<close>

definition set_headers :: "any \<Rightarrow> http_request \<Rightarrow> http_request" where
  "set_headers headers req = (case headers of
     VMap m \<Rightarrow> fold (\<lambda>(k, v) r. case v of VStr s \<Rightarrow> set_header k s r | _ \<Rightarrow> r) m req
   | _ \<Rightarrow> req)"

definition set_idempotency :: "ExecuteRequest \<Rightarrow> http_request \<Rightarrow> http_request" where
  "set_idempotency req = (if er_IdempotencyKey req \<noteq> [] then set_header ''Idempotency-Key'' (er_IdempotencyKey req) else (\<lambda>r. r))"

definition set_api_key :: "ExecuteRequest \<Rightarrow> http_request \<Rightarrow> http_request" where
  "set_api_key req = (case map_of (er_Credentials req) ''api_key'' of
     None \<Rightarrow> (\<lambda>r. r) | Some apiKey \<Rightarrow> set_header ''Authorization'' (''Bearer '' @ apiKey))"

definition body_of_input :: "ExecuteRequest \<Rightarrow> raw_json option" where
  "body_of_input req = map_option json_marshal (map_of (er_Input req) ''body'')"

section \<open>webhook.call (webhook.go)\<close>

definition require :: "ExecuteRequest \<Rightarrow> string \<Rightarrow> unit result" where
  "require req k = guard (member_of (er_Input req) k \<noteq> VNil) (Errf (k @ '' is required'') [])"

definition Webhook_Validate :: "ExecuteRequest \<Rightarrow> unit result" where
  "Webhook_Validate req = require req ''url''"

definition Webhook_Execute :: "net_lib \<Rightarrow> ExecuteRequest \<Rightarrow> ExecuteResponse exec_result" where
  "Webhook_Execute net req =
     (let url = str_of (er_Input req) ''url'';
          method = (if str_of (er_Input req) ''method'' = [] then ''POST'' else str_of (er_Input req) ''method'')
      in and_then (checked_url net url) (\<lambda>_.
         and_then (new_request method url (body_of_input req)) (\<lambda>hr.
         and_then (exchange net (set_idempotency req (set_headers (member_of (er_Input req) ''headers'')
             (set_header ''Content-Type'' ''application/json'' hr)))) (\<lambda>(resp, body).
           Inr \<lparr>rp_Output = Some [(''status_code'', VInt (hs_StatusCode resp)), (''body'', body_value body)], rp_RawBody = body\<rparr>))))"

section \<open>http.request (http.go)\<close>

definition HTTP_Validate :: "ExecuteRequest \<Rightarrow> unit result" where
  "HTTP_Validate req = and_then (require req ''url'') (\<lambda>_. require req ''method'')"

definition with_query :: "any \<Rightarrow> URL \<Rightarrow> URL" where
  "with_query query u = (case query of
     VMap m \<Rightarrow> u\<lparr>u_RawQuery := Values_Encode (fold (\<lambda>(k, v) q. case v of VStr s \<Rightarrow> Values_Set k s q | _ \<Rightarrow> q) m (URL_Query u))\<rparr>
   | _ \<Rightarrow> u)"

definition header_values :: "(string \<times> string list) list \<Rightarrow> go_map" where
  "header_values h = map (\<lambda>(k, vs). (k, case vs of [v] \<Rightarrow> VStr v | _ \<Rightarrow> VList (map VStr vs))) h"

definition set_auth_header :: "ExecuteRequest \<Rightarrow> http_request \<Rightarrow> http_request" where
  "set_auth_header req = (let a = str_of (er_Input req) ''auth_header'' in
     if a \<noteq> [] then set_header ''Authorization'' a else (\<lambda>r. r))"

definition HTTP_Execute :: "net_lib \<Rightarrow> ExecuteRequest \<Rightarrow> ExecuteResponse exec_result" where
  "HTTP_Execute net req =
     (let rawURL = str_of (er_Input req) ''url''; body = body_of_input req in
      and_then (checked_url net rawURL) (\<lambda>_.
      and_then (failing ErrorFatal ''INVALID_URL'' ''invalid URL'' (url_Parse rawURL)) (\<lambda>parsed.
      and_then (new_request (str_of (er_Input req) ''method'') (URL_String (with_query (member_of (er_Input req) ''query'') parsed)) body) (\<lambda>hr.
      and_then (exchange net (set_idempotency req (set_auth_header req (set_headers (member_of (er_Input req) ''headers'')
          (if body \<noteq> None then set_header ''Content-Type'' ''application/json'' hr else hr))))) (\<lambda>(resp, rbody).
        Inr \<lparr>rp_Output = Some [(''status_code'', VInt (hs_StatusCode resp)), (''headers'', VMap (header_values (hs_Header resp))),
               (''body'', body_value rbody)], rp_RawBody = rbody\<rparr>)))))"

section \<open>JSON APIs with a key (apipost.go)\<close>

definition doAPIPost :: "net_lib \<Rightarrow> string \<Rightarrow> ExecuteRequest \<Rightarrow> go_map \<Rightarrow> raw_json exec_result" where
  "doAPIPost net apiURL req payload =
     and_then (new_request ''POST'' apiURL (Some (json_marshal (VMap payload)))) (\<lambda>hr.
     and_then (exchange net (set_api_key req (set_idempotency req (set_header ''Content-Type'' ''application/json'' hr)))) (\<lambda>(_, body).
       Inr body))"

definition missing_api_url :: ExecutionError where
  "missing_api_url = exec_error ErrorFatal ''MISSING_CONFIG'' ''api_url is required in config''"

definition executeAPIPost :: "net_lib \<Rightarrow> ExecuteRequest \<Rightarrow> go_map \<Rightarrow> go_map option exec_result" where
  "executeAPIPost net req payload =
     (let apiURL = str_of (er_Config req) ''api_url'' in
      if apiURL = [] then Inl missing_api_url
      else and_then (checked_url net apiURL) (\<lambda>_.
           and_then (doAPIPost net apiURL req payload) (\<lambda>body. Inr (parsed_body body))))"

text \<open>A GET of a path below the configured URL, as the two adapters that ask for a status do it.\<close>

definition api_get :: "net_lib \<Rightarrow> ExecuteRequest \<Rightarrow> string \<Rightarrow> go_map option exec_result" where
  "api_get net req i =
     (let apiURL = str_of (er_Config req) ''api_url''; url = apiURL @ ''/'' @ i in
      if apiURL = [] then Inl missing_api_url
      else and_then (checked_url net url) (\<lambda>_.
           and_then (new_request ''GET'' url None) (\<lambda>hr.
           and_then (exchange net (set_api_key req (set_header ''Accept'' ''application/json'' hr))) (\<lambda>(_, body).
             Inr (parsed_body body)))))"

end
