(* ===== verification/Connector_Adapters.thy ===== *)
theory Connector_Adapters
  imports Connector_Http
begin

text \<open>
  The remaining adapters of \<open>connector/adapters\<close> and the registry \<open>cmd/main.go\<close> builds of them. The
  client of the language models (\<open>openai-go\<close>) is the parameter \<open>llm\<close>. Where the sources walk over a
  map, the model takes its entries in the order of the association list.
\<close>

section \<open>connect.call (connect_call.go)\<close>

definition ident_char :: "char \<Rightarrow> bool" where
  "ident_char c \<longleftrightarrow> is_alpha_byte c \<or> is_digit_byte c \<or> c = CHR ''_''"

text \<open>The regular expressions: identifiers, dotted names of two identifiers or more, plain path segments.\<close>

definition connectRPCPattern :: "string \<Rightarrow> bool" where
  "connectRPCPattern s \<longleftrightarrow> s \<noteq> [] \<and> \<not> is_digit_byte (hd s) \<and> list_all ident_char s"

definition connectServicePattern :: "string \<Rightarrow> bool" where
  "connectServicePattern s \<longleftrightarrow> length (split_on (CHR ''.'') s) \<ge> 2 \<and> list_all connectRPCPattern (split_on (CHR ''.'') s)"

definition plain_segment :: "string \<Rightarrow> bool" where
  "plain_segment s \<longleftrightarrow> s \<noteq> [] \<and> list_all (\<lambda>c. is_alpha_byte c \<or> is_digit_byte c \<or> c \<in> set ''._~-'') s"

definition connectPathPrefixPattern :: "string \<Rightarrow> bool" where
  "connectPathPrefixPattern s \<longleftrightarrow> s = [] \<or> (hd s = CHR ''/'' \<and> list_all plain_segment (split_on (CHR ''/'') (tl s)))"

text \<open>\<open>path.Clean\<close> of a rooted path.\<close>

definition clean_segment :: "string \<Rightarrow> string list \<Rightarrow> string list" where
  "clean_segment seg segs = (if seg = [] \<or> seg = ''.'' then segs else if seg = ''..'' then butlast segs else segs @ [seg])"

definition path_Clean :: "string \<Rightarrow> string" where
  "path_Clean p = CHR ''/'' # intercalate ''/'' (fold clean_segment (split_on (CHR ''/'') p) [])"

record ConnectRoute =
  cr_Prefix :: string
  cr_BaseURL :: string

definition absolute_http :: "URL \<Rightarrow> bool" where
  "absolute_http u \<longleftrightarrow> (u_Scheme u = ''http'' \<or> u_Scheme u = ''https'') \<and> u_Host u \<noteq> []"

definition parse_route :: "string \<Rightarrow> ConnectRoute list \<Rightarrow> ConnectRoute list result" where
  "parse_route entry routes =
     (case Cut entry (CHR ''='') of (prefix0, base0, found) \<Rightarrow>
      let prefix = TrimSpace prefix0; base = TrimSpace base0 in
      if \<not> found \<or> prefix = [] \<or> base = [] then
        Inl (Errf ''connect route %q: want <service-prefix>=<base-url>'' [EStr entry])
      else if prefix \<in> cr_Prefix ` set routes then Inl (Errf ''connect route %q: duplicate prefix'' [EStr prefix])
      else (case url_Parse base of
        Inl err \<Rightarrow> Inl (Errf ''connect route %q: invalid base url: %w'' [EStr prefix, EErr err])
      | Inr parsed \<Rightarrow>
          (if \<not> absolute_http parsed then Inl (Errf ''connect route %q: base url must be absolute http(s)'' [EStr prefix])
           else if u_RawQuery parsed \<noteq> [] \<or> u_Fragment parsed \<noteq> [] then
             Inl (Errf ''connect route %q: base url must not carry a query or fragment'' [EStr prefix])
           else Inr (routes @ [\<lparr>cr_Prefix = prefix, cr_BaseURL = TrimRight base (CHR ''/'')\<rparr>]))))"

fun parse_routes :: "string list \<Rightarrow> ConnectRoute list \<Rightarrow> ConnectRoute list result" where
  "parse_routes [] routes = Inr routes"
| "parse_routes (entry # rest) routes =
     (if TrimSpace entry = [] then parse_routes rest routes
      else and_then (parse_route (TrimSpace entry) routes) (parse_routes rest))"

definition ParseConnectRoutes :: "string \<Rightarrow> ConnectRoute list result" where
  "ParseConnectRoutes spec =
     and_then (parse_routes (split_on (CHR '','') spec) []) (\<lambda>routes.
       Inr (sort_key (\<lambda>r. - int (length (cr_Prefix r))) routes))"

definition Routes_Resolve :: "string \<Rightarrow> ConnectRoute list \<Rightarrow> string option" where
  "Routes_Resolve service routes = map_option cr_BaseURL (List.find (\<lambda>r. HasPrefix service (cr_Prefix r)) routes)"

record connectCall =
  cc_service :: string
  cc_rpc :: string
  cc_request :: go_map
  cc_endpoint :: string

definition connectEndpoint :: "net_lib \<Rightarrow> string \<Rightarrow> string result" where
  "connectEndpoint net raw =
     and_then (labelled ''endpoint'' (url_Parse (TrimSpace raw))) (\<lambda>parsed.
     let prefix = TrimSuffix (u_Path parsed) ''/'' in
     if \<not> absolute_http parsed then Inl (Errf ''endpoint %q must be an absolute http(s) URL'' [EStr raw])
     else if u_User parsed \<noteq> None \<or> u_RawQuery parsed \<noteq> [] \<or> u_ForceQuery parsed \<or> u_Fragment parsed \<noteq> [] \<or>
        u_RawPath parsed \<noteq> [] \<or> \<not> connectPathPrefixPattern prefix \<or> (prefix \<noteq> [] \<and> path_Clean prefix \<noteq> prefix) then
       Inl (Errf ''endpoint %q must be a base URL with at most a plain path prefix'' [EStr raw])
     else if \<not> isTrustedHostSuffix net (ToLower (URL_Hostname parsed)) then
       Inl (Errf ''endpoint %q is not a host trustage trusts'' [EStr raw])
     else Inr (u_Scheme parsed @ ''://'' @ u_Host parsed @ prefix))"

definition connectCallInput :: "net_lib \<Rightarrow> ExecuteRequest \<Rightarrow> connectCall result" where
  "connectCallInput net req =
     (let input = er_Input req; service = str_of input ''service''; rpc = str_of input ''rpc'' in
      if \<not> connectServicePattern service then
        Inl (Errf ''service must be a fully-qualified service name, got %q'' [EStr service])
      else if \<not> connectRPCPattern rpc then Inl (Errf ''rpc must be a method name, got %q'' [EStr rpc])
      else and_then (case member_of input ''request'' of
          VNil \<Rightarrow> Inr [] | VMap m \<Rightarrow> Inr m | _ \<Rightarrow> Inl (Errf ''request must be an object'' [])) (\<lambda>request.
        and_then (case member_of input ''endpoint'' of
          VNil \<Rightarrow> Inr [] | VStr s \<Rightarrow> connectEndpoint net s | _ \<Rightarrow> Inl (Errf ''endpoint must be a string'' [])) (\<lambda>endpoint.
        Inr \<lparr>cc_service = service, cc_rpc = rpc, cc_request = request, cc_endpoint = endpoint\<rparr>)))"

definition ConnectCall_Validate :: "net_lib \<Rightarrow> ExecuteRequest \<Rightarrow> unit result" where
  "ConnectCall_Validate net req = and_then (connectCallInput net req) (\<lambda>_. Inr ())"

definition connectRetryableCodes :: "(string \<times> string) list" where
  "connectRetryableCodes =
     [(''unavailable'', ErrorExternalDependency), (''deadline_exceeded'', ErrorExternalDependency),
      (''resource_exhausted'', ErrorRetryable), (''aborted'', ErrorRetryable), (''internal'', ErrorRetryable),
      (''unknown'', ErrorRetryable)]"

text \<open>
  Decoding the error object: members are matched without regard to case, a later one wins, null
  leaves the field alone, and another kind of value is an error.
\<close>

definition connect_error_field :: "string \<Rightarrow> go_map \<Rightarrow> string option" where
  "connect_error_field name m = fold (\<lambda>(k, v) acc.
     if ToLower k \<noteq> name then acc
     else (case (acc, v) of (Some s, VNil) \<Rightarrow> Some s | (Some _, VStr s) \<Rightarrow> Some s | _ \<Rightarrow> None)) m (Some [])"

definition connect_error_body :: "raw_json \<Rightarrow> (string \<times> string) option" where
  "connect_error_body body = (case json_unmarshal_map body of
     Inr (Some m) \<Rightarrow> (case (connect_error_field ''code'' m, connect_error_field ''message'' m) of
        (Some code, Some message) \<Rightarrow> (if code \<noteq> [] then Some (code, message) else None) | _ \<Rightarrow> None)
   | _ \<Rightarrow> None)"

definition classifyConnectError :: "int \<Rightarrow> raw_json \<Rightarrow> string \<Rightarrow> ExecutionError" where
  "classifyConnectError status body text =
     (case connect_error_body body of
        Some (code, message) \<Rightarrow>
          \<lparr>xe_Class = (case map_of connectRetryableCodes code of None \<Rightarrow> ErrorFatal | Some c \<Rightarrow> c),
           xe_Code = ''CONNECT_'' @ ToUpper code, xe_Message = truncateBody message,
           xe_Details = Some [(''connect_code'', VStr code), (''http_status'', VInt status)]\<rparr>
      | None \<Rightarrow>
          (let details = Some [(''http_status'', VInt status)] in
           if status = 429 then \<lparr>xe_Class = ErrorRetryable, xe_Code = ''HTTP_429'', xe_Message = ''rate limited'', xe_Details = details\<rparr>
           else \<lparr>xe_Class = (if status \<ge> 500 then ErrorExternalDependency else ErrorFatal), xe_Code = http_code status,
                 xe_Message = truncateBody text, xe_Details = details\<rparr>))"

definition connect_request :: "string \<Rightarrow> connectCall \<Rightarrow> http_request exec_result" where
  "connect_request base call =
     and_then (failing ErrorFatal ''REQUEST_ERROR'' ''build request''
       (NewRequest ''POST'' (base @ ''/'' @ cc_service call @ ''/'' @ cc_rpc call) (Some (json_marshal (VMap (cc_request call)))))) (\<lambda>hr.
     Inr (set_header ''Connect-Protocol-Version'' ''1'' (set_header ''Content-Type'' ''application/json'' hr)))"

definition connect_base :: "ConnectRoute list \<Rightarrow> connectCall \<Rightarrow> string option" where
  "connect_base routes call = (case Routes_Resolve (cc_service call) routes of
     Some base \<Rightarrow> Some base
   | None \<Rightarrow> (if cc_endpoint call \<noteq> [] then Some (cc_endpoint call) else None))"

text \<open>The reply decodes into an empty map: nothing leaves it empty, null makes it nil.\<close>

definition ConnectCall_Execute :: "net_lib \<Rightarrow> ConnectRoute list \<Rightarrow> ExecuteRequest \<Rightarrow> ExecuteResponse exec_result" where
  "ConnectCall_Execute net routes req =
     and_then (case connectCallInput net req of
        Inl err \<Rightarrow> Inl (exec_error ErrorFatal ''INVALID_INPUT'' (errmsg_text err)) | Inr call \<Rightarrow> Inr call) (\<lambda>call.
     case connect_base routes call of
       None \<Rightarrow> Inl (exec_error ErrorFatal ''CONNECT_NO_ROUTE''
         (''no endpoint or TRUSTAGE_CONNECT_ROUTES entry serves '' @ cc_service call))
     | Some base \<Rightarrow>
       (let name = cc_service call @ ''/'' @ cc_rpc call in
        and_then (connect_request base call) (\<lambda>hr.
        and_then (failing ErrorExternalDependency ''CONNECT_TRANSPORT'' name (nl_Do net hr)) (\<lambda>resp.
        and_then (failing ErrorRetryable ''READ_ERROR'' ''read reply'' (hs_Body resp)) (\<lambda>(body, text).
          if hs_StatusCode resp \<noteq> 200 then Inl (classifyConnectError (hs_StatusCode resp) body text)
          else if TrimSpace text = [] then Inr \<lparr>rp_Output = Some [], rp_RawBody = body\<rparr>
          else and_then (failing ErrorFatal ''CONNECT_INVALID_REPLY'' (name @ '' replied with a non-object body'')
                 (json_unmarshal_map body)) (\<lambda>output.
               Inr \<lparr>rp_Output = output, rp_RawBody = body\<rparr>))))))"

section \<open>Notifications (notification.go, notification_status.go)\<close>

text \<open>\<open>if v, ok := src[key]; ok { dst[key'] = v }\<close>.\<close>

definition copy_as :: "string \<Rightarrow> string \<Rightarrow> go_map \<Rightarrow> go_map \<Rightarrow> go_map" where
  "copy_as key key' src dst = (case map_of src key of None \<Rightarrow> dst | Some v \<Rightarrow> map_put key' v dst)"

definition copy_keys :: "string list \<Rightarrow> go_map \<Rightarrow> go_map \<Rightarrow> go_map" where
  "copy_keys ks src dst = fold (\<lambda>k. copy_as k k src) ks dst"

text \<open>The id of a created object: its member \<open>id\<close>, else the member with the adapter's own name.\<close>

definition created_output :: "string \<Rightarrow> go_map option \<Rightarrow> go_map \<Rightarrow> go_map" where
  "created_output id_key parsed output =
     (let p = (case parsed of None \<Rightarrow> [] | Some m \<Rightarrow> m);
          o1 = copy_as ''id'' id_key p output;
          o2 = (if member_of o1 id_key = VNil then copy_as id_key id_key p o1 else o1)
      in copy_as ''status'' ''status'' p o2)"

definition output_response :: "go_map \<Rightarrow> ExecuteResponse" where
  "output_response output = \<lparr>rp_Output = Some output, rp_RawBody = RawEmpty\<rparr>"

definition Notification_buildPayload :: "ExecuteRequest \<Rightarrow> go_map" where
  "Notification_buildPayload req =
     (let i = er_Input req in
      copy_keys [''subject'', ''template_id'', ''template_vars''] i
        [(''recipient'', member_of i ''recipient''), (''channel'', member_of i ''channel''), (''body'', member_of i ''body'')])"

definition Notification_Execute :: "net_lib \<Rightarrow> ExecuteRequest \<Rightarrow> ExecuteResponse exec_result" where
  "Notification_Execute net req =
     and_then (executeAPIPost net req (Notification_buildPayload req)) (\<lambda>parsed.
       Inr (output_response (created_output ''notification_id'' parsed
         [(''channel'', member_of (er_Input req) ''channel''), (''status'', VStr ''sent'')])))"

definition Notification_Validate :: "ExecuteRequest \<Rightarrow> unit result" where
  "Notification_Validate req =
     (let channel = str_of (er_Input req) ''channel'' in
      and_then (require req ''recipient'') (\<lambda>_.
      and_then (guard (channel \<noteq> []) (Errf ''channel is required'' [])) (\<lambda>_.
      and_then (guard (channel \<in> {''sms'', ''email'', ''push''})
        (Errf ''unsupported channel %q: must be sms, email, or push'' [EStr channel])) (\<lambda>_.
      and_then (require req ''body'') (\<lambda>_.
        guard (channel = ''email'' \<longrightarrow> member_of (er_Input req) ''subject'' \<noteq> VNil)
          (Errf ''subject is required for email channel'' []))))))"

definition NotificationStatus_Validate :: "ExecuteRequest \<Rightarrow> unit result" where
  "NotificationStatus_Validate req = require req ''notification_id''"

definition NotificationStatus_Execute :: "net_lib \<Rightarrow> ExecuteRequest \<Rightarrow> ExecuteResponse exec_result" where
  "NotificationStatus_Execute net req =
     (let i = str_of (er_Input req) ''notification_id'' in
      and_then (api_get net req i) (\<lambda>parsed.
        Inr (output_response (copy_keys [''status'', ''delivered_at'', ''error''] (case parsed of None \<Rightarrow> [] | Some m \<Rightarrow> m)
          [(''notification_id'', VStr i), (''status'', VStr ''unknown'')]))))"

section \<open>Payments (payment.go, payment_verify.go)\<close>

definition Payment_buildPayload :: "ExecuteRequest \<Rightarrow> go_map" where
  "Payment_buildPayload req =
     (let i = er_Input req in
      copy_keys [''description'', ''method''] i
        (map (\<lambda>k. (k, member_of i k)) [''amount'', ''currency'', ''recipient'', ''reference'']))"

definition Payment_Validate :: "ExecuteRequest \<Rightarrow> unit result" where
  "Payment_Validate req =
     and_then (require req ''amount'') (\<lambda>_. and_then (require req ''currency'') (\<lambda>_.
     and_then (require req ''recipient'') (\<lambda>_. require req ''reference'')))"

definition Payment_Execute :: "net_lib \<Rightarrow> ExecuteRequest \<Rightarrow> ExecuteResponse exec_result" where
  "Payment_Execute net req =
     and_then (executeAPIPost net req (Payment_buildPayload req)) (\<lambda>parsed.
       Inr (output_response (created_output ''payment_id'' parsed
         [(''status'', VStr ''initiated''), (''reference'', member_of (er_Input req) ''reference'')])))"

definition PaymentVerify_Validate :: "ExecuteRequest \<Rightarrow> unit result" where
  "PaymentVerify_Validate req = require req ''payment_id''"

definition PaymentVerify_Execute :: "net_lib \<Rightarrow> ExecuteRequest \<Rightarrow> ExecuteResponse exec_result" where
  "PaymentVerify_Execute net req =
     (let i = str_of (er_Input req) ''payment_id'' in
      and_then (api_get net req i) (\<lambda>parsed.
        Inr (output_response (copy_keys [''status'', ''amount'', ''currency'', ''completed_at'', ''error'']
          (case parsed of None \<Rightarrow> [] | Some m \<Rightarrow> m) [(''payment_id'', VStr i), (''status'', VStr ''unknown'')]))))"

end
