(* ===== verification/Connector_Registry.thy ===== *)
theory Connector_Registry
  imports Connector_Adapters
begin

text \<open>
  The adapters that stay inside the process (\<open>transform.go\<close>, \<open>log.go\<close>, \<open>form_validate.go\<close>),
  \<open>approval.go\<close>, \<open>ai_chat.go\<close>, the fixtures of \<open>connector/fixtures.go\<close> and the registry
  \<open>cmd/main.go\<close> builds. The client of the language models (\<open>openai-go\<close>) is the parameter \<open>llm\<close>, its
  answer a function of the request; the option for a client of its own, which no decoded document
  can hold, is left out.
\<close>

section \<open>data.transform (transform.go)\<close>

definition object_or_empty :: "any \<Rightarrow> go_map" where
  "object_or_empty v = (case v of VMap m \<Rightarrow> m | _ \<Rightarrow> [])"

definition transform_vars :: "go_map \<Rightarrow> go_map" where
  "transform_vars source =
     [(''payload'', VMap source), (''vars'', VMap source), (''metadata'', VMap []), (''env'', VMap [])]"

definition compile_and_evaluate ::
    "('env, 'ast, 'prg) cel_lib \<Rightarrow> 'env \<Rightarrow> string \<Rightarrow> (string \<Rightarrow> string) \<Rightarrow> go_map \<Rightarrow> string \<Rightarrow> any exec_result" where
  "compile_and_evaluate cel env errorCode label vars expr =
     and_then (failing ErrorFatal errorCode (label ''compile'') (CompileExpression cel env expr)) (\<lambda>ast.
       failing ErrorFatal errorCode (label ''evaluation'') (EvaluateExpression cel env ast vars))"

fun transform_mappings :: "('env, 'ast, 'prg) cel_lib \<Rightarrow> 'env \<Rightarrow> go_map \<Rightarrow> go_map \<Rightarrow> go_map \<Rightarrow> go_map exec_result" where
  "transform_mappings cel env vars [] data = Inr data"
| "transform_mappings cel env vars ((key, v) # mappings) data = (case v of
     VStr expr \<Rightarrow>
       and_then (compile_and_evaluate cel env ''MAPPING_ERROR''
         (\<lambda>what. errmsg_text (Errf ''mapping %q'' [EStr key]) @ '' '' @ what @ '' failed'') vars expr) (\<lambda>result.
       transform_mappings cel env vars mappings (map_put key result data))
   | _ \<Rightarrow> Inl (exec_error ErrorFatal ''MAPPING_ERROR''
            (errmsg_text (Errf ''mapping %q: expression must be a string'' [EStr key]))))"

definition DataTransform_Validate :: "ExecuteRequest \<Rightarrow> unit result" where
  "DataTransform_Validate req =
     and_then (require req ''source'') (\<lambda>_.
       guard (member_of (er_Input req) ''expression'' \<noteq> VNil \<or> member_of (er_Input req) ''mappings'' \<noteq> VNil)
         (Errf ''at least one of expression or mappings is required'' []))"

definition DataTransform_Execute :: "('env, 'ast, 'prg) cel_lib \<Rightarrow> ExecuteRequest \<Rightarrow> ExecuteResponse exec_result" where
  "DataTransform_Execute cel req =
     (let vars = transform_vars (object_or_empty (member_of (er_Input req) ''source''));
          expr = str_of (er_Input req) ''expression''
      in and_then (failing ErrorFatal ''CEL_ENV_ERROR'' ''failed to create CEL environment'' (NewExpressionEnv cel)) (\<lambda>env.
         and_then (if expr = [] then Inr []
           else and_then (compile_and_evaluate cel env ''EXPRESSION_ERROR'' (\<lambda>what. ''expression '' @ what @ '' failed'') vars expr)
             (\<lambda>result. Inr [(''result'', result)])) (\<lambda>output.
         and_then (case member_of (er_Input req) ''mappings'' of
             VMap mappings \<Rightarrow> and_then (transform_mappings cel env vars mappings []) (\<lambda>data.
               Inr (map_put ''data'' (VMap data) output))
           | _ \<Rightarrow> Inr output) (\<lambda>output. Inr (output_response output)))))"

section \<open>log.entry (log.go)\<close>

definition LogEntry_Validate :: "ExecuteRequest \<Rightarrow> unit result" where
  "LogEntry_Validate req =
     and_then (require req ''level'') (\<lambda>_.
     and_then (guard (str_of (er_Input req) ''level'' \<in> {''info'', ''warn'', ''error'', ''debug''})
       (Errf ''level must be one of: info, warn, error, debug'' [])) (\<lambda>_.
     require req ''message''))"

definition LogEntry_Execute :: "net_lib \<Rightarrow> ExecuteRequest \<Rightarrow> ExecuteResponse exec_result" where
  "LogEntry_Execute net req =
     (let output = [(''logged'', VBool True), (''timestamp'', VStr (format_RFC3339 (nl_now net))),
            (''level'', VStr (str_of (er_Input req) ''level'')), (''message'', VStr (str_of (er_Input req) ''message''))]
      in Inr (output_response (case member_of (er_Input req) ''data'' of
           VMap data \<Rightarrow> map_put ''data'' (VMap data) output | _ \<Rightarrow> output)))"

section \<open>form.validate (form_validate.go)\<close>

definition isEmptyString :: "any \<Rightarrow> bool" where "isEmptyString val \<longleftrightarrow> val = VStr []"

definition matchesType :: "any \<Rightarrow> string \<Rightarrow> bool" where
  "matchesType val expectedType =
     (if expectedType = ''string'' then (case val of VStr _ \<Rightarrow> True | _ \<Rightarrow> False)
      else if expectedType = ''number'' then (case val of VFloat _ \<Rightarrow> True | _ \<Rightarrow> False)
      else if expectedType = ''boolean'' then (case val of VBool _ \<Rightarrow> True | _ \<Rightarrow> False)
      else if expectedType = ''array'' then (case val of VList _ \<Rightarrow> True | _ \<Rightarrow> False)
      else if expectedType = ''object'' then (case val of VMap _ \<Rightarrow> True | _ \<Rightarrow> False)
      else True)"

definition required_error :: "go_map \<Rightarrow> any \<Rightarrow> errmsg list" where
  "required_error m reqFieldRaw = (case reqFieldRaw of
     VStr reqField \<Rightarrow> (case map_of m reqField of
        None \<Rightarrow> [Errf ''missing required field %q'' [EStr reqField]]
      | Some val \<Rightarrow> (if isEmptyString val then [Errf ''field %q must not be empty'' [EStr reqField]] else []))
   | _ \<Rightarrow> [])"

definition checkRequiredFields :: "go_map \<Rightarrow> go_map \<Rightarrow> errmsg list" where
  "checkRequiredFields m input = (case member_of input ''required_fields'' of
     VList requiredRaw \<Rightarrow> concat (map (required_error m) requiredRaw) | _ \<Rightarrow> [])"

definition type_error :: "go_map \<Rightarrow> string \<times> any \<Rightarrow> errmsg list" where
  "type_error m ft = (case ft of (fieldName, VStr expectedType) \<Rightarrow>
       (case map_of m fieldName of
          None \<Rightarrow> []
        | Some val \<Rightarrow> (if matchesType val expectedType then []
             else [Errf ''field %q: expected type %s'' [EStr fieldName, EStr expectedType]]))
   | _ \<Rightarrow> [])"

definition checkFieldTypes :: "go_map \<Rightarrow> go_map \<Rightarrow> errmsg list" where
  "checkFieldTypes m input = (case member_of input ''field_types'' of
     VMap fieldTypes \<Rightarrow> concat (map (type_error m) fieldTypes) | _ \<Rightarrow> [])"

definition FormValidate_Validate :: "ExecuteRequest \<Rightarrow> unit result" where
  "FormValidate_Validate req = and_then (require req ''fields'') (\<lambda>_. require req ''required_fields'')"

text \<open>A nil slice of errors encodes as null.\<close>

definition form_output :: "errmsg list \<Rightarrow> go_map \<Rightarrow> go_map" where
  "form_output errs m = [(''valid'', VBool (errs = [])),
     (''errors'', if errs = [] then VNil else VList (map (VStr \<circ> errmsg_text) errs)), (''fields'', VMap m)]"

definition FormValidate_Execute :: "ExecuteRequest \<Rightarrow> ExecuteResponse exec_result" where
  "FormValidate_Execute req =
     (let m = object_or_empty (member_of (er_Input req) ''fields'');
          validationErrors = checkRequiredFields m (er_Input req) @ checkFieldTypes m (er_Input req)
      in if validationErrors \<noteq> [] then
           Inl \<lparr>xe_Class = ErrorFatal, xe_Code = ''VALIDATION_FAILED'',
             xe_Message = errmsg_text (Errf ''form validation failed: %d errors'' [EInt (int (length validationErrors))]),
             xe_Details = Some (form_output validationErrors m)\<rparr>
         else Inr (output_response (form_output [] m)))"

section \<open>approval.request (approval.go)\<close>

text \<open>\<open>if v, ok := req.Metadata[key]; ok { payload[key] = v }\<close>.\<close>

definition copy_metadata :: "string \<Rightarrow> ExecuteRequest \<Rightarrow> go_map \<Rightarrow> go_map" where
  "copy_metadata k req payload = (case map_of (er_Metadata req) k of None \<Rightarrow> payload | Some v \<Rightarrow> map_put k (VStr v) payload)"

definition approval_options :: "any \<Rightarrow> any" where
  "approval_options v = (case v of
     VList (x # xs) \<Rightarrow> v | _ \<Rightarrow> VList [VStr ''approve'', VStr ''reject''])"

definition Approval_buildPayload :: "ExecuteRequest \<Rightarrow> go_map" where
  "Approval_buildPayload req =
     (let i = er_Input req;
          p1 = copy_as ''description'' ''description'' i
            [(''type'', VStr ''approval''), (''approver'', member_of i ''approver''), (''title'', member_of i ''title'')];
          p2 = map_put ''options'' (approval_options (member_of i ''options'')) p1
      in copy_metadata ''instance_id'' req (copy_metadata ''execution_id'' req
           (copy_keys [''callback_url'', ''expires_in''] i p2)))"

definition Approval_Validate :: "ExecuteRequest \<Rightarrow> unit result" where
  "Approval_Validate req = and_then (require req ''approver'') (\<lambda>_. require req ''title'')"

definition Approval_Execute :: "net_lib \<Rightarrow> ExecuteRequest \<Rightarrow> ExecuteResponse exec_result" where
  "Approval_Execute net req =
     and_then (executeAPIPost net req (Approval_buildPayload req)) (\<lambda>parsed.
       Inr (output_response (created_output ''request_id'' parsed
         [(''status'', VStr ''pending''), (''approver'', member_of (er_Input req) ''approver'')])))"

section \<open>ai.chat (ai_chat.go)\<close>

datatype chat_message = SystemMessage string | UserMessage string | AssistantMessage string

record llm_request =
  lq_APIKey :: string
  lq_BaseURL :: "string option"
  lq_Model :: string
  lq_Messages :: "chat_message list"
  lq_Temperature :: "rat option"
  lq_MaxTokens :: "int option"

record llm_completion =
  lc_Choices :: "string list"
  lc_Model :: string

type_synonym llm = "llm_request \<Rightarrow> llm_completion result"

fun build_messages_from :: "nat \<Rightarrow> any list \<Rightarrow> chat_message list exec_result" where
  "build_messages_from i [] = Inr []"
| "build_messages_from i (raw # raws) = (case raw of
     VMap msg \<Rightarrow>
       (let content = str_of msg ''content''; role = str_of msg ''role'' in
        if role = ''user'' then
          and_then (build_messages_from (Suc i) raws) (\<lambda>ms. Inr (UserMessage content # ms))
        else if role = ''assistant'' then
          and_then (build_messages_from (Suc i) raws) (\<lambda>ms. Inr (AssistantMessage content # ms))
        else Inl (exec_error ErrorFatal ''INPUT_ERROR'' (errmsg_text
          (Errf ''messages[%d]: role must be 'user' or 'assistant', got %q'' [EInt (int i), EStr role]))))
   | _ \<Rightarrow> Inl (exec_error ErrorFatal ''INPUT_ERROR'' (errmsg_text (Errf ''messages[%d]: expected object'' [EInt (int i)]))))"

definition buildMessages :: "go_map \<Rightarrow> chat_message list exec_result" where
  "buildMessages input =
     (let systemPrompt = str_of input ''system'' in
      and_then (build_messages_from 0 (case member_of input ''messages'' of VList l \<Rightarrow> l | _ \<Rightarrow> [])) (\<lambda>ms.
        Inr ((if systemPrompt \<noteq> [] then [SystemMessage systemPrompt] else []) @ ms)))"

definition containsAny :: "string \<Rightarrow> string list \<Rightarrow> bool" where
  "containsAny s substrs = list_ex (contains_text (ToLower s)) substrs"

definition truncateError :: "string \<Rightarrow> string" where
  "truncateError s = (if length s > 512 then take 512 s @ ''...'' else s)"

definition classifyLLMError :: "errmsg \<Rightarrow> ExecutionError" where
  "classifyLLMError err =
     (let msg = errmsg_text err; shown = truncateError msg in
      if containsAny msg [''authentication'', ''unauthorized'', ''invalid api key'', ''invalid_api_key'', ''401''] then
        exec_error ErrorFatal ''AUTH_ERROR'' (''LLM authentication failed: '' @ shown)
      else if containsAny msg [''rate limit'', ''rate_limit'', ''429'', ''too many requests''] then
        exec_error ErrorRetryable ''RATE_LIMITED'' (''LLM rate limited: '' @ shown)
      else if containsAny msg [''timeout'', ''deadline exceeded'', ''context deadline''] then
        exec_error ErrorRetryable ''TIMEOUT'' (''LLM request timed out: '' @ shown)
      else if containsAny msg [''context canceled''] then
        exec_error ErrorRetryable ''CANCELLED'' ''LLM request was cancelled''
      else if containsAny msg [''connection refused'', ''no such host'', ''dns'', ''unreachable''] then
        exec_error ErrorExternalDependency ''CONNECTION_ERROR'' (''LLM provider unreachable: '' @ shown)
      else if containsAny msg [''500'', ''502'', ''503'', ''504'', ''internal server error'', ''service unavailable'', ''bad gateway''] then
        exec_error ErrorExternalDependency ''PROVIDER_ERROR'' (''LLM provider error: '' @ shown)
      else if containsAny msg [''invalid'', ''bad request'', ''400'', ''422'', ''not found'', ''model''] then
        exec_error ErrorFatal ''REQUEST_ERROR'' (''LLM request error: '' @ shown)
      else exec_error ErrorExternalDependency ''LLM_ERROR'' (''LLM call failed: '' @ shown))"

definition AIChat_Validate :: "ExecuteRequest \<Rightarrow> unit result" where
  "AIChat_Validate req =
     and_then (require req ''messages'') (\<lambda>_.
     and_then (guard (case member_of (er_Input req) ''messages'' of VList _ \<Rightarrow> True | _ \<Rightarrow> False)
       (Errf ''messages must be an array'' [])) (\<lambda>_.
     guard (str_of (er_Config req) ''model'' \<noteq> []) (Errf ''config.model is required'' [])))"

definition config_float :: "go_map \<Rightarrow> string \<Rightarrow> rat option" where
  "config_float m k = (case member_of m k of VFloat q \<Rightarrow> Some q | _ \<Rightarrow> None)"

definition AIChat_Execute :: "llm \<Rightarrow> ExecuteRequest \<Rightarrow> ExecuteResponse exec_result" where
  "AIChat_Execute llm req =
     (let model = str_of (er_Config req) ''model'';
          apiKey = (case map_of (er_Credentials req) ''api_key'' of None \<Rightarrow> [] | Some k \<Rightarrow> k);
          baseURL = str_of (er_Config req) ''base_url''
      in if model = [] then Inl (exec_error ErrorFatal ''CONFIG_ERROR'' ''model is required in config'')
         else if apiKey = [] then Inl (exec_error ErrorFatal ''CREDENTIALS_ERROR'' ''api_key credential is required'')
         else and_then (buildMessages (er_Input req)) (\<lambda>messages.
           case llm \<lparr>lq_APIKey = apiKey, lq_BaseURL = (if baseURL \<noteq> [] then Some baseURL else None), lq_Model = model,
               lq_Messages = messages, lq_Temperature = config_float (er_Config req) ''temperature'',
               lq_MaxTokens = map_option float_to_int64 (config_float (er_Config req) ''max_tokens'')\<rparr> of
             Inl err \<Rightarrow> Inl (classifyLLMError err)
           | Inr completion \<Rightarrow> Inr (output_response
               [(''content'', VStr (case lc_Choices completion of [] \<Rightarrow> [] | c # _ \<Rightarrow> c)), (''model'', VStr (lc_Model completion))])))"

section \<open>The registry of the service (cmd/main.go)\<close>

definition adapter :: "string \<Rightarrow> string \<Rightarrow> (ExecuteRequest \<Rightarrow> ExecuteResponse exec_result) \<Rightarrow> (ExecuteRequest \<Rightarrow> unit result) \<Rightarrow> Adapter" where
  "adapter t display execute validate = \<lparr>ad_Type = t, ad_DisplayName = display, ad_Execute = execute, ad_Validate = validate\<rparr>"

definition NewWebhookAdapter :: "net_lib \<Rightarrow> Adapter" where
  "NewWebhookAdapter net = adapter ''webhook.call'' ''Webhook'' (Webhook_Execute net) Webhook_Validate"

definition NewHTTPAdapter :: "net_lib \<Rightarrow> Adapter" where
  "NewHTTPAdapter net = adapter ''http.request'' ''HTTP Request'' (HTTP_Execute net) HTTP_Validate"

definition NewConnectCallAdapter :: "net_lib \<Rightarrow> ConnectRoute list \<Rightarrow> Adapter" where
  "NewConnectCallAdapter net routes =
     adapter ''connect.call'' ''Connect RPC Call'' (ConnectCall_Execute net routes) (ConnectCall_Validate net)"

definition NewNotificationSendAdapter :: "net_lib \<Rightarrow> Adapter" where
  "NewNotificationSendAdapter net =
     adapter ''notification.send'' ''Send Notification'' (Notification_Execute net) Notification_Validate"

definition NewNotificationStatusAdapter :: "net_lib \<Rightarrow> Adapter" where
  "NewNotificationStatusAdapter net =
     adapter ''notification.status'' ''Check Notification Status'' (NotificationStatus_Execute net) NotificationStatus_Validate"

definition NewPaymentInitiateAdapter :: "net_lib \<Rightarrow> Adapter" where
  "NewPaymentInitiateAdapter net =
     adapter ''payment.initiate'' ''Initiate Payment'' (Payment_Execute net) Payment_Validate"

definition NewPaymentVerifyAdapter :: "net_lib \<Rightarrow> Adapter" where
  "NewPaymentVerifyAdapter net =
     adapter ''payment.verify'' ''Verify Payment'' (PaymentVerify_Execute net) PaymentVerify_Validate"

definition NewDataTransformAdapter :: "('env, 'ast, 'prg) cel_lib \<Rightarrow> Adapter" where
  "NewDataTransformAdapter cel =
     adapter ''data.transform'' ''Transform Data'' (DataTransform_Execute cel) DataTransform_Validate"

definition NewLogEntryAdapter :: "net_lib \<Rightarrow> Adapter" where
  "NewLogEntryAdapter net = adapter ''log.entry'' ''Log Entry'' (LogEntry_Execute net) LogEntry_Validate"

definition NewFormValidateAdapter :: Adapter where
  "NewFormValidateAdapter = adapter ''form.validate'' ''Validate Form Data'' FormValidate_Execute FormValidate_Validate"

definition NewApprovalRequestAdapter :: "net_lib \<Rightarrow> Adapter" where
  "NewApprovalRequestAdapter net =
     adapter ''approval.request'' ''Request Approval'' (Approval_Execute net) Approval_Validate"

definition NewAIChatAdapter :: "llm \<Rightarrow> Adapter" where
  "NewAIChatAdapter llm = adapter ''ai.chat'' ''AI Chat'' (AIChat_Execute llm) AIChat_Validate"

definition allAdapters :: "net_lib \<Rightarrow> ConnectRoute list \<Rightarrow> ('env, 'ast, 'prg) cel_lib \<Rightarrow> llm \<Rightarrow> Adapter list" where
  "allAdapters net routes cel llm =
     [NewWebhookAdapter net, NewHTTPAdapter net, NewConnectCallAdapter net routes, NewNotificationSendAdapter net,
      NewNotificationStatusAdapter net, NewPaymentInitiateAdapter net, NewPaymentVerifyAdapter net,
      NewDataTransformAdapter cel, NewLogEntryAdapter net, NewFormValidateAdapter, NewApprovalRequestAdapter net,
      NewAIChatAdapter llm]"

fun register_all :: "Adapter list \<Rightarrow> Registry \<Rightarrow> Registry result" where
  "register_all [] r = Inr r"
| "register_all (a # as) r = (case Registry_Register a r of
     Inl err \<Rightarrow> Inl (go_panic (''failed to register adapter: '' @ errmsg_text err)) | Inr r' \<Rightarrow> register_all as r')"

definition setupConnectorRegistry ::
    "net_lib \<Rightarrow> ConnectRoute list \<Rightarrow> ('env, 'ast, 'prg) cel_lib \<Rightarrow> llm \<Rightarrow> Registry result" where
  "setupConnectorRegistry net routes cel llm = register_all (allAdapters net routes cel llm) NewRegistry"

section \<open>Fixtures (connector/fixtures.go)\<close>

text \<open>Minimal inputs, one for each adapter. No fixture has credentials.\<close>

record AdapterFixture =
  fx_Input :: go_map
  fx_Config :: go_map

definition fixture :: "go_map \<Rightarrow> go_map \<Rightarrow> AdapterFixture" where
  "fixture input config = \<lparr>fx_Input = input, fx_Config = config\<rparr>"

definition api_url_config :: "string \<Rightarrow> go_map" where
  "api_url_config url = [(''api_url'', VStr url)]"

definition fixturePaymentAmount :: any where "fixturePaymentAmount = VFloat (85 / 2)"
definition fixtureTransformAmount :: any where "fixtureTransformAmount = VInt 15"

definition AdapterFixtures :: "(string \<times> AdapterFixture) list" where
  "AdapterFixtures =
     [(''ai.chat'', fixture
        [(''messages'', VList [VMap [(''role'', VStr ''user''), (''content'', VStr ''hello'')]])]
        [(''provider'', VStr ''openai''), (''model'', VStr ''gpt-4o'')]),
      (''webhook.call'', fixture
        [(''url'', VStr ''https://example.com/hook''), (''method'', VStr ''POST''), (''body'', VMap [(''ok'', VBool True)])] []),
      (''connect.call'', fixture
        [(''service'', VStr ''finance.v1.FinanceService''), (''rpc'', VStr ''GetProposal''),
         (''request'', VMap [(''proposal_id'', VStr ''p-1'')])] []),
      (''http.request'', fixture
        [(''url'', VStr ''https://example.com/api''), (''method'', VStr ''POST''), (''body'', VMap [(''ping'', VStr ''pong'')])] []),
      (''notification.send'', fixture
        [(''recipient'', VStr ''user@example.com''), (''channel'', VStr ''email''), (''subject'', VStr ''Hello''),
         (''body'', VStr ''Welcome'')] (api_url_config ''https://notify.example.com'')),
      (''notification.status'', fixture
        [(''notification_id'', VStr ''notif-123'')] (api_url_config ''https://notify.example.com'')),
      (''payment.initiate'', fixture
        [(''amount'', fixturePaymentAmount), (''currency'', VStr ''USD''), (''recipient'', VStr ''+1555000111''),
         (''reference'', VStr ''ref-001''), (''method'', VStr ''mobile_money'')] (api_url_config ''https://payments.example.com'')),
      (''payment.verify'', fixture
        [(''payment_id'', VStr ''pay-001'')] (api_url_config ''https://payments.example.com'')),
      (''data.transform'', fixture
        [(''source'', VMap [(''amount'', fixtureTransformAmount)]), (''expression'', VStr ''payload.amount > 10'')] []),
      (''log.entry'', fixture
        [(''level'', VStr ''info''), (''message'', VStr ''hello''), (''data'', VMap [(''trace'', VStr ''t1'')])] []),
      (''form.validate'', fixture
        [(''fields'', VMap [(''email'', VStr ''user@example.com'')]), (''required_fields'', VList [VStr ''email'']),
         (''field_types'', VMap [(''email'', VStr ''string'')])] []),
      (''approval.request'', fixture
        [(''approver'', VStr ''approver@example.com''), (''title'', VStr ''Approve''), (''description'', VStr ''Please approve'')]
        (api_url_config ''https://approval.example.com''))]"

end
