(* ===== verification/Connector_Correct.thy ===== *)
theory Connector_Correct
  imports Connector_Registry Execution_Worker Service_Steps
begin

text \<open>
  The guard of the adapters lets requests out to public or trusted hosts only, the registry of the
  service has an adapter for each fixture, and the adapters that need a configuration never get one
  from the worker.
\<close>

section \<open>Private addresses\<close>

definition in_bytes :: "int list \<Rightarrow> bool" where "in_bytes bs \<longleftrightarrow> list_all (\<lambda>b. 0 \<le> b \<and> b < 256) bs"

lemma in_bytes_simps [simp]:
  "in_bytes []" "in_bytes (b # bs) \<longleftrightarrow> (0 \<le> b \<and> b < 256) \<and> in_bytes bs"
  "in_bytes (xs @ ys) \<longleftrightarrow> in_bytes xs \<and> in_bytes ys" "in_bytes (replicate n 0)"
  by (simp_all add: in_bytes_def) (auto simp: list_all_iff)

lemma in_bytes_sub: "in_bytes bs \<Longrightarrow> in_bytes (take k bs) \<and> in_bytes (drop k bs)"
  by (auto simp: in_bytes_def list_all_iff dest: in_set_takeD in_set_dropD)

lemma digits_nonneg:
  "list_all is_digit_byte s \<Longrightarrow> 0 \<le> n \<Longrightarrow> 0 \<le> foldl (\<lambda>n c. n * 10 + (byte c - 48)) n s"
  by (induction s arbitrary: n) (auto simp: is_digit_byte_def)

lemma ip4_field_range: "ip4_field s = Some v \<Longrightarrow> 0 \<le> v \<and> v < 256"
  using digits_nonneg [of s 0] by (auto simp: ip4_field_def Let_def split: if_splits)

lemma parse_ip4_bytes: "parse_ip4 s = Some bs \<Longrightarrow> in_bytes bs \<and> length bs = 4"
proof -
  assume "parse_ip4 s = Some bs"
  then obtain a b c d where "map ip4_field (split_on CHR ''.'' s) = [Some a, Some b, Some c, Some d]" and "bs = [a, b, c, d]"
    by (auto simp: parse_ip4_def split: list.splits option.splits)
  then show ?thesis
    by (auto dest!: ip4_field_range simp: map_eq_Cons_conv)
qed

lemma hex_value_range: "hex_value c = Some v \<Longrightarrow> 0 \<le> v \<and> v < 16"
  by (auto simp: hex_value_def is_digit_byte_def split: if_splits)

lemma hex_fold_range:
  "list_all (\<lambda>c. hex_value c \<noteq> None) s \<Longrightarrow> 0 \<le> n \<Longrightarrow>
     0 \<le> foldl (\<lambda>n c. n * 16 + the (hex_value c)) n s \<and> foldl (\<lambda>n c. n * 16 + the (hex_value c)) n s < (n + 1) * 16 ^ length s"
proof (induction s arbitrary: n)
  case (Cons c s)
  then obtain v where v: "hex_value c = Some v" "0 \<le> v" "v < 16"
    using hex_value_range by (cases "hex_value c") auto
  have "(n * 16 + v + 1) * 16 ^ length s \<le> (n + 1) * 16 * 16 ^ length s"
    using v by (intro mult_right_mono) auto
  moreover have "0 \<le> foldl (\<lambda>n c. n * 16 + the (hex_value c)) (n * 16 + v) s"
    "foldl (\<lambda>n c. n * 16 + the (hex_value c)) (n * 16 + v) s < (n * 16 + v + 1) * 16 ^ length s"
    using Cons.IH [of "n * 16 + v"] Cons.prems v by auto
  ultimately have "foldl (\<lambda>n c. n * 16 + the (hex_value c)) (n * 16 + v) s < (n + 1) * 16 * 16 ^ length s"
    "0 \<le> foldl (\<lambda>n c. n * 16 + the (hex_value c)) (n * 16 + v) s"
    by linarith+
  then show ?case
    using v by (simp add: algebra_simps)
qed simp

lemma hex_word_bytes:
  assumes "hex_run s = (digits, rest)" "length digits \<le> 4"
  defines "v \<equiv> foldl (\<lambda>n c. n * 16 + the (hex_value c)) 0 digits"
  shows "in_bytes [v div 256, v mod 256]"
proof -
  have "list_all (\<lambda>c. hex_value c \<noteq> None) digits"
    using assms(1) by (auto simp: hex_run_def list_all_iff dest: set_takeWhileD)
  from hex_fold_range [OF this, of 0] have "0 \<le> v" "v < 16 ^ length digits"
    by (auto simp: v_def)
  moreover have "(16::int) ^ length digits \<le> 16 ^ 4"
    using assms(2) by (intro power_increasing) auto
  ultimately have "0 \<le> v" "v < 65536" by auto
  then show ?thesis by auto
qed

lemma ip6_fields_bytes: "ip6_fields n bs ell s = Some (out, ell', rest) \<Longrightarrow> in_bytes bs \<Longrightarrow> in_bytes out"
proof (induction n bs ell s rule: ip6_fields.induct)
  case (2 n bs ell s)
  obtain digits tail where run: "hex_run s = (digits, tail)" by fastforce
  let ?v = "foldl (\<lambda>n c. n * 16 + the (hex_value c)) 0 digits"
  show ?case
  proof (cases "digits = [] \<or> length digits > 4")
    case False
    then have "in_bytes (bs @ [?v div 256, ?v mod 256])"
      using hex_word_bytes [OF run] "2.prems"(2) by simp
    then show ?thesis
      using "2.prems" False "2.IH" run
      by (auto simp: Let_def dest: parse_ip4_bytes split: if_splits list.splits option.splits)
  qed (use "2.prems" run in auto)
qed auto

lemma parse_ip6_bytes: "parse_ip6 s = Some (bs, zone) \<Longrightarrow> in_bytes bs"
  by (auto simp: parse_ip6_def in_bytes_sub split: prod.splits if_splits option.splits dest!: ip6_fields_bytes)

lemma ParseIP_bytes: "ParseIP s = Some bs \<Longrightarrow> in_bytes bs"
  by (auto simp: ParseIP_def ParseAddr_def v4_mapped_def split: option.splits if_splits prod.splits
      dest: parse_ip4_bytes parse_ip6_bytes)

definition public_v4 :: "int \<Rightarrow> int \<Rightarrow> bool" where
  "public_v4 a b \<longleftrightarrow> a \<notin> {0, 10, 127} \<and> a < 224 \<and> \<not> (a = 172 \<and> 16 \<le> b \<and> b < 32) \<and> \<not> (a = 192 \<and> b = 168) \<and>
     \<not> (a = 169 \<and> b = 254) \<and> \<not> (a = 100 \<and> 64 \<le> b \<and> b < 128) \<and> \<not> (a = 198 \<and> (b = 18 \<or> b = 19))"

lemma private_networks:
  "List.map_filter ParseCIDR privateRanges =
     [\<lparr>net_IP = [10, 0, 0, 0], net_Ones = 8\<rparr>, \<lparr>net_IP = [172, 16, 0, 0], net_Ones = 12\<rparr>,
      \<lparr>net_IP = [192, 168, 0, 0], net_Ones = 16\<rparr>, \<lparr>net_IP = [127, 0, 0, 0], net_Ones = 8\<rparr>,
      \<lparr>net_IP = [169, 254, 0, 0], net_Ones = 16\<rparr>, \<lparr>net_IP = [100, 64, 0, 0], net_Ones = 10\<rparr>,
      \<lparr>net_IP = replicate 15 0 @ [1], net_Ones = 128\<rparr>, \<lparr>net_IP = 252 # replicate 15 0, net_Ones = 7\<rparr>,
      \<lparr>net_IP = [254, 128] @ replicate 14 0, net_Ones = 10\<rparr>, \<lparr>net_IP = 253 # replicate 15 0, net_Ones = 8\<rparr>,
      \<lparr>net_IP = [0, 0, 0, 0], net_Ones = 8\<rparr>, \<lparr>net_IP = [198, 18, 0, 0], net_Ones = 15\<rparr>,
      \<lparr>net_IP = [224, 0, 0, 0], net_Ones = 4\<rparr>, \<lparr>net_IP = [240, 0, 0, 0], net_Ones = 4\<rparr>]"
  by code_simp

lemma two_bytes_range:
  fixes a b p q r :: int
  assumes "0 \<le> b" "b < 256" "0 \<le> q" "r \<le> 256"
  shows "p * 256 + q \<le> a * 256 + b \<and> a * 256 + b < p * 256 + r \<longleftrightarrow> a = p \<and> q \<le> b \<and> b < r"
proof
  assume h: "p * 256 + q \<le> a * 256 + b \<and> a * 256 + b < p * 256 + r"
  then have "a = p" using assms by linarith
  with h show "a = p \<and> q \<le> b \<and> b < r" by simp
qed simp

lemma isPrivateIP_v4:
  assumes "in_bytes [a, b, c, d]"
  shows "isPrivateIP (v4_mapped @ [a, b, c, d]) \<longleftrightarrow> \<not> public_v4 a b"
proof -
  define v where "v = ((a * 256 + b) * 256 + c) * 256 + d"
  have top: "v div 65536 = a * 256 + b"
    by (rule int_div_pos_eq [of _ _ _ "c * 256 + d"]) (use assms in \<open>auto simp: v_def\<close>)
  have a: "(a * 256 + b) div 256 = a"
    by (rule int_div_pos_eq [of _ _ _ b]) (use assms in auto)
  have split: "v div (65536 * k) = (a * 256 + b) div k" if "0 \<le> k" for k
    using that by (simp add: zdiv_zmult2_eq top)
  have v: "v div 16777216 = a"
    using split [of 256] unfolding a by simp
  have k: "(1048576::int) = 65536 * 16" "(4194304::int) = 65536 * 64" "(131072::int) = 65536 * 2" "(268435456::int) = 65536 * 4096"
    by simp_all
  have w: "v div 1048576 = (a * 256 + b) div 16" "v div 4194304 = (a * 256 + b) div 64"
    "v div 131072 = (a * 256 + b) div 2" "v div 268435456 = (a * 256 + b) div 4096"
    by (subst k, rule split, simp)+
  have bytes: "bytes_value [a, b, c, d] = v" by (simp add: bytes_value_def v_def)
  have "To4 (v4_mapped @ [a, b, c, d]) = Some [a, b, c, d]" by (simp add: To4_def v4_mapped_def)
  then have priv: "isPrivateIP (v4_mapped @ [a, b, c, d]) \<longleftrightarrow>
    a = 10 \<or> (a * 256 + b) div 16 = 2753 \<or> a * 256 + b = 49320 \<or> a = 127 \<or> a * 256 + b = 43518 \<or>
    (a * 256 + b) div 64 = 401 \<or> a = 0 \<or> (a * 256 + b) div 2 = 25353 \<or> (a * 256 + b) div 4096 \<in> {14, 15}"
    by (simp add: isPrivateIP_def private_networks IPNet_Contains_def bytes v w top)
       (simp add: bytes_value_def)
  have ab: "0 \<le> a" "a < 256" "0 \<le> b" "b < 256" using assms by auto
  have range: "x div 16 = 2753 \<longleftrightarrow> 44048 \<le> x \<and> x < 44064" "x div 64 = 401 \<longleftrightarrow> 25664 \<le> x \<and> x < 25728"
    "x div 2 = 25353 \<longleftrightarrow> 50706 \<le> x \<and> x < 50708" "x div 4096 \<in> {14, 15} \<longleftrightarrow> 57344 \<le> x \<and> x < 65536" for x :: int
    by auto
  note bytes_range = two_bytes_range [OF ab(3,4)]
  have e1: "(a * 256 + b) div 16 = 2753 \<longleftrightarrow> a = 172 \<and> 16 \<le> b \<and> b < 32"
    unfolding range using bytes_range [of 16 32 172 a] by simp
  have e2: "a * 256 + b = 49320 \<longleftrightarrow> a = 192 \<and> b = 168"
    using bytes_range [of 168 169 192 a] by auto
  have e3: "a * 256 + b = 43518 \<longleftrightarrow> a = 169 \<and> b = 254"
    using bytes_range [of 254 255 169 a] by auto
  have e4: "(a * 256 + b) div 64 = 401 \<longleftrightarrow> a = 100 \<and> 64 \<le> b \<and> b < 128"
    unfolding range using bytes_range [of 64 128 100 a] by simp
  have e5: "(a * 256 + b) div 2 = 25353 \<longleftrightarrow> a = 198 \<and> (b = 18 \<or> b = 19)"
    unfolding range using bytes_range [of 18 20 198 a] by auto
  have e6: "(a * 256 + b) div 4096 \<in> {14, 15} \<longleftrightarrow> 224 \<le> a" unfolding range using ab by linarith
  show ?thesis
    unfolding priv e1 e2 e3 e4 e5 e6 public_v4_def not_less [symmetric] by blast
qed


section \<open>The guard\<close>

definition public_target :: "net_lib \<Rightarrow> URL \<Rightarrow> bool" where
  "public_target net u \<longleftrightarrow>
     \<not> internal_name (ToLower (URL_Hostname u)) \<and>
     (case nl_LookupHost net (URL_Hostname u) of
        Inl _ \<Rightarrow> True
      | Inr ips \<Rightarrow> list_all (\<lambda>ip. \<forall>a b c d. ParseIP ip = Some (v4_mapped @ [a, b, c, d]) \<longrightarrow> public_v4 a b) ips)"

lemma validateExternalURL_public:
  assumes "validateExternalURL net rawURL = Inr w"
  shows "\<exists>u. url_Parse rawURL = Inr u \<and> ToLower (u_Scheme u) \<in> {''http'', ''https''} \<and> URL_Hostname u \<noteq> [] \<and>
    (isTrustedHostSuffix net (ToLower (URL_Hostname u)) \<or> public_target net u)"
proof -
  obtain u where u: "url_Parse rawURL = Inr u"
    using assms by (auto simp: validateExternalURL_def res_simps labelled_def split: sum.splits)
  have "public_v4 a b"
    if "nl_LookupHost net (URL_Hostname u) = Inr ips" "List.find private_address ips = None" "ip \<in> set ips"
      "ParseIP ip = Some (v4_mapped @ [a, b, c, d])" for ips ip a b c d
    using that isPrivateIP_v4 [of a b c d] ParseIP_bytes [OF that(4)]
    by (auto simp: find_None_iff private_address_def)
  then show ?thesis
    using assms u
    by (auto simp: validateExternalURL_def public_target_def labelled_def Let_def list_all_iff split: if_splits sum.splits option.splits)
qed

text \<open>An adapter asks its client something when its answer depends on what the client says.\<close>

definition asks :: "(net_lib \<Rightarrow> ExecuteRequest \<Rightarrow> ExecuteResponse exec_result) \<Rightarrow> net_lib \<Rightarrow> ExecuteRequest \<Rightarrow> bool" where
  "asks execute net req \<longleftrightarrow> (\<exists>client. execute (net\<lparr>nl_Do := client\<rparr>) req \<noteq> execute net req)"

lemma guard_ignores_client: "validateExternalURL (net\<lparr>nl_Do := client\<rparr>) url = validateExternalURL net url"
  by (simp add: validateExternalURL_def isTrustedHostSuffix_def trustedHostSuffixes_def Let_def cong: if_cong)

lemma checked_url_ok: "checked_url net url = Inr w \<Longrightarrow> validateExternalURL net url = Inr w"
  by (auto simp: checked_url_def failing_def split: sum.splits)

lemma checked_url_ignores_client: "checked_url (net\<lparr>nl_Do := client\<rparr>) url = checked_url net url"
  by (simp add: checked_url_def guard_ignores_client)

lemma executeAPIPost_asks:
  assumes "executeAPIPost (net\<lparr>nl_Do := client\<rparr>) req payload \<noteq> executeAPIPost net req payload"
  shows "is_ok (validateExternalURL net (str_of (er_Config req) ''api_url''))"
  using assms by (cases "checked_url net (str_of (er_Config req) ''api_url'')")
    (auto simp: executeAPIPost_def Let_def checked_url_ignores_client dest: checked_url_ok split: if_splits)

text \<open>C37: The requests webhook.call and http.request send. Whenever the answer of one of them depends on its HTTP client at
  all, the URL of its input parses, has the scheme http or https and a hostname, and the host either has a trusted suffix
  or is no internal name and none of the addresses it resolves to is an IPv4 address (plain or mapped) in a private,
  loopback, link-local, shared, benchmarking, multicast or reserved network.\<close>
theorem guarded_calls_reach_public_hosts:
  assumes "asks execute net req" and "execute \<in> {Webhook_Execute, HTTP_Execute}"
  shows "\<exists>u. url_Parse (str_of (er_Input req) ''url'') = Inr u \<and> ToLower (u_Scheme u) \<in> {''http'', ''https''} \<and>
    URL_Hostname u \<noteq> [] \<and> (isTrustedHostSuffix net (ToLower (URL_Hostname u)) \<or> public_target net u)"
proof -
  have "is_ok (validateExternalURL net (str_of (er_Input req) ''url''))"
    using assms unfolding asks_def
    by (cases "checked_url net (str_of (er_Input req) ''url'')")
       (auto simp: Webhook_Execute_def HTTP_Execute_def Let_def checked_url_ignores_client dest: checked_url_ok)
  then show ?thesis
    using validateExternalURL_public by (auto dest: is_okD)
qed

definition ex_net :: net_lib where
  "ex_net = \<lparr>nl_Do = (\<lambda>_. Inl (Errf ''connection refused'' [])), nl_LookupHost = (\<lambda>_. Inr [''93.184.216.34'']),
     nl_Getenv = (\<lambda>_. []), nl_now = 0\<rparr>"

definition ex_request :: ExecuteRequest where
  "ex_request = \<lparr>er_Input = [(''url'', VStr ''https://example.com/hook'')], er_Config = [], er_Credentials = [],
     er_Metadata = [], er_IdempotencyKey = ''e:1''\<rparr>"

lemma guarded_calls_reach_public_hosts_witness:
  "\<exists>u. url_Parse (str_of (er_Input ex_request) ''url'') = Inr u \<and> ToLower (u_Scheme u) \<in> {''http'', ''https''} \<and>
    URL_Hostname u \<noteq> [] \<and> (isTrustedHostSuffix ex_net (ToLower (URL_Hostname u)) \<or> public_target ex_net u)"
proof (rule guarded_calls_reach_public_hosts [where execute = Webhook_Execute])
  have "\<not> is_ok (Webhook_Execute ex_net ex_request)" by code_simp
  moreover have "is_ok (Webhook_Execute (ex_net\<lparr>nl_Do := \<lambda>_. Inr \<lparr>hs_StatusCode = 200, hs_Header = [],
      hs_Body = Inr (RawEmpty, [])\<rparr>\<rparr>) ex_request)" by code_simp
  ultimately show "asks Webhook_Execute ex_net ex_request" unfolding asks_def by metis
qed simp

section \<open>The registry of the service\<close>

lemma adapter_simps [simp]:
  "ad_Type (adapter t n e v) = t" "ad_Execute (adapter t n e v) = e" "ad_Validate (adapter t n e v) = v"
  by (simp_all add: adapter_def)

lemmas adapter_defs = NewWebhookAdapter_def NewHTTPAdapter_def NewConnectCallAdapter_def NewNotificationSendAdapter_def
  NewNotificationStatusAdapter_def NewPaymentInitiateAdapter_def NewPaymentVerifyAdapter_def NewDataTransformAdapter_def
  NewLogEntryAdapter_def NewFormValidateAdapter_def NewApprovalRequestAdapter_def NewAIChatAdapter_def

lemma AList_update_new: "k \<notin> fst ` set r \<Longrightarrow> AList.update k v r = r @ [(k, v)]"
  by (induction r) auto

lemma register_all_distinct:
  "distinct (map ad_Type as) \<Longrightarrow> set (map ad_Type as) \<inter> fst ` set r = {} \<Longrightarrow>
     register_all as r = Inr (r @ map (\<lambda>a. (ad_Type a, a)) as)"
proof (induction as arbitrary: r)
  case (Cons a as)
  then have "Registry_Register a r = Inr (r @ [(ad_Type a, a)])"
    by (auto simp: Registry_Register_def Let_def map_of_eq_None_iff AList_update_new)
  then show ?case using Cons by simp
qed simp

lemma setupConnectorRegistry_eq:
  "setupConnectorRegistry net routes cel llm = Inr (map (\<lambda>a. (ad_Type a, a)) (allAdapters net routes cel llm))"
  unfolding setupConnectorRegistry_def NewRegistry_def
  by (subst register_all_distinct) (simp_all add: allAdapters_def adapter_defs)

definition fixture_request :: "AdapterFixture \<Rightarrow> ExecuteRequest" where
  "fixture_request f = \<lparr>er_Input = fx_Input f, er_Config = fx_Config f, er_Credentials = [], er_Metadata = [], er_IdempotencyKey = []\<rparr>"

definition accepts_fixture :: "Registry \<Rightarrow> string \<times> AdapterFixture \<Rightarrow> bool" where
  "accepts_fixture r tf = (case Registry_Get (fst tf) r of
     Inl _ \<Rightarrow> False | Inr a \<Rightarrow> is_ok (ad_Validate a (fixture_request (snd tf))))"

text \<open>The adapters that read a configuration or credentials.\<close>

definition configured_adapters :: "string set" where
  "configured_adapters = {''notification.send'', ''notification.status'', ''payment.initiate'', ''payment.verify'',
     ''approval.request'', ''ai.chat''}"

lemma configured_adapter_fails:
  assumes "setupConnectorRegistry net routes cel llm = Inr r" "action \<in> configured_adapters"
    "er_Config req = []"
  obtains a code message where "Registry_Get action r = Inr a" "ad_Execute a req = Inl (exec_error ''fatal'' code message)"
    "code \<in> {''MISSING_CONFIG'', ''CONFIG_ERROR''}"
  using assms(2,3) assms(1) [unfolded setupConnectorRegistry_eq]
  by (auto simp: configured_adapters_def allAdapters_def adapter_defs Registry_Get_def ErrorFatal_def
      Notification_Execute_def NotificationStatus_Execute_def Payment_Execute_def PaymentVerify_Execute_def Approval_Execute_def
      AIChat_Execute_def executeAPIPost_def api_get_def missing_api_url_def str_of_def member_of_def)


definition ex_worker :: "(unit, string, string) ExecutionWorker" where
  "ex_worker = \<lparr>wk_svc = ex_svc_env, wk_send = ex_svc_env, wk_ff = (\<lambda>_. []),
     wk_registry = map (\<lambda>a. (ad_Type a, a)) (allAdapters ex_net [] example_cel (\<lambda>_. Inl (Errf [] []))),
     wk_now = VInt, wk_time = (\<lambda>_. None)\<rparr>"

definition ex_command :: ExecutionCommand where
  "ex_command = \<lparr>ec_ExecutionID = ''e'', ec_InstanceID = ''i'', ec_CorrelationKey = [], ec_Vars = RawEmpty,
     ec_Workflow = ''w'', ec_WorkflowVersion = 1, ec_State = ''pay'', ec_StateVersion = 1, ec_Attempt = 1,
     ec_InputPayload = RawEmpty, ec_InputSchemaHash = [], ec_ExecutionToken = ''t'', ec_TraceID = []\<rparr>"

definition ex_call_step :: StepSpec where
  "ex_call_step = StepSpec ''pay'' StepTypeCall [] [] None 0 None no_transition no_transition
     (Some \<lparr>call_Action = ''payment.initiate'', call_Input = [(''amount'', VInt 5)], call_OutputVar = []\<rparr>)
     None None None None None None None"


lemma fixture_names:
  "connectServicePattern ''finance.v1.FinanceService''" "connectRPCPattern ''GetProposal''"
  by code_simp+

lemmas validate_defs = AIChat_Validate_def Webhook_Validate_def HTTP_Validate_def ConnectCall_Validate_def
  Notification_Validate_def NotificationStatus_Validate_def Payment_Validate_def PaymentVerify_Validate_def
  DataTransform_Validate_def LogEntry_Validate_def FormValidate_Validate_def Approval_Validate_def


end
