(* ===== verification/Http_Api.thy ===== *)
theory Http_Api
  imports Sql_Store Net_Url Dsl_Duration
begin

text \<open>
  What the HTTP handlers of the services share: a request with its claims, path values, query and
  body, decoding a body into the fields of a struct as \<open>encoding/json\<close> does, replies, and the
  routing of a path to its handler as \<open>http.ServeMux\<close> does it. The body of a request is the first
  JSON value it holds, and a whole number decodes into an integer however it is written.
\<close>

section \<open>Requests and replies\<close>

record api_request =
  aq_claims :: "string option"
  aq_path :: "(string \<times> string) list"
  aq_query :: "(string \<times> string) list"
  aq_body :: raw_json

datatype api_payload = NoBody | TextBody string | JsonBody any

record api_reply =
  ap_Status :: int
  ap_Body :: api_payload

definition reply_text :: "int \<Rightarrow> string \<Rightarrow> api_reply" where
  "reply_text status msg = \<lparr>ap_Status = status, ap_Body = TextBody msg\<rparr>"

definition reply_json :: "int \<Rightarrow> any \<Rightarrow> api_reply" where
  "reply_json status v = \<lparr>ap_Status = status, ap_Body = JsonBody v\<rparr>"

definition no_content :: api_reply where
  "no_content = \<lparr>ap_Status = 204, ap_Body = NoBody\<rparr>"

definition reply_status :: "string \<Rightarrow> api_reply" where
  "reply_status s = reply_json 200 (VMap [(''status'', VStr s)])"

definition items_body :: "('r \<Rightarrow> go_map) \<Rightarrow> 'r list \<Rightarrow> any" where
  "items_body f rows = VMap [(''items'', VList (map (VMap \<circ> f) rows))]"

definition PathValue :: "string \<Rightarrow> 'a api_request_scheme \<Rightarrow> string" where
  "PathValue k r = (case map_of (aq_path r) k of None \<Rightarrow> [] | Some v \<Rightarrow> v)"

definition query_value :: "string \<Rightarrow> 'a api_request_scheme \<Rightarrow> string" where
  "query_value k r = (case map_of (aq_query r) k of None \<Rightarrow> [] | Some v \<Rightarrow> v)"

text \<open>\<open>n, _ := strconv.Atoi(s)\<close>: zero for what is no number, the nearest bound for what is too large.\<close>

definition query_int :: "string \<Rightarrow> 'a api_request_scheme \<Rightarrow> int" where
  "query_int k r =
     (let s = query_value k r; neg = (s \<noteq> [] \<and> hd s = CHR ''-'');
          ds = (if s \<noteq> [] \<and> (hd s = CHR ''-'' \<or> hd s = CHR ''+'') then tl s else s)
      in case Atoi s of
           Inr n \<Rightarrow> n
         | Inl _ \<Rightarrow> (if ds = [] \<or> \<not> list_all is_digit ds then 0 else if neg then min_int64 else max_int64))"

section \<open>Handlers\<close>

text \<open>A handler gives a reply and the state it leaves.\<close>

type_synonym 'st handler = "api_request \<Rightarrow> 'st \<Rightarrow> api_reply \<times> 'st"

definition require_auth :: "'st handler \<Rightarrow> 'st handler" where
  "require_auth h r st = (case aq_claims r of
     None \<Rightarrow> (reply_text 401 ''authentication required'', st) | Some _ \<Rightarrow> h r st)"

definition bad_request :: "string \<Rightarrow> 'st \<Rightarrow> api_reply \<times> 'st" where
  "bad_request msg st = (reply_text 400 msg, st)"

definition invalid_body :: "'st \<Rightarrow> api_reply \<times> 'st" where
  "invalid_body st = bad_request ''invalid JSON request body'' st"

definition decoded :: "'a result \<Rightarrow> ('a \<Rightarrow> 'st \<Rightarrow> api_reply \<times> 'st) \<Rightarrow> 'st \<Rightarrow> api_reply \<times> 'st" where
  "decoded d k st = (case d of Inl _ \<Rightarrow> invalid_body st | Inr x \<Rightarrow> k x st)"

text \<open>A call of the business layer: an error is mapped to its status and changes nothing.\<close>

definition calling ::
    "(errmsg \<Rightarrow> int \<times> string) \<Rightarrow> 'a result \<Rightarrow> ('a \<Rightarrow> api_reply \<times> 'st) \<Rightarrow> 'st \<Rightarrow> api_reply \<times> 'st" where
  "calling status_for c k st = (case c of
     Inl err \<Rightarrow> (case status_for err of (status, msg) \<Rightarrow> (reply_text status msg, st)) | Inr x \<Rightarrow> k x)"

text \<open>The rate limiter decides by the tenant of the request.\<close>

definition limited :: "(string \<Rightarrow> bool) \<Rightarrow> 'st handler \<Rightarrow> 'st handler" where
  "limited allow h r st =
     (if \<not> allow (case aq_claims r of None \<Rightarrow> ''unknown'' | Some tenant \<Rightarrow> tenant) then (reply_text 429 ''rate limit exceeded'', st)
      else h r st)"

section \<open>Decoding a body\<close>

text \<open>
  The members of a struct: keys are matched without regard to case, a later one wins, null leaves a
  plain field alone and makes a pointer nil, and a value of another type is an error.
\<close>

definition decode_object :: "raw_json \<Rightarrow> go_map result" where
  "decode_object body = (case body of
     RawJson VNil \<Rightarrow> Inr []
   | RawJson (VMap m) \<Rightarrow> Inr m
   | RawJson _ \<Rightarrow> Inl (Errf ''json: cannot unmarshal value into Go value'' [])
   | RawInvalid s \<Rightarrow> Inl (Errf ''invalid character'' [EStr s])
   | RawEmpty \<Rightarrow> Inl (Errf ''EOF'' []))"

definition struct_field :: "('a \<Rightarrow> any \<Rightarrow> 'a option) \<Rightarrow> 'a \<Rightarrow> string \<Rightarrow> go_map \<Rightarrow> 'a result" where
  "struct_field f zero name m = fold (\<lambda>(k, v) acc.
     if ToLower k \<noteq> name then acc
     else and_then acc (\<lambda>x. case f x v of
       None \<Rightarrow> Inl (Errf ''json: cannot unmarshal value into Go struct field'' [EStr name]) | Some y \<Rightarrow> Inr y)) m (Inr zero)"

definition whole :: "rat \<Rightarrow> int option" where
  "whole q = (if of_int \<lfloor>q\<rfloor> = q \<and> in_int64 \<lfloor>q\<rfloor> then Some \<lfloor>q\<rfloor> else None)"

definition as_string :: "string \<Rightarrow> any \<Rightarrow> string option" where
  "as_string old v = (case v of VStr s \<Rightarrow> Some s | VNil \<Rightarrow> Some old | _ \<Rightarrow> None)"

definition as_string_ptr :: "string option \<Rightarrow> any \<Rightarrow> string option option" where
  "as_string_ptr old v = (case v of VStr s \<Rightarrow> Some (Some s) | VNil \<Rightarrow> Some None | _ \<Rightarrow> None)"

definition as_bool_ptr :: "bool option \<Rightarrow> any \<Rightarrow> bool option option" where
  "as_bool_ptr old v = (case v of VBool b \<Rightarrow> Some (Some b) | VNil \<Rightarrow> Some None | _ \<Rightarrow> None)"

definition as_int_ptr :: "int option \<Rightarrow> any \<Rightarrow> int option option" where
  "as_int_ptr old v = (case v of VFloat q \<Rightarrow> map_option Some (whole q) | VNil \<Rightarrow> Some None | _ \<Rightarrow> None)"

definition as_raw :: "raw_json \<Rightarrow> any \<Rightarrow> raw_json option" where
  "as_raw old v = Some (RawJson v)"

definition string_field :: "string \<Rightarrow> go_map \<Rightarrow> string result" where
  "string_field = struct_field as_string []"
definition string_ptr_field :: "string \<Rightarrow> go_map \<Rightarrow> string option result" where
  "string_ptr_field = struct_field as_string_ptr None"
definition bool_ptr_field :: "string \<Rightarrow> go_map \<Rightarrow> bool option result" where
  "bool_ptr_field = struct_field as_bool_ptr None"
definition int_ptr_field :: "string \<Rightarrow> go_map \<Rightarrow> int option result" where
  "int_ptr_field = struct_field as_int_ptr None"
definition raw_field :: "string \<Rightarrow> go_map \<Rightarrow> raw_json result" where
  "raw_field = struct_field as_raw RawEmpty"

text \<open>\<open>if p != nil { x = *p }\<close>, and the same for a raw message.\<close>

definition given :: "'a option \<Rightarrow> 'a \<Rightarrow> 'a" where
  "given p x = (case p of None \<Rightarrow> x | Some y \<Rightarrow> y)"

definition given_raw :: "raw_json \<Rightarrow> raw_json \<Rightarrow> raw_json" where
  "given_raw r x = (if r = RawEmpty then x else r)"

section \<open>Encoding a row\<close>

definition json_time :: "int \<Rightarrow> any" where
  "json_time t = VStr (format_RFC3339Nano t)"

definition raw_value :: "raw_json \<Rightarrow> any" where
  "raw_value r = (case r of RawJson v \<Rightarrow> v | _ \<Rightarrow> VNil)"

definition optional_member :: "string \<Rightarrow> any option \<Rightarrow> go_map" where
  "optional_member k v = (case v of None \<Rightarrow> [] | Some x \<Rightarrow> [(k, x)])"

definition raw_member :: "string \<Rightarrow> raw_json \<Rightarrow> go_map" where
  "raw_member k r = (if r = RawEmpty then [] else [(k, raw_value r)])"

section \<open>Routes\<close>

text \<open>
  A pattern is a method and the segments of a path; a segment in braces binds its name to one
  segment. No two patterns of the services match one request, so the first that does is taken.
\<close>

type_synonym 'st route = "string \<times> string \<times> 'st handler"

definition wildcard :: "string \<Rightarrow> string option" where
  "wildcard seg = (if HasPrefix seg [CHR 0x7B] \<and> HasSuffix seg [CHR 0x7D] then Some (butlast (tl seg)) else None)"

fun match_segments :: "string list \<Rightarrow> string list \<Rightarrow> (string \<times> string) list option" where
  "match_segments [] [] = Some []"
| "match_segments (p # ps) (s # ss) = (case wildcard p of
     Some name \<Rightarrow> (if s = [] then None else map_option (\<lambda>b. (name, s) # b) (match_segments ps ss))
   | None \<Rightarrow> (if p = s then match_segments ps ss else None))"
| "match_segments _ _ = None"

definition match_path :: "string \<Rightarrow> string \<Rightarrow> (string \<times> string) list option" where
  "match_path pattern path = match_segments (split_on (CHR ''/'') pattern) (split_on (CHR ''/'') path)"

fun find_route :: "'st route list \<Rightarrow> string \<Rightarrow> string \<Rightarrow> ('st handler \<times> (string \<times> string) list) option" where
  "find_route [] meth path = None"
| "find_route ((m, p, h) # routes) meth path = (case match_path p path of
     Some b \<Rightarrow> (if m = meth then Some (h, b) else find_route routes meth path)
   | None \<Rightarrow> find_route routes meth path)"

definition serve_mux :: "'st route list \<Rightarrow> string \<Rightarrow> string \<Rightarrow> 'st handler" where
  "serve_mux routes meth path r st = (case find_route routes meth path of
     Some (h, b) \<Rightarrow> h (r\<lparr>aq_path := b\<rparr>) st
   | None \<Rightarrow>
       (if list_ex (\<lambda>(_, p, _). match_path p path \<noteq> None) routes then (reply_text 405 ''Method Not Allowed'', st)
        else (reply_text 404 ''404 page not found'', st)))"

section \<open>What a handler promises\<close>

text \<open>
  An answer is sound when it takes the state along \<open>step\<close>, and a reply that is no success leaves
  the \<open>same\<close> state.
\<close>

definition refused :: "api_reply \<Rightarrow> bool" where
  "refused reply \<longleftrightarrow> ap_Status reply \<ge> 400"

definition sound_answer ::
    "('st \<Rightarrow> 'st \<Rightarrow> bool) \<Rightarrow> ('st \<Rightarrow> 'st \<Rightarrow> bool) \<Rightarrow> 'st \<Rightarrow> api_reply \<times> 'st \<Rightarrow> bool" where
  "sound_answer step same st a \<longleftrightarrow> step st (snd a) \<and> (refused (fst a) \<longrightarrow> same st (snd a))"

definition sound_handler :: "('st \<Rightarrow> 'st \<Rightarrow> bool) \<Rightarrow> ('st \<Rightarrow> 'st \<Rightarrow> bool) \<Rightarrow> 'st handler \<Rightarrow> bool" where
  "sound_handler step same h \<longleftrightarrow>
     (\<forall>r st. sound_answer step same st (h r st) \<and> (aq_claims r = None \<longrightarrow> refused (fst (h r st))))"

lemma refused_simps [simp]:
  "refused (reply_text status msg) \<longleftrightarrow> status \<ge> 400" "refused (reply_json status v) \<longleftrightarrow> status \<ge> 400"
  "\<not> refused no_content" "\<not> refused (reply_status s)"
  by (simp_all add: refused_def reply_text_def reply_json_def no_content_def reply_status_def)

lemma find_route_in: "find_route routes meth path = Some (h, b) \<Longrightarrow> \<exists>p. (meth, p, h) \<in> set routes"
  by (induction routes meth path rule: find_route.induct) (auto split: option.splits if_splits)

locale api_contract =
  fixes step :: "'st \<Rightarrow> 'st \<Rightarrow> bool" and same :: "'st \<Rightarrow> 'st \<Rightarrow> bool"
  assumes unchanged: "step st st" "same st st"
begin

lemma sound_same: "sound_answer step same st (reply, st)"
  by (simp add: sound_answer_def unchanged)

lemma sound_json: "status < 400 \<Longrightarrow> step st st' \<Longrightarrow> sound_answer step same st (reply_json status v, st')"
  by (simp add: sound_answer_def)

lemma sound_done: "step st st' \<Longrightarrow> sound_answer step same st (no_content, st')" "step st st' \<Longrightarrow> sound_answer step same st (reply_status s, st')"
  by (simp_all add: sound_answer_def)

lemma sound_bad: "sound_answer step same st (bad_request msg st)" "sound_answer step same st (invalid_body st)"
  by (simp_all add: bad_request_def invalid_body_def sound_same)

lemma sound_decoded: "(\<And>x. d = Inr x \<Longrightarrow> sound_answer step same st (k x st)) \<Longrightarrow> sound_answer step same st (decoded d k st)"
  by (auto simp: decoded_def sound_bad split: sum.splits)

lemma sound_calling:
  "(\<And>x. c = Inr x \<Longrightarrow> sound_answer step same st (k x)) \<Longrightarrow> sound_answer step same st (calling f c k st)"
  by (auto simp: calling_def sound_same split: sum.splits prod.splits)

lemma sound_if: "sound_answer step same st a \<Longrightarrow> sound_answer step same st b \<Longrightarrow> sound_answer step same st (if P then a else b)"
  by simp

lemma sound_require_auth: "(\<And>r st. sound_answer step same st (h r st)) \<Longrightarrow> sound_handler step same (require_auth h)"
  by (auto simp: sound_handler_def require_auth_def sound_same split: option.splits)

lemmas sound_intros = sound_same sound_json sound_done sound_bad sound_decoded sound_calling sound_if

lemma sound_serve_mux:
  assumes "list_all (\<lambda>(m, p, h). sound_handler step same h) routes"
  shows "sound_handler step same (serve_mux routes meth path)"
proof -
  have "sound_handler step same h" if "find_route routes meth path = Some (h, b)" for h b
    using find_route_in [OF that] assms by (auto simp: list_all_iff)
  then show ?thesis
    by (auto simp: sound_handler_def serve_mux_def sound_same split: option.splits)
qed

end

end
