(* ===== verification/Queue_Handlers.thy ===== *)
theory Queue_Handlers
  imports Queue_Manager Http_Api
begin

text \<open>
  The HTTP interface of the queue service: \<open>apps/queue/service/handlers\<close> and the routes of
  \<open>apps/queue/cmd/main.go\<close>. The rate limiter is a parameter: whether it lets the request through.
  New rows take the id and the ticket digits the request comes with; the clock is its time.
\<close>

record queue_api =
  qa_env :: queue_env
  qa_now :: int
  qa_newID :: string
  qa_random :: string
  qa_allow :: "string \<Rightarrow> bool"
  qa_cacheTTL :: int

definition queue_status_for :: "errmsg \<Rightarrow> int \<times> string" where
  "queue_status_for err =
     (if error_is err ErrQueueNotFound \<or> error_is err ErrQueueItemNotFound \<or> error_is err ErrCounterNotFound then
        (404, ''resource not found'')
      else if error_is err ErrNoWaitingItems then (404, ''no waiting items'')
      else if error_is err ErrQueueFull then (409, ''queue is at maximum capacity'')
      else if error_is err (Errf ''queue name already exists'' []) then (409, ''queue name already exists'')
      else if error_is err ErrCounterBusy then (409, ''counter is currently serving another item'')
      else if error_is err ErrCounterNotOpen then (400, ''counter is not open'')
      else if error_is err ErrCounterNotServing then (400, ''counter is not serving'')
      else if error_is err ErrInvalidTransition then (400, ''invalid status transition'')
      else if error_is err ErrItemNotWaiting then (400, ''item is not waiting'')
      else if error_is err ErrItemNotNoShow then (400, ''item is not in no-show status'')
      else (500, ''internal server error''))"

abbreviation queue_calling where "queue_calling \<equiv> calling queue_status_for"

section \<open>Rows as JSON\<close>

definition itemToJSON :: "QueueItem \<Rightarrow> go_map" where
  "itemToJSON item =
     [(''id'', VStr (bm_ID item)), (''queue_id'', VStr (qi_QueueID item)), (''priority'', VInt (qi_Priority item)),
      (''status'', VStr (item_status_string (qi_Status item))), (''ticket_no'', VStr (qi_TicketNo item)),
      (''category'', VStr (qi_Category item)), (''customer_id'', VStr (qi_CustomerID item)),
      (''counter_id'', VStr (qi_CounterID item)), (''served_by'', VStr (qi_ServedBy item)),
      (''joined_at'', json_time (qi_JoinedAt item)), (''created_at'', json_time (bm_CreatedAt item))] @
     optional_member ''called_at'' (map_option json_time (qi_CalledAt item)) @
     optional_member ''service_start'' (map_option json_time (qi_ServiceStart item)) @
     optional_member ''service_end'' (map_option json_time (qi_ServiceEnd item)) @
     raw_member ''metadata'' (qi_Metadata item)"

definition queueDefToJSON :: "QueueDefinition \<Rightarrow> go_map" where
  "queueDefToJSON def =
     [(''id'', VStr (bm_ID def)), (''name'', VStr (qd_Name def)), (''description'', VStr (qd_Description def)),
      (''active'', VBool (qd_Active def)), (''priority_levels'', VInt (qd_PriorityLevels def)),
      (''max_capacity'', VInt (qd_MaxCapacity def)), (''sla_minutes'', VInt (qd_SLAMinutes def)),
      (''created_at'', json_time (bm_CreatedAt def)), (''modified_at'', json_time (bm_ModifiedAt def))] @
     raw_member ''config'' (qd_Config def)"

definition counterToJSON :: "QueueCounter \<Rightarrow> go_map" where
  "counterToJSON counter =
     [(''id'', VStr (bm_ID counter)), (''queue_id'', VStr (qc_QueueID counter)), (''name'', VStr (qc_Name counter)),
      (''status'', VStr (counter_status_string (qc_Status counter))), (''current_item_id'', VStr (qc_CurrentItemID counter)),
      (''served_by'', VStr (qc_ServedBy counter)), (''total_served'', VInt (qc_TotalServed counter)),
      (''created_at'', json_time (bm_CreatedAt counter)), (''modified_at'', json_time (bm_ModifiedAt counter))] @
     raw_member ''categories'' (qc_Categories counter)"

definition statsToJSON :: "QueueStats \<Rightarrow> go_map" where
  "statsToJSON s =
     [(''total_waiting'', VInt (st_TotalWaiting s)), (''total_serving'', VInt (st_TotalServing s)),
      (''avg_wait_minutes'', VFloat (st_AvgWaitMinutes s)), (''estimated_wait_minutes'', VFloat (st_EstimatedWait s)),
      (''longest_wait_minutes'', VFloat (st_LongestWait s)), (''today_served'', VInt (st_TodayServed s)),
      (''today_cancelled'', VInt (st_TodayCancelled s)), (''today_no_show'', VInt (st_TodayNoShow s)),
      (''open_counters'', VInt (st_OpenCounters s))]"

text \<open>The reply to a creation shows the entity as the business stored it.\<close>

definition stored :: "('a base_model_scheme \<Rightarrow> go_map) \<Rightarrow> string \<Rightarrow> 'a base_model_scheme list \<Rightarrow> any" where
  "stored f i tbl = (case db_get tbl i of None \<Rightarrow> VMap [] | Some row \<Rightarrow> VMap (f row))"

section \<open>Queues (queue_definition.go)\<close>

definition defaultPriorityLevels :: int where "defaultPriorityLevels = 3"
definition defaultSLAMinutes :: int where "defaultSLAMinutes = 30"

definition queue_definition_body :: "go_map \<Rightarrow> QueueDefinition result" where
  "queue_definition_body m =
     and_then (string_field ''name'' m) (\<lambda>name.
     and_then (string_field ''description'' m) (\<lambda>description.
     and_then (int_ptr_field ''priority_levels'' m) (\<lambda>priorityLevels.
     and_then (int_ptr_field ''max_capacity'' m) (\<lambda>maxCapacity.
     and_then (int_ptr_field ''sla_minutes'' m) (\<lambda>slaMinutes.
     and_then (raw_field ''config'' m) (\<lambda>config.
       Inr \<lparr>bm_ID = [], bm_CreatedAt = 0, bm_ModifiedAt = 0, bm_DeletedAt = None, qd_Name = name,
            qd_Description = description, qd_Active = True, qd_PriorityLevels = given priorityLevels defaultPriorityLevels,
            qd_MaxCapacity = given maxCapacity 0, qd_SLAMinutes = given slaMinutes defaultSLAMinutes, qd_Config = config\<rparr>))))))"

definition Queue_Create :: "queue_api \<Rightarrow> QueueState handler" where
  "Queue_Create api = require_auth (\<lambda>r. decoded (and_then (decode_object (aq_body r)) queue_definition_body) (\<lambda>def st.
     if qd_Name def = [] then bad_request ''name is required'' st
     else queue_calling (CreateQueue (qa_env api) (qa_now api) (qa_newID api) def st) (\<lambda>st'.
       (reply_json 201 (stored queueDefToJSON (qa_newID api) (qs_defs st')), st')) st))"

definition Queue_List :: "queue_api \<Rightarrow> QueueState handler" where
  "Queue_List api = require_auth (\<lambda>r st.
     queue_calling (ListQueues (qa_env api) st (query_value ''active'' r = ''true'')) (\<lambda>defs.
       (reply_json 200 (items_body queueDefToJSON defs), st)) st)"

definition Queue_Get :: "queue_api \<Rightarrow> QueueState handler" where
  "Queue_Get api = require_auth (\<lambda>r st.
     queue_calling (GetQueue (qa_env api) st (PathValue ''id'' r)) (\<lambda>def.
       (reply_json 200 (VMap (queueDefToJSON def)), st)) st)"

definition changed_definition :: "QueueDefinition \<Rightarrow> go_map \<Rightarrow> QueueDefinition result" where
  "changed_definition def m =
     and_then (string_ptr_field ''name'' m) (\<lambda>name.
     and_then (string_ptr_field ''description'' m) (\<lambda>description.
     and_then (bool_ptr_field ''active'' m) (\<lambda>active.
     and_then (int_ptr_field ''priority_levels'' m) (\<lambda>priorityLevels.
     and_then (int_ptr_field ''max_capacity'' m) (\<lambda>maxCapacity.
     and_then (int_ptr_field ''sla_minutes'' m) (\<lambda>slaMinutes.
     and_then (raw_field ''config'' m) (\<lambda>config.
       Inr (def\<lparr>qd_Name := given name (qd_Name def), qd_Description := given description (qd_Description def),
            qd_Active := given active (qd_Active def), qd_PriorityLevels := given priorityLevels (qd_PriorityLevels def),
            qd_MaxCapacity := given maxCapacity (qd_MaxCapacity def), qd_SLAMinutes := given slaMinutes (qd_SLAMinutes def),
            qd_Config := given_raw config (qd_Config def)\<rparr>))))))))"

definition Queue_Update :: "queue_api \<Rightarrow> QueueState handler" where
  "Queue_Update api = require_auth (\<lambda>r st.
     queue_calling (GetQueue (qa_env api) st (PathValue ''id'' r)) (\<lambda>def0.
       decoded (and_then (decode_object (aq_body r)) (changed_definition def0)) (\<lambda>def st.
         queue_calling (UpdateQueue (qa_env api) def st) (\<lambda>st'.
           (reply_json 200 (VMap (queueDefToJSON def)), st')) st) st) st)"

definition Queue_Delete :: "queue_api \<Rightarrow> QueueState handler" where
  "Queue_Delete api = require_auth (\<lambda>r st.
     queue_calling (DeleteQueue (qa_env api) (qa_now api) (PathValue ''id'' r) st) (\<lambda>st'. (no_content, st')) st)"

section \<open>Items (queue_item.go)\<close>

definition new_item :: "string \<Rightarrow> go_map \<Rightarrow> QueueItem result" where
  "new_item queueID m =
     and_then (int_ptr_field ''priority'' m) (\<lambda>priority.
     and_then (string_field ''category'' m) (\<lambda>category.
     and_then (string_field ''customer_id'' m) (\<lambda>customerID.
     and_then (raw_field ''metadata'' m) (\<lambda>metadata.
     and_then (string_field ''ticket_no'' m) (\<lambda>ticketNo.
       Inr \<lparr>bm_ID = [], bm_CreatedAt = 0, bm_ModifiedAt = 0, bm_DeletedAt = None, qi_QueueID = queueID,
            qi_Priority = given priority 1, qi_Status = ItemStatusWaiting, qi_TicketNo = ticketNo, qi_Category = category,
            qi_CustomerID = customerID, qi_Metadata = metadata, qi_CounterID = [], qi_ServedBy = [], qi_CalledAt = None,
            qi_ServiceStart = None, qi_ServiceEnd = None, qi_JoinedAt = 0\<rparr>)))))"

definition Item_Enqueue :: "queue_api \<Rightarrow> QueueState handler" where
  "Item_Enqueue api = require_auth (limited (qa_allow api) (\<lambda>r.
     decoded (and_then (decode_object (aq_body r)) (new_item (PathValue ''queue_id'' r))) (\<lambda>item st.
       queue_calling (Enqueue (qa_env api) (qa_now api) (qa_newID api) (qa_random api) item st) (\<lambda>(item', st').
         (reply_json 201 (VMap (itemToJSON item')), st')) st)))"

definition Item_ListWaiting :: "queue_api \<Rightarrow> QueueState handler" where
  "Item_ListWaiting api = require_auth (\<lambda>r st.
     queue_calling (ListWaitingItems (qa_env api) st (PathValue ''queue_id'' r) (query_int ''limit'' r) (query_int ''offset'' r))
       (\<lambda>items. (reply_json 200 (items_body itemToJSON items), st)) st)"

definition Item_Get :: "queue_api \<Rightarrow> QueueState handler" where
  "Item_Get api = require_auth (\<lambda>r st.
     queue_calling (GetItem (qa_env api) st (PathValue ''id'' r)) (\<lambda>item.
       (reply_json 200 (VMap (itemToJSON item)), st)) st)"

definition Item_GetPosition :: "queue_api \<Rightarrow> QueueState handler" where
  "Item_GetPosition api = require_auth (\<lambda>r st.
     queue_calling (GetItemPosition (qa_env api) st (PathValue ''id'' r)) (\<lambda>position.
       (reply_json 200 (VMap [(''position'', VInt position)]), st)) st)"

text \<open>An action on the row the path names, answered with a fixed status.\<close>

definition acting :: "(string \<Rightarrow> QueueState \<Rightarrow> QueueState result) \<Rightarrow> string \<Rightarrow> QueueState handler" where
  "acting act status = require_auth (\<lambda>r st.
     queue_calling (act (PathValue ''id'' r) st) (\<lambda>st'. (reply_status status, st')) st)"

definition Item_Cancel :: "queue_api \<Rightarrow> QueueState handler" where
  "Item_Cancel api = acting (CancelItem (qa_env api) (qa_now api)) ''cancelled''"

definition Item_NoShow :: "queue_api \<Rightarrow> QueueState handler" where
  "Item_NoShow api = acting (NoShowItem (qa_env api) (qa_now api)) ''no_show''"

definition Item_Requeue :: "queue_api \<Rightarrow> QueueState handler" where
  "Item_Requeue api = acting (RequeueItem (qa_env api) (qa_now api)) ''waiting''"

definition Item_Transfer :: "queue_api \<Rightarrow> QueueState handler" where
  "Item_Transfer api = require_auth (\<lambda>r.
     decoded (and_then (decode_object (aq_body r)) (string_field ''queue_id'')) (\<lambda>queueID st.
       if queueID = [] then bad_request ''queue_id is required'' st
       else queue_calling (TransferItem (qa_env api) (qa_now api) (PathValue ''id'' r) queueID st) (\<lambda>st'.
         (reply_status ''transferred'', st')) st))"

section \<open>Counters (queue_counter.go)\<close>

definition new_counter :: "string \<Rightarrow> go_map \<Rightarrow> QueueCounter result" where
  "new_counter queueID m =
     and_then (string_field ''name'' m) (\<lambda>name.
     and_then (raw_field ''categories'' m) (\<lambda>categories.
       Inr \<lparr>bm_ID = [], bm_CreatedAt = 0, bm_ModifiedAt = 0, bm_DeletedAt = None, qc_QueueID = queueID, qc_Name = name,
            qc_Status = CounterStatusClosed, qc_CurrentItemID = [], qc_ServedBy = [], qc_Categories = categories,
            qc_TotalServed = 0\<rparr>))"

definition Counter_Create :: "queue_api \<Rightarrow> QueueState handler" where
  "Counter_Create api = require_auth (\<lambda>r.
     decoded (and_then (decode_object (aq_body r)) (new_counter (PathValue ''queue_id'' r))) (\<lambda>counter st.
       if qc_Name counter = [] then bad_request ''name is required'' st
       else queue_calling (CreateCounter (qa_env api) (qa_now api) (qa_newID api) counter st) (\<lambda>st'.
         (reply_json 201 (stored counterToJSON (qa_newID api) (qs_counters st')), st')) st))"

definition Counter_List :: "queue_api \<Rightarrow> QueueState handler" where
  "Counter_List api = require_auth (\<lambda>r st.
     queue_calling (ListCounters (qa_env api) st (PathValue ''queue_id'' r)) (\<lambda>counters.
       (reply_json 200 (items_body counterToJSON counters), st)) st)"

definition Counter_Open :: "queue_api \<Rightarrow> QueueState handler" where
  "Counter_Open api = require_auth (\<lambda>r.
     decoded (and_then (decode_object (aq_body r)) (string_field ''staff_id'')) (\<lambda>staffID st.
       queue_calling (OpenCounter (qa_env api) (qa_now api) (PathValue ''id'' r) staffID st) (\<lambda>st'.
         (reply_status ''open'', st')) st))"

definition Counter_Close :: "queue_api \<Rightarrow> QueueState handler" where
  "Counter_Close api = acting (CloseCounter (qa_env api) (qa_now api)) ''closed''"

definition Counter_Pause :: "queue_api \<Rightarrow> QueueState handler" where
  "Counter_Pause api = acting (PauseCounter (qa_env api) (qa_now api)) ''paused''"

definition Counter_CallNext :: "queue_api \<Rightarrow> QueueState handler" where
  "Counter_CallNext api = require_auth (\<lambda>r st.
     queue_calling (CallNext (qa_env api) (qa_now api) (PathValue ''id'' r) st) (\<lambda>(item, st').
       (reply_json 200 (VMap (itemToJSON item)), st')) st)"

definition Counter_BeginService :: "queue_api \<Rightarrow> QueueState handler" where
  "Counter_BeginService api = acting (BeginService (qa_env api) (qa_now api)) ''service_started''"

definition Counter_CompleteService :: "queue_api \<Rightarrow> QueueState handler" where
  "Counter_CompleteService api = acting (CompleteService (qa_env api) (qa_now api)) ''completed''"

section \<open>Statistics (queue_stats.go) and the routes (cmd/main.go)\<close>

definition Stats_Get :: "queue_api \<Rightarrow> QueueState handler" where
  "Stats_Get api = require_auth (\<lambda>r st.
     queue_calling (GetStats (qa_env api) (qa_cacheTTL api) (qa_now api) (PathValue ''queue_id'' r) st) (\<lambda>(stats, st').
       (reply_json 200 (VMap (statsToJSON stats)), st')) st)"

definition queue_routes :: "queue_api \<Rightarrow> QueueState route list" where
  "queue_routes api =
     [(''POST'', ''/api/v1/queues'', Queue_Create api),
      (''GET'', ''/api/v1/queues'', Queue_List api),
      (''GET'', ''/api/v1/queues/{id}'', Queue_Get api),
      (''PUT'', ''/api/v1/queues/{id}'', Queue_Update api),
      (''DELETE'', ''/api/v1/queues/{id}'', Queue_Delete api),
      (''POST'', ''/api/v1/queues/{queue_id}/items'', Item_Enqueue api),
      (''GET'', ''/api/v1/queues/{queue_id}/items'', Item_ListWaiting api),
      (''GET'', ''/api/v1/items/{id}'', Item_Get api),
      (''GET'', ''/api/v1/items/{id}/position'', Item_GetPosition api),
      (''POST'', ''/api/v1/items/{id}/cancel'', Item_Cancel api),
      (''POST'', ''/api/v1/items/{id}/no-show'', Item_NoShow api),
      (''POST'', ''/api/v1/items/{id}/requeue'', Item_Requeue api),
      (''POST'', ''/api/v1/items/{id}/transfer'', Item_Transfer api),
      (''POST'', ''/api/v1/queues/{queue_id}/counters'', Counter_Create api),
      (''GET'', ''/api/v1/queues/{queue_id}/counters'', Counter_List api),
      (''POST'', ''/api/v1/counters/{id}/open'', Counter_Open api),
      (''POST'', ''/api/v1/counters/{id}/close'', Counter_Close api),
      (''POST'', ''/api/v1/counters/{id}/pause'', Counter_Pause api),
      (''POST'', ''/api/v1/counters/{id}/call-next'', Counter_CallNext api),
      (''POST'', ''/api/v1/counters/{id}/begin-service'', Counter_BeginService api),
      (''POST'', ''/api/v1/counters/{id}/complete-service'', Counter_CompleteService api),
      (''GET'', ''/api/v1/queues/{queue_id}/stats'', Stats_Get api)]"

definition serve_queue :: "queue_api \<Rightarrow> string \<Rightarrow> string \<Rightarrow> QueueState handler" where
  "serve_queue api meth path = serve_mux (queue_routes api) meth path"

end
