(* ===== verification/Queue_Api_Correct.thy ===== *)
theory Queue_Api_Correct
  imports Queue_Handlers Queue_Correct
begin

text \<open>
  Every request to the queue service is a step of the queue manager or changes nothing, so the
  invariant of the manager holds under all traffic.
\<close>

interpretation queue_contract: api_contract "queue_reachable env" "(=)"
  by unfold_locales (simp_all add: queue_reachable_def)

lemma queue_reachable_step: "queue_step env st st' \<Longrightarrow> queue_reachable env st st'"
  by (simp add: queue_reachable_def r_into_rtranclp)

lemmas queue_sound = queue_contract.sound_intros queue_contract.sound_require_auth queue_reachable_step

lemma sound_acting:
  assumes "\<And>i st st'. act i st = Inr st' \<Longrightarrow> queue_step env st st'"
  shows "sound_handler (queue_reachable env) (=) (acting act s)"
  unfolding acting_def by (intro queue_sound assms)

lemma new_item_held: "new_item q m = Inr item \<Longrightarrow> qi_CounterID item = []"
  by (auto simp: new_item_def res_simps)

lemma new_counter_free: "new_counter q m = Inr counter \<Longrightarrow> qc_CurrentItemID counter = []"
  by (auto simp: new_counter_def res_simps)

lemma sound_queues:
  "sound_handler (queue_reachable (qa_env api)) (=) (Queue_Create api)" "sound_handler (queue_reachable (qa_env api)) (=) (Queue_List api)"
  "sound_handler (queue_reachable (qa_env api)) (=) (Queue_Get api)" "sound_handler (queue_reachable (qa_env api)) (=) (Queue_Update api)"
  "sound_handler (queue_reachable (qa_env api)) (=) (Queue_Delete api)"
  unfolding Queue_Create_def Queue_List_def Queue_Get_def Queue_Update_def Queue_Delete_def
  by (intro queue_sound; auto intro: queue_step.intros queue_contract.unchanged)+

lemma sound_items:
  assumes "qa_newID api \<noteq> []"
  shows "sound_handler (queue_reachable (qa_env api)) (=) (Item_Enqueue api)" "sound_handler (queue_reachable (qa_env api)) (=) (Item_ListWaiting api)"
  "sound_handler (queue_reachable (qa_env api)) (=) (Item_Get api)" "sound_handler (queue_reachable (qa_env api)) (=) (Item_GetPosition api)"
  "sound_handler (queue_reachable (qa_env api)) (=) (Item_Transfer api)"
  unfolding Item_Enqueue_def limited_def Item_ListWaiting_def Item_Get_def Item_GetPosition_def Item_Transfer_def
  using assms
  by (intro queue_sound; auto simp: res_simps new_item_held intro!: queue_contract.sound_json queue_reachable_step
      intro: queue_step.intros queue_contract.unchanged)+

lemma sound_counters:
  assumes "qa_newID api \<noteq> []"
  shows "sound_handler (queue_reachable (qa_env api)) (=) (Counter_Create api)" "sound_handler (queue_reachable (qa_env api)) (=) (Counter_List api)"
  "sound_handler (queue_reachable (qa_env api)) (=) (Counter_Open api)" "sound_handler (queue_reachable (qa_env api)) (=) (Counter_CallNext api)"
  "sound_handler (queue_reachable (qa_env api)) (=) (Stats_Get api)"
  unfolding Counter_Create_def Counter_List_def Counter_Open_def Counter_CallNext_def Stats_Get_def
  using assms
  by (intro queue_sound; auto simp: res_simps new_counter_free intro!: queue_contract.sound_json queue_reachable_step
      intro: queue_step.intros queue_contract.unchanged)+

lemma sound_actions:
  "sound_handler (queue_reachable (qa_env api)) (=) (Item_Cancel api)" "sound_handler (queue_reachable (qa_env api)) (=) (Item_NoShow api)"
  "sound_handler (queue_reachable (qa_env api)) (=) (Item_Requeue api)" "sound_handler (queue_reachable (qa_env api)) (=) (Counter_Close api)"
  "sound_handler (queue_reachable (qa_env api)) (=) (Counter_Pause api)" "sound_handler (queue_reachable (qa_env api)) (=) (Counter_BeginService api)"
  "sound_handler (queue_reachable (qa_env api)) (=) (Counter_CompleteService api)"
  unfolding Item_Cancel_def Item_NoShow_def Item_Requeue_def Counter_Close_def Counter_Pause_def Counter_BeginService_def
    Counter_CompleteService_def
  by (rule sound_acting, erule queue_step.intros)+


definition example_api :: queue_api where
  "example_api = \<lparr>qa_env = example_queue_env, qa_now = 30, qa_newID = ''n1'', qa_random = ''ABCD1234'',
     qa_allow = (\<lambda>_. True), qa_cacheTTL = 0\<rparr>"

definition example_call_next :: api_request where
  "example_call_next = \<lparr>aq_claims = Some ''tenant'', aq_path = [], aq_query = [], aq_body = RawEmpty\<rparr>"


end
