(* ===== verification/Form_Store.thy ===== *)
theory Form_Store
  imports Sql_Store Net_Url
begin

text \<open>
  The form store: \<open>apps/formstore/service/models\<close>, \<open>repository\<close> and \<open>business\<close>. The schema library
  (\<open>github.com/santhosh-tekuri/jsonschema\<close>) and the client of the files service are parameters, as
  is \<open>BaseRepository.Update\<close> of the framework. The JSON columns hold decoded values; the texts two
  schemas differ in only by layout are one schema. A map is walked in the order of its entries.
\<close>

section \<open>Rows\<close>

record FormDefinition = base_model +
  fd_FormID :: string
  fd_Name :: string
  fd_Description :: string
  fd_JSONSchema :: raw_json
  fd_Active :: bool

definition SubmissionStatusPending :: string where "SubmissionStatusPending = ''pending''"
definition SubmissionStatusComplete :: string where "SubmissionStatusComplete = ''complete''"
definition SubmissionStatusArchived :: string where "SubmissionStatusArchived = ''archived''"

definition validSubmissionStatuses :: "string list" where
  "validSubmissionStatuses = [SubmissionStatusPending, SubmissionStatusComplete, SubmissionStatusArchived]"

definition ValidateStatus :: "string \<Rightarrow> unit result" where
  "ValidateStatus s = guard (s \<in> set validSubmissionStatuses) (Errf ''invalid submission status: %q'' [EStr s])"

record FormSubmission = base_model +
  fs_FormID :: string
  fs_SubmitterID :: string
  fs_Status :: string
  fs_Data :: raw_json
  fs_FileCount :: int
  fs_IdempotencyKey :: string
  fs_Metadata :: raw_json

text \<open>The unique indexes of \<open>repository/migrate.go\<close>; the tenant is that of every row.\<close>

definition form_conflict :: "FormDefinition \<Rightarrow> FormDefinition \<Rightarrow> bool" where
  "form_conflict r s \<longleftrightarrow> fd_FormID r = fd_FormID s"

definition submission_conflict :: "FormSubmission \<Rightarrow> FormSubmission \<Rightarrow> bool" where
  "submission_conflict r s \<longleftrightarrow> fs_IdempotencyKey r = fs_IdempotencyKey s \<and> fs_IdempotencyKey s \<noteq> []"

text \<open>A file to upload: its name, content type and bytes.\<close>

record upload_file =
  uf_Filename :: string
  uf_ContentType :: string
  uf_Data :: string

type_synonym uploader = "upload_file \<Rightarrow> string result"

text \<open>The cache of compiled schemas and the number of the last resource.\<close>

record 'schema SchemaValidator =
  va_cache :: "(raw_json \<times> 'schema) list"
  va_seq :: int

text \<open>\<open>fm_uploads\<close> are the uploads tried so far.\<close>

record 'schema FormState =
  fm_defs :: "FormDefinition list"
  fm_subs :: "FormSubmission list"
  fm_validator :: "'schema SchemaValidator"
  fm_uploads :: "upload_file list"

record ('doc, 'schema) form_env =
  fe_F :: faults
  fe_UpdateDef :: "FormDefinition \<Rightarrow> FormDefinition list \<Rightarrow> FormDefinition list result"
  fe_UpdateSub :: "FormSubmission \<Rightarrow> FormSubmission list \<Rightarrow> FormSubmission list result"
  fe_uploader :: "uploader option"
  fe_UnmarshalJSON :: "raw_json \<Rightarrow> 'doc result"
  fe_AddResource :: "string \<Rightarrow> 'doc \<Rightarrow> unit result"
  fe_Compile :: "string \<Rightarrow> 'doc \<Rightarrow> 'schema result"
  fe_Validate :: "'schema \<Rightarrow> any \<Rightarrow> unit result"

text \<open>What the service relies on: a successful \<open>Update\<close> stores the columns of the entity.\<close>

definition form_updates_save :: "('doc, 'schema) form_env \<Rightarrow> bool" where
  "form_updates_save env \<longleftrightarrow>
     (\<forall>row tbl tbl'. fe_UpdateSub env row tbl = Inr tbl' \<longrightarrow> db_save submission_conflict row tbl = Some tbl')"

section \<open>Errors (errors.go)\<close>

definition ErrFormDefinitionNotFound :: errmsg where "ErrFormDefinitionNotFound = Errf ''form definition not found'' []"
definition ErrFormSubmissionNotFound :: errmsg where "ErrFormSubmissionNotFound = Errf ''form submission not found'' []"
definition ErrDuplicateFormID :: errmsg where "ErrDuplicateFormID = Errf ''form_id already exists'' []"
definition ErrInvalidFormData :: errmsg where "ErrInvalidFormData = Errf ''invalid form data'' []"
definition ErrSchemaValidationFailed :: errmsg where
  "ErrSchemaValidationFailed = Errf ''form data does not match schema'' []"
definition ErrFileUploadFailed :: errmsg where "ErrFileUploadFailed = Errf ''file upload failed'' []"
definition ErrSubmissionTooLarge :: errmsg where "ErrSubmissionTooLarge = Errf ''submission exceeds maximum size'' []"
definition ErrInvalidStatus :: errmsg where "ErrInvalidStatus = Errf ''invalid submission status'' []"

section \<open>Repositories\<close>

definition form_limit :: "int \<Rightarrow> nat" where
  "form_limit limit = nat (min (if limit \<le> 0 then 20 else limit) 200)"

definition form_page :: "int \<Rightarrow> int \<Rightarrow> 'a base_model_scheme list \<Rightarrow> 'a base_model_scheme list" where
  "form_page limit offset rows = take (form_limit limit) (drop (nat offset) (sort_key (\<lambda>r. - bm_CreatedAt r) rows))"

definition GetByFormID :: "('doc, 'schema) form_env \<Rightarrow> string \<Rightarrow> FormDefinition list \<Rightarrow> FormDefinition result" where
  "GetByFormID env formID tbl =
     labelled ''get form definition by form_id'' (and_then (stmt (fe_F env) ''select'') (\<lambda>_.
       case first_by bm_ID (db_select (\<lambda>d. fd_FormID d = formID) tbl) of
         None \<Rightarrow> Inl ErrRecordNotFound | Some d \<Rightarrow> Inr d))"

definition FormDefinition_List ::
    "('doc, 'schema) form_env \<Rightarrow> bool \<Rightarrow> int \<Rightarrow> int \<Rightarrow> FormDefinition list \<Rightarrow> FormDefinition list result" where
  "FormDefinition_List env activeOnly limit offset tbl =
     and_then (stmt (fe_F env) ''list form definitions'') (\<lambda>_.
       Inr (form_page limit offset (db_select (\<lambda>d. activeOnly \<longrightarrow> fd_Active d) tbl)))"

definition Submission_FindByIdempotencyKey :: "('doc, 'schema) form_env \<Rightarrow> string \<Rightarrow> FormSubmission list \<Rightarrow> FormSubmission result" where
  "Submission_FindByIdempotencyKey env key tbl =
     labelled ''find submission by idempotency key'' (and_then (stmt (fe_F env) ''select'') (\<lambda>_.
       case first_by bm_ID (db_select (\<lambda>s. fs_IdempotencyKey s = key) tbl) of
         None \<Rightarrow> Inl ErrRecordNotFound | Some s \<Rightarrow> Inr s))"

definition ListByFormID ::
    "('doc, 'schema) form_env \<Rightarrow> string \<Rightarrow> int \<Rightarrow> int \<Rightarrow> FormSubmission list \<Rightarrow> FormSubmission list result" where
  "ListByFormID env formID limit offset tbl =
     and_then (stmt (fe_F env) ''list submissions by form_id'') (\<lambda>_.
       Inr (form_page limit offset (db_select (\<lambda>s. fs_FormID s = formID) tbl)))"

definition form_SoftDelete ::
    "('doc, 'schema) form_env \<Rightarrow> string \<Rightarrow> int \<Rightarrow> string \<Rightarrow> 'a base_model_scheme list \<Rightarrow> 'a base_model_scheme list result" where
  "form_SoftDelete env label now i tbl =
     and_then (stmt (fe_F env) label) (\<lambda>_.
       Inr (db_update (\<lambda>r. bm_ID r = i) (\<lambda>r. r\<lparr>bm_DeletedAt := Some now\<rparr>) tbl))"

section \<open>Base64 (encoding/base64)\<close>

text \<open>The standard alphabet with padding; line breaks are skipped.\<close>

definition b64_value :: "char \<Rightarrow> int option" where
  "b64_value c =
     (if 65 \<le> byte c \<and> byte c \<le> 90 then Some (byte c - 65)
      else if 97 \<le> byte c \<and> byte c \<le> 122 then Some (byte c - 71)
      else if is_digit_byte c then Some (byte c + 4)
      else if c = CHR ''+'' then Some 62 else if c = CHR ''/'' then Some 63 else None)"

fun b64_quanta :: "string \<Rightarrow> string option" where
  "b64_quanta [] = Some []"
| "b64_quanta (a # b # c # d # rest) =
     (case (b64_value a, b64_value b) of
        (Some x, Some y) \<Rightarrow>
          (let first = char_of (x * 4 + y div 16) in
           if c = CHR ''='' then (if d = CHR ''='' \<and> rest = [] then Some [first] else None)
           else (case b64_value c of
              None \<Rightarrow> None
            | Some z \<Rightarrow>
                (let middle = char_of (y mod 16 * 16 + z div 4) in
                 if d = CHR ''='' then (if rest = [] then Some [first, middle] else None)
                 else (case b64_value d of
                    None \<Rightarrow> None
                  | Some w \<Rightarrow> map_option (\<lambda>r. first # middle # char_of (z mod 4 * 64 + w) # r) (b64_quanta rest)))))
      | _ \<Rightarrow> None)"
| "b64_quanta _ = None"

definition DecodeString :: "string \<Rightarrow> string result" where
  "DecodeString s = (case b64_quanta (filter (\<lambda>c. byte c \<noteq> 10 \<and> byte c \<noteq> 13) s) of
     None \<Rightarrow> Inl (Errf ''illegal base64 data'' []) | Some d \<Rightarrow> Inr d)"

section \<open>Files in a submission (fileuploader.go)\<close>

definition file_ref :: "string \<Rightarrow> upload_file \<Rightarrow> any" where
  "file_ref mxcURI f = VMap [(''_type'', VStr ''file_ref''), (''mxc_uri'', VStr mxcURI), (''filename'', VStr (uf_Filename f)),
     (''content_type'', VStr (uf_ContentType f))]"

definition upload :: "uploader \<Rightarrow> upload_file \<Rightarrow> upload_file list \<Rightarrow> any result \<times> upload_file list" where
  "upload u f ups = (and_then (because ErrFileUploadFailed (u f)) (\<lambda>uri. Inr (file_ref uri f)), ups @ [f])"

text \<open>A decoding error uploads nothing.\<close>

definition upload_decoded ::
    "uploader \<Rightarrow> string \<Rightarrow> string \<Rightarrow> string \<Rightarrow> string \<Rightarrow> upload_file list \<Rightarrow> any result \<times> upload_file list" where
  "upload_decoded u what filename contentType dataStr ups = (case DecodeString dataStr of
     Inl err \<Rightarrow> (Inl (Errf (''%w: '' @ what @ '': %w'') [EErr ErrInvalidFormData, EErr err]), ups)
   | Inr d \<Rightarrow> upload u \<lparr>uf_Filename = filename, uf_ContentType = contentType, uf_Data = d\<rparr> ups)"

definition or_default :: "string \<Rightarrow> string \<Rightarrow> string" where
  "or_default s d = (if s = [] then d else s)"

definition processExplicitFile :: "uploader \<Rightarrow> go_map \<Rightarrow> upload_file list \<Rightarrow> any result \<times> upload_file list" where
  "processExplicitFile u obj ups =
     (if str_of obj ''data'' = [] then (Inl (Errf ''%w: missing data field in file object'' [EErr ErrInvalidFormData]), ups)
      else upload_decoded u ''invalid base64 data'' (or_default (str_of obj ''filename'') ''upload'')
        (or_default (str_of obj ''content_type'') ''application/octet-stream'') (str_of obj ''data'') ups)"

definition extensionFromContentType :: "string \<Rightarrow> string" where
  "extensionFromContentType ct = (case map_of
     [(''image/jpeg'', ''.jpg''), (''image/png'', ''.png''), (''image/gif'', ''.gif''), (''image/webp'', ''.webp''),
      (''application/pdf'', ''.pdf''), (''text/plain'', ''.txt''), (''text/csv'', ''.csv'')] ct of
     None \<Rightarrow> [] | Some ext \<Rightarrow> ext)"

definition processDataURI :: "uploader \<Rightarrow> string \<Rightarrow> upload_file list \<Rightarrow> any result \<times> upload_file list" where
  "processDataURI u uri ups = (case Cut uri (CHR '','') of (header, dataStr, found) \<Rightarrow>
     if \<not> found then (Inl (Errf ''%w: malformed data URI'' [EErr ErrInvalidFormData]), ups)
     else (let contentType = or_default (hd (split_on (CHR '';'') (TrimPrefix header ''data:''))) ''application/octet-stream''
           in upload_decoded u ''invalid base64 in data URI'' (''upload'' @ extensionFromContentType contentType) contentType dataStr ups))"

definition is_file_object :: "go_map \<Rightarrow> bool" where
  "is_file_object m \<longleftrightarrow> map_of m ''_type'' = Some (VStr ''file'')"

text \<open>One file: its reference, counted as one.\<close>

definition one_file :: "any result \<times> upload_file list \<Rightarrow> (any \<times> int) result \<times> upload_file list" where
  "one_file r = (and_then (fst r) (\<lambda>ref. Inr (ref, 1)), snd r)"

fun walkAndReplace :: "uploader \<Rightarrow> any \<Rightarrow> upload_file list \<Rightarrow> (any \<times> int) result \<times> upload_file list"
and walk_fields :: "uploader \<Rightarrow> go_map \<Rightarrow> upload_file list \<Rightarrow> (go_map \<times> int) result \<times> upload_file list"
and walk_items :: "uploader \<Rightarrow> nat \<Rightarrow> any list \<Rightarrow> upload_file list \<Rightarrow> (any list \<times> int) result \<times> upload_file list" where
  "walkAndReplace u (VMap m) ups =
     (if is_file_object m then one_file (processExplicitFile u m ups)
      else (case walk_fields u m ups of (r, ups') \<Rightarrow> (and_then r (\<lambda>(m', n). Inr (VMap m', n)), ups')))"
| "walkAndReplace u (VList vs) ups =
     (case walk_items u 0 vs ups of (r, ups') \<Rightarrow> (and_then r (\<lambda>(vs', n). Inr (VList vs', n)), ups'))"
| "walkAndReplace u (VStr s) ups =
     (if HasPrefix s ''data:'' then one_file (processDataURI u s ups) else (Inr (VStr s, 0), ups))"
| "walkAndReplace u VNil ups = (Inr (VNil, 0), ups)"
| "walkAndReplace u (VBool b) ups = (Inr (VBool b, 0), ups)"
| "walkAndReplace u (VInt n) ups = (Inr (VInt n, 0), ups)"
| "walkAndReplace u (VFloat q) ups = (Inr (VFloat q, 0), ups)"
| "walk_fields u [] ups = (Inr ([], 0), ups)"
| "walk_fields u ((key, v) # m) ups =
     (case walkAndReplace u v ups of
        (Inl err, ups1) \<Rightarrow> (Inl (Errf ''field %s: %w'' [EStr key, EErr err]), ups1)
      | (Inr (v', n), ups1) \<Rightarrow> (case walk_fields u m ups1 of
          (Inl err, ups2) \<Rightarrow> (Inl err, ups2)
        | (Inr (m', k), ups2) \<Rightarrow> (Inr ((key, v') # m', n + k), ups2)))"
| "walk_items u i [] ups = (Inr ([], 0), ups)"
| "walk_items u i (v # vs) ups =
     (case walkAndReplace u v ups of
        (Inl err, ups1) \<Rightarrow> (Inl (Errf ''index %d: %w'' [EInt (int i), EErr err]), ups1)
      | (Inr (v', n), ups1) \<Rightarrow> (case walk_items u (Suc i) vs ups1 of
          (Inl err, ups2) \<Rightarrow> (Inl err, ups2)
        | (Inr (vs', k), ups2) \<Rightarrow> (Inr (v' # vs', n + k), ups2)))"

text \<open>The document itself may be a file object; its reference is a map as well.\<close>

definition ProcessFields :: "uploader \<Rightarrow> go_map \<Rightarrow> upload_file list \<Rightarrow> (go_map \<times> int) result \<times> upload_file list" where
  "ProcessFields u data ups = (case walkAndReplace u (VMap data) ups of
     (Inl err, ups') \<Rightarrow> (Inl err, ups')
   | (Inr (result, count), ups') \<Rightarrow> (case result of VMap m \<Rightarrow> (Inr (m, count), ups') | _ \<Rightarrow> (Inr (data, 0), ups')))"

section \<open>The schema validator (schema_validator.go)\<close>

definition relabel_error :: "(errmsg \<Rightarrow> errmsg) \<Rightarrow> 'a result \<Rightarrow> 'a result" where
  "relabel_error g r = (case r of Inl err \<Rightarrow> Inl (g err) | Inr x \<Rightarrow> Inr x)"

definition NewSchemaValidator :: "'schema SchemaValidator" where
  "NewSchemaValidator = \<lparr>va_cache = [], va_seq = 0\<rparr>"

definition resource_url :: "int \<Rightarrow> string" where
  "resource_url n = ''urn:formstore:schema:'' @ itoa n"

definition form_compile ::
    "('doc, 'schema) form_env \<Rightarrow> raw_json \<Rightarrow> 'schema SchemaValidator \<Rightarrow> 'schema result \<times> 'schema SchemaValidator" where
  "form_compile env schemaJSON v = (case labelled ''invalid JSON schema'' (fe_UnmarshalJSON env schemaJSON) of
     Inl err \<Rightarrow> (Inl err, v)
   | Inr doc \<Rightarrow>
       (let seq = va_seq v + 1; url = resource_url seq in
        (and_then (labelled ''add schema resource'' (fe_AddResource env url doc)) (\<lambda>_. fe_Compile env url doc),
         v\<lparr>va_seq := seq\<rparr>)))"

definition getOrCompile ::
    "('doc, 'schema) form_env \<Rightarrow> raw_json \<Rightarrow> 'schema SchemaValidator \<Rightarrow> 'schema result \<times> 'schema SchemaValidator" where
  "getOrCompile env schemaJSON v = (case map_of (va_cache v) schemaJSON of
     Some cached \<Rightarrow> (Inr cached, v)
   | None \<Rightarrow> (case form_compile env schemaJSON v of
       (Inl err, v') \<Rightarrow> (Inl err, v')
     | (Inr schema, v') \<Rightarrow> (Inr schema, v'\<lparr>va_cache := AList.update schemaJSON schema (va_cache v')\<rparr>)))"

definition form_Validate ::
    "('doc, 'schema) form_env \<Rightarrow> raw_json \<Rightarrow> raw_json \<Rightarrow> 'schema SchemaValidator \<Rightarrow> unit result \<times> 'schema SchemaValidator" where
  "form_Validate env schemaJSON data v =
     (if schemaJSON = RawEmpty then (Inr (), v)
      else (case getOrCompile env schemaJSON v of (compiled, v') \<Rightarrow>
        (and_then (relabel_error (\<lambda>err. Errf ''%w: compile schema: %w'' [EErr ErrSchemaValidationFailed, EErr err]) compiled) (\<lambda>schema.
         and_then (relabel_error (\<lambda>err. Errf ''%w: invalid JSON data: %w'' [EErr ErrInvalidFormData, EErr err]) (json_unmarshal data)) (\<lambda>dataVal.
         because ErrSchemaValidationFailed (fe_Validate env schema dataVal))), v')))"

definition ValidateSchema ::
    "('doc, 'schema) form_env \<Rightarrow> raw_json \<Rightarrow> 'schema SchemaValidator \<Rightarrow> unit result \<times> 'schema SchemaValidator" where
  "ValidateSchema env schemaJSON v =
     (if schemaJSON = RawEmpty then (Inr (), v)
      else (case form_compile env schemaJSON v of (compiled, v') \<Rightarrow>
        (because ErrSchemaValidationFailed (and_then compiled (\<lambda>_. Inr ())), v')))"

section \<open>Form definitions (formstore.go)\<close>

type_synonym ('schema, 'a) form_op = "'schema FormState \<Rightarrow> 'a result \<times> 'schema FormState"

definition checked_schema ::
    "('doc, 'schema) form_env \<Rightarrow> raw_json \<Rightarrow> ('schema FormState \<Rightarrow> 'a result \<times> 'schema FormState) \<Rightarrow> ('schema, 'a) form_op" where
  "checked_schema env schemaJSON k st = (case ValidateSchema env schemaJSON (fm_validator st) of (r, v) \<Rightarrow>
     (case r of Inl err \<Rightarrow> (Inl err, st\<lparr>fm_validator := v\<rparr>) | Inr _ \<Rightarrow> k (st\<lparr>fm_validator := v\<rparr>)))"

text \<open>A statement on a table, and what becomes of the state.\<close>

definition set_defs :: "FormDefinition list result \<Rightarrow> 'a \<Rightarrow> ('schema, 'a) form_op" where
  "set_defs r x st = (case r of Inl err \<Rightarrow> (Inl err, st) | Inr tbl \<Rightarrow> (Inr x, st\<lparr>fm_defs := tbl\<rparr>))"

definition set_subs :: "FormSubmission list result \<Rightarrow> 'a \<Rightarrow> ('schema, 'a) form_op" where
  "set_subs r x st = (case r of Inl err \<Rightarrow> (Inl err, st) | Inr tbl \<Rightarrow> (Inr x, st\<lparr>fm_subs := tbl\<rparr>))"

definition CreateDefinition ::
    "('doc, 'schema) form_env \<Rightarrow> int \<Rightarrow> string \<Rightarrow> FormDefinition \<Rightarrow> ('schema, FormDefinition) form_op" where
  "CreateDefinition env now newID def = checked_schema env (fd_JSONSchema def) (\<lambda>st.
     let row = with_id newID now (def\<lparr>fd_JSONSchema := json_default (VMap []) (fd_JSONSchema def)\<rparr>) in
     set_defs (labelled ''persist form definition'' (and_then (jsonb ''insert'' [fd_JSONSchema row]) (\<lambda>_.
       create (fe_F env) ''insert'' form_conflict row (fm_defs st)))) row st)"

definition GetDefinition :: "('doc, 'schema) form_env \<Rightarrow> string \<Rightarrow> 'schema FormState \<Rightarrow> FormDefinition result" where
  "GetDefinition env i st = because ErrFormDefinitionNotFound (repo_get (fe_F env) ''get definition'' (fm_defs st) i)"

definition GetDefinitionByFormID :: "('doc, 'schema) form_env \<Rightarrow> string \<Rightarrow> 'schema FormState \<Rightarrow> FormDefinition result" where
  "GetDefinitionByFormID env formID st = because ErrFormDefinitionNotFound (GetByFormID env formID (fm_defs st))"

definition ListDefinitions ::
    "('doc, 'schema) form_env \<Rightarrow> bool \<Rightarrow> int \<Rightarrow> int \<Rightarrow> 'schema FormState \<Rightarrow> FormDefinition list result" where
  "ListDefinitions env activeOnly limit offset st = FormDefinition_List env activeOnly limit offset (fm_defs st)"

definition UpdateDefinition :: "('doc, 'schema) form_env \<Rightarrow> FormDefinition \<Rightarrow> ('schema, unit) form_op" where
  "UpdateDefinition env def = checked_schema env (fd_JSONSchema def) (\<lambda>st.
     set_defs (labelled ''update form definition'' (fe_UpdateDef env def (fm_defs st))) () st)"

definition DeleteDefinition :: "('doc, 'schema) form_env \<Rightarrow> int \<Rightarrow> string \<Rightarrow> ('schema, unit) form_op" where
  "DeleteDefinition env now i st =
     (case GetDefinition env i st of
        Inl err \<Rightarrow> (Inl err, st)
      | Inr def \<Rightarrow> set_defs (labelled ''delete form definition''
          (form_SoftDelete env ''soft delete form definition'' now (bm_ID def) (fm_defs st))) () st)"

section \<open>Form submissions (formstore.go)\<close>

definition without_schema :: "FormDefinition \<Rightarrow> bool" where
  "without_schema def \<longleftrightarrow> fd_JSONSchema def = RawEmpty \<or> fd_JSONSchema def = empty_object"

text \<open>The data is checked when a definition of the form is found; an error of the look-up counts as none.\<close>

definition check_submission ::
    "('doc, 'schema) form_env \<Rightarrow> FormSubmission \<Rightarrow> 'schema FormState \<Rightarrow> unit result \<times> 'schema FormState" where
  "check_submission env sub st =
     (if fs_FormID sub = [] then (Inr (), st)
      else (case GetByFormID env (fs_FormID sub) (fm_defs st) of
          Inl _ \<Rightarrow> (Inr (), st)
        | Inr def \<Rightarrow>
            (if without_schema def then (Inr (), st)
             else (case form_Validate env (fd_JSONSchema def) (fs_Data sub) (fm_validator st) of
               (r, v) \<Rightarrow> (r, st\<lparr>fm_validator := v\<rparr>)))))"

definition process_data ::
    "('doc, 'schema) form_env \<Rightarrow> FormSubmission \<Rightarrow> ('schema, FormSubmission) form_op" where
  "process_data env sub st = (case fe_uploader env of
     None \<Rightarrow> (Inr sub, st)
   | Some u \<Rightarrow> (case fs_Data sub of
       RawJson VNil \<Rightarrow> (Inr (sub\<lparr>fs_FileCount := 0\<rparr>), st)
     | RawJson (VMap m) \<Rightarrow> (case ProcessFields u m (fm_uploads st) of
         (Inl err, ups) \<Rightarrow> (Inl (wrap ''process file fields'' err), st\<lparr>fm_uploads := ups\<rparr>)
       | (Inr (m', count), ups) \<Rightarrow>
           (Inr (sub\<lparr>fs_FileCount := count, fs_Data := RawJson (VMap m')\<rparr>), st\<lparr>fm_uploads := ups\<rparr>))
     | _ \<Rightarrow> (Inr sub, st)))"

definition existing_submission ::
    "('doc, 'schema) form_env \<Rightarrow> FormSubmission \<Rightarrow> 'schema FormState \<Rightarrow> FormSubmission option" where
  "existing_submission env sub st =
     (if fs_IdempotencyKey sub = [] then None
      else (case Submission_FindByIdempotencyKey env (fs_IdempotencyKey sub) (fm_subs st) of Inl _ \<Rightarrow> None | Inr s \<Rightarrow> Some s))"

definition insert_submission ::
    "('doc, 'schema) form_env \<Rightarrow> int \<Rightarrow> string \<Rightarrow> FormSubmission \<Rightarrow> ('schema, FormSubmission) form_op" where
  "insert_submission env now newID sub st =
     (let row = with_id newID now sub in
      case and_then (jsonb ''insert'' [fs_Data row, fs_Metadata row]) (\<lambda>_.
             create (fe_F env) ''insert'' submission_conflict row (fm_subs st)) of
        Inr tbl \<Rightarrow> (Inr row, st\<lparr>fm_subs := tbl\<rparr>)
      | Inl err \<Rightarrow> (case existing_submission env sub st of
          Some s \<Rightarrow> (Inr s, st) | None \<Rightarrow> (Inl (wrap ''persist form submission'' err), st)))"

definition CreateSubmission ::
    "('doc, 'schema) form_env \<Rightarrow> int \<Rightarrow> string \<Rightarrow> FormSubmission \<Rightarrow> ('schema, FormSubmission) form_op" where
  "CreateSubmission env now newID sub0 st0 =
     (let sub = sub0\<lparr>fs_Metadata := json_default (VMap []) (fs_Metadata sub0)\<rparr> in
      case check_submission env sub st0 of
        (Inl err, st) \<Rightarrow> (Inl err, st)
      | (Inr _, st) \<Rightarrow> (case existing_submission env sub st of
          Some s \<Rightarrow> (Inr s, st)
        | None \<Rightarrow> (case process_data env sub st of
            (Inl err, st') \<Rightarrow> (Inl err, st')
          | (Inr sub', st') \<Rightarrow> insert_submission env now newID sub' st')))"

definition GetSubmission :: "('doc, 'schema) form_env \<Rightarrow> string \<Rightarrow> 'schema FormState \<Rightarrow> FormSubmission result" where
  "GetSubmission env i st = because ErrFormSubmissionNotFound (repo_get (fe_F env) ''get submission'' (fm_subs st) i)"

definition ListSubmissions ::
    "('doc, 'schema) form_env \<Rightarrow> string \<Rightarrow> int \<Rightarrow> int \<Rightarrow> 'schema FormState \<Rightarrow> FormSubmission list result" where
  "ListSubmissions env formID limit offset st = ListByFormID env formID limit offset (fm_subs st)"

definition UpdateSubmission :: "('doc, 'schema) form_env \<Rightarrow> FormSubmission \<Rightarrow> ('schema, FormSubmission) form_op" where
  "UpdateSubmission env sub st =
     (case (if fs_Status sub \<noteq> [] then because ErrInvalidStatus (ValidateStatus (fs_Status sub)) else Inr ()) of
        Inl err \<Rightarrow> (Inl err, st)
      | Inr _ \<Rightarrow> (case process_data env sub st of
          (Inl err, st') \<Rightarrow> (Inl err, st')
        | (Inr sub', st') \<Rightarrow> set_subs (labelled ''update form submission'' (fe_UpdateSub env sub' (fm_subs st'))) sub' st'))"

definition DeleteSubmission :: "('doc, 'schema) form_env \<Rightarrow> int \<Rightarrow> string \<Rightarrow> ('schema, unit) form_op" where
  "DeleteSubmission env now i st =
     (case GetSubmission env i st of
        Inl err \<Rightarrow> (Inl err, st)
      | Inr sub \<Rightarrow> set_subs (labelled ''delete form submission''
          (form_SoftDelete env ''soft delete form submission'' now (bm_ID sub) (fm_subs st))) () st)"

section \<open>Uploading (fileclient.go)\<close>

definition uploadChunkSize :: nat where "uploadChunkSize = 64 * 1024"

text \<open>The messages of an upload: its metadata, then its bytes in chunks.\<close>

datatype upload_message = UploadMetadata string string int | UploadChunk string

function upload_chunks :: "string \<Rightarrow> upload_message list" where
  "upload_chunks d = (if d = [] then [] else UploadChunk (take uploadChunkSize d) # upload_chunks (drop uploadChunkSize d))"
  by pat_completeness auto
termination by (relation "measure length") (auto simp: uploadChunkSize_def)

declare upload_chunks.simps [simp del]

record files_client =
  fc_Open :: "unit result"
  fc_Send :: "upload_message list \<Rightarrow> upload_message \<Rightarrow> unit result"
  fc_CloseAndReceive :: "upload_message list \<Rightarrow> string result"

fun send_all :: "files_client \<Rightarrow> upload_message list \<Rightarrow> upload_message list \<Rightarrow> upload_message list result" where
  "send_all c sent [] = Inr sent"
| "send_all c sent (m # ms) =
     and_then (labelled (case m of UploadMetadata _ _ _ \<Rightarrow> ''send upload metadata'' | UploadChunk _ \<Rightarrow> ''send upload chunk'')
       (fc_Send c sent m)) (\<lambda>_. send_all c (sent @ [m]) ms)"

definition NewFileUploadFunc :: "files_client \<Rightarrow> uploader" where
  "NewFileUploadFunc c f =
     and_then (labelled ''open upload stream'' (fc_Open c)) (\<lambda>_.
     and_then (send_all c [] (UploadMetadata (uf_ContentType f) (uf_Filename f) (int (length (uf_Data f))) # upload_chunks (uf_Data f))) (\<lambda>sent.
     labelled ''close upload stream'' (fc_CloseAndReceive c sent)))"

end
