(* ===== verification/Form_Handlers.thy ===== *)
theory Form_Handlers
  imports Form_Store Http_Api
begin

text \<open>
  The HTTP interface of the form store: \<open>apps/formstore/service/handlers\<close> and the routes of
  \<open>apps/formstore/cmd/main.go\<close>. The rate limiter is a parameter: whether it lets the request through.
\<close>

record ('doc, 'schema) form_api =
  fa_env :: "('doc, 'schema) form_env"
  fa_now :: int
  fa_newID :: string
  fa_allow :: "string \<Rightarrow> bool"

definition form_status_for :: "errmsg \<Rightarrow> int \<times> string" where
  "form_status_for err =
     (if error_is err ErrFormDefinitionNotFound \<or> error_is err ErrFormSubmissionNotFound then (404, ''resource not found'')
      else if error_is err ErrDuplicateFormID then (409, ''form_id already exists'')
      else if error_is err ErrInvalidFormData \<or> error_is err ErrSchemaValidationFailed \<or> error_is err ErrSubmissionTooLarge \<or>
        error_is err ErrInvalidStatus then (400, ''invalid request data'')
      else if error_is err ErrFileUploadFailed then (502, ''file upload failed'')
      else (500, ''internal server error''))"

text \<open>An operation of the store: the state it leaves stays also when it fails.\<close>

definition form_calling ::
    "'a result \<times> 'schema FormState \<Rightarrow> ('a \<Rightarrow> api_reply) \<Rightarrow> api_reply \<times> 'schema FormState" where
  "form_calling a k = (case a of (r, st) \<Rightarrow> calling form_status_for r (\<lambda>x. (k x, st)) st)"

section \<open>Rows as JSON\<close>

definition definitionToJSON :: "FormDefinition \<Rightarrow> go_map" where
  "definitionToJSON def =
     [(''id'', VStr (bm_ID def)), (''form_id'', VStr (fd_FormID def)), (''name'', VStr (fd_Name def)),
      (''description'', VStr (fd_Description def)), (''active'', VBool (fd_Active def)),
      (''created_at'', json_time (bm_CreatedAt def)), (''modified_at'', json_time (bm_ModifiedAt def))] @
     raw_member ''json_schema'' (fd_JSONSchema def)"

definition submissionToJSON :: "FormSubmission \<Rightarrow> go_map" where
  "submissionToJSON sub =
     [(''id'', VStr (bm_ID sub)), (''form_id'', VStr (fs_FormID sub)), (''submitter_id'', VStr (fs_SubmitterID sub)),
      (''status'', VStr (fs_Status sub)), (''data'', raw_value (fs_Data sub)), (''file_count'', VInt (fs_FileCount sub)),
      (''idempotency_key'', VStr (fs_IdempotencyKey sub)), (''created_at'', json_time (bm_CreatedAt sub)),
      (''modified_at'', json_time (bm_ModifiedAt sub))] @
     raw_member ''metadata'' (fs_Metadata sub)"

section \<open>Form definitions (form_definition.go)\<close>

definition new_form :: "go_map \<Rightarrow> FormDefinition result" where
  "new_form m =
     and_then (string_field ''form_id'' m) (\<lambda>formID.
     and_then (string_field ''name'' m) (\<lambda>name.
     and_then (string_field ''description'' m) (\<lambda>description.
     and_then (raw_field ''json_schema'' m) (\<lambda>schema.
     and_then (bool_ptr_field ''active'' m) (\<lambda>active.
       Inr \<lparr>bm_ID = [], bm_CreatedAt = 0, bm_ModifiedAt = 0, bm_DeletedAt = None, fd_FormID = formID, fd_Name = name,
            fd_Description = description, fd_JSONSchema = schema, fd_Active = given active True\<rparr>)))))"

definition Form_Create :: "('doc, 'schema) form_api \<Rightarrow> 'schema FormState handler" where
  "Form_Create api = require_auth (\<lambda>r. decoded (and_then (decode_object (aq_body r)) new_form) (\<lambda>def st.
     if fd_FormID def = [] \<or> fd_Name def = [] then bad_request ''form_id and name are required'' st
     else form_calling (CreateDefinition (fa_env api) (fa_now api) (fa_newID api) def st) (\<lambda>def'.
       reply_json 201 (VMap (definitionToJSON def')))))"

definition Form_List :: "('doc, 'schema) form_api \<Rightarrow> 'schema FormState handler" where
  "Form_List api = require_auth (\<lambda>r st.
     form_calling (ListDefinitions (fa_env api) (query_value ''active'' r = ''true'') (query_int ''limit'' r)
       (query_int ''offset'' r) st, st) (\<lambda>defs. reply_json 200 (items_body definitionToJSON defs)))"

definition Form_Get :: "('doc, 'schema) form_api \<Rightarrow> 'schema FormState handler" where
  "Form_Get api = require_auth (\<lambda>r st.
     form_calling (GetDefinition (fa_env api) (PathValue ''id'' r) st, st) (\<lambda>def. reply_json 200 (VMap (definitionToJSON def))))"

definition changed_form :: "FormDefinition \<Rightarrow> go_map \<Rightarrow> FormDefinition result" where
  "changed_form def m =
     and_then (string_ptr_field ''name'' m) (\<lambda>name.
     and_then (string_ptr_field ''description'' m) (\<lambda>description.
     and_then (raw_field ''json_schema'' m) (\<lambda>schema.
     and_then (bool_ptr_field ''active'' m) (\<lambda>active.
       Inr (def\<lparr>fd_Name := given name (fd_Name def), fd_Description := given description (fd_Description def),
            fd_JSONSchema := given_raw schema (fd_JSONSchema def), fd_Active := given active (fd_Active def)\<rparr>)))))"

definition Form_Update :: "('doc, 'schema) form_api \<Rightarrow> 'schema FormState handler" where
  "Form_Update api = require_auth (\<lambda>r st.
     calling form_status_for (GetDefinition (fa_env api) (PathValue ''id'' r) st) (\<lambda>def0.
       decoded (and_then (decode_object (aq_body r)) (changed_form def0)) (\<lambda>def st.
         form_calling (UpdateDefinition (fa_env api) def st) (\<lambda>_. reply_json 200 (VMap (definitionToJSON def)))) st) st)"

definition Form_Delete :: "('doc, 'schema) form_api \<Rightarrow> 'schema FormState handler" where
  "Form_Delete api = require_auth (\<lambda>r st.
     form_calling (DeleteDefinition (fa_env api) (fa_now api) (PathValue ''id'' r) st) (\<lambda>_. no_content))"

section \<open>Form submissions (form_submission.go)\<close>

definition new_submission :: "string \<Rightarrow> go_map \<Rightarrow> FormSubmission result" where
  "new_submission formID m =
     and_then (string_field ''submitter_id'' m) (\<lambda>submitterID.
     and_then (raw_field ''data'' m) (\<lambda>data.
     and_then (string_field ''idempotency_key'' m) (\<lambda>key.
     and_then (raw_field ''metadata'' m) (\<lambda>metadata.
       Inr \<lparr>bm_ID = [], bm_CreatedAt = 0, bm_ModifiedAt = 0, bm_DeletedAt = None, fs_FormID = formID,
            fs_SubmitterID = submitterID, fs_Status = SubmissionStatusPending, fs_Data = data, fs_FileCount = 0,
            fs_IdempotencyKey = key, fs_Metadata = metadata\<rparr>))))"

definition Form_Submit :: "('doc, 'schema) form_api \<Rightarrow> 'schema FormState handler" where
  "Form_Submit api = require_auth (limited (fa_allow api) (\<lambda>r.
     decoded (and_then (decode_object (aq_body r)) (new_submission (PathValue ''form_id'' r))) (\<lambda>sub st.
       if fs_Data sub = RawEmpty then bad_request ''data field is required'' st
       else form_calling (CreateSubmission (fa_env api) (fa_now api) (fa_newID api) sub st) (\<lambda>sub'.
         reply_json 201 (VMap (submissionToJSON sub'))))))"

definition Submission_ListByForm :: "('doc, 'schema) form_api \<Rightarrow> 'schema FormState handler" where
  "Submission_ListByForm api = require_auth (\<lambda>r st.
     form_calling (ListSubmissions (fa_env api) (PathValue ''form_id'' r) (query_int ''limit'' r) (query_int ''offset'' r) st, st)
       (\<lambda>subs. reply_json 200 (items_body submissionToJSON subs)))"

definition Submission_Get :: "('doc, 'schema) form_api \<Rightarrow> 'schema FormState handler" where
  "Submission_Get api = require_auth (\<lambda>r st.
     form_calling (GetSubmission (fa_env api) (PathValue ''id'' r) st, st) (\<lambda>sub. reply_json 200 (VMap (submissionToJSON sub))))"

definition changed_submission :: "FormSubmission \<Rightarrow> go_map \<Rightarrow> FormSubmission result" where
  "changed_submission sub m =
     and_then (raw_field ''data'' m) (\<lambda>data.
     and_then (string_ptr_field ''status'' m) (\<lambda>status.
     and_then (raw_field ''metadata'' m) (\<lambda>metadata.
       Inr (sub\<lparr>fs_Data := given_raw data (fs_Data sub), fs_Status := given status (fs_Status sub),
            fs_Metadata := given_raw metadata (fs_Metadata sub)\<rparr>))))"

definition Submission_Update :: "('doc, 'schema) form_api \<Rightarrow> 'schema FormState handler" where
  "Submission_Update api = require_auth (\<lambda>r st.
     calling form_status_for (GetSubmission (fa_env api) (PathValue ''id'' r) st) (\<lambda>sub0.
       decoded (and_then (decode_object (aq_body r)) (changed_submission sub0)) (\<lambda>sub st.
         form_calling (UpdateSubmission (fa_env api) sub st) (\<lambda>sub'. reply_json 200 (VMap (submissionToJSON sub')))) st) st)"

definition Submission_Delete :: "('doc, 'schema) form_api \<Rightarrow> 'schema FormState handler" where
  "Submission_Delete api = require_auth (\<lambda>r st.
     form_calling (DeleteSubmission (fa_env api) (fa_now api) (PathValue ''id'' r) st) (\<lambda>_. no_content))"

section \<open>The routes (cmd/main.go)\<close>

definition form_routes :: "('doc, 'schema) form_api \<Rightarrow> 'schema FormState route list" where
  "form_routes api =
     [(''POST'', ''/api/v1/form-definitions'', Form_Create api),
      (''GET'', ''/api/v1/form-definitions'', Form_List api),
      (''GET'', ''/api/v1/form-definitions/{id}'', Form_Get api),
      (''PUT'', ''/api/v1/form-definitions/{id}'', Form_Update api),
      (''DELETE'', ''/api/v1/form-definitions/{id}'', Form_Delete api),
      (''POST'', ''/api/v1/forms/{form_id}/submissions'', Form_Submit api),
      (''GET'', ''/api/v1/forms/{form_id}/submissions'', Submission_ListByForm api),
      (''GET'', ''/api/v1/submissions/{id}'', Submission_Get api),
      (''PUT'', ''/api/v1/submissions/{id}'', Submission_Update api),
      (''DELETE'', ''/api/v1/submissions/{id}'', Submission_Delete api)]"

definition serve_forms :: "('doc, 'schema) form_api \<Rightarrow> string \<Rightarrow> string \<Rightarrow> 'schema FormState handler" where
  "serve_forms api meth path = serve_mux (form_routes api) meth path"

end
