(* ===== verification/Form_Correct.thy ===== *)
theory Form_Correct
  imports Form_Handlers
begin

text \<open>
  What the form store promises: each file of a submission is uploaded once, an idempotency key has
  one submission, and what an update does to the count of files.
\<close>

section \<open>Inline files\<close>

text \<open>The inline files of a document: file objects and data URIs, none inside a file object.\<close>

fun inline_files :: "any \<Rightarrow> int" and inline_files_of :: "go_map \<Rightarrow> int" and inline_files_in :: "any list \<Rightarrow> int" where
  "inline_files (VMap m) = (if is_file_object m then 1 else inline_files_of m)"
| "inline_files (VList vs) = inline_files_in vs"
| "inline_files (VStr s) = (if HasPrefix s ''data:'' then 1 else 0)"
| "inline_files VNil = 0"
| "inline_files (VBool b) = 0"
| "inline_files (VInt n) = 0"
| "inline_files (VFloat q) = 0"
| "inline_files_of [] = 0"
| "inline_files_of ((k, v) # m) = inline_files v + inline_files_of m"
| "inline_files_in [] = 0"
| "inline_files_in (v # vs) = inline_files v + inline_files_in vs"

lemma inline_files_nonneg: "0 \<le> inline_files v" "0 \<le> inline_files_of m" "0 \<le> inline_files_in vs"
  by (induction v and m and vs rule: inline_files_inline_files_of_inline_files_in.induct) auto

text \<open>A result that uploads the files it counts, or fails after some of them.\<close>

definition counts :: "int \<Rightarrow> upload_file list \<Rightarrow> ('a \<times> int) result \<times> upload_file list \<Rightarrow> bool" where
  "counts n ups a \<longleftrightarrow> (\<exists>new. snd a = ups @ new \<and> int (length new) \<le> n \<and>
     (case fst a of Inr (x, k) \<Rightarrow> k = n \<and> int (length new) = n | Inl _ \<Rightarrow> True))"

lemma upload_counts: "counts 1 ups (one_file (upload u f ups))"
  by (auto simp: counts_def one_file_def upload_def because_def split: sum.splits)

lemma one_file_counts:
  "counts 1 ups (one_file (processExplicitFile u m ups))" "counts 1 ups (one_file (processDataURI u s ups))"
  using upload_counts
  by (auto simp: processExplicitFile_def processDataURI_def upload_decoded_def Let_def split: sum.splits prod.splits)
     (auto simp: counts_def one_file_def)

lemma counts_InlI: "snd a = ups @ new \<Longrightarrow> int (length new) \<le> n \<Longrightarrow> fst a = Inl e \<Longrightarrow> counts n ups a"
  by (auto simp: counts_def)

lemma counts_InrI: "snd a = ups @ new \<Longrightarrow> int (length new) = n \<Longrightarrow> fst a = Inr (x, n) \<Longrightarrow> counts n ups a"
  by (auto simp: counts_def)

lemma counts_two:
  assumes a: "counts a ups r1" and b: "\<And>v n ups1. r1 = (Inr (v, n), ups1) \<Longrightarrow> counts b ups1 (r2 ups1)" and "0 \<le> b"
  shows "counts (a + b) ups (case r1 of
       (Inl err, u1) \<Rightarrow> (Inl (g err), u1)
     | (Inr (v', n), u1) \<Rightarrow> (case r2 u1 of (Inl err, u2) \<Rightarrow> (Inl err, u2) | (Inr (m', k), u2) \<Rightarrow> (Inr (h v' m', n + k), u2)))"
proof (cases "fst r1")
  case (Inl err)
  with a \<open>0 \<le> b\<close> show ?thesis
    by (cases r1) (auto simp: counts_def)
next
  case (Inr vn)
  then obtain v n ups1 where r1: "r1 = (Inr (v, n), ups1)" by (cases r1, cases vn) auto
  with a obtain new where new: "ups1 = ups @ new" "n = a" "int (length new) = a" by (auto simp: counts_def)
  obtain new' where new': "snd (r2 ups1) = ups1 @ new'" "int (length new') \<le> b"
    "case fst (r2 ups1) of Inr (x, k) \<Rightarrow> k = b \<and> int (length new') = b | Inl _ \<Rightarrow> True"
    using b [OF r1] by (auto simp: counts_def)
  then show ?thesis
    using new unfolding r1 counts_def
    by (intro exI [of _ "new @ new'"]) (auto split: sum.splits prod.splits)
qed

lemma counts_map:
  "counts n ups a \<Longrightarrow> counts n ups (case a of (r, ups') \<Rightarrow> (and_then r (\<lambda>(x, k). Inr (f x, k)), ups'))"
  by (auto simp: counts_def split: prod.splits sum.splits)

lemma walk_counts:
  "counts (inline_files v) ups (walkAndReplace u v ups)"
  "counts (inline_files_of m) ups (walk_fields u m ups)"
  "counts (inline_files_in vs) ups (walk_items u i vs ups)"
proof (induction u v ups and u m ups and u i vs ups rule: walkAndReplace_walk_fields_walk_items.induct)
  case (1 u m ups)
  then show ?case by (simp add: one_file_counts counts_map)
next
  case (2 u vs ups)
  then show ?case by (simp add: counts_map)
next
  case (9 u key v m ups)
  then show ?case
    unfolding walk_fields.simps inline_files_of.simps
    by (intro counts_two [where h = "\<lambda>v' m'. (key, v') # m'"]) (auto simp: inline_files_nonneg)
next
  case (11 u i v vs ups)
  then show ?case
    unfolding walk_items.simps inline_files_in.simps
    by (intro counts_two [where h = "\<lambda>v' m'. v' # m'"]) (auto simp: inline_files_nonneg)
qed (auto simp: one_file_counts intro: counts_InrI)

lemma walk_plain:
  "inline_files v = 0 \<Longrightarrow> walkAndReplace u v ups = (Inr (v, 0), ups)"
  "inline_files_of m = 0 \<Longrightarrow> walk_fields u m ups = (Inr (m, 0), ups)"
  "inline_files_in vs = 0 \<Longrightarrow> walk_items u i vs ups = (Inr (vs, 0), ups)"
proof (induction u v ups and u m ups and u i vs ups rule: walkAndReplace_walk_fields_walk_items.induct)
  case (9 u key v m ups)
  then show ?case using inline_files_nonneg(1) [of v] inline_files_nonneg(2) [of m] by auto
next
  case (11 u i v vs ups)
  then show ?case using inline_files_nonneg(1) [of v] inline_files_nonneg(3) [of vs] by auto
qed (auto split: if_splits)

text \<open>Uploading the files of a form. Processing a document uploads each inline file (a file object or a data URI, at any
  depth) exactly once and no other: it tries at most as many uploads as the document has files, and when it succeeds
  exactly that many, which is the count it reports. A document without inline files is returned unchanged.\<close>
theorem files_uploaded_once:
  "\<exists>new. snd (walkAndReplace u v ups) = ups @ new \<and> int (length new) \<le> inline_files v \<and>
     (case fst (walkAndReplace u v ups) of
        Inr (v', count) \<Rightarrow> count = inline_files v \<and> int (length new) = count \<and> (if count = 0 then v' = v else 0 < count)
      | Inl err \<Rightarrow> inline_files v \<noteq> 0)"
proof -
  obtain new where "snd (walkAndReplace u v ups) = ups @ new" "int (length new) \<le> inline_files v"
    "case fst (walkAndReplace u v ups) of Inr (x, k) \<Rightarrow> k = inline_files v \<and> int (length new) = inline_files v | Inl _ \<Rightarrow> True"
    using walk_counts(1) [of v ups u] by (auto simp: counts_def)
  then show ?thesis
    using walk_plain(1) [of v u ups] inline_files_nonneg(1) [of v]
    by (intro exI [of _ new]) (auto split: sum.splits prod.splits)
qed

section \<open>Submissions\<close>

definition keys_ok :: "FormSubmission list \<Rightarrow> bool" where
  "keys_ok tbl \<longleftrightarrow> ids_ok tbl \<and> (\<forall>r \<in> set tbl. \<forall>s \<in> set tbl.
     live r \<and> live s \<and> fs_IdempotencyKey r = fs_IdempotencyKey s \<and> fs_IdempotencyKey r \<noteq> [] \<longrightarrow> r = s)"

definition with_key :: "string \<Rightarrow> FormSubmission list \<Rightarrow> FormSubmission set" where
  "with_key k tbl = {r \<in> set tbl. live r \<and> fs_IdempotencyKey r = k}"

lemma with_key_unique: "keys_ok tbl \<Longrightarrow> k \<noteq> [] \<Longrightarrow> s \<in> with_key k tbl \<Longrightarrow> with_key k tbl = {s}"
  by (auto simp: keys_ok_def with_key_def)

lemma existing_submission_SomeD:
  "existing_submission env sub st = Some s \<Longrightarrow> s \<in> with_key (fs_IdempotencyKey sub) (fm_subs st)"
  by (auto simp: existing_submission_def Submission_FindByIdempotencyKey_def res_simps with_key_def db_select_def
      dest!: first_by_SomeD split: if_splits sum.splits option.splits)

lemma check_submission_subs [simp]: "fm_subs (snd (check_submission env sub st)) = fm_subs st"
  by (auto simp: check_submission_def split: sum.splits prod.splits)

lemma process_data_subs:
  "fm_subs (snd (process_data env sub st)) = fm_subs st"
  "fst (process_data env sub st) = Inr sub' \<Longrightarrow> fs_IdempotencyKey sub' = fs_IdempotencyKey sub"
  by (auto simp: process_data_def split: option.splits raw_json.splits any.splits sum.splits prod.splits)

lemma insert_submission_InrD:
  assumes "insert_submission env now newID sub st = (Inr s, st')"
  shows "(s \<in> with_key (fs_IdempotencyKey sub) (fm_subs st) \<and> fm_subs st' = fm_subs st) \<or>
    (fm_subs st' = fm_subs st @ [s] \<and> live s \<and> fs_IdempotencyKey s = fs_IdempotencyKey sub \<and>
     db_insert submission_conflict s (fm_subs st) = Some (fm_subs st'))"
  using assms
  by (auto simp: insert_submission_def Let_def res_simps with_id_def live_def
      dest!: create_InrD existing_submission_SomeD split: sum.splits option.splits dest: db_insert_SomeD)

lemma insert_no_key:
  "db_insert submission_conflict s tbl = Some tbl' \<Longrightarrow> fs_IdempotencyKey s \<noteq> [] \<Longrightarrow> with_key (fs_IdempotencyKey s) tbl = {}"
  by (auto simp: db_insert_def submission_conflict_def with_key_def list_ex_iff split: if_splits)

lemma with_key_append: "live s \<Longrightarrow> with_key (fs_IdempotencyKey s) (tbl @ [s]) = with_key (fs_IdempotencyKey s) tbl \<union> {s}"
  by (auto simp: with_key_def)

text \<open>C40: Submissions are idempotent by key. A successful submission with a key leaves exactly one live submission with
  that key, which is the one returned. If there was one before, it is returned as it is, whatever its form, and nothing is
  stored; otherwise the new row is added at the end of the table.\<close>
theorem submission_idempotent:
  assumes "CreateSubmission env now newID sub st = (Inr s, st')" and "keys_ok (fm_subs st)"
    and "fs_IdempotencyKey sub \<noteq> []"
  shows "with_key (fs_IdempotencyKey sub) (fm_subs st') = {s} \<and>
    (if with_key (fs_IdempotencyKey sub) (fm_subs st) = {} then fm_subs st' = fm_subs st @ [s]
     else s \<in> with_key (fs_IdempotencyKey sub) (fm_subs st) \<and> fm_subs st' = fm_subs st)"
proof -
  let ?k = "fs_IdempotencyKey sub" and ?sub = "sub\<lparr>fs_Metadata := json_default (VMap []) (fs_Metadata sub)\<rparr>"
  obtain st1 where c: "check_submission env ?sub st = (Inr (), st1)" and st1: "fm_subs st1 = fm_subs st"
    using assms(1) check_submission_subs [of env ?sub st]
    by (auto simp: CreateSubmission_def Let_def split: prod.splits sum.splits simp del: check_submission_subs)
  have old: ?thesis if "s \<in> with_key ?k (fm_subs st)" "fm_subs st' = fm_subs st"
    using that with_key_unique [OF assms(2,3)] by auto
  show ?thesis
  proof (cases "existing_submission env ?sub st1")
    case (Some x)
    then show ?thesis
      using assms(1) c old st1 existing_submission_SomeD [OF Some] by (simp add: CreateSubmission_def Let_def)
  next
    case None
    then obtain sub' st2 where p: "process_data env ?sub st1 = (Inr sub', st2)"
      and i: "insert_submission env now newID sub' st2 = (Inr s, st')"
      using assms(1) c by (auto simp: CreateSubmission_def Let_def split: prod.splits sum.splits)
    have st2: "fm_subs st2 = fm_subs st" and k: "fs_IdempotencyKey sub' = ?k"
      using process_data_subs [of env ?sub st1] p st1 by auto
    from insert_submission_InrD [OF i] show ?thesis
    proof
      assume "s \<in> with_key (fs_IdempotencyKey sub') (fm_subs st2) \<and> fm_subs st' = fm_subs st2"
      then show ?thesis using old unfolding st2 k by simp
    next
      assume new: "fm_subs st' = fm_subs st2 @ [s] \<and> live s \<and> fs_IdempotencyKey s = fs_IdempotencyKey sub' \<and>
        db_insert submission_conflict s (fm_subs st2) = Some (fm_subs st')"
      then have none: "with_key ?k (fm_subs st) = {}" using assms(3) unfolding st2 k by (auto dest: insert_no_key)
      have "with_key ?k (fm_subs st @ [s]) = {s}"
        using new none with_key_append [of s "fm_subs st"] unfolding k by simp
      with new none show ?thesis unfolding st2 by simp
    qed
  qed
qed

lemma set_subs_InrD: "set_subs r x st = (Inr y, st') \<Longrightarrow> \<exists>tbl. r = Inr tbl \<and> y = x \<and> st' = st\<lparr>fm_subs := tbl\<rparr>"
  by (auto simp: set_subs_def split: sum.splits)

text \<open>What an update does to the count of files. Updating a stored submission whose data holds no inline file any more,
  as it does once its files were replaced by references, processes the data again: the row that is stored keeps the data
  but counts no files, however many were uploaded when it was created.\<close>
theorem update_resets_file_count:
  assumes "UpdateSubmission env sub st = (Inr sub', st')" and "form_updates_save env"
    and "fe_uploader env = Some u" and "fs_Data sub = RawJson (VMap m)" and "inline_files (VMap m) = 0"
    and "db_get (fm_subs st) (bm_ID sub) = Some old" and "live sub"
  shows "sub' = sub\<lparr>fs_FileCount := 0\<rparr> \<and> db_get (fm_subs st') (bm_ID sub) = Some sub' \<and> fm_uploads st' = fm_uploads st"
proof -
  have "sub\<lparr>fs_FileCount := 0, fs_Data := RawJson (VMap m)\<rparr> = sub\<lparr>fs_FileCount := 0\<rparr>"
    using assms(4) by (cases sub) simp
  moreover have "ProcessFields u m ups = (Inr (m, 0), ups)" for ups
    using walk_plain(1) [OF assms(5)] by (simp add: ProcessFields_def del: walkAndReplace.simps)
  ultimately have "process_data env sub st = (Inr (sub\<lparr>fs_FileCount := 0\<rparr>), st)"
    using assms(3,4) by (simp add: process_data_def)
  then have r: "set_subs (labelled ''update form submission'' (fe_UpdateSub env (sub\<lparr>fs_FileCount := 0\<rparr>) (fm_subs st)))
      (sub\<lparr>fs_FileCount := 0\<rparr>) st = (Inr sub', st')"
    using assms(1) by (auto simp: UpdateSubmission_def split: if_splits sum.splits)
  from set_subs_InrD [OF this] obtain tbl where tbl: "fe_UpdateSub env (sub\<lparr>fs_FileCount := 0\<rparr>) (fm_subs st) = Inr tbl"
    and s: "sub' = sub\<lparr>fs_FileCount := 0\<rparr>" "st' = st\<lparr>fm_subs := tbl\<rparr>"
    unfolding labelled_iff by blast
  have "db_save submission_conflict sub' (fm_subs st) = Some tbl"
    using assms(2) tbl unfolding form_updates_save_def s(1) by blast
  from db_get_save [OF this] have "db_get tbl (bm_ID sub) = Some sub'"
    using assms(6,7) unfolding s(1) live_def by simp
  then show ?thesis unfolding s by simp
qed

section \<open>Requests\<close>

definition form_step :: "'schema FormState \<Rightarrow> 'schema FormState \<Rightarrow> bool" where
  "form_step st st' \<longleftrightarrow> (keys_ok (fm_subs st) \<longrightarrow> keys_ok (fm_subs st'))"

definition same_tables :: "'schema FormState \<Rightarrow> 'schema FormState \<Rightarrow> bool" where
  "same_tables st st' \<longleftrightarrow> fm_defs st' = fm_defs st \<and> fm_subs st' = fm_subs st"

interpretation form_contract: api_contract form_step same_tables
  by unfold_locales (simp_all add: form_step_def same_tables_def)

text \<open>An operation of the store: it keeps the keys, and when it fails, the tables.\<close>

definition good_op :: "'schema FormState \<Rightarrow> 'a result \<times> 'schema FormState \<Rightarrow> bool" where
  "good_op st a \<longleftrightarrow> form_step st (snd a) \<and> (is_ok (fst a) \<or> same_tables st (snd a))"

lemma same_step: "same_tables st st' \<Longrightarrow> form_step st st'"
  by (simp add: same_tables_def form_step_def)

lemma good_same: "same_tables st (snd a) \<Longrightarrow> good_op st a"
  by (simp add: good_op_def same_step)

lemma same_tables_refl [simp]: "same_tables st st"
  by (simp add: same_tables_def)

lemma sound_form_calling:
  assumes "good_op st a" and "\<And>x. \<not> refused (k x)"
  shows "sound_answer form_step same_tables st (form_calling a k)"
  using assms by (cases a) (auto simp: form_calling_def calling_def sound_answer_def good_op_def split: sum.splits prod.splits)

lemma keys_ok_save:
  assumes "db_save submission_conflict row tbl = Some tbl'" and "keys_ok tbl"
  shows "keys_ok tbl'"
proof -
  have t: "tbl' = map (\<lambda>r. if bm_ID r = bm_ID row then row else r) tbl"
    and c: "\<And>r. r \<in> set tbl \<Longrightarrow> bm_ID r \<noteq> bm_ID row \<Longrightarrow> live r \<Longrightarrow> \<not> submission_conflict r row"
    using assms(1) by (auto simp: db_save_def list_ex_iff split: if_splits)
  have rows: "r = row \<or> r \<in> set tbl \<and> bm_ID r \<noteq> bm_ID row" if "r \<in> set tbl'" for r
    using that unfolding t by (auto split: if_splits)
  have other: "fs_IdempotencyKey r \<noteq> fs_IdempotencyKey row \<or> fs_IdempotencyKey row = []"
    if "r \<in> set tbl" "bm_ID r \<noteq> bm_ID row" "live r" for r
    using c [OF that] by (simp add: submission_conflict_def)
  have "r = s" if "r \<in> set tbl'" "s \<in> set tbl'" and live: "live r" "live s" and key: "fs_IdempotencyKey r = fs_IdempotencyKey s"
    "fs_IdempotencyKey r \<noteq> []" for r s
    using rows [OF that(1)] rows [OF that(2)]
  proof (elim disjE conjE)
    assume "r \<in> set tbl" "s \<in> set tbl"
    then show ?thesis using assms(2) live key unfolding keys_ok_def by blast
  qed (use other live key in metis)+
  moreover have "ids_ok tbl'" using ids_ok_save [OF assms(1)] assms(2) by (simp add: keys_ok_def)
  ultimately show ?thesis unfolding keys_ok_def by blast
qed

lemma ids_ok_delete: "ids_ok (db_update P (\<lambda>r. r\<lparr>bm_DeletedAt := d\<rparr>) tbl) = ids_ok tbl"
proof -
  have "map bm_ID (db_update P (\<lambda>r. r\<lparr>bm_DeletedAt := d\<rparr>) tbl) = map bm_ID tbl"
    by (induction tbl) (auto simp: db_update_def)
  then show ?thesis by (simp only: ids_ok_def)
qed

lemma keys_ok_delete:
  "keys_ok tbl \<Longrightarrow> keys_ok (db_update (\<lambda>r. bm_ID r = i) (\<lambda>r. r\<lparr>bm_DeletedAt := Some now\<rparr>) tbl)"
proof -
  assume k: "keys_ok tbl"
  have "ids_ok (db_update (\<lambda>r. bm_ID r = i) (\<lambda>r. r\<lparr>bm_DeletedAt := Some now\<rparr>) tbl)"
    using k by (simp add: keys_ok_def ids_ok_delete)
  moreover have "r \<in> set tbl" if "r \<in> set (db_update (\<lambda>r. bm_ID r = i) (\<lambda>r. r\<lparr>bm_DeletedAt := Some now\<rparr>) tbl)" "live r" for r
    using that by (auto simp: db_update_def live_def split: if_splits)
  ultimately show ?thesis using k unfolding keys_ok_def by blast
qed

lemma keys_ok_append:
  assumes "keys_ok tbl" "ids_ok (tbl @ [s])" "with_key (fs_IdempotencyKey s) tbl = {} \<or> fs_IdempotencyKey s = []"
  shows "keys_ok (tbl @ [s])"
  using assms unfolding keys_ok_def with_key_def by auto

lemma good_set_subs:
  assumes "\<And>tbl. r = Inr tbl \<Longrightarrow> keys_ok (fm_subs st) \<Longrightarrow> keys_ok tbl"
  shows "good_op st (set_subs r x st)"
  using assms by (cases r) (auto simp: set_subs_def good_op_def form_step_def)

lemma good_set_defs: "good_op st (set_defs r x st)"
  by (cases r) (auto simp: set_defs_def good_op_def form_step_def)

lemma good_transfer: "same_tables st st1 \<Longrightarrow> good_op st1 a \<Longrightarrow> good_op st a"
  by (auto simp: good_op_def same_tables_def form_step_def)

lemma good_checked_schema:
  assumes "\<And>st1. same_tables st st1 \<Longrightarrow> good_op st1 (k st1)"
  shows "good_op st (checked_schema env schemaJSON k st)"
proof -
  have "same_tables st (st\<lparr>fm_validator := v\<rparr>)" for v by (simp add: same_tables_def)
  with assms show ?thesis
    by (auto simp: checked_schema_def intro: good_same good_transfer split: prod.splits sum.splits)
qed

lemma good_definitions:
  "good_op st (CreateDefinition env now newID def st)" "good_op st (UpdateDefinition env def st)"
  "good_op st (DeleteDefinition env now i st)"
proof -
  show "good_op st (CreateDefinition env now newID def st)"
    unfolding CreateDefinition_def by (rule good_checked_schema) (simp add: Let_def good_set_defs)
  show "good_op st (UpdateDefinition env def st)"
    unfolding UpdateDefinition_def by (rule good_checked_schema) (simp add: good_set_defs)
  show "good_op st (DeleteDefinition env now i st)"
    by (auto simp: DeleteDefinition_def good_set_defs good_same split: sum.splits)
qed

lemma process_data_tables: "same_tables st (snd (process_data env sub st))"
  by (auto simp: same_tables_def process_data_def split: option.splits raw_json.splits any.splits sum.splits prod.splits)

lemma check_submission_tables: "same_tables st (snd (check_submission env sub st))"
  by (auto simp: same_tables_def check_submission_def split: sum.splits prod.splits)

lemma good_insert_submission:
  assumes "newID \<noteq> []"
  shows "good_op st (insert_submission env now newID sub st)"
proof (cases "fst (insert_submission env now newID sub st)")
  case (Inl err)
  then show ?thesis
    by (intro good_same) (auto simp: insert_submission_def Let_def split: sum.splits option.splits)
next
  case (Inr s)
  obtain st' where st': "insert_submission env now newID sub st = (Inr s, st')" using Inr by (metis prod.collapse)
  have "keys_ok (fm_subs st')" if k: "keys_ok (fm_subs st)"
  proof (cases "fm_subs st' = fm_subs st")
    case False
    with insert_submission_InrD [OF st'] have new: "fm_subs st' = fm_subs st @ [s]"
      "db_insert submission_conflict s (fm_subs st) = Some (fm_subs st')" by auto
    have "fs_IdempotencyKey s = [] \<or> with_key (fs_IdempotencyKey s) (fm_subs st) = {}"
      using insert_no_key [OF new(2)] by blast
    moreover have "bm_ID s \<noteq> []"
      using st' False assms unfolding insert_submission_def Let_def
      by (auto simp: with_id_def split: sum.splits option.splits if_splits)
    then have "ids_ok (fm_subs st @ [s])"
      using ids_ok_insert [OF new(2)] k new(1) by (simp add: keys_ok_def)
    ultimately show ?thesis using keys_ok_append [OF k] new(1) by auto
  qed (use k in simp)
  then show ?thesis using st' by (simp add: good_op_def form_step_def)
qed

lemma good_CreateSubmission:
  assumes "newID \<noteq> []"
  shows "good_op st (CreateSubmission env now newID sub st)"
proof -
  let ?sub = "sub\<lparr>fs_Metadata := json_default (VMap []) (fs_Metadata sub)\<rparr>"
  obtain c st1 where c: "check_submission env ?sub st = (c, st1)" by fastforce
  obtain p st2 where p: "process_data env ?sub st1 = (p, st2)" by fastforce
  have t: "same_tables st st1" "same_tables st st2"
    using check_submission_tables [of st env ?sub] process_data_tables [of st1 env ?sub] c p
    by (auto simp: same_tables_def)
  then show ?thesis
    using c p good_transfer [OF t(2) good_insert_submission [OF assms]]
    by (auto simp: CreateSubmission_def Let_def intro: good_same split: sum.splits option.splits)
qed

lemma good_UpdateSubmission:
  assumes "form_updates_save env"
  shows "good_op st (UpdateSubmission env sub st)"
proof -
  obtain p st2 where p: "process_data env sub st = (p, st2)" by fastforce
  have t: "same_tables st st2" using process_data_tables [of st env sub] p by simp
  have "keys_ok tbl" if "fe_UpdateSub env sub' (fm_subs st2) = Inr tbl" "keys_ok (fm_subs st2)" for sub' tbl
    using assms that keys_ok_save unfolding form_updates_save_def by blast
  then have "good_op st (set_subs (labelled ''update form submission'' (fe_UpdateSub env sub' (fm_subs st2))) sub' st2)" for sub'
    by (intro good_transfer [OF t] good_set_subs) (auto simp: labelled_iff)
  then show ?thesis
    using p t by (auto simp: UpdateSubmission_def intro: good_same split: sum.splits)
qed

lemma good_DeleteSubmission: "good_op st (DeleteSubmission env now i st)"
proof -
  have "good_op st (set_subs (labelled l (form_SoftDelete env l' now j (fm_subs st))) () st)" for l l' j
    by (rule good_set_subs) (auto simp: form_SoftDelete_def res_simps keys_ok_delete)
  then show ?thesis
    by (auto simp: DeleteSubmission_def good_same split: sum.splits)
qed

lemmas form_sound = form_contract.sound_intros form_contract.sound_require_auth sound_form_calling

lemma good_read: "good_op st (r, st)"
  by (rule good_same) simp

lemma sound_form_handlers:
  assumes "fa_newID api \<noteq> []" and "form_updates_save (fa_env api)"
  shows "list_all (\<lambda>(m, p, h). sound_handler form_step same_tables h) (form_routes api)"
  unfolding form_routes_def list.pred_inject prod.case Form_Create_def Form_List_def Form_Get_def Form_Update_def Form_Delete_def
    Form_Submit_def limited_def Submission_ListByForm_def Submission_Get_def Submission_Update_def Submission_Delete_def
  by (intro conjI form_sound TrueI good_read good_definitions good_CreateSubmission good_UpdateSubmission good_DeleteSubmission
      assms; simp)

text \<open>Requests to the form store. Whatever the method, path, claims and body, a request keeps at most one live submission
  per idempotency key; a reply with an error status (400 and above) leaves both tables as they were, though files may
  have been uploaded; a request without claims is always refused.\<close>
theorem form_requests_keep_keys:
  assumes "fa_newID api \<noteq> []" and "form_updates_save (fa_env api)" and "keys_ok (fm_subs st)"
  shows "keys_ok (fm_subs (snd (serve_forms api meth path r st))) \<and>
    (refused (fst (serve_forms api meth path r st)) \<longrightarrow> same_tables st (snd (serve_forms api meth path r st))) \<and>
    (aq_claims r = None \<longrightarrow> refused (fst (serve_forms api meth path r st)))"
  using form_contract.sound_serve_mux [OF sound_form_handlers [OF assms(1,2)], of meth path] assms(3)
  by (auto simp: serve_forms_def sound_handler_def sound_answer_def form_step_def)

section \<open>An example\<close>

definition ex_form_env :: "(unit, unit) form_env" where
  "ex_form_env = \<lparr>fe_F = no_faults, fe_UpdateDef = save no_faults ''update'' form_conflict,
     fe_UpdateSub = save no_faults ''update'' submission_conflict, fe_uploader = Some (\<lambda>f. Inr ''mxc://files/1''),
     fe_UnmarshalJSON = (\<lambda>_. Inr ()), fe_AddResource = (\<lambda>_ _. Inr ()), fe_Compile = (\<lambda>_ _. Inr ()),
     fe_Validate = (\<lambda>_ _. Inr ())\<rparr>"

definition ex_forms :: "unit FormState" where
  "ex_forms = \<lparr>fm_defs = [], fm_subs = [], fm_validator = NewSchemaValidator, fm_uploads = []\<rparr>"

definition ex_submission :: FormSubmission where
  "ex_submission = \<lparr>bm_ID = [], bm_CreatedAt = 0, bm_ModifiedAt = 0, bm_DeletedAt = None, fs_FormID = ''f'',
     fs_SubmitterID = [], fs_Status = SubmissionStatusPending,
     fs_Data = RawJson (VMap [(''photo'', VStr ''data:image/png;base64,QQ=='')]), fs_FileCount = 0,
     fs_IdempotencyKey = ''k'', fs_Metadata = RawEmpty\<rparr>"

definition ex_stored_data :: go_map where
  "ex_stored_data = [(''photo'', file_ref ''mxc://files/1'' \<lparr>uf_Filename = ''upload.png'', uf_ContentType = ''image/png'', uf_Data = ''A''\<rparr>)]"

definition ex_stored :: FormSubmission where
  "ex_stored = ex_submission\<lparr>bm_ID := ''s1'', bm_CreatedAt := 5, bm_ModifiedAt := 5, fs_Data := RawJson (VMap ex_stored_data),
     fs_FileCount := 1, fs_Metadata := RawJson (VMap [])\<rparr>"

definition ex_after :: "unit FormState" where
  "ex_after = ex_forms\<lparr>fm_subs := [ex_stored], fm_uploads := [\<lparr>uf_Filename = ''upload.png'', uf_ContentType = ''image/png'', uf_Data = ''A''\<rparr>]\<rparr>"

lemma ex_form_env_saves: "form_updates_save ex_form_env"
  by (auto simp: form_updates_save_def ex_form_env_def dest: save_InrD)

lemma ex_create: "CreateSubmission ex_form_env 5 ''s1'' ex_submission ex_forms = (Inr ex_stored, ex_after)"
  by code_simp

lemma ex_keys: "keys_ok (fm_subs ex_forms)" "keys_ok (fm_subs ex_after)"
  by (simp_all add: keys_ok_def ids_ok_def ex_forms_def ex_after_def ex_stored_def)

lemma submission_idempotent_witness: "with_key ''k'' (fm_subs ex_after) = {ex_stored}"
  using submission_idempotent [OF ex_create ex_keys(1)] by (simp add: ex_submission_def)

lemma update_resets_file_count_witness:
  "fs_FileCount ex_stored = 1 \<and>
   (\<exists>sub' st'. UpdateSubmission ex_form_env ex_stored ex_after = (Inr sub', st') \<and> fs_FileCount sub' = 0 \<and>
      fm_uploads st' = fm_uploads ex_after)"
proof -
  have "is_ok (fst (UpdateSubmission ex_form_env ex_stored ex_after))" by code_simp
  then obtain sub' st' where u: "UpdateSubmission ex_form_env ex_stored ex_after = (Inr sub', st')"
    by (metis is_okD prod.collapse)
  have "fe_uploader ex_form_env = Some (\<lambda>f. Inr ''mxc://files/1'')" "fs_Data ex_stored = RawJson (VMap ex_stored_data)"
    "live ex_stored" "db_get (fm_subs ex_after) (bm_ID ex_stored) = Some ex_stored" "fs_FileCount ex_stored = 1"
    by (simp_all add: ex_form_env_def ex_stored_def ex_after_def live_def db_get_def ex_submission_def)
  moreover have "inline_files (VMap ex_stored_data) = 0" by code_simp
  ultimately show ?thesis
    using update_resets_file_count [OF u ex_form_env_saves] u by auto
qed

definition ex_form_api :: "(unit, unit) form_api" where
  "ex_form_api = \<lparr>fa_env = ex_form_env, fa_now = 6, fa_newID = ''s2'', fa_allow = (\<lambda>_. True)\<rparr>"

definition ex_form_request :: api_request where
  "ex_form_request = \<lparr>aq_claims = Some ''t'', aq_path = [], aq_query = [],
     aq_body = RawJson (VMap [(''data'', VMap []), (''idempotency_key'', VStr ''k'')])\<rparr>"

lemma form_requests_keep_keys_witness:
  "ap_Status (fst (serve_forms ex_form_api ''POST'' ''/api/v1/forms/g/submissions'' ex_form_request ex_after)) = 201 \<and>
   keys_ok (fm_subs (snd (serve_forms ex_form_api ''POST'' ''/api/v1/forms/g/submissions'' ex_form_request ex_after)))"
proof
  show "ap_Status (fst (serve_forms ex_form_api ''POST'' ''/api/v1/forms/g/submissions'' ex_form_request ex_after)) = 201"
    by code_simp
  show "keys_ok (fm_subs (snd (serve_forms ex_form_api ''POST'' ''/api/v1/forms/g/submissions'' ex_form_request ex_after)))"
    by (rule form_requests_keep_keys [THEN conjunct1])
      (simp_all add: ex_form_api_def ex_form_env_saves ex_keys)
qed

section \<open>Uploads in chunks\<close>

fun chunk_bytes :: "upload_message \<Rightarrow> string" where
  "chunk_bytes (UploadChunk d) = d" | "chunk_bytes (UploadMetadata _ _ _) = []"

text \<open>The chunks of an upload are its bytes; each is at most 64 KB and none is empty.\<close>

lemma upload_chunks_correct:
  "concat (map chunk_bytes (upload_chunks d)) = d"
  "m \<in> set (upload_chunks d) \<Longrightarrow> chunk_bytes m \<noteq> [] \<and> length (chunk_bytes m) \<le> uploadChunkSize"
proof (induction d rule: upload_chunks.induct)
  case (1 d)
  { case 1 then show ?case using "1.IH" by (subst upload_chunks.simps) auto }
  { case 2 then show ?case using "1.IH" by (subst (asm) upload_chunks.simps) (auto simp: uploadChunkSize_def split: if_splits) }
qed

end
