(* ===== verification/List_Pages.thy ===== *)
theory List_Pages
  imports Work_Control Event_Repository Http_Api Go_Time_Parse
begin

text \<open>
  \<open>repository/pagination.go\<close> and the listings of workflows, instances and executions: a page holds
  the newest matching rows after a cursor, and the cursor of the next page names its last row. A
  cursor is an opaque text, the unpadded base64 of a JSON object; like JSON text it is kept up to
  what decoding it gives. Ids are compared byte by byte.
\<close>

section \<open>Cursors (pagination.go)\<close>

datatype page_token = NoToken | BadToken string | Token raw_json

record listCursor =
  lc_CreatedAt :: int
  lc_ID :: string

definition zero_cursor :: listCursor where
  "zero_cursor = \<lparr>lc_CreatedAt = zero_time, lc_ID = []\<rparr>"

text \<open>\<open>Time.UnmarshalJSON\<close> and \<open>Time.MarshalJSON\<close>, which refuses years outside 0 to 9999.\<close>

definition as_time :: "int \<Rightarrow> any \<Rightarrow> int option" where
  "as_time old v = (case v of VNil \<Rightarrow> Some old | VStr s \<Rightarrow> parse_RFC3339 s | _ \<Rightarrow> None)"

definition json_year :: "int \<Rightarrow> bool" where
  "json_year t \<longleftrightarrow> (case civil_from_days (t div second div 86400) of (y, _, _) \<Rightarrow> 0 \<le> y \<and> y \<le> 9999)"

definition decodeListCursor :: "page_token \<Rightarrow> listCursor result" where
  "decodeListCursor raw = (case raw of
     NoToken \<Rightarrow> Inr zero_cursor
   | BadToken s \<Rightarrow> Inl (wrap ''decode cursor'' (Errf ''illegal base64 data'' [EStr s]))
   | Token blob \<Rightarrow>
       and_then (labelled ''unmarshal cursor'' (and_then (decode_object blob) (\<lambda>m.
         and_then (struct_field as_time zero_time ''created_at'' m) (\<lambda>createdAt.
         and_then (string_field ''id'' m) (\<lambda>i. Inr \<lparr>lc_CreatedAt = createdAt, lc_ID = i\<rparr>))))) (\<lambda>cursor.
       if lc_ID cursor = [] \<or> lc_CreatedAt cursor = zero_time then Inl (Errf ''invalid cursor'' []) else Inr cursor))"

definition encodeListCursor :: "int \<Rightarrow> string \<Rightarrow> page_token" where
  "encodeListCursor createdAt i =
     (if i = [] \<or> createdAt = zero_time then NoToken
      else if \<not> json_year createdAt then NoToken
      else Token (RawJson (VMap [(''created_at'', json_time createdAt), (''id'', VStr i)])))"

text \<open>The condition the cursor adds to a query.\<close>

definition after_cursor :: "listCursor \<Rightarrow> 'a base_model_scheme \<Rightarrow> bool" where
  "after_cursor cursor r \<longleftrightarrow> lc_ID cursor = [] \<or> lc_CreatedAt cursor = zero_time \<or>
     bm_CreatedAt r < lc_CreatedAt cursor \<or> bm_CreatedAt r = lc_CreatedAt cursor \<and> bm_ID r < lc_ID cursor"

section \<open>Searching\<close>

text \<open>
  \<open>ILIKE\<close>: a percent sign stands for any text, an underscore for one character, a backslash makes
  the next character an ordinary one. The search texts are put between percent signs unchanged.
\<close>

fun like_match :: "string \<Rightarrow> string \<Rightarrow> bool" where
  "like_match [] t \<longleftrightarrow> t = []"
| "like_match (c # p) [] \<longleftrightarrow> c = CHR ''%'' \<and> like_match p []"
| "like_match (c # p) (x # t) \<longleftrightarrow>
     (if c = CHR ''%'' then like_match p (x # t) \<or> like_match (c # p) t
      else if c = CHR ''_'' then like_match p t
      else if c = CHR 0x5C then (case p of [] \<Rightarrow> False | d # p' \<Rightarrow> d = x \<and> like_match p' t)
      else c = x \<and> like_match p t)"

definition ilike :: "string \<Rightarrow> string \<Rightarrow> bool" where
  "ilike column q \<longleftrightarrow> like_match (ToLower (''%'' @ q @ ''%'')) (ToLower column)"

definition given_eq :: "string \<Rightarrow> string \<Rightarrow> bool" where
  "given_eq wanted column \<longleftrightarrow> wanted = [] \<or> column = wanted"

definition found_in :: "string \<Rightarrow> string list \<Rightarrow> bool" where
  "found_in query columns \<longleftrightarrow> (let q = TrimSpace query in q = [] \<or> list_ex (\<lambda>column. ilike column q) columns)"

section \<open>A page\<close>

record 'r page =
  pg_Items :: "'r list"
  pg_NextCursor :: page_token

definition row_key :: "'a base_model_scheme \<Rightarrow> int \<times> string" where
  "row_key r = (bm_CreatedAt r, bm_ID r)"

definition newest_first :: "'a base_model_scheme list \<Rightarrow> 'a base_model_scheme list" where
  "newest_first rows = rev (sort_key row_key rows)"

text \<open>\<open>Order("created_at DESC, id DESC").Limit(limit + 1)\<close>, cut to the page with the cursor of the next.\<close>

definition cut_page :: "int \<Rightarrow> 'a base_model_scheme list \<Rightarrow> 'a base_model_scheme page" where
  "cut_page limit rows =
     (let n = nat limit; found = take (n + 1) (newest_first rows) in
      if length found > n
      then \<lparr>pg_Items = take n found,
            pg_NextCursor = encodeListCursor (bm_CreatedAt (found ! (n - 1))) (bm_ID (found ! (n - 1)))\<rparr>
      else \<lparr>pg_Items = found, pg_NextCursor = NoToken\<rparr>)"

definition fetch_page ::
    "faults \<Rightarrow> string \<Rightarrow> string \<Rightarrow> int \<Rightarrow> page_token \<Rightarrow> ('a base_model_scheme \<Rightarrow> bool) \<Rightarrow> 'a base_model_scheme list
      \<Rightarrow> 'a base_model_scheme page result" where
  "fetch_page F cursor_label label limit token P tbl =
     and_then (labelled cursor_label (decodeListCursor token)) (\<lambda>cursor.
     and_then (stmt F label) (\<lambda>_.
       Inr (cut_page (normalizeListLimit limit) (db_select (\<lambda>r. P r \<and> after_cursor cursor r) tbl))))"

section \<open>Workflows (workflow_definition.go, business/workflow.go)\<close>

record WorkflowListFilter =
  wl_Name :: string
  wl_Query :: string
  wl_IDQuery :: string
  wl_Cursor :: page_token
  wl_Limit :: int

definition definition_matches :: "WorkflowListFilter \<Rightarrow> WorkflowDefinition \<Rightarrow> bool" where
  "definition_matches f d \<longleftrightarrow> wd_Status d = WorkflowStatusActive \<and> given_eq (wl_Name f) (wd_Name d) \<and>
     found_in (wl_IDQuery f) [bm_ID d] \<and> found_in (wl_Query f) [bm_ID d, wd_Name d]"

definition Def_ListPage :: "engine_env \<Rightarrow> WorkflowListFilter \<Rightarrow> EngineState \<Rightarrow> WorkflowDefinition page result" where
  "Def_ListPage env f st =
     fetch_page (ee_F env) ''list workflow definitions'' ''list active workflows'' (wl_Limit f) (wl_Cursor f)
       (definition_matches f) (es_defs st)"

definition ListActiveByName :: "engine_env \<Rightarrow> string \<Rightarrow> int \<Rightarrow> EngineState \<Rightarrow> WorkflowDefinition list result" where
  "ListActiveByName env name limit st =
     and_then (Def_ListPage env \<lparr>wl_Name = name, wl_Query = [], wl_IDQuery = [], wl_Cursor = NoToken, wl_Limit = limit\<rparr> st)
       (\<lambda>p. Inr (pg_Items p))"

definition ListWorkflows :: "engine_env \<Rightarrow> string \<Rightarrow> int \<Rightarrow> EngineState \<Rightarrow> WorkflowDefinition list result" where
  "ListWorkflows env name limit st = ListActiveByName env name limit st"

definition SearchWorkflows :: "engine_env \<Rightarrow> WorkflowListFilter \<Rightarrow> EngineState \<Rightarrow> WorkflowDefinition page result" where
  "SearchWorkflows env f st =
     and_then (Def_ListPage env f st) (\<lambda>p. Inr \<lparr>pg_Items = pg_Items p, pg_NextCursor = pg_NextCursor p\<rparr>)"

section \<open>Instances (workflow_instance.go)\<close>

record WorkflowInstanceListFilter =
  il_Status :: string
  il_WorkflowName :: string
  il_Query :: string
  il_IDQuery :: string
  il_ParentInstanceID :: string
  il_ParentExecutionID :: string
  il_Cursor :: page_token
  il_Limit :: int

definition instance_matches :: "WorkflowInstanceListFilter \<Rightarrow> WorkflowInstance \<Rightarrow> bool" where
  "instance_matches f i \<longleftrightarrow> given_eq (il_Status f) (instance_status_string (wi_Status i)) \<and>
     given_eq (il_WorkflowName f) (wi_WorkflowName i) \<and> given_eq (il_ParentInstanceID f) (wi_ParentInstanceID i) \<and>
     given_eq (il_ParentExecutionID f) (wi_ParentExecutionID i) \<and> found_in (il_IDQuery f) [bm_ID i] \<and>
     found_in (il_Query f) [bm_ID i, wi_WorkflowName i, wi_CurrentState i, instance_status_string (wi_Status i),
       wi_TriggerEventID i, wi_ParentInstanceID i, wi_ParentExecutionID i]"

definition Instance_ListPage ::
    "engine_env \<Rightarrow> WorkflowInstanceListFilter \<Rightarrow> EngineState \<Rightarrow> WorkflowInstance page result" where
  "Instance_ListPage env f st =
     fetch_page (ee_F env) ''list instances'' ''list instances'' (il_Limit f) (il_Cursor f) (instance_matches f) (es_instances st)"

definition Instance_List :: "engine_env \<Rightarrow> string \<Rightarrow> string \<Rightarrow> int \<Rightarrow> EngineState \<Rightarrow> WorkflowInstance list result" where
  "Instance_List env status workflowName limit st =
     and_then (Instance_ListPage env \<lparr>il_Status = status, il_WorkflowName = workflowName, il_Query = [], il_IDQuery = [],
       il_ParentInstanceID = [], il_ParentExecutionID = [], il_Cursor = NoToken, il_Limit = limit\<rparr> st) (\<lambda>p. Inr (pg_Items p))"

section \<open>Executions (workflow_execution.go)\<close>

record WorkflowExecutionListFilter =
  xl_Status :: string
  xl_InstanceID :: string
  xl_Query :: string
  xl_IDQuery :: string
  xl_Cursor :: page_token
  xl_Limit :: int

definition execution_matches :: "WorkflowExecutionListFilter \<Rightarrow> WorkflowStateExecution \<Rightarrow> bool" where
  "execution_matches f e \<longleftrightarrow> given_eq (xl_Status f) (execution_status_string (ex_Status e)) \<and>
     given_eq (xl_InstanceID f) (ex_InstanceID e) \<and> found_in (xl_IDQuery f) [bm_ID e] \<and>
     found_in (xl_Query f) [bm_ID e, ex_InstanceID e, ex_State e, execution_status_string (ex_Status e), ex_TraceID e,
       ex_ErrorClass e, ex_ErrorMessage e]"

definition Exec_ListPage ::
    "engine_env \<Rightarrow> WorkflowExecutionListFilter \<Rightarrow> EngineState \<Rightarrow> WorkflowStateExecution page result" where
  "Exec_ListPage env f st =
     fetch_page (ee_F env) ''list executions'' ''list executions'' (xl_Limit f) (xl_Cursor f) (execution_matches f) (es_execs st)"

definition Exec_List :: "engine_env \<Rightarrow> string \<Rightarrow> string \<Rightarrow> int \<Rightarrow> EngineState \<Rightarrow> WorkflowStateExecution list result" where
  "Exec_List env status instanceID limit st =
     and_then (Exec_ListPage env \<lparr>xl_Status = status, xl_InstanceID = instanceID, xl_Query = [], xl_IDQuery = [],
       xl_Cursor = NoToken, xl_Limit = limit\<rparr> st) (\<lambda>p. Inr (pg_Items p))"

section \<open>Outputs (workflow_output.go)\<close>

definition Output_GetByExecution :: "engine_env \<Rightarrow> string \<Rightarrow> EngineState \<Rightarrow> WorkflowStateOutput result" where
  "Output_GetByExecution env executionID st =
     and_then (stmt (ee_F env) ''get output by execution'') (\<lambda>_.
       case first_by bm_ID (db_select (\<lambda>r. so_ExecutionID r = executionID) (es_outputs st)) of
         None \<Rightarrow> Inl (wrap ''get output by execution'' ErrRecordNotFound)
       | Some r \<Rightarrow> Inr r)"

definition Output_ListByInstance :: "engine_env \<Rightarrow> string \<Rightarrow> int \<Rightarrow> EngineState \<Rightarrow> WorkflowStateOutput list result" where
  "Output_ListByInstance env instanceID limit st =
     and_then (stmt (ee_F env) ''list outputs by instance'') (\<lambda>_.
       Inr (take (list_limit limit) (sort_key bm_CreatedAt (db_select (\<lambda>r. so_InstanceID r = instanceID) (es_outputs st)))))"

end
