(* ===== verification/List_Pages_Correct.thy ===== *)
theory List_Pages_Correct
  imports List_Pages Go_Time_Correct Engine_Correct
begin

text \<open>
  Following the cursors of a listing page by page, over tables that do not change meanwhile, gives
  every matching row exactly once, newest first.
\<close>

section \<open>Cursors\<close>

lemma ordinary_json_year: "ordinary_time t \<Longrightarrow> json_year t"
proof -
  assume t: "ordinary_time t"
  obtain y m d where c: "civil_from_days (t div second div 86400) = (y, m, d)" by (metis prod.exhaust)
  from t have "0 \<le> y \<and> y < 10000" by (intro ordinary_year [OF _ _ c]) (simp_all only: ordinary_time_def Let_def)
  then show ?thesis unfolding json_year_def c by simp
qed

lemma decode_encode_cursor:
  assumes "ordinary_time t" "t \<noteq> zero_time" "i \<noteq> []"
  shows "decodeListCursor (encodeListCursor t i) = Inr \<lparr>lc_CreatedAt = t, lc_ID = i\<rparr>" "encodeListCursor t i \<noteq> NoToken"
proof -
  have names: "ToLower ''created_at'' = ''created_at''" "ToLower ''id'' = ''id''" by code_simp+
  show "encodeListCursor t i \<noteq> NoToken"
    using assms by (simp add: encodeListCursor_def ordinary_json_year)
  show "decodeListCursor (encodeListCursor t i) = Inr \<lparr>lc_CreatedAt = t, lc_ID = i\<rparr>"
    using assms parse_format_RFC3339Nano [OF assms(1)]
    by (simp add: encodeListCursor_def ordinary_json_year decodeListCursor_def decode_object_def struct_field_def
      string_field_def names as_time_def as_string_def json_time_def labelled_def)
qed

section \<open>Newest first\<close>

lemma newest_first_filter: "newest_first (filter Q rows) = filter Q (newest_first rows)"
  by (simp add: newest_first_def filter_sort [symmetric] rev_filter)

lemma set_newest_first [simp]: "set (newest_first rows) = set rows"
  by (simp add: newest_first_def)

lemma length_newest_first [simp]: "length (newest_first rows) = length rows"
  by (simp add: newest_first_def)

abbreviation decreasing :: "'a base_model_scheme list \<Rightarrow> bool" where
  "decreasing \<equiv> sorted_wrt (\<lambda>a b. row_key b < row_key a)"

lemma decreasing_newest_first:
  assumes "distinct (map bm_ID rows)"
  shows "decreasing (newest_first rows)"
proof -
  have "map bm_ID rows = map snd (map row_key rows)" by (simp add: row_key_def comp_def)
  then have "distinct (map row_key rows)" using assms by (metis distinct_map)
  then have "distinct (map row_key (sort_key row_key rows))"
    by (simp add: distinct_map inj_on_def)
  then have "sorted_wrt (<) (map row_key (sort_key row_key rows))"
    by (simp add: strict_sorted_iff)
  then show ?thesis by (simp add: newest_first_def sorted_wrt_rev sorted_wrt_map)
qed

lemma decreasing_drop:
  "decreasing rows \<Longrightarrow> 0 < m \<Longrightarrow> m \<le> length rows \<Longrightarrow>
     filter (\<lambda>r. row_key r < row_key (rows ! (m - 1))) rows = drop m rows"
proof (induction rows arbitrary: m)
  case (Cons a rows)
  show ?case
  proof (cases "m = 1")
    case True
    then show ?thesis using Cons.prems by (auto simp: filter_id_conv)
  next
    case False
    then obtain k where k: "m = Suc k" "0 < k" using Cons.prems by (cases m) auto
    then have "rows ! (k - 1) \<in> set rows" using Cons.prems by auto
    then have "\<not> row_key a < row_key (rows ! (k - 1))" using Cons.prems(1) by (simp add: less_not_sym)
    then show ?thesis using Cons k by (simp add: nth_Cons')
  qed
qed simp

section \<open>Following the cursors\<close>

fun pages :: "nat \<Rightarrow> (page_token \<Rightarrow> 'r page result) \<Rightarrow> page_token \<Rightarrow> 'r list result" where
  "pages 0 fetch token = Inr []"
| "pages (Suc n) fetch token = and_then (fetch token) (\<lambda>p.
     if pg_NextCursor p = NoToken then Inr (pg_Items p)
     else and_then (pages n fetch (pg_NextCursor p)) (\<lambda>rest. Inr (pg_Items p @ rest)))"

definition pageable :: "'a base_model_scheme list \<Rightarrow> bool" where
  "pageable tbl \<longleftrightarrow> ids_ok tbl \<and> list_all (\<lambda>r. ordinary_time (bm_CreatedAt r) \<and> bm_CreatedAt r \<noteq> zero_time) tbl"

lemma cut_page_drop:
  assumes "0 < limit"
  shows "cut_page limit rows = (if length rows \<le> nat limit then \<lparr>pg_Items = newest_first rows, pg_NextCursor = NoToken\<rparr>
    else \<lparr>pg_Items = take (nat limit) (newest_first rows),
          pg_NextCursor = (let r = newest_first rows ! (nat limit - 1) in encodeListCursor (bm_CreatedAt r) (bm_ID r))\<rparr>)"
proof -
  have "take (nat limit + 1) (newest_first rows) ! (nat limit - 1) = newest_first rows ! (nat limit - 1)"
    using assms by simp
  then show ?thesis using assms by (auto simp: cut_page_def Let_def min_def)
qed

lemma pages_from:
  fixes tbl :: "'a base_model_scheme list"
  assumes "pageable tbl" and "\<not> F label" and "\<And>c. fetch c = fetch_page F cl label limit c P tbl"
  defines "rows \<equiv> newest_first (db_select P tbl)"
  assumes "m \<le> length rows" "decodeListCursor token = Inr cursor" "filter (after_cursor cursor) rows = drop m rows"
    "length rows - m < n"
  shows "pages n fetch token = Inr (drop m rows)"
  using assms(5-)
proof (induction n arbitrary: m token cursor)
  case (Suc n)
  define lim where "lim = normalizeListLimit limit"
  have lim: "0 < lim" by (simp add: lim_def normalizeListLimit_def defaultListLimit_def service_maxListLimit_def)
  have sel: "newest_first (db_select (\<lambda>r. P r \<and> after_cursor cursor r) tbl) = drop m rows"
  proof -
    have "db_select (\<lambda>r. P r \<and> after_cursor cursor r) tbl = filter (after_cursor cursor) (db_select P tbl)"
      by (simp add: db_select_def conj_ac)
    then show ?thesis using Suc.prems(3) by (simp add: rows_def newest_first_filter)
  qed
  then have len: "length (db_select (\<lambda>r. P r \<and> after_cursor cursor r) tbl) = length rows - m"
    by (metis length_drop length_newest_first)
  have fetch: "fetch token = Inr (cut_page lim (db_select (\<lambda>r. P r \<and> after_cursor cursor r) tbl))"
    using assms(2,3) Suc.prems(2) by (simp add: fetch_page_def lim_def labelled_def stmt_def guard_def)
  show ?case
  proof (cases "length rows - m \<le> nat lim")
    case True
    then show ?thesis using fetch sel len lim by (simp add: cut_page_drop)
  next
    case False
    define k where "k = m + nat lim"
    define r where "r = rows ! (k - 1)"
    have k: "0 < k" "k \<le> length rows" "drop m rows ! (nat lim - 1) = r" using False lim by (simp_all add: k_def r_def)
    then have "r \<in> set rows" by (simp add: r_def)
    then have mem: "r \<in> set tbl" by (auto simp: rows_def db_select_def)
    then have r: "ordinary_time (bm_CreatedAt r)" "bm_CreatedAt r \<noteq> zero_time" "bm_ID r \<noteq> []"
      using assms(1) by (force simp: pageable_def list_all_iff ids_ok_def)+
    have "after_cursor \<lparr>lc_CreatedAt = bm_CreatedAt r, lc_ID = bm_ID r\<rparr> = (\<lambda>x :: 'a base_model_scheme. row_key x < row_key r)"
      using r by (auto simp: after_cursor_def row_key_def fun_eq_iff)
    moreover have "decreasing rows"
      using assms(1) unfolding rows_def
      by (intro decreasing_newest_first) (auto simp: pageable_def ids_ok_def db_select_def distinct_map_filter)
    ultimately have "filter (after_cursor \<lparr>lc_CreatedAt = bm_CreatedAt r, lc_ID = bm_ID r\<rparr>) rows = drop k rows"
      using decreasing_drop k by (simp add: r_def)
    then have rest: "pages n fetch (encodeListCursor (bm_CreatedAt r) (bm_ID r)) = Inr (drop k rows)"
      using Suc.prems(4) False lim k by (intro Suc.IH [OF _ decode_encode_cursor(1) [OF r]]) (auto simp: k_def)
    have "cut_page lim (db_select (\<lambda>r. P r \<and> after_cursor cursor r) tbl) =
        \<lparr>pg_Items = take (nat lim) (drop m rows), pg_NextCursor = encodeListCursor (bm_CreatedAt r) (bm_ID r)\<rparr>"
      using False len lim k(3) by (simp add: cut_page_drop sel)
    moreover have "take (nat lim) (drop m rows) @ drop k rows = drop m rows"
      by (metis append_take_drop_id drop_drop add.commute k_def)
    ultimately show ?thesis
      using fetch rest decode_encode_cursor(2) [OF r] by simp
  qed
qed simp

lemma pages_all:
  fixes tbl :: "'a base_model_scheme list"
  assumes "pageable tbl" and "\<not> F label" and "\<And>c. fetch c = fetch_page F cl label limit c P tbl" and "length tbl < n"
  shows "\<exists>rows. pages n fetch NoToken = Inr rows \<and> set rows = {r \<in> set tbl. live r \<and> P r} \<and> decreasing rows"
proof (intro exI conjI)
  define rows where "rows = newest_first (db_select P tbl)"
  have "length rows \<le> length tbl" by (simp add: rows_def db_select_def)
  moreover have "filter (after_cursor zero_cursor) rows = drop 0 rows"
    by (simp add: after_cursor_def zero_cursor_def)
  ultimately show "pages n fetch NoToken = Inr rows"
    using assms(4) pages_from [OF assms(1-3), where m = 0 and token = NoToken] unfolding rows_def
    by (simp add: decodeListCursor_def)
  show "set rows = {r \<in> set tbl. live r \<and> P r}" by (auto simp: rows_def db_select_def)
  show "decreasing rows"
    using assms(1) unfolding rows_def
    by (intro decreasing_newest_first) (auto simp: pageable_def ids_ok_def db_select_def distinct_map_filter)
qed

text \<open>C36: Listing with cursors is complete. While the tables do not change, following the cursors of the listings of
  workflows, instances and executions from the first page on stops after finitely many pages and gives every matching live
  row exactly once, newest first (rows of one instant by descending id), whatever the page size. Creation times must be
  ones that JSON can write; statements do not fail.\<close>
theorem pages_list_everything:
  assumes "pageable (es_defs st)" "pageable (es_instances st)" "pageable (es_execs st)" and "ee_F env = no_faults"
    and "length (es_defs st) < n" "length (es_instances st) < n" "length (es_execs st) < n"
  shows "(\<exists>rows. pages n (\<lambda>c. Def_ListPage env (df\<lparr>wl_Cursor := c\<rparr>) st) NoToken = Inr rows \<and>
      set rows = {d \<in> set (es_defs st). live d \<and> definition_matches df d} \<and> decreasing rows) \<and>
    (\<exists>rows. pages n (\<lambda>c. Instance_ListPage env (nf\<lparr>il_Cursor := c\<rparr>) st) NoToken = Inr rows \<and>
      set rows = {i \<in> set (es_instances st). live i \<and> instance_matches nf i} \<and> decreasing rows) \<and>
    (\<exists>rows. pages n (\<lambda>c. Exec_ListPage env (xf\<lparr>xl_Cursor := c\<rparr>) st) NoToken = Inr rows \<and>
      set rows = {e \<in> set (es_execs st). live e \<and> execution_matches xf e} \<and> decreasing rows)"
proof (intro conjI)
  have F: "\<not> ee_F env label" for label using assms(4) by (simp add: no_faults_def)
  show "\<exists>rows. pages n (\<lambda>c. Def_ListPage env (df\<lparr>wl_Cursor := c\<rparr>) st) NoToken = Inr rows \<and>
      set rows = {d \<in> set (es_defs st). live d \<and> definition_matches df d} \<and> decreasing rows"
    by (rule pages_all [OF assms(1) F _ assms(5)]) (simp add: Def_ListPage_def definition_matches_def [abs_def])
  show "\<exists>rows. pages n (\<lambda>c. Instance_ListPage env (nf\<lparr>il_Cursor := c\<rparr>) st) NoToken = Inr rows \<and>
      set rows = {i \<in> set (es_instances st). live i \<and> instance_matches nf i} \<and> decreasing rows"
    by (rule pages_all [OF assms(2) F _ assms(6)]) (simp add: Instance_ListPage_def instance_matches_def [abs_def])
  show "\<exists>rows. pages n (\<lambda>c. Exec_ListPage env (xf\<lparr>xl_Cursor := c\<rparr>) st) NoToken = Inr rows \<and>
      set rows = {e \<in> set (es_execs st). live e \<and> execution_matches xf e} \<and> decreasing rows"
    by (rule pages_all [OF assms(3) F _ assms(7)]) (simp add: Exec_ListPage_def execution_matches_def [abs_def])
qed

text \<open>Three executions, two of them of the same instant, listed one by one.\<close>

definition ex_listed :: "string \<Rightarrow> int \<Rightarrow> WorkflowStateExecution" where
  "ex_listed i t = (new_execution ''wf'' ''s'' 1 ExecStatusCompleted [] [] empty_object [])\<lparr>bm_ID := i, bm_CreatedAt := t\<rparr>"

definition ex_listing :: EngineState where
  "ex_listing = ex_s0\<lparr>es_execs := [ex_listed ''a'' 5000000007, ex_listed ''c'' 5000000007, ex_listed ''b'' 6000000000]\<rparr>"

definition all_executions :: WorkflowExecutionListFilter where
  "all_executions = \<lparr>xl_Status = [], xl_InstanceID = ''wf'', xl_Query = '' S '', xl_IDQuery = [], xl_Cursor = NoToken, xl_Limit = 1\<rparr>"

lemma pages_list_everything_witness:
  "\<exists>rows. pages 4 (\<lambda>c. Exec_ListPage ex_env (all_executions\<lparr>xl_Cursor := c\<rparr>) ex_listing) NoToken = Inr rows \<and>
     set rows = set (es_execs ex_listing) \<and> decreasing rows"
proof -
  have ok: "pageable (es_defs ex_listing)" "pageable (es_instances ex_listing)" "pageable (es_execs ex_listing)"
    and len: "length (es_defs ex_listing) < 4" "length (es_instances ex_listing) < 4" "length (es_execs ex_listing) < 4"
    by code_simp+
  have "ee_F ex_env = no_faults" by (simp add: ex_env_def)
  from pages_list_everything [OF ok this len, where xf = all_executions]
  have "\<exists>rows. pages 4 (\<lambda>c. Exec_ListPage ex_env (all_executions\<lparr>xl_Cursor := c\<rparr>) ex_listing) NoToken = Inr rows \<and>
      set rows = {e \<in> set (es_execs ex_listing). live e \<and> execution_matches all_executions e} \<and> decreasing rows"
    by blast
  moreover have "list_all (\<lambda>e. live e \<and> execution_matches all_executions e) (es_execs ex_listing)" by code_simp
  then have "{e \<in> set (es_execs ex_listing). live e \<and> execution_matches all_executions e} = set (es_execs ex_listing)"
    by (auto simp: list_all_iff)
  ultimately show ?thesis by simp
qed

end
