(* ===== verification/Connect_Messages.thy ===== *)
theory Connect_Messages
  imports List_Pages Schema_Registry
begin

text \<open>
  \<open>handlers/connect_helpers.go\<close>: errors of the RPCs, the fields of a search request, and the messages
  the rows are turned into. A message is the list of its fields under their names in the proto
  files, a message that is absent is \<open>VNil\<close>, a timestamp its count of nanoseconds; a \<open>Struct\<close> is the
  object it holds. JSON columns are \<open>jsonb\<close>, so that the keys of their objects are distinct.
\<close>

section \<open>Errors\<close>

datatype rpc_code = CodeInvalidArgument | CodeNotFound | CodeAlreadyExists | CodeFailedPrecondition | CodeAborted
  | CodeInternal | CodeUnauthenticated | CodeResourceExhausted

text \<open>An error of an RPC: its code and the error whose text it carries. A panic ends the request.\<close>

datatype rpc_error = RpcError rpc_code errmsg | RpcPanic errmsg

definition rpc_says :: "rpc_code \<Rightarrow> string \<Rightarrow> rpc_error" where
  "rpc_says code message = RpcError code (Errf message [])"

definition ErrMissingAuth :: errmsg where
  "ErrMissingAuth = Errf ''missing authentication claims'' []"

definition requireConnectAuth :: "string option \<Rightarrow> rpc_error option" where
  "requireConnectAuth claims = (if claims = None then Some (RpcError CodeUnauthenticated ErrMissingAuth) else None)"

definition trustage :: "errmsg \<Rightarrow> errmsg" where
  "trustage err = Errf ''trustage: %w'' [EErr err]"

definition ErrTriggerNotFound :: errmsg where "ErrTriggerNotFound = Errf ''trigger binding not found'' []"
definition ErrWorkflowAlreadyActive :: errmsg where "ErrWorkflowAlreadyActive = Errf ''workflow already active'' []"

definition error_in :: "errmsg \<Rightarrow> errmsg list \<Rightarrow> bool" where
  "error_in err sentinels \<longleftrightarrow> list_ex (error_is err) sentinels"

definition connectErrorForBusiness :: "errmsg \<Rightarrow> rpc_error" where
  "connectErrorForBusiness err =
     (if is_panic err then RpcPanic err
      else if error_in err [ErrWorkflowNotFound, ErrInstanceNotFound, ErrExecutionNotFound, ErrSchemaNotFound,
          ErrTriggerNotFound, ErrRecordNotFound] then RpcError CodeNotFound err
      else if error_in err [ErrInputContractViolation, ErrOutputContractViolation, ErrDSLValidationFailed,
          ErrInvalidWorkflowStatus] then RpcError CodeInvalidArgument err
      else if error_in err [ErrStaleExecution, ErrInvalidToken] then RpcError CodeAborted err
      else if error_in err [ErrWorkflowAlreadyActive] then RpcError CodeAlreadyExists err
      else RpcError CodeInternal (trustage err))"

definition connectLookupError :: "string \<Rightarrow> errmsg \<Rightarrow> rpc_error" where
  "connectLookupError notFoundMessage err =
     (if error_is err ErrRecordNotFound then rpc_says CodeNotFound notFoundMessage
      else RpcError CodeInternal (trustage err))"

text \<open>\<open>strings.Contains(strings.ToLower(err.Error()), word)\<close>, piece by piece of the message.\<close>

definition contains :: "string \<Rightarrow> string \<Rightarrow> bool" where
  "contains s word = list_ex (\<lambda>i. HasPrefix (drop i s) word) [0..<Suc (length s)]"

fun mentions :: "string \<Rightarrow> errmsg \<Rightarrow> bool" and mentioned_in :: "string \<Rightarrow> earg \<Rightarrow> bool" where
  "mentions word (Errf f args) \<longleftrightarrow> contains (ToLower f) word \<or> list_ex (mentioned_in word) args"
| "mentioned_in word (EErr e) \<longleftrightarrow> mentions word e"
| "mentioned_in word (EStr s) \<longleftrightarrow> contains (ToLower s) word"
| "mentioned_in word (EInt i) \<longleftrightarrow> False"
| "mentioned_in word (EStrs ss) \<longleftrightarrow> list_ex (\<lambda>s. contains (ToLower s) word) ss"

definition ErrDuplicatedKey :: errmsg where "ErrDuplicatedKey = Errf ''duplicated key not allowed'' []"
definition errDuplicateRecord :: errmsg where "errDuplicateRecord = Errf ''duplicate record'' []"

definition isDuplicateRecordError :: "errmsg \<Rightarrow> bool" where
  "isDuplicateRecordError err \<longleftrightarrow> error_in err [ErrDuplicatedKey, errDuplicateRecord] \<or> mentions ''duplicate'' err"

section \<open>Structs\<close>

definition struct_value :: "go_map option \<Rightarrow> any" where
  "struct_value s = (case s of None \<Rightarrow> VNil | Some m \<Rightarrow> VMap m)"

text \<open>\<open>AsMap\<close>, which gives an empty map for an absent struct.\<close>

definition AsMap :: "go_map option \<Rightarrow> go_map" where
  "AsMap s = (case s of None \<Rightarrow> [] | Some m \<Rightarrow> m)"

definition rawJSONFromStruct :: "go_map option \<Rightarrow> raw_json result" where
  "rawJSONFromStruct s = Inr (RawJson (VMap (AsMap s)))"

definition structFromJSONString :: "raw_json \<Rightarrow> (go_map option) result" where
  "structFromJSONString raw = (case raw of
     RawEmpty \<Rightarrow> Inr None
   | RawJson (VMap m) \<Rightarrow> Inr (Some m)
   | RawJson _ \<Rightarrow> Inl (Errf ''proto: syntax error: unexpected token'' [])
   | RawInvalid s \<Rightarrow> (if TrimSpace s = [] then Inr None else Inl (Errf ''proto: syntax error'' [EStr s])))"

definition lossyStructFromJSONString :: "engine_env \<Rightarrow> raw_json \<Rightarrow> go_map option" where
  "lossyStructFromJSONString env raw = (case structFromJSONString raw of
     Inr s \<Rightarrow> s | Inl _ \<Rightarrow> Some [(''raw_json'', VStr (blob_text env raw))])"

definition lossy :: "engine_env \<Rightarrow> raw_json \<Rightarrow> any" where
  "lossy env raw = struct_value (lossyStructFromJSONString env raw)"

definition structFromMap :: "go_map option \<Rightarrow> any" where
  "structFromMap payload = VMap (map (map_prod id json_norm) (AsMap payload))"

definition timestampFromPtr :: "int option \<Rightarrow> any" where
  "timestampFromPtr v = (case v of None \<Rightarrow> VNil | Some t \<Rightarrow> VInt t)"

definition timestampFromValue :: "int \<Rightarrow> any" where
  "timestampFromValue t = (if t = zero_time then VNil else VInt t)"

section \<open>Search requests\<close>

record PageCursor =
  cu_Limit :: int
  cu_Page :: page_token

record SearchRequest =
  sq_Query :: string
  sq_IdQuery :: string
  sq_Cursor :: "PageCursor option"
  sq_Extras :: "go_map option"

definition searchLimit :: "SearchRequest option \<Rightarrow> int \<Rightarrow> int" where
  "searchLimit search fallback = (case search of
     Some q \<Rightarrow> (case sq_Cursor q of Some c \<Rightarrow> (if cu_Limit c \<le> 0 then fallback else cu_Limit c) | None \<Rightarrow> fallback)
   | None \<Rightarrow> fallback)"

definition searchPage :: "SearchRequest option \<Rightarrow> page_token" where
  "searchPage search = (case search of
     Some q \<Rightarrow> (case sq_Cursor q of Some c \<Rightarrow> cu_Page c | None \<Rightarrow> NoToken) | None \<Rightarrow> NoToken)"

definition searchQuery :: "SearchRequest option \<Rightarrow> string" where
  "searchQuery search = (case search of None \<Rightarrow> [] | Some q \<Rightarrow> TrimSpace (sq_Query q))"

definition searchIDQuery :: "SearchRequest option \<Rightarrow> string" where
  "searchIDQuery search = (case search of None \<Rightarrow> [] | Some q \<Rightarrow> TrimSpace (sq_IdQuery q))"

definition searchExtraString :: "SearchRequest option \<Rightarrow> string \<Rightarrow> string" where
  "searchExtraString search key = (case search of
     None \<Rightarrow> []
   | Some q \<Rightarrow> (case sq_Extras q of None \<Rightarrow> [] | Some m \<Rightarrow> TrimSpace (str_of m key)))"

definition safeInt32 :: "int \<Rightarrow> int" where
  "safeInt32 value = (if value > 2147483647 then 2147483647 else if value < -2147483648 then -2147483648 else value)"

definition nextCursorProto :: "page_token \<Rightarrow> int \<Rightarrow> PageCursor option" where
  "nextCursorProto token limit = (if token = NoToken then None else Some \<lparr>cu_Limit = safeInt32 limit, cu_Page = token\<rparr>)"

section \<open>Statuses\<close>

text \<open>The enums of the proto files are open: a client can send any number.\<close>

datatype WorkflowStatus = WORKFLOW_STATUS_UNSPECIFIED | WORKFLOW_STATUS_DRAFT | WORKFLOW_STATUS_ACTIVE
  | WORKFLOW_STATUS_ARCHIVED | WORKFLOW_STATUS_UNKNOWN int

definition workflowStatusToProto :: "WorkflowDefinitionStatus \<Rightarrow> WorkflowStatus" where
  "workflowStatusToProto status = (case status of
     WorkflowStatusDraft \<Rightarrow> WORKFLOW_STATUS_DRAFT
   | WorkflowStatusActive \<Rightarrow> WORKFLOW_STATUS_ACTIVE
   | WorkflowStatusArchived \<Rightarrow> WORKFLOW_STATUS_ARCHIVED)"

definition workflowStatusFilter :: "WorkflowStatus \<Rightarrow> rpc_error + string" where
  "workflowStatusFilter status = (case status of
     WORKFLOW_STATUS_UNSPECIFIED \<Rightarrow> Inr []
   | WORKFLOW_STATUS_DRAFT \<Rightarrow> Inr (definition_status_string WorkflowStatusDraft)
   | WORKFLOW_STATUS_ACTIVE \<Rightarrow> Inr (definition_status_string WorkflowStatusActive)
   | WORKFLOW_STATUS_ARCHIVED \<Rightarrow> Inr (definition_status_string WorkflowStatusArchived)
   | WORKFLOW_STATUS_UNKNOWN n \<Rightarrow>
       Inl (RpcError CodeInvalidArgument (Errf ''unsupported workflow status filter %s'' [EStr (itoa n)])))"

datatype InstanceStatus = INSTANCE_STATUS_UNSPECIFIED | INSTANCE_STATUS_RUNNING | INSTANCE_STATUS_COMPLETED
  | INSTANCE_STATUS_FAILED | INSTANCE_STATUS_CANCELLED | INSTANCE_STATUS_SUSPENDED | INSTANCE_STATUS_UNKNOWN int

definition instanceStatusToProto :: "WorkflowInstanceStatus \<Rightarrow> InstanceStatus" where
  "instanceStatusToProto status = (case status of
     InstanceStatusRunning \<Rightarrow> INSTANCE_STATUS_RUNNING
   | InstanceStatusCompleted \<Rightarrow> INSTANCE_STATUS_COMPLETED
   | InstanceStatusFailed \<Rightarrow> INSTANCE_STATUS_FAILED
   | InstanceStatusCancelled \<Rightarrow> INSTANCE_STATUS_CANCELLED
   | InstanceStatusSuspended \<Rightarrow> INSTANCE_STATUS_SUSPENDED)"

definition instanceStatusFilter :: "InstanceStatus \<Rightarrow> string" where
  "instanceStatusFilter status = (case status of
     INSTANCE_STATUS_UNSPECIFIED \<Rightarrow> []
   | INSTANCE_STATUS_RUNNING \<Rightarrow> instance_status_string InstanceStatusRunning
   | INSTANCE_STATUS_COMPLETED \<Rightarrow> instance_status_string InstanceStatusCompleted
   | INSTANCE_STATUS_FAILED \<Rightarrow> instance_status_string InstanceStatusFailed
   | INSTANCE_STATUS_CANCELLED \<Rightarrow> instance_status_string InstanceStatusCancelled
   | INSTANCE_STATUS_SUSPENDED \<Rightarrow> instance_status_string InstanceStatusSuspended
   | INSTANCE_STATUS_UNKNOWN n \<Rightarrow> [])"

datatype ProtoExecutionStatus = EXECUTION_STATUS_UNSPECIFIED | EXECUTION_STATUS_PENDING | EXECUTION_STATUS_DISPATCHED
  | EXECUTION_STATUS_RUNNING | EXECUTION_STATUS_COMPLETED | EXECUTION_STATUS_FAILED | EXECUTION_STATUS_FATAL
  | EXECUTION_STATUS_TIMED_OUT | EXECUTION_STATUS_INVALID_INPUT_CONTRACT | EXECUTION_STATUS_INVALID_OUTPUT_CONTRACT
  | EXECUTION_STATUS_STALE | EXECUTION_STATUS_RETRY_SCHEDULED | EXECUTION_STATUS_WAITING | EXECUTION_STATUS_UNKNOWN int

definition executionStatusToProto :: "ExecutionStatus \<Rightarrow> ProtoExecutionStatus" where
  "executionStatusToProto status = (case status of
     ExecStatusPending \<Rightarrow> EXECUTION_STATUS_PENDING
   | ExecStatusDispatched \<Rightarrow> EXECUTION_STATUS_DISPATCHED
   | ExecStatusRunning \<Rightarrow> EXECUTION_STATUS_RUNNING
   | ExecStatusCompleted \<Rightarrow> EXECUTION_STATUS_COMPLETED
   | ExecStatusFailed \<Rightarrow> EXECUTION_STATUS_FAILED
   | ExecStatusFatal \<Rightarrow> EXECUTION_STATUS_FATAL
   | ExecStatusTimedOut \<Rightarrow> EXECUTION_STATUS_TIMED_OUT
   | ExecStatusInvalidInputContract \<Rightarrow> EXECUTION_STATUS_INVALID_INPUT_CONTRACT
   | ExecStatusInvalidOutputContract \<Rightarrow> EXECUTION_STATUS_INVALID_OUTPUT_CONTRACT
   | ExecStatusStale \<Rightarrow> EXECUTION_STATUS_STALE
   | ExecStatusRetryScheduled \<Rightarrow> EXECUTION_STATUS_RETRY_SCHEDULED
   | ExecStatusWaiting \<Rightarrow> EXECUTION_STATUS_WAITING)"

definition executionStatusFilter :: "ProtoExecutionStatus \<Rightarrow> string" where
  "executionStatusFilter status = (case status of
     EXECUTION_STATUS_UNSPECIFIED \<Rightarrow> []
   | EXECUTION_STATUS_PENDING \<Rightarrow> execution_status_string ExecStatusPending
   | EXECUTION_STATUS_DISPATCHED \<Rightarrow> execution_status_string ExecStatusDispatched
   | EXECUTION_STATUS_RUNNING \<Rightarrow> execution_status_string ExecStatusRunning
   | EXECUTION_STATUS_COMPLETED \<Rightarrow> execution_status_string ExecStatusCompleted
   | EXECUTION_STATUS_FAILED \<Rightarrow> execution_status_string ExecStatusFailed
   | EXECUTION_STATUS_FATAL \<Rightarrow> execution_status_string ExecStatusFatal
   | EXECUTION_STATUS_TIMED_OUT \<Rightarrow> execution_status_string ExecStatusTimedOut
   | EXECUTION_STATUS_INVALID_INPUT_CONTRACT \<Rightarrow> execution_status_string ExecStatusInvalidInputContract
   | EXECUTION_STATUS_INVALID_OUTPUT_CONTRACT \<Rightarrow> execution_status_string ExecStatusInvalidOutputContract
   | EXECUTION_STATUS_STALE \<Rightarrow> execution_status_string ExecStatusStale
   | EXECUTION_STATUS_RETRY_SCHEDULED \<Rightarrow> execution_status_string ExecStatusRetryScheduled
   | EXECUTION_STATUS_WAITING \<Rightarrow> execution_status_string ExecStatusWaiting
   | EXECUTION_STATUS_UNKNOWN n \<Rightarrow> [])"

section \<open>Rows as messages\<close>

text \<open>A message: the status fields carry the enum, so a message has one of three of them or none.\<close>

record proto =
  pr_Fields :: go_map
  pr_WorkflowStatus :: WorkflowStatus
  pr_InstanceStatus :: InstanceStatus
  pr_ExecutionStatus :: ProtoExecutionStatus

definition message :: "go_map \<Rightarrow> proto" where
  "message m = \<lparr>pr_Fields = m, pr_WorkflowStatus = WORKFLOW_STATUS_UNSPECIFIED,
     pr_InstanceStatus = INSTANCE_STATUS_UNSPECIFIED, pr_ExecutionStatus = EXECUTION_STATUS_UNSPECIFIED\<rparr>"

definition int32_field :: "int \<Rightarrow> any" where "int32_field n = VInt (safeInt32 n)"

definition scheduleDefinitionToProto :: "ScheduleDefinition \<Rightarrow> proto" where
  "scheduleDefinitionToProto s = message
     [(''id'', VStr (bm_ID s)), (''name'', VStr (sd_Name s)), (''cron_expr'', VStr (sd_CronExpr s)),
      (''workflow_name'', VStr (sd_WorkflowName s)), (''workflow_version'', int32_field (sd_WorkflowVersion s)),
      (''active'', VBool (sd_Active s)), (''jitter_seconds'', int32_field (sd_JitterSeconds s)),
      (''timezone'', VStr (sd_Timezone s)), (''created_at'', timestampFromValue (bm_CreatedAt s)),
      (''updated_at'', timestampFromValue (bm_ModifiedAt s)), (''next_fire_at'', timestampFromPtr (sd_NextFireAt s)),
      (''last_fired_at'', timestampFromPtr (sd_LastFiredAt s))]"

definition scheduleDefinitionsToProto :: "ScheduleDefinition list \<Rightarrow> proto list" where
  "scheduleDefinitionsToProto rows = map scheduleDefinitionToProto rows"

definition workflowDefinitionToProto :: "engine_env \<Rightarrow> WorkflowDefinition \<Rightarrow> proto" where
  "workflowDefinitionToProto env d = (message
     [(''id'', VStr (bm_ID d)), (''name'', VStr (wd_Name d)), (''version'', int32_field (wd_WorkflowVersion d)),
      (''dsl'', lossy env (wd_DSLBlob d)), (''input_schema_hash'', VStr (wd_InputSchemaHash d)),
      (''timeout_seconds'', VInt (wd_TimeoutSeconds d)), (''created_at'', timestampFromValue (bm_CreatedAt d)),
      (''updated_at'', timestampFromValue (bm_ModifiedAt d))])\<lparr>pr_WorkflowStatus := workflowStatusToProto (wd_Status d)\<rparr>"

definition eventRecordToProto :: "string \<Rightarrow> string \<Rightarrow> string \<Rightarrow> string \<Rightarrow> go_map option \<Rightarrow> proto" where
  "eventRecordToProto eventID eventType source idempotencyKey payload = message
     [(''event_id'', VStr eventID), (''event_type'', VStr eventType), (''source'', VStr source),
      (''idempotency_key'', VStr idempotencyKey), (''payload'', structFromMap payload)]"

definition timelineEntryToProto :: "engine_env \<Rightarrow> WorkflowAuditEvent \<Rightarrow> proto" where
  "timelineEntryToProto env e = message
     [(''event_type'', VStr (au_EventType e)), (''state'', VStr (au_State e)), (''from_state'', VStr (au_FromState e)),
      (''to_state'', VStr (au_ToState e)), (''execution_id'', VStr (au_ExecutionID e)), (''trace_id'', VStr (au_TraceID e)),
      (''payload'', lossy env (au_Payload e)), (''created_at'', timestampFromValue (bm_CreatedAt e))]"

definition workflowInstanceToProto :: "engine_env \<Rightarrow> WorkflowInstance \<Rightarrow> proto" where
  "workflowInstanceToProto env i = (message
     [(''id'', VStr (bm_ID i)), (''workflow_name'', VStr (wi_WorkflowName i)),
      (''workflow_version'', int32_field (wi_WorkflowVersion i)), (''current_state'', VStr (wi_CurrentState i)),
      (''revision'', VInt (wi_Revision i)), (''trigger_event_id'', VStr (wi_TriggerEventID i)),
      (''metadata'', lossy env (wi_Metadata i)), (''started_at'', timestampFromPtr (wi_StartedAt i)),
      (''finished_at'', timestampFromPtr (wi_FinishedAt i)), (''created_at'', timestampFromValue (bm_CreatedAt i)),
      (''updated_at'', timestampFromValue (bm_ModifiedAt i)), (''parent_instance_id'', VStr (wi_ParentInstanceID i)),
      (''parent_execution_id'', VStr (wi_ParentExecutionID i)), (''scope_type'', VStr (wi_ScopeType i)),
      (''scope_parent_state'', VStr (wi_ScopeParentState i)), (''scope_entry_state'', VStr (wi_ScopeEntryState i)),
      (''scope_index'', int32_field (wi_ScopeIndex i))])\<lparr>pr_InstanceStatus := instanceStatusToProto (wi_Status i)\<rparr>"

definition workflowExecutionToProto :: "engine_env \<Rightarrow> WorkflowStateExecution \<Rightarrow> raw_json \<Rightarrow> bool \<Rightarrow> proto" where
  "workflowExecutionToProto env e outputPayload includeOutput = (message
     ([(''id'', VStr (bm_ID e)), (''instance_id'', VStr (ex_InstanceID e)), (''state'', VStr (ex_State e)),
       (''state_version'', int32_field (ex_StateVersion e)), (''attempt'', int32_field (ex_Attempt e)),
       (''error_class'', VStr (ex_ErrorClass e)), (''error_message'', VStr (ex_ErrorMessage e)),
       (''next_retry_at'', timestampFromPtr (ex_NextRetryAt e)), (''started_at'', timestampFromPtr (ex_StartedAt e)),
       (''finished_at'', timestampFromPtr (ex_FinishedAt e)), (''created_at'', timestampFromValue (bm_CreatedAt e)),
       (''updated_at'', timestampFromValue (bm_ModifiedAt e)), (''trace_id'', VStr (ex_TraceID e)),
       (''input_schema_hash'', VStr (ex_InputSchemaHash e)), (''output_schema_hash'', VStr (ex_OutputSchemaHash e)),
       (''input_payload'', lossy env (ex_InputPayload e))] @
      (if includeOutput then [(''output'', lossy env outputPayload)] else [])))
     \<lparr>pr_ExecutionStatus := executionStatusToProto (ex_Status e)\<rparr>"

definition runtimeTimelineEntryToProto :: "engine_env \<Rightarrow> bool \<Rightarrow> WorkflowAuditEvent \<Rightarrow> proto" where
  "runtimeTimelineEntryToProto env includePayloads e = message
     ([(''event_type'', VStr (au_EventType e)), (''state'', VStr (au_State e)), (''from_state'', VStr (au_FromState e)),
       (''to_state'', VStr (au_ToState e)), (''execution_id'', VStr (au_ExecutionID e)), (''trace_id'', VStr (au_TraceID e)),
       (''created_at'', timestampFromValue (bm_CreatedAt e))] @
      (if includePayloads then [(''payload'', lossy env (au_Payload e))] else []))"

definition stateOutputToProto :: "engine_env \<Rightarrow> bool \<Rightarrow> WorkflowStateOutput \<Rightarrow> proto" where
  "stateOutputToProto env includePayloads out = message
     ([(''execution_id'', VStr (so_ExecutionID out)), (''state'', VStr (so_State out)),
       (''schema_hash'', VStr (so_SchemaHash out)), (''created_at'', timestampFromValue (bm_CreatedAt out))] @
      (if includePayloads then [(''payload'', lossy env (so_Payload out))] else []))"

definition scopeRunToProto :: "engine_env \<Rightarrow> bool \<Rightarrow> WorkflowScopeRun \<Rightarrow> proto" where
  "scopeRunToProto env includePayloads scope = message
     ([(''id'', VStr (bm_ID scope)), (''parent_execution_id'', VStr (sr_ParentExecutionID scope)),
       (''parent_state'', VStr (sr_ParentState scope)), (''scope_type'', VStr (sr_ScopeType scope)),
       (''status'', VStr (sr_Status scope)), (''wait_all'', VBool (sr_WaitAll scope)),
       (''total_children'', int32_field (sr_TotalChildren scope)),
       (''completed_children'', int32_field (sr_CompletedChildren scope)),
       (''failed_children'', int32_field (sr_FailedChildren scope)),
       (''next_child_index'', int32_field (sr_NextChildIndex scope)),
       (''max_concurrency'', int32_field (sr_MaxConcurrency scope)), (''item_var'', VStr (sr_ItemVar scope)),
       (''index_var'', VStr (sr_IndexVar scope)), (''created_at'', timestampFromValue (bm_CreatedAt scope)),
       (''updated_at'', timestampFromValue (bm_ModifiedAt scope))] @
      (if includePayloads then [(''items_payload'', lossy env (sr_ItemsPayload scope)),
         (''results_payload'', lossy env (sr_ResultsPayload scope))] else []))"

definition signalWaitToProto :: "WorkflowSignalWait \<Rightarrow> proto" where
  "signalWaitToProto w = message
     [(''id'', VStr (bm_ID w)), (''execution_id'', VStr (sw_ExecutionID w)), (''state'', VStr (sw_State w)),
      (''signal_name'', VStr (WorkflowSignalWait.sw_SignalName w)), (''output_var'', VStr (WorkflowSignalWait.sw_OutputVar w)), (''status'', VStr (sw_Status w)),
      (''timeout_at'', timestampFromPtr (sw_TimeoutAt w)), (''matched_at'', timestampFromPtr (sw_MatchedAt w)),
      (''timed_out_at'', timestampFromPtr (sw_TimedOutAt w)), (''message_id'', VStr (sw_MessageID w)),
      (''attempts'', int32_field (sw_Attempts w)), (''created_at'', timestampFromValue (bm_CreatedAt w)),
      (''updated_at'', timestampFromValue (bm_ModifiedAt w))]"

definition signalMessageToProto :: "engine_env \<Rightarrow> bool \<Rightarrow> WorkflowSignalMessage \<Rightarrow> proto" where
  "signalMessageToProto env includePayloads m = message
     ([(''id'', VStr (bm_ID m)), (''signal_name'', VStr (sm_SignalName m)), (''status'', VStr (sm_Status m)),
       (''delivered_at'', timestampFromPtr (sm_DeliveredAt m)), (''wait_id'', VStr (sm_WaitID m)),
       (''attempts'', int32_field (sm_Attempts m)), (''created_at'', timestampFromValue (bm_CreatedAt m)),
       (''updated_at'', timestampFromValue (bm_ModifiedAt m))] @
      (if includePayloads then [(''payload'', lossy env (sm_Payload m))] else []))"

end
