(* ===== verification/Connect_Api.thy ===== *)
theory Connect_Api
  imports Connect_Messages Workflow_Business Outbox_Cron
begin

text \<open>
  The ConnectRPC servers of the default service: \<open>handlers/event_connect.go\<close>, \<open>signal_connect.go\<close>,
  \<open>workflow_connect.go\<close> and \<open>runtime_connect.go\<close>. A call takes the claims of its caller, if any, and
  a request, runs on the state of the service, and gives an error or a response.
\<close>

section \<open>Calls\<close>

record ('env, 'ast, 'prg, 'sch, 'loc) service_api =
  sa_business :: "('env, 'ast, 'prg, 'sch, 'loc) business_env"
  sa_allow :: "string option \<Rightarrow> bool"
  sa_publish :: "IngestedEventMessage \<Rightarrow> unit result"
  sa_queueName :: string
  sa_now :: int

abbreviation sa_db :: "('env, 'ast, 'prg, 'sch, 'loc) service_api \<Rightarrow> engine_env" where
  "sa_db api \<equiv> be_db (sa_business api)"

abbreviation sa_svc :: "('env, 'ast, 'prg, 'sch, 'loc) service_api \<Rightarrow> ('env, 'ast, 'prg) svc_env" where
  "sa_svc api \<equiv> be_svc (sa_business api)"

type_synonym 'a rpc = "Svc \<Rightarrow> (rpc_error + 'a) \<times> Svc"

definition rpc_ok :: "'a \<Rightarrow> 'a rpc" where "rpc_ok x s = (Inr x, s)"

definition rpc_fail :: "rpc_error \<Rightarrow> 'a rpc" where "rpc_fail e s = (Inl e, s)"

definition rpc_seq :: "'a rpc \<Rightarrow> ('a \<Rightarrow> 'b rpc) \<Rightarrow> 'b rpc" where
  "rpc_seq m f s = (case m s of (Inl e, s') \<Rightarrow> (Inl e, s') | (Inr x, s') \<Rightarrow> f x s')"

text \<open>Calling an operation of the service; \<open>g\<close> makes the error of the RPC of an error of the call.\<close>

definition rpc_call :: "(errmsg \<Rightarrow> rpc_error) \<Rightarrow> 'a op \<Rightarrow> 'a rpc" where
  "rpc_call g m s = (case m s of
     (Inl e, s') \<Rightarrow> (Inl (if is_panic e then RpcPanic e else g e), s') | (Inr x, s') \<Rightarrow> (Inr x, s'))"

definition authenticated :: "string option \<Rightarrow> 'a rpc \<Rightarrow> 'a rpc" where
  "authenticated claims m = (case requireConnectAuth claims of Some e \<Rightarrow> rpc_fail e | None \<Rightarrow> m)"

definition required :: "string \<Rightarrow> string \<Rightarrow> 'a rpc \<Rightarrow> 'a rpc" where
  "required v complaint m = (if v = [] then rpc_fail (rpc_says CodeInvalidArgument complaint) else m)"

definition internal :: "errmsg \<Rightarrow> rpc_error" where
  "internal err = RpcError CodeInternal (trustage err)"

section \<open>Events (event_connect.go)\<close>

record IngestEventResponse =
  ig_Event :: proto
  ig_Idempotent :: bool

definition validateIngestEventRequest ::
    "('env, 'ast, 'prg, 'sch, 'loc) service_api \<Rightarrow> string option \<Rightarrow> IngestEventRequest \<Rightarrow> unit rpc" where
  "validateIngestEventRequest api claims req =
     authenticated claims
       (if \<not> sa_allow api claims then rpc_fail (rpc_says CodeResourceExhausted ''rate limit exceeded'')
        else required (ir_EventType req) ''event_type is required'' (rpc_ok ()))"

definition buildEventLogFromRequest :: "IngestEventRequest \<Rightarrow> EventLog \<times> go_map" where
  "buildEventLogFromRequest req =
     (let payload = AsMap (ir_Payload req) in (event_of_request (req\<lparr>ir_Payload := Some payload\<rparr>), payload))"

definition duplicateEventResponse :: "EventLog \<Rightarrow> IngestEventResponse" where
  "duplicateEventResponse existing =
     \<lparr>ig_Event = eventRecordToProto (bm_ID existing) (ev_EventType existing) (ev_Source existing) (ev_IdempotencyKey existing)
        (case json_unmarshal_map (ev_Payload existing) of Inl _ \<Rightarrow> None | Inr m \<Rightarrow> m),
      ig_Idempotent = True\<rparr>"

text \<open>The event with the key, if there is one.\<close>

definition lookupExistingEventResponse ::
    "('env, 'ast, 'prg, 'sch, 'loc) service_api \<Rightarrow> string \<Rightarrow> IngestEventResponse option rpc" where
  "lookupExistingEventResponse api key =
     (if key = [] then rpc_ok None
      else rpc_seq (rpc_call internal (op_try (plat_read (FindByIdempotencyKey (sa_db api) key)))) (\<lambda>r. case r of
        Inr existing \<Rightarrow> rpc_ok (Some (duplicateEventResponse existing))
      | Inl err \<Rightarrow> (if error_is err ErrRecordNotFound then rpc_ok None else rpc_fail (internal err))))"

text \<open>The stored event, or the response for the duplicate that was stored concurrently.\<close>

definition storeEventWithDuplicateRecovery ::
    "('env, 'ast, 'prg, 'sch, 'loc) service_api \<Rightarrow> EventLog \<Rightarrow> (IngestEventResponse + EventLog) rpc" where
  "storeEventWithDuplicateRecovery api event =
     rpc_seq (rpc_call internal (op_try (plat_run (Event_Create (sa_db api) ''event'' (sa_now api) event)))) (\<lambda>made. case made of
       Inr row \<Rightarrow> rpc_ok (Inr row)
     | Inl createErr \<Rightarrow>
         (if ev_IdempotencyKey event \<noteq> [] \<and> isDuplicateRecordError createErr
          then rpc_seq (rpc_call internal (op_try (plat_read (FindByIdempotencyKey (sa_db api) (ev_IdempotencyKey event)))))
            (\<lambda>r. case r of
               Inr existing \<Rightarrow> rpc_ok (Inl (duplicateEventResponse existing))
             | Inl _ \<Rightarrow> rpc_fail (internal createErr))
          else rpc_fail (internal createErr)))"

definition published :: "('env, 'ast, 'prg, 'sch, 'loc) service_api \<Rightarrow> EventLog \<Rightarrow> unit rpc" where
  "published api event = rpc_call internal (PublishAfterCreate (sa_db api) (be_TenantID (sa_business api))
     (be_PartitionID (sa_business api)) (sa_queueName api) (sa_publish api) (sa_now api) event)"

definition Connect_IngestEvent ::
    "('env, 'ast, 'prg, 'sch, 'loc) service_api \<Rightarrow> string option \<Rightarrow> IngestEventRequest \<Rightarrow> IngestEventResponse rpc" where
  "Connect_IngestEvent api claims req =
     rpc_seq (validateIngestEventRequest api claims req) (\<lambda>_.
     rpc_seq (lookupExistingEventResponse api (ir_IdempotencyKey req)) (\<lambda>found. case found of
       Some response \<Rightarrow> rpc_ok response
     | None \<Rightarrow>
        (case buildEventLogFromRequest req of (event, payload) \<Rightarrow>
          rpc_seq (storeEventWithDuplicateRecovery api event) (\<lambda>outcome. case outcome of
            Inl response \<Rightarrow> rpc_ok response
          | Inr row \<Rightarrow>
              rpc_seq (published api row) (\<lambda>_.
              rpc_ok \<lparr>ig_Event = eventRecordToProto (bm_ID row) (ev_EventType row) (ev_Source row) (ev_IdempotencyKey row)
                        (Some payload), ig_Idempotent = False\<rparr>)))))"

definition Connect_GetInstanceTimeline ::
    "('env, 'ast, 'prg, 'sch, 'loc) service_api \<Rightarrow> string option \<Rightarrow> string \<Rightarrow> proto list rpc" where
  "Connect_GetInstanceTimeline api claims instanceID =
     authenticated claims (required instanceID ''instance_id is required''
       (rpc_seq (rpc_call internal (db_read (Audit_ListByInstance (sa_db api) instanceID))) (\<lambda>rows.
          rpc_ok (map (timelineEntryToProto (sa_db api)) rows))))"

section \<open>Signals (signal_connect.go)\<close>

definition Connect_SendSignal ::
    "('env, 'ast, 'prg, 'sch, 'loc) service_api \<Rightarrow> string option \<Rightarrow> string \<Rightarrow> string \<Rightarrow> go_map option \<Rightarrow> bool rpc" where
  "Connect_SendSignal api claims instanceID signalName payload =
     authenticated claims (required instanceID ''instance_id is required'' (required signalName ''signal_name is required''
       (rpc_call internal (SendSignal (sa_svc api) (sa_now api) instanceID signalName (json_marshal (VMap (AsMap payload)))))))"

section \<open>Workflows (workflow_connect.go)\<close>

definition defaultWorkflowPageLimit :: int where "defaultWorkflowPageLimit = 50"

definition Connect_CreateWorkflow ::
    "('env, 'ast, 'prg, 'sch, 'loc) service_api \<Rightarrow> string option \<Rightarrow> go_map option \<Rightarrow> proto rpc" where
  "Connect_CreateWorkflow api claims dsl =
     authenticated claims
       (if dsl = None then rpc_fail (rpc_says CodeInvalidArgument ''dsl is required'')
        else rpc_seq (rpc_call (RpcError CodeInvalidArgument) (op_of (rawJSONFromStruct dsl))) (\<lambda>dslBlob.
          rpc_seq (rpc_call connectErrorForBusiness (CreateWorkflow (sa_business api) (sa_now api) dslBlob)) (\<lambda>def.
            rpc_ok (workflowDefinitionToProto (sa_db api) def))))"

definition Connect_GetWorkflow ::
    "('env, 'ast, 'prg, 'sch, 'loc) service_api \<Rightarrow> string option \<Rightarrow> string \<Rightarrow> (proto \<times> proto list) rpc" where
  "Connect_GetWorkflow api claims i =
     authenticated claims (required i ''id is required''
       (rpc_seq (rpc_call connectErrorForBusiness (GetWorkflowWithSchedules (sa_business api) i)) (\<lambda>(def, schedules).
          rpc_ok (workflowDefinitionToProto (sa_db api) def, scheduleDefinitionsToProto schedules))))"

record ListWorkflowsRequest =
  lw_Status :: WorkflowStatus
  lw_Name :: string
  lw_Search :: "SearchRequest option"

text \<open>The status is checked and not used: the search finds active versions only.\<close>

definition Connect_ListWorkflows ::
    "('env, 'ast, 'prg, 'sch, 'loc) service_api \<Rightarrow> string option \<Rightarrow> ListWorkflowsRequest
      \<Rightarrow> (proto list \<times> PageCursor option) rpc" where
  "Connect_ListWorkflows api claims req =
     authenticated claims (case workflowStatusFilter (lw_Status req) of
       Inl e \<Rightarrow> rpc_fail e
     | Inr _ \<Rightarrow>
         (let pageLimit = searchLimit (lw_Search req) defaultWorkflowPageLimit in
          rpc_seq (rpc_call connectErrorForBusiness (db_read (SearchWorkflows (sa_db api)
            \<lparr>wl_Name = lw_Name req, wl_Query = searchQuery (lw_Search req), wl_IDQuery = searchIDQuery (lw_Search req),
             wl_Cursor = searchPage (lw_Search req), wl_Limit = pageLimit\<rparr>))) (\<lambda>page.
            rpc_ok (map (workflowDefinitionToProto (sa_db api)) (pg_Items page), nextCursorProto (pg_NextCursor page) pageLimit))))"

definition shown_workflow :: "('env, 'ast, 'prg, 'sch, 'loc) service_api \<Rightarrow> string \<Rightarrow> proto rpc" where
  "shown_workflow api i =
     rpc_seq (rpc_call connectErrorForBusiness (GetWorkflow (sa_business api) i)) (\<lambda>def.
       rpc_ok (workflowDefinitionToProto (sa_db api) def))"

definition Connect_ActivateWorkflow ::
    "('env, 'ast, 'prg, 'sch, 'loc) service_api \<Rightarrow> string option \<Rightarrow> string \<Rightarrow> proto rpc" where
  "Connect_ActivateWorkflow api claims i =
     authenticated claims (required i ''id is required''
       (rpc_seq (rpc_call connectErrorForBusiness (ActivateWorkflow (sa_business api) (sa_now api) i)) (\<lambda>_. shown_workflow api i)))"

definition Connect_ArchiveWorkflow ::
    "('env, 'ast, 'prg, 'sch, 'loc) service_api \<Rightarrow> string option \<Rightarrow> string \<Rightarrow> proto rpc" where
  "Connect_ArchiveWorkflow api claims i =
     authenticated claims (required i ''id is required''
       (rpc_seq (rpc_call connectErrorForBusiness (ArchiveWorkflow (sa_business api) (sa_now api) i)) (\<lambda>_. shown_workflow api i)))"

section \<open>Runs (runtime_connect.go)\<close>

definition defaultRuntimePageLimit :: int where "defaultRuntimePageLimit = 50"

record ListInstancesRequest =
  li_Status :: InstanceStatus
  li_WorkflowName :: string
  li_Search :: "SearchRequest option"

definition Connect_ListInstances ::
    "('env, 'ast, 'prg, 'sch, 'loc) service_api \<Rightarrow> string option \<Rightarrow> ListInstancesRequest
      \<Rightarrow> (proto list \<times> PageCursor option) rpc" where
  "Connect_ListInstances api claims req =
     authenticated claims
       (let pageLimit = searchLimit (li_Search req) defaultRuntimePageLimit in
        rpc_seq (rpc_call (\<lambda>_. rpc_says CodeInternal ''failed to list instances'')
          (db_read (Instance_ListPage (sa_db api)
            \<lparr>il_Status = instanceStatusFilter (li_Status req), il_WorkflowName = li_WorkflowName req,
             il_Query = searchQuery (li_Search req), il_IDQuery = searchIDQuery (li_Search req),
             il_ParentInstanceID = searchExtraString (li_Search req) ''parent_instance_id'',
             il_ParentExecutionID = searchExtraString (li_Search req) ''parent_execution_id'',
             il_Cursor = searchPage (li_Search req), il_Limit = pageLimit\<rparr>))) (\<lambda>page.
          rpc_ok (map (workflowInstanceToProto (sa_db api)) (pg_Items page), nextCursorProto (pg_NextCursor page) pageLimit)))"

definition retried ::
    "('env, 'ast, 'prg, 'sch, 'loc) service_api \<Rightarrow> WorkflowStateExecution \<Rightarrow> WorkflowInstance \<Rightarrow> proto rpc" where
  "retried api exec inst =
     rpc_seq (rpc_call (RpcError CodeFailedPrecondition) (createRetryExecution (sa_svc api) True (sa_now api) exec inst))
       (\<lambda>newExec. rpc_ok (workflowExecutionToProto (sa_db api) newExec RawEmpty False))"

definition instance_of :: "('env, 'ast, 'prg, 'sch, 'loc) service_api \<Rightarrow> string \<Rightarrow> WorkflowInstance rpc" where
  "instance_of api i = rpc_call (connectLookupError ''instance not found'') (db_read (Instance_GetByID (sa_db api) i))"

definition execution_of :: "('env, 'ast, 'prg, 'sch, 'loc) service_api \<Rightarrow> string \<Rightarrow> WorkflowStateExecution rpc" where
  "execution_of api i = rpc_call (connectLookupError ''execution not found'') (db_read (Exec_GetByID (sa_db api) i))"

definition latest_of :: "('env, 'ast, 'prg, 'sch, 'loc) service_api \<Rightarrow> string \<Rightarrow> WorkflowStateExecution rpc" where
  "latest_of api i =
     rpc_call (connectLookupError ''latest execution not found'') (db_read (GetLatestByInstance (sa_db api) i))"

definition Connect_RetryInstance ::
    "('env, 'ast, 'prg, 'sch, 'loc) service_api \<Rightarrow> string option \<Rightarrow> string \<Rightarrow> proto rpc" where
  "Connect_RetryInstance api claims instanceID =
     authenticated claims (required instanceID ''instance_id is required''
       (rpc_seq (instance_of api instanceID) (\<lambda>inst.
        rpc_seq (latest_of api instanceID) (\<lambda>exec. retried api exec inst))))"

record ListExecutionsRequest =
  lx_Status :: ProtoExecutionStatus
  lx_InstanceId :: string
  lx_Search :: "SearchRequest option"

definition Connect_ListExecutions ::
    "('env, 'ast, 'prg, 'sch, 'loc) service_api \<Rightarrow> string option \<Rightarrow> ListExecutionsRequest
      \<Rightarrow> (proto list \<times> PageCursor option) rpc" where
  "Connect_ListExecutions api claims req =
     authenticated claims
       (let pageLimit = searchLimit (lx_Search req) defaultRuntimePageLimit in
        rpc_seq (rpc_call (RpcError CodeInternal) (db_read (Exec_ListPage (sa_db api)
            \<lparr>xl_Status = executionStatusFilter (lx_Status req), xl_InstanceID = lx_InstanceId req,
             xl_Query = searchQuery (lx_Search req), xl_IDQuery = searchIDQuery (lx_Search req),
             xl_Cursor = searchPage (lx_Search req), xl_Limit = pageLimit\<rparr>))) (\<lambda>page.
          rpc_ok (map (\<lambda>e. workflowExecutionToProto (sa_db api) e RawEmpty False) (pg_Items page),
            nextCursorProto (pg_NextCursor page) pageLimit)))"

text \<open>An output that cannot be read is shown as none.\<close>

definition output_of :: "('env, 'ast, 'prg, 'sch, 'loc) service_api \<Rightarrow> string \<Rightarrow> bool \<Rightarrow> raw_json rpc" where
  "output_of api executionID wanted =
     (if \<not> wanted then rpc_ok RawEmpty
      else rpc_seq (rpc_call internal (op_try (db_read (Output_GetByExecution (sa_db api) executionID)))) (\<lambda>r.
        rpc_ok (case r of Inl _ \<Rightarrow> RawEmpty | Inr out \<Rightarrow> so_Payload out)))"

definition Connect_GetExecution ::
    "('env, 'ast, 'prg, 'sch, 'loc) service_api \<Rightarrow> string option \<Rightarrow> string \<Rightarrow> bool \<Rightarrow> proto rpc" where
  "Connect_GetExecution api claims executionID includeOutput =
     authenticated claims (required executionID ''execution_id is required''
       (rpc_seq (execution_of api executionID) (\<lambda>exec.
        rpc_seq (output_of api executionID includeOutput) (\<lambda>out.
        rpc_ok (workflowExecutionToProto (sa_db api) exec out includeOutput)))))"

definition Connect_RetryExecution ::
    "('env, 'ast, 'prg, 'sch, 'loc) service_api \<Rightarrow> string option \<Rightarrow> string \<Rightarrow> proto rpc" where
  "Connect_RetryExecution api claims executionID =
     authenticated claims (required executionID ''execution_id is required''
       (rpc_seq (execution_of api executionID) (\<lambda>exec.
        rpc_seq (instance_of api (ex_InstanceID exec)) (\<lambda>inst. retried api exec inst))))"

definition Connect_ResumeExecution ::
    "('env, 'ast, 'prg, 'sch, 'loc) service_api \<Rightarrow> string option \<Rightarrow> string \<Rightarrow> go_map option \<Rightarrow> (proto \<times> string) rpc" where
  "Connect_ResumeExecution api claims executionID payload =
     authenticated claims (required executionID ''execution_id is required''
       (rpc_seq (execution_of api executionID) (\<lambda>exec.
          if ex_Status exec = ExecStatusWaiting then
            rpc_seq (rpc_call (RpcError CodeInvalidArgument) (op_of (rawJSONFromStruct payload))) (\<lambda>payloadBytes.
            rpc_seq (rpc_call connectErrorForBusiness
              (ResumeWaitingExecution (sa_svc api) (sa_now api) (bm_ID exec) payloadBytes)) (\<lambda>_.
            rpc_seq (execution_of api (bm_ID exec)) (\<lambda>updated.
            rpc_ok (workflowExecutionToProto (sa_db api) updated RawEmpty False, ''resumed_waiting_execution''))))
          else
            rpc_seq (instance_of api (ex_InstanceID exec)) (\<lambda>inst.
            rpc_seq (retried api exec inst) (\<lambda>shown. rpc_ok (shown, ''created_retry_execution''))))))"

record instanceRunData =
  rd_instance :: WorkflowInstance
  rd_latestExec :: WorkflowStateExecution
  rd_executions :: "WorkflowStateExecution list"
  rd_timeline :: "WorkflowAuditEvent list"
  rd_outputs :: "WorkflowStateOutput list"
  rd_scopeRuns :: "WorkflowScopeRun list"
  rd_signalWaits :: "WorkflowSignalWait list"
  rd_signalMessages :: "WorkflowSignalMessage list"

record GetInstanceRunRequest =
  gr_InstanceId :: string
  gr_ExecutionLimit :: int
  gr_TimelineLimit :: int
  gr_IncludePayloads :: bool

definition loadInstanceRunData ::
    "('env, 'ast, 'prg, 'sch, 'loc) service_api \<Rightarrow> GetInstanceRunRequest \<Rightarrow> instanceRunData rpc" where
  "loadInstanceRunData api req =
     (let db = sa_db api; i = gr_InstanceId req; n = gr_ExecutionLimit req in
      rpc_seq (instance_of api i) (\<lambda>inst.
      rpc_seq (latest_of api i) (\<lambda>latest.
      rpc_seq (rpc_call internal (db_read (Exec_List db [] i n))) (\<lambda>executions.
      rpc_seq (rpc_call internal (db_read (ListByInstanceWithLimit db i (gr_TimelineLimit req)))) (\<lambda>timeline.
      rpc_seq (rpc_call internal (db_read (Output_ListByInstance db i n))) (\<lambda>outputs.
      rpc_seq (rpc_call internal (db_read (Scope_ListByInstance db i n))) (\<lambda>scopes.
      rpc_seq (rpc_call internal (db_read (Wait_ListByInstance db i n))) (\<lambda>waits.
      rpc_seq (rpc_call internal (db_read (Message_ListByInstance db i n))) (\<lambda>messages.
      rpc_ok \<lparr>rd_instance = inst, rd_latestExec = latest, rd_executions = executions, rd_timeline = timeline,
        rd_outputs = outputs, rd_scopeRuns = scopes, rd_signalWaits = waits, rd_signalMessages = messages\<rparr>)))))))))"

definition resumeStrategyForExecution :: "WorkflowStateExecution \<Rightarrow> string" where
  "resumeStrategyForExecution exec = (case ex_Status exec of
     ExecStatusWaiting \<Rightarrow> ''resume_waiting_execution''
   | ExecStatusFailed \<Rightarrow> ''retry_execution'' | ExecStatusFatal \<Rightarrow> ''retry_execution'' | ExecStatusTimedOut \<Rightarrow> ''retry_execution''
   | ExecStatusInvalidInputContract \<Rightarrow> ''retry_execution'' | ExecStatusInvalidOutputContract \<Rightarrow> ''retry_execution''
   | ExecStatusRetryScheduled \<Rightarrow> ''retry_execution''
   | ExecStatusPending \<Rightarrow> ''none'' | ExecStatusDispatched \<Rightarrow> ''none'' | ExecStatusRunning \<Rightarrow> ''none''
   | ExecStatusCompleted \<Rightarrow> ''none'' | ExecStatusStale \<Rightarrow> ''none'')"

record InstanceRun =
  ru_Instance :: proto
  ru_LatestExecution :: proto
  ru_TraceId :: string
  ru_ResumeStrategy :: string
  ru_Executions :: "proto list"
  ru_Timeline :: "proto list"
  ru_Outputs :: "proto list"
  ru_ScopeRuns :: "proto list"
  ru_SignalWaits :: "proto list"
  ru_SignalMessages :: "proto list"

definition executionProtos :: "engine_env \<Rightarrow> bool \<Rightarrow> instanceRunData \<Rightarrow> proto list" where
  "executionProtos env includePayloads d = map (\<lambda>e. workflowExecutionToProto env e RawEmpty includePayloads) (rd_executions d)"
definition timelineProtos :: "engine_env \<Rightarrow> bool \<Rightarrow> instanceRunData \<Rightarrow> proto list" where
  "timelineProtos env includePayloads d = map (runtimeTimelineEntryToProto env includePayloads) (rd_timeline d)"
definition outputProtos :: "engine_env \<Rightarrow> bool \<Rightarrow> instanceRunData \<Rightarrow> proto list" where
  "outputProtos env includePayloads d = map (stateOutputToProto env includePayloads) (rd_outputs d)"
definition scopeProtos :: "engine_env \<Rightarrow> bool \<Rightarrow> instanceRunData \<Rightarrow> proto list" where
  "scopeProtos env includePayloads d = map (scopeRunToProto env includePayloads) (rd_scopeRuns d)"
definition waitProtos :: "instanceRunData \<Rightarrow> proto list" where
  "waitProtos d = map signalWaitToProto (rd_signalWaits d)"
definition messageProtos :: "engine_env \<Rightarrow> bool \<Rightarrow> instanceRunData \<Rightarrow> proto list" where
  "messageProtos env includePayloads d = map (signalMessageToProto env includePayloads) (rd_signalMessages d)"

definition Connect_GetInstanceRun ::
    "('env, 'ast, 'prg, 'sch, 'loc) service_api \<Rightarrow> string option \<Rightarrow> GetInstanceRunRequest \<Rightarrow> InstanceRun rpc" where
  "Connect_GetInstanceRun api claims req =
     authenticated claims (required (gr_InstanceId req) ''instance_id is required''
       (rpc_seq (loadInstanceRunData api req) (\<lambda>d.
        let db = sa_db api; payloads = gr_IncludePayloads req in
        rpc_ok \<lparr>ru_Instance = workflowInstanceToProto db (rd_instance d),
          ru_LatestExecution = workflowExecutionToProto db (rd_latestExec d) RawEmpty False,
          ru_TraceId = ex_TraceID (rd_latestExec d), ru_ResumeStrategy = resumeStrategyForExecution (rd_latestExec d),
          ru_Executions = executionProtos db payloads d, ru_Timeline = timelineProtos db payloads d,
          ru_Outputs = outputProtos db payloads d, ru_ScopeRuns = scopeProtos db payloads d,
          ru_SignalWaits = waitProtos d, ru_SignalMessages = messageProtos db payloads d\<rparr>)))"

end
