(* ===== verification/Connect_Correct.thy ===== *)
theory Connect_Correct
  imports Connect_Api Workflow_Correct
begin

text \<open>
  The RPCs of the default service: without claims nothing happens, the calls of the runtime are
  steps of the engine, and where a manual retry breaks its invariant.
\<close>

section \<open>Calls as steps\<close>

named_theorems rpc_intros \<open>rules of \<open>rpc_advances\<close>\<close>

definition rpc_advances :: "'a rpc \<Rightarrow> Svc \<Rightarrow> bool" where
  "rpc_advances m s \<longleftrightarrow> (engine_inv (sv_db s) \<longrightarrow> engine_step\<^sup>*\<^sup>* (sv_db s) (sv_db (snd (m s))))"

lemma rpc_advances_plain [rpc_intros]: "rpc_advances (rpc_ok x) s" "rpc_advances (rpc_fail e) s"
  by (simp_all add: rpc_advances_def rpc_ok_def rpc_fail_def)

lemma rpc_advances_seq [rpc_intros]:
  assumes "rpc_advances m s" and "\<And>x s'. m s = (Inr x, s') \<Longrightarrow> rpc_advances (f x) s'"
  shows "rpc_advances (rpc_seq m f) s"
proof -
  obtain r s' where m: "m s = (r, s')" by force
  have first: "engine_step\<^sup>*\<^sup>* (sv_db s) (sv_db s')" if "engine_inv (sv_db s)"
    using assms(1) m that by (simp add: rpc_advances_def)
  show ?thesis
  proof (cases r)
    case (Inr x)
    have "engine_step\<^sup>*\<^sup>* (sv_db s) (sv_db (snd (f x s')))" if i: "engine_inv (sv_db s)"
    proof -
      from steps_inv [OF first [OF i] i] have "engine_step\<^sup>*\<^sup>* (sv_db s') (sv_db (snd (f x s')))"
        using assms(2) [OF m [unfolded Inr]] by (simp add: rpc_advances_def)
      with first [OF i] show ?thesis by simp
    qed
    with m Inr show ?thesis by (simp add: rpc_advances_def rpc_seq_def)
  qed (use first m in \<open>simp add: rpc_advances_def rpc_seq_def\<close>)
qed

lemma rpc_advances_call [rpc_intros]: "advances m s \<Longrightarrow> rpc_advances (rpc_call g m) s"
  by (cases "m s") (auto simp: rpc_advances_def advances_def rpc_call_def split: sum.splits)

lemma rpc_advances_guards [rpc_intros]:
  "rpc_advances m s \<Longrightarrow> rpc_advances (authenticated claims m) s" "rpc_advances m s \<Longrightarrow> rpc_advances (required v c m) s"
  by (auto simp: authenticated_def required_def rpc_advances_plain split: option.splits)

lemma rpc_advances_if [rpc_intros]:
  "(P \<Longrightarrow> rpc_advances a s) \<Longrightarrow> (\<not> P \<Longrightarrow> rpc_advances b s) \<Longrightarrow> rpc_advances (if P then a else b) s"
  by simp

lemma rpc_advances_sum [rpc_intros]:
  "(\<And>x. r = Inl x \<Longrightarrow> rpc_advances (f x) s) \<Longrightarrow> (\<And>y. r = Inr y \<Longrightarrow> rpc_advances (g y) s) \<Longrightarrow>
     rpc_advances (case r of Inl x \<Rightarrow> f x | Inr y \<Rightarrow> g y) s"
  by (cases r) simp_all

lemma rpc_advances_option [rpc_intros]:
  "(r = None \<Longrightarrow> rpc_advances a s) \<Longrightarrow> (\<And>y. r = Some y \<Longrightarrow> rpc_advances (g y) s) \<Longrightarrow>
     rpc_advances (case r of None \<Rightarrow> a | Some y \<Rightarrow> g y) s"
  by (cases r) simp_all

lemma advances_plat: "advances (plat_read f) s" "advances (plat_run g) s" "advances (plat_exec h) s"
  by (auto simp: advances_def plat_read_def plat_run_def plat_exec_def split: sum.splits prod.splits)

lemma advances_publish: "advances (PublishAfterCreate env t p q pub now e) s"
  unfolding PublishAfterCreate_def
  by (auto split: sum.splits option.splits intro!: advances_intros advances_plat)

section \<open>Manual retries\<close>

lemma advances_retry:
  assumes "env_ok (se_db env)" and "no_open (bm_ID inst) (es_execs (sv_db s))"
    and "db_get (es_instances (sv_db s)) (ex_InstanceID exec) = Some inst"
  shows "advances (createRetryExecution env audits now exec inst) s"
proof -
  have i: "bm_ID inst = ex_InstanceID exec" "inst \<in> set (es_instances (sv_db s))"
    using db_get_SomeD [OF assms(3)] by auto
  have "advances (db_run (CreateRetryExecution (se_db env) now
      \<lparr>cr_Execution = exec, cr_Instance = inst, cr_NewExecution = retry_execution exec tok None\<rparr>)) s'"
    if "sv_db s' = sv_db s" for tok s'
    using assms(1,2) i that
    by (intro advances_run r_into_rtranclp) (auto intro!: step_manual_retry simp: retry_execution_def new_execution_def)
  then show ?thesis
    unfolding createRetryExecution_def
    by (auto intro!: advances_intros)
qed

lemma lookup_calls:
  "execution_of api i s = (Inr e, s') \<longleftrightarrow> \<not> ee_F (sa_db api) ''get execution'' \<and> db_get (es_execs (sv_db s)) i = Some e \<and> s' = s"
  "instance_of api i s = (Inr m, s') \<longleftrightarrow> \<not> ee_F (sa_db api) ''get instance'' \<and> db_get (es_instances (sv_db s)) i = Some m \<and> s' = s"
  by (auto simp: execution_of_def instance_of_def rpc_call_def db_read_def Exec_GetByID_def Instance_GetByID_def repo_get_def
      split: sum.splits prod.splits option.splits)

lemma latest_by_mem: "latest_by key rows = Some r \<Longrightarrow> r \<in> set rows"
proof -
  have "foldl (\<lambda>m x. if key m < key x then x else m) a xs \<in> set (a # xs)" for a xs
    by (induction xs arbitrary: a) (auto split: if_splits)
  then show "latest_by key rows = Some r \<Longrightarrow> r \<in> set rows"
    by (cases rows) (auto simp: latest_by_def)
qed

lemma latest_call:
  assumes "latest_of api i s = (Inr e, s')"
  shows "ex_InstanceID e = i \<and> s' = s"
proof -
  from assms have "latest_by age_order (db_select (\<lambda>e. ex_InstanceID e = i) (es_execs (sv_db s))) = Some e \<and> s' = s"
    by (auto simp: latest_of_def rpc_call_def db_read_def GetLatestByInstance_def res_simps split: sum.splits option.splits)
  then show ?thesis by (auto dest!: latest_by_mem simp: db_select_def)
qed

lemma rpc_advances_retried:
  assumes "env_ok (sa_db api)" and "no_open (bm_ID inst) (es_execs (sv_db s))"
    and "db_get (es_instances (sv_db s)) (ex_InstanceID exec) = Some inst"
  shows "rpc_advances (retried api exec inst) s"
  unfolding retried_def using assms by (intro rpc_intros advances_retry)

section \<open>The calls of the runtime\<close>

datatype runtime_call =
    Ingest_rpc IngestEventRequest | Timeline_rpc string | Signal_rpc string string "go_map option"
  | Instances_rpc ListInstancesRequest | Executions_rpc ListExecutionsRequest | Execution_rpc string bool
  | Run_rpc GetInstanceRunRequest | RetryInstance_rpc string | RetryExecution_rpc string | Resume_rpc string "go_map option"

definition outcome :: "(rpc_error + 'a) \<times> Svc \<Rightarrow> rpc_error option \<times> Svc" where
  "outcome r = (case r of (Inl e, s) \<Rightarrow> (Some e, s) | (Inr _, s) \<Rightarrow> (None, s))"

fun serve_rpc ::
    "('env, 'ast, 'prg, 'sch, 'loc) service_api \<Rightarrow> string option \<Rightarrow> runtime_call \<Rightarrow> Svc \<Rightarrow> rpc_error option \<times> Svc" where
  "serve_rpc api claims (Ingest_rpc req) s = outcome (Connect_IngestEvent api claims req s)"
| "serve_rpc api claims (Timeline_rpc i) s = outcome (Connect_GetInstanceTimeline api claims i s)"
| "serve_rpc api claims (Signal_rpc i n p) s = outcome (Connect_SendSignal api claims i n p s)"
| "serve_rpc api claims (Instances_rpc req) s = outcome (Connect_ListInstances api claims req s)"
| "serve_rpc api claims (Executions_rpc req) s = outcome (Connect_ListExecutions api claims req s)"
| "serve_rpc api claims (Execution_rpc i b) s = outcome (Connect_GetExecution api claims i b s)"
| "serve_rpc api claims (Run_rpc req) s = outcome (Connect_GetInstanceRun api claims req s)"
| "serve_rpc api claims (RetryInstance_rpc i) s = outcome (Connect_RetryInstance api claims i s)"
| "serve_rpc api claims (RetryExecution_rpc i) s = outcome (Connect_RetryExecution api claims i s)"
| "serve_rpc api claims (Resume_rpc i p) s = outcome (Connect_ResumeExecution api claims i p s)"

text \<open>A retry is safe when nothing of the instance is open.\<close>

definition retry_of_closed :: "string \<Rightarrow> EngineState \<Rightarrow> bool" where
  "retry_of_closed x st \<longleftrightarrow> (\<forall>e. db_get (es_execs st) x = Some e \<longrightarrow> ex_Status e = ExecStatusWaiting \<or> no_open (ex_InstanceID e) (es_execs st))"

fun call_safe :: "runtime_call \<Rightarrow> EngineState \<Rightarrow> bool" where
  "call_safe (RetryInstance_rpc i) st \<longleftrightarrow> no_open i (es_execs st)"
| "call_safe (RetryExecution_rpc x) st \<longleftrightarrow> retry_of_closed x st"
| "call_safe (Resume_rpc x p) st \<longleftrightarrow> retry_of_closed x st"
| "call_safe _ st \<longleftrightarrow> True"

lemma snd_outcome [simp]: "snd (outcome r) = snd r"
  by (auto simp: outcome_def split: prod.splits sum.splits)

lemma rpc_reads [rpc_intros]:
  "rpc_advances (execution_of api i) s" "rpc_advances (instance_of api i) s" "rpc_advances (latest_of api i) s"
  "rpc_advances (output_of api i w) s"
  unfolding execution_of_def instance_of_def latest_of_def output_of_def by (intro rpc_intros advances_intros)+

lemma rpc_advances_ingest: "rpc_advances (Connect_IngestEvent api claims req) s"
  unfolding Connect_IngestEvent_def validateIngestEventRequest_def lookupExistingEventResponse_def published_def
    storeEventWithDuplicateRecovery_def buildEventLogFromRequest_def Let_def prod.case
  by (intro rpc_intros advances_try advances_plat advances_publish)

lemma rpc_advances_run: "rpc_advances (Connect_GetInstanceRun api claims req) s"
  unfolding Connect_GetInstanceRun_def loadInstanceRunData_def Let_def
  by (intro rpc_intros advances_intros)

lemma not_retryable_waiting:
  "ex_Status exec = ExecStatusWaiting \<Longrightarrow> advances (createRetryExecution env audits now exec inst) s"
  by (auto simp: createRetryExecution_def retryableStatuses_def intro: advances_intros)

lemma rpc_advances_retry_of:
  assumes env: "env_ok (sa_db api)" and closed: "retry_of_closed x (sv_db s)"
    and e: "db_get (es_execs (sv_db s)) x = Some exec"
    and inst: "instance_of api (ex_InstanceID exec) s = (Inr inst, s')"
  shows "rpc_advances (retried api exec inst) s'"
proof -
  from inst have i: "db_get (es_instances (sv_db s)) (ex_InstanceID exec) = Some inst" "s' = s" by (auto simp: lookup_calls)
  then have "bm_ID inst = ex_InstanceID exec" by (simp add: db_get_SomeD)
  then have "advances (createRetryExecution (sa_svc api) True (sa_now api) exec inst) s'"
    using assms i by (cases "ex_Status exec = ExecStatusWaiting")
      (auto simp: retry_of_closed_def intro: not_retryable_waiting advances_retry)
  then show "rpc_advances (retried api exec inst) s'" unfolding retried_def by (intro rpc_intros)
qed

lemma rpc_advances_retry_execution:
  assumes "env_ok (sa_db api)" and "retry_of_closed x (sv_db s)"
  shows "rpc_advances (Connect_RetryExecution api claims x) s" and "rpc_advances (Connect_ResumeExecution api claims x p) s"
proof -
  show "rpc_advances (Connect_RetryExecution api claims x) s"
    unfolding Connect_RetryExecution_def
    by (intro rpc_intros; rule rpc_advances_retry_of [OF assms]) (auto simp: lookup_calls)
  show "rpc_advances (Connect_ResumeExecution api claims x p) s"
    unfolding Connect_ResumeExecution_def ResumeWaitingExecution_def
  proof (intro rpc_intros advances_intros advances_resume [OF assms(1)])
    fix exec s1 inst s2
    assume "execution_of api x s = (Inr exec, s1)" "instance_of api (ex_InstanceID exec) s1 = (Inr inst, s2)"
    then show "rpc_advances (retried api exec inst) s2"
      by (auto simp: lookup_calls intro: rpc_advances_retry_of [OF assms])
  qed
qed

lemma rpc_advances_retry_instance:
  assumes "env_ok (sa_db api)" and "no_open i (es_execs (sv_db s))"
  shows "rpc_advances (Connect_RetryInstance api claims i) s"
  unfolding Connect_RetryInstance_def
proof (intro rpc_intros)
  fix inst s1 exec s2
  assume "instance_of api i s = (Inr inst, s1)" "latest_of api i s1 = (Inr exec, s2)"
  then have i: "db_get (es_instances (sv_db s)) i = Some inst" "ex_InstanceID exec = i" "s2 = s"
    using latest_call [of api i s1 exec s2] by (auto simp: lookup_calls)
  moreover have "bm_ID inst = i" using i(1) by (simp add: db_get_SomeD)
  ultimately show "rpc_advances (retried api exec inst) s2" using assms by (intro rpc_advances_retried) auto
qed

lemma rpc_advancesD: "rpc_advances m s \<Longrightarrow> engine_inv (sv_db s) \<Longrightarrow> engine_step\<^sup>*\<^sup>* (sv_db s) (sv_db (snd (m s)))"
  by (simp add: rpc_advances_def)

lemma serve_rpc_advances:
  assumes "env_ok (sa_db api)" and "call_safe call (sv_db s)" and "engine_inv (sv_db s)"
  shows "engine_step\<^sup>*\<^sup>* (sv_db s) (sv_db (snd (serve_rpc api claims call s)))"
proof (cases call)
  case (RetryInstance_rpc i)
  with assms show ?thesis by (auto intro!: rpc_advancesD rpc_advances_retry_instance)
next
  case (RetryExecution_rpc x)
  with assms show ?thesis by (auto intro!: rpc_advancesD rpc_advances_retry_execution(1))
next
  case (Resume_rpc x p)
  with assms show ?thesis by (auto intro!: rpc_advancesD rpc_advances_retry_execution(2))
qed (auto simp: Connect_GetInstanceTimeline_def Connect_SendSignal_def Connect_ListInstances_def Connect_ListExecutions_def
    Connect_GetExecution_def Let_def
    intro!: rpc_advancesD [OF _ assms(3)] rpc_intros rpc_advances_ingest rpc_advances_run advances_intros advances_send [OF assms(1)])

lemma serve_rpc_unauthenticated: "serve_rpc api None call s = (Some (RpcError CodeUnauthenticated ErrMissingAuth), s)"
  by (cases call)
    (simp_all add: Connect_IngestEvent_def validateIngestEventRequest_def Connect_GetInstanceTimeline_def Connect_SendSignal_def
      Connect_ListInstances_def Connect_ListExecutions_def Connect_GetExecution_def Connect_GetInstanceRun_def
      Connect_RetryInstance_def Connect_RetryExecution_def Connect_ResumeExecution_def authenticated_def requireConnectAuth_def
      rpc_fail_def rpc_seq_def outcome_def)


definition ex_api :: "(unit, string, string, unit, unit) service_api" where
  "ex_api = \<lparr>sa_business = ex_business, sa_allow = (\<lambda>_. True), sa_publish = (\<lambda>_. Inr ()), sa_queueName = ''q'', sa_now = 9\<rparr>"

lemma ex_api_db: "sa_svc ex_api = ex_svc_env" "se_db ex_svc_env = ex_env"
  by (simp_all add: ex_api_def ex_business_def ex_svc_env_def)


section \<open>A retry beside an open execution\<close>

lemma append_audit_tables:
  "\<exists>s'. append_audit env role now a s = (Inr (), s') \<and> es_execs (sv_db s') = es_execs (sv_db s) \<and>
     es_instances (sv_db s') = es_instances (sv_db s)"
proof (cases "insert_audit (se_db env) ''append audit event'' role now a (sv_db s)")
  case (Inl err)
  then have "\<not> is_panic err"
    by (auto simp: insert_audit_def Let_def res_simps jsonb_def guard_def create_def stmt_def wrap_def split: if_splits option.splits)
  with Inl show ?thesis by (simp add: append_audit_def op_ignore_def op_seq_def op_try_def db_exec_def op_ok_def)
next
  case (Inr d)
  then have "es_execs d = es_execs (sv_db s)" "es_instances d = es_instances (sv_db s)"
    by (auto simp: insert_audit_def Let_def res_simps)
  with Inr show ?thesis by (simp add: append_audit_def op_ignore_def op_seq_def op_try_def db_exec_def op_ok_def)
qed

text \<open>C22: A manual retry does not look at the other executions of the instance. Whoever has claims and names a failed or
  timed-out execution makes a new pending execution in its state, also when another execution of the instance is open: both
  stay open, and the instance is moved back to the state of the old one. So retrying breaks the rule of one open execution
  per instance.\<close>
theorem manual_retry_opens_second_execution:
  assumes "ee_F (sa_db api) = no_faults" and "claims \<noteq> None" and "x \<noteq> []"
    and "db_get (es_execs (sv_db s)) x = Some e" and "retryableStatuses (ex_Status e)"
    and "jsonb_ok (json_default (VMap []) (ex_InputPayload e))"
    and "db_get (es_instances (sv_db s)) (ex_InstanceID e) = Some m"
    and "new = ee_id (sa_db api) ''retry execution''" and "new \<notin> bm_ID ` set (es_execs (sv_db s))"
    and "db_get (es_execs (sv_db s)) y = Some busy" and "open_exec busy" and "ex_InstanceID busy = ex_InstanceID e"
  shows "\<exists>shown s' p m'. Connect_RetryExecution api claims x s = (Inr shown, s') \<and>
    db_get (es_execs (sv_db s')) new = Some p \<and> open_exec p \<and> ex_InstanceID p = ex_InstanceID e \<and> ex_State p = ex_State e \<and>
    db_get (es_execs (sv_db s')) y = Some busy \<and> new \<noteq> y \<and>
    db_get (es_instances (sv_db s')) (ex_InstanceID e) = Some m' \<and> wi_CurrentState m' = ex_State e"
proof -
  define retry where "retry = retry_execution e (ee_token (sa_db api) ''retry'') None"
  define p where "p = execution_row (sa_db api) ''retry execution'' (sa_now api) retry"
  define reset where "reset = (\<lambda>i::WorkflowInstance. i\<lparr>wi_Status := InstanceStatusRunning, wi_CurrentState := ex_State e,
      bm_ModifiedAt := sa_now api, wi_FinishedAt := None, wi_Revision := wi_Revision i + 1\<rparr>)"
  define db where "db = (sv_db s)\<lparr>es_execs := es_execs (sv_db s) @ [p],
      es_instances := db_update (\<lambda>i. bm_ID i = bm_ID m) reset (es_instances (sv_db s))\<rparr>"
  note row = p_def retry_def retry_execution_def new_execution_def execution_row_def with_id_def
  have p: "bm_ID p = new" "live p" "open_exec p" "ex_InstanceID p = ex_InstanceID e" "ex_State p = ex_State e"
      "ex_InputPayload p = json_default (VMap []) (ex_InputPayload e)"
    using assms(8) by (simp_all add: row live_def open_exec_def)
  have id: "bm_ID m = ex_InstanceID e" using assms(7) by (simp add: db_get_SomeD)
  have fresh: "db_insert no_conflict p (es_execs (sv_db s)) = Some (es_execs (sv_db s) @ [p])"
    using assms(9) p(1) by (auto simp: db_insert_def no_conflict_def list_ex_iff image_iff)
  have "CreateRetryExecution (sa_db api) (sa_now api) \<lparr>cr_Execution = e, cr_Instance = m, cr_NewExecution = retry\<rparr> (sv_db s) = Inr (p, db)"
    using assms(1,6) p(6) fresh
    by (simp add: CreateRetryExecution_def insert_execution_def Let_def create_def jsonb_def guard_def p_def [symmetric] db_def reset_def)
  then have "\<exists>s'. createRetryExecution (sa_svc api) True (sa_now api) e m s = (Inr p, s') \<and>
      es_execs (sv_db s') = es_execs db \<and> es_instances (sv_db s') = es_instances db"
  proof -
    obtain s' where a: "append_audit (sa_svc api) ''retry audit'' (sa_now api) (new_audit (ex_InstanceID e) (bm_ID p) ''state.retried''
        (ex_State e) (ex_TraceID e) RawEmpty) (s\<lparr>sv_db := db\<rparr>) = (Inr (), s')"
        "es_execs (sv_db s') = es_execs db" "es_instances (sv_db s') = es_instances db"
      using append_audit_tables [of "sa_svc api" "''retry audit''" "sa_now api" _ "s\<lparr>sv_db := db\<rparr>"] by fastforce
    assume c: "CreateRetryExecution (sa_db api) (sa_now api) \<lparr>cr_Execution = e, cr_Instance = m, cr_NewExecution = retry\<rparr> (sv_db s) = Inr (p, db)"
    have "createRetryExecution (sa_svc api) True (sa_now api) e m s = (Inr p, s')"
      using assms(1,5) c a(1)
      by (simp add: createRetryExecution_def op_seq_def op_map_err_def op_of_def db_run_def op_ok_def retry_def)
    then show ?thesis using a(2,3) by blast
  qed
  then obtain s' where r: "createRetryExecution (sa_svc api) True (sa_now api) e m s = (Inr p, s')"
    "es_execs (sv_db s') = es_execs db" "es_instances (sv_db s') = es_instances db" by blast
  have "Connect_RetryExecution api claims x s = (Inr (workflowExecutionToProto (sa_db api) p RawEmpty False), s')"
    using assms(1-4,7) r(1) lookup_calls(1) [of api x s e s] lookup_calls(2) [of api "ex_InstanceID e" s m s]
    by (auto simp: Connect_RetryExecution_def authenticated_def requireConnectAuth_def required_def rpc_seq_def retried_def
        rpc_call_def rpc_ok_def no_faults_def)
  moreover have "busy \<in> set (es_execs (sv_db s))" "bm_ID busy = y" using db_get_SomeD [OF assms(10)] by simp_all
  then have "new \<noteq> y" using assms(9) by blast
  moreover have "db_get (es_execs db) new = Some p" "db_get (es_execs db) y = Some busy"
    using db_get_insert [OF fresh p(2)] assms(10) p(1) \<open>new \<noteq> y\<close> by (simp_all add: db_def)
  moreover have "db_get (es_instances db) (ex_InstanceID e) = Some (reset m)"
    using assms(7) id by (simp add: db_def db_get_update_id keeps_key_def reset_def)
  moreover have "wi_CurrentState (reset m) = ex_State e" by (simp add: reset_def)
  ultimately show ?thesis using p(3-5) r(2,3) by auto
qed

text \<open>An execution that timed out and was retried; the retry runs.\<close>

definition ex_timed_out :: WorkflowStateExecution where
  "ex_timed_out = (new_execution ''wf'' ''a'' 1 ExecStatusTimedOut [] [] empty_object [])\<lparr>bm_ID := ''old''\<rparr>"

definition ex_retried :: EngineState where
  "ex_retried = ex_s3\<lparr>es_execs := ex_timed_out # es_execs ex_s3\<rparr>"

lemma manual_retry_opens_second_execution_witness:
  "\<exists>s' p. snd (Connect_RetryExecution ex_api (Some ''t'') ''old'' (ex_svc ex_retried)) = s' \<and>
     db_get (es_execs (sv_db s')) ''#retry execution'' = Some p \<and> open_exec p \<and>
     db_get (es_execs (sv_db s')) ''#ex'' = Some (hd (es_execs ex_s3))"
proof -
  have rows: "db_get (es_execs ex_retried) ''old'' = Some ex_timed_out"
    "db_get (es_instances ex_retried) ''wf'' = Some (hd (es_instances ex_s3))"
    "db_get (es_execs ex_retried) ''#ex'' = Some (hd (es_execs ex_s3))"
    "map bm_ID (es_execs ex_retried) = [''old'', ''#ex'']" "ex_InstanceID (hd (es_execs ex_s3)) = ''wf''"
    "open_exec (hd (es_execs ex_s3))"
    by code_simp+
  have "''#retry execution'' \<notin> set [''old'', ''#ex'']" by simp
  then have new: "''#retry execution'' \<notin> bm_ID ` set (es_execs ex_retried)" unfolding rows(4) [symmetric] set_map .
  from new show ?thesis
    using manual_retry_opens_second_execution [where api = ex_api and claims = "Some ''t''" and x = "''old''"
      and s = "ex_svc ex_retried" and e = ex_timed_out and m = "hd (es_instances ex_s3)" and new = "''#retry execution''"
      and y = "''#ex''" and busy = "hd (es_execs ex_s3)"] rows
    by (auto simp: ex_api_db ex_env_def ex_svc_def ex_timed_out_def new_execution_def retryableStatuses_def json_default_def
      empty_object_def)
qed

section \<open>Statuses\<close>

lemma instance_status_names:
  "instanceStatusFilter (instanceStatusToProto i) = instance_status_string i \<and> instance_status_string i \<noteq> [] \<and>
   (instance_status_string i' = instance_status_string i \<longrightarrow> i' = i)"
proof -
  let ?all = "[InstanceStatusRunning, InstanceStatusCompleted, InstanceStatusFailed, InstanceStatusCancelled, InstanceStatusSuspended]"
  have "distinct (map instance_status_string ?all)" by code_simp
  then have "inj_on instance_status_string (set ?all)" unfolding distinct_map by blast
  moreover have "z \<in> set ?all" for z by (cases z) simp_all
  moreover have "instanceStatusFilter (instanceStatusToProto i) = instance_status_string i \<and> instance_status_string i \<noteq> []"
    by (cases i) (simp_all add: instanceStatusFilter_def instanceStatusToProto_def instance_status_string_def)
  ultimately show ?thesis by (metis inj_onD)
qed

lemma execution_status_names:
  "executionStatusFilter (executionStatusToProto x) = execution_status_string x \<and> execution_status_string x \<noteq> [] \<and>
   (execution_status_string x' = execution_status_string x \<longrightarrow> x' = x)"
proof -
  let ?all = "[ExecStatusPending, ExecStatusDispatched, ExecStatusRunning, ExecStatusWaiting, ExecStatusCompleted, ExecStatusFailed,
    ExecStatusFatal, ExecStatusTimedOut, ExecStatusInvalidInputContract, ExecStatusInvalidOutputContract, ExecStatusStale,
    ExecStatusRetryScheduled]"
  have "distinct (map execution_status_string ?all)" by code_simp
  then have "inj_on execution_status_string (set ?all)" unfolding distinct_map by blast
  moreover have "z \<in> set ?all" for z by (cases z) simp_all
  moreover have "executionStatusFilter (executionStatusToProto x) = execution_status_string x \<and> execution_status_string x \<noteq> []"
    by (cases x) (simp_all add: executionStatusFilter_def executionStatusToProto_def execution_status_string_def)
  ultimately show ?thesis by (metis inj_onD)
qed

text \<open>A status filter finds what is shown. Filtering a listing by the status a message shows matches exactly the rows of
  that status, for instances, executions and workflows; a status the client made up filters nothing, except for workflows,
  where it is refused.\<close>
theorem status_filter_finds_shown:
  "(given_eq (instanceStatusFilter (instanceStatusToProto i)) (instance_status_string i') = (i' = i)) \<and>
   (given_eq (executionStatusFilter (executionStatusToProto x)) (execution_status_string x') = (x' = x)) \<and>
   workflowStatusFilter (workflowStatusToProto w) = Inr (definition_status_string w) \<and>
   given_eq (instanceStatusFilter (INSTANCE_STATUS_UNKNOWN n)) any_text \<and>
   given_eq (executionStatusFilter (EXECUTION_STATUS_UNKNOWN n)) any_text \<and>
   \<not> is_ok (workflowStatusFilter (WORKFLOW_STATUS_UNKNOWN n))"
proof (intro conjI)
  show "given_eq (instanceStatusFilter (instanceStatusToProto i)) (instance_status_string i') = (i' = i)"
    using instance_status_names [of i i'] by (auto simp: given_eq_def)
  show "given_eq (executionStatusFilter (executionStatusToProto x)) (execution_status_string x') = (x' = x)"
    using execution_status_names [of x x'] by (auto simp: given_eq_def)
  show "workflowStatusFilter (workflowStatusToProto w) = Inr (definition_status_string w)"
    by (cases w) (simp_all add: workflowStatusFilter_def workflowStatusToProto_def)
qed (simp_all add: given_eq_def instanceStatusFilter_def executionStatusFilter_def workflowStatusFilter_def)

end
