(* ===== verification/Rest_Handlers.thy ===== *)
theory Rest_Handlers
  imports Connect_Api
begin

text \<open>
  The plain HTTP handlers of the default service: \<open>handlers/event.go\<close>, \<open>form.go\<close>, \<open>webhook_receive.go\<close>,
  \<open>workflow.go\<close>, \<open>instances.go\<close> and \<open>executions.go\<close>, with \<open>helpers.go\<close>. Only those of forms and webhooks
  are routed by \<open>cmd/main.go\<close>; the others are the plain counterparts of the RPCs. A handler is an
  operation that gives a reply on every path; an error of it is a panic, which the server of
  \<open>net/http\<close> answers by closing the connection. The body is the first JSON value of the request.
\<close>

section \<open>Requests and replies (helpers.go)\<close>

record rest_request = api_request +
  rq_headers :: "(string \<times> string) list"

text \<open>\<open>http.Error\<close> with a message, an encoded value, or a value that could not be encoded.\<close>

datatype rest_reply = HttpError int errmsg | HttpJson int any | HttpBroken int

type_synonym rest_handler = "rest_request \<Rightarrow> rest_reply op"

definition complain :: "int \<Rightarrow> string \<Rightarrow> rest_reply op" where
  "complain status msg = op_ok (HttpError status (Errf msg []))"

definition requireAuth :: "rest_handler \<Rightarrow> rest_handler" where
  "requireAuth h r = (if aq_claims r = None then op_ok (HttpError 401 ErrMissingAuth) else h r)"

definition httpStatusForError :: "errmsg \<Rightarrow> int \<times> errmsg" where
  "httpStatusForError err =
     (if error_in err [ErrWorkflowNotFound, ErrInstanceNotFound, ErrExecutionNotFound, ErrSchemaNotFound, ErrTriggerNotFound]
        then (404, Errf ''resource not found'' [])
      else if error_in err [ErrInputContractViolation, ErrOutputContractViolation, ErrDSLValidationFailed, ErrInvalidWorkflowStatus]
        then (400, err)
      else if error_in err [ErrStaleExecution, ErrInvalidToken] then (409, Errf ''stale execution or invalid token'' [])
      else if error_in err [ErrWorkflowAlreadyActive] then (409, Errf ''workflow already active'' [])
      else (500, Errf ''internal server error'' []))"

definition business_error :: "errmsg \<Rightarrow> rest_reply" where
  "business_error err = (case httpStatusForError err of (status, msg) \<Rightarrow> HttpError status msg)"

text \<open>A call whose error makes the reply, and a body that does not decode.\<close>

definition replying :: "(errmsg \<Rightarrow> rest_reply) \<Rightarrow> 'a op \<Rightarrow> ('a \<Rightarrow> rest_reply op) \<Rightarrow> rest_reply op" where
  "replying g m k = op_seq (op_try m) (\<lambda>r. case r of Inl err \<Rightarrow> op_ok (g err) | Inr x \<Rightarrow> k x)"

definition with_body :: "'a result \<Rightarrow> ('a \<Rightarrow> rest_reply op) \<Rightarrow> rest_reply op" where
  "with_body d k = (case d of Inl err \<Rightarrow> op_ok (HttpError 400 (wrap ''invalid JSON'' err)) | Inr x \<Rightarrow> k x)"

definition rate_limited :: "('env, 'ast, 'prg, 'sch, 'loc) service_api \<Rightarrow> rest_handler \<Rightarrow> rest_handler" where
  "rate_limited api h r = (if \<not> sa_allow api (aq_claims r) then complain 429 ''rate limit exceeded'' else h r)"

text \<open>A member of type \<open>map[string]any\<close>: a second one is decoded into the map of the first.\<close>

definition as_map_member :: "go_map option \<Rightarrow> any \<Rightarrow> go_map option option" where
  "as_map_member old v = (case v of
     VNil \<Rightarrow> Some None
   | VMap m \<Rightarrow> Some (Some (map_put_all m (case old of None \<Rightarrow> [] | Some d \<Rightarrow> d)))
   | _ \<Rightarrow> None)"

definition map_field :: "string \<Rightarrow> go_map \<Rightarrow> go_map option result" where
  "map_field = struct_field as_map_member None"

text \<open>A whole body decoded into a map, and into a raw message.\<close>

definition decode_map :: "raw_json \<Rightarrow> go_map option result" where
  "decode_map body = (if body = RawJson VNil then Inr None else and_then (decode_object body) (\<lambda>m. Inr (Some m)))"

definition decode_raw :: "raw_json \<Rightarrow> raw_json result" where
  "decode_raw body = (case body of
     RawJson v \<Rightarrow> Inr (RawJson v)
   | RawInvalid s \<Rightarrow> Inl (Errf ''invalid character'' [EStr s])
   | RawEmpty \<Rightarrow> Inl (Errf ''EOF'' []))"

text \<open>\<open>r.Header.Get\<close>, which does not look at case.\<close>

definition Header_Get :: "string \<Rightarrow> rest_request \<Rightarrow> string" where
  "Header_Get name r = (case find (\<lambda>(k, v). ToLower k = ToLower name) (rq_headers r) of None \<Rightarrow> [] | Some (_, v) \<Rightarrow> v)"

section \<open>Events (event.go)\<close>

definition ingest_body :: "go_map \<Rightarrow> IngestEventRequest result" where
  "ingest_body m =
     and_then (string_field ''event_type'' m) (\<lambda>eventType.
     and_then (string_field ''source'' m) (\<lambda>source.
     and_then (string_field ''idempotency_key'' m) (\<lambda>key.
     and_then (map_field ''payload'' m) (\<lambda>payload.
       Inr \<lparr>ir_EventType = eventType, ir_Source = source, ir_IdempotencyKey = key, ir_Payload = payload\<rparr>))))"

definition ingest_response :: "ingest_reply \<Rightarrow> rest_reply" where
  "ingest_response reply = (case reply of
     BadRequest msg \<Rightarrow> HttpError 400 (Errf msg [])
   | StoreFailed \<Rightarrow> HttpError 500 (Errf ''failed to store event'' [])
   | AlreadyIngested i \<Rightarrow> HttpJson 202 (VMap [(''event_id'', VStr i), (''idempotent'', VBool True)])
   | Ingested i \<Rightarrow> HttpJson 202 (VMap [(''event_id'', VStr i)]))"

definition Rest_IngestEvent :: "('env, 'ast, 'prg, 'sch, 'loc) service_api \<Rightarrow> rest_handler" where
  "Rest_IngestEvent api = requireAuth (rate_limited api (\<lambda>r.
     with_body (and_then (decode_object (aq_body r)) ingest_body) (\<lambda>req.
     op_seq (IngestEvent (sa_db api) (be_TenantID (sa_business api)) (be_PartitionID (sa_business api)) (sa_queueName api)
       (sa_publish api) (sa_now api) req) (\<lambda>reply. op_ok (ingest_response reply)))))"

text \<open>\<open>time.Time.String\<close> shows a time in its own zone; how is a parameter.\<close>

definition timeline_entry :: "(int \<Rightarrow> string) \<Rightarrow> WorkflowAuditEvent \<Rightarrow> any" where
  "timeline_entry shown_time e =
     VMap ([(''event_type'', VStr (au_EventType e))] @
       optional_member ''state'' (if au_State e = [] then None else Some (VStr (au_State e))) @
       [(''created_at'', VStr (shown_time (bm_CreatedAt e)))])"

definition Rest_GetInstanceTimeline :: "('env, 'ast, 'prg, 'sch, 'loc) service_api \<Rightarrow> (int \<Rightarrow> string) \<Rightarrow> rest_handler" where
  "Rest_GetInstanceTimeline api shown_time = requireAuth (\<lambda>r.
     replying (\<lambda>_. HttpError 500 (Errf ''failed to fetch timeline'' [])) (db_read (Audit_ListByInstance (sa_db api) (PathValue ''id'' r)))
       (\<lambda>rows. op_ok (HttpJson 200 (VList (map (timeline_entry shown_time) rows)))))"

section \<open>Storing an event for a form or a webhook\<close>

definition found_event :: "('env, 'ast, 'prg, 'sch, 'loc) service_api \<Rightarrow> string \<Rightarrow> EventLog option op" where
  "found_event api key =
     (if key = [] then op_ok None
      else op_seq (op_try (plat_read (FindByIdempotencyKey (sa_db api) key))) (\<lambda>r.
        op_ok (case r of Inl _ \<Rightarrow> None | Inr e \<Rightarrow> Some e)))"

definition event_row :: "string \<Rightarrow> string \<Rightarrow> string \<Rightarrow> go_map \<Rightarrow> EventLog" where
  "event_row eventType source key payload =
     event_of_request \<lparr>ir_EventType = eventType, ir_Source = source, ir_IdempotencyKey = key, ir_Payload = Some payload\<rparr>"

definition accept_event ::
    "('env, 'ast, 'prg, 'sch, 'loc) service_api \<Rightarrow> EventLog \<Rightarrow> string \<Rightarrow> (string \<Rightarrow> go_map) \<Rightarrow> rest_reply op" where
  "accept_event api event complaint answer =
     replying (\<lambda>_. HttpError 500 (Errf complaint [])) (plat_run (Event_Create (sa_db api) ''event'' (sa_now api) event)) (\<lambda>row.
     op_seq (PublishAfterCreate (sa_db api) (be_TenantID (sa_business api)) (be_PartitionID (sa_business api)) (sa_queueName api)
       (sa_publish api) (sa_now api) row) (\<lambda>_.
     op_ok (HttpJson 202 (VMap (answer (bm_ID row))))))"

section \<open>Forms (form.go)\<close>

record FormSubmitRequest =
  fs_Fields :: go_map
  fs_SubmitterID :: string
  fs_IdempotencyKey :: string

definition form_body :: "go_map \<Rightarrow> FormSubmitRequest result" where
  "form_body m =
     and_then (map_field ''fields'' m) (\<lambda>fields0.
     and_then (string_field ''submitter_id'' m) (\<lambda>submitter.
     and_then (string_field ''idempotency_key'' m) (\<lambda>key.
       Inr \<lparr>fs_Fields = (case fields0 of None \<Rightarrow> [] | Some f \<Rightarrow> f), fs_SubmitterID = submitter, fs_IdempotencyKey = key\<rparr>)))"

definition form_event :: "string \<Rightarrow> FormSubmitRequest \<Rightarrow> EventLog" where
  "form_event formID req =
     event_row ''form.submitted'' (''form:'' @ formID) (fs_IdempotencyKey req)
       ([(''form_id'', VStr formID), (''fields'', VMap (fs_Fields req))] @
        (if fs_SubmitterID req \<noteq> [] then [(''submitter_id'', VStr (fs_SubmitterID req))] else []))"

definition SubmitForm :: "('env, 'ast, 'prg, 'sch, 'loc) service_api \<Rightarrow> rest_handler" where
  "SubmitForm api = requireAuth (rate_limited api (\<lambda>r.
     let formID = PathValue ''form_id'' r in
     if formID = [] then complain 400 ''form_id is required''
     else with_body (and_then (decode_object (aq_body r)) form_body) (\<lambda>req.
       if fs_Fields req = [] then complain 400 ''fields are required''
       else op_seq (found_event api (fs_IdempotencyKey req)) (\<lambda>found. case found of
         Some existing \<Rightarrow> op_ok (HttpJson 202 (VMap [(''submission_id'', VStr (bm_ID existing)), (''form_id'', VStr formID),
           (''idempotent'', VBool True)]))
       | None \<Rightarrow> accept_event api (form_event formID req) ''failed to store form submission'' (\<lambda>i.
           [(''submission_id'', VStr i), (''form_id'', VStr formID)])))))"

section \<open>Webhooks (webhook_receive.go)\<close>

definition extractHeaders :: "rest_request \<Rightarrow> go_map" where
  "extractHeaders r = concat (map (\<lambda>h. if Header_Get h r \<noteq> [] then [(h, VStr (Header_Get h r))] else [])
     [''Content-Type'', ''User-Agent'', ''X-Request-ID'', ''X-Webhook-Signature'', ''X-Webhook-Event''])"

definition webhook_event :: "string \<Rightarrow> go_map option \<Rightarrow> rest_request \<Rightarrow> EventLog" where
  "webhook_event webhookID body r =
     event_row ''webhook.received'' (''webhook:'' @ webhookID) (Header_Get ''Idempotency-Key'' r)
       [(''webhook_id'', VStr webhookID), (''body'', case body of None \<Rightarrow> VNil | Some m \<Rightarrow> VMap m), (''headers'', VMap (extractHeaders r))]"

definition ReceiveWebhook :: "('env, 'ast, 'prg, 'sch, 'loc) service_api \<Rightarrow> rest_handler" where
  "ReceiveWebhook api = requireAuth (rate_limited api (\<lambda>r.
     let webhookID = PathValue ''webhook_id'' r in
     if webhookID = [] then complain 400 ''webhook_id is required''
     else with_body (decode_map (aq_body r)) (\<lambda>body.
       accept_event api (webhook_event webhookID body r) ''failed to process webhook'' (\<lambda>i.
         [(''event_id'', VStr i), (''webhook_id'', VStr webhookID)]))))"

section \<open>Workflows (workflow.go)\<close>

definition opt_time :: "int option \<Rightarrow> any" where
  "opt_time t = (case t of None \<Rightarrow> VNil | Some x \<Rightarrow> json_time x)"

definition workflow_summary :: "WorkflowDefinition \<Rightarrow> go_map" where
  "workflow_summary def = [(''id'', VStr (bm_ID def)), (''name'', VStr (wd_Name def)), (''version'', VInt (wd_WorkflowVersion def)),
     (''status'', VStr (definition_status_string (wd_Status def)))]"

definition schedule_item :: "ScheduleDefinition \<Rightarrow> any" where
  "schedule_item s = VMap [(''id'', VStr (bm_ID s)), (''name'', VStr (sd_Name s)), (''cron_expr'', VStr (sd_CronExpr s)),
     (''workflow_name'', VStr (sd_WorkflowName s)), (''workflow_version'', VInt (sd_WorkflowVersion s)),
     (''active'', VBool (sd_Active s)), (''jitter_seconds'', VInt (sd_JitterSeconds s)),
     (''next_fire_at'', opt_time (sd_NextFireAt s)), (''last_fired_at'', opt_time (sd_LastFiredAt s))]"

definition Rest_CreateWorkflow :: "('env, 'ast, 'prg, 'sch, 'loc) service_api \<Rightarrow> rest_handler" where
  "Rest_CreateWorkflow api = requireAuth (\<lambda>r.
     with_body (decode_raw (aq_body r)) (\<lambda>body.
     replying business_error (CreateWorkflow (sa_business api) (sa_now api) body) (\<lambda>def.
     op_ok (HttpJson 201 (VMap (workflow_summary def))))))"

text \<open>A raw message that is no JSON makes the encoder fail, after the status was written.\<close>

definition Rest_GetWorkflow :: "('env, 'ast, 'prg, 'sch, 'loc) service_api \<Rightarrow> rest_handler" where
  "Rest_GetWorkflow api = requireAuth (\<lambda>r.
     replying business_error (GetWorkflowWithSchedules (sa_business api) (PathValue ''id'' r)) (\<lambda>(def, schedules).
     op_ok (case wd_DSLBlob def of
       RawJson dsl \<Rightarrow> HttpJson 200 (VMap (workflow_summary def @
         [(''dsl'', dsl), (''schedules'', VList (map schedule_item schedules))]))
     | _ \<Rightarrow> HttpBroken 200)))"

definition Rest_ListWorkflows :: "('env, 'ast, 'prg, 'sch, 'loc) service_api \<Rightarrow> rest_handler" where
  "Rest_ListWorkflows api = requireAuth (\<lambda>r.
     let status = query_value ''status'' r in
     if status \<noteq> [] \<and> status \<noteq> definition_status_string WorkflowStatusActive then complain 400 ''unsupported status filter''
     else replying business_error (db_read (ListWorkflows (sa_db api) (query_value ''name'' r) (query_int ''limit'' r))) (\<lambda>defs.
       op_ok (HttpJson 200 (items_body workflow_summary defs))))"

definition Rest_ActivateWorkflow :: "('env, 'ast, 'prg, 'sch, 'loc) service_api \<Rightarrow> rest_handler" where
  "Rest_ActivateWorkflow api = requireAuth (\<lambda>r.
     replying business_error (ActivateWorkflow (sa_business api) (sa_now api) (PathValue ''id'' r)) (\<lambda>_.
     op_ok (HttpJson 200 (VMap [(''status'', VStr ''active'')]))))"

section \<open>Instances (instances.go)\<close>

definition instance_item :: "WorkflowInstance \<Rightarrow> go_map" where
  "instance_item inst =
     [(''id'', VStr (bm_ID inst)), (''workflow_name'', VStr (wi_WorkflowName inst)),
      (''workflow_version'', VInt (wi_WorkflowVersion inst)), (''current_state'', VStr (wi_CurrentState inst)),
      (''status'', VStr (instance_status_string (wi_Status inst))), (''trigger_event_id'', VStr (wi_TriggerEventID inst)),
      (''started_at'', opt_time (wi_StartedAt inst)), (''finished_at'', opt_time (wi_FinishedAt inst)),
      (''created_at'', json_time (bm_CreatedAt inst))]"

definition Rest_ListInstances :: "('env, 'ast, 'prg, 'sch, 'loc) service_api \<Rightarrow> rest_handler" where
  "Rest_ListInstances api = requireAuth (\<lambda>r.
     replying (\<lambda>_. HttpError 500 (Errf ''failed to list instances'' []))
       (db_read (Instance_List (sa_db api) (query_value ''status'' r) (query_value ''workflow_name'' r) (query_int ''limit'' r)))
       (\<lambda>items. op_ok (HttpJson 200 (items_body instance_item items))))"

definition retry_reply :: "WorkflowStateExecution \<Rightarrow> rest_reply" where
  "retry_reply newExec = HttpJson 200 (VMap [(''execution_id'', VStr (bm_ID newExec)),
     (''status'', VStr (execution_status_string (ex_Status newExec)))])"

text \<open>Any error of a look-up is answered as a row that is not there.\<close>

definition not_there :: "string \<Rightarrow> errmsg \<Rightarrow> rest_reply" where
  "not_there msg err = HttpError 404 (Errf msg [])"

definition Rest_RetryInstance :: "('env, 'ast, 'prg, 'sch, 'loc) service_api \<Rightarrow> rest_handler" where
  "Rest_RetryInstance api = requireAuth (\<lambda>r.
     let instanceID = PathValue ''id'' r in
     if instanceID = [] then complain 400 ''instance id is required''
     else replying (not_there ''instance not found'') (db_read (Instance_GetByID (sa_db api) instanceID)) (\<lambda>inst.
       replying (not_there ''latest execution not found'') (db_read (GetLatestByInstance (sa_db api) instanceID)) (\<lambda>exec.
       replying (HttpError 409) (createRetryExecution (sa_svc api) True (sa_now api) exec inst) (\<lambda>newExec.
       op_ok (retry_reply newExec)))))"

section \<open>Executions (executions.go)\<close>

definition execution_head :: "WorkflowStateExecution \<Rightarrow> go_map" where
  "execution_head exec =
     [(''execution_id'', VStr (bm_ID exec)), (''instance_id'', VStr (ex_InstanceID exec)), (''state'', VStr (ex_State exec)),
      (''attempt'', VInt (ex_Attempt exec)), (''status'', VStr (execution_status_string (ex_Status exec))),
      (''error_class'', VStr (ex_ErrorClass exec)), (''error_message'', VStr (ex_ErrorMessage exec)),
      (''next_retry_at'', opt_time (ex_NextRetryAt exec)), (''started_at'', opt_time (ex_StartedAt exec)),
      (''finished_at'', opt_time (ex_FinishedAt exec)), (''created_at'', json_time (bm_CreatedAt exec)),
      (''trace_id'', VStr (ex_TraceID exec)), (''input_schema_hash'', VStr (ex_InputSchemaHash exec))]"

definition Rest_ListExecutions :: "('env, 'ast, 'prg, 'sch, 'loc) service_api \<Rightarrow> rest_handler" where
  "Rest_ListExecutions api = requireAuth (\<lambda>r.
     replying (\<lambda>_. HttpError 500 (Errf ''failed to list executions'' []))
       (db_read (Exec_List (sa_db api) (query_value ''status'' r) (query_value ''instance_id'' r) (query_int ''limit'' r)))
       (\<lambda>items. op_ok (HttpJson 200 (items_body execution_head items))))"

text \<open>The value a stored text encodes, or the text itself.\<close>

definition shown_payload :: "raw_json \<Rightarrow> any" where
  "shown_payload raw = (case raw of RawJson v \<Rightarrow> v | RawInvalid s \<Rightarrow> VStr s | RawEmpty \<Rightarrow> VStr [])"

definition shown_output :: "('env, 'ast, 'prg, 'sch, 'loc) service_api \<Rightarrow> string \<Rightarrow> bool \<Rightarrow> any op" where
  "shown_output api executionID wanted =
     (if \<not> wanted then op_ok VNil
      else op_seq (op_try (db_read (Output_GetByExecution (sa_db api) executionID))) (\<lambda>r.
        op_ok (case r of Inl _ \<Rightarrow> VNil | Inr out \<Rightarrow> shown_payload (so_Payload out))))"

definition Rest_GetExecution :: "('env, 'ast, 'prg, 'sch, 'loc) service_api \<Rightarrow> rest_handler" where
  "Rest_GetExecution api = requireAuth (\<lambda>r.
     let executionID = PathValue ''id'' r in
     if executionID = [] then complain 400 ''execution id is required''
     else replying (not_there ''execution not found'') (db_read (Exec_GetByID (sa_db api) executionID)) (\<lambda>exec.
       op_seq (shown_output api executionID (query_value ''include_output'' r = ''true'')) (\<lambda>out.
       op_ok (HttpJson 200 (VMap (execution_head exec @
         [(''input_payload'', if ex_InputPayload exec = RawEmpty then VNil else shown_payload (ex_InputPayload exec)),
          (''output'', out)]))))))"

definition Rest_RetryExecution :: "('env, 'ast, 'prg, 'sch, 'loc) service_api \<Rightarrow> rest_handler" where
  "Rest_RetryExecution api = requireAuth (\<lambda>r.
     let executionID = PathValue ''id'' r in
     if executionID = [] then complain 400 ''execution id is required''
     else replying (not_there ''execution not found'') (db_read (Exec_GetByID (sa_db api) executionID)) (\<lambda>exec.
       replying (not_there ''instance not found'') (db_read (Instance_GetByID (sa_db api) (ex_InstanceID exec))) (\<lambda>inst.
       replying (HttpError 409) (createRetryExecution (sa_svc api) True (sa_now api) exec inst) (\<lambda>newExec.
       op_ok (retry_reply newExec)))))"

section \<open>Routes (cmd/main.go)\<close>

definition protected_mux :: "('env, 'ast, 'prg, 'sch, 'loc) service_api \<Rightarrow> string \<Rightarrow> string \<Rightarrow> rest_handler" where
  "protected_mux api meth path r =
     (case match_path ''/api/v1/forms/{form_id}/submit'' path of
        Some b \<Rightarrow> (if meth = ''POST'' then SubmitForm api (r\<lparr>aq_path := b\<rparr>) else complain 405 ''Method Not Allowed'')
      | None \<Rightarrow> (case match_path ''/api/v1/webhooks/{webhook_id}'' path of
          Some b \<Rightarrow> (if meth = ''POST'' then ReceiveWebhook api (r\<lparr>aq_path := b\<rparr>) else complain 405 ''Method Not Allowed'')
        | None \<Rightarrow> complain 404 ''404 page not found''))"

end
