(* ===== verification/Ingress_Correct.thy ===== *)
theory Ingress_Correct
  imports Rest_Handlers Connect_Correct
begin

text \<open>
  What the ways in make of idempotency keys: an RPC, a plain HTTP request, a form and a webhook
  store an event in the outbox.
\<close>

section \<open>The event of a key\<close>

definition holders :: "string \<Rightarrow> Svc \<Rightarrow> EventLog list" where
  "holders key s = filter (\<lambda>e. live e \<and> ev_IdempotencyKey e = key) (pf_events (sv_plat s))"

text \<open>The unique index on the keys.\<close>

definition keys_unique :: "Svc \<Rightarrow> bool" where
  "keys_unique s \<longleftrightarrow> (\<forall>key. length (holders key s) \<le> 1)"

lemma keys_unique_holders: "keys_unique s \<Longrightarrow> e \<in> set (holders key s) \<Longrightarrow> holders key s = [e]"
  unfolding keys_unique_def
  by (metis One_nat_def le_Suc_eq le_zero_eq length_0_conv length_Suc_conv list.set_cases list.distinct(1) set_ConsD list.inject)

lemma find_holder:
  assumes "FindByIdempotencyKey env key (sv_plat s) = Inr e"
  shows "e \<in> set (holders key s)"
  using assms by (auto simp: FindByIdempotencyKey_def res_simps db_select_def holders_def dest!: first_by_SomeD split: option.splits)

lemma find_the_holder:
  assumes "holders key s = [e]" and "\<not> ee_F env ''find by idempotency key''"
  shows "FindByIdempotencyKey env key (sv_plat s) = Inr e"
proof -
  have "db_select (\<lambda>e. ev_IdempotencyKey e = key) (pf_events (sv_plat s)) = [e]"
    using assms(1) unfolding holders_def db_select_def by (simp add: conj_commute)
  with assms(2) show ?thesis by (simp add: FindByIdempotencyKey_def stmt_def guard_def first_by_def)
qed

lemma create_event_Inr:
  assumes "Event_Create env role now e (sv_plat s) = Inr (row, pf)"
  shows "row = with_id (ee_id env role) now e" and "pf = (sv_plat s)\<lparr>pf_events := pf_events (sv_plat s) @ [row]\<rparr>"
    and "holders (ev_IdempotencyKey e) s = []" and "\<forall>r \<in> set (pf_events (sv_plat s)). bm_ID r \<noteq> bm_ID row"
  using assms
  by (auto simp: Event_Create_def insert_event_def create_def res_simps db_insert_def event_conflict_def holders_def
      filter_empty_conv list_ex_iff with_id_def split: option.splits if_splits)

text \<open>No error of a statement is a panic.\<close>

lemma create_event_taken:
  assumes "holders (ev_IdempotencyKey e) s \<noteq> []"
  shows "\<exists>err. Event_Create env role now e (sv_plat s) = Inl err \<and> \<not> is_panic err"
proof -
  have "db_insert event_conflict (with_id (ee_id env role) now e) (pf_events (sv_plat s)) = None"
    using assms by (auto simp: db_insert_def event_conflict_def holders_def filter_empty_conv list_ex_iff with_id_def)
  then show ?thesis
    by (auto simp: Event_Create_def insert_event_def EventLog_BeforeCreate_def Let_def create_def jsonb_def guard_def stmt_def
        wrap_def unique_violation_def)
qed

lemma update_keeps_holders:
  assumes "\<And>e. bm_ID (f e) = bm_ID e \<and> live (f e) = live e \<and> ev_IdempotencyKey (f e) = ev_IdempotencyKey e"
  shows "filter (\<lambda>e. live e \<and> ev_IdempotencyKey e = key) (db_update P f tbl) =
    db_update P f (filter (\<lambda>e. live e \<and> ev_IdempotencyKey e = key) tbl)"
  using assms by (induction tbl) (auto simp: db_update_def)

lemma publish_keeps:
  assumes "PublishAfterCreate env t p q pub now e s = (r, s')"
  shows "\<exists>P. holders key s' = db_update P (event_published now) (holders key s)"
proof -
  have upd: "\<exists>P. holders key s' = db_update P (event_published now) (holders key s)"
    if "op_ignore (plat_exec (MarkPublishedIfUnpublished env now i)) s = (r, s')" for i
  proof -
    from that consider "sv_plat s' = sv_plat s"
      | P where "pf_events (sv_plat s') = db_update P (event_published now) (pf_events (sv_plat s))"
      by (auto simp: op_ignore_def op_seq_def op_try_def plat_exec_def op_ok_def MarkPublishedIfUnpublished_def update_some_def
          res_simps split: sum.splits if_splits)
    then show ?thesis
    proof cases
      case 1 then show ?thesis by (intro exI [of _ "\<lambda>_. False"]) (simp add: holders_def db_update_def)
    next
      case 2
      have "bm_ID (event_published now e) = bm_ID e \<and> live (event_published now e) = live e \<and>
          ev_IdempotencyKey (event_published now e) = ev_IdempotencyKey e" for e
        by (simp add: event_published_def live_def)
      with 2 show ?thesis by (intro exI [of _ P]) (simp add: holders_def update_keeps_holders)
    qed
  qed
  have same: "\<exists>P. holders key s = db_update P (event_published now) (holders key s)" for s
    by (intro exI [of _ "\<lambda>_. False"]) (simp add: db_update_def)
  from assms show ?thesis
    unfolding PublishAfterCreate_def
    by (auto simp: op_ok_def split: if_splits sum.splits option.splits intro: upd same)
qed


text \<open>Nothing of publishing is an error of the caller.\<close>

lemma db_update_single: "db_update P f [e] = [if P e \<and> live e then f e else e]"
  by (simp add: db_update_def)

lemma published_keeps:
  assumes "published api row s = (Inr u, s')" and "holders key s = [row]"
  shows "\<exists>e. holders key s' = [e] \<and> bm_ID e = bm_ID row \<and> ev_EventType e = ev_EventType row \<and> ev_Source e = ev_Source row \<and>
    ev_IdempotencyKey e = ev_IdempotencyKey row \<and> ev_Payload e = ev_Payload row"
proof -
  obtain r where "PublishAfterCreate (sa_db api) (be_TenantID (sa_business api)) (be_PartitionID (sa_business api))
      (sa_queueName api) (sa_publish api) (sa_now api) row s = (r, s')"
    using assms(1) by (auto simp: published_def rpc_call_def split: prod.splits sum.splits)
  from publish_keeps [OF this, of key] obtain P where "holders key s' = db_update P (event_published (sa_now api)) [row]"
    using assms(2) by auto
  then show ?thesis by (auto simp: db_update_single event_published_def)
qed

lemma lookup_response:
  "lookupExistingEventResponse api key s = (Inr (Some resp), s') \<Longrightarrow>
     key \<noteq> [] \<and> s' = s \<and> (\<exists>e \<in> set (holders key s). resp = duplicateEventResponse e)"
  by (auto simp: lookupExistingEventResponse_def rpc_seq_def rpc_call_def op_try_def plat_read_def rpc_ok_def rpc_fail_def
      dest: find_holder split: if_splits sum.splits prod.splits)

lemma lookup_none: "lookupExistingEventResponse api key s = (Inr None, s') \<Longrightarrow> s' = s"
  by (auto simp: lookupExistingEventResponse_def rpc_seq_def rpc_call_def op_try_def plat_read_def rpc_ok_def rpc_fail_def
      split: if_splits sum.splits prod.splits)

lemma stored_response:
  assumes "storeEventWithDuplicateRecovery api event s = (Inr out, s')"
  shows "(\<exists>e \<in> set (holders (ev_IdempotencyKey event) s). out = Inl (duplicateEventResponse e) \<and> s' = s) \<or>
    (\<exists>row pf. out = Inr row \<and> s' = s\<lparr>sv_plat := pf\<rparr> \<and> Event_Create (sa_db api) ''event'' (sa_now api) event (sv_plat s) = Inr (row, pf))"
  using assms
  by (auto simp: storeEventWithDuplicateRecovery_def rpc_seq_def rpc_call_def op_try_def plat_read_def plat_run_def rpc_ok_def
      rpc_fail_def dest: find_holder split: if_splits sum.splits prod.splits)

lemma request_row: "buildEventLogFromRequest req = (event, payload) \<Longrightarrow>
   ev_EventType event = ir_EventType req \<and> ev_Source event = ir_Source req \<and> ev_IdempotencyKey event = ir_IdempotencyKey req"
  by (auto simp: buildEventLogFromRequest_def event_of_request_def Let_def)

lemma rpc_seq_Inr: "rpc_seq m f s = (Inr y, s') \<longleftrightarrow> (\<exists>x s1. m s = (Inr x, s1) \<and> f x s1 = (Inr y, s'))"
  by (auto simp: rpc_seq_def split: prod.splits sum.splits)

lemma validated: "validateIngestEventRequest api claims req s = (Inr u, s') \<Longrightarrow> s' = s"
  by (auto simp: validateIngestEventRequest_def authenticated_def required_def rpc_ok_def rpc_fail_def split: option.splits if_splits)

lemma ingest_holder:
  assumes "keys_unique s" and "Connect_IngestEvent api claims req s = (Inr resp, s')" and "ir_IdempotencyKey req \<noteq> []"
  shows "\<exists>e payload. holders (ir_IdempotencyKey req) s' = [e] \<and>
    ig_Event resp = eventRecordToProto (bm_ID e) (ev_EventType e) (ev_Source e) (ev_IdempotencyKey e) payload \<and>
    (ig_Idempotent resp \<longleftrightarrow> holders (ir_IdempotencyKey req) s \<noteq> [])"
proof -
  let ?k = "ir_IdempotencyKey req"
  have dup: ?thesis if "e \<in> set (holders ?k s)" "resp = duplicateEventResponse e" "s' = s" for e
    using keys_unique_holders [OF assms(1) that(1)] that(2,3) by (auto simp: duplicateEventResponse_def)
  from assms(2) obtain found s1 where f: "lookupExistingEventResponse api ?k s = (Inr found, s1)"
    and rest: "(case found of Some response \<Rightarrow> rpc_ok response
      | None \<Rightarrow> (case buildEventLogFromRequest req of (event, payload) \<Rightarrow>
          rpc_seq (storeEventWithDuplicateRecovery api event) (\<lambda>outcome. case outcome of
            Inl response \<Rightarrow> rpc_ok response
          | Inr row \<Rightarrow> rpc_seq (published api row) (\<lambda>_.
              rpc_ok \<lparr>ig_Event = eventRecordToProto (bm_ID row) (ev_EventType row) (ev_Source row) (ev_IdempotencyKey row)
                        (Some payload), ig_Idempotent = False\<rparr>)))) s1 = (Inr resp, s')"
    unfolding Connect_IngestEvent_def rpc_seq_Inr by (blast dest: validated)
  show ?thesis
  proof (cases found)
    case (Some response)
    with f lookup_response [of api ?k s response s1] obtain e where "e \<in> set (holders ?k s)" "response = duplicateEventResponse e" "s1 = s"
      by blast
    with rest Some show ?thesis by (intro dup) (auto simp: rpc_ok_def)
  next
    case None
    with f have "s1 = s" by (auto dest: lookup_none)
    obtain event payload where b: "buildEventLogFromRequest req = (event, payload)" by force
    note row = request_row [OF b]
    from rest None b \<open>s1 = s\<close> obtain out s2 where o: "storeEventWithDuplicateRecovery api event s = (Inr out, s2)"
      and o2: "(case out of Inl response \<Rightarrow> rpc_ok response
          | Inr row \<Rightarrow> rpc_seq (published api row) (\<lambda>_.
              rpc_ok \<lparr>ig_Event = eventRecordToProto (bm_ID row) (ev_EventType row) (ev_Source row) (ev_IdempotencyKey row)
                        (Some payload), ig_Idempotent = False\<rparr>)) s2 = (Inr resp, s')"
      by (auto simp: rpc_seq_Inr)
    from stored_response [OF o] show ?thesis
    proof (elim disjE bexE exE conjE)
      fix e assume "e \<in> set (holders (ev_IdempotencyKey event) s)" "out = Inl (duplicateEventResponse e)" "s2 = s"
      with o2 row show ?thesis by (intro dup) (auto simp: rpc_ok_def)
    next
      fix r pf assume out: "out = Inr r" "s2 = s\<lparr>sv_plat := pf\<rparr>"
        and c: "Event_Create (sa_db api) ''event'' (sa_now api) event (sv_plat s) = Inr (r, pf)"
      note c = create_event_Inr [OF c]
      have "holders ?k s2 = [r]"
        using c row out(2) by (auto simp: holders_def with_id_def live_def)
      with o2 out(1) obtain u where "published api r s2 = (Inr u, s')"
        and "resp = \<lparr>ig_Event = eventRecordToProto (bm_ID r) (ev_EventType r) (ev_Source r) (ev_IdempotencyKey r) (Some payload),
          ig_Idempotent = False\<rparr>"
        by (auto simp: rpc_seq_Inr rpc_ok_def)
      with published_keeps [OF _ \<open>holders ?k s2 = [r]\<close>] c(3) row show ?thesis by fastforce
    qed
  qed
qed


section \<open>A key is stored once\<close>


definition ex_ingest :: IngestEventRequest where
  "ex_ingest = \<lparr>ir_EventType = ''order.paid'', ir_Source = ''shop'', ir_IdempotencyKey = ''k1'', ir_Payload = Some [(''n'', VStr ''1'')]\<rparr>"


section \<open>Keys that are taken\<close>

lemma accept_taken:
  assumes "holders (ev_IdempotencyKey event) s \<noteq> []"
  shows "accept_event api event complaint answer s = (Inr (HttpError 500 (Errf complaint [])), s)"
  using create_event_taken [OF assms, of "sa_db api" "''event''" "sa_now api"]
  by (auto simp: accept_event_def replying_def op_seq_def op_try_def plat_run_def op_ok_def)

lemma event_rows [simp]:
  "ev_IdempotencyKey (form_event formID req) = fs_IdempotencyKey req"
  "ev_IdempotencyKey (webhook_event webhookID body r) = Header_Get ''Idempotency-Key'' r"
  by (simp_all add: form_event_def webhook_event_def event_row_def event_of_request_def)


text \<open>C32: Events without an idempotency key exclude each other. While one live event has no key, every ingestion without
  a key is refused and changes nothing: by RPC, by the plain handler, and as a form.\<close>
theorem keyless_events_collide:
  assumes "holders [] s \<noteq> []" and "ir_IdempotencyKey req = []"
    and "aq_body r = RawJson (VMap m)" and "string_field ''idempotency_key'' m = Inr []"
  shows "(\<exists>err. Connect_IngestEvent api claims req s = (Inl err, s)) \<and>
    (\<exists>status msg. Rest_IngestEvent api r s = (Inr (HttpError status msg), s)) \<and>
    (\<exists>status msg. SubmitForm api r s = (Inr (HttpError status msg), s))"
proof (intro conjI)
  have refused: "\<exists>err. Event_Create env role now e (sv_plat s) = Inl err \<and> \<not> is_panic err" if "ev_IdempotencyKey e = []" for env role now e
    using create_event_taken [of e s env role now] assms(1) that by simp
  obtain event payload where b: "buildEventLogFromRequest req = (event, payload)" by force
  then have "ev_IdempotencyKey event = []" using assms(2) request_row by metis
  then have "\<exists>err. storeEventWithDuplicateRecovery api event s = (Inl err, s)"
    using refused [of event "sa_db api" "''event''" "sa_now api"]
    by (auto simp: storeEventWithDuplicateRecovery_def rpc_seq_def rpc_call_def op_try_def plat_run_def rpc_fail_def)
  then show "\<exists>err. Connect_IngestEvent api claims req s = (Inl err, s)"
    using assms(2) b
    by (auto simp: Connect_IngestEvent_def validateIngestEventRequest_def authenticated_def required_def
        lookupExistingEventResponse_def rpc_seq_def rpc_ok_def rpc_fail_def split: option.splits)
  have body: "ir_IdempotencyKey x = []" if "ingest_body m = Inr x" for x
    using that assms(4) by (auto simp: ingest_body_def res_simps)
  have "\<exists>status msg. op_seq (IngestEvent (sa_db api) tn pn q pub now x) (\<lambda>reply. op_ok (ingest_response reply)) s = (Inr (HttpError status msg), s)"
    if "ir_IdempotencyKey x = []" for x tn pn q pub now
  proof -
    have "ev_IdempotencyKey (event_of_request x) = []" using that by (simp add: event_of_request_def)
    from refused [OF this, of "sa_db api" "''event''" now] obtain err
      where "Event_Create (sa_db api) ''event'' now (event_of_request x) (sv_plat s) = Inl err" "\<not> is_panic err" by blast
    with that show ?thesis by (simp add: IngestEvent_def op_seq_def op_try_def plat_run_def op_ok_def ingest_response_def)
  qed
  with body show "\<exists>status msg. Rest_IngestEvent api r s = (Inr (HttpError status msg), s)"
    using assms(3)
    by (auto simp: Rest_IngestEvent_def requireAuth_def rate_limited_def with_body_def decode_object_def complain_def op_ok_def split: sum.splits)
  have form: "fs_IdempotencyKey x = []" if "form_body m = Inr x" for x
    using that assms(4) by (auto simp: form_body_def res_simps)
  then show "\<exists>status msg. SubmitForm api r s = (Inr (HttpError status msg), s)"
    using assms(1,3)
    by (auto simp: SubmitForm_def requireAuth_def rate_limited_def with_body_def decode_object_def complain_def op_ok_def Let_def
        found_event_def op_seq_def accept_taken split: sum.splits)
qed


text \<open>An outbox with one event of a key, and deliveries that meet it.\<close>

definition ex_taken :: "string \<Rightarrow> Svc" where
  "ex_taken key = (ex_svc ex_s3)\<lparr>sv_plat := empty_platform\<lparr>pf_events := [event_row ''t'' ''s'' key []]\<rparr>\<rparr>"

definition ex_request :: "(string \<times> string) list \<Rightarrow> go_map \<Rightarrow> rest_request" where
  "ex_request path body = \<lparr>aq_claims = Some ''t'', aq_path = path, aq_query = [], aq_body = RawJson (VMap body),
     rq_headers = [(''idempotency-key'', ''k1'')]\<rparr>"

lemma holders_taken: "holders key (ex_taken key) = [event_row ''t'' ''s'' key []]"
  by (simp add: holders_def ex_taken_def event_row_def event_of_request_def live_def)


lemma keyless_events_collide_witness:
  "\<exists>err. Connect_IngestEvent ex_api (Some ''t'') (ex_ingest\<lparr>ir_IdempotencyKey := []\<rparr>) (ex_taken []) = (Inl err, ex_taken [])"
proof -
  have "string_field ''idempotency_key'' [] = Inr []" by code_simp
  then show ?thesis
    using keyless_events_collide [of "ex_taken []" "ex_ingest\<lparr>ir_IdempotencyKey := []\<rparr>" "ex_request [] []" "[]" ex_api "Some ''t''"]
    by (simp add: holders_taken ex_request_def)
qed

end
