(* ===== verification/Workflow_Sync.thy ===== *)
theory Workflow_Sync
  imports Connect_Correct
begin

text \<open>
  The loader of workflow documents, \<open>client/workflows/loader.go\<close> and \<open>dsl.go\<close>, against the workflow
  server of this service: each document of a directory is created and, unless it is active, activated.
  A directory is the list of its entries, each with what reading it gives; the claims are those of the
  client's connection.
\<close>

section \<open>Documents (dsl.go)\<close>

text \<open>\<open>protojson\<close> refuses a key that is repeated in an object, at any depth.\<close>

primrec distinct_keys :: "any \<Rightarrow> bool" where
  "distinct_keys VNil \<longleftrightarrow> True"
| "distinct_keys (VBool b) \<longleftrightarrow> True"
| "distinct_keys (VInt n) \<longleftrightarrow> True"
| "distinct_keys (VFloat q) \<longleftrightarrow> True"
| "distinct_keys (VStr s) \<longleftrightarrow> True"
| "distinct_keys (VList vs) \<longleftrightarrow> list_all id (map distinct_keys vs)"
| "distinct_keys (VMap m) \<longleftrightarrow> distinct (map fst m) \<and> list_all snd (map (map_prod id distinct_keys) m)"

definition struct_of_json :: "raw_json \<Rightarrow> go_map result" where
  "struct_of_json raw = (case raw of
     RawJson (VMap m) \<Rightarrow>
       (if distinct_keys (VMap m) then Inr m else Inl (Errf ''proto: duplicate map key'' []))
   | RawJson _ \<Rightarrow> Inl (Errf ''proto: syntax error: unexpected token'' [])
   | RawInvalid s \<Rightarrow> Inl (Errf ''proto: syntax error'' [EStr s])
   | RawEmpty \<Rightarrow> Inl (Errf ''proto: syntax error: unexpected EOF'' []))"

definition parseDSL :: "raw_json \<Rightarrow> string \<Rightarrow> (go_map \<times> string) result" where
  "parseDSL raw label = (case struct_of_json raw of
     Inl err \<Rightarrow> Inl (Errf ''parse %s: %w'' [EStr label, EErr err])
   | Inr s \<Rightarrow>
       (if str_of s ''name'' = [] then Inl (Errf (''%s: missing or empty '' @ [CHR 0x27] @ ''name'' @ [CHR 0x27] @ '' field'') [EStr label])
        else Inr (s, str_of s ''name'')))"

definition parseDSLFile :: "(string \<Rightarrow> raw_json result) \<Rightarrow> string \<Rightarrow> (go_map \<times> string) result" where
  "parseDSLFile readFile path = (case readFile path of
     Inl err \<Rightarrow> Inl (Errf ''read %s: %w'' [EStr path, EErr err]) | Inr raw \<Rightarrow> parseDSL raw path)"

section \<open>Calling the server\<close>

text \<open>What the client sees of a call: the response or the error, which is no error of the client yet.\<close>

definition call_server :: "'a rpc \<Rightarrow> (rpc_error + 'a) op" where
  "call_server m s = (case m s of (r, s') \<Rightarrow> (Inr r, s'))"

text \<open>The text of the error after its code; a panic of the server closes the connection.\<close>

definition client_error :: "rpc_error \<Rightarrow> errmsg" where
  "client_error e = (case e of RpcError code msg \<Rightarrow> msg | RpcPanic _ \<Rightarrow> Errf ''unavailable: EOF'' [])"

definition isAlreadyExists :: "rpc_error \<Rightarrow> bool" where
  "isAlreadyExists e \<longleftrightarrow>
     (case e of RpcError code _ \<Rightarrow> code = CodeAlreadyExists | RpcPanic _ \<Rightarrow> False) \<or>
     list_ex (\<lambda>word. mentions word (client_error e)) [''already exists'', ''duplicate'', ''unique constraint'']"

section \<open>The loader (loader.go)\<close>

definition syncCreated :: string where "syncCreated = ''created''"
definition syncUnchanged :: string where "syncUnchanged = ''unchanged''"
definition syncSkipped :: string where "syncSkipped = ''skipped''"

definition syncOne ::
    "('env, 'ast, 'prg, 'sch, 'loc) service_api \<Rightarrow> string option \<Rightarrow> string \<Rightarrow> raw_json \<Rightarrow> string op" where
  "syncOne api claims label raw = (case parseDSL raw label of
     Inl err \<Rightarrow> op_err err
   | Inr (dslStruct, name) \<Rightarrow>
       op_seq (call_server (Connect_CreateWorkflow api claims (Some dslStruct))) (\<lambda>created. case created of
         Inl err \<Rightarrow>
           (if isAlreadyExists err then op_ok syncSkipped
            else op_err (Errf ''create workflow %s: %w'' [EStr name, EErr (client_error err)]))
       | Inr w \<Rightarrow>
           (if pr_WorkflowStatus w = WORKFLOW_STATUS_ACTIVE then op_ok syncUnchanged
            else let i = str_of (pr_Fields w) ''id'' in
              op_seq (call_server (Connect_ActivateWorkflow api claims i)) (\<lambda>activated. case activated of
                Inl err \<Rightarrow> op_err (Errf ''activate workflow %s (id=%s): %w'' [EStr name, EStr i, EErr (client_error err)])
              | Inr _ \<Rightarrow> op_ok syncCreated))))"

record dir_entry =
  de_Name :: string
  de_IsDir :: bool
  de_Content :: "raw_json result"

text \<open>\<open>path.Ext\<close>: from the last dot of the last element on.\<close>

definition path_Ext :: "string \<Rightarrow> string" where
  "path_Ext s = (let r = rev s; suffix = takeWhile (\<lambda>c. c \<noteq> CHR ''.'' \<and> c \<noteq> CHR ''/'') r; before = drop (length suffix) r in
     if before \<noteq> [] \<and> hd before = CHR ''.'' then CHR ''.'' # rev suffix else [])"

text \<open>The counts of created, unchanged and skipped documents, which the loader logs.\<close>

type_synonym sync_counts = "nat \<times> nat \<times> nat"

definition counted :: "string \<Rightarrow> sync_counts \<Rightarrow> sync_counts" where
  "counted action n = (case n of (created, unchanged, skipped) \<Rightarrow>
     if action = syncCreated then (created + 1, unchanged, skipped)
     else if action = syncUnchanged then (created, unchanged + 1, skipped)
     else if action = syncSkipped then (created, unchanged, skipped + 1) else n)"

fun sync_files ::
    "('env, 'ast, 'prg, 'sch, 'loc) service_api \<Rightarrow> string option \<Rightarrow> dir_entry list \<Rightarrow> sync_counts \<Rightarrow> sync_counts op" where
  "sync_files api claims [] n = op_ok n"
| "sync_files api claims (file # files) n = (case de_Content file of
     Inl err \<Rightarrow> op_err (Errf ''workflows: read %s: %w'' [EStr (de_Name file), EErr err])
   | Inr raw \<Rightarrow>
       op_seq (op_map_err (\<lambda>err. Errf ''workflows: sync %s: %w'' [EStr (de_Name file), EErr err])
         (syncOne api claims (de_Name file) raw)) (\<lambda>action.
       sync_files api claims files (counted action n)))"

definition SyncFromFS ::
    "('env, 'ast, 'prg, 'sch, 'loc) service_api \<Rightarrow> string option \<Rightarrow> dir_entry list result \<Rightarrow> sync_counts op" where
  "SyncFromFS api claims listing = (case listing of
     Inl err \<Rightarrow> op_err (wrap ''workflows: read dir'' err)
   | Inr entries \<Rightarrow>
       sync_files api claims
         (sort_key de_Name (filter (\<lambda>entry. \<not> de_IsDir entry \<and> path_Ext (de_Name entry) = ''.json'') entries)) (0, 0, 0))"

text \<open>A directory that does not exist has no listing.\<close>

definition SyncFromDir ::
    "('env, 'ast, 'prg, 'sch, 'loc) service_api \<Rightarrow> string option \<Rightarrow> dir_entry list result option \<Rightarrow> sync_counts op" where
  "SyncFromDir api claims dir = (case dir of None \<Rightarrow> op_ok (0, 0, 0) | Some listing \<Rightarrow> SyncFromFS api claims listing)"

section \<open>Documents that are refused and skipped\<close>

lemma mentioned_is_taken_for_existing:
  assumes "mentions word err" and "word \<in> {''already exists'', ''duplicate'', ''unique constraint''}" and "\<not> is_panic err"
  shows "isAlreadyExists (connectErrorForBusiness err)"
  using assms by (auto simp: isAlreadyExists_def connectErrorForBusiness_def client_error_def trustage_def)

lemma duplicate_mentioned:
  assumes "ve_Code v = ErrDuplicateStepID \<or> contains (ToLower (ve_StepID v)) ''duplicate''"
  shows "mentions ''duplicate'' (ValidationError_Error v)"
proof -
  have "contains (ToLower ''DUPLICATE_STEP_ID'') ''duplicate''" "\<not> contains [] ''duplicate''" by code_simp+
  with assms show ?thesis by (auto simp: ValidationError_Error_def code_string_def ToLower_def)
qed

text \<open>C29: The loader skips documents that are invalid. When validation refuses a document and its first complaint is a
  repeated step id, or is about a step whose id contains the word duplicate, the server answers an error and stores nothing,
  but the loader takes the text of the error for a workflow that is there already: it reports success and skips the document.\<close>
theorem invalid_document_skipped:
  assumes "claims \<noteq> None" and "parseDSL raw label = Inr (dsl, name)"
    and "Parse (se_unmarshal (sa_svc api)) (RawJson (VMap dsl)) = Inr spec"
    and "Validate (se_cel (sa_svc api)) (be_cron (sa_business api)) spec = v # vs"
    and "ve_Code v = ErrDuplicateStepID \<or> contains (ToLower (ve_StepID v)) ''duplicate''"
  shows "syncOne api claims label raw s = (Inr syncSkipped, s)"
proof -
  define err where "err = wrapped_in ErrDSLValidationFailed
    (Errf ''DSL validation failed with %d error(s): %s'' [EInt (int (length (v # vs))), EErr (ValidationError_Error v)])"
  have "CreateWorkflow (sa_business api) (sa_now api) (RawJson (VMap dsl)) s = (Inl err, s)"
    using assms(3,4) unfolding CreateWorkflow_def createWorkflow_def
    by (simp add: op_seq_def op_map_err_def op_of_def op_err_def ValidationResult_Error_def Valid_iff err_def)
  moreover have "\<not> is_panic err" by (simp add: err_def wrapped_in_def)
  ultimately have "Connect_CreateWorkflow api claims (Some dsl) s = (Inl (connectErrorForBusiness err), s)"
    using assms(1)
    by (auto simp: Connect_CreateWorkflow_def authenticated_def requireConnectAuth_def rpc_seq_def rpc_call_def op_of_def
        rawJSONFromStruct_def AsMap_def)
  moreover have "isAlreadyExists (connectErrorForBusiness err)"
    using duplicate_mentioned [OF assms(5)] \<open>\<not> is_panic err\<close>
    by (intro mentioned_is_taken_for_existing [where word = "''duplicate''"]) (simp_all add: err_def wrapped_in_def)
  ultimately show ?thesis
    using assms(2) by (simp add: syncOne_def op_seq_def call_server_def op_ok_def)
qed

definition ex_twice :: WorkflowSpec where
  "ex_twice = (let step = StepSpec ''d'' StepTypeCall [] [] None 0 None no_transition no_transition
       (Some \<lparr>call_Action = ''log'', call_Input = [], call_OutputVar = []\<rparr>) None None None None None None None
     in example_spec\<lparr>wf_Steps := [step, step]\<rparr>)"

definition ex_sync_api :: "(unit, string, string, unit, unit) service_api" where
  "ex_sync_api = ex_api\<lparr>sa_business := ex_business\<lparr>be_svc := ex_svc_env\<lparr>se_unmarshal := (\<lambda>_. Inr ex_twice)\<rparr>\<rparr>\<rparr>"

lemma invalid_document_skipped_witness:
  "syncOne ex_sync_api (Some ''t'') ''flow.json'' (RawJson (VMap [(''name'', VStr ''demo'')])) (ex_svc ex_s3) =
     (Inr syncSkipped, ex_svc ex_s3)"
proof -
  let ?errors = "Validate (se_cel (sa_svc ex_sync_api)) (be_cron (sa_business ex_sync_api)) ex_twice"
  have codes: "map ve_Code (take 1 ?errors) = [ErrDuplicateStepID]" by code_simp
  then obtain v vs where e: "?errors = v # vs" by (cases ?errors) auto
  with codes have v: "ve_Code v = ErrDuplicateStepID" by simp
  have "parseDSL (RawJson (VMap [(''name'', VStr ''demo'')])) ''flow.json'' = Inr ([(''name'', VStr ''demo'')], ''demo'')"
    by code_simp
  moreover have "Parse (se_unmarshal (sa_svc ex_sync_api)) (RawJson (VMap [(''name'', VStr ''demo'')])) = Inr ex_twice"
    by (simp add: Parse_def ex_sync_api_def ex_twice_def example_spec_def Let_def)
  ultimately show ?thesis using invalid_document_skipped [OF _ _ _ e disjI1 [OF v]] by simp
qed

end
