(* ===== verification/Service_Config.thy ===== *)
theory Service_Config
  imports Connect_Messages Go_Time_Correct
begin

text \<open>
  What a process of the default service is and how it wakes others: the role and the progress driver
  of \<open>config/role.go\<close>, the queue overrides of \<open>config/config.go\<close>, and the delayed wakes of
  \<open>scheduling/delayed.go\<close> and \<open>notifier.go\<close>. The queue manager, the token source and the HTTP client
  are parameters, and so is the text \<open>encoding/json\<close> writes; the environment is read before.
\<close>

section \<open>Roles (role.go)\<close>

datatype ServiceRole = RoleAPI | RoleWorker | RoleReconciler | RoleAll
datatype ProgressDriver = ProgressMultiSweep | ProgressExternalOnly

definition role_string :: "ServiceRole \<Rightarrow> string" where
  "role_string r = (case r of RoleAPI \<Rightarrow> ''api'' | RoleWorker \<Rightarrow> ''worker'' | RoleReconciler \<Rightarrow> ''reconciler'' | RoleAll \<Rightarrow> ''all'')"

definition driver_string :: "ProgressDriver \<Rightarrow> string" where
  "driver_string d = (case d of ProgressMultiSweep \<Rightarrow> ''multi_sweep'' | ProgressExternalOnly \<Rightarrow> ''external_only'')"

definition ParseServiceRole :: "string \<Rightarrow> ServiceRole result" where
  "ParseServiceRole raw =
     (let r = ToLower (TrimSpace raw) in
      if r = [] then Inr RoleAll
      else case List.find (\<lambda>role. role_string role = r) [RoleAPI, RoleWorker, RoleReconciler, RoleAll] of
        Some role \<Rightarrow> Inr role
      | None \<Rightarrow> Inl (Errf ''invalid SERVICE_ROLE %q (want api|worker|reconciler|all)'' [EStr raw]))"

definition ParseProgressDriver :: "string \<Rightarrow> ProgressDriver result" where
  "ParseProgressDriver raw =
     (let d = ToLower (TrimSpace raw) in
      if d = [] then Inr ProgressMultiSweep
      else case List.find (\<lambda>driver. driver_string driver = d) [ProgressMultiSweep, ProgressExternalOnly] of
        Some driver \<Rightarrow> Inr driver
      | None \<Rightarrow> Inl (Errf ''invalid PROGRESS_DRIVER %q (want multi_sweep|external_only)'' [EStr raw]))"

definition PublishesEventIngest :: "ServiceRole \<Rightarrow> bool" where
  "PublishesEventIngest r \<longleftrightarrow> r = RoleAPI \<or> r = RoleWorker \<or> r = RoleReconciler \<or> r = RoleAll"

definition PublishesExecDispatch :: "ServiceRole \<Rightarrow> bool" where
  "PublishesExecDispatch r \<longleftrightarrow> r = RoleWorker \<or> r = RoleReconciler \<or> r = RoleAll"

definition SubscribesHotPath :: "ServiceRole \<Rightarrow> bool" where
  "SubscribesHotPath r \<longleftrightarrow> r = RoleWorker \<or> r = RoleAll"

definition ExposesAPI :: "ServiceRole \<Rightarrow> bool \<Rightarrow> bool" where
  "ExposesAPI r workerExposeAPI \<longleftrightarrow> r = RoleAPI \<or> r = RoleAll \<or> (r = RoleWorker \<and> workerExposeAPI)"

record Config =
  cf_ServiceRole :: string
  cf_ServiceRoleReconcileInWorker :: bool
  cf_ProgressDriver :: string
  cf_CloudRunMaxStepSeconds :: int
  cf_DefaultExecutionTimeoutSeconds :: int
  cf_QueueExecWorkerURL :: string
  cf_ExecWorkerMaxAckPending :: int
  cf_QueueEventRouterURL :: string
  cf_EventRouterMaxAckPending :: int

definition defaultTimeoutSeconds :: int where "defaultTimeoutSeconds = 300"

definition ParsedRole :: "Config \<Rightarrow> ServiceRole" where
  "ParsedRole c = (case ParseServiceRole (cf_ServiceRole c) of Inl _ \<Rightarrow> RoleAll | Inr r \<Rightarrow> r)"

definition ParsedProgressDriver :: "Config \<Rightarrow> ProgressDriver" where
  "ParsedProgressDriver c = (case ParseProgressDriver (cf_ProgressDriver c) of Inl _ \<Rightarrow> ProgressMultiSweep | Inr d \<Rightarrow> d)"

definition ReconcileInWorker :: "Config \<Rightarrow> bool" where
  "ReconcileInWorker c = cf_ServiceRoleReconcileInWorker c"

definition SubscribesReconcile :: "Config \<Rightarrow> bool" where
  "SubscribesReconcile c \<longleftrightarrow>
     ParsedRole c = RoleReconciler \<or> ParsedRole c = RoleAll \<or> (ParsedRole c = RoleWorker \<and> ReconcileInWorker c)"

text \<open>The config is changed on the way, also when an error comes later.\<close>

definition at_least_default :: "int \<Rightarrow> int" where
  "at_least_default n = (if n \<le> 0 then defaultTimeoutSeconds else n)"

definition ValidateRoleAndProgress :: "Config \<Rightarrow> unit result \<times> Config" where
  "ValidateRoleAndProgress c = (case ParseServiceRole (cf_ServiceRole c) of
     Inl err \<Rightarrow> (Inl err, c)
   | Inr role \<Rightarrow>
      (let c1 = c\<lparr>cf_ServiceRole := role_string role\<rparr> in
       case ParseProgressDriver (cf_ProgressDriver c1) of
         Inl err \<Rightarrow> (Inl err, c1)
       | Inr parsed \<Rightarrow>
          (let driver = (if role = RoleAPI then ProgressExternalOnly else parsed) in
           if driver = ProgressMultiSweep \<and> role = RoleWorker \<and> \<not> ReconcileInWorker c1
           then (Inl (Errf ''PROGRESS_DRIVER=multi_sweep requires SERVICE_ROLE_RECONCILE_IN_WORKER=true for role worker'' []), c1)
           else (Inr (), c1\<lparr>cf_ProgressDriver := driver_string driver,
             cf_CloudRunMaxStepSeconds := at_least_default (cf_CloudRunMaxStepSeconds c1),
             cf_DefaultExecutionTimeoutSeconds := at_least_default (cf_DefaultExecutionTimeoutSeconds c1)\<rparr>))))"

definition ShouldRunMultiSweep :: "Config \<Rightarrow> bool" where
  "ShouldRunMultiSweep c =
     (if ParsedRole c = RoleAPI then False
      else if \<not> SubscribesReconcile c \<and> ParsedRole c \<noteq> RoleAll then False
      else ParsedProgressDriver c = ProgressMultiSweep)"

section \<open>Queue overrides (config.go)\<close>

definition injectQueryParam :: "string \<Rightarrow> string \<Rightarrow> int \<Rightarrow> string" where
  "injectQueryParam raw key v =
     (if v \<le> 0 then raw
      else case url_Parse raw of
        Inl _ \<Rightarrow> raw
      | Inr u \<Rightarrow> URL_String (u\<lparr>u_RawQuery := Values_Encode (Values_Set key (itoa v) (URL_Query u))\<rparr>))"

definition ApplyQueueOverrides :: "Config \<Rightarrow> Config" where
  "ApplyQueueOverrides c = c\<lparr>
     cf_QueueExecWorkerURL := injectQueryParam (cf_QueueExecWorkerURL c) ''consumer_max_ack_pending'' (cf_ExecWorkerMaxAckPending c),
     cf_QueueEventRouterURL :=
       injectQueryParam (cf_QueueEventRouterURL c) ''consumer_max_ack_pending'' (cf_EventRouterMaxAckPending c)\<rparr>"

section \<open>Delayed wakes (delayed.go)\<close>

text \<open>\<open>base64.StdEncoding.EncodeToString\<close>.\<close>

definition b64_char :: "int \<Rightarrow> char" where
  "b64_char n = (if n < 26 then char_of (65 + n) else if n < 52 then char_of (71 + n) else if n < 62 then char_of (n - 4)
     else if n = 62 then CHR ''+'' else CHR ''/'')"

fun Base64_EncodeToString :: "string \<Rightarrow> string" where
  "Base64_EncodeToString [] = []"
| "Base64_EncodeToString [a] = [b64_char (byte a div 4), b64_char (byte a mod 4 * 16), CHR ''='', CHR ''='']"
| "Base64_EncodeToString [a, b] =
     [b64_char (byte a div 4), b64_char (byte a mod 4 * 16 + byte b div 16), b64_char (byte b mod 16 * 4), CHR ''='']"
| "Base64_EncodeToString (a # b # c # rest) =
     [b64_char (byte a div 4), b64_char (byte a mod 4 * 16 + byte b div 16), b64_char (byte b mod 16 * 4 + byte c div 64),
      b64_char (byte c mod 64)] @ Base64_EncodeToString rest"

lemma Base64_EncodeToString_examples:
  "Base64_EncodeToString ''A'' = ''QQ==''" "Base64_EncodeToString ''Go'' = ''R28=''" "Base64_EncodeToString ''Man~?'' = ''TWFufj8=''"
  by code_simp+

text \<open>\<open>strings.ReplaceAll\<close> of a text that is not empty.\<close>

function ReplaceAll :: "string \<Rightarrow> string \<Rightarrow> string \<Rightarrow> string" where
  "ReplaceAll old new [] = []"
| "ReplaceAll old new (c # s) =
     (if old \<noteq> [] \<and> HasPrefix (c # s) old then new @ ReplaceAll old new (drop (length old - 1) s)
      else c # ReplaceAll old new s)"
  by pat_completeness auto
termination by (relation "measure (\<lambda>(old, new, s). length s)") auto

definition Trim :: "string \<Rightarrow> char \<Rightarrow> string" where
  "Trim s c = TrimRight (dropWhile (\<lambda>x. x = c) s) c"

record cloud_tasks =
  ct_baseURL :: string
  ct_targetURL :: string
  ct_oidcSA :: string
  ct_oidcAud :: string
  ct_maxHorizon :: int

datatype DelayedPublisher = NoopDelayedPublisher | CloudTasksDelayedPublisher cloud_tasks

text \<open>The parts of the path after a keyword; the last one wins.\<close>

definition after_keyword :: "string \<Rightarrow> string list \<Rightarrow> string" where
  "after_keyword keyword parts =
     foldl (\<lambda>found (part, next_part). if part = keyword then next_part else found) [] (zip parts (tl parts))"

definition defaultCloudTasksHorizonDays :: int where "defaultCloudTasksHorizonDays = 30"

definition query_get :: "string \<Rightarrow> URL \<Rightarrow> string" where
  "query_get key u = (case map_of (URL_Query u) key of Some (v # _) \<Rightarrow> v | _ \<Rightarrow> [])"

definition NewCloudTasksDelayedPublisherFromTemplate ::
    "string \<Rightarrow> bool \<Rightarrow> unit result \<Rightarrow> int \<Rightarrow> DelayedPublisher result" where
  "NewCloudTasksDelayedPublisherFromTemplate template0 has_client tokenSource maxHorizonHours =
     (let template = TrimSpace template0 in
      if template = [] then Inr NoopDelayedPublisher
      else case url_Parse template of
        Inl err \<Rightarrow> Inl (wrap ''parse cloudtasks template'' err)
      | Inr u \<Rightarrow>
         (if ToLower (u_Scheme u) \<noteq> ''cloudtasks'' then
            Inl (Errf ''cloudtasks template: unsupported scheme %q'' [EStr (u_Scheme u)])
          else
            (let path0 = Trim (u_Path u) (CHR ''/'');
                 path = (if u_Host u \<noteq> [] \<and> path0 = []
                         then Trim (u_Host u @ ''/'' @ Trim (u_Opaque u) (CHR ''/'')) (CHR ''/'') else path0);
                 parts = split_on (CHR ''/'') path;
                 project = after_keyword ''projects'' parts; location = after_keyword ''locations'' parts;
                 queue = after_keyword ''queues'' parts; target = query_get ''url'' u in
             if project = [] \<or> location = [] \<or> queue = [] then
               Inl (Errf ''cloudtasks template: need projects/locations/queues in path'' [])
             else if target = [] then Inl (Errf ''cloudtasks template: missing url query param'' [])
             else if \<not> has_client then Inl (Errf ''cloudtasks delayed publisher: http client is required'' [])
             else case tokenSource of
               Inl err \<Rightarrow> Inl (wrap ''cloudtasks token source'' err)
             | Inr _ \<Rightarrow>
                (let horizon = int64 (maxHorizonHours * (3600 * second)) in
                 Inr (CloudTasksDelayedPublisher
                   \<lparr>ct_baseURL = ''https://cloudtasks.googleapis.com/v2/projects/'' @ project @ ''/locations/'' @ location @
                      ''/queues/'' @ queue @ ''/tasks'',
                    ct_targetURL = target, ct_oidcSA = query_get ''oidc_sa'' u, ct_oidcAud = query_get ''oidc_audience'' u,
                    ct_maxHorizon = (if horizon \<le> 0 then defaultCloudTasksHorizonDays * 24 * (3600 * second) else horizon)\<rparr>)))))"

record task_request =
  tr_URL :: string
  tr_Authorization :: string
  tr_Body :: any

definition task_target :: "cloud_tasks \<Rightarrow> string \<Rightarrow> string" where
  "task_target p ref =
     (let target = ReplaceAll ''{ref}'' ref (ct_targetURL p) in
      if \<not> contains (ct_targetURL p) ''{ref}'' \<and> \<not> HasSuffix target ref
      then TrimRight target (CHR ''/'') @ ''/'' @ ref else target)"

definition oidc_member :: "cloud_tasks \<Rightarrow> go_map" where
  "oidc_member p =
     (if ct_oidcSA p = [] then []
      else [(''oidcToken'', VMap ([(''serviceAccountEmail'', VStr (ct_oidcSA p))] @
        (if ct_oidcAud p \<noteq> [] then [(''audience'', VStr (ct_oidcAud p))] else [])))])"

definition task_body :: "(any \<Rightarrow> string) \<Rightarrow> cloud_tasks \<Rightarrow> string \<Rightarrow> int \<Rightarrow> any \<Rightarrow> any" where
  "task_body json_text p ref at_time payload = VMap [(''task'', VMap
     [(''scheduleTime'', VStr (format_RFC3339 at_time)),
      (''httpRequest'', VMap ([(''httpMethod'', VStr ''POST''), (''url'', VStr (task_target p ref)),
        (''headers'', VMap [(''Content-Type'', VStr ''application/json'')]),
        (''body'', VStr (Base64_EncodeToString (json_text payload)))] @ oidc_member p))])]"

text \<open>The request to the task service, if there is one, and the result.\<close>

definition PublishAt ::
    "(any \<Rightarrow> string) \<Rightarrow> string result \<Rightarrow> (task_request \<Rightarrow> int result) \<Rightarrow> int \<Rightarrow> DelayedPublisher \<Rightarrow> string \<Rightarrow> int \<Rightarrow> any
      \<Rightarrow> unit result \<times> task_request option" where
  "PublishAt json_text token send now publisher ref at_time payload = (case publisher of
     NoopDelayedPublisher \<Rightarrow> (Inr (), None)
   | CloudTasksDelayedPublisher p \<Rightarrow>
      (if now + ct_maxHorizon p < at_time then (Inr (), None)
       else case token of
         Inl err \<Rightarrow> (Inl (wrap ''delayed publish token'' err), None)
       | Inr tok \<Rightarrow> (case url_Parse (ct_baseURL p) of
         Inl err \<Rightarrow> (Inl (wrap ''delayed publish request'' err), None)
       | Inr _ \<Rightarrow>
          (let req = \<lparr>tr_URL = ct_baseURL p, tr_Authorization = ''Bearer '' @ tok,
                      tr_Body = task_body json_text p ref (max now at_time) payload\<rparr> in
           (case send req of
              Inl err \<Rightarrow> Inl (wrap ''delayed publish do'' err)
            | Inr status \<Rightarrow>
                (if status < 200 \<or> status \<ge> 300 then Inl (Errf ''delayed publish: unexpected status %d'' [EInt status]) else Inr ()),
            Some req)))))"

section \<open>Notifying (notifier.go)\<close>

record WorkNotifier =
  wn_publish :: "(string \<Rightarrow> any \<Rightarrow> unit result) option"
  wn_dispatchName :: string
  wn_timeoutName :: string
  wn_delayed :: DelayedPublisher

definition wake_json :: "string \<Rightarrow> string \<Rightarrow> int \<Rightarrow> any" where
  "wake_json kind executionID due = VMap ([(''kind'', VStr kind)] @
     optional_member ''execution_id'' (if executionID = [] then None else Some (VStr executionID)) @ [(''due_at'', json_time due)])"

definition NotifyPending :: "WorkNotifier option \<Rightarrow> string \<Rightarrow> unit result" where
  "NotifyPending n executionID = (case n of
     None \<Rightarrow> Inr ()
   | Some w \<Rightarrow> (case wn_publish w of
       None \<Rightarrow> Inr ()
     | Some publish \<Rightarrow> publish (wn_dispatchName w) (wake_json ''dispatch'' executionID zero_time)))"

definition NotifyExecutionTimeout ::
    "(any \<Rightarrow> string) \<Rightarrow> string result \<Rightarrow> (task_request \<Rightarrow> int result) \<Rightarrow> int \<Rightarrow> WorkNotifier option \<Rightarrow> string \<Rightarrow> int
      \<Rightarrow> unit result \<times> task_request option" where
  "NotifyExecutionTimeout json_text token send now n executionID at_time = (case n of
     None \<Rightarrow> (Inr (), None)
   | Some w \<Rightarrow> PublishAt json_text token send now (wn_delayed w) (wn_timeoutName w) at_time (wake_json ''timeout'' executionID at_time))"

end
