(* ===== verification/Crypto_Util.thy ===== *)
theory Crypto_Util
  imports Go_Sha256 Sql_Store
begin

text \<open>
  \<open>pkg/cryptoutil/encrypt.go\<close>: sealing and opening with AES-256-GCM and random tokens. The cipher is a
  parameter, and so is what the random source gives. The random token of the model is that of
  \<open>ee_token\<close>; its hash is \<open>HashToken\<close>.
\<close>

record aead_lib =
  al_NewGCM :: "string \<Rightarrow> unit result"
  al_NonceSize :: nat
  al_Seal :: "string \<Rightarrow> string \<Rightarrow> string \<Rightarrow> string"
  al_Open :: "string \<Rightarrow> string \<Rightarrow> string \<Rightarrow> string result"

definition Encrypt :: "aead_lib \<Rightarrow> (nat \<Rightarrow> string result) \<Rightarrow> string \<Rightarrow> string \<Rightarrow> string result" where
  "Encrypt lib random key plaintext =
     and_then (labelled ''create cipher'' (al_NewGCM lib key)) (\<lambda>_.
     and_then (labelled ''generate nonce'' (random (al_NonceSize lib))) (\<lambda>nonce.
       Inr (nonce @ al_Seal lib key nonce plaintext)))"

definition Decrypt :: "aead_lib \<Rightarrow> string \<Rightarrow> string \<Rightarrow> string result" where
  "Decrypt lib key ciphertext =
     and_then (labelled ''create cipher'' (al_NewGCM lib key)) (\<lambda>_.
       if length ciphertext < al_NonceSize lib then Inl (Errf ''ciphertext too short'' [])
       else labelled ''decrypt''
         (al_Open lib key (take (al_NonceSize lib) ciphertext) (drop (al_NonceSize lib) ciphertext)))"

definition tokenLength :: nat where "tokenLength = 64"

definition GenerateToken :: "(nat \<Rightarrow> string result) \<Rightarrow> string result" where
  "GenerateToken random = and_then (labelled ''generate token'' (random tokenLength)) (\<lambda>token. Inr (EncodeToString (map of_char token)))"

section \<open>Opening what was sealed\<close>

text \<open>What the cipher promises: it opens what it sealed under the same key and nonce.\<close>

definition opens_sealed :: "aead_lib \<Rightarrow> bool" where
  "opens_sealed lib \<longleftrightarrow> (\<forall>key nonce text. al_Open lib key nonce (al_Seal lib key nonce text) = Inr text)"

text \<open>Decrypting what was encrypted under the same key gives the text again, whatever nonce was drawn, provided that the
  random source gives as many bytes as it is asked for.\<close>
theorem decrypt_encrypt:
  assumes "opens_sealed lib" and "\<And>n bytes. random n = Inr bytes \<Longrightarrow> length bytes = n" and "Encrypt lib random key text0 = Inr ciphertext"
  shows "Decrypt lib key ciphertext = Inr text0"
proof -
  from assms(3) obtain nonce where n: "al_NewGCM lib key = Inr ()" "random (al_NonceSize lib) = Inr nonce"
      "ciphertext = nonce @ al_Seal lib key nonce text0"
    by (auto simp: Encrypt_def res_simps)
  with assms(2) have "length nonce = al_NonceSize lib" by blast
  with n assms(1) show ?thesis by (simp add: Decrypt_def opens_sealed_def labelled_def)
qed

lemma decrypt_encrypt_witness:
  "Decrypt \<lparr>al_NewGCM = (\<lambda>_. Inr ()), al_NonceSize = 2, al_Seal = (\<lambda>k n t. rev t @ n), al_Open = (\<lambda>k n c. Inr (rev (take (length c - length n) c)))\<rparr>
     ''key'' ''xxcbaxx'' = Inr ''abc''"
  by (rule decrypt_encrypt [where random = "\<lambda>n. Inr (replicate n CHR ''x'')"])
    (auto simp: opens_sealed_def Encrypt_def labelled_def numeral_2_eq_2)

end
