(* ===== verification/Spec2Isabelle.thy ===== *)
theory Spec2Isabelle
  imports Dsl_Validator_Correct Duration_Text Queue_Correct Lease_Correct Branch_Correct State_Engine_Correct Work_Control Execution_Worker
    Outbox_Correct Connector_Correct Queue_Api_Correct Form_Correct
    List_Pages_Correct Connect_Correct Ingress_Correct
    Workflow_Sync Service_Config_Correct Crypto_Util
begin

text \<open>
  \<^bold>\<open>Trustage, verified.\<close> This library models the services of this repository and proves what makes
  them correct. Every definition follows one piece of the Go sources and keeps its name; the
  theories read in the order of the imports.

  \<^bold>\<open>The program.\<close> \<open>service-trustage\<close> runs durable workflows. A workflow is a JSON document (\<open>src/dsl\<close>)
  that is validated and stored as a version (\<open>business/workflow.go\<close>). An event enters through a
  handler or a schedule and is stored in an outbox (\<open>repository/event_log.go\<close>), published by a
  sweep (\<open>schedulers/outbox.go\<close>), and routed to the trigger bindings and signal routes it matches
  (\<open>business/event_router.go\<close>). For each match the state engine (\<open>business/engine.go\<close>,
  \<open>engine_signal.go\<close>, \<open>engine_scope.go\<close>) creates an instance and its first execution. Sweeps dispatch
  pending executions to a queue; a worker (\<open>queues/execution_worker.go\<close>) runs the step, calling an
  adapter (\<open>src/connector\<close>) where the step says so, and commits the outcome; the commit advances the
  instance by one transaction of \<open>repository/workflow_runtime.go\<close>. Timers, signal waits and branch
  scopes are rows that other sweeps lease and finish. Two smaller services stand beside it: a queue
  of people and counters (\<open>apps/queue\<close>) and a store of forms (\<open>apps/formstore\<close>).

  \<^bold>\<open>How it is modelled.\<close>
  \<^item> \<open>Trustage_Prelude\<close>: Go values (\<open>any\<close>), errors as data (\<open>errmsg\<close>), results as sums, 64-bit
    arithmetic, byte strings. A time is its count of nanoseconds.
  \<^item> \<open>Sql_Store\<close>: a table is the list of its rows; the SQL statements of the repositories are functions
    on it, and the predicate \<open>F\<close> says which statements fail, so every error branch is a branch of the
    model. A transaction is a function whose error keeps the old state, which is the rollback. The
    locale \<open>row_store\<close> is the interface of a table, interpreted by \<open>list_rows\<close>.
  \<^item> \<open>Status_Machine\<close>: the \<open>TransitionTo\<close> methods as a locale over a table of allowed moves.
  \<^item> \<open>Go_Time\<close>, \<open>Go_Time_Parse\<close>, \<open>Go_Sha256\<close>, \<open>Net_Url\<close>: what the sources use of the standard library.
  \<^item> \<open>Service_Ops\<close>: an operation of the business layer as a function of the service state that gives a
    result and the state it leaves on every path, with its weakest-precondition rules.

  \<^bold>\<open>The parts.\<close>
  \<^item> Documents: \<open>Dsl_Types\<close> (\<open>dsl/types.go\<close>, \<open>parser.go\<close>), \<open>Dsl_Duration\<close>, \<open>Dsl_Expression\<close> (CEL, a parameter),
    \<open>Dsl_Template\<close>, \<open>Dsl_Schedule\<close>, \<open>Dsl_Navigation\<close>, \<open>Dsl_Validator\<close>. Shown: validation accepts exactly
    the well-formed documents, dependency cycles are found, navigation refines the order of the
    document and every walk ends, templates resolve exactly when their paths do.
  \<^item> Engine: \<open>Engine_Models\<close> (rows and statuses), \<open>Runtime_Repository\<close>, \<open>Execution_Repository\<close>,
    \<open>Lease_Repository\<close>, then \<open>Engine_Vars\<close>, \<open>State_Engine\<close>, \<open>Branch_Scope\<close>. \<open>Engine_Core\<close>, \<open>Runtime_Effects\<close>,
    \<open>Engine_Steps\<close> and \<open>Engine_Races\<close> turn the transactions into one inductive step relation with its
    invariant; \<open>Service_Steps\<close> shows that each operation of the engine, failures included, is a run of
    such steps. Shown: one open execution per instance, in its current state; outputs stored once; a
    token used once; exactly when a commit succeeds and what it writes; signals in order and once;
    leases; retry delays; foreach limits.
  \<^item> Around the engine: \<open>Platform_Models\<close>, \<open>Platform_Repository\<close>, \<open>Event_Repository\<close>, \<open>Schema_Registry\<close>,
    \<open>Workflow_Business\<close>, \<open>Event_Router\<close>, \<open>Schedulers\<close>, \<open>Outbox_Cron\<close>, \<open>Execution_Worker\<close>, \<open>Work_Control\<close>,
    \<open>Bounded_Cache\<close>. Shown: at most one live version of a workflow whatever is requested and wherever
    it fails, what a schedule sweep fires, and that the outbox drains.
  \<^item> Connectors: \<open>Connector\<close>, \<open>Connector_Http\<close>, \<open>Connector_Adapters\<close>, \<open>Connector_Registry\<close>. Shown: guarded
    calls reach public or trusted hosts only, the registry has every adapter its fixtures name.
  \<^item> Queue service: \<open>Queue_Models\<close>, \<open>Queue_Repository\<close>, \<open>Queue_Manager\<close>, \<open>Http_Api\<close>, \<open>Queue_Handlers\<close>. Shown:
    service is exclusive, the next item is the head of the queue, and HTTP traffic refines the manager.
  \<^item> Form store: \<open>Form_Store\<close>, \<open>Form_Handlers\<close>. Shown: submissions are idempotent, files are uploaded
    once, requests keep the keys unique.

  The theories named \<open>..._Correct\<close> hold the properties and the concrete runs that witness their
  hypotheses. Properties are numbered \<open>C1\<close>, \<open>C2\<close>, ... in the text before them.
\<close>

end
